(* ===== verification/Prelude.thy ===== *)
theory Prelude
  imports Main "HOL-Library.List_Lexorder" "HOL-Library.Char_ord" "HOL-Library.Product_Lexorder" "HOL-Library.Code_Target_Nat"
begin

text \<open>
  Shared vocabulary of the development: results of fallible Python code as sums, the Python
  built-ins the components use (\<open>min\<close> with a key, stable sorting, dictionaries keyed by a field of
  their values, decimal formatting), and the generic lemmas about them.  Strings are UTF-8 byte
  lists, so the lexicographic order on them is Python's code point order.
\<close>

named_theorems result_simps \<open>unfolding of the result combinators\<close>
named_theorems result_elims \<open>inversion of a successful result\<close>

section \<open>Results\<close>

text \<open>A computation that may raise is a sum: \<open>Inl\<close> carries the exception, \<open>Inr\<close> the value.\<close>

definition ebind :: "'e + 'a \<Rightarrow> ('a \<Rightarrow> 'e + 'b) \<Rightarrow> 'e + 'b" where
  "ebind m f = (case m of Inl e \<Rightarrow> Inl e | Inr x \<Rightarrow> f x)"

definition require :: "bool \<Rightarrow> 'e \<Rightarrow> 'e + unit" where
  "require b e = (if b then Inr () else Inl e)"

fun emapM :: "('a \<Rightarrow> 'e + 'b) \<Rightarrow> 'a list \<Rightarrow> 'e + 'b list" where
  "emapM f [] = Inr []"
| "emapM f (x # xs) = ebind (f x) (\<lambda>y. ebind (emapM f xs) (\<lambda>ys. Inr (y # ys)))"

lemma ebind_simps [simp, result_simps]:
  "ebind (Inl e) f = Inl e"
  "ebind (Inr x) f = f x"
  by (simp_all add: ebind_def)

lemma ebind_Inr_iff [result_simps]:
  "ebind m f = Inr y \<longleftrightarrow> (\<exists>x. m = Inr x \<and> f x = Inr y)"
  by (cases m) simp_all

lemma require_Inr_iff [simp, result_simps]: "require b e = Inr u \<longleftrightarrow> b"
  by (simp add: require_def)

lemma require_True [simp, result_simps]: "require True e = Inr ()"
  by (simp add: require_def)

lemma require_False [simp, result_simps]: "require False e = Inl e"
  by (simp add: require_def)

lemma ebindE [elim!, result_elims]:
  assumes "ebind m f = Inr y"
  obtains x where "m = Inr x" and "f x = Inr y"
  using assms by (auto simp: ebind_Inr_iff)

lemma emapM_Inr_map:
  "emapM f xs = Inr ys \<Longrightarrow> list_all2 (\<lambda>x y. f x = Inr y) xs ys"
  by (induction xs arbitrary: ys) auto

lemma emapM_member: "emapM f xs = Inr ys \<Longrightarrow> y \<in> set ys \<Longrightarrow> \<exists>x \<in> set xs. f x = Inr y"
  by (induction xs arbitrary: ys) auto

lemma pred_option_code [code]: "pred_option P None \<longleftrightarrow> True" "pred_option P (Some x) \<longleftrightarrow> P x"
  by simp_all

lemma emapM_total:
  "(\<And>x. x \<in> set xs \<Longrightarrow> \<exists>y. f x = Inr y) \<Longrightarrow> \<exists>ys. emapM f xs = Inr ys"
  by (induction xs) (fastforce)+

section \<open>Python built-ins\<close>

text \<open>\<open>min(xs, key=f)\<close>: the first element whose key is minimal; it raises on an empty list.\<close>

fun min_by :: "('a \<Rightarrow> 'k::linorder) \<Rightarrow> 'a \<Rightarrow> 'a list \<Rightarrow> 'a" where
  "min_by f b [] = b"
| "min_by f b (x # xs) = min_by f (if f x < f b then x else b) xs"

lemma min_by_in: "min_by f b xs \<in> insert b (set xs)"
proof (induction xs arbitrary: b)
  case Nil
  then show ?case by simp
next
  case (Cons x xs)
  from Cons.IH [of "if f x < f b then x else b"] show ?case by (auto split: if_splits)
qed

lemma min_by_le: "x \<in> insert b (set xs) \<Longrightarrow> f (min_by f b xs) \<le> f x"
proof (induction xs arbitrary: b x)
  case Nil
  then show ?case by simp
next
  case (Cons y ys)
  let ?c = "if f y < f b then y else b"
  have c: "f (min_by f ?c ys) \<le> f ?c" using Cons.IH by blast
  have ys: "z \<in> set ys \<Longrightarrow> f (min_by f ?c ys) \<le> f z" for z using Cons.IH by blast
  have "f ?c \<le> f y" and "f ?c \<le> f b" by auto
  with c ys Cons.prems show ?case by auto
qed

text \<open>
  \<open>sorted(xs, key=..)\<close> for a comparison that is given as a strict "less than" test: stable insertion
  sort.  It is Python's result whenever the comparison orders the elements.
\<close>

fun insort_by :: "('a \<Rightarrow> 'a \<Rightarrow> bool) \<Rightarrow> 'a \<Rightarrow> 'a list \<Rightarrow> 'a list" where
  "insort_by lt x [] = [x]"
| "insort_by lt x (y # ys) = (if lt y x then y # insort_by lt x ys else x # y # ys)"

definition sort_by :: "('a \<Rightarrow> 'a \<Rightarrow> bool) \<Rightarrow> 'a list \<Rightarrow> 'a list" where
  "sort_by lt xs = foldr (insort_by lt) xs []"

lemma set_insort_by [simp]: "set (insort_by lt x xs) = insert x (set xs)"
  by (induction xs) auto

lemma set_sort_by [simp]: "set (sort_by lt xs) = set xs"
  unfolding sort_by_def by (induction xs) auto

lemma length_insort_by [simp]: "length (insort_by lt x xs) = Suc (length xs)"
  by (induction xs) auto

lemma length_sort_by [simp]: "length (sort_by lt xs) = length xs"
  unfolding sort_by_def by (induction xs) auto

lemma distinct_map_insort_by [simp]:
  "distinct (map f (insort_by lt x xs)) \<longleftrightarrow> f x \<notin> f ` set xs \<and> distinct (map f xs)"
  by (induction xs) auto

lemma distinct_map_sort_by [simp]: "distinct (map f (sort_by lt xs)) \<longleftrightarrow> distinct (map f xs)"
  unfolding sort_by_def by (induction xs) (auto simp: sort_by_def [symmetric])

text \<open>
  A Python dictionary \<open>{key(x): x for x in xs}\<close> as the list of its values in insertion order: a
  repeated key keeps its position and takes the new value.
\<close>

fun keyed_put :: "('a \<Rightarrow> 'k) \<Rightarrow> 'a \<Rightarrow> 'a list \<Rightarrow> 'a list" where
  "keyed_put key x [] = [x]"
| "keyed_put key x (y # ys) = (if key y = key x then x # ys else y # keyed_put key x ys)"

definition dict_by :: "('a \<Rightarrow> 'k) \<Rightarrow> 'a list \<Rightarrow> 'a list" where
  "dict_by key xs = foldl (\<lambda>d x. keyed_put key x d) [] xs"

definition dict_get :: "('a \<Rightarrow> 'k) \<Rightarrow> 'a list \<Rightarrow> 'k \<Rightarrow> 'a option" where
  "dict_get key d k = find (\<lambda>x. key x = k) d"

definition dict_pop :: "('a \<Rightarrow> 'k) \<Rightarrow> 'k \<Rightarrow> 'a list \<Rightarrow> 'a list" where
  "dict_pop key k d = filter (\<lambda>x. key x \<noteq> k) d"

lemma keyed_put_fresh: "key x \<notin> key ` set d \<Longrightarrow> keyed_put key x d = d @ [x]"
  by (induction d) auto

lemma dict_by_distinct_aux:
  "distinct (map key (d @ xs)) \<Longrightarrow> foldl (\<lambda>d x. keyed_put key x d) d xs = d @ xs"
proof (induction xs arbitrary: d)
  case Nil
  then show ?case by simp
next
  case (Cons x xs)
  then have "keyed_put key x d = d @ [x]" by (auto intro!: keyed_put_fresh)
  with Cons show ?case by simp
qed

lemma dict_by_distinct [simp]: "distinct (map key xs) \<Longrightarrow> dict_by key xs = xs"
  using dict_by_distinct_aux [of key "[]" xs] by (simp add: dict_by_def)

lemma set_keyed_put: "set (keyed_put key x d) \<subseteq> insert x (set d)"
  by (induction d) auto

lemma set_dict_by: "set (dict_by key xs) \<subseteq> set xs"
proof -
  have "set (foldl (\<lambda>d x. keyed_put key x d) d ys) \<subseteq> set d \<union> set ys" for d ys
  proof (induction ys arbitrary: d)
    case (Cons y ys)
    have "set (foldl (\<lambda>d x. keyed_put key x d) d (y # ys)) \<subseteq> set (keyed_put key y d) \<union> set ys"
      using Cons.IH [of "keyed_put key y d"] by simp
    with set_keyed_put [of key y d] show ?case by auto
  qed simp
  from this [of "[]" xs] show ?thesis by (simp add: dict_by_def)
qed

lemma dict_get_Some: "dict_get key d k = Some x \<Longrightarrow> x \<in> set d \<and> key x = k"
  by (auto simp: dict_get_def find_Some_iff)

lemma dict_get_None: "dict_get key d k = None \<longleftrightarrow> k \<notin> key ` set d"
  by (auto simp: dict_get_def find_None_iff)

lemma dict_get_distinct:
  "distinct (map key d) \<Longrightarrow> x \<in> set d \<Longrightarrow> dict_get key d (key x) = Some x"
  unfolding dict_get_def by (induction d) auto

lemma set_dict_pop [simp]: "set (dict_pop key k d) = {x \<in> set d. key x \<noteq> k}"
  by (auto simp: dict_pop_def)

lemma length_dict_pop: "x \<in> set d \<Longrightarrow> length (dict_pop key (key x) d) < length d"
  unfolding dict_pop_def by (rule length_filter_less [of x]) auto

lemma set_keyed_put_distinct:
  "distinct (map key d) \<Longrightarrow> set (keyed_put key x d) = insert x {y \<in> set d. key y \<noteq> key x}"
  by (induction d) (auto simp: image_iff)

lemma distinct_keyed_put: "distinct (map key d) \<Longrightarrow> distinct (map key (keyed_put key x d))"
proof (induction d)
  case (Cons y d)
  then show ?case using set_keyed_put [of key x d] by auto
qed simp

lemma dict_get_keyed_put: "dict_get key (keyed_put key x d) (key x) = Some x"
  unfolding dict_get_def by (induction d) auto

lemma dict_get_keyed_put_other: "key x \<noteq> k \<Longrightarrow> dict_get key (keyed_put key x d) k = dict_get key d k"
  unfolding dict_get_def by (induction d) auto

lemma dict_get_pop: "dict_get key (dict_pop key i d) k = (if k = i then None else dict_get key d k)"
  unfolding dict_get_def dict_pop_def by (induction d) auto

lemma distinct_dict_pop: "distinct (map key d) \<Longrightarrow> distinct (map key (dict_pop key i d))"
  by (simp add: dict_pop_def distinct_map_filter)

lemma distinct_map_sort_key: "distinct (map f (sort_key g xs)) = distinct (map f xs)"
  by (simp add: distinct_map)

lemma dict_get_sorted:
  assumes "distinct (map key es)"
  shows "dict_get key (sort_key g es) i = dict_get key es i"
proof (cases "dict_get key es i")
  case None
  then show ?thesis by (metis dict_get_None set_sort)
next
  case (Some e)
  then have "e \<in> set (sort_key g es)" "key e = i" using dict_get_Some [OF Some] by auto
  with dict_get_distinct [of key "sort_key g es" e] assms Some show ?thesis by (simp add: distinct_map_sort_key)
qed

text \<open>A sorted dictionary is determined by what it holds.\<close>

lemma sorted_dict_eq:
  assumes "distinct (map key a)" and "distinct (map key b)" and "\<And>i. dict_get key a i = dict_get key b i"
  shows "sort_key key a = sort_key key b"
proof -
  have sub: "set u \<subseteq> set v" if "distinct (map key u)" "\<And>i. dict_get key u i = dict_get key v i" for u v
  proof
    fix x assume "x \<in> set u"
    from dict_get_distinct [OF that(1) this] that(2) have "dict_get key v (key x) = Some x" by simp
    from dict_get_Some [OF this] show "x \<in> set v" by simp
  qed
  have "set a = set b" using sub [OF assms(1,3)] sub [OF assms(2) assms(3) [symmetric]] by (rule subset_antisym)
  moreover have "inj_on key (set a)" "distinct a" "distinct b" using assms(1,2) by (simp_all add: distinct_map)
  ultimately show ?thesis
    by (intro map_sorted_distinct_set_unique [where f = key]) (auto simp: distinct_map)
qed

lemma find_append: "find P (xs @ ys) = (case find P xs of None \<Rightarrow> find P ys | Some x \<Rightarrow> Some x)"
  by (induction xs) auto

text \<open>\<open>value or default\<close> on an optional string: \<open>None\<close> and the empty string are both falsy.\<close>

definition py_or :: "string option \<Rightarrow> string \<Rightarrow> string" where
  "py_or v d = (case v of None \<Rightarrow> d | Some s \<Rightarrow> if s = [] then d else s)"

section \<open>Decimal formatting\<close>

definition digit_char :: "nat \<Rightarrow> char" where
  "digit_char d = char_of (48 + d)"

fun dec :: "nat \<Rightarrow> string" where
  "dec n = (if n < 10 then [digit_char n] else dec (n div 10) @ [digit_char (n mod 10)])"

declare dec.simps [simp del]

definition str_int :: "int \<Rightarrow> string" where
  "str_int i = (if i < 0 then ''-'' @ dec (nat (- i)) else dec (nat i))"

definition pad :: "nat \<Rightarrow> nat \<Rightarrow> string" where
  "pad w n = (let s = dec n in replicate (w - length s) (CHR ''0'') @ s)"

fun join :: "string \<Rightarrow> string list \<Rightarrow> string" where
  "join sep [] = []"
| "join sep [x] = x"
| "join sep (x # xs) = x @ sep @ join sep xs"

lemma dec_nonempty [simp]: "dec n \<noteq> []"
  by (subst dec.simps) simp

end
