(* ===== verification/Datetime.thy ===== *)
theory Datetime
  imports Prelude
begin

text \<open>
  The part of Python's \<open>datetime\<close> and \<open>zoneinfo\<close> the service uses.  An aware value is its clock
  reading, its UTC offset and the identity of its \<open>tzinfo\<close> object, because Python compares two values
  with the same \<open>tzinfo\<close> object by clock reading and all others by instant.  All quantities are
  microseconds; the clock reading counts from 1970-01-01T00:00.  The time zone database is data
  outside the repository: a \<open>zoneinfo\<close> value is a parameter of the definitions that use it.
\<close>

datatype tzinfo = NoTz | Utc | FixedOffset nat | Zone string

record datetime =
  wall :: int
  offset :: "int option"
  tz :: tzinfo
  fold_sensitive :: bool

record zoneinfo =
  zone_key :: string
  utc_to_offset :: "int \<Rightarrow> int"
  fold_matters :: "int \<Rightarrow> bool"

type_synonym instant = int

definition minute :: int where "minute = 60000000"
definition second :: int where "second = 1000000"
definition day_us :: int where "day_us = 86400000000"

text \<open>\<open>value.tzinfo is None or value.utcoffset() is None\<close>\<close>

definition is_naive :: "datetime \<Rightarrow> bool" where
  "is_naive d \<longleftrightarrow> tz d = NoTz \<or> offset d = None"

text \<open>
  \<open>value.astimezone(UTC)\<close>, represented by the instant it denotes: two such values share the \<open>tzinfo\<close>
  object \<open>UTC\<close>, so Python compares and subtracts them as the integers below.
\<close>

definition utc :: "datetime \<Rightarrow> instant" where
  "utc d = wall d - (case offset d of None \<Rightarrow> 0 | Some off \<Rightarrow> off)"

text \<open>\<open>value.astimezone(zone)\<close> for a value that denotes the instant \<open>t\<close>.\<close>

definition in_zone :: "zoneinfo \<Rightarrow> instant \<Rightarrow> datetime" where
  "in_zone z t = (let off = utc_to_offset z t in
     \<lparr>wall = t + off, offset = Some off, tz = Zone (zone_key z),
      fold_sensitive = fold_matters z (t + off)\<rparr>)"

definition utc_datetime :: "instant \<Rightarrow> datetime" where
  "utc_datetime t = \<lparr>wall = t, offset = Some 0, tz = Utc, fold_sensitive = False\<rparr>"

text \<open>
  Rich comparison: same \<open>tzinfo\<close> object, by clock reading; otherwise by instant, where two
  values are never equal if the offset of one of them depends on its \<open>fold\<close> (PEP 495).
\<close>

definition dt_eq :: "datetime \<Rightarrow> datetime \<Rightarrow> bool" where
  "dt_eq a b = (if tz a = tz b then wall a = wall b
     else utc a = utc b \<and> \<not> fold_sensitive a \<and> \<not> fold_sensitive b)"

definition dt_lt :: "datetime \<Rightarrow> datetime \<Rightarrow> bool" where
  "dt_lt a b = (if tz a = tz b then wall a < wall b else utc a < utc b)"

definition dt_le :: "datetime \<Rightarrow> datetime \<Rightarrow> bool" where
  "dt_le a b = (if tz a = tz b then wall a \<le> wall b else utc a \<le> utc b)"

text \<open>\<open>==\<close> of any two values: a naive one never equals an aware one.\<close>

definition stamp_eq :: "datetime \<Rightarrow> datetime \<Rightarrow> bool" where
  "stamp_eq a b \<longleftrightarrow> (is_naive a \<longleftrightarrow> is_naive b) \<and> dt_eq a b"

lemma stamp_eq_refl [simp]: "stamp_eq a a"
  by (simp add: stamp_eq_def dt_eq_def)

lemma minute_pos [simp]: "0 < minute" and minute_nonzero [simp]: "minute \<noteq> 0"
  by (simp_all add: minute_def)

lemma utc_in_zone [simp]: "utc (in_zone z t) = t"
  by (simp add: utc_def in_zone_def Let_def)

lemma utc_utc_datetime [simp]: "utc (utc_datetime t) = t"
  by (simp add: utc_def utc_datetime_def)

lemma dt_le_utc [simp]: "dt_le (utc_datetime s) (utc_datetime t) \<longleftrightarrow> s \<le> t"
  by (simp add: dt_le_def utc_datetime_def)

lemma dt_lt_utc [simp]: "dt_lt (utc_datetime s) (utc_datetime t) \<longleftrightarrow> s < t"
  by (simp add: dt_lt_def utc_datetime_def)

lemma utc_datetime_aware [simp]: "\<not> is_naive (utc_datetime t)"
  by (simp add: is_naive_def utc_datetime_def)

lemma in_zone_aware [simp]: "\<not> is_naive (in_zone z t)"
  by (simp add: is_naive_def in_zone_def Let_def)

lemma dt_eq_refl: "dt_eq a a"
  by (simp add: dt_eq_def)

lemma dt_eq_commute: "dt_eq a b \<longleftrightarrow> dt_eq b a"
  by (auto simp: dt_eq_def)

lemma dt_eq_in_zone:
  "dt_eq (in_zone z s) (in_zone z t) \<longleftrightarrow> s + utc_to_offset z s = t + utc_to_offset z t"
  by (simp add: dt_eq_def in_zone_def Let_def)

text \<open>\<open>value + timedelta\<close> moves the clock reading and keeps the \<open>tzinfo\<close>.\<close>

definition dt_add :: "datetime \<Rightarrow> int \<Rightarrow> datetime" where
  "dt_add d delta = d\<lparr>wall := wall d + delta\<rparr>"

lemma dt_add_utc [simp]: "dt_add (utc_datetime t) delta = utc_datetime (t + delta)"
  by (simp add: dt_add_def utc_datetime_def)

section \<open>ISO 8601 formatting\<close>

text \<open>
  \<open>isoformat\<close>: the date from the proleptic Gregorian ordinal, the microseconds only when they are
  not zero, and the offset of an aware value.
\<close>

definition days_before_year :: "int \<Rightarrow> int" where
  "days_before_year y = (let p = y - 1 in p * 365 + p div 4 - p div 100 + p div 400)"

definition is_leap :: "int \<Rightarrow> bool" where
  "is_leap y \<longleftrightarrow> y mod 4 = 0 \<and> (y mod 100 \<noteq> 0 \<or> y mod 400 = 0)"

definition month_lengths :: "int \<Rightarrow> int list" where
  "month_lengths y = [31, if is_leap y then 29 else 28, 31, 30, 31, 30, 31, 31, 30, 31, 30, 31]"

fun find_month :: "int \<Rightarrow> int list \<Rightarrow> int \<Rightarrow> int \<times> int" where
  "find_month m [] d = (m, d + 1)"
| "find_month m (l # ls) d = (if d < l \<or> ls = [] then (m, d + 1) else find_month (m + 1) ls (d - l))"

text \<open>The year of the ordinal \<open>n\<close> (1 January of year 1 is day 1), by cycles of 400, 100, 4 and 1 years.\<close>

definition ord2ymd :: "int \<Rightarrow> int \<times> int \<times> int" where
  "ord2ymd n = (let n0 = n - 1;
      n400 = n0 div 146097; r400 = n0 mod 146097;
      n100 = r400 div 36524; r100 = r400 mod 36524;
      n4 = r100 div 1461; r4 = r100 mod 1461;
      n1 = r4 div 365; r1 = r4 mod 365;
      y = n400 * 400 + n100 * 100 + n4 * 4 + n1 + 1
    in if n1 = 4 \<or> n100 = 4 then (y - 1, 12, 31)
       else let (m, d) = find_month 1 (month_lengths y) r1 in (y, m, d))"

definition epoch_ordinal :: int where "epoch_ordinal = 719163"

definition iso_date :: "int \<Rightarrow> string" where
  "iso_date n = (let (y, m, d) = ord2ymd n in pad 4 (nat y) @ ''-'' @ pad 2 (nat m) @ ''-'' @ pad 2 (nat d))"

definition iso_time :: "int \<Rightarrow> string" where
  "iso_time us = (let s = us div second; f = us mod second in
     pad 2 (nat (s div 3600)) @ '':'' @ pad 2 (nat (s div 60 mod 60)) @ '':'' @ pad 2 (nat (s mod 60))
     @ (if f = 0 then [] else ''.'' @ pad 6 (nat f)))"

definition iso_offset :: "int \<Rightarrow> string" where
  "iso_offset off = (let a = \<bar>off\<bar>; s = a div second; f = a mod second in
     (if off < 0 then ''-'' else ''+'')
     @ pad 2 (nat (s div 3600)) @ '':'' @ pad 2 (nat (s div 60 mod 60))
     @ (if s mod 60 = 0 \<and> f = 0 then [] else '':'' @ pad 2 (nat (s mod 60))
        @ (if f = 0 then [] else ''.'' @ pad 6 (nat f))))"

definition isoformat :: "datetime \<Rightarrow> string" where
  "isoformat d = iso_date (wall d div day_us + epoch_ordinal) @ ''T'' @ iso_time (wall d mod day_us)
     @ (case offset d of None \<Rightarrow> [] | Some off \<Rightarrow> iso_offset off)"

text \<open>\<open>value.date()\<close> as the ordinal of the day.\<close>

definition date_of :: "datetime \<Rightarrow> int" where
  "date_of d = wall d div day_us + epoch_ordinal"

end
