(* ===== verification/Planner_Models.thy ===== *)
theory Planner_Models
  imports Datetime
begin

text \<open>
  \<open>planner_models.py\<close>: the validated inputs of the day and week planner.  Every pydantic model is a
  record; its field constraints and its \<open>model_validator\<close> are a validation function that returns
  the first error the code raises.
\<close>

datatype activity_flexibility = FIXED | FLEXIBLE | PROTECTED

datatype planner_error =
    FieldConstraint string
  | ValueError string
  | StalePlannerStateError int int
  | StopIteration

record schedule_resolution =
  internal_plan_resolution :: string
  calendar_projection_resolution :: string

definition default_schedule_resolution :: schedule_resolution where
  "default_schedule_resolution =
     \<lparr>internal_plan_resolution = ''minute-level'', calendar_projection_resolution = ''human-readable-blocks''\<rparr>"

record energy_window =
  ew_starts_at :: datetime
  ew_ends_at :: datetime
  ew_level :: int

record plan_activity =
  activity_id :: string
  title :: string
  flexibility :: activity_flexibility
  duration_minutes :: int
  fixed_start :: "datetime option"
  fixed_end :: "datetime option"
  earliest_start :: "datetime option"
  latest_end :: "datetime option"
  deadline :: "datetime option"
  recover_missed_deadline :: bool
  dependencies :: "string list"
  travel_minutes_before :: int
  travel_minutes_after :: int
  energy_required :: int
  goal_weight :: int
  importance :: int
  display_group :: "string option"
  display_title :: "string option"
  guidance :: "string list"
  calendar_eligible :: bool
  personal_micro_event :: bool

record existing_plan_block =
  xb_block_id :: string
  xb_activity_id :: string
  xb_title :: string
  xb_starts_at :: datetime
  xb_ends_at :: datetime

record day_plan_request =
  plan_date :: int
  timezone :: string
  window_start :: datetime
  window_end :: datetime
  state_revision :: int
  expected_state_revision :: int
  activities :: "plan_activity list"
  energy_windows :: "energy_window list"
  baseline_blocks :: "existing_plan_block list"
  resolution :: schedule_resolution

section \<open>Validation\<close>

definition validate_minute :: "datetime \<Rightarrow> string \<Rightarrow> planner_error + unit" where
  "validate_minute v field_name =
     (if is_naive v then Inl (ValueError (field_name @ '' must be timezone-aware''))
      else if wall v mod minute \<noteq> 0 then Inl (ValueError (field_name @ '' must use minute resolution''))
      else Inr ())"

definition validate_energy_window :: "energy_window \<Rightarrow> planner_error + unit" where
  "validate_energy_window w =
     ebind (require (1 \<le> ew_level w \<and> ew_level w \<le> 5) (FieldConstraint ''level'')) (\<lambda>_.
     ebind (validate_minute (ew_starts_at w) ''starts_at'') (\<lambda>_.
     ebind (validate_minute (ew_ends_at w) ''ends_at'') (\<lambda>_.
     if utc (ew_ends_at w) \<le> utc (ew_starts_at w)
     then Inl (ValueError ''energy window must end after it starts'') else Inr ())))"

definition validate_existing_block :: "existing_plan_block \<Rightarrow> planner_error + unit" where
  "validate_existing_block b =
     ebind (require (xb_block_id b \<noteq> []) (FieldConstraint ''block_id'')) (\<lambda>_.
     ebind (require (xb_activity_id b \<noteq> []) (FieldConstraint ''activity_id'')) (\<lambda>_.
     ebind (require (xb_title b \<noteq> []) (FieldConstraint ''title'')) (\<lambda>_.
     ebind (validate_minute (xb_starts_at b) ''starts_at'') (\<lambda>_.
     ebind (validate_minute (xb_ends_at b) ''ends_at'') (\<lambda>_.
     if utc (xb_ends_at b) \<le> utc (xb_starts_at b)
     then Inl (ValueError ''baseline block must end after it starts'') else Inr ())))))"

definition in_range :: "int \<Rightarrow> int \<Rightarrow> int \<Rightarrow> bool" where
  "in_range lo hi x \<longleftrightarrow> lo \<le> x \<and> x \<le> hi"

text \<open>The declared field constraints of \<open>PlanActivity\<close>, which pydantic checks before the validator.\<close>

definition activity_fields :: "plan_activity \<Rightarrow> planner_error + unit" where
  "activity_fields a =
     ebind (require (activity_id a \<noteq> []) (FieldConstraint ''activity_id'')) (\<lambda>_.
     ebind (require (title a \<noteq> []) (FieldConstraint ''title'')) (\<lambda>_.
     ebind (require (in_range 1 1440 (duration_minutes a)) (FieldConstraint ''duration_minutes'')) (\<lambda>_.
     ebind (require ([] \<notin> set (dependencies a)) (FieldConstraint ''dependencies'')) (\<lambda>_.
     ebind (require (in_range 0 1440 (travel_minutes_before a)) (FieldConstraint ''travel_minutes_before'')) (\<lambda>_.
     ebind (require (in_range 0 1440 (travel_minutes_after a)) (FieldConstraint ''travel_minutes_after'')) (\<lambda>_.
     ebind (require (in_range 1 5 (energy_required a)) (FieldConstraint ''energy_required'')) (\<lambda>_.
     ebind (require (in_range 0 10 (goal_weight a)) (FieldConstraint ''goal_weight'')) (\<lambda>_.
     ebind (require (in_range 0 10 (importance a)) (FieldConstraint ''importance'')) (\<lambda>_.
     ebind (require (display_group a \<noteq> Some []) (FieldConstraint ''display_group'')) (\<lambda>_.
     ebind (require (display_title a \<noteq> Some []) (FieldConstraint ''display_title'')) (\<lambda>_.
     require ([] \<notin> set (guidance a)) (FieldConstraint ''guidance''))))))))))))"

definition validate_activity_placement :: "plan_activity \<Rightarrow> planner_error + unit" where
  "validate_activity_placement a =
     (case flexibility a of
        FLEXIBLE \<Rightarrow>
          if fixed_start a \<noteq> None \<or> fixed_end a \<noteq> None
          then Inl (ValueError ''flexible activities cannot define a fixed interval'') else Inr ()
      | _ \<Rightarrow>
          (case (fixed_start a, fixed_end a) of
             (Some s, Some e) \<Rightarrow>
               if (utc e - utc s) div minute \<noteq> duration_minutes a
               then Inl (ValueError ''duration_minutes must match the fixed interval'') else Inr ()
           | _ \<Rightarrow> Inl (ValueError ''fixed and protected activities require fixed_start and fixed_end'')))"

fun validate_optional_minutes :: "(string \<times> datetime option) list \<Rightarrow> planner_error + unit" where
  "validate_optional_minutes [] = Inr ()"
| "validate_optional_minutes ((name, None) # rest) = validate_optional_minutes rest"
| "validate_optional_minutes ((name, Some v) # rest) =
     ebind (validate_minute v name) (\<lambda>_. validate_optional_minutes rest)"

definition validate_constraints :: "plan_activity \<Rightarrow> planner_error + unit" where
  "validate_constraints a =
     ebind (validate_optional_minutes
       [(''fixed_start'', fixed_start a), (''fixed_end'', fixed_end a),
        (''earliest_start'', earliest_start a), (''latest_end'', latest_end a),
        (''deadline'', deadline a)]) (\<lambda>_.
     ebind (validate_activity_placement a) (\<lambda>_.
     if recover_missed_deadline a \<and> deadline a = None
     then Inl (ValueError ''deadline recovery requires an explicit deadline'')
     else if (case (latest_end a, earliest_start a) of
                (Some l, Some e) \<Rightarrow> utc l \<le> utc e | _ \<Rightarrow> False)
     then Inl (ValueError ''latest_end must follow earliest_start'')
     else if activity_id a \<in> set (dependencies a)
     then Inl (ValueError ''an activity cannot depend on itself'')
     else Inr ()))"

definition validate_activity :: "plan_activity \<Rightarrow> planner_error + unit" where
  "validate_activity a = ebind (activity_fields a) (\<lambda>_. validate_constraints a)"

definition activity_timestamps :: "plan_activity \<Rightarrow> datetime list" where
  "activity_timestamps a = List.map_filter id
     [fixed_start a, fixed_end a, earliest_start a, latest_end a, deadline a]"

definition request_timestamps :: "day_plan_request \<Rightarrow> datetime list" where
  "request_timestamps r =
     [window_start r, window_end r] @ map ew_starts_at (energy_windows r)
     @ map ew_ends_at (energy_windows r) @ concat (map activity_timestamps (activities r))"

definition validate_timestamp :: "zoneinfo \<Rightarrow> string \<Rightarrow> datetime \<Rightarrow> planner_error + unit" where
  "validate_timestamp zone zone_name v =
     ebind (validate_minute v ''planner timestamp'') (\<lambda>_.
       let local = in_zone zone (utc v) in
       if wall local \<noteq> wall v then Inl (ValueError (''nonexistent local time: '' @ isoformat v))
       else if offset local \<noteq> offset v
       then Inl (ValueError (''timestamp offset does not match '' @ zone_name @ '': '' @ isoformat v))
       else Inr ())"

text \<open>
  \<open>DayPlanRequest\<close>: field constraints, then the nested models, then \<open>validate_snapshot\<close>.  The
  parameter \<open>zones\<close> is the time zone database, \<open>None\<close> for an unknown key.
\<close>

definition validate_snapshot :: "(string \<Rightarrow> zoneinfo option) \<Rightarrow> day_plan_request \<Rightarrow> planner_error + unit" where
  "validate_snapshot zones r =
     (case zones (timezone r) of
        None \<Rightarrow> Inl (ValueError (''unknown timezone: '' @ timezone r))
      | Some zone \<Rightarrow>
          ebind (emapM (validate_timestamp zone (timezone r)) (request_timestamps r)) (\<lambda>_.
          if utc (window_end r) \<le> utc (window_start r)
          then Inl (ValueError ''planning window must end after it starts'')
          else if date_of (in_zone zone (utc (window_start r))) \<noteq> plan_date r
          then Inl (ValueError ''window_start must fall on plan_date'')
          else if \<not> distinct (map activity_id (activities r))
          then Inl (ValueError ''duplicate activity_id'')
          else if \<not> distinct (map xb_block_id (baseline_blocks r))
          then Inl (ValueError ''duplicate baseline block_id'')
          else Inr ()))"

definition validate_request :: "(string \<Rightarrow> zoneinfo option) \<Rightarrow> day_plan_request \<Rightarrow> planner_error + unit" where
  "validate_request zones r =
     ebind (require (timezone r \<noteq> []) (FieldConstraint ''timezone'')) (\<lambda>_.
     ebind (require (1 \<le> state_revision r) (FieldConstraint ''state_revision'')) (\<lambda>_.
     ebind (require (1 \<le> expected_state_revision r) (FieldConstraint ''expected_state_revision'')) (\<lambda>_.
     ebind (emapM validate_activity (activities r)) (\<lambda>_.
     ebind (emapM validate_energy_window (energy_windows r)) (\<lambda>_.
     ebind (emapM validate_existing_block (baseline_blocks r)) (\<lambda>_.
     ebind (require (resolution r = default_schedule_resolution) (FieldConstraint ''schedule_resolution'')) (\<lambda>_.
     validate_snapshot zones r)))))))"

text \<open>\<open>WeekPlanRequest.validate_week\<close>, after the inherited validation.\<close>

definition validate_week :: "(string \<Rightarrow> zoneinfo option) \<Rightarrow> day_plan_request \<Rightarrow> planner_error + unit" where
  "validate_week zones r =
     ebind (validate_request zones r) (\<lambda>_.
       if utc (window_end r) - utc (window_start r) \<noteq> 7 * day_us
       then Inl (ValueError ''week planning requires exactly 10,080 elapsed minutes'') else Inr ())"

section \<open>What a validated request satisfies\<close>

definition well_formed_activity :: "plan_activity \<Rightarrow> bool" where
  "well_formed_activity a \<longleftrightarrow>
     1 \<le> duration_minutes a \<and> duration_minutes a \<le> 1440
     \<and> 0 \<le> travel_minutes_before a \<and> travel_minutes_before a \<le> 1440
     \<and> 0 \<le> travel_minutes_after a \<and> travel_minutes_after a \<le> 1440
     \<and> 0 \<le> goal_weight a \<and> goal_weight a \<le> 10 \<and> 0 \<le> importance a \<and> importance a \<le> 10
     \<and> activity_id a \<notin> set (dependencies a)
     \<and> (flexibility a \<noteq> FLEXIBLE \<longrightarrow> (\<exists>s e. fixed_start a = Some s \<and> fixed_end a = Some e
            \<and> (utc e - utc s) div minute = duration_minutes a))
     \<and> (flexibility a = FLEXIBLE \<longrightarrow> fixed_start a = None \<and> fixed_end a = None)"

definition well_formed_request :: "day_plan_request \<Rightarrow> bool" where
  "well_formed_request r \<longleftrightarrow>
     distinct (map activity_id (activities r)) \<and> (\<forall>a \<in> set (activities r). well_formed_activity a)
     \<and> distinct (map xb_block_id (baseline_blocks r)) \<and> utc (window_start r) < utc (window_end r)"

lemma emapM_InrD: "emapM f xs = Inr ys \<Longrightarrow> x \<in> set xs \<Longrightarrow> \<exists>y. f x = Inr y"
  by (induction xs arbitrary: ys) auto

lemma activity_fields_Inr:
  "activity_fields a = Inr u \<Longrightarrow>
     1 \<le> duration_minutes a \<and> duration_minutes a \<le> 1440
     \<and> 0 \<le> travel_minutes_before a \<and> travel_minutes_before a \<le> 1440
     \<and> 0 \<le> travel_minutes_after a \<and> travel_minutes_after a \<le> 1440
     \<and> 0 \<le> goal_weight a \<and> goal_weight a \<le> 10 \<and> 0 \<le> importance a \<and> importance a \<le> 10"
  by (simp add: activity_fields_def in_range_def ebind_Inr_iff)

lemma validate_activity_placement_Inr:
  "validate_activity_placement a = Inr u \<Longrightarrow>
     (if flexibility a = FLEXIBLE then fixed_start a = None \<and> fixed_end a = None
      else \<exists>s e. fixed_start a = Some s \<and> fixed_end a = Some e
            \<and> (utc e - utc s) div minute = duration_minutes a)"
  unfolding validate_activity_placement_def
  by (cases "flexibility a"; cases "fixed_start a"; cases "fixed_end a") (simp_all split: if_splits)

lemma validate_constraints_Inr:
  "validate_constraints a = Inr u \<Longrightarrow>
     validate_activity_placement a = Inr () \<and> activity_id a \<notin> set (dependencies a)"
  unfolding validate_constraints_def
  by (elim ebindE) (simp del: validate_optional_minutes.simps split: if_split_asm)

lemma validate_activity_well_formed:
  assumes "validate_activity a = Inr u"
  shows "well_formed_activity a"
proof -
  from assms obtain v where f: "activity_fields a = Inr v" and c: "validate_constraints a = Inr u"
    by (auto simp: validate_activity_def ebind_Inr_iff)
  have p: "validate_activity_placement a = Inr ()" and d: "activity_id a \<notin> set (dependencies a)"
    using validate_constraints_Inr [OF c] by simp_all
  show ?thesis
    using activity_fields_Inr [OF f] d validate_activity_placement_Inr [OF p]
    unfolding well_formed_activity_def by (simp split: if_splits)
qed

lemma validate_snapshot_facts:
  assumes "validate_snapshot zones r = Inr u"
  shows "distinct (map activity_id (activities r))" and "distinct (map xb_block_id (baseline_blocks r))"
    and "utc (window_start r) < utc (window_end r)" and "\<exists>z. zones (timezone r) = Some z"
  using assms unfolding validate_snapshot_def by (auto split: if_splits option.splits)

lemma validate_request_well_formed:
  assumes "validate_request zones r = Inr u"
  shows "well_formed_request r" and "\<exists>z. zones (timezone r) = Some z"
proof -
  from assms have snap: "\<exists>v. validate_snapshot zones r = Inr v"
    and acts: "\<exists>ys. emapM validate_activity (activities r) = Inr ys"
    unfolding validate_request_def by auto
  from acts have "\<forall>a \<in> set (activities r). well_formed_activity a"
    by (auto dest!: emapM_InrD dest: validate_activity_well_formed)
  with snap show "well_formed_request r"
    unfolding well_formed_request_def by (auto dest: validate_snapshot_facts)
  from snap show "\<exists>z. zones (timezone r) = Some z" by (auto dest: validate_snapshot_facts(4))
qed

end
