(* ===== verification/Planner_Results.thy ===== *)
theory Planner_Results
  imports Planner_Models
begin

text \<open>
  \<open>planner_results.py\<close>: the records of a proposed day, and \<open>planner_scoring.py\<close>: the score of an
  activity at a candidate start, component by component.
\<close>

datatype plan_status = FEASIBLE | PARTIAL | INFEASIBLE

datatype plan_block_kind = Kind_FIXED | Kind_FLEXIBLE | Kind_PROTECTED | Kind_TRAVEL | Kind_AVAILABLE

datatype explanation_code = Code_FIXED | Code_PROTECTED | Code_SCHEDULED | Code_OVERDUE | Code_INFEASIBLE

datatype unscheduled_reason = FIXED_CONFLICT | MISSING_DEPENDENCY | DEPENDENCY_UNSCHEDULED | NO_CAPACITY

record score_breakdown =
  s_deadline :: int
  s_dependency :: int
  s_travel :: int
  s_energy :: int
  s_goal :: int
  s_importance :: int
  s_total :: int

record plan_block =
  pb_block_id :: string
  pb_activity_id :: "string option"
  pb_title :: string
  pb_kind :: plan_block_kind
  pb_starts_at :: datetime
  pb_ends_at :: datetime
  pb_display_group :: "string option"
  pb_display_title :: "string option"
  pb_guidance :: "string list"
  pb_deadline :: "datetime option"
  pb_explanation_code :: "explanation_code option"
  pb_calendar_eligible :: bool
  pb_personal_micro_event :: bool

definition pb_duration_minutes :: "plan_block \<Rightarrow> int" where
  "pb_duration_minutes b = (utc (pb_ends_at b) - utc (pb_starts_at b)) div minute"

record calendar_block =
  cb_block_id :: string
  cb_display_group :: string
  cb_title :: string
  cb_starts_at :: datetime
  cb_ends_at :: datetime
  cb_source_activity_ids :: "string list"
  cb_segment_titles :: "string list"
  cb_transitions :: "string list"
  cb_deadlines :: "datetime list"
  cb_guidance :: "string list"
  cb_explanation_codes :: "explanation_code list"

record task_explanation =
  te_activity_id :: string
  te_code :: explanation_code
  te_summary :: string
  te_score :: score_breakdown
  te_scheduled_block_ids :: "string list"
  te_constraints :: "string list"

record unscheduled_activity =
  ua_activity_id :: string
  ua_reason :: unscheduled_reason
  ua_detail :: string
  ua_blocking_activity_ids :: "string list"

record block_change =
  bc_block_id :: string
  bc_activity_id :: string
  bc_title :: string
  bc_starts_at :: datetime
  bc_ends_at :: datetime

record moved_block =
  mb_block_id :: string
  mb_activity_id :: string
  mb_title :: string
  mb_previous_starts_at :: datetime
  mb_previous_ends_at :: datetime
  mb_proposed_starts_at :: datetime
  mb_proposed_ends_at :: datetime

record plan_diff =
  added :: "block_change list"
  removed :: "block_change list"
  moved :: "moved_block list"

record proposed_day =
  pd_schema_version :: string
  pd_input_fingerprint :: string
  pd_state_revision :: int
  pd_timezone :: string
  pd_status :: plan_status
  pd_schedule_resolution :: schedule_resolution
  pd_internal_plan :: "plan_block list"
  pd_calendar_projection :: "calendar_block list"
  pd_explanations :: "task_explanation list"
  pd_unscheduled :: "unscheduled_activity list"
  pd_diff :: plan_diff

section \<open>Scoring\<close>

definition deadline_score :: "plan_activity \<Rightarrow> day_plan_request \<Rightarrow> int" where
  "deadline_score a r =
     (case deadline a of
        None \<Rightarrow> 0
      | Some dl \<Rightarrow>
          let deadline_delta = (utc dl - utc (window_start r)) div minute in
          if deadline_delta < 0 then 10000 + min (- deadline_delta) (30 * 24 * 60)
          else if utc dl \<le> utc (window_end r) then 5000 - deadline_delta
          else max 0 (1000 - deadline_delta div 60))"

definition energy_score :: "plan_activity \<Rightarrow> day_plan_request \<Rightarrow> instant \<Rightarrow> int" where
  "energy_score a r starts_at =
     (let activity_end = starts_at + duration_minutes a * minute;
          matching_levels = map ew_level (filter (\<lambda>w.
            utc (ew_starts_at w) \<le> starts_at \<and> activity_end \<le> utc (ew_ends_at w)) (energy_windows r))
      in case matching_levels of
           [] \<Rightarrow> 0
         | l # ls \<Rightarrow>
             let best_level = min_by (\<lambda>level. \<bar>level - energy_required a\<bar>) l ls
             in max 0 (300 - 100 * \<bar>best_level - energy_required a\<bar>))"

definition score_activity :: "plan_activity \<Rightarrow> day_plan_request \<Rightarrow> datetime \<Rightarrow> int \<Rightarrow> score_breakdown" where
  "score_activity a r starts_at dependent_count =
     (let dl = deadline_score a r;
          dp = dependent_count * 400;
          tr = -5 * (travel_minutes_before a + travel_minutes_after a);
          en = energy_score a r (utc starts_at);
          gl = goal_weight a * 100;
          im = importance a * 100
      in \<lparr>s_deadline = dl, s_dependency = dp, s_travel = tr, s_energy = en, s_goal = gl,
          s_importance = im, s_total = dl + dp + tr + en + gl + im\<rparr>)"

text \<open>The score of a candidate depends on the start only through the instant it denotes.\<close>

lemma score_activity_instant:
  "utc s = utc t \<Longrightarrow> score_activity a r s n = score_activity a r t n"
  by (simp add: score_activity_def)

lemma energy_score_bounds: "0 \<le> energy_score a r s" "energy_score a r s \<le> 300"
  by (auto simp: energy_score_def Let_def split: list.split)

end
