(* ===== verification/Planner_Placement.thy ===== *)
theory Planner_Placement
  imports Planner_Results
begin

text \<open>
  \<open>planner_placement.py\<close>: reservations of fixed and protected activities, the minute search for a
  flexible activity, and the greedy loop that places all of them.  The parameter \<open>zone\<close> is the value
  of \<open>ZoneInfo(request.timezone)\<close>.
\<close>

record placement =
  pl_activity :: plan_activity
  pl_starts_at :: datetime
  pl_ends_at :: datetime
  pl_score :: score_breakdown

definition reservation_start :: "placement \<Rightarrow> instant" where
  "reservation_start p = utc (pl_starts_at p) - travel_minutes_before (pl_activity p) * minute"

definition reservation_end :: "placement \<Rightarrow> instant" where
  "reservation_end p = utc (pl_ends_at p) + travel_minutes_after (pl_activity p) * minute"

abbreviation pl_id :: "placement \<Rightarrow> string" where
  "pl_id p \<equiv> activity_id (pl_activity p)"

text \<open>\<open>dependent_counts\<close>: the dictionary is read only at the identifiers of the request.\<close>

definition dependent_counts :: "day_plan_request \<Rightarrow> string \<Rightarrow> int" where
  "dependent_counts r i =
     int (length (filter (\<lambda>candidate. i \<in> set (dependencies candidate)) (activities r)))"

definition overlaps :: "placement \<Rightarrow> placement \<Rightarrow> bool" where
  "overlaps left right \<longleftrightarrow>
     reservation_start left < reservation_end right \<and> reservation_start right < reservation_end left"

definition hard_deadline :: "plan_activity \<Rightarrow> day_plan_request \<Rightarrow> instant option" where
  "hard_deadline a r =
     (case deadline a of
        None \<Rightarrow> None
      | Some d \<Rightarrow> if recover_missed_deadline a \<and> utc d < utc (window_start r) then None else Some (utc d))"

definition satisfies_time_bounds :: "placement \<Rightarrow> day_plan_request \<Rightarrow> bool" where
  "satisfies_time_bounds p r \<longleftrightarrow>
     (let a = pl_activity p; starts_at = utc (pl_starts_at p); ends_at = utc (pl_ends_at p) in
      (case earliest_start a of None \<Rightarrow> True | Some e \<Rightarrow> utc e \<le> starts_at)
      \<and> (case latest_end a of None \<Rightarrow> True | Some l \<Rightarrow> ends_at \<le> utc l)
      \<and> (case hard_deadline a r of None \<Rightarrow> True | Some d \<Rightarrow> ends_at \<le> d))"

section \<open>Fixed and protected activities\<close>

definition fixed_start_of :: "day_plan_request \<Rightarrow> plan_activity \<Rightarrow> datetime" where
  "fixed_start_of r a = (case fixed_start a of Some s \<Rightarrow> s | None \<Rightarrow> window_start r)"

text \<open>Python compares the sort keys \<open>(fixed_start, activity_id)\<close> at the first component that differs.\<close>

definition fixed_key_lt :: "day_plan_request \<Rightarrow> plan_activity \<Rightarrow> plan_activity \<Rightarrow> bool" where
  "fixed_key_lt r a b =
     (if dt_eq (fixed_start_of r a) (fixed_start_of r b) then activity_id a < activity_id b
      else dt_lt (fixed_start_of r a) (fixed_start_of r b))"

definition fixed_placement :: "day_plan_request \<Rightarrow> (string \<Rightarrow> int) \<Rightarrow> plan_activity \<Rightarrow> placement" where
  "fixed_placement r counts a =
     (let starts_at = fixed_start_of r a;
          ends_at = (case fixed_end a of Some e \<Rightarrow> e | None \<Rightarrow> starts_at)
      in \<lparr>pl_activity = a, pl_starts_at = starts_at, pl_ends_at = ends_at,
          pl_score = score_activity a r starts_at (counts (activity_id a))\<rparr>)"

definition outside_window :: "placement \<Rightarrow> day_plan_request \<Rightarrow> bool" where
  "outside_window p r \<longleftrightarrow>
     reservation_start p < utc (window_start r) \<or> utc (window_end r) < reservation_end p"

fun place_fixed_loop ::
  "day_plan_request \<Rightarrow> (string \<Rightarrow> int) \<Rightarrow> plan_activity list \<Rightarrow> placement list \<Rightarrow> string set
   \<Rightarrow> placement list \<times> string set" where
  "place_fixed_loop r counts [] placements conflicts = (placements, conflicts)"
| "place_fixed_loop r counts (a # as) placements conflicts =
     (let p = fixed_placement r counts a;
          c1 = (if outside_window p r then insert (activity_id a) conflicts else conflicts);
          c2 = (if \<not> satisfies_time_bounds p r then insert (activity_id a) c1 else c1);
          c3 = foldl (\<lambda>c existing. if overlaps p existing
                        then insert (activity_id a) (insert (pl_id existing) c) else c) c2 placements
      in place_fixed_loop r counts as (placements @ [p]) c3)"

definition place_fixed ::
  "day_plan_request \<Rightarrow> (string \<Rightarrow> int) \<Rightarrow> string set + placement list" where
  "place_fixed r counts =
     (let fixed = sort_by (fixed_key_lt r) (filter (\<lambda>a. flexibility a \<noteq> FLEXIBLE) (activities r));
          (placements, conflicts) = place_fixed_loop r counts fixed [] {}
      in if conflicts = {} then Inr placements else Inl conflicts)"

section \<open>The minute search\<close>

definition max_option :: "int \<Rightarrow> int option \<Rightarrow> int" where
  "max_option x m = (case m of None \<Rightarrow> x | Some y \<Rightarrow> max x y)"

definition min_option :: "int \<Rightarrow> int option \<Rightarrow> int" where
  "min_option x m = (case m of None \<Rightarrow> x | Some y \<Rightarrow> min x y)"

definition placement_bounds ::
  "plan_activity \<Rightarrow> day_plan_request \<Rightarrow> placement list \<Rightarrow> (instant \<times> instant) option" where
  "placement_bounds a r placements =
     (let lower0 = utc (window_start r) + travel_minutes_before a * minute;
          lower1 = max_option lower0 (map_option utc (earliest_start a));
          predecessors = filter (\<lambda>item. pl_id item \<in> set (dependencies a)) placements
      in if card (pl_id ` set predecessors) \<noteq> card (set (dependencies a)) then None
         else let
          lower = foldl (\<lambda>l p. max l (utc (pl_ends_at p))) lower1 predecessors;
          dur = duration_minutes a * minute;
          upper0 = utc (window_end r) - (duration_minutes a + travel_minutes_after a) * minute;
          upper1 = min_option upper0 (map_option (\<lambda>l. utc l - dur) (latest_end a));
          upper2 = min_option upper1 (map_option (\<lambda>d. d - dur) (hard_deadline a r));
          upper = foldl (\<lambda>u successor. if activity_id a \<in> set (dependencies (pl_activity successor))
                    then min u (utc (pl_starts_at successor) - dur) else u) upper2 placements
         in Some (lower, upper))"

definition candidate_at ::
  "zoneinfo \<Rightarrow> plan_activity \<Rightarrow> day_plan_request \<Rightarrow> (string \<Rightarrow> int) \<Rightarrow> instant \<Rightarrow> placement" where
  "candidate_at zone a r counts starts_at =
     \<lparr>pl_activity = a, pl_starts_at = in_zone zone starts_at,
      pl_ends_at = in_zone zone (starts_at + duration_minutes a * minute),
      pl_score = score_activity a r (in_zone zone starts_at) (counts (activity_id a))\<rparr>"

text \<open>The body of the \<open>while\<close> loop: keep the candidate when it is free and strictly better.\<close>

definition best_step ::
  "zoneinfo \<Rightarrow> plan_activity \<Rightarrow> day_plan_request \<Rightarrow> placement list \<Rightarrow> (string \<Rightarrow> int)
   \<Rightarrow> instant \<Rightarrow> placement option \<Rightarrow> placement option" where
  "best_step zone a r placements counts starts_at best =
     (let candidate = candidate_at zone a r counts starts_at in
      if (\<forall>existing \<in> set placements. \<not> overlaps candidate existing)
         \<and> (case best of None \<Rightarrow> True | Some b \<Rightarrow> s_total (pl_score b) < s_total (pl_score candidate))
      then Some candidate else best)"

function best_loop ::
  "zoneinfo \<Rightarrow> plan_activity \<Rightarrow> day_plan_request \<Rightarrow> placement list \<Rightarrow> (string \<Rightarrow> int)
   \<Rightarrow> instant \<Rightarrow> instant \<Rightarrow> placement option \<Rightarrow> placement option" where
  "best_loop zone a r placements counts starts_at upper best =
     (if starts_at \<le> upper
      then best_loop zone a r placements counts (starts_at + minute) upper
             (best_step zone a r placements counts starts_at best)
      else best)"
  by pat_completeness auto
termination
  by (relation "measure (\<lambda>(zone, a, r, placements, counts, starts_at, upper, best). nat (upper + 1 - starts_at))")
    (auto simp: minute_def)

declare best_loop.simps [simp del]

definition best_placement ::
  "zoneinfo \<Rightarrow> plan_activity \<Rightarrow> day_plan_request \<Rightarrow> placement list \<Rightarrow> (string \<Rightarrow> int) \<Rightarrow> placement option" where
  "best_placement zone a r placements counts =
     (case placement_bounds a r placements of
        None \<Rightarrow> None
      | Some (lower, upper) \<Rightarrow> best_loop zone a r placements counts lower upper None)"

section \<open>What the minute search finds\<close>

text \<open>The starts the loop visits: every whole minute from the lower to the upper bound.\<close>

definition minute_grid :: "instant \<Rightarrow> instant \<Rightarrow> instant list" where
  "minute_grid s u = map (\<lambda>k. s + int k * minute) [0..<nat ((u - s) div minute + 1)]"

lemma minute_grid_empty: "u < s \<Longrightarrow> minute_grid s u = []"
proof -
  assume "u < s"
  then have "(u - s) div minute < 0" by (simp add: div_neg_pos_less0)
  then show ?thesis by (simp add: minute_grid_def)
qed

lemma minute_grid_step: "s \<le> u \<Longrightarrow> minute_grid s u = s # minute_grid (s + minute) u"
proof -
  assume "s \<le> u"
  then have n: "0 \<le> (u - s) div minute" by (simp add: pos_imp_zdiv_nonneg_iff)
  have "(u - (s + minute)) div minute = (u - s) div minute - 1"
    using div_mult_self1 [of minute "u - s" "-1"] by (simp add: algebra_simps minute_def)
  with n have eq: "nat ((u - s) div minute + 1) = Suc (nat ((u - (s + minute)) div minute + 1))"
    by (simp add: nat_add_distrib)
  show ?thesis
    unfolding minute_grid_def eq upt_conv_Cons [OF zero_less_Suc]
    by (simp add: map_Suc_upt [symmetric] algebra_simps del: upt_Suc)
qed

lemma best_loop_fold:
  "best_loop zone a r placements counts s u best =
   fold (best_step zone a r placements counts) (minute_grid s u) best"
proof (induction zone a r placements counts s u best rule: best_loop.induct)
  case (1 zone a r placements counts s u best)
  then show ?case
    by (cases "s \<le> u") (simp_all add: best_loop.simps [of _ _ _ _ _ s] minute_grid_step minute_grid_empty)
qed

lemma set_minute_grid: "t \<in> set (minute_grid s u) \<longleftrightarrow> s \<le> t \<and> t \<le> u \<and> (t - s) mod minute = 0"
proof
  assume "t \<in> set (minute_grid s u)"
  then obtain k where t: "t = s + int k * minute" and "k \<in> {0..<nat ((u - s) div minute + 1)}"
    unfolding minute_grid_def set_map set_upt by blast
  then have k: "int k \<le> (u - s) div minute" by (simp add: zless_nat_eq_int_zless)
  from k have "int k * minute \<le> (u - s) div minute * minute" by (simp add: minute_def)
  also have "\<dots> \<le> u - s" using pos_mod_sign [of minute "u - s"]
    by (simp add: minus_mod_eq_div_mult [symmetric])
  finally show "s \<le> t \<and> t \<le> u \<and> (t - s) mod minute = 0" using t by (simp add: minute_def)
next
  assume t: "s \<le> t \<and> t \<le> u \<and> (t - s) mod minute = 0"
  then have "t = s + int (nat ((t - s) div minute)) * minute"
    by (simp add: pos_imp_zdiv_nonneg_iff minus_mod_eq_div_mult [symmetric])
  moreover have "nat ((t - s) div minute) < nat ((u - s) div minute + 1)"
    using t zdiv_mono1 [of "t - s" "u - s" minute] by (simp add: pos_imp_zdiv_nonneg_iff)
  ultimately show "t \<in> set (minute_grid s u)"
    unfolding minute_grid_def set_map set_upt by (rule image_eqI [OF _ atLeastLessThan_iff [THEN iffD2, OF conjI [OF le0]]])
qed

text \<open>
  The search invariant: the best placement so far is a free candidate at a visited minute, no free
  visited minute scores more, and no earlier one scores as much.
\<close>

definition free_at ::
  "zoneinfo \<Rightarrow> plan_activity \<Rightarrow> day_plan_request \<Rightarrow> placement list \<Rightarrow> (string \<Rightarrow> int) \<Rightarrow> instant \<Rightarrow> bool" where
  "free_at zone a r placements counts t \<longleftrightarrow>
     (\<forall>existing \<in> set placements. \<not> overlaps (candidate_at zone a r counts t) existing)"

definition search_inv ::
  "zoneinfo \<Rightarrow> plan_activity \<Rightarrow> day_plan_request \<Rightarrow> placement list \<Rightarrow> (string \<Rightarrow> int)
   \<Rightarrow> instant list \<Rightarrow> placement option \<Rightarrow> bool" where
  "search_inv zone a r placements counts visited best \<longleftrightarrow>
     (case best of
        None \<Rightarrow> \<forall>t \<in> set visited. \<not> free_at zone a r placements counts t
      | Some p \<Rightarrow> \<exists>t \<in> set visited. p = candidate_at zone a r counts t \<and> free_at zone a r placements counts t
          \<and> (\<forall>t' \<in> set visited. free_at zone a r placements counts t' \<longrightarrow>
               s_total (pl_score (candidate_at zone a r counts t')) \<le> s_total (pl_score p)
               \<and> (t' < t \<longrightarrow> s_total (pl_score (candidate_at zone a r counts t')) < s_total (pl_score p))))"

lemma search_inv_step:
  assumes inv: "search_inv zone a r placements counts visited best"
    and later: "\<And>v. v \<in> set visited \<Longrightarrow> v < t"
  shows "search_inv zone a r placements counts (visited @ [t]) (best_step zone a r placements counts t best)"
proof (cases "free_at zone a r placements counts t")
  case False
  then have "best_step zone a r placements counts t best = best"
    by (auto simp: best_step_def free_at_def Let_def)
  with inv False show ?thesis by (auto simp: search_inv_def split: option.splits)
next
  case True
  then have step: "best_step zone a r placements counts t best =
      (if case best of None \<Rightarrow> True | Some b \<Rightarrow> s_total (pl_score b) < s_total (pl_score (candidate_at zone a r counts t))
       then Some (candidate_at zone a r counts t) else best)"
    by (simp add: best_step_def free_at_def Let_def)
  show ?thesis
  proof (cases best)
    case None
    with inv True step later show ?thesis by (auto simp: search_inv_def)
  next
    case (Some p)
    with inv obtain s where s: "s \<in> set visited" "p = candidate_at zone a r counts s"
        "free_at zone a r placements counts s"
      and opt: "\<forall>t' \<in> set visited. free_at zone a r placements counts t' \<longrightarrow>
           s_total (pl_score (candidate_at zone a r counts t')) \<le> s_total (pl_score p)
           \<and> (t' < s \<longrightarrow> s_total (pl_score (candidate_at zone a r counts t')) < s_total (pl_score p))"
      by (auto simp: search_inv_def)
    show ?thesis
    proof (cases "s_total (pl_score p) < s_total (pl_score (candidate_at zone a r counts t))")
      case True
      with Some step have "best_step zone a r placements counts t best = Some (candidate_at zone a r counts t)" by simp
      with True opt \<open>free_at zone a r placements counts t\<close> show ?thesis
        by (fastforce simp: search_inv_def)
    next
      case False
      with Some step have b: "best_step zone a r placements counts t best = Some p" by simp
      have "s < t" using later s(1) .
      with False s opt show ?thesis unfolding b search_inv_def by fastforce
    qed
  qed
qed

lemma minute_grid_sorted: "sorted_wrt (<) (minute_grid s u)"
  by (auto simp: minute_grid_def sorted_wrt_map sorted_wrt_upt intro: sorted_wrt_mono_rel [OF _ sorted_wrt_upt])

lemma search_inv_fold:
  "search_inv zone a r placements counts visited best \<Longrightarrow> sorted_wrt (<) (visited @ ts) \<Longrightarrow>
   search_inv zone a r placements counts (visited @ ts) (fold (best_step zone a r placements counts) ts best)"
proof (induction ts arbitrary: visited best)
  case Nil
  then show ?case by simp
next
  case (Cons t ts)
  from Cons.prems have "search_inv zone a r placements counts (visited @ [t]) (best_step zone a r placements counts t best)"
    by (intro search_inv_step) (auto simp: sorted_wrt_append)
  from Cons.IH [OF this] Cons.prems show ?case by simp
qed

lemma best_loop_inv:
  "search_inv zone a r placements counts (minute_grid s u) (best_loop zone a r placements counts s u None)"
  using search_inv_fold [of zone a r placements counts "[]" None "minute_grid s u"]
  by (simp add: best_loop_fold minute_grid_sorted search_inv_def)

lemma best_placement_None:
  assumes "best_placement zone a r placements counts = None"
  shows "case placement_bounds a r placements of None \<Rightarrow> True
     | Some (lower, upper) \<Rightarrow> \<forall>t \<in> set (minute_grid lower upper). \<not> free_at zone a r placements counts t"
  using assms best_loop_inv [of zone a r placements counts]
  by (force simp: best_placement_def search_inv_def split: option.splits)

lemma best_placement_Some:
  assumes "best_placement zone a r placements counts = Some p"
  obtains lower upper t where "placement_bounds a r placements = Some (lower, upper)"
    and "t \<in> set (minute_grid lower upper)" and "p = candidate_at zone a r counts t"
    and "free_at zone a r placements counts t"
    and "\<And>t'. t' \<in> set (minute_grid lower upper) \<Longrightarrow> free_at zone a r placements counts t' \<Longrightarrow>
           s_total (pl_score (candidate_at zone a r counts t')) \<le> s_total (pl_score p)
           \<and> (t' < t \<longrightarrow> s_total (pl_score (candidate_at zone a r counts t')) < s_total (pl_score p))"
proof -
  from assms obtain lower upper where b: "placement_bounds a r placements = Some (lower, upper)"
    and "best_loop zone a r placements counts lower upper None = Some p"
    by (auto simp: best_placement_def split: option.splits)
  with best_loop_inv [of zone a r placements counts lower upper]
  show thesis using that [OF b] by (auto simp: search_inv_def)
qed

lemma best_placement_activity: "best_placement zone a r placements counts = Some p \<Longrightarrow> pl_activity p = a"
  by (erule best_placement_Some) (simp add: candidate_at_def)

end
