(* ===== verification/Planner_Schedule.thy ===== *)
theory Planner_Schedule
  imports Planner_Placement "HOL-Library.Multiset"
begin

text \<open>
  The scheduling passes of \<open>planner_placement.py\<close>: the greedy loop \<open>place_flexible\<close>, the dependency
  check \<open>invalid_dependencies\<close>, and the invariants of the resulting schedule.
\<close>

definition candidate_key :: "placement \<Rightarrow> int \<times> int \<times> string" where
  "candidate_key p = (- s_total (pl_score p), utc (pl_starts_at p), pl_id p)"

definition missing_dependency :: "string set \<Rightarrow> plan_activity \<Rightarrow> unscheduled_activity" where
  "missing_dependency all_ids a =
     \<lparr>ua_activity_id = activity_id a, ua_reason = MISSING_DEPENDENCY,
      ua_detail = ''Dependency does not exist in this canonical snapshot.'',
      ua_blocking_activity_ids = sorted_list_of_set (set (dependencies a) - all_ids)\<rparr>"

definition no_capacity :: "plan_activity \<Rightarrow> unscheduled_activity" where
  "no_capacity a =
     \<lparr>ua_activity_id = activity_id a, ua_reason = NO_CAPACITY,
      ua_detail = ''No nonconflicting minute interval satisfies all hard constraints.'',
      ua_blocking_activity_ids = []\<rparr>"

definition dependency_unscheduled :: "string set \<Rightarrow> plan_activity \<Rightarrow> unscheduled_activity" where
  "dependency_unscheduled scheduled_ids a =
     \<lparr>ua_activity_id = activity_id a, ua_reason = DEPENDENCY_UNSCHEDULED,
      ua_detail = ''A required dependency was not scheduled.'',
      ua_blocking_activity_ids = sorted_list_of_set (set (dependencies a) - scheduled_ids)\<rparr>"

definition candidates_for ::
  "zoneinfo \<Rightarrow> day_plan_request \<Rightarrow> (string \<Rightarrow> int) \<Rightarrow> placement list \<Rightarrow> plan_activity list \<Rightarrow> placement list" where
  "candidates_for zone r counts placements eligible =
     List.map_filter (\<lambda>a. best_placement zone a r placements counts) eligible"

lemma candidates_for_in:
  "p \<in> set (candidates_for zone r counts placements eligible) \<Longrightarrow>
   pl_activity p \<in> set eligible \<and> best_placement zone (pl_activity p) r placements counts = Some p"
  unfolding candidates_for_def by (auto simp: List.map_filter_def) (metis best_placement_activity)+

lemma candidates_for_None:
  "candidates_for zone r counts placements eligible = [] \<Longrightarrow> a \<in> set eligible \<Longrightarrow>
   best_placement zone a r placements counts = None"
  unfolding candidates_for_def by (auto simp: List.map_filter_def filter_empty_conv)

text \<open>
  \<open>while flexible\<close>: activities with an unknown dependency leave first; then the best candidate of the
  eligible activities is placed, or all eligible ones have no capacity, or the rest waits forever.
\<close>

function place_flexible_loop ::
  "zoneinfo \<Rightarrow> day_plan_request \<Rightarrow> (string \<Rightarrow> int) \<Rightarrow> string set \<Rightarrow> plan_activity list
   \<Rightarrow> placement list \<Rightarrow> string set \<Rightarrow> unscheduled_activity list
   \<Rightarrow> placement list \<times> unscheduled_activity list" where
  "place_flexible_loop zone r counts all_ids flexible placements scheduled_ids unscheduled =
     (if flexible = [] then (placements, unscheduled)
      else
        let missing = sort_key activity_id (filter (\<lambda>a. \<not> set (dependencies a) \<subseteq> all_ids) flexible);
            unscheduled1 = unscheduled @ map (missing_dependency all_ids) missing;
            flexible1 = filter (\<lambda>a. set (dependencies a) \<subseteq> all_ids) flexible;
            eligible = filter (\<lambda>a. set (dependencies a) \<subseteq> scheduled_ids) flexible1
        in case candidates_for zone r counts placements eligible of
             c # cs \<Rightarrow>
               let chosen = min_by candidate_key c cs in
               place_flexible_loop zone r counts all_ids
                 (dict_pop activity_id (pl_id chosen) flexible1) (placements @ [chosen])
                 (insert (pl_id chosen) scheduled_ids) unscheduled1
           | [] \<Rightarrow>
               if eligible \<noteq> []
               then place_flexible_loop zone r counts all_ids
                      (filter (\<lambda>a. activity_id a \<notin> set (map activity_id eligible)) flexible1) placements
                      scheduled_ids (unscheduled1 @ map no_capacity (sort_key activity_id eligible))
               else (placements,
                     unscheduled1 @ map (dependency_unscheduled scheduled_ids) (sort_key activity_id flexible1)))"
  by pat_completeness auto
termination
proof (relation "measure (\<lambda>(zone, r, counts, all_ids, flexible, placements, scheduled_ids, unscheduled).
    length flexible)")
  show "wf (measure (\<lambda>(zone, r, counts, all_ids, flexible, placements, scheduled_ids, unscheduled).
    length flexible))" by simp
next
  fix zone r counts and all_ids scheduled_ids :: "string set" and flexible missing flexible1 eligible :: "plan_activity list"
    and c cs chosen and placements :: "placement list" and unscheduled unscheduled1 :: "unscheduled_activity list"
  assume f1: "flexible1 = filter (\<lambda>a. set (dependencies a) \<subseteq> all_ids) flexible"
    and el: "eligible = filter (\<lambda>a. set (dependencies a) \<subseteq> scheduled_ids) flexible1"
    and cs: "candidates_for zone r counts placements eligible = c # cs"
    and ch: "chosen = min_by candidate_key c cs"
  have "chosen \<in> set (candidates_for zone r counts placements eligible)"
    using cs ch min_by_in [of candidate_key c cs] by simp
  then have "pl_activity chosen \<in> set flexible1"
    using el by (auto dest: candidates_for_in)
  then have "length (dict_pop activity_id (pl_id chosen) flexible1) < length flexible1"
    by (rule length_dict_pop)
  also have "\<dots> \<le> length flexible" using f1 by simp
  finally show "((zone, r, counts, all_ids, dict_pop activity_id (pl_id chosen) flexible1, placements @ [chosen],
      insert (pl_id chosen) scheduled_ids, unscheduled1),
      zone, r, counts, all_ids, flexible, placements, scheduled_ids, unscheduled)
      \<in> measure (\<lambda>(zone, r, counts, all_ids, flexible, placements, scheduled_ids, unscheduled). length flexible)"
    by simp
next
  fix zone r counts and all_ids scheduled_ids :: "string set" and flexible missing flexible1 eligible :: "plan_activity list"
    and placements :: "placement list" and unscheduled unscheduled1 :: "unscheduled_activity list"
  assume f1: "flexible1 = filter (\<lambda>a. set (dependencies a) \<subseteq> all_ids) flexible"
    and el: "eligible = filter (\<lambda>a. set (dependencies a) \<subseteq> scheduled_ids) flexible1"
    and ne: "eligible \<noteq> []"
  from ne obtain e where e: "e \<in> set eligible" by (cases eligible) auto
  then have "e \<in> set flexible1" using el by auto
  then have "length (filter (\<lambda>a. activity_id a \<notin> set (map activity_id eligible)) flexible1) < length flexible1"
    using e by (intro length_filter_less) auto
  also have "\<dots> \<le> length flexible" using f1 by simp
  finally show "((zone, r, counts, all_ids, filter (\<lambda>a. activity_id a \<notin> set (map activity_id eligible)) flexible1,
      placements, scheduled_ids, unscheduled1 @ map no_capacity (sort_key activity_id eligible)),
      zone, r, counts, all_ids, flexible, placements, scheduled_ids, unscheduled)
      \<in> measure (\<lambda>(zone, r, counts, all_ids, flexible, placements, scheduled_ids, unscheduled). length flexible)"
    by simp
qed

declare place_flexible_loop.simps [simp del]

definition place_flexible ::
  "zoneinfo \<Rightarrow> day_plan_request \<Rightarrow> placement list \<Rightarrow> (string \<Rightarrow> int)
   \<Rightarrow> placement list \<times> unscheduled_activity list" where
  "place_flexible zone r placements counts =
     place_flexible_loop zone r counts (set (map activity_id (activities r)))
       (dict_by activity_id (filter (\<lambda>a. flexibility a = FLEXIBLE) (activities r)))
       placements (set (map pl_id placements)) []"

definition invalid_dependencies :: "placement list \<Rightarrow> string set" where
  "invalid_dependencies placements =
     (let by_id = dict_by pl_id placements in
      set (map pl_id (filter (\<lambda>p. \<exists>d \<in> set (dependencies (pl_activity p)).
        case dict_get pl_id by_id d of
          None \<Rightarrow> True
        | Some q \<Rightarrow> utc (pl_starts_at p) < utc (pl_ends_at q)) placements)))"

section \<open>Fixed reservations\<close>

definition acceptable :: "day_plan_request \<Rightarrow> placement \<Rightarrow> bool" where
  "acceptable r p \<longleftrightarrow> \<not> outside_window p r \<and> satisfies_time_bounds p r"

lemma overlaps_sym: "overlaps p q \<longleftrightarrow> overlaps q p"
  by (auto simp: overlaps_def)

lemma conflict_fold_empty:
  "foldl (\<lambda>c e. if overlaps p e then insert i (insert (pl_id e) c) else c) c ps = {} \<longleftrightarrow>
   c = {} \<and> (\<forall>e \<in> set ps. \<not> overlaps p e)"
proof (induction ps arbitrary: c)
  case (Cons e ps)
  then show ?case by auto
qed simp

lemma place_fixed_loop_fst:
  "fst (place_fixed_loop r counts as ps c) = ps @ map (fixed_placement r counts) as"
  by (induction as arbitrary: ps c) (simp_all add: Let_def)

lemma conflict_fold_subset:
  "foldl (\<lambda>c e. if overlaps p e then insert i (insert (pl_id e) c) else c) c ps \<subseteq> insert i (c \<union> pl_id ` set ps)"
proof (induction ps arbitrary: c)
  case (Cons e ps)
  from Cons.IH [of "if overlaps p e then insert i (insert (pl_id e) c) else c"] show ?case
    by (auto split: if_splits)
qed auto

lemma place_fixed_loop_iff:
  "snd (place_fixed_loop r counts as ps c) = {} \<longleftrightarrow>
   c = {} \<and> (\<forall>a \<in> set as. acceptable r (fixed_placement r counts a))
   \<and> (\<forall>a \<in> set as. \<forall>e \<in> set ps. \<not> overlaps (fixed_placement r counts a) e)
   \<and> sorted_wrt (\<lambda>p q. \<not> overlaps p q) (map (fixed_placement r counts) as)"
proof (induction as arbitrary: ps c)
  case (Cons a as)
  show ?case
    unfolding place_fixed_loop.simps Let_def Cons.IH conflict_fold_empty
    by (auto simp: acceptable_def overlaps_sym)
qed simp

lemma fixed_placement_activity [simp]: "pl_activity (fixed_placement r counts a) = a"
  by (simp add: fixed_placement_def Let_def)

lemma place_fixed_loop_conflicts:
  "snd (place_fixed_loop r counts as ps c) \<subseteq> c \<union> activity_id ` set as \<union> pl_id ` set ps"
proof (induction as arbitrary: ps c)
  case (Cons a as)
  let ?p = "fixed_placement r counts a"
  let ?c1 = "if outside_window ?p r then insert (activity_id a) c else c"
  let ?c2 = "if \<not> satisfies_time_bounds ?p r then insert (activity_id a) ?c1 else ?c1"
  have "foldl (\<lambda>c existing. if overlaps ?p existing
      then insert (activity_id a) (insert (pl_id existing) c) else c) ?c2 ps
      \<subseteq> insert (activity_id a) (?c2 \<union> pl_id ` set ps)" (is "?c3 \<subseteq> _") by (rule conflict_fold_subset)
  also have "\<dots> \<subseteq> c \<union> activity_id ` set (a # as) \<union> pl_id ` set ps" by auto
  finally have "?c3 \<subseteq> c \<union> activity_id ` set (a # as) \<union> pl_id ` set ps" .
  with Cons.IH [of "ps @ [?p]" ?c3] show ?case
    unfolding place_fixed_loop.simps Let_def by auto
qed simp

lemma place_fixed_Inl:
  assumes "place_fixed r counts = Inl c"
  shows "c \<subseteq> activity_id ` {a \<in> set (activities r). flexibility a \<noteq> FLEXIBLE}" and "finite c"
proof -
  let ?fixed = "filter (\<lambda>a. flexibility a \<noteq> FLEXIBLE) (activities r)"
  from assms have "c = snd (place_fixed_loop r counts (sort_by (fixed_key_lt r) ?fixed) [] {})"
    by (auto simp: place_fixed_def Let_def split: prod.splits if_splits)
  with place_fixed_loop_conflicts [of r counts "sort_by (fixed_key_lt r) ?fixed" "[]" "{}"]
  show "c \<subseteq> activity_id ` {a \<in> set (activities r). flexibility a \<noteq> FLEXIBLE}" by simp
  then show "finite c" by (rule finite_subset) simp
qed

lemma sorted_wrt_distinct:
  assumes "\<And>x y. R x y \<longleftrightarrow> R y x" and "distinct xs"
  shows "sorted_wrt R xs \<longleftrightarrow> (\<forall>x \<in> set xs. \<forall>y \<in> set xs. x \<noteq> y \<longrightarrow> R x y)"
  using assms(2)
proof (induction xs)
  case (Cons x xs)
  then show ?case using assms(1) by (auto 4 3)
qed simp

lemma distinct_sort_by: "distinct xs \<Longrightarrow> distinct (sort_by lt xs)"
proof -
  have "distinct (x # ys) \<Longrightarrow> distinct (insort_by lt x ys)" for x and ys :: "'a list"
    by (induction ys) auto
  then show "distinct xs \<Longrightarrow> distinct (sort_by lt xs)"
    unfolding sort_by_def by (induction xs) (auto simp flip: sort_by_def)
qed

lemma place_fixed_accepts:
  assumes "distinct (activities r)"
  shows "(\<exists>ps. place_fixed r counts = Inr ps) \<longleftrightarrow>
    (\<forall>a \<in> set (activities r). flexibility a \<noteq> FLEXIBLE \<longrightarrow> acceptable r (fixed_placement r counts a)
       \<and> (\<forall>b \<in> set (activities r). flexibility b \<noteq> FLEXIBLE \<and> b \<noteq> a \<longrightarrow>
            \<not> overlaps (fixed_placement r counts a) (fixed_placement r counts b)))"
proof -
  let ?fixed = "sort_by (fixed_key_lt r) (filter (\<lambda>a. flexibility a \<noteq> FLEXIBLE) (activities r))"
  have "(\<exists>ps. place_fixed r counts = Inr ps) \<longleftrightarrow> snd (place_fixed_loop r counts ?fixed [] {}) = {}"
    by (simp add: place_fixed_def Let_def split: prod.splits)
  also have "\<dots> \<longleftrightarrow> (\<forall>a \<in> set ?fixed. acceptable r (fixed_placement r counts a))
      \<and> sorted_wrt (\<lambda>a b. \<not> overlaps (fixed_placement r counts a) (fixed_placement r counts b)) ?fixed"
    unfolding place_fixed_loop_iff by (simp add: sorted_wrt_map)
  also have "sorted_wrt (\<lambda>a b. \<not> overlaps (fixed_placement r counts a) (fixed_placement r counts b)) ?fixed
      \<longleftrightarrow> (\<forall>a \<in> set ?fixed. \<forall>b \<in> set ?fixed. a \<noteq> b \<longrightarrow>
            \<not> overlaps (fixed_placement r counts a) (fixed_placement r counts b))"
    using assms by (intro sorted_wrt_distinct distinct_sort_by) (auto simp: overlaps_sym)
  finally show ?thesis by auto
qed

lemma place_fixed_Inr:
  assumes "place_fixed r counts = Inr ps"
  shows "ps = map (fixed_placement r counts)
           (sort_by (fixed_key_lt r) (filter (\<lambda>a. flexibility a \<noteq> FLEXIBLE) (activities r)))"
    and "\<forall>p \<in> set ps. acceptable r p" and "sorted_wrt (\<lambda>p q. \<not> overlaps p q) ps"
proof -
  let ?fixed = "sort_by (fixed_key_lt r) (filter (\<lambda>a. flexibility a \<noteq> FLEXIBLE) (activities r))"
  from assms have clean: "snd (place_fixed_loop r counts ?fixed [] {}) = {}"
    and eq: "ps = fst (place_fixed_loop r counts ?fixed [] {})"
    by (auto simp: place_fixed_def Let_def split: prod.splits if_splits)
  from eq show ps: "ps = map (fixed_placement r counts) ?fixed" by (simp add: place_fixed_loop_fst)
  from clean [unfolded place_fixed_loop_iff] ps
  show "\<forall>p \<in> set ps. acceptable r p" and "sorted_wrt (\<lambda>p q. \<not> overlaps p q) ps" by auto
qed

section \<open>Bounds of a flexible activity\<close>

lemma foldl_max_le: "foldl (\<lambda>l p. max l (f p)) l ps \<le> (t::int) \<longleftrightarrow> l \<le> t \<and> (\<forall>p \<in> set ps. f p \<le> t)"
  by (induction ps arbitrary: l) auto

lemma le_foldl_min:
  "(t::int) \<le> foldl (\<lambda>u p. if P p then min u (f p) else u) u ps \<longleftrightarrow> t \<le> u \<and> (\<forall>p \<in> set ps. P p \<longrightarrow> t \<le> f p)"
  by (induction ps arbitrary: u) auto

lemma max_option_le: "max_option x (map_option f m) \<le> t \<longleftrightarrow> x \<le> t \<and> (\<forall>y. m = Some y \<longrightarrow> f y \<le> t)"
  by (cases m) (auto simp: max_option_def)

lemma le_min_option: "t \<le> min_option x (map_option f m) \<longleftrightarrow> t \<le> x \<and> (\<forall>y. m = Some y \<longrightarrow> t \<le> f y)"
  by (cases m) (auto simp: min_option_def)

text \<open>The hard constraints on a start \<open>t\<close> of \<open>a\<close>: window, time bounds, and dependencies in both directions.\<close>

definition start_allowed :: "zoneinfo \<Rightarrow> plan_activity \<Rightarrow> day_plan_request \<Rightarrow> (string \<Rightarrow> int) \<Rightarrow> placement list \<Rightarrow> instant \<Rightarrow> bool" where
  "start_allowed zone a r counts ps t \<longleftrightarrow>
     acceptable r (candidate_at zone a r counts t)
     \<and> (\<forall>q \<in> set ps. pl_id q \<in> set (dependencies a) \<longrightarrow> utc (pl_ends_at q) \<le> t)
     \<and> (\<forall>q \<in> set ps. activity_id a \<in> set (dependencies (pl_activity q)) \<longrightarrow>
          t + duration_minutes a * minute \<le> utc (pl_starts_at q))"

lemma acceptable_candidate:
  "acceptable r (candidate_at zone a r counts t) \<longleftrightarrow>
     utc (window_start r) + travel_minutes_before a * minute \<le> t
     \<and> t + (duration_minutes a + travel_minutes_after a) * minute \<le> utc (window_end r)
     \<and> (\<forall>e. earliest_start a = Some e \<longrightarrow> utc e \<le> t)
     \<and> (\<forall>l. latest_end a = Some l \<longrightarrow> t + duration_minutes a * minute \<le> utc l)
     \<and> (\<forall>d. hard_deadline a r = Some d \<longrightarrow> t + duration_minutes a * minute \<le> d)"
  by (auto simp: acceptable_def outside_window_def satisfies_time_bounds_def candidate_at_def
      reservation_start_def reservation_end_def Let_def algebra_simps split: option.splits)

lemma placement_bounds_exact:
  assumes "placement_bounds a r ps = Some (lower, upper)"
  shows "lower \<le> t \<and> t \<le> upper \<longleftrightarrow> start_allowed zone a r counts ps t"
proof -
  let ?dur = "duration_minutes a * minute"
  let ?preds = "filter (\<lambda>item. pl_id item \<in> set (dependencies a)) ps"
  from assms have lo: "lower = foldl (\<lambda>l p. max l (utc (pl_ends_at p)))
      (max_option (utc (window_start r) + travel_minutes_before a * minute) (map_option utc (earliest_start a))) ?preds"
    and up: "upper = foldl (\<lambda>u s. if activity_id a \<in> set (dependencies (pl_activity s))
                    then min u (utc (pl_starts_at s) - ?dur) else u)
      (min_option (min_option (utc (window_end r) - (duration_minutes a + travel_minutes_after a) * minute)
        (map_option (\<lambda>l. utc l - ?dur) (latest_end a))) (map_option (\<lambda>d. d - ?dur) (hard_deadline a r))) ps"
    by (auto simp: placement_bounds_def Let_def split: if_splits)
  have l: "lower \<le> t \<longleftrightarrow> utc (window_start r) + travel_minutes_before a * minute \<le> t
      \<and> (\<forall>e. earliest_start a = Some e \<longrightarrow> utc e \<le> t)
      \<and> (\<forall>q \<in> set ps. pl_id q \<in> set (dependencies a) \<longrightarrow> utc (pl_ends_at q) \<le> t)"
    unfolding lo by (auto simp: foldl_max_le max_option_le)
  have u: "t \<le> upper \<longleftrightarrow> t + (duration_minutes a + travel_minutes_after a) * minute \<le> utc (window_end r)
      \<and> (\<forall>l. latest_end a = Some l \<longrightarrow> t + ?dur \<le> utc l)
      \<and> (\<forall>d. hard_deadline a r = Some d \<longrightarrow> t + ?dur \<le> d)
      \<and> (\<forall>q \<in> set ps. activity_id a \<in> set (dependencies (pl_activity q)) \<longrightarrow> t + ?dur \<le> utc (pl_starts_at q))"
    unfolding up by (auto simp: le_foldl_min le_min_option algebra_simps)
  show ?thesis unfolding start_allowed_def acceptable_candidate l u by blast
qed

lemma placement_bounds_defined:
  "set (dependencies a) \<subseteq> pl_id ` set ps \<Longrightarrow> \<exists>lower upper. placement_bounds a r ps = Some (lower, upper)"
proof -
  assume "set (dependencies a) \<subseteq> pl_id ` set ps"
  then have "pl_id ` set (filter (\<lambda>item. pl_id item \<in> set (dependencies a)) ps) = set (dependencies a)" by auto
  then show ?thesis by (simp add: placement_bounds_def Let_def)
qed

lemma best_placement_allowed:
  assumes "best_placement zone a r ps counts = Some p"
  shows "\<exists>t. p = candidate_at zone a r counts t \<and> start_allowed zone a r counts ps t
             \<and> free_at zone a r ps counts t"
  using assms by (rule best_placement_Some) (metis placement_bounds_exact set_minute_grid)

section \<open>The invariant of the greedy loop\<close>

lemma mset_map_split:
  "mset (map f (filter P xs)) + mset (map f (filter (\<lambda>x. \<not> P x) xs)) = mset (map f xs)"
  by (induction xs) auto

lemma mset_map_split':
  "mset (map f (filter (\<lambda>x. \<not> P x) xs)) + mset (map f (filter P xs)) = mset (map f xs)"
  by (induction xs) auto

lemma mset_map_remove_key:
  "distinct (map f xs) \<Longrightarrow> x \<in> set xs \<Longrightarrow>
   mset (map f (filter (\<lambda>y. f y \<noteq> f x) xs)) + {#f x#} = mset (map f xs)"
proof (induction xs)
  case (Cons y ys)
  show ?case
  proof (cases "f y = f x")
    case True
    with Cons.prems have "f x \<notin> f ` set ys" by simp
    then have "filter (\<lambda>z. f z \<noteq> f x) ys = ys" by (intro filter_True ballI notI) (metis imageI)
    with True show ?thesis by simp
  next
    case False
    with Cons show ?thesis by auto
  qed
qed simp

lemma filter_not_selected:
  "distinct (map f xs) \<Longrightarrow>
   filter (\<lambda>a. f a \<notin> set (map f (filter P xs))) xs = filter (\<lambda>a. \<not> P a) xs"
  by (rule filter_cong) (auto simp: distinct_map inj_on_def)

definition accounted :: "day_plan_request \<Rightarrow> plan_activity list \<Rightarrow> placement list \<Rightarrow> unscheduled_activity list \<Rightarrow> bool" where
  "accounted r flexible placements unscheduled \<longleftrightarrow>
     mset (map activity_id flexible @ map pl_id placements @ map ua_activity_id unscheduled)
     = mset (map activity_id (activities r))"

definition deps_met :: "placement list \<Rightarrow> placement \<Rightarrow> bool" where
  "deps_met placements p \<longleftrightarrow> (\<forall>d \<in> set (dependencies (pl_activity p)).
     \<exists>q \<in> set placements. pl_id q = d \<and> utc (pl_ends_at q) \<le> utc (pl_starts_at p))"

definition no_slot :: "zoneinfo \<Rightarrow> day_plan_request \<Rightarrow> (string \<Rightarrow> int) \<Rightarrow> placement list \<Rightarrow> plan_activity \<Rightarrow> bool" where
  "no_slot zone r counts placements a \<longleftrightarrow>
     (\<exists>lower upper. placement_bounds a r placements = Some (lower, upper)
        \<and> (\<forall>t. start_allowed zone a r counts placements t \<and> (t - lower) mod minute = 0 \<longrightarrow>
               \<not> free_at zone a r placements counts t))"

definition placed_ok :: "day_plan_request \<Rightarrow> placement \<Rightarrow> bool" where
  "placed_ok r p \<longleftrightarrow> pl_activity p \<in> set (activities r) \<and> acceptable r p
     \<and> (utc (pl_ends_at p) - utc (pl_starts_at p)) div minute = duration_minutes (pl_activity p)
     \<and> (flexibility (pl_activity p) \<noteq> FLEXIBLE \<longrightarrow>
          fixed_start (pl_activity p) = Some (pl_starts_at p) \<and> fixed_end (pl_activity p) = Some (pl_ends_at p))"

definition schedule_inv :: "day_plan_request \<Rightarrow> placement list \<Rightarrow> bool" where
  "schedule_inv r placements \<longleftrightarrow>
     (\<forall>p \<in> set placements. placed_ok r p) \<and> sorted_wrt (\<lambda>p q. \<not> overlaps p q) placements
     \<and> (\<forall>p \<in> set placements. flexibility (pl_activity p) = FLEXIBLE \<longrightarrow> deps_met placements p)"

definition capacity_inv ::
  "zoneinfo \<Rightarrow> day_plan_request \<Rightarrow> (string \<Rightarrow> int) \<Rightarrow> placement list \<Rightarrow> unscheduled_activity list \<Rightarrow> bool" where
  "capacity_inv zone r counts placements unscheduled \<longleftrightarrow>
     (\<forall>u \<in> set unscheduled. ua_reason u = NO_CAPACITY \<longrightarrow>
        (\<exists>a \<in> set (activities r). activity_id a = ua_activity_id u \<and> set (dependencies a) \<subseteq> pl_id ` set placements
           \<and> no_slot zone r counts placements a))"

definition flex_inv ::
  "zoneinfo \<Rightarrow> day_plan_request \<Rightarrow> (string \<Rightarrow> int) \<Rightarrow> plan_activity list \<Rightarrow> placement list \<Rightarrow> string set
   \<Rightarrow> unscheduled_activity list \<Rightarrow> bool" where
  "flex_inv zone r counts flexible placements scheduled_ids unscheduled \<longleftrightarrow>
     scheduled_ids = pl_id ` set placements
     \<and> (\<forall>a \<in> set flexible. a \<in> set (activities r) \<and> flexibility a = FLEXIBLE)
     \<and> accounted r flexible placements unscheduled
     \<and> schedule_inv r placements \<and> capacity_inv zone r counts placements unscheduled"

lemma accounted_distinct:
  assumes "accounted r flexible placements unscheduled" and "distinct (map activity_id (activities r))"
  shows "distinct (map activity_id flexible @ map pl_id placements @ map ua_activity_id unscheduled)"
  using assms mset_eq_imp_distinct_iff unfolding accounted_def by blast

lemma ua_activity_id_simps [simp]:
  "ua_activity_id (missing_dependency ids a) = activity_id a"
  "ua_activity_id (no_capacity a) = activity_id a"
  "ua_activity_id (dependency_unscheduled ids a) = activity_id a"
  "ua_reason (missing_dependency ids a) = MISSING_DEPENDENCY"
  "ua_reason (no_capacity a) = NO_CAPACITY"
  "ua_reason (dependency_unscheduled ids a) = DEPENDENCY_UNSCHEDULED"
  by (simp_all add: missing_dependency_def no_capacity_def dependency_unscheduled_def)

lemma no_slot_mono:
  assumes "no_slot zone r counts placements a" and deps: "set (dependencies a) \<subseteq> pl_id ` set placements"
    and new: "pl_id c \<notin> pl_id ` set placements"
  shows "no_slot zone r counts (placements @ [c]) a"
proof -
  from assms(1) obtain lower upper where b: "placement_bounds a r placements = Some (lower, upper)"
    and none: "\<And>t. start_allowed zone a r counts placements t \<Longrightarrow> (t - lower) mod minute = 0 \<Longrightarrow>
               \<not> free_at zone a r placements counts t"
    by (auto simp: no_slot_def)
  from deps new have "pl_id c \<notin> set (dependencies a)" by auto
  with b have "\<exists>upper'. placement_bounds a r (placements @ [c]) = Some (lower, upper')"
    by (simp add: placement_bounds_def Let_def split: if_split_asm)
  then obtain upper' where b': "placement_bounds a r (placements @ [c]) = Some (lower, upper')" by blast
  have sa: "start_allowed zone a r counts (placements @ [c]) t \<Longrightarrow> start_allowed zone a r counts placements t" for t
    by (auto simp: start_allowed_def)
  have "\<not> free_at zone a r (placements @ [c]) counts t"
    if "start_allowed zone a r counts (placements @ [c]) t" and "(t - lower) mod minute = 0" for t
    using none [OF sa [OF that(1)] that(2)] by (auto simp: free_at_def)
  then show ?thesis
    unfolding no_slot_def using b' by (intro exI [of _ lower] exI [of _ upper']) simp
qed

lemma no_slot_of_best_placement:
  assumes "best_placement zone a r placements counts = None" and "set (dependencies a) \<subseteq> pl_id ` set placements"
  shows "no_slot zone r counts placements a"
proof -
  obtain lower upper where b: "placement_bounds a r placements = Some (lower, upper)"
    using placement_bounds_defined [OF assms(2)] by blast
  with best_placement_None [OF assms(1)]
  have none: "\<not> free_at zone a r placements counts t" if "t \<in> set (minute_grid lower upper)" for t
    using that by simp
  have "\<not> free_at zone a r placements counts t"
    if "start_allowed zone a r counts placements t" and "(t - lower) mod minute = 0" for t
    by (rule none) (use that placement_bounds_exact [OF b, of t zone counts] in \<open>simp add: set_minute_grid\<close>)
  then show ?thesis
    unfolding no_slot_def using b by (intro exI [of _ lower] exI [of _ upper]) simp
qed

lemma deps_met_mono: "deps_met ps p \<Longrightarrow> deps_met (ps @ [c]) p"
  unfolding deps_met_def by auto

lemma accounted_move:
  assumes "accounted r flexible placements unscheduled"
    and "mset (map ua_activity_id us) = mset (map activity_id out)"
    and "mset (map activity_id flexible) = mset (map activity_id kept) + mset (map activity_id out)"
  shows "accounted r kept placements (unscheduled @ us)"
  using assms unfolding accounted_def by (simp add: ac_simps)

lemma accounted_place:
  assumes "accounted r flexible placements unscheduled" and "distinct (map activity_id flexible)"
    and "pl_activity c \<in> set flexible"
  shows "accounted r (dict_pop activity_id (pl_id c) flexible) (placements @ [c]) unscheduled"
  using assms(1)
  unfolding accounted_def dict_pop_def mset_append mset_map_remove_key [OF assms(2,3), symmetric] by simp

lemma flex_inv_missing:
  assumes "flex_inv zone r counts flexible placements scheduled unscheduled"
  shows "flex_inv zone r counts (filter (\<lambda>a. set (dependencies a) \<subseteq> all_ids) flexible) placements scheduled
     (unscheduled @ map (missing_dependency all_ids)
        (sort_key activity_id (filter (\<lambda>a. \<not> set (dependencies a) \<subseteq> all_ids) flexible)))"
proof -
  let ?out = "filter (\<lambda>a. \<not> set (dependencies a) \<subseteq> all_ids) flexible"
  have "accounted r (filter (\<lambda>a. set (dependencies a) \<subseteq> all_ids) flexible) placements
     (unscheduled @ map (missing_dependency all_ids) (sort_key activity_id ?out))"
    using assms by (intro accounted_move [OF _ _ mset_map_split [symmetric]]) (auto simp: flex_inv_def comp_def)
  with assms show ?thesis by (auto simp: flex_inv_def capacity_inv_def)
qed

lemma flex_inv_place:
  assumes inv: "flex_inv zone r counts flexible placements scheduled unscheduled"
    and wf: "distinct (map activity_id (activities r))"
    and best: "best_placement zone (pl_activity c) r placements counts = Some c"
    and inf: "pl_activity c \<in> set flexible" and deps: "set (dependencies (pl_activity c)) \<subseteq> scheduled"
  shows "flex_inv zone r counts (dict_pop activity_id (pl_id c) flexible) (placements @ [c])
     (insert (pl_id c) scheduled) unscheduled"
proof -
  have dist: "distinct (map activity_id flexible @ map pl_id placements @ map ua_activity_id unscheduled)"
    using inv wf by (intro accounted_distinct) (auto simp: flex_inv_def)
  then have new: "pl_id c \<notin> pl_id ` set placements" using inf by auto
  obtain t where c: "c = candidate_at zone (pl_activity c) r counts t"
    and ok: "start_allowed zone (pl_activity c) r counts placements t"
    and free: "free_at zone (pl_activity c) r placements counts t"
    using best_placement_allowed [OF best] by auto
  have times: "utc (pl_starts_at c) = t" "utc (pl_ends_at c) = t + duration_minutes (pl_activity c) * minute"
    by (subst c, simp add: candidate_at_def)+
  have "placed_ok r c"
    using inv inf ok c times by (auto simp: placed_ok_def start_allowed_def flex_inv_def)
  moreover have "\<forall>p \<in> set placements. \<not> overlaps p c"
    using free c by (auto simp: free_at_def overlaps_sym)
  moreover have "deps_met (placements @ [c]) c"
    using ok deps inv times unfolding deps_met_def start_allowed_def flex_inv_def by fastforce
  ultimately have "schedule_inv r (placements @ [c])"
    using inv deps_met_mono unfolding flex_inv_def schedule_inv_def by (auto simp: sorted_wrt_append)
  moreover have "capacity_inv zone r counts (placements @ [c]) unscheduled"
    using inv no_slot_mono [OF _ _ new] unfolding flex_inv_def capacity_inv_def by fastforce
  moreover have "accounted r (dict_pop activity_id (pl_id c) flexible) (placements @ [c]) unscheduled"
    by (rule accounted_place) (use inv inf dist in \<open>auto simp: flex_inv_def\<close>)
  ultimately show ?thesis using inv by (auto simp: flex_inv_def)
qed

lemma flex_inv_no_capacity:
  fixes flexible :: "plan_activity list" and scheduled :: "string set"
  defines "eligible \<equiv> filter (\<lambda>a. set (dependencies a) \<subseteq> scheduled) flexible"
  assumes inv: "flex_inv zone r counts flexible placements scheduled unscheduled"
    and wf: "distinct (map activity_id (activities r))"
    and none: "candidates_for zone r counts placements eligible = []"
  shows "flex_inv zone r counts (filter (\<lambda>a. activity_id a \<notin> set (map activity_id eligible)) flexible)
     placements scheduled (unscheduled @ map no_capacity (sort_key activity_id eligible))"
proof -
  have "distinct (map activity_id flexible)"
    using accounted_distinct [of r flexible placements unscheduled] inv wf by (auto simp: flex_inv_def)
  then have rest: "filter (\<lambda>a. activity_id a \<notin> set (map activity_id eligible)) flexible
      = filter (\<lambda>a. \<not> set (dependencies a) \<subseteq> scheduled) flexible"
    unfolding eligible_def by (rule filter_not_selected)
  have "accounted r (filter (\<lambda>a. \<not> set (dependencies a) \<subseteq> scheduled) flexible) placements
      (unscheduled @ map no_capacity (sort_key activity_id eligible))"
    using inv by (intro accounted_move [OF _ _ mset_map_split' [symmetric]])
      (auto simp: flex_inv_def eligible_def comp_def)
  moreover have "no_slot zone r counts placements a" if "a \<in> set eligible" for a
    using that none inv by (intro no_slot_of_best_placement)
      (auto simp: flex_inv_def eligible_def dest: candidates_for_None)
  ultimately show ?thesis
    unfolding rest using inv by (auto simp: flex_inv_def capacity_inv_def eligible_def)
qed

lemma flex_inv_rest:
  assumes "flex_inv zone r counts flexible placements scheduled unscheduled"
  shows "flex_inv zone r counts [] placements scheduled
     (unscheduled @ map (dependency_unscheduled scheduled) (sort_key activity_id flexible))"
proof -
  have "accounted r [] placements (unscheduled @ map (dependency_unscheduled scheduled) (sort_key activity_id flexible))"
    using assms by (intro accounted_move [where out = flexible]) (auto simp: flex_inv_def comp_def)
  with assms show ?thesis by (auto simp: flex_inv_def capacity_inv_def)
qed

lemma place_flexible_loop_inv:
  assumes "flex_inv zone r counts flexible placements scheduled unscheduled"
    and "distinct (map activity_id (activities r))"
    and "place_flexible_loop zone r counts all_ids flexible placements scheduled unscheduled = (ps, us)"
  shows "flex_inv zone r counts [] ps (pl_id ` set ps) us \<and> (\<exists>more. ps = placements @ more)"
  using assms
proof (induction zone r counts all_ids flexible placements scheduled unscheduled rule: place_flexible_loop.induct)
  case (1 zone r counts all_ids flexible placements scheduled unscheduled)
  let ?f1 = "filter (\<lambda>a. set (dependencies a) \<subseteq> all_ids) flexible"
  let ?u1 = "unscheduled @ map (missing_dependency all_ids)
     (sort_key activity_id (filter (\<lambda>a. \<not> set (dependencies a) \<subseteq> all_ids) flexible))"
  let ?el = "filter (\<lambda>a. set (dependencies a) \<subseteq> scheduled) ?f1"
  note eq = 1(5) [unfolded place_flexible_loop.simps [of zone r counts all_ids flexible] Let_def]
  have inv1: "flex_inv zone r counts ?f1 placements scheduled ?u1" by (rule flex_inv_missing [OF 1(3)])
  have sch: "scheduled = pl_id ` set placements" using 1(3) by (simp add: flex_inv_def)
  show ?case
  proof (cases "flexible = []")
    case True
    with 1(3) eq sch show ?thesis by simp
  next
    case False
    show ?thesis
    proof (cases "candidates_for zone r counts placements ?el")
      case (Cons c cs)
      let ?ch = "min_by candidate_key c cs"
      have ch: "?ch \<in> set (candidates_for zone r counts placements ?el)"
        using Cons min_by_in [of candidate_key c cs] by simp
      have inv2: "flex_inv zone r counts (dict_pop activity_id (pl_id ?ch) ?f1) (placements @ [?ch])
          (insert (pl_id ?ch) scheduled) ?u1"
        by (rule flex_inv_place [OF inv1 1(4)]) (use candidates_for_in [OF ch] in auto)
      from False Cons eq have "place_flexible_loop zone r counts all_ids (dict_pop activity_id (pl_id ?ch) ?f1)
          (placements @ [?ch]) (insert (pl_id ?ch) scheduled) ?u1 = (ps, us)" by simp
      from 1(2) [OF False refl refl refl refl Cons refl inv2 1(4) this] show ?thesis by auto
    next
      case Nil
      show ?thesis
      proof (cases "?el = []")
        case False
        have inv2: "flex_inv zone r counts (filter (\<lambda>a. activity_id a \<notin> set (map activity_id ?el)) ?f1) placements
            scheduled (?u1 @ map no_capacity (sort_key activity_id ?el))"
          by (rule flex_inv_no_capacity [OF inv1 1(4) Nil])
        from \<open>flexible \<noteq> []\<close> False Nil eq
        have "place_flexible_loop zone r counts all_ids (filter (\<lambda>a. activity_id a \<notin> set (map activity_id ?el)) ?f1)
            placements scheduled (?u1 @ map no_capacity (sort_key activity_id ?el)) = (ps, us)" by simp
        from 1(1) [OF \<open>flexible \<noteq> []\<close> refl refl refl refl Nil False inv2 1(4) this] show ?thesis .
      next
        case True
        with \<open>flexible \<noteq> []\<close> Nil eq have "ps = placements"
          and "us = ?u1 @ map (dependency_unscheduled scheduled) (sort_key activity_id ?f1)" by simp_all
        with flex_inv_rest [OF inv1] sch show ?thesis by simp
      qed
    qed
  qed
qed

section \<open>The schedule of a well-formed request\<close>

lemma fixed_placement_duration:
  assumes "well_formed_activity a" and "flexibility a \<noteq> FLEXIBLE"
  shows "(utc (pl_ends_at (fixed_placement r counts a)) - utc (pl_starts_at (fixed_placement r counts a))) div minute
     = duration_minutes a"
  using assms by (auto simp: fixed_placement_def fixed_start_of_def well_formed_activity_def Let_def)

lemma fixed_placement_interval:
  assumes "well_formed_activity a" and "flexibility a \<noteq> FLEXIBLE"
  shows "fixed_start a = Some (pl_starts_at (fixed_placement r counts a))
     \<and> fixed_end a = Some (pl_ends_at (fixed_placement r counts a))"
  using assms by (auto simp: fixed_placement_def fixed_start_of_def well_formed_activity_def Let_def)

lemma mset_sort_by [simp]: "mset (sort_by lt xs) = mset xs"
proof -
  have "mset (insort_by lt x ys) = add_mset x (mset ys)" for x and ys :: "'a list"
    by (induction ys) auto
  then show ?thesis unfolding sort_by_def by (induction xs) auto
qed

lemma flex_inv_initial:
  assumes wf: "well_formed_request r" and fx: "place_fixed r counts = Inr ps"
  shows "flex_inv zone r counts (dict_by activity_id (filter (\<lambda>a. flexibility a = FLEXIBLE) (activities r)))
     ps (set (map pl_id ps)) []"
proof -
  have dist: "distinct (map activity_id (activities r))" using wf by (simp add: well_formed_request_def)
  let ?flex = "filter (\<lambda>a. flexibility a = FLEXIBLE) (activities r)"
  have flex: "dict_by activity_id ?flex = ?flex"
    by (rule dict_by_distinct) (rule distinct_map_filter [OF dist])
  note ps = place_fixed_Inr [OF fx]
  have "accounted r ?flex ps []"
    using mset_map_split [of activity_id "\<lambda>a. flexibility a = FLEXIBLE" "activities r"]
    unfolding accounted_def ps(1) by (simp add: comp_def)
  moreover have "\<forall>p \<in> set ps. placed_ok r p"
  proof
    fix p assume p: "p \<in> set ps"
    then obtain a where a: "p = fixed_placement r counts a" "a \<in> set (activities r)" "flexibility a \<noteq> FLEXIBLE"
      unfolding ps(1) by auto
    with wf p ps(2) fixed_placement_duration [of a r counts] fixed_placement_interval [of a r counts] show "placed_ok r p"
      by (simp add: placed_ok_def well_formed_request_def)
  qed
  moreover have "\<forall>p \<in> set ps. flexibility (pl_activity p) \<noteq> FLEXIBLE"
    unfolding ps(1) by auto
  ultimately show ?thesis
    using ps(3) unfolding flex flex_inv_def schedule_inv_def capacity_inv_def by auto
qed

lemma place_flexible_inv:
  assumes wf: "well_formed_request r" and fx: "place_fixed r counts = Inr ps0"
    and pf: "place_flexible zone r ps0 counts = (ps, us)"
  shows "flex_inv zone r counts [] ps (pl_id ` set ps) us" and "\<exists>more. ps = ps0 @ more"
  using place_flexible_loop_inv [OF flex_inv_initial [OF wf fx] _ pf [unfolded place_flexible_def]] wf
  by (simp_all add: well_formed_request_def)

lemma flex_inv_final_distinct:
  "flex_inv zone r counts [] ps sch us \<Longrightarrow> well_formed_request r \<Longrightarrow>
   distinct (map pl_id ps @ map ua_activity_id us)"
  using accounted_distinct [of r "[]" ps us] by (simp add: flex_inv_def well_formed_request_def)

lemma invalid_dependencies_iff:
  assumes "distinct (map pl_id ps)"
  shows "invalid_dependencies ps = pl_id ` {p \<in> set ps. \<not> deps_met ps p}"
proof -
  have get: "(case dict_get pl_id ps d of None \<Rightarrow> True | Some q \<Rightarrow> utc (pl_starts_at p) < utc (pl_ends_at q))
      \<longleftrightarrow> \<not> (\<exists>q \<in> set ps. pl_id q = d \<and> utc (pl_ends_at q) \<le> utc (pl_starts_at p))" for d p
  proof (cases "dict_get pl_id ps d")
    case None
    then have "d \<notin> pl_id ` set ps" by (simp add: dict_get_None)
    with None show ?thesis by auto
  next
    case (Some q)
    then have q: "q \<in> set ps" "pl_id q = d" by (auto dest: dict_get_Some)
    have "q' = q" if "q' \<in> set ps" "pl_id q' = d" for q'
      using that q assms by (auto simp: distinct_map dest: inj_onD)
    with q Some show ?thesis by force
  qed
  show ?thesis
    unfolding invalid_dependencies_def dict_by_distinct [OF assms] Let_def get deps_met_def by auto
qed

lemma deps_met_of_valid:
  "distinct (map pl_id ps) \<Longrightarrow> invalid_dependencies ps = {} \<Longrightarrow> p \<in> set ps \<Longrightarrow> deps_met ps p"
  by (auto simp: invalid_dependencies_iff)

lemma invalid_dependencies_not_flexible:
  assumes "schedule_inv r ps" and "distinct (map pl_id ps)" and "i \<in> invalid_dependencies ps"
  shows "\<exists>p \<in> set ps. pl_id p = i \<and> flexibility (pl_activity p) \<noteq> FLEXIBLE"
  using assms by (auto simp: invalid_dependencies_iff schedule_inv_def)

end
