(* ===== verification/Planner_Explanation.thy ===== *)
theory Planner_Explanation
  imports Planner_Schedule
begin

text \<open>
  \<open>planner_explanation.py\<close>: the gapless minute-level plan rendered from the placements, and the
  explanation of every activity.  The locale \<open>timeline\<close> states what rendering free time between
  blocks relies on; it is interpreted on the planner's blocks.
\<close>

definition block_kind :: "activity_flexibility \<Rightarrow> plan_block_kind" where
  "block_kind f = (case f of FIXED \<Rightarrow> Kind_FIXED | FLEXIBLE \<Rightarrow> Kind_FLEXIBLE | PROTECTED \<Rightarrow> Kind_PROTECTED)"

definition explanation_code_for :: "plan_activity \<Rightarrow> day_plan_request \<Rightarrow> explanation_code" where
  "explanation_code_for a r =
     (if (case deadline a of None \<Rightarrow> False | Some d \<Rightarrow> utc d < utc (window_start r)) then Code_OVERDUE
      else case flexibility a of
             FIXED \<Rightarrow> Code_FIXED | PROTECTED \<Rightarrow> Code_PROTECTED | FLEXIBLE \<Rightarrow> Code_SCHEDULED)"

definition travel_block :: "placement \<Rightarrow> bool \<Rightarrow> zoneinfo \<Rightarrow> explanation_code \<Rightarrow> plan_block" where
  "travel_block p is_before zone code =
     (let a = pl_activity p;
          (starts_at, ends_at, direction) =
            (if is_before then (reservation_start p, utc (pl_starts_at p), ''to'')
             else (utc (pl_ends_at p), reservation_end p, ''from''))
      in \<lparr>pb_block_id = ''travel-'' @ (if is_before then ''before'' else ''after'') @ '':'' @ activity_id a,
          pb_activity_id = Some (activity_id a),
          pb_title = ''Travel '' @ direction @ '' '' @ title a,
          pb_kind = Kind_TRAVEL,
          pb_starts_at = in_zone zone starts_at,
          pb_ends_at = in_zone zone ends_at,
          pb_display_group = display_group a,
          pb_display_title = Some (py_or (display_title a) (title a)),
          pb_guidance = guidance a,
          pb_deadline = deadline a,
          pb_explanation_code = Some code,
          pb_calendar_eligible = calendar_eligible a,
          pb_personal_micro_event = personal_micro_event a\<rparr>)"

definition available_block :: "zoneinfo \<Rightarrow> instant \<Rightarrow> instant \<Rightarrow> plan_block" where
  "available_block zone starts_at ends_at =
     \<lparr>pb_block_id = ''available:'' @ isoformat (utc_datetime starts_at),
      pb_activity_id = None,
      pb_title = ''Available'',
      pb_kind = Kind_AVAILABLE,
      pb_starts_at = in_zone zone starts_at,
      pb_ends_at = in_zone zone ends_at,
      pb_display_group = None, pb_display_title = None, pb_guidance = [], pb_deadline = None,
      pb_explanation_code = None, pb_calendar_eligible = False, pb_personal_micro_event = False\<rparr>"

definition activity_block :: "zoneinfo \<Rightarrow> explanation_code \<Rightarrow> placement \<Rightarrow> plan_block" where
  "activity_block zone code p =
     (let a = pl_activity p in
      \<lparr>pb_block_id = ''activity:'' @ activity_id a,
       pb_activity_id = Some (activity_id a),
       pb_title = title a,
       pb_kind = block_kind (flexibility a),
       pb_starts_at = in_zone zone (utc (pl_starts_at p)),
       pb_ends_at = in_zone zone (utc (pl_ends_at p)),
       pb_display_group = display_group a,
       pb_display_title = display_title a,
       pb_guidance = guidance a,
       pb_deadline = deadline a,
       pb_explanation_code = Some code,
       pb_calendar_eligible = calendar_eligible a,
       pb_personal_micro_event = personal_micro_event a\<rparr>)"

text \<open>The body of the first loop: the blocks one placement contributes.\<close>

definition placement_blocks :: "zoneinfo \<Rightarrow> day_plan_request \<Rightarrow> placement \<Rightarrow> plan_block list" where
  "placement_blocks zone r p =
     (let a = pl_activity p; code = explanation_code_for a r in
      (if travel_minutes_before a \<noteq> 0 then [travel_block p True zone code] else [])
      @ [activity_block zone code p]
      @ (if travel_minutes_after a \<noteq> 0 then [travel_block p False zone code] else []))"

text \<open>The second loop, with the cursor as an argument, and the block after it.\<close>

fun fill_gaps :: "zoneinfo \<Rightarrow> instant \<Rightarrow> plan_block list \<Rightarrow> instant \<Rightarrow> plan_block list" where
  "fill_gaps zone cursor [] window_end' =
     (if cursor < window_end' then [available_block zone cursor window_end'] else [])"
| "fill_gaps zone cursor (b # bs) window_end' =
     (if cursor < utc (pb_starts_at b) then [available_block zone cursor (utc (pb_starts_at b))] else [])
     @ [b] @ fill_gaps zone (utc (pb_ends_at b)) bs window_end'"

definition block_key :: "plan_block \<Rightarrow> int \<times> string" where
  "block_key b = (utc (pb_starts_at b), pb_block_id b)"

definition build_internal_plan :: "zoneinfo \<Rightarrow> day_plan_request \<Rightarrow> placement list \<Rightarrow> plan_block list" where
  "build_internal_plan zone r placements =
     (let activity_blocks = sort_key block_key (concat (map (placement_blocks zone r) placements))
      in fill_gaps zone (utc (window_start r)) activity_blocks (utc (window_end r)))"

section \<open>Explanations\<close>

definition constraints_of :: "plan_activity \<Rightarrow> string list" where
  "constraints_of a =
     [''duration='' @ str_int (duration_minutes a) @ ''m'']
     @ (case deadline a of None \<Rightarrow> [] | Some d \<Rightarrow> [''deadline='' @ isoformat d])
     @ (if recover_missed_deadline a then [''recover_missed_deadline=true''] else [])
     @ (if dependencies a \<noteq> [] then [''dependencies='' @ join '','' (dependencies a)] else [])
     @ (if travel_minutes_before a \<noteq> 0 \<or> travel_minutes_after a \<noteq> 0
        then [''travel='' @ str_int (travel_minutes_before a) @ ''m/'' @ str_int (travel_minutes_after a) @ ''m''] else [])
     @ [''energy='' @ str_int (energy_required a), ''goal_weight='' @ str_int (goal_weight a)]"

definition overdue_summary :: "plan_activity \<Rightarrow> day_plan_request \<Rightarrow> string" where
  "overdue_summary a r =
     (let overdue_minutes = (case deadline a of None \<Rightarrow> 0
            | Some d \<Rightarrow> (utc (window_start r) - utc d) div minute);
          hours = overdue_minutes div 60; minutes = overdue_minutes mod 60
      in ''Scheduled as explicitly requested recovery work; its deadline was missed by ''
         @ str_int hours @ '' '' @ (if hours = 1 then ''hour'' else ''hours'') @ '' and ''
         @ str_int minutes @ '' '' @ (if minutes = 1 then ''minute'' else ''minutes'')
         @ '' at the planning window.'')"

definition summary_for :: "explanation_code \<Rightarrow> plan_activity \<Rightarrow> day_plan_request \<Rightarrow> string" where
  "summary_for code a r =
     (case code of
        Code_OVERDUE \<Rightarrow> overdue_summary a r
      | Code_FIXED \<Rightarrow> ''Kept at its fixed time and protected from flexible work.''
      | Code_PROTECTED \<Rightarrow> ''Preserved at its protected time before placing flexible work.''
      | Code_SCHEDULED \<Rightarrow> ''Placed in the highest-scoring available minute interval.''
      | Code_INFEASIBLE \<Rightarrow> ''The activity could not be placed without violating constraints.'')"

definition explain_activity ::
  "plan_activity \<Rightarrow> day_plan_request \<Rightarrow> placement list \<Rightarrow> unscheduled_activity list \<Rightarrow> int
   \<Rightarrow> planner_error + task_explanation" where
  "explain_activity a r placements unscheduled dependent_count =
     (case find (\<lambda>item. pl_id item = activity_id a) placements of
        None \<Rightarrow>
          (case find (\<lambda>item. ua_activity_id item = activity_id a) unscheduled of
             None \<Rightarrow> Inl StopIteration
           | Some reason \<Rightarrow> Inr
               \<lparr>te_activity_id = activity_id a, te_code = Code_INFEASIBLE, te_summary = ua_detail reason,
                te_score = score_activity a r (window_start r) dependent_count,
                te_scheduled_block_ids = [], te_constraints = constraints_of a\<rparr>)
      | Some p \<Rightarrow>
          let code = explanation_code_for a r;
              ids = (if travel_minutes_before a \<noteq> 0 then [''travel-before:'' @ activity_id a] else [])
                    @ [''activity:'' @ activity_id a]
                    @ (if travel_minutes_after a \<noteq> 0 then [''travel-after:'' @ activity_id a] else [])
          in Inr
               \<lparr>te_activity_id = activity_id a, te_code = code, te_summary = summary_for code a r,
                te_score = pl_score p, te_scheduled_block_ids = ids, te_constraints = constraints_of a\<rparr>)"

definition infeasible_explanation :: "plan_activity \<Rightarrow> day_plan_request \<Rightarrow> int \<Rightarrow> task_explanation" where
  "infeasible_explanation a r dependent_count =
     \<lparr>te_activity_id = activity_id a, te_code = Code_INFEASIBLE,
      te_summary = ''Fixed or protected reservation violates a hard time constraint or overlaps another interval.'',
      te_score = score_activity a r (fixed_start_of r a) dependent_count,
      te_scheduled_block_ids = [], te_constraints = constraints_of a\<rparr>"

lemma explain_activity_defined:
  assumes "activity_id a \<in> pl_id ` set placements \<union> ua_activity_id ` set unscheduled"
  shows "\<exists>e. explain_activity a r placements unscheduled n = Inr e"
proof (cases "find (\<lambda>item. pl_id item = activity_id a) placements")
  case None
  then have "activity_id a \<notin> pl_id ` set placements" by (auto simp: find_None_iff)
  with assms have "find (\<lambda>item. ua_activity_id item = activity_id a) unscheduled \<noteq> None"
    by (auto simp: find_None_iff)
  with None show ?thesis by (auto simp: explain_activity_def)
qed (auto simp: explain_activity_def Let_def)

section \<open>Tiling\<close>

text \<open>A list of blocks tiles \<open>[s, e)\<close>: each starts where the previous one ends, and none is empty.\<close>

fun tiles :: "('b \<Rightarrow> int) \<Rightarrow> ('b \<Rightarrow> int) \<Rightarrow> int \<Rightarrow> 'b list \<Rightarrow> int \<Rightarrow> bool" where
  "tiles start finish s [] e \<longleftrightarrow> s = e"
| "tiles start finish s (b # bs) e \<longleftrightarrow> start b = s \<and> s < finish b \<and> tiles start finish (finish b) bs e"

locale timeline =
  fixes start finish :: "'b \<Rightarrow> int" and gap :: "int \<Rightarrow> int \<Rightarrow> 'b"
    and render :: "int \<Rightarrow> 'b list \<Rightarrow> int \<Rightarrow> 'b list"
  assumes start_gap: "start (gap s e) = s" and finish_gap: "finish (gap s e) = e"
    and render_Nil: "render c [] e = (if c < e then [gap c e] else [])"
    and render_Cons: "render c (b # bs) e =
      (if c < start b then [gap c (start b)] else []) @ [b] @ render (finish b) bs e"
begin

lemma render_tiles:
  "sorted_wrt (\<lambda>a b. finish a \<le> start b) bs \<Longrightarrow>
   (\<forall>b \<in> set bs. c \<le> start b \<and> start b < finish b \<and> finish b \<le> e) \<Longrightarrow> c \<le> e \<Longrightarrow>
   tiles start finish c (render c bs e) e"
proof (induction bs arbitrary: c)
  case Nil
  then show ?case by (auto simp: render_Nil start_gap finish_gap)
next
  case (Cons b bs)
  then have "tiles start finish (finish b) (render (finish b) bs e) e" by simp
  with Cons.prems show ?case by (auto simp: render_Cons start_gap finish_gap)
qed

lemma render_keeps: "filter (\<lambda>b. \<not> G b) (render c bs e) = filter (\<lambda>b. \<not> G b) bs"
  if "\<And>s e. G (gap s e)" for G
  using that by (induction bs arbitrary: c) (auto simp: render_Nil render_Cons)

end

abbreviation block_start :: "plan_block \<Rightarrow> int" where
  "block_start b \<equiv> utc (pb_starts_at b)"

abbreviation block_end :: "plan_block \<Rightarrow> int" where
  "block_end b \<equiv> utc (pb_ends_at b)"

interpretation day_plan: timeline block_start block_end "available_block zone" "fill_gaps zone" for zone
  by unfold_locales (simp_all add: available_block_def)

section \<open>The rendered plan\<close>

definition disjoint_blocks :: "plan_block \<Rightarrow> plan_block \<Rightarrow> bool" where
  "disjoint_blocks a b \<longleftrightarrow> block_end a \<le> block_start b \<or> block_end b \<le> block_start a"

lemma sorted_wrt_insort_key:
  "(\<And>x y. R x y \<longleftrightarrow> R y x) \<Longrightarrow>
   sorted_wrt R (insort_key f x xs) \<longleftrightarrow> (\<forall>y \<in> set xs. R x y) \<and> sorted_wrt R xs"
  by (induction xs) (auto simp: set_insort_key)

lemma sorted_wrt_sort_key:
  assumes sym: "\<And>x y. R x y \<longleftrightarrow> R y x"
  shows "sorted_wrt R (sort_key f xs) \<longleftrightarrow> sorted_wrt R xs"
  unfolding sort_key_def by (induction xs)
    (simp_all add: sorted_wrt_insort_key [OF sym] flip: sort_key_def)

lemma sorted_wrt_concat:
  "(\<And>xs. xs \<in> set xss \<Longrightarrow> sorted_wrt R xs) \<Longrightarrow>
   sorted_wrt (\<lambda>xs ys. \<forall>x \<in> set xs. \<forall>y \<in> set ys. R x y) xss \<Longrightarrow> sorted_wrt R (concat xss)"
  by (induction xss) (auto simp: sorted_wrt_append)

lemma placed_ok_positive:
  assumes "placed_ok r p" and "well_formed_request r"
  shows "utc (pl_starts_at p) < utc (pl_ends_at p)"
    and "reservation_start p \<le> utc (pl_starts_at p)" and "utc (pl_ends_at p) \<le> reservation_end p"
proof -
  from assms have wf: "well_formed_activity (pl_activity p)"
    by (auto simp: placed_ok_def well_formed_request_def)
  show "utc (pl_starts_at p) < utc (pl_ends_at p)"
  proof (rule ccontr)
    assume "\<not> ?thesis"
    then have "(utc (pl_ends_at p) - utc (pl_starts_at p)) div minute \<le> 0"
      by (simp add: minute_def div_le_dividend)
    with assms(1) wf show False by (simp add: placed_ok_def well_formed_activity_def)
  qed
  from wf show "reservation_start p \<le> utc (pl_starts_at p)" and "utc (pl_ends_at p) \<le> reservation_end p"
    by (simp_all add: well_formed_activity_def reservation_start_def reservation_end_def minute_def)
qed

lemma placement_blocks_bounds:
  assumes "placed_ok r p" and "well_formed_request r" and "b \<in> set (placement_blocks zone r p)"
  shows "reservation_start p \<le> block_start b \<and> block_start b < block_end b \<and> block_end b \<le> reservation_end p"
proof -
  have "0 \<le> travel_minutes_before (pl_activity p)" and "0 \<le> travel_minutes_after (pl_activity p)"
    using assms(1,2) by (auto simp: placed_ok_def well_formed_request_def well_formed_activity_def)
  with assms(3) placed_ok_positive [OF assms(1,2)] show ?thesis
    by (auto simp: placement_blocks_def Let_def travel_block_def activity_block_def
        reservation_start_def reservation_end_def minute_def split: if_splits)
qed

lemma placement_blocks_disjoint: "sorted_wrt disjoint_blocks (placement_blocks zone r p)"
  if "placed_ok r p" "well_formed_request r"
  using placed_ok_positive [OF that]
  by (auto simp: placement_blocks_def Let_def travel_block_def activity_block_def disjoint_blocks_def)

lemma schedule_blocks_disjoint:
  assumes inv: "schedule_inv r ps" and wf: "well_formed_request r"
  shows "sorted_wrt disjoint_blocks (concat (map (placement_blocks zone r) ps))"
proof (rule sorted_wrt_concat)
  show "sorted_wrt disjoint_blocks bs" if "bs \<in> set (map (placement_blocks zone r) ps)" for bs
    using that inv wf by (auto simp: schedule_inv_def placement_blocks_disjoint)
  have sep: "disjoint_blocks b c"
    if "p \<in> set ps" "q \<in> set ps" "\<not> overlaps p q" "b \<in> set (placement_blocks zone r p)"
      "c \<in> set (placement_blocks zone r q)" for p q b c
    using that inv placement_blocks_bounds [OF _ wf that(4)] placement_blocks_bounds [OF _ wf that(5)]
    by (force simp: schedule_inv_def overlaps_def disjoint_blocks_def)
  have "sorted_wrt (\<lambda>p q. \<not> overlaps p q) ps" using inv by (simp add: schedule_inv_def)
  then show "sorted_wrt (\<lambda>xs ys. \<forall>x \<in> set xs. \<forall>y \<in> set ys. disjoint_blocks x y) (map (placement_blocks zone r) ps)"
    unfolding sorted_wrt_map by (rule sorted_wrt_mono_rel [rotated]) (use sep in blast)
qed

lemma sorted_disjoint_chain:
  assumes "sorted (map block_key bs)" and "sorted_wrt disjoint_blocks bs"
    and "\<forall>b \<in> set bs. block_start b < block_end b"
  shows "sorted_wrt (\<lambda>a b. block_end a \<le> block_start b) bs"
  using assms
proof (induction bs)
  case (Cons b bs)
  have "block_start b \<le> block_start c" if "c \<in> set bs" for c
    using Cons.prems(1) that by (auto simp: block_key_def less_eq_prod_def)
  with Cons show ?case by (force simp: disjoint_blocks_def)
qed simp

lemma placed_in_window:
  "placed_ok r p \<Longrightarrow> utc (window_start r) \<le> reservation_start p \<and> reservation_end p \<le> utc (window_end r)"
  by (auto simp: placed_ok_def acceptable_def outside_window_def)

lemma build_internal_plan_tiles:
  assumes inv: "schedule_inv r ps" and wf: "well_formed_request r"
  shows "tiles block_start block_end (utc (window_start r)) (build_internal_plan zone r ps) (utc (window_end r))"
proof -
  let ?bs = "sort_key block_key (concat (map (placement_blocks zone r) ps))"
  have bound: "utc (window_start r) \<le> block_start b \<and> block_start b < block_end b \<and> block_end b \<le> utc (window_end r)"
    if "b \<in> set ?bs" for b
  proof -
    from that obtain p where p: "p \<in> set ps" "b \<in> set (placement_blocks zone r p)" by auto
    then have ok: "placed_ok r p" using inv by (simp add: schedule_inv_def)
    from placement_blocks_bounds [OF ok wf p(2)] placed_in_window [OF ok] show ?thesis by linarith
  qed
  have "sorted_wrt disjoint_blocks ?bs"
    using schedule_blocks_disjoint [OF inv wf] by (subst sorted_wrt_sort_key) (auto simp: disjoint_blocks_def)
  then have "sorted_wrt (\<lambda>a b. block_end a \<le> block_start b) ?bs"
    using bound by (intro sorted_disjoint_chain) auto
  then show ?thesis
    unfolding build_internal_plan_def Let_def using bound wf
    by (intro day_plan.render_tiles) (auto simp: well_formed_request_def)
qed

text \<open>Apart from free time, the plan holds exactly the blocks of the placements.\<close>

definition is_available :: "plan_block \<Rightarrow> bool" where
  "is_available b \<longleftrightarrow> pb_kind b = Kind_AVAILABLE"

lemma placement_blocks_not_available: "b \<in> set (placement_blocks zone r p) \<Longrightarrow> \<not> is_available b"
  by (auto simp: placement_blocks_def Let_def travel_block_def activity_block_def is_available_def block_kind_def
      split: if_splits activity_flexibility.splits)

lemma build_internal_plan_blocks:
  "filter (\<lambda>b. \<not> is_available b) (build_internal_plan zone r ps)
   = sort_key block_key (concat (map (placement_blocks zone r) ps))"
proof -
  have "is_available (available_block z s e)" for z s e
    by (simp add: is_available_def available_block_def)
  then have "filter (\<lambda>b. \<not> is_available b) (build_internal_plan zone r ps)
     = filter (\<lambda>b. \<not> is_available b) (sort_key block_key (concat (map (placement_blocks zone r) ps)))"
    unfolding build_internal_plan_def Let_def by (rule day_plan.render_keeps)
  also have "\<dots> = sort_key block_key (concat (map (placement_blocks zone r) ps))"
    by (rule filter_True) (auto dest: placement_blocks_not_available)
  finally show ?thesis .
qed

end
