(* ===== verification/Planner_Projection.thy ===== *)
theory Planner_Projection
  imports Planner_Explanation
begin

text \<open>
  \<open>planner_projection.py\<close>: the calendar projection, which merges neighbouring blocks of one display
  group, and the exact difference to the caller's baseline.
\<close>

definition can_merge :: "calendar_block \<Rightarrow> plan_block \<Rightarrow> string \<Rightarrow> string \<Rightarrow> bool" where
  "can_merge previous block grp ttl \<longleftrightarrow>
     dt_eq (cb_ends_at previous) (pb_starts_at block) \<and> cb_title previous = ttl
     \<and> cb_display_group previous = grp"

definition append_unique :: "string list \<Rightarrow> string \<Rightarrow> string list" where
  "append_unique values v = (if v \<in> set values then values else values @ [v])"

definition append_many_unique :: "string list \<Rightarrow> string list \<Rightarrow> string list" where
  "append_many_unique values additions = foldl append_unique values additions"

definition merge_block :: "calendar_block \<Rightarrow> plan_block \<Rightarrow> string \<Rightarrow> calendar_block" where
  "merge_block previous block aid =
     (let activity_ids = append_unique (cb_source_activity_ids previous) aid;
          deadlines = (case pb_deadline block of
              None \<Rightarrow> cb_deadlines previous
            | Some d \<Rightarrow> if \<exists>x \<in> set (cb_deadlines previous). dt_eq x d then cb_deadlines previous
                        else cb_deadlines previous @ [d]);
          codes = (case pb_explanation_code block of
              None \<Rightarrow> cb_explanation_codes previous
            | Some c \<Rightarrow> if c \<in> set (cb_explanation_codes previous) then cb_explanation_codes previous
                        else cb_explanation_codes previous @ [c])
      in previous\<lparr>
           cb_block_id := ''calendar:'' @ hd activity_ids @ '':'' @ last activity_ids,
           cb_ends_at := pb_ends_at block,
           cb_source_activity_ids := activity_ids,
           cb_segment_titles := append_unique (cb_segment_titles previous) (pb_title block),
           cb_transitions := cb_transitions previous @ [last (cb_segment_titles previous) @ '' -> '' @ pb_title block],
           cb_deadlines := deadlines,
           cb_guidance := append_many_unique (cb_guidance previous) (pb_guidance block),
           cb_explanation_codes := codes\<rparr>)"

definition new_calendar_block :: "plan_block \<Rightarrow> string \<Rightarrow> string \<Rightarrow> string \<Rightarrow> calendar_block" where
  "new_calendar_block block aid grp ttl =
     \<lparr>cb_block_id = ''calendar:'' @ aid @ '':'' @ aid, cb_display_group = grp, cb_title = ttl,
      cb_starts_at = pb_starts_at block, cb_ends_at = pb_ends_at block,
      cb_source_activity_ids = [aid], cb_segment_titles = [pb_title block], cb_transitions = [],
      cb_deadlines = (case pb_deadline block of None \<Rightarrow> [] | Some d \<Rightarrow> [d]),
      cb_guidance = pb_guidance block,
      cb_explanation_codes = (case pb_explanation_code block of None \<Rightarrow> [] | Some c \<Rightarrow> [c])\<rparr>"

text \<open>The body of the loop: \<open>projected\<close> is the list built so far.\<close>

definition project_step :: "calendar_block list \<Rightarrow> plan_block \<Rightarrow> calendar_block list" where
  "project_step projected block =
     (if pb_kind block = Kind_AVAILABLE \<or> \<not> pb_calendar_eligible block \<or> pb_personal_micro_event block
      then projected
      else case pb_activity_id block of
        None \<Rightarrow> projected
      | Some aid \<Rightarrow>
          let grp = py_or (pb_display_group block) aid;
              ttl = py_or (pb_display_title block) (pb_title block)
          in if projected \<noteq> [] \<and> can_merge (last projected) block grp ttl
             then butlast projected @ [merge_block (last projected) block aid]
             else projected @ [new_calendar_block block aid grp ttl])"

definition project_calendar :: "plan_block list \<Rightarrow> calendar_block list" where
  "project_calendar blocks = foldl project_step [] blocks"

section \<open>The difference to the baseline\<close>

definition as_change :: "plan_block \<Rightarrow> block_change" where
  "as_change b = \<lparr>bc_block_id = pb_block_id b, bc_activity_id = py_or (pb_activity_id b) ''unreachable'',
     bc_title = pb_title b, bc_starts_at = pb_starts_at b, bc_ends_at = pb_ends_at b\<rparr>"

definition baseline_change :: "existing_plan_block \<Rightarrow> block_change" where
  "baseline_change b = \<lparr>bc_block_id = xb_block_id b, bc_activity_id = xb_activity_id b,
     bc_title = xb_title b, bc_starts_at = xb_starts_at b, bc_ends_at = xb_ends_at b\<rparr>"

definition moved_change :: "plan_block \<Rightarrow> existing_plan_block \<Rightarrow> moved_block" where
  "moved_change p b = \<lparr>mb_block_id = pb_block_id p, mb_activity_id = py_or (pb_activity_id p) ''unreachable'',
     mb_title = pb_title p, mb_previous_starts_at = xb_starts_at b, mb_previous_ends_at = xb_ends_at b,
     mb_proposed_starts_at = pb_starts_at p, mb_proposed_ends_at = pb_ends_at p\<rparr>"

definition proposed_blocks :: "plan_block list \<Rightarrow> plan_block list" where
  "proposed_blocks blocks = dict_by pb_block_id
     (filter (\<lambda>b. pb_activity_id b \<noteq> None \<and> pb_kind b \<noteq> Kind_AVAILABLE) blocks)"

definition keys_of :: "('a \<Rightarrow> string) \<Rightarrow> 'a list \<Rightarrow> string set" where
  "keys_of key d = set (map key d)"

definition build_diff :: "day_plan_request \<Rightarrow> plan_block list \<Rightarrow> plan_diff" where
  "build_diff r blocks =
     (let proposed = proposed_blocks blocks;
          baseline = dict_by xb_block_id (baseline_blocks r);
          pk = keys_of pb_block_id proposed; bk = keys_of xb_block_id baseline
      in \<lparr>added = List.map_filter (\<lambda>i. map_option as_change (dict_get pb_block_id proposed i))
                   (sorted_list_of_set (pk - bk)),
          removed = List.map_filter (\<lambda>i. map_option baseline_change (dict_get xb_block_id baseline i))
                   (sorted_list_of_set (bk - pk)),
          moved = List.map_filter (\<lambda>i.
                     case (dict_get pb_block_id proposed i, dict_get xb_block_id baseline i) of
                       (Some p, Some b) \<Rightarrow>
                         if \<not> dt_eq (pb_starts_at p) (xb_starts_at b) \<or> \<not> dt_eq (pb_ends_at p) (xb_ends_at b)
                         then Some (moved_change p b) else None
                     | _ \<Rightarrow> None)
                   (sorted_list_of_set (pk \<inter> bk))\<rparr>)"

section \<open>What the projection shows\<close>

definition projectable :: "plan_block \<Rightarrow> bool" where
  "projectable b \<longleftrightarrow> pb_kind b \<noteq> Kind_AVAILABLE \<and> pb_calendar_eligible b \<and> \<not> pb_personal_micro_event b
     \<and> pb_activity_id b \<noteq> None"

lemma project_step_skip: "\<not> projectable b \<Longrightarrow> project_step projected b = projected"
  by (auto simp: project_step_def projectable_def split: option.splits)

lemma project_step_take:
  assumes "projectable b" and "pb_activity_id b = Some aid"
  obtains (merge) front previous where "projected = front @ [previous]"
      "dt_eq (cb_ends_at previous) (pb_starts_at b)" "cb_title previous = py_or (pb_display_title b) (pb_title b)"
      "cb_display_group previous = py_or (pb_display_group b) aid"
      "project_step projected b = front @ [merge_block previous b aid]"
  | (fresh) "project_step projected b = projected @ [new_calendar_block b aid
      (py_or (pb_display_group b) aid) (py_or (pb_display_title b) (pb_title b))]"
proof (cases "projected \<noteq> [] \<and> can_merge (last projected) b (py_or (pb_display_group b) aid)
    (py_or (pb_display_title b) (pb_title b))")
  case True
  then have "projected = butlast projected @ [last projected]" by simp
  then show ?thesis using merge [of "butlast projected" "last projected"] True assms
    by (auto simp: project_step_def projectable_def can_merge_def Let_def)
next
  case False
  then show ?thesis using fresh assms by (auto simp: project_step_def projectable_def Let_def)
qed

definition source_ids :: "calendar_block list \<Rightarrow> string set" where
  "source_ids cs = (\<Union>c \<in> set cs. set (cb_source_activity_ids c))"

lemma append_unique_set [simp]: "set (append_unique xs x) = insert x (set xs)"
  by (auto simp: append_unique_def)

lemma merge_block_simps [simp]:
  "cb_source_activity_ids (merge_block c b aid) = append_unique (cb_source_activity_ids c) aid"
  "cb_starts_at (merge_block c b aid) = cb_starts_at c" "cb_ends_at (merge_block c b aid) = pb_ends_at b"
  "cb_title (merge_block c b aid) = cb_title c" "cb_display_group (merge_block c b aid) = cb_display_group c"
  by (simp_all add: merge_block_def Let_def)

lemma new_calendar_block_simps [simp]:
  "cb_source_activity_ids (new_calendar_block b aid g t) = [aid]"
  "cb_starts_at (new_calendar_block b aid g t) = pb_starts_at b"
  "cb_ends_at (new_calendar_block b aid g t) = pb_ends_at b"
  by (simp_all add: new_calendar_block_def)

lemma source_ids_step:
  "source_ids (project_step projected b) = source_ids projected \<union> (if projectable b then set_option (pb_activity_id b) else {})"
proof (cases "projectable b")
  case True
  then obtain aid where aid: "pb_activity_id b = Some aid" by (auto simp: projectable_def)
  show ?thesis
    by (rule project_step_take [OF True aid, of projected]) (auto simp: source_ids_def True aid)
qed (simp add: project_step_skip)

lemma source_ids_fold:
  "source_ids (foldl project_step projected bs) =
   source_ids projected \<union> {aid. \<exists>b \<in> set bs. projectable b \<and> pb_activity_id b = Some aid}"
  by (induction bs arbitrary: projected) (auto simp: source_ids_step)

lemma source_ids_project:
  "source_ids (project_calendar bs) = {aid. \<exists>b \<in> set bs. projectable b \<and> pb_activity_id b = Some aid}"
  by (simp add: project_calendar_def source_ids_fold) (simp add: source_ids_def)

section \<open>Calendar time is plan time\<close>

definition block_minutes :: "plan_block list \<Rightarrow> int" where
  "block_minutes bs = (\<Sum>b \<leftarrow> bs. block_end b - block_start b)"

definition calendar_minutes :: "calendar_block list \<Rightarrow> int" where
  "calendar_minutes cs = (\<Sum>c \<leftarrow> cs. utc (cb_ends_at c) - utc (cb_starts_at c))"

text \<open>Clock readings identify instants among the blocks: no repeated hour separates two of them.\<close>

definition unambiguous :: "plan_block list \<Rightarrow> bool" where
  "unambiguous bs \<longleftrightarrow> (\<forall>b \<in> set bs. \<forall>c \<in> set bs.
     dt_eq (pb_ends_at b) (pb_starts_at c) \<longrightarrow> block_end b = block_start c)"

lemma calendar_minutes_fold:
  assumes "\<forall>c \<in> set projected. \<exists>b \<in> set all. cb_ends_at c = pb_ends_at b"
    and "set bs \<subseteq> set all" and "unambiguous all"
  shows "calendar_minutes (foldl project_step projected bs) =
     calendar_minutes projected + block_minutes (filter projectable bs)"
  using assms
proof (induction bs arbitrary: projected)
  case Nil
  then show ?case by (simp add: block_minutes_def)
next
  case (Cons b bs)
  show ?case
  proof (cases "projectable b")
    case False
    with Cons show ?thesis by (simp add: project_step_skip)
  next
    case True
    then obtain aid where aid: "pb_activity_id b = Some aid" by (auto simp: projectable_def)
    from True aid have "calendar_minutes (project_step projected b)
        = calendar_minutes projected + (block_end b - block_start b)
        \<and> (\<forall>c \<in> set (project_step projected b). \<exists>b \<in> set all. cb_ends_at c = pb_ends_at b)"
    proof (rule project_step_take [of b aid projected])
      fix front previous
      assume m: "projected = front @ [previous]" "dt_eq (cb_ends_at previous) (pb_starts_at b)"
        "project_step projected b = front @ [merge_block previous b aid]"
      then have "utc (cb_ends_at previous) = block_start b"
        using Cons.prems by (fastforce simp: unambiguous_def)
      with m Cons.prems show ?thesis by (auto simp: calendar_minutes_def)
    qed (use Cons.prems in \<open>auto simp: calendar_minutes_def\<close>)
    with Cons True show ?thesis by (simp add: block_minutes_def)
  qed
qed

lemma calendar_minutes_project:
  "unambiguous bs \<Longrightarrow> calendar_minutes (project_calendar bs) = block_minutes (filter projectable bs)"
  using calendar_minutes_fold [of "[]" bs bs] by (simp add: project_calendar_def calendar_minutes_def)

section \<open>What the difference says\<close>

lemma map_filter_total: "(\<And>x. x \<in> set xs \<Longrightarrow> f x = Some (g x)) \<Longrightarrow> List.map_filter f xs = map g xs"
  by (induction xs) (auto simp: List.map_filter_simps)

lemma find_map_filter:
  assumes "\<And>x y. f x = Some y \<Longrightarrow> k y = x"
  shows "find (\<lambda>y. k y = i) (List.map_filter f xs) = (if i \<in> set xs then f i else None)"
proof (induction xs)
  case (Cons x xs)
  then show ?case using assms by (cases "f x") (auto simp: List.map_filter_simps)
qed (simp add: List.map_filter_simps)

text \<open>The interval a block has after the difference is applied to the baseline.\<close>

definition patched_interval ::
  "existing_plan_block list \<Rightarrow> plan_diff \<Rightarrow> string \<Rightarrow> (datetime \<times> datetime) option" where
  "patched_interval base d i =
     (case find (\<lambda>c. bc_block_id c = i) (added d) of
        Some c \<Rightarrow> Some (bc_starts_at c, bc_ends_at c)
      | None \<Rightarrow>
          (case find (\<lambda>m. mb_block_id m = i) (moved d) of
             Some m \<Rightarrow> Some (mb_proposed_starts_at m, mb_proposed_ends_at m)
           | None \<Rightarrow>
               if find (\<lambda>c. bc_block_id c = i) (removed d) \<noteq> None then None
               else map_option (\<lambda>b. (xb_starts_at b, xb_ends_at b)) (dict_get xb_block_id base i)))"

definition same_interval :: "(datetime \<times> datetime) option \<Rightarrow> (datetime \<times> datetime) option \<Rightarrow> bool" where
  "same_interval x y \<longleftrightarrow> rel_option (\<lambda>(s, e) (s', e'). dt_eq s s' \<and> dt_eq e e') x y"

definition proposed_interval :: "plan_block list \<Rightarrow> string \<Rightarrow> (datetime \<times> datetime) option" where
  "proposed_interval blocks i =
     map_option (\<lambda>b. (pb_starts_at b, pb_ends_at b)) (dict_get pb_block_id (proposed_blocks blocks) i)"

lemma dict_get_key_mem: "dict_get key d i = None \<longleftrightarrow> i \<notin> keys_of key d"
  by (simp add: dict_get_None keys_of_def)

lemma dict_get_not_key: "i \<notin> keys_of key d \<Longrightarrow> dict_get key d i = None"
  by (simp add: dict_get_key_mem)

lemma find_sorted_keys:
  assumes "\<And>x y. f x = Some y \<Longrightarrow> k y = x" and "finite S"
  shows "find (\<lambda>y. k y = i) (List.map_filter f (sorted_list_of_set S)) = (if i \<in> S then f i else None)"
  using assms by (subst find_map_filter) auto

lemma finite_keys_of [simp]: "finite (keys_of key d)"
  by (simp add: keys_of_def)

lemma find_added:
  "find (\<lambda>c. bc_block_id c = i) (added (build_diff r blocks)) =
   (if i \<in> keys_of xb_block_id (dict_by xb_block_id (baseline_blocks r)) then None
    else map_option as_change (dict_get pb_block_id (proposed_blocks blocks) i))"
proof -
  have key: "map_option as_change (dict_get pb_block_id (proposed_blocks blocks) x) = Some y \<Longrightarrow> bc_block_id y = x" for x y
    by (auto simp: as_change_def dest: dict_get_Some)
  show ?thesis
    unfolding build_diff_def Let_def plan_diff.simps
    by (subst find_sorted_keys [OF key]) (auto simp: dict_get_not_key)
qed

lemma find_removed:
  "find (\<lambda>c. bc_block_id c = i) (removed (build_diff r blocks)) =
   (if i \<in> keys_of pb_block_id (proposed_blocks blocks) then None
    else map_option baseline_change (dict_get xb_block_id (dict_by xb_block_id (baseline_blocks r)) i))"
proof -
  have key: "map_option baseline_change (dict_get xb_block_id (dict_by xb_block_id (baseline_blocks r)) x) = Some y
      \<Longrightarrow> bc_block_id y = x" for x y
    by (auto simp: baseline_change_def dest: dict_get_Some)
  show ?thesis
    unfolding build_diff_def Let_def plan_diff.simps
    by (subst find_sorted_keys [OF key]) (auto simp: dict_get_not_key)
qed

lemma find_moved:
  "find (\<lambda>m. mb_block_id m = i) (moved (build_diff r blocks)) =
   (case (dict_get pb_block_id (proposed_blocks blocks) i,
          dict_get xb_block_id (dict_by xb_block_id (baseline_blocks r)) i) of
      (Some p, Some b) \<Rightarrow>
        if \<not> dt_eq (pb_starts_at p) (xb_starts_at b) \<or> \<not> dt_eq (pb_ends_at p) (xb_ends_at b)
        then Some (moved_change p b) else None
    | _ \<Rightarrow> None)"
proof -
  let ?f = "\<lambda>i. case (dict_get pb_block_id (proposed_blocks blocks) i,
          dict_get xb_block_id (dict_by xb_block_id (baseline_blocks r)) i) of
      (Some p, Some b) \<Rightarrow>
        if \<not> dt_eq (pb_starts_at p) (xb_starts_at b) \<or> \<not> dt_eq (pb_ends_at p) (xb_ends_at b)
        then Some (moved_change p b) else None
    | _ \<Rightarrow> None"
  let ?keys = "keys_of pb_block_id (proposed_blocks blocks) \<inter> keys_of xb_block_id (dict_by xb_block_id (baseline_blocks r))"
  have key: "?f x = Some y \<Longrightarrow> mb_block_id y = x" for x y
    by (auto simp: moved_change_def split: option.splits if_splits dest: dict_get_Some)
  have "i \<notin> ?keys \<Longrightarrow> ?f i = None"
    by (auto simp: dict_get_not_key split: option.splits)
  then have "find (\<lambda>m. mb_block_id m = i) (List.map_filter ?f (sorted_list_of_set ?keys)) = ?f i"
    by (subst find_sorted_keys [OF key]) auto
  then show ?thesis by (simp add: build_diff_def Let_def)
qed

lemma build_diff_patches:
  assumes "distinct (map xb_block_id (baseline_blocks r))"
  shows "same_interval (patched_interval (baseline_blocks r) (build_diff r blocks) i) (proposed_interval blocks i)"
proof -
  have base: "dict_by xb_block_id (baseline_blocks r) = baseline_blocks r" using assms by simp
  show ?thesis
    unfolding patched_interval_def find_added find_removed find_moved base proposed_interval_def same_interval_def
    by (cases "dict_get pb_block_id (proposed_blocks blocks) i"; cases "dict_get xb_block_id (baseline_blocks r) i")
      (auto simp: as_change_def moved_change_def dt_eq_refl simp flip: dict_get_key_mem
        intro: dt_eq_commute [THEN iffD1])
qed

end
