(* ===== verification/Planner.thy ===== *)
theory Planner
  imports Planner_Projection
begin

text \<open>
  \<open>planner.py\<close>: the proposed day and the proposed week, and the properties of the planner.  The
  request fingerprint is SHA-256 over pydantic's JSON dump; both are parameters (\<open>env\<close>), as is the
  JSON round trip of \<open>propose_week\<close>.
\<close>

record planner_env =
  model_dump_json :: "day_plan_request \<Rightarrow> string set \<Rightarrow> string"
  sha256_hexdigest :: "string \<Rightarrow> string"

definition fixed_conflict :: "string set \<Rightarrow> string \<Rightarrow> unscheduled_activity" where
  "fixed_conflict conflicts i =
     \<lparr>ua_activity_id = i, ua_reason = FIXED_CONFLICT,
      ua_detail = ''Fixed or protected reservation violates a hard time constraint or overlaps another reservation.'',
      ua_blocking_activity_ids = sorted_list_of_set (conflicts - {i})\<rparr>"

definition rejected_activity :: "string set \<Rightarrow> plan_activity \<Rightarrow> unscheduled_activity" where
  "rejected_activity broken a =
     \<lparr>ua_activity_id = activity_id a, ua_reason = DEPENDENCY_UNSCHEDULED,
      ua_detail = ''Required fixed schedule has unmet or reversed dependencies; no plan emitted.'',
      ua_blocking_activity_ids = sorted_list_of_set broken\<rparr>"

definition proposed ::
  "planner_env \<Rightarrow> day_plan_request \<Rightarrow> plan_status \<Rightarrow> plan_block list \<Rightarrow> calendar_block list
   \<Rightarrow> task_explanation list \<Rightarrow> unscheduled_activity list \<Rightarrow> proposed_day" where
  "proposed env r status blocks calendar explanations unscheduled =
     \<lparr>pd_schema_version = ''lifeos.proposed-day.v1'',
      pd_input_fingerprint = sha256_hexdigest env (model_dump_json env r {''expected_state_revision''}),
      pd_state_revision = state_revision r, pd_timezone = timezone r, pd_status = status,
      pd_schedule_resolution = resolution r, pd_internal_plan = blocks, pd_calendar_projection = calendar,
      pd_explanations = explanations, pd_unscheduled = unscheduled, pd_diff = build_diff r blocks\<rparr>"

definition propose_day :: "planner_env \<Rightarrow> zoneinfo \<Rightarrow> day_plan_request \<Rightarrow> planner_error + proposed_day" where
  "propose_day env zone r =
     (if expected_state_revision r \<noteq> state_revision r
      then Inl (StalePlannerStateError (expected_state_revision r) (state_revision r))
      else let counts = dependent_counts r in
        case place_fixed r counts of
          Inl fixed_result \<Rightarrow>
            let explanations = map (\<lambda>a. infeasible_explanation a r (counts (activity_id a)))
                  (filter (\<lambda>a. activity_id a \<in> fixed_result) (activities r));
                unscheduled = map (fixed_conflict fixed_result) (sorted_list_of_set fixed_result)
            in Inr (proposed env r INFEASIBLE [] [] explanations unscheduled)
        | Inr fixed_result \<Rightarrow>
            let (placements, unscheduled) = place_flexible zone r fixed_result counts;
                broken = invalid_dependencies placements
            in if broken \<noteq> {} then
                 let rejected = map (rejected_activity broken) (activities r) in
                 ebind (emapM (\<lambda>a. explain_activity a r [] rejected (counts (activity_id a))) (activities r))
                   (\<lambda>explanations. Inr (proposed env r INFEASIBLE [] [] explanations rejected))
               else
                 let blocks = build_internal_plan zone r placements in
                 ebind (emapM (\<lambda>a. explain_activity a r placements unscheduled (counts (activity_id a))) (activities r))
                   (\<lambda>explanations.
                      let status = (if unscheduled \<noteq> []
                                    then (if placements \<noteq> [] then PARTIAL else INFEASIBLE) else FEASIBLE)
                      in Inr (proposed env r status blocks (project_calendar blocks) explanations unscheduled)))"

text \<open>
  \<open>propose_week\<close> validates a JSON round trip of the request, then plans it as one horizon.
\<close>

definition propose_week ::
  "planner_env \<Rightarrow> (string \<Rightarrow> zoneinfo option) \<Rightarrow> (day_plan_request \<Rightarrow> day_plan_request) \<Rightarrow> day_plan_request
   \<Rightarrow> planner_error + proposed_day" where
  "propose_week env zones json_round_trip r =
     (let validated = json_round_trip r in
      ebind (validate_week zones validated) (\<lambda>_.
        case zones (timezone validated) of
          None \<Rightarrow> Inl (ValueError (''unknown timezone: '' @ timezone validated))
        | Some zone \<Rightarrow> propose_day env zone validated))"

section \<open>The outcomes of \<open>propose_day\<close>\<close>

lemma proposed_simps [simp]:
  "pd_internal_plan (proposed env r st bs cal ex un) = bs"
  "pd_calendar_projection (proposed env r st bs cal ex un) = cal"
  "pd_unscheduled (proposed env r st bs cal ex un) = un"
  "pd_explanations (proposed env r st bs cal ex un) = ex"
  "pd_status (proposed env r st bs cal ex un) = st"
  "pd_diff (proposed env r st bs cal ex un) = build_diff r bs"
  by (simp_all add: proposed_def)

lemma explanations_defined:
  assumes "\<forall>a \<in> set as. activity_id a \<in> pl_id ` set ps \<union> ua_activity_id ` set us"
  shows "\<exists>es. emapM (\<lambda>a. explain_activity a r ps us (counts (activity_id a))) as = Inr es"
  using assms by (intro emapM_total explain_activity_defined) auto

lemma accounted_ids:
  "flex_inv zone r counts [] ps sch us \<Longrightarrow> a \<in> set (activities r) \<Longrightarrow>
   activity_id a \<in> pl_id ` set ps \<union> ua_activity_id ` set us"
proof -
  assume inv: "flex_inv zone r counts [] ps sch us" and a: "a \<in> set (activities r)"
  from inv have "set_mset (mset (map pl_id ps @ map ua_activity_id us)) = set_mset (mset (map activity_id (activities r)))"
    by (simp add: flex_inv_def accounted_def)
  then have "set (map pl_id ps @ map ua_activity_id us) = activity_id ` set (activities r)"
    unfolding set_mset_mset by simp
  with a show ?thesis by auto
qed

text \<open>
  Every proposal of a well-formed, current request has one of three shapes: a fixed conflict, a
  rejected dependency order, or a schedule.
\<close>

lemma propose_day_cases:
  assumes wf: "well_formed_request r" and cur: "expected_state_revision r = state_revision r"
  obtains (conflict) c where "place_fixed r (dependent_counts r) = Inl c" "c \<noteq> {}"
      "propose_day env zone r = Inr (proposed env r INFEASIBLE [] []
         (map (\<lambda>a. infeasible_explanation a r (dependent_counts r (activity_id a)))
            (filter (\<lambda>a. activity_id a \<in> c) (activities r)))
         (map (fixed_conflict c) (sorted_list_of_set c)))"
  | (rejected) ps us es where "flex_inv zone r (dependent_counts r) [] ps (pl_id ` set ps) us"
      "invalid_dependencies ps \<noteq> {}"
      "propose_day env zone r = Inr (proposed env r INFEASIBLE [] [] es
         (map (rejected_activity (invalid_dependencies ps)) (activities r)))"
  | (schedule) ps us es where "flex_inv zone r (dependent_counts r) [] ps (pl_id ` set ps) us"
      "invalid_dependencies ps = {}"
      "emapM (\<lambda>a. explain_activity a r ps us (dependent_counts r (activity_id a))) (activities r) = Inr es"
      "propose_day env zone r = Inr (proposed env r
         (if us \<noteq> [] then (if ps \<noteq> [] then PARTIAL else INFEASIBLE) else FEASIBLE)
         (build_internal_plan zone r ps) (project_calendar (build_internal_plan zone r ps)) es us)"
proof (cases "place_fixed r (dependent_counts r)")
  case (Inl c)
  then have "c \<noteq> {}" by (auto simp: place_fixed_def Let_def split: prod.splits if_splits)
  with Inl cur conflict show ?thesis by (simp add: propose_day_def Let_def)
next
  case (Inr ps0)
  obtain ps us where pf: "place_flexible zone r ps0 (dependent_counts r) = (ps, us)" by fastforce
  note inv = place_flexible_inv(1) [OF wf Inr pf]
  show ?thesis
  proof (cases "invalid_dependencies ps = {}")
    case True
    obtain es where es: "emapM (\<lambda>a. explain_activity a r ps us (dependent_counts r (activity_id a))) (activities r) = Inr es"
      using explanations_defined accounted_ids [OF inv] by blast
    show ?thesis using inv True es
      by (rule schedule) (simp add: propose_day_def cur Inr pf True es Let_def)
  next
    case False
    let ?rej = "map (rejected_activity (invalid_dependencies ps)) (activities r)"
    obtain es where es: "emapM (\<lambda>a. explain_activity a r [] ?rej (dependent_counts r (activity_id a))) (activities r) = Inr es"
      using explanations_defined [of "activities r" "[]" ?rej r] by (force simp: rejected_activity_def)
    show ?thesis using inv False
      by (rule rejected) (simp add: propose_day_def cur Inr pf False es Let_def)
  qed
qed

section \<open>Blocks and placements\<close>

definition activity_blocks :: "plan_block list \<Rightarrow> plan_block list" where
  "activity_blocks bs = filter (\<lambda>b. pb_kind b \<noteq> Kind_AVAILABLE \<and> pb_kind b \<noteq> Kind_TRAVEL) bs"

lemma block_kind_simps [simp]: "block_kind f \<noteq> Kind_AVAILABLE" "block_kind f \<noteq> Kind_TRAVEL"
  by (simp_all add: block_kind_def split: activity_flexibility.split)

lemma activity_blocks_of_placement:
  "activity_blocks (placement_blocks zone r p) = [activity_block zone (explanation_code_for (pl_activity p) r) p]"
  by (auto simp: activity_blocks_def placement_blocks_def Let_def travel_block_def activity_block_def)

lemma activity_blocks_concat:
  "activity_blocks (concat (map (placement_blocks zone r) ps))
   = map (\<lambda>p. activity_block zone (explanation_code_for (pl_activity p) r) p) ps"
proof (induction ps)
  case (Cons p ps)
  then show ?case using activity_blocks_of_placement [of zone r p] by (simp add: activity_blocks_def)
qed (simp add: activity_blocks_def)

lemma activity_blocks_available: "activity_blocks (filter (\<lambda>b. \<not> is_available b) bs) = activity_blocks bs"
  by (induction bs) (auto simp: activity_blocks_def is_available_def)

lemma mset_activity_blocks_plan:
  "mset (activity_blocks (build_internal_plan zone r ps))
   = mset (map (\<lambda>p. activity_block zone (explanation_code_for (pl_activity p) r) p) ps)"
proof -
  have "mset (activity_blocks (build_internal_plan zone r ps))
      = mset (activity_blocks (sort_key block_key (concat (map (placement_blocks zone r) ps))))"
    by (metis build_internal_plan_blocks activity_blocks_available)
  also have "\<dots> = mset (activity_blocks (concat (map (placement_blocks zone r) ps)))"
    by (simp add: activity_blocks_def)
  finally show ?thesis by (simp add: activity_blocks_concat)
qed

lemma set_activity_blocks_plan:
  "set (activity_blocks (build_internal_plan zone r ps))
   = (\<lambda>p. activity_block zone (explanation_code_for (pl_activity p) r) p) ` set ps"
  using arg_cong [OF mset_activity_blocks_plan [of zone r ps], of set_mset] by simp

lemma activity_block_simps [simp]:
  "pb_activity_id (activity_block zone c p) = Some (pl_id p)"
  "pb_kind (activity_block zone c p) = block_kind (flexibility (pl_activity p))"
  "block_start (activity_block zone c p) = utc (pl_starts_at p)"
  "block_end (activity_block zone c p) = utc (pl_ends_at p)"
  by (simp_all add: activity_block_def Let_def)

lemma tiles_nonempty: "tiles st fi s bs e \<Longrightarrow> s < e \<Longrightarrow> bs \<noteq> []"
  by (cases bs) auto

lemma tiles_length: "tiles st fi s bs e \<Longrightarrow> (\<Sum>b \<leftarrow> bs. fi b - st b) = e - s"
  by (induction bs arbitrary: s) auto

lemma schedule_inv_of_flex_inv: "flex_inv zone r counts fl ps sch us \<Longrightarrow> schedule_inv r ps"
  by (simp add: flex_inv_def)

lemma valid_current:
  assumes "validate_request zones r = Inr ()" and "propose_day env zone r = Inr d"
  shows "well_formed_request r" and "expected_state_revision r = state_revision r"
  using validate_request_well_formed(1) [OF assms(1)] assms(2)
  by (auto simp: propose_day_def split: if_splits)

lemma activity_block_of_placement:
  assumes inv: "flex_inv zone r counts [] ps sch us" and "well_formed_request r"
    and "invalid_dependencies ps = {}" and "p \<in> set ps"
  defines "block \<equiv> \<lambda>p. activity_block zone (explanation_code_for (pl_activity p) r) p"
  shows "pl_activity p \<in> set (activities r)" and "pb_duration_minutes (block p) = duration_minutes (pl_activity p)"
    and "acceptable r p"
    and "flexibility (pl_activity p) \<noteq> FLEXIBLE \<Longrightarrow>
      fixed_start (pl_activity p) = Some (pl_starts_at p) \<and> fixed_end (pl_activity p) = Some (pl_ends_at p)"
    and "i \<in> set (dependencies (pl_activity p)) \<Longrightarrow>
      \<exists>q \<in> set ps. pl_id q = i \<and> utc (pl_ends_at q) \<le> utc (pl_starts_at p)"
proof -
  have "placed_ok r p" using schedule_inv_of_flex_inv [OF inv] assms(4) by (simp add: schedule_inv_def)
  then show "pl_activity p \<in> set (activities r)" "acceptable r p"
    "flexibility (pl_activity p) \<noteq> FLEXIBLE \<Longrightarrow>
      fixed_start (pl_activity p) = Some (pl_starts_at p) \<and> fixed_end (pl_activity p) = Some (pl_ends_at p)"
    "pb_duration_minutes (block p) = duration_minutes (pl_activity p)"
    by (auto simp: placed_ok_def block_def activity_block_def pb_duration_minutes_def Let_def)
  have "distinct (map pl_id ps)" using flex_inv_final_distinct [OF inv assms(2)] by simp
  then show "i \<in> set (dependencies (pl_activity p)) \<Longrightarrow>
      \<exists>q \<in> set ps. pl_id q = i \<and> utc (pl_ends_at q) \<le> utc (pl_starts_at p)"
    using deps_met_of_valid [OF _ assms(3,4)] by (simp add: deps_met_def)
qed

lemma propose_day_tiled:
  assumes "validate_request zones r = Inr ()" and "propose_day env zone r = Inr d" and "pd_internal_plan d \<noteq> []"
  shows "tiles block_start block_end (utc (window_start r)) (pd_internal_plan d) (utc (window_end r))"
  using valid_current [OF assms(1,2)]
proof (cases rule: propose_day_cases [where env = env and zone = zone])
  case (schedule ps us es)
  from build_internal_plan_tiles [OF schedule_inv_of_flex_inv [OF schedule(1)] valid_current(1) [OF assms(1,2)], of zone]
  show ?thesis using schedule(4) assms(2) by auto
qed (use assms(2,3) in auto)

lemma schedule_nonempty:
  assumes "flex_inv zone r counts [] ps sch us" and "well_formed_request r"
  shows "build_internal_plan zone r ps \<noteq> []"
  using build_internal_plan_tiles [OF schedule_inv_of_flex_inv [OF assms(1)] assms(2)] assms(2)
  by (intro tiles_nonempty) (auto simp: well_formed_request_def)

end
