(* ===== verification/Planner_Properties.thy ===== *)
theory Planner_Properties
  imports Planner
begin

text \<open>
  The properties of the day and week planner, with a small concrete request on which each is applied.
\<close>

section \<open>A concrete request\<close>

definition utc_zone :: zoneinfo where
  "utc_zone = \<lparr>zone_key = ''UTC'', utc_to_offset = (\<lambda>_. 0), fold_matters = (\<lambda>_. False)\<rparr>"

definition at_minute :: "int \<Rightarrow> datetime" where
  "at_minute m = in_zone utc_zone (m * minute)"

definition base_activity :: "string \<Rightarrow> int \<Rightarrow> plan_activity" where
  "base_activity i n = \<lparr>activity_id = i, title = i, flexibility = FLEXIBLE, duration_minutes = n,
     fixed_start = None, fixed_end = None, earliest_start = None, latest_end = None, deadline = None,
     recover_missed_deadline = False, dependencies = [], travel_minutes_before = 0, travel_minutes_after = 0,
     energy_required = 3, goal_weight = 0, importance = 5, display_group = None, display_title = None,
     guidance = [], calendar_eligible = True, personal_micro_event = False\<rparr>"

definition ex_meeting :: plan_activity where
  "ex_meeting = (base_activity ''m'' 3)\<lparr>flexibility := FIXED, fixed_start := Some (at_minute 2), fixed_end := Some (at_minute 5)\<rparr>"

definition ex_report :: plan_activity where
  "ex_report = (base_activity ''r'' 2)\<lparr>dependencies := [''m''], travel_minutes_before := 1\<rparr>"

definition ex_long :: plan_activity where
  "ex_long = base_activity ''l'' 9"

definition request_of :: "plan_activity list \<Rightarrow> int \<Rightarrow> existing_plan_block list \<Rightarrow> day_plan_request" where
  "request_of as m base = \<lparr>plan_date = 719163, timezone = ''UTC'', window_start = at_minute 0, window_end = at_minute m,
     state_revision = 4, expected_state_revision = 4, activities = as, energy_windows = [],
     baseline_blocks = base, resolution = default_schedule_resolution\<rparr>"

definition ex_baseline :: "existing_plan_block list" where
  "ex_baseline = [\<lparr>xb_block_id = ''activity:m'', xb_activity_id = ''m'', xb_title = ''m'',
     xb_starts_at = at_minute 1, xb_ends_at = at_minute 4\<rparr>]"

definition ex_request :: day_plan_request where
  "ex_request = request_of [ex_long, ex_report, ex_meeting] 10 ex_baseline"

definition ex_zones :: "string \<Rightarrow> zoneinfo option" where
  "ex_zones k = (if k = ''UTC'' then Some utc_zone else None)"

definition ex_env :: planner_env where
  "ex_env = \<lparr>model_dump_json = (\<lambda>_ _. []), sha256_hexdigest = (\<lambda>s. s)\<rparr>"

definition ex_day :: proposed_day where
  "ex_day = projr (propose_day ex_env utc_zone ex_request)"

lemma ex_request_valid: "validate_request ex_zones ex_request = Inr ()"
  by code_simp

lemma ex_day: "propose_day ex_env utc_zone ex_request = Inr ex_day"
proof -
  have "\<not> isl (propose_day ex_env utc_zone ex_request)" by code_simp
  then show ?thesis by (simp add: ex_day_def)
qed

section \<open>The proposed day\<close>



text \<open>
  C2: the internal plan of a proposal is either empty, and then the proposal is infeasible and has no
  calendar projection, or it tiles the planning window: the first block starts at the window start, every
  block starts exactly where the previous one ends, none is empty, and the last ends at the window end.
\<close>
theorem propose_day_tiles:
  assumes "validate_request zones r = Inr ()" and "propose_day env zone r = Inr d"
  shows "if pd_internal_plan d = [] then pd_status d = INFEASIBLE \<and> pd_calendar_projection d = []
     else tiles (\<lambda>b. utc (pb_starts_at b)) (\<lambda>b. utc (pb_ends_at b))
            (utc (window_start r)) (pd_internal_plan d) (utc (window_end r))"
  using valid_current [OF assms]
proof (cases rule: propose_day_cases [where env = env and zone = zone])
  case (schedule ps us es)
  with schedule_nonempty [OF schedule(1) valid_current(1) [OF assms]] assms(2) have "pd_internal_plan d \<noteq> []" by auto
  with propose_day_tiled [OF assms] show ?thesis by simp
qed (use assms(2) in auto)

theorem propose_day_tiles_witness:
  "pd_internal_plan ex_day \<noteq> [] \<and> tiles (\<lambda>b. utc (pb_starts_at b)) (\<lambda>b. utc (pb_ends_at b))
     (utc (window_start ex_request)) (pd_internal_plan ex_day) (utc (window_end ex_request))"
proof -
  have "pd_internal_plan ex_day \<noteq> []" by code_simp
  then show ?thesis using propose_day_tiles [OF ex_request_valid ex_day] by simp
qed

text \<open>
  C1: every activity block of a proposed plan stands for an activity of the request, lasts its duration,
  keeps its fixed interval when it is fixed or protected, respects earliest start, latest end and hard
  deadline, keeps its travel inside the window, and starts after every prerequisite has ended.
\<close>
theorem propose_day_constraints:
  assumes "validate_request zones r = Inr ()" and "propose_day env zone r = Inr d"
    and "b \<in> set (activity_blocks (pd_internal_plan d))"
  shows "\<exists>a \<in> set (activities r). pb_activity_id b = Some (activity_id a)
     \<and> pb_duration_minutes b = duration_minutes a
     \<and> (flexibility a \<noteq> FLEXIBLE \<longrightarrow> map_option utc (fixed_start a) = Some (utc (pb_starts_at b))
            \<and> map_option utc (fixed_end a) = Some (utc (pb_ends_at b)))
     \<and> (\<forall>e. earliest_start a = Some e \<longrightarrow> utc e \<le> utc (pb_starts_at b))
     \<and> (\<forall>l. latest_end a = Some l \<longrightarrow> utc (pb_ends_at b) \<le> utc l)
     \<and> (\<forall>d. hard_deadline a r = Some d \<longrightarrow> utc (pb_ends_at b) \<le> d)
     \<and> utc (window_start r) \<le> utc (pb_starts_at b) - travel_minutes_before a * minute
     \<and> utc (pb_ends_at b) + travel_minutes_after a * minute \<le> utc (window_end r)
     \<and> (\<forall>i \<in> set (dependencies a). \<exists>c \<in> set (activity_blocks (pd_internal_plan d)).
           pb_activity_id c = Some i \<and> utc (pb_ends_at c) \<le> utc (pb_starts_at b))"
  using valid_current [OF assms(1,2)]
proof (cases rule: propose_day_cases [where env = env and zone = zone])
  case (schedule ps us es)
  let ?block = "\<lambda>p. activity_block zone (explanation_code_for (pl_activity p) r) p"
  from schedule(4) assms(2) have d: "pd_internal_plan d = build_internal_plan zone r ps" by auto
  from assms(3) obtain p where p: "p \<in> set ps" "b = ?block p"
    unfolding d set_activity_blocks_plan by auto
  note facts = activity_block_of_placement [OF schedule(1) valid_current(1) [OF assms(1,2)] schedule(2) p(1)]
  have deps: "\<forall>i \<in> set (dependencies (pl_activity p)). \<exists>c \<in> set (activity_blocks (pd_internal_plan d)).
      pb_activity_id c = Some i \<and> utc (pb_ends_at c) \<le> utc (pb_starts_at b)"
  proof
    fix i assume "i \<in> set (dependencies (pl_activity p))"
    then obtain q where "q \<in> set ps" "pl_id q = i" "utc (pl_ends_at q) \<le> utc (pl_starts_at p)" using facts(5) by blast
    then show "\<exists>c \<in> set (activity_blocks (pd_internal_plan d)). pb_activity_id c = Some i \<and> utc (pb_ends_at c) \<le> utc (pb_starts_at b)"
      unfolding d set_activity_blocks_plan p(2) by (intro bexI [of _ "?block q"]) auto
  qed
  from facts(3) have "(\<forall>e. earliest_start (pl_activity p) = Some e \<longrightarrow> utc e \<le> utc (pl_starts_at p))
      \<and> (\<forall>l. latest_end (pl_activity p) = Some l \<longrightarrow> utc (pl_ends_at p) \<le> utc l)
      \<and> (\<forall>d. hard_deadline (pl_activity p) r = Some d \<longrightarrow> utc (pl_ends_at p) \<le> d)
      \<and> utc (window_start r) \<le> utc (pl_starts_at p) - travel_minutes_before (pl_activity p) * minute
      \<and> utc (pl_ends_at p) + travel_minutes_after (pl_activity p) * minute \<le> utc (window_end r)"
    by (auto simp: acceptable_def outside_window_def satisfies_time_bounds_def reservation_start_def
        reservation_end_def Let_def split: option.splits)
  with facts(1,2,4) deps show ?thesis
    unfolding p(2) by (intro bexI [of _ "pl_activity p"]) auto
qed (use assms(2,3) in \<open>auto simp: activity_blocks_def\<close>)

theorem propose_day_constraints_witness:
  "pb_activity_id (activity_blocks (pd_internal_plan ex_day) ! 1) = Some ''r''
   \<and> (\<exists>a \<in> set (activities ex_request). pb_activity_id (activity_blocks (pd_internal_plan ex_day) ! 1) = Some (activity_id a)
     \<and> (\<forall>i \<in> set (dependencies a). \<exists>c \<in> set (activity_blocks (pd_internal_plan ex_day)). pb_activity_id c = Some i
           \<and> utc (pb_ends_at c) \<le> utc (pb_starts_at (activity_blocks (pd_internal_plan ex_day) ! 1))))"
proof -
  have "1 < length (activity_blocks (pd_internal_plan ex_day))" by code_simp
  then have mem: "activity_blocks (pd_internal_plan ex_day) ! 1 \<in> set (activity_blocks (pd_internal_plan ex_day))"
    by (rule nth_mem)
  have "pb_activity_id (activity_blocks (pd_internal_plan ex_day) ! 1) = Some ''r''" by code_simp
  then show ?thesis using propose_day_constraints [OF ex_request_valid ex_day mem] by blast
qed

text \<open>
  C3: unless the proposal reports a fixed conflict, every activity of the request is accounted for
  exactly once: it has one activity block in the plan or one entry among the unscheduled activities.
\<close>
theorem propose_day_accounts:
  assumes "validate_request zones r = Inr ()" and "propose_day env zone r = Inr d"
    and "\<forall>u \<in> set (pd_unscheduled d). ua_reason u \<noteq> FIXED_CONFLICT"
  shows "mset (map (the \<circ> pb_activity_id) (activity_blocks (pd_internal_plan d)) @ map ua_activity_id (pd_unscheduled d))
     = mset (map activity_id (activities r))"
  using valid_current [OF assms(1,2)]
proof (cases rule: propose_day_cases [where env = env and zone = zone])
  case (conflict c)
  with place_fixed_Inl(2) [OF conflict(1)] obtain i where "i \<in> set (sorted_list_of_set c)" by auto
  then have "fixed_conflict c i \<in> set (pd_unscheduled d)" using conflict(3) assms(2) by auto
  with assms(3) show ?thesis by (auto simp: fixed_conflict_def)
next
  case (rejected ps us es)
  with assms(2) show ?thesis by (auto simp: rejected_activity_def comp_def activity_blocks_def multiset.map_comp)
next
  case (schedule ps us es)
  from schedule(4) assms(2) have d: "pd_internal_plan d = build_internal_plan zone r ps" "pd_unscheduled d = us" by auto
  have "mset (map (the \<circ> pb_activity_id) (activity_blocks (pd_internal_plan d))) = mset (map pl_id ps)"
    by (simp add: d mset_map mset_activity_blocks_plan multiset.map_comp comp_def)
  with schedule(1) show ?thesis by (simp add: d flex_inv_def accounted_def)
qed

theorem propose_day_accounts_witness:
  "mset (map (the \<circ> pb_activity_id) (activity_blocks (pd_internal_plan ex_day)) @ map ua_activity_id (pd_unscheduled ex_day))
     = mset (map activity_id (activities ex_request)) \<and> length (pd_unscheduled ex_day) = 1"
proof -
  have "\<forall>u \<in> set (pd_unscheduled ex_day). ua_reason u \<noteq> FIXED_CONFLICT" by code_simp
  moreover have "length (pd_unscheduled ex_day) = 1" by code_simp
  ultimately show ?thesis using propose_day_accounts [OF ex_request_valid ex_day] by blast
qed

text \<open>
  C4: an activity is reported as having no capacity only when that is true of the finished plan: all its
  prerequisites are placed, and no start on its minute grid that satisfies the hard constraints leaves
  its reservation (travel included) free of the reservations the plan was built from.
\<close>
theorem propose_day_no_capacity:
  assumes "validate_request zones r = Inr ()" and "propose_day env zone r = Inr d"
    and "u \<in> set (pd_unscheduled d)" and "ua_reason u = NO_CAPACITY"
  shows "\<exists>ps. pd_internal_plan d = build_internal_plan zone r ps
     \<and> (\<exists>a \<in> set (activities r). activity_id a = ua_activity_id u \<and> set (dependencies a) \<subseteq> pl_id ` set ps
          \<and> no_slot zone r (dependent_counts r) ps a)"
  using valid_current [OF assms(1,2)]
proof (cases rule: propose_day_cases [where env = env and zone = zone])
  case (conflict c)
  with assms(2-4) show ?thesis by (auto simp: fixed_conflict_def)
next
  case (rejected ps us es)
  with assms(2-4) show ?thesis by (auto simp: rejected_activity_def)
next
  case (schedule ps us es)
  from schedule(4) assms(2) have d: "pd_internal_plan d = build_internal_plan zone r ps" "pd_unscheduled d = us" by auto
  from schedule(1) assms(3,4) show ?thesis
    unfolding d flex_inv_def capacity_inv_def by blast
qed

theorem propose_day_no_capacity_witness:
  "ua_activity_id (hd (pd_unscheduled ex_day)) = ''l'' \<and> (\<exists>ps. pd_internal_plan ex_day = build_internal_plan utc_zone ex_request ps
     \<and> (\<exists>a \<in> set (activities ex_request). activity_id a = ''l''
          \<and> no_slot utc_zone ex_request (dependent_counts ex_request) ps a))"
proof -
  have "length (pd_unscheduled ex_day) = 1" by code_simp
  then have mem: "hd (pd_unscheduled ex_day) \<in> set (pd_unscheduled ex_day)" by (cases "pd_unscheduled ex_day") auto
  have r: "ua_reason (hd (pd_unscheduled ex_day)) = NO_CAPACITY" by code_simp
  have "ua_activity_id (hd (pd_unscheduled ex_day)) = ''l''" by code_simp
  then show ?thesis using propose_day_no_capacity [OF ex_request_valid ex_day mem r] by auto
qed

text \<open>
  A proposal without a plan blames only reservations that cannot move: every blocking activity it
  names is a fixed or protected activity of the request.
\<close>
theorem propose_day_blames_fixed:
  assumes "validate_request zones r = Inr ()" and "propose_day env zone r = Inr d"
    and "pd_internal_plan d = []" and "u \<in> set (pd_unscheduled d)" and "i \<in> set (ua_blocking_activity_ids u)"
  shows "\<exists>a \<in> set (activities r). activity_id a = i \<and> flexibility a \<noteq> FLEXIBLE"
  using valid_current [OF assms(1,2)]
proof (cases rule: propose_day_cases [where env = env and zone = zone])
  case (conflict c)
  with assms(2,4,5) place_fixed_Inl(2) [OF conflict(1)] have "i \<in> c" by (auto simp: fixed_conflict_def)
  with place_fixed_Inl(1) [OF conflict(1)] show ?thesis by auto
next
  case (rejected ps us es)
  have dist: "distinct (map pl_id ps)"
    using flex_inv_final_distinct [OF rejected(1) valid_current(1) [OF assms(1,2)]] by simp
  then have "finite (invalid_dependencies ps)" by (simp add: invalid_dependencies_iff)
  with rejected(3) assms(2,4,5) have "i \<in> invalid_dependencies ps" by (auto simp: rejected_activity_def)
  then obtain p where "p \<in> set ps" "pl_id p = i" "flexibility (pl_activity p) \<noteq> FLEXIBLE"
    using invalid_dependencies_not_flexible [OF schedule_inv_of_flex_inv [OF rejected(1)] dist] by blast
  then show ?thesis using schedule_inv_of_flex_inv [OF rejected(1)]
    by (auto simp: schedule_inv_def placed_ok_def)
next
  case (schedule ps us es)
  with schedule_nonempty [OF schedule(1) valid_current(1) [OF assms(1,2)]] assms(2,3) show ?thesis by auto
qed

definition ex_clash :: day_plan_request where
  "ex_clash = request_of [ex_meeting, ex_meeting\<lparr>activity_id := ''n''\<rparr>] 10 []"

theorem propose_day_blames_fixed_witness:
  "\<exists>a \<in> set (activities ex_clash). activity_id a = ''n'' \<and> flexibility a \<noteq> FLEXIBLE"
proof -
  let ?d = "projr (propose_day ex_env utc_zone ex_clash)"
  have v: "validate_request ex_zones ex_clash = Inr ()" by code_simp
  have "\<not> isl (propose_day ex_env utc_zone ex_clash)" by code_simp
  then have d: "propose_day ex_env utc_zone ex_clash = Inr ?d" by simp
  have e: "pd_internal_plan ?d = []" by code_simp
  have u: "\<exists>u \<in> set (pd_unscheduled ?d). ''n'' \<in> set (ua_blocking_activity_ids u)" by code_simp
  then show ?thesis using propose_day_blames_fixed [OF v d e] by blast
qed

text \<open>
  The fixed and protected activities are accepted exactly when each one, travel included, stays in
  the window and meets its own time bounds, and no two of their reservations overlap.
\<close>
theorem place_fixed_iff:
  assumes "distinct (map activity_id (activities r))"
  shows "(\<exists>ps. place_fixed r counts = Inr ps) \<longleftrightarrow>
    (\<forall>a \<in> set (activities r). flexibility a \<noteq> FLEXIBLE \<longrightarrow> acceptable r (fixed_placement r counts a)
       \<and> (\<forall>b \<in> set (activities r). flexibility b \<noteq> FLEXIBLE \<and> b \<noteq> a \<longrightarrow>
            \<not> overlaps (fixed_placement r counts a) (fixed_placement r counts b)))"
  using assms by (intro place_fixed_accepts) (simp add: distinct_map)

theorem place_fixed_iff_witness:
  "\<not> isl (place_fixed ex_request (\<lambda>_. 0)) \<and> acceptable ex_request (fixed_placement ex_request (\<lambda>_. 0) ex_meeting)"
proof -
  have d: "distinct (map activity_id (activities ex_request))" by code_simp
  have "\<not> isl (place_fixed ex_request (\<lambda>_. 0))" by code_simp
  moreover from this have "\<exists>ps. place_fixed ex_request (\<lambda>_. 0) = Inr ps"
    by (cases "place_fixed ex_request (\<lambda>_. 0)") auto
  moreover have "ex_meeting \<in> set (activities ex_request)" and "flexibility ex_meeting \<noteq> FLEXIBLE"
    by (simp_all add: ex_request_def request_of_def ex_meeting_def)
  ultimately show ?thesis using place_fixed_iff [OF d, of "\<lambda>_. 0"] by blast
qed

section \<open>The minute search\<close>

text \<open>
  C5: the exhaustive search is right in both directions.  When it returns a placement, its start meets
  every hard constraint and overlaps nothing placed, no start on the minute grid that does so scores
  more, and none earlier scores as much.  When it returns nothing although all prerequisites are
  placed, no start on the minute grid meets the constraints without an overlap.
\<close>
theorem best_placement_correct:
  assumes "set (dependencies a) \<subseteq> pl_id ` set ps"
  shows "\<exists>lower upper. placement_bounds a r ps = Some (lower, upper)
     \<and> (case best_placement zone a r ps counts of
          None \<Rightarrow> \<forall>t. start_allowed zone a r counts ps t \<and> (t - lower) mod minute = 0 \<longrightarrow> \<not> free_at zone a r ps counts t
        | Some p \<Rightarrow> \<exists>t. p = candidate_at zone a r counts t \<and> start_allowed zone a r counts ps t
            \<and> free_at zone a r ps counts t
            \<and> (\<forall>t'. start_allowed zone a r counts ps t' \<and> (t' - lower) mod minute = 0 \<and> free_at zone a r ps counts t' \<longrightarrow>
                 s_total (pl_score (candidate_at zone a r counts t')) \<le> s_total (pl_score p)
                 \<and> (t' < t \<longrightarrow> s_total (pl_score (candidate_at zone a r counts t')) < s_total (pl_score p))))"
proof (cases "best_placement zone a r ps counts")
  case None
  from no_slot_of_best_placement [OF None assms] show ?thesis unfolding no_slot_def None by auto
next
  case (Some p)
  obtain lower upper t where b: "placement_bounds a r ps = Some (lower, upper)"
    and t: "t \<in> set (minute_grid lower upper)" "p = candidate_at zone a r counts t" "free_at zone a r ps counts t"
    and opt: "\<And>t'. t' \<in> set (minute_grid lower upper) \<Longrightarrow> free_at zone a r ps counts t' \<Longrightarrow>
           s_total (pl_score (candidate_at zone a r counts t')) \<le> s_total (pl_score p)
           \<and> (t' < t \<longrightarrow> s_total (pl_score (candidate_at zone a r counts t')) < s_total (pl_score p))"
    using best_placement_Some [OF Some] by metis
  have grid: "t' \<in> set (minute_grid lower upper) \<longleftrightarrow> start_allowed zone a r counts ps t' \<and> (t' - lower) mod minute = 0" for t'
    using placement_bounds_exact [OF b, of t' zone counts] by (auto simp: set_minute_grid)
  show ?thesis unfolding Some option.case
    using t opt unfolding grid by (intro exI [of _ lower] exI [of _ upper] conjI b exI [of _ t]) auto
qed

theorem best_placement_correct_witness:
  "\<exists>lower upper. placement_bounds ex_long (request_of [ex_long] 10 []) [] = Some (lower, upper)
     \<and> best_placement utc_zone ex_long (request_of [ex_long] 10 []) [] (\<lambda>_. 0)
        = Some (candidate_at utc_zone ex_long (request_of [ex_long] 10 []) (\<lambda>_. 0) 0)"
proof -
  have "set (dependencies ex_long) \<subseteq> pl_id ` set []" by code_simp
  from best_placement_correct [OF this, of "request_of [ex_long] 10 []" utc_zone "\<lambda>_. 0"]
  obtain lower upper where "placement_bounds ex_long (request_of [ex_long] 10 []) [] = Some (lower, upper)" by blast
  moreover have "best_placement utc_zone ex_long (request_of [ex_long] 10 []) [] (\<lambda>_. 0)
      = Some (candidate_at utc_zone ex_long (request_of [ex_long] 10 []) (\<lambda>_. 0) 0)" by code_simp
  ultimately show ?thesis by blast
qed

section \<open>The calendar projection and the difference\<close>

text \<open>
  C8: the calendar projection shows exactly the activities of the blocks that are calendar eligible and
  not personal micro events: none of them is lost by merging and no other activity leaks.
\<close>
theorem project_calendar_sources:
  "(\<Union>c \<in> set (project_calendar bs). set (cb_source_activity_ids c))
   = {aid. \<exists>b \<in> set bs. pb_kind b \<noteq> Kind_AVAILABLE \<and> pb_calendar_eligible b
              \<and> \<not> pb_personal_micro_event b \<and> pb_activity_id b = Some aid}"
  using source_ids_project [of bs] by (auto simp: source_ids_def projectable_def)

text \<open>
  When clock readings identify the block ends (no repeated hour separates two blocks), merging
  conserves time: the calendar blocks last exactly as long as the plan blocks they show.
\<close>
theorem project_calendar_time:
  assumes "\<forall>b \<in> set bs. \<forall>c \<in> set bs. dt_eq (pb_ends_at b) (pb_starts_at c) \<longrightarrow> utc (pb_ends_at b) = utc (pb_starts_at c)"
  shows "(\<Sum>c \<leftarrow> project_calendar bs. utc (cb_ends_at c) - utc (cb_starts_at c))
     = (\<Sum>b \<leftarrow> filter projectable bs. utc (pb_ends_at b) - utc (pb_starts_at b))"
  using calendar_minutes_project [of bs] assms
  by (simp add: calendar_minutes_def block_minutes_def unambiguous_def)

theorem project_calendar_time_witness:
  "length (project_calendar (pd_internal_plan ex_day)) = 2
   \<and> (\<Sum>c \<leftarrow> project_calendar (pd_internal_plan ex_day). utc (cb_ends_at c) - utc (cb_starts_at c))
     = (\<Sum>b \<leftarrow> filter projectable (pd_internal_plan ex_day). utc (pb_ends_at b) - utc (pb_starts_at b))"
proof
  show "length (project_calendar (pd_internal_plan ex_day)) = 2" by code_simp
  have "\<forall>b \<in> set (pd_internal_plan ex_day). \<forall>c \<in> set (pd_internal_plan ex_day).
      dt_eq (pb_ends_at b) (pb_starts_at c) \<longrightarrow> utc (pb_ends_at b) = utc (pb_starts_at c)" by code_simp
  then show "(\<Sum>c \<leftarrow> project_calendar (pd_internal_plan ex_day). utc (cb_ends_at c) - utc (cb_starts_at c))
     = (\<Sum>b \<leftarrow> filter projectable (pd_internal_plan ex_day). utc (pb_ends_at b) - utc (pb_starts_at b))"
    by (rule project_calendar_time)
qed

text \<open>
  The hypothesis is needed: around the end of daylight saving time two blocks of one display group
  separated by exactly the repeated hour are merged, and the calendar shows the free hour as busy.
\<close>

definition fall_back_zone :: zoneinfo where
  "fall_back_zone = \<lparr>zone_key = ''Europe/Berlin'', utc_to_offset = (\<lambda>t. if t < 60 * minute then 120 * minute else 60 * minute),
     fold_matters = (\<lambda>w. 120 * minute \<le> w \<and> w < 180 * minute)\<rparr>"

definition ex_fall_back :: day_plan_request where
  "ex_fall_back = request_of
     [(base_activity ''a'' 30)\<lparr>flexibility := FIXED, fixed_start := Some (at_minute 0), fixed_end := Some (at_minute 30),
        display_group := Some ''focus'', display_title := Some ''Focus''\<rparr>,
      (base_activity ''b'' 30)\<lparr>flexibility := FIXED, fixed_start := Some (at_minute 90), fixed_end := Some (at_minute 120),
        display_group := Some ''focus'', display_title := Some ''Focus''\<rparr>] 120 []"

lemma fall_back_merges_a_free_hour:
  "map (\<lambda>c. (utc (cb_starts_at c), utc (cb_ends_at c)))
     (pd_calendar_projection (projr (propose_day ex_env fall_back_zone ex_fall_back))) = [(0, 120 * minute)]"
  by code_simp

text \<open>
  The transitions of a merged block name the last new segment title, not the previous segment: with the
  titles A, B, A, C in a row the last transition reads \<open>B -> C\<close>.
\<close>

definition ex_segment :: "string \<Rightarrow> string \<Rightarrow> int \<Rightarrow> plan_activity" where
  "ex_segment i t m = (base_activity i 1)\<lparr>title := t, flexibility := FIXED, fixed_start := Some (at_minute m),
     fixed_end := Some (at_minute (m + 1)), display_group := Some ''focus'', display_title := Some ''Focus''\<rparr>"

lemma repeated_title_transition:
  "map cb_transitions (pd_calendar_projection (projr (propose_day ex_env utc_zone (request_of
     [ex_segment ''1'' ''A'' 0, ex_segment ''2'' ''B'' 1, ex_segment ''3'' ''A'' 2, ex_segment ''4'' ''C'' 3] 4 []))))
   = [[''A -> B'', ''B -> A'', ''B -> C'']]"
  by code_simp



text \<open>
  A proposed week accounts for every one of its 10,080 minutes: when it has a plan, the blocks tile
  the window and their lengths add up to seven days.
\<close>
theorem propose_week_full:
  assumes "propose_week env zones json_round_trip r = Inr d" and "pd_internal_plan d \<noteq> []"
  shows "(\<Sum>b \<leftarrow> pd_internal_plan d. utc (pb_ends_at b) - utc (pb_starts_at b)) = 10080 * minute"
proof -
  let ?v = "json_round_trip r"
  from assms(1) obtain zone where v: "validate_request zones ?v = Inr ()"
    and week: "utc (window_end ?v) - utc (window_start ?v) = 7 * day_us" and p: "propose_day env zone ?v = Inr d"
    by (auto simp: propose_week_def validate_week_def Let_def ebind_Inr_iff split: if_split_asm option.splits)
  from propose_day_tiled [OF v p assms(2)]
  have "(\<Sum>b \<leftarrow> pd_internal_plan d. utc (pb_ends_at b) - utc (pb_starts_at b)) = utc (window_end ?v) - utc (window_start ?v)"
    by (rule tiles_length)
  with week show ?thesis by (simp add: day_us_def minute_def)
qed

definition ex_week :: day_plan_request where
  "ex_week = request_of [ex_meeting] 10080 []"

theorem propose_week_full_witness:
  "(\<Sum>b \<leftarrow> pd_internal_plan (projr (propose_week ex_env ex_zones id ex_week)). utc (pb_ends_at b) - utc (pb_starts_at b))
   = 10080 * minute"
proof -
  let ?d = "projr (propose_week ex_env ex_zones id ex_week)"
  have "\<not> isl (propose_week ex_env ex_zones id ex_week)" by code_simp
  then have d: "propose_week ex_env ex_zones id ex_week = Inr ?d" by simp
  have "pd_internal_plan ?d \<noteq> []" by code_simp
  with d show ?thesis by (rule propose_week_full)
qed

end
