(* ===== verification/Enrollment.thy ===== *)
theory Enrollment
  imports Datetime
begin

text \<open>
  \<open>enrollment.py\<close> and \<open>device_persistence.py\<close>: the device registry, with or without its encrypted table.
  The JSON text of a device (pydantic) and the check of an Ed25519 public key are parameters in
  \<open>device_env\<close>; \<open>codec_ok\<close> is the documented round trip of the former.
\<close>

datatype device_state = ENROLLED | REVOKED

record device =
  dv_device_id :: string
  dv_public_key_fingerprint :: string
  dv_enrolled_at :: datetime
  dv_enrolled_by :: string
  dv_state :: device_state
  dv_revoked_at :: "datetime option"
  dv_revoked_by :: "string option"
  dv_approval_public_key :: "string option"

datatype device_error =
    ForgedDeviceError string
  | RevokedDeviceError string
  | DeviceNotFoundError string
  | DeviceAlreadyEnrolledError string
  | InvalidPublicKey
  | DeviceValidationError

record device_env =
  dump_device :: "device \<Rightarrow> string"
  parse_device :: "string \<Rightarrow> device option"
  public_key_ok :: "string \<Rightarrow> bool"

definition codec_ok :: "device_env \<Rightarrow> bool" where
  "codec_ok env \<longleftrightarrow> (\<forall>d. parse_device env (dump_device env d) = Some d)"

section \<open>The encrypted table\<close>

record device_row =
  row_device_id :: string
  row_fingerprint :: string
  row_record :: string

definition persist_load :: "device_row list \<Rightarrow> string \<Rightarrow> string option" where
  "persist_load rows i = map_option row_record (find (\<lambda>r. row_device_id r = i) rows)"

text \<open>\<open>device_id\<close> is the primary key and \<open>fingerprint\<close> is unique: a duplicate of either is refused.\<close>

definition persist_insert :: "device_row list \<Rightarrow> string \<Rightarrow> string \<Rightarrow> string \<Rightarrow> bool \<times> device_row list" where
  "persist_insert rows i fp rec =
     (if i \<in> row_device_id ` set rows \<or> fp \<in> row_fingerprint ` set rows then (False, rows)
      else (True, rows @ [\<lparr>row_device_id = i, row_fingerprint = fp, row_record = rec\<rparr>]))"

definition persist_revoke :: "device_row list \<Rightarrow> string \<Rightarrow> string \<Rightarrow> device_row list" where
  "persist_revoke rows i rec =
     map (\<lambda>r. if row_device_id r = i then r\<lparr>row_record := rec\<rparr> else r) rows"

section \<open>The registry\<close>

record registry =
  reg_devices :: "string \<Rightarrow> device option"
  reg_by_fingerprint :: "string \<Rightarrow> string option"
  reg_persistence :: "device_row list option"

definition new_registry :: "device_row list option \<Rightarrow> registry" where
  "new_registry persistence =
     \<lparr>reg_devices = Map.empty, reg_by_fingerprint = Map.empty, reg_persistence = persistence\<rparr>"

definition device_of :: "device_env \<Rightarrow> registry \<Rightarrow> string \<Rightarrow> device_error + device option" where
  "device_of env reg i =
     (case reg_persistence reg of
        Some rows \<Rightarrow>
          (case persist_load rows i of
             None \<Rightarrow> Inr None
           | Some rec \<Rightarrow> (case parse_device env rec of None \<Rightarrow> Inl DeviceValidationError | Some d \<Rightarrow> Inr (Some d)))
      | None \<Rightarrow> Inr (reg_devices reg i))"

definition enroll ::
  "device_env \<Rightarrow> datetime \<Rightarrow> registry \<Rightarrow> string \<Rightarrow> string \<Rightarrow> string \<Rightarrow> string option
   \<Rightarrow> device_error + device \<times> registry" where
  "enroll env now reg i fp actor key =
     ebind (device_of env reg i) (\<lambda>existing.
     ebind (require (existing = None) (DeviceAlreadyEnrolledError i)) (\<lambda>_.
     ebind (case reg_by_fingerprint reg fp of Some j \<Rightarrow> Inl (DeviceAlreadyEnrolledError j) | None \<Rightarrow> Inr ()) (\<lambda>_.
     ebind (require (case key of None \<Rightarrow> True | Some k \<Rightarrow> public_key_ok env k) InvalidPublicKey) (\<lambda>_.
     ebind (require (fp \<noteq> [] \<and> actor \<noteq> []) DeviceValidationError) (\<lambda>_.
     let d = \<lparr>dv_device_id = i, dv_public_key_fingerprint = fp, dv_enrolled_at = now, dv_enrolled_by = actor,
              dv_state = ENROLLED, dv_revoked_at = None, dv_revoked_by = None, dv_approval_public_key = key\<rparr>;
         cached = \<lambda>p. reg\<lparr>reg_devices := (reg_devices reg)(i \<mapsto> d),
                          reg_by_fingerprint := (reg_by_fingerprint reg)(fp \<mapsto> i), reg_persistence := p\<rparr>
     in case reg_persistence reg of
          None \<Rightarrow> Inr (d, cached None)
        | Some rows \<Rightarrow>
            let (ok, rows') = persist_insert rows i fp (dump_device env d)
            in if ok then Inr (d, cached (Some rows')) else Inl (DeviceAlreadyEnrolledError i))))))"

definition revoke :: "device_env \<Rightarrow> datetime \<Rightarrow> registry \<Rightarrow> string \<Rightarrow> string \<Rightarrow> device_error + device \<times> registry" where
  "revoke env now reg i actor =
     ebind (device_of env reg i) (\<lambda>existing.
       case existing of
         None \<Rightarrow> Inl (DeviceNotFoundError i)
       | Some d \<Rightarrow>
           let revoked = d\<lparr>dv_state := REVOKED, dv_revoked_at := Some now, dv_revoked_by := Some actor\<rparr>
           in Inr (revoked,
                reg\<lparr>reg_devices := (reg_devices reg)(i \<mapsto> revoked),
                    reg_persistence := map_option (\<lambda>rows. persist_revoke rows i (dump_device env revoked))
                                         (reg_persistence reg)\<rparr>))"

definition verify_mtls_identity :: "device_env \<Rightarrow> registry \<Rightarrow> string \<Rightarrow> string \<Rightarrow> device_error + device" where
  "verify_mtls_identity env reg i fp =
     ebind (device_of env reg i) (\<lambda>existing.
       case existing of
         None \<Rightarrow> Inl (ForgedDeviceError fp)
       | Some d \<Rightarrow>
           if dv_public_key_fingerprint d \<noteq> fp then Inl (ForgedDeviceError fp)
           else if dv_state d \<noteq> ENROLLED then Inl (RevokedDeviceError i) else Inr d)"

definition require_active_device :: "device_env \<Rightarrow> registry \<Rightarrow> string \<Rightarrow> device_error + device" where
  "require_active_device env reg i =
     ebind (device_of env reg i) (\<lambda>existing.
       case existing of
         None \<Rightarrow> Inl (DeviceNotFoundError i)
       | Some d \<Rightarrow> if dv_state d \<noteq> ENROLLED then Inl (RevokedDeviceError i) else Inr d)"

text \<open>The life of a registry: enrollments, revocations, and restarts that lose the caches but not the table.\<close>

inductive registry_step :: "device_env \<Rightarrow> registry \<Rightarrow> registry \<Rightarrow> bool" for env where
  step_enroll: "enroll env now reg i fp actor key = Inr (d, reg') \<Longrightarrow> registry_step env reg reg'"
| step_revoke: "revoke env now reg i actor = Inr (d, reg') \<Longrightarrow> registry_step env reg reg'"
| step_restart: "reg_persistence reg = Some rows \<Longrightarrow> registry_step env reg (new_registry (Some rows))"

abbreviation registry_steps :: "device_env \<Rightarrow> registry \<Rightarrow> registry \<Rightarrow> bool" where
  "registry_steps env \<equiv> (registry_step env)\<^sup>*\<^sup>*"

section \<open>The invariant\<close>

definition row_ok :: "device_env \<Rightarrow> device_row \<Rightarrow> bool" where
  "row_ok env r \<longleftrightarrow> (\<exists>d. parse_device env (row_record r) = Some d \<and> dv_device_id d = row_device_id r
     \<and> dv_public_key_fingerprint d = row_fingerprint r)"

definition registry_inv :: "device_env \<Rightarrow> registry \<Rightarrow> bool" where
  "registry_inv env reg \<longleftrightarrow>
     (case reg_persistence reg of
        Some rows \<Rightarrow> distinct (map row_device_id rows) \<and> distinct (map row_fingerprint rows) \<and> (\<forall>r \<in> set rows. row_ok env r)
      | None \<Rightarrow> \<forall>i d. reg_devices reg i = Some d \<longrightarrow>
          dv_device_id d = i \<and> reg_by_fingerprint reg (dv_public_key_fingerprint d) = Some i)"

lemma registry_inv_new: "registry_inv env (new_registry None)" "registry_inv env (new_registry (Some []))"
  by (simp_all add: registry_inv_def new_registry_def)

lemma persist_load_Some:
  "persist_load rows i = Some rec \<Longrightarrow> \<exists>r \<in> set rows. row_device_id r = i \<and> row_record r = rec"
  by (induction rows) (auto simp: persist_load_def split: if_splits)

lemma persist_load_None: "persist_load rows i = None \<longleftrightarrow> i \<notin> row_device_id ` set rows"
  by (auto simp: persist_load_def find_None_iff)

lemma persist_load_insert:
  assumes "persist_insert rows i fp rec = (True, rows')"
  shows "persist_load rows' j = (if j = i then Some rec else persist_load rows j)"
proof -
  from assms have "find (\<lambda>r. row_device_id r = i) rows = None"
    and "rows' = rows @ [\<lparr>row_device_id = i, row_fingerprint = fp, row_record = rec\<rparr>]"
    by (auto simp: persist_insert_def find_None_iff split: if_splits)
  then show ?thesis by (auto simp: persist_load_def find_append split: option.split)
qed

lemma persist_load_revoke:
  "persist_load (persist_revoke rows i rec) j =
   (if j = i then map_option (\<lambda>_. rec) (persist_load rows j) else persist_load rows j)"
  by (induction rows) (auto simp: persist_load_def persist_revoke_def)

lemma device_of_row:
  assumes "registry_inv env reg" and "reg_persistence reg = Some rows" and "device_of env reg i = Inr (Some d)"
  shows "\<exists>r \<in> set rows. row_device_id r = i \<and> parse_device env (row_record r) = Some d
     \<and> dv_device_id d = i \<and> dv_public_key_fingerprint d = row_fingerprint r"
  using assms
  by (auto simp: device_of_def registry_inv_def row_ok_def split: option.splits dest!: persist_load_Some) fastforce

lemma device_of_identity:
  assumes "registry_inv env reg" and "device_of env reg i = Inr (Some d)"
  shows "dv_device_id d = i"
proof (cases "reg_persistence reg")
  case None
  with assms show ?thesis by (simp add: device_of_def registry_inv_def)
next
  case (Some rows)
  from device_of_row [OF assms(1) Some assms(2)] show ?thesis by blast
qed

lemma device_of_unique:
  assumes inv: "registry_inv env reg" and i: "device_of env reg i = Inr (Some d)" and j: "device_of env reg j = Inr (Some e)"
    and "dv_public_key_fingerprint d = dv_public_key_fingerprint e"
  shows "i = j"
proof (cases "reg_persistence reg")
  case None
  with assms show ?thesis by (simp add: device_of_def registry_inv_def) (metis option.inject)
next
  case (Some rows)
  obtain r r' where "r \<in> set rows" "row_device_id r = i" "row_fingerprint r = dv_public_key_fingerprint d"
      "r' \<in> set rows" "row_device_id r' = j" "row_fingerprint r' = dv_public_key_fingerprint e"
    using device_of_row [OF inv Some i] device_of_row [OF inv Some j] by metis
  moreover have "distinct (map row_fingerprint rows)" using inv Some by (simp add: registry_inv_def)
  ultimately have "r = r'" using assms(4) by (intro inj_onD [of row_fingerprint "set rows"]) (auto simp: distinct_map)
  then show ?thesis using \<open>row_device_id r = i\<close> \<open>row_device_id r' = j\<close> by simp
qed

section \<open>Preservation\<close>

lemma enroll_cases:
  assumes "enroll env now reg i fp actor key = Inr (d, reg')"
  obtains "device_of env reg i = Inr None" "reg_by_fingerprint reg fp = None" "dv_state d = ENROLLED"
    "dv_device_id d = i" "dv_public_key_fingerprint d = fp" "dv_approval_public_key d = key"
    "reg_devices reg' = (reg_devices reg)(i \<mapsto> d)" "reg_by_fingerprint reg' = (reg_by_fingerprint reg)(fp \<mapsto> i)"
    "case reg_persistence reg of None \<Rightarrow> reg_persistence reg' = None
     | Some rows \<Rightarrow> \<exists>rows'. persist_insert rows i fp (dump_device env d) = (True, rows') \<and> reg_persistence reg' = Some rows'"
proof -
  from assms have "device_of env reg i = Inr None" and "reg_by_fingerprint reg fp = None"
    by (auto simp: enroll_def ebind_Inr_iff split: option.splits)
  with assms show thesis
    by (intro that) (auto simp: enroll_def ebind_Inr_iff Let_def split: option.splits prod.splits if_splits)
qed

lemma revoke_cases:
  assumes "revoke env now reg i actor = Inr (d, reg')"
  obtains d0 where "device_of env reg i = Inr (Some d0)"
    "d = d0\<lparr>dv_state := REVOKED, dv_revoked_at := Some now, dv_revoked_by := Some actor\<rparr>"
    "reg' = reg\<lparr>reg_devices := (reg_devices reg)(i \<mapsto> d),
       reg_persistence := map_option (\<lambda>rows. persist_revoke rows i (dump_device env d)) (reg_persistence reg)\<rparr>"
  using assms by (auto simp: revoke_def ebind_Inr_iff Let_def split: option.splits)

lemma device_of_enroll:
  assumes "codec_ok env" and "enroll env now reg i fp actor key = Inr (d, reg')"
  shows "device_of env reg' j = (if j = i then Inr (Some d) else device_of env reg j)"
  using assms(2)
proof (rule enroll_cases)
  assume c: "reg_devices reg' = (reg_devices reg)(i \<mapsto> d)"
    "case reg_persistence reg of None \<Rightarrow> reg_persistence reg' = None
     | Some rows \<Rightarrow> \<exists>rows'. persist_insert rows i fp (dump_device env d) = (True, rows') \<and> reg_persistence reg' = Some rows'"
  show ?thesis
  proof (cases "reg_persistence reg")
    case None
    with c show ?thesis by (simp add: device_of_def)
  next
    case (Some rows)
    with c obtain rows' where "persist_insert rows i fp (dump_device env d) = (True, rows')" "reg_persistence reg' = Some rows'" by auto
    with Some assms(1) show ?thesis by (simp add: device_of_def persist_load_insert codec_ok_def)
  qed
qed

lemma device_of_revoke:
  assumes "codec_ok env" and "revoke env now reg i actor = Inr (d, reg')"
  shows "device_of env reg' j = (if j = i then Inr (Some d) else device_of env reg j)"
  using assms(2)
proof (rule revoke_cases)
  fix d0
  assume c: "device_of env reg i = Inr (Some d0)"
    "reg' = reg\<lparr>reg_devices := (reg_devices reg)(i \<mapsto> d),
       reg_persistence := map_option (\<lambda>rows. persist_revoke rows i (dump_device env d)) (reg_persistence reg)\<rparr>"
  show ?thesis
  proof (cases "reg_persistence reg")
    case None
    with c show ?thesis by (simp add: device_of_def)
  next
    case (Some rows)
    with c(1) have "persist_load rows i \<noteq> None" by (auto simp: device_of_def split: option.splits)
    with Some c assms(1) show ?thesis by (auto simp: device_of_def persist_load_revoke codec_ok_def)
  qed
qed

lemma registry_inv_enroll:
  assumes "codec_ok env" and inv: "registry_inv env reg" and e: "enroll env now reg i fp actor key = Inr (d, reg')"
  shows "registry_inv env reg'"
  using e
proof (rule enroll_cases)
  assume c: "device_of env reg i = Inr None" "reg_by_fingerprint reg fp = None"
    "dv_device_id d = i" "dv_public_key_fingerprint d = fp"
    "reg_devices reg' = (reg_devices reg)(i \<mapsto> d)" "reg_by_fingerprint reg' = (reg_by_fingerprint reg)(fp \<mapsto> i)"
    "case reg_persistence reg of None \<Rightarrow> reg_persistence reg' = None
     | Some rows \<Rightarrow> \<exists>rows'. persist_insert rows i fp (dump_device env d) = (True, rows') \<and> reg_persistence reg' = Some rows'"
  show ?thesis
  proof (cases "reg_persistence reg")
    case None
    then have "\<forall>j e. reg_devices reg j = Some e \<longrightarrow> dv_device_id e = j \<and> reg_by_fingerprint reg (dv_public_key_fingerprint e) = Some j"
      using inv by (simp add: registry_inv_def)
    with c None show ?thesis by (auto simp: registry_inv_def) (metis option.distinct(1))+
  next
    case (Some rows)
    with c(7) obtain rows' where "persist_insert rows i fp (dump_device env d) = (True, rows')" "reg_persistence reg' = Some rows'" by auto
    with c(3,4) Some inv assms(1) show ?thesis
      by (auto simp: registry_inv_def persist_insert_def row_ok_def codec_ok_def split: if_splits)
  qed
qed

lemma registry_inv_revoke:
  assumes "codec_ok env" and inv: "registry_inv env reg" and e: "revoke env now reg i actor = Inr (d, reg')"
  shows "registry_inv env reg'"
  using e
proof (rule revoke_cases)
  fix d0
  assume c: "device_of env reg i = Inr (Some d0)"
    "d = d0\<lparr>dv_state := REVOKED, dv_revoked_at := Some now, dv_revoked_by := Some actor\<rparr>"
    "reg' = reg\<lparr>reg_devices := (reg_devices reg)(i \<mapsto> d),
       reg_persistence := map_option (\<lambda>rows. persist_revoke rows i (dump_device env d)) (reg_persistence reg)\<rparr>"
  show ?thesis
  proof (cases "reg_persistence reg")
    case None
    with c inv show ?thesis by (auto simp: registry_inv_def device_of_def)
  next
    case (Some rows)
    obtain r where r: "r \<in> set rows" "row_device_id r = i" "dv_device_id d0 = i" "dv_public_key_fingerprint d0 = row_fingerprint r"
      using device_of_row [OF inv Some c(1)] by blast
    have dist: "distinct (map row_device_id rows)" "distinct (map row_fingerprint rows)" "\<forall>r \<in> set rows. row_ok env r"
      using inv Some by (simp_all add: registry_inv_def)
    have same: "map row_device_id (persist_revoke rows i rec) = map row_device_id rows"
      "map row_fingerprint (persist_revoke rows i rec) = map row_fingerprint rows" for rec
      by (simp_all add: persist_revoke_def)
    have only: "r' = r" if "r' \<in> set rows" "row_device_id r' = i" for r'
      using that r dist(1) by (auto simp: distinct_map dest: inj_onD)
    have "row_ok env r'" if "r' \<in> set (persist_revoke rows i (dump_device env d))" for r'
      using that only dist(3) r(3,4) assms(1) c(2) by (auto simp: persist_revoke_def row_ok_def codec_ok_def split: if_splits)
    with same dist(1,2) Some c(3) show ?thesis by (simp add: registry_inv_def)
  qed
qed

lemma registry_inv_step: "registry_step env reg reg' \<Longrightarrow> codec_ok env \<Longrightarrow> registry_inv env reg \<Longrightarrow> registry_inv env reg'"
proof (induction rule: registry_step.induct)
  case (step_restart reg rows)
  then show ?case by (simp add: registry_inv_def new_registry_def)
qed (blast intro: registry_inv_enroll registry_inv_revoke)+

lemma registry_inv_steps: "registry_steps env reg reg' \<Longrightarrow> codec_ok env \<Longrightarrow> registry_inv env reg \<Longrightarrow> registry_inv env reg'"
  by (induction rule: rtranclp_induct) (auto intro: registry_inv_step)

definition same_identity :: "device \<Rightarrow> device \<Rightarrow> bool" where
  "same_identity d e \<longleftrightarrow> dv_device_id d = dv_device_id e \<and> dv_public_key_fingerprint d = dv_public_key_fingerprint e
     \<and> dv_approval_public_key d = dv_approval_public_key e \<and> dv_enrolled_at d = dv_enrolled_at e
     \<and> dv_enrolled_by d = dv_enrolled_by e"

lemma registry_step_keeps:
  assumes "codec_ok env" and "registry_step env reg reg'" and i: "device_of env reg i = Inr (Some d)"
  shows "\<exists>d'. device_of env reg' i = Inr (Some d') \<and> same_identity d d' \<and> (dv_state d = REVOKED \<longrightarrow> dv_state d' = REVOKED)"
  using assms(2)
proof cases
  case (step_enroll now j fp actor key e)
  have "j \<noteq> i" using i enroll_cases [OF step_enroll] by fastforce
  with i show ?thesis unfolding device_of_enroll [OF assms(1) step_enroll] by (simp add: same_identity_def)
next
  case (step_revoke now j actor e)
  then show ?thesis
  proof (rule revoke_cases)
    fix d0 assume "device_of env reg j = Inr (Some d0)"
      "e = d0\<lparr>dv_state := REVOKED, dv_revoked_at := Some now, dv_revoked_by := Some actor\<rparr>"
    with i show ?thesis unfolding device_of_revoke [OF assms(1) step_revoke] by (auto simp: same_identity_def)
  qed
next
  case (step_restart rows)
  then show ?thesis using i by (auto simp: device_of_def new_registry_def same_identity_def split: option.splits)
qed

lemma registry_steps_keep:
  assumes "registry_steps env reg reg'" and "codec_ok env" and "device_of env reg i = Inr (Some d)"
  shows "\<exists>d'. device_of env reg' i = Inr (Some d') \<and> same_identity d d' \<and> (dv_state d = REVOKED \<longrightarrow> dv_state d' = REVOKED)"
  using assms(1)
proof (induction rule: rtranclp_induct)
  case base
  with assms(3) show ?case by (simp add: same_identity_def)
next
  case (step reg1 reg2)
  then obtain d1 where d1: "device_of env reg1 i = Inr (Some d1)" "same_identity d d1" "dv_state d = REVOKED \<longrightarrow> dv_state d1 = REVOKED"
    by blast
  from registry_step_keeps [OF assms(2) step(2) d1(1)] d1(2,3) show ?case by (force simp: same_identity_def)
qed

end
