(* ===== verification/Transactions.thy ===== *)
theory Transactions
  imports Prelude
begin

text \<open>
  \<open>transactions.py\<close>: composable transactions of one database connection.  A connection is its durable
  state, the state its statements see, and whether a transaction is open.  Stateful code is an action: it
  takes the state and returns its result or exception together with the new state.
\<close>

section \<open>Actions\<close>

type_synonym ('s, 'e, 'a) action = "'s \<Rightarrow> ('e + 'a) \<times> 's"

definition abind :: "('s, 'e, 'a) action \<Rightarrow> ('a \<Rightarrow> ('s, 'e, 'b) action) \<Rightarrow> ('s, 'e, 'b) action" where
  "abind m f s = (case m s of (Inl e, t) \<Rightarrow> (Inl e, t) | (Inr x, t) \<Rightarrow> f x t)"

definition areturn :: "'a \<Rightarrow> ('s, 'e, 'a) action" where
  "areturn x s = (Inr x, s)"

definition araise :: "'e \<Rightarrow> ('s, 'e, 'a) action" where
  "araise e s = (Inl e, s)"

definition alift :: "'e + 'a \<Rightarrow> ('s, 'e, 'a) action" where
  "alift r s = (r, s)"

definition amodify :: "('s \<Rightarrow> 's) \<Rightarrow> ('s, 'e, unit) action" where
  "amodify f s = (Inr (), f s)"

definition aget :: "('s \<Rightarrow> 'a) \<Rightarrow> ('s, 'e, 'a) action" where
  "aget f s = (Inr (f s), s)"

definition aread :: "('s \<Rightarrow> 'e + 'a) \<Rightarrow> ('s, 'e, 'a) action" where
  "aread f s = (f s, s)"

lemma action_simps [simp, result_simps]:
  "areturn x s = (Inr x, s)" "araise e s = (Inl e, s)" "alift r s = (r, s)"
  "amodify f s = (Inr (), f s)" "aget g s = (Inr (g s), s)" "aread h s = (h s, s)"
  by (simp_all add: aread_def areturn_def araise_def alift_def amodify_def aget_def)

lemma abind_simps [simp, result_simps]:
  "m s = (Inl e, t) \<Longrightarrow> abind m f s = (Inl e, t)"
  "m s = (Inr x, t) \<Longrightarrow> abind m f s = f x t"
  by (simp_all add: abind_def)

lemma abind_Inr_iff [result_simps]:
  "abind m f s = (Inr y, u) \<longleftrightarrow> (\<exists>x t. m s = (Inr x, t) \<and> f x t = (Inr y, u))"
  by (auto simp: abind_def split: prod.splits sum.splits)

lemma abindE [elim!, result_elims]:
  assumes "abind m f s = (Inr y, u)"
  obtains x t where "m s = (Inr x, t)" and "f x t = (Inr y, u)"
  using assms by (auto simp: abind_Inr_iff)

section \<open>Connections\<close>

record 'd connection =
  committed :: 'd
  current :: 'd
  in_transaction :: bool

definition domain_transaction :: "('d connection, 'e, 'a) action \<Rightarrow> ('d connection, 'e, 'a) action" where
  "domain_transaction body c =
     (let nested = in_transaction c;
          (result, c') = body (c\<lparr>in_transaction := True\<rparr>)
      in case result of
           Inr _ \<Rightarrow> (result, if nested then c' else c'\<lparr>committed := current c', in_transaction := False\<rparr>)
         | Inl _ \<Rightarrow> (result, if nested then c'\<lparr>current := current c\<rparr>
                              else c'\<lparr>current := committed c', in_transaction := False\<rparr>))"

text \<open>An action on the tables, run on a connection: it never commits by itself.\<close>

definition on_tables :: "('d, 'e, 'a) action \<Rightarrow> ('d connection, 'e, 'a) action" where
  "on_tables m c = (let (r, d) = m (current c) in (r, c\<lparr>current := d\<rparr>))"

definition idle :: "'d \<Rightarrow> 'd connection" where
  "idle d = \<lparr>committed = d, current = d, in_transaction = False\<rparr>"

text \<open>
  Statements outside of \<open>domain_transaction\<close>, followed by \<open>commit()\<close>: the first statement that writes opens a transaction, and an
  exception leaves it open with the changes made so far.
\<close>

definition then_commit :: "('d, 'e, 'a) action \<Rightarrow> ('d connection, 'e, 'a) action" where
  "then_commit body c =
     (case body (current c) of
        (Inl e, db) \<Rightarrow> (Inl e, c\<lparr>current := db, in_transaction := True\<rparr>)
      | (Inr x, db) \<Rightarrow> (Inr x, idle db))"

text \<open>
  A body keeps the transaction discipline when, inside an open transaction, it leaves the durable state
  and the transaction alone.  Table actions, sequences and nested transactions all do.
\<close>

definition disciplined :: "('d connection, 'e, 'a) action \<Rightarrow> bool" where
  "disciplined m \<longleftrightarrow> (\<forall>c. in_transaction c \<longrightarrow>
     committed (snd (m c)) = committed c \<and> in_transaction (snd (m c)))"

lemma disciplinedD:
  "disciplined m \<Longrightarrow> m c = (r, c') \<Longrightarrow> in_transaction c \<Longrightarrow> committed c' = committed c \<and> in_transaction c'"
  unfolding disciplined_def by (metis snd_conv)

lemma disciplined_on_tables [simp, intro]: "disciplined (on_tables m)"
  by (simp add: disciplined_def on_tables_def Let_def split: prod.split)

lemma disciplined_areturn [simp, intro]: "disciplined (areturn x)" "disciplined (araise e)" "disciplined (alift r)"
  by (simp_all add: disciplined_def)

lemma disciplinedI:
  assumes "\<And>c r c'. in_transaction c \<Longrightarrow> m c = (r, c') \<Longrightarrow> committed c' = committed c \<and> in_transaction c'"
  shows "disciplined m"
  unfolding disciplined_def using assms by (metis prod.collapse)

lemma disciplined_abind [intro]:
  assumes "disciplined m" and "\<And>x. disciplined (f x)"
  shows "disciplined (abind m f)"
proof (rule disciplinedI)
  fix c r c' assume c: "in_transaction c" and eq: "abind m f c = (r, c')"
  obtain r0 c0 where m: "m c = (r0, c0)" by fastforce
  note d0 = disciplinedD [OF assms(1) m c]
  show "committed c' = committed c \<and> in_transaction c'"
  proof (cases r0)
    case (Inl e)
    with m eq d0 show ?thesis by simp
  next
    case (Inr x)
    with m eq have "f x c0 = (r, c')" by simp
    from disciplinedD [OF assms(2) this] d0 show ?thesis by simp
  qed
qed

lemma disciplined_domain_transaction [intro]:
  assumes "disciplined m"
  shows "disciplined (domain_transaction m)"
proof (rule disciplinedI)
  fix c r c' assume c: "in_transaction c" and eq: "domain_transaction m c = (r, c')"
  obtain r0 c0 where m: "m (c\<lparr>in_transaction := True\<rparr>) = (r0, c0)" by fastforce
  from disciplinedD [OF assms m] have "committed c0 = committed c \<and> in_transaction c0" by simp
  with c m eq show "committed c' = committed c \<and> in_transaction c'"
    by (cases r0) (auto simp: domain_transaction_def Let_def)
qed

lemma domain_transaction_outer:
  assumes "disciplined m" and "\<not> in_transaction c" and "current c = committed c"
    and "domain_transaction m c = (r, c')"
  shows "c' = idle (committed c') \<and> (case r of Inl e \<Rightarrow> committed c' = committed c | Inr x \<Rightarrow> True)"
proof -
  obtain r0 c0 where m: "m (c\<lparr>in_transaction := True\<rparr>) = (r0, c0)" by fastforce
  from disciplinedD [OF assms(1) m] have "committed c0 = committed c" by simp
  with assms(2-4) m show ?thesis
    by (cases r0) (auto simp: domain_transaction_def idle_def Let_def)
qed

lemma domain_transaction_nested_failure:
  assumes "disciplined m" and "in_transaction c" and "domain_transaction m c = (Inl e, c')"
  shows "current c' = current c \<and> committed c' = committed c \<and> in_transaction c'"
proof -
  obtain r0 c0 where m: "m (c\<lparr>in_transaction := True\<rparr>) = (r0, c0)" by fastforce
  from disciplinedD [OF assms(1) m] have "committed c0 = committed c \<and> in_transaction c0" by simp
  with assms(2,3) m show ?thesis
    by (cases r0) (auto simp: domain_transaction_def Let_def)
qed

text \<open>The transaction of a table action on an idle connection: all of its effects or none.\<close>

lemma domain_transaction_tables:
  "domain_transaction (on_tables m) (idle d) =
     (fst (m d), idle (case fst (m d) of Inl e \<Rightarrow> d | Inr x \<Rightarrow> snd (m d)))"
  by (cases "m d"; cases "fst (m d)") (simp_all add: domain_transaction_def on_tables_def idle_def Let_def)

end
