(* ===== verification/Consumption.thy ===== *)
theory Consumption
  imports Transactions
begin

text \<open>
  \<open>authority_consumption.py\<close>: one-shot consumption of authorization keys, in memory or in the encrypted
  database.  The protocol \<open>ConsumptionStore\<close> is the locale \<open>consumption_store\<close>; both implementations
  interpret it.
\<close>

type_synonym consumption_key = "string \<times> string"

definition reset_round :: "string \<Rightarrow> string" where
  "reset_round proposal_id = ''reset-round:'' @ proposal_id"

section \<open>The in-memory store\<close>

definition memory_generation :: "consumption_key set \<Rightarrow> string \<Rightarrow> nat" where
  "memory_generation consumed proposal_id = card {k \<in> consumed. fst k = reset_round proposal_id}"

definition memory_consume :: "consumption_key list \<Rightarrow> consumption_key set \<Rightarrow> bool \<times> consumption_key set" where
  "memory_consume keys consumed =
     (if \<exists>k \<in> set keys. k \<in> consumed then (False, consumed) else (True, consumed \<union> set keys))"

section \<open>The encrypted store\<close>

text \<open>The table has the primary key \<open>(namespace, identifier)\<close>: a second insertion raises.\<close>

datatype integrity_error = IntegrityError

definition insert_key :: "consumption_key \<Rightarrow> (consumption_key list, integrity_error, unit) action" where
  "insert_key k rows = (if k \<in> set rows then (Inl IntegrityError, rows) else (Inr (), rows @ [k]))"

fun insert_keys :: "consumption_key list \<Rightarrow> (consumption_key list, integrity_error, unit) action" where
  "insert_keys [] = areturn ()"
| "insert_keys (k # ks) = abind (insert_key k) (\<lambda>_. insert_keys ks)"

definition encrypted_generation :: "consumption_key list connection \<Rightarrow> string \<Rightarrow> nat" where
  "encrypted_generation c proposal_id =
     length (filter (\<lambda>k. fst k = reset_round proposal_id) (current c))"

definition encrypted_consume ::
  "consumption_key list \<Rightarrow> consumption_key list connection \<Rightarrow> bool \<times> consumption_key list connection" where
  "encrypted_consume keys c =
     (case domain_transaction (on_tables (insert_keys keys)) c of
        (Inl _, c') \<Rightarrow> (False, c')
      | (Inr _, c') \<Rightarrow> (True, c'))"

section \<open>The protocol\<close>

text \<open>
  What a client may rely on: a claim succeeds exactly when none of its keys was consumed before, it then
  consumes all of them, a failed claim consumes nothing, and the generation of a proposal counts its
  consumed reset facts.
\<close>

locale consumption_store =
  fixes invar :: "'s \<Rightarrow> bool" and consumed :: "'s \<Rightarrow> consumption_key set"
    and generation :: "'s \<Rightarrow> string \<Rightarrow> nat" and consume :: "consumption_key list \<Rightarrow> 's \<Rightarrow> bool \<times> 's"
  assumes consume_invar: "invar s \<Longrightarrow> consume keys s = (ok, s') \<Longrightarrow> invar s'"
    and consume_ok: "invar s \<Longrightarrow> distinct keys \<Longrightarrow> consume keys s = (ok, s') \<Longrightarrow>
      ok \<longleftrightarrow> consumed s \<inter> set keys = {}"
    and consume_state: "invar s \<Longrightarrow> distinct keys \<Longrightarrow> consume keys s = (ok, s') \<Longrightarrow>
      consumed s' = (if ok then consumed s \<union> set keys else consumed s)"
    and generation_card: "invar s \<Longrightarrow> generation s p = card {k \<in> consumed s. fst k = reset_round p}"
    and finite_consumed: "invar s \<Longrightarrow> finite (consumed s)"
begin

lemma consume_mono: "invar s \<Longrightarrow> distinct keys \<Longrightarrow> consume keys s = (ok, s') \<Longrightarrow> consumed s \<subseteq> consumed s'"
  by (auto simp: consume_state)

lemma consume_once:
  assumes "invar s" and "distinct keys" and "consume keys s = (True, s')"
    and "invar t" and "consumed s' \<subseteq> consumed t" and "distinct keys'" and "set keys \<inter> set keys' \<noteq> {}"
  shows "fst (consume keys' t) = False"
  using consume_state [OF assms(1-3)] consume_ok [OF assms(4,6), of "fst (consume keys' t)"] assms(5,7)
  by (cases "consume keys' t") auto

lemma generation_unchanged:
  assumes "invar s" and "distinct keys" and "consume keys s = (ok, s')"
    and "\<And>k. k \<in> set keys \<Longrightarrow> fst k \<noteq> reset_round p"
  shows "generation s' p = generation s p"
proof -
  have "{k \<in> consumed s'. fst k = reset_round p} = {k \<in> consumed s. fst k = reset_round p}"
    using consume_state [OF assms(1-3)] assms(4) by auto
  then show ?thesis using generation_card assms(1) consume_invar [OF assms(1,3)] by simp
qed

lemma generation_next:
  assumes "invar s" and "distinct keys" and "consume keys s = (True, s')"
    and k: "k \<in> set keys" "fst k = reset_round p" "\<And>j. j \<in> set keys \<Longrightarrow> fst j = reset_round p \<Longrightarrow> j = k"
  shows "generation s' p = Suc (generation s p)"
proof -
  have "{j \<in> set keys. fst j = reset_round p} = {k}" using k by blast
  then have "{j \<in> consumed s'. fst j = reset_round p} = insert k {j \<in> consumed s. fst j = reset_round p}"
    unfolding consume_state [OF assms(1-3)] by (simp add: Collect_disj_eq conj_disj_distribR)
  moreover have "k \<notin> consumed s" using consume_ok [OF assms(1-3)] k(1) by auto
  ultimately show ?thesis
    using generation_card assms(1) consume_invar [OF assms(1,3)] finite_consumed [OF assms(1)] by simp
qed

end

interpretation memory: consumption_store finite "\<lambda>s. s" memory_generation memory_consume
  by unfold_locales (auto simp: memory_consume_def memory_generation_def split: if_splits)

lemma insert_keys_result:
  assumes "distinct rows" and "distinct keys"
  shows "insert_keys keys rows =
     (if set rows \<inter> set keys = {} then (Inr (), rows @ keys)
      else (Inl IntegrityError, snd (insert_keys keys rows)))"
  using assms
proof (induction keys arbitrary: rows)
  case (Cons k ks)
  show ?case
  proof (cases "k \<in> set rows")
    case True
    then show ?thesis by (auto simp: insert_key_def abind_def)
  next
    case False
    with Cons.prems Cons.IH [of "rows @ [k]"] show ?thesis
      by (auto simp: insert_key_def abind_def split: if_splits)
  qed
qed simp

lemma insert_keys_distinct: "distinct rows \<Longrightarrow> distinct (snd (insert_keys keys rows))"
  by (induction keys arbitrary: rows) (auto simp: insert_key_def abind_def)

definition table_invar :: "consumption_key list connection \<Rightarrow> bool" where
  "table_invar c \<longleftrightarrow> distinct (current c) \<and> distinct (committed c) \<and> (\<not> in_transaction c \<longrightarrow> committed c = current c)"

lemma encrypted_consume_eq:
  assumes "table_invar c"
  shows "encrypted_consume keys c =
     (let (r, rows) = insert_keys keys (current c) in
      case r of Inl e \<Rightarrow> (False, c) 
      | Inr u \<Rightarrow> (True, if in_transaction c then c\<lparr>current := rows\<rparr> else c\<lparr>current := rows, committed := rows\<rparr>))"
  using assms
  by (cases c) (auto simp: encrypted_consume_def domain_transaction_def on_tables_def table_invar_def Let_def
      split: prod.splits sum.splits)

lemma encrypted_consume_distinct:
  assumes "table_invar c" and "distinct keys"
  shows "encrypted_consume keys c =
     (if set (current c) \<inter> set keys = {}
      then (True, if in_transaction c then c\<lparr>current := current c @ keys\<rparr>
                  else c\<lparr>current := current c @ keys, committed := current c @ keys\<rparr>)
      else (False, c))"
proof (cases "set (current c) \<inter> set keys = {}")
  case True
  with assms insert_keys_result [of "current c" keys] show ?thesis
    by (simp add: encrypted_consume_eq table_invar_def)
next
  case False
  with assms insert_keys_result [of "current c" keys]
  obtain rows where "insert_keys keys (current c) = (Inl IntegrityError, rows)"
    by (auto simp: table_invar_def)
  with False show ?thesis by (simp add: encrypted_consume_eq [OF assms(1)])
qed

lemma encrypted_consume_invar:
  assumes "table_invar c" and "encrypted_consume keys c = (ok, c')"
  shows "table_invar c'"
  using assms insert_keys_distinct [of "current c" keys]
  by (auto simp: encrypted_consume_eq table_invar_def Let_def split: prod.splits sum.splits if_splits)

interpretation encrypted: consumption_store table_invar "\<lambda>c. set (current c)" encrypted_generation encrypted_consume
proof unfold_locales
  fix c :: "consumption_key list connection" and keys ok c' p
  show "table_invar c \<Longrightarrow> encrypted_consume keys c = (ok, c') \<Longrightarrow> table_invar c'"
    by (rule encrypted_consume_invar)
  show "table_invar c \<Longrightarrow> distinct keys \<Longrightarrow> encrypted_consume keys c = (ok, c') \<Longrightarrow> ok \<longleftrightarrow> set (current c) \<inter> set keys = {}"
    by (auto simp: encrypted_consume_distinct split: if_splits)
  show "table_invar c \<Longrightarrow> distinct keys \<Longrightarrow> encrypted_consume keys c = (ok, c') \<Longrightarrow>
      set (current c') = (if ok then set (current c) \<union> set keys else set (current c))"
    by (auto simp: encrypted_consume_distinct split: if_splits)
  show "table_invar c \<Longrightarrow> encrypted_generation c p = card {k \<in> set (current c). fst k = reset_round p}"
    using distinct_card [of "filter (\<lambda>k. fst k = reset_round p) (current c)"]
    by (simp add: encrypted_generation_def table_invar_def)
qed simp

end
