(* ===== verification/Json.thy ===== *)
theory Json
  imports Prelude
begin

text \<open>
  \<open>json.dumps(value, sort_keys=True, separators=(",", ":"))\<close> of the standard library, with its default
  \<open>ensure_ascii=True\<close>: every character outside the printable ASCII range is written as one or two
  \<open>u\<close> escapes.  Strings are UTF-8 byte lists, so they are decoded to code points first.
\<close>

datatype json = JNull | JBool bool | JInt int | JString string | JList "json list" | JObject "(string \<times> json) list"

fun code_points :: "nat list \<Rightarrow> nat list" where
  "code_points [] = []"
| "code_points (a # b # c # d # xs) =
     (if 240 \<le> a then ((a - 240) * 262144 + (b - 128) * 4096 + (c - 128) * 64 + (d - 128)) # code_points xs
      else if 224 \<le> a then ((a - 224) * 4096 + (b - 128) * 64 + (c - 128)) # code_points (d # xs)
      else if 192 \<le> a then ((a - 192) * 64 + (b - 128)) # code_points (c # d # xs)
      else a # code_points (b # c # d # xs))"
| "code_points [a, b, c] =
     (if 224 \<le> a then [(a - 224) * 4096 + (b - 128) * 64 + (c - 128)]
      else if 192 \<le> a then ((a - 192) * 64 + (b - 128)) # code_points [c]
      else a # code_points [b, c])"
| "code_points [a, b] = (if 192 \<le> a then [(a - 192) * 64 + (b - 128)] else a # code_points [b])"
| "code_points [a] = [a]"

definition hex_digit :: "nat \<Rightarrow> char" where
  "hex_digit d = (if d < 10 then char_of (48 + d) else char_of (87 + d))"

definition unicode_escape :: "nat \<Rightarrow> string" where
  "unicode_escape n = [CHR 0x5C, CHR ''u'', hex_digit (n div 4096 mod 16), hex_digit (n div 256 mod 16),
     hex_digit (n div 16 mod 16), hex_digit (n mod 16)]"

definition escape_point :: "nat \<Rightarrow> string" where
  "escape_point n =
     (if n = 34 then [CHR 0x5C, CHR 0x22] else if n = 92 then [CHR 0x5C, CHR 0x5C]
      else if n = 10 then [CHR 0x5C, CHR ''n''] else if n = 13 then [CHR 0x5C, CHR ''r'']
      else if n = 9 then [CHR 0x5C, CHR ''t''] else if n = 12 then [CHR 0x5C, CHR ''f'']
      else if n = 8 then [CHR 0x5C, CHR ''b'']
      else if 32 \<le> n \<and> n \<le> 126 then [char_of n]
      else if n < 65536 then unicode_escape n
      else unicode_escape (55296 + (n - 65536) div 1024) @ unicode_escape (56320 + (n - 65536) mod 1024))"

definition json_string :: "string \<Rightarrow> string" where
  "json_string s = [CHR 0x22] @ concat (map escape_point (code_points (map of_char s))) @ [CHR 0x22]"

fun json_dumps :: "json \<Rightarrow> string" where
  "json_dumps JNull = ''null''"
| "json_dumps (JBool b) = (if b then ''true'' else ''false'')"
| "json_dumps (JInt i) = str_int i"
| "json_dumps (JString s) = json_string s"
| "json_dumps (JList xs) = ''['' @ join '','' (map json_dumps xs) @ '']''"
| "json_dumps (JObject kvs) = ''{'' @ join '','' (map snd (sort_key fst
      (map (\<lambda>(k, v). (k, json_string k @ '':'' @ json_dumps v)) kvs))) @ ''}''"

end
