(* ===== verification/Authority.thy ===== *)
theory Authority
  imports Enrollment Consumption Json
begin

text \<open>
  \<open>authority.py\<close>: the approval matrix and the payload-bound proposal lifecycle.  UUIDs are represented by
  their canonical text.  SHA-256, Ed25519 and pydantic's text of a timestamp are parameters in
  \<open>authority_env\<close>; the consumption store is any implementation of its protocol.
\<close>

datatype authority_tier = OBSERVE | RECOMMEND | ACT | EXTERNAL

datatype invocation_method = IPHONE_UI | Method_VOICE | TEXT | CHANNEL | WORKER | API

datatype approval_proof = Proof_NONE | DEVICE_SIGNED | Proof_VOICE

fun method_value :: "invocation_method \<Rightarrow> string" where
  "method_value IPHONE_UI = ''iphone_ui''"
| "method_value Method_VOICE = ''voice''"
| "method_value TEXT = ''text''"
| "method_value CHANNEL = ''channel''"
| "method_value WORKER = ''worker''"
| "method_value API = ''api''"

fun proof_value :: "approval_proof \<Rightarrow> string" where
  "proof_value Proof_NONE = ''none''"
| "proof_value DEVICE_SIGNED = ''device_signed''"
| "proof_value Proof_VOICE = ''voice''"

record approval_rule =
  ar_action_class :: string
  ar_required_tier :: authority_tier
  ar_proof_required :: bool
  ar_allowed_proofs :: "approval_proof list"

record policy_decision =
  allowed :: bool
  pc_action_class :: string
  pc_required_tier :: authority_tier
  pc_reason :: string

type_synonym approval_matrix = "approval_rule list"

datatype policy_error =
    PolicyViolationError string
  | UnknownActionError string
  | TypeError
  | DeviceFailure device_error

definition rule_for :: "approval_matrix \<Rightarrow> string \<Rightarrow> approval_rule option" where
  "rule_for rules c = find (\<lambda>rule. ar_action_class rule = c) rules"

definition required_tier :: "approval_matrix \<Rightarrow> string \<Rightarrow> policy_error + authority_tier" where
  "required_tier rules c =
     (case rule_for rules c of None \<Rightarrow> Inl (UnknownActionError c) | Some rule \<Rightarrow> Inr (ar_required_tier rule))"

definition unknown_action :: "string \<Rightarrow> policy_decision" where
  "unknown_action c = \<lparr>allowed = False, pc_action_class = c, pc_required_tier = OBSERVE,
     pc_reason = ''unknown action class: '' @ c\<rparr>"

definition can_request :: "approval_matrix \<Rightarrow> string \<Rightarrow> invocation_method \<Rightarrow> policy_decision" where
  "can_request rules c m =
     (case rule_for rules c of
        None \<Rightarrow> unknown_action c
      | Some rule \<Rightarrow> \<lparr>allowed = True, pc_action_class = c, pc_required_tier = ar_required_tier rule,
          pc_reason = method_value m @ '' may request; approval proof still required''\<rparr>)"

definition can_approve :: "approval_matrix \<Rightarrow> string \<Rightarrow> approval_proof \<Rightarrow> policy_decision" where
  "can_approve rules c proof =
     (case rule_for rules c of
        None \<Rightarrow> unknown_action c
      | Some rule \<Rightarrow>
          let decide = \<lambda>ok reason. \<lparr>allowed = ok, pc_action_class = c,
                                     pc_required_tier = ar_required_tier rule, pc_reason = reason\<rparr>
          in if \<not> ar_proof_required rule then decide True ''no approval required for this tier''
             else if proof \<notin> set (ar_allowed_proofs rule) then
               decide False (''proof '' @ proof_value proof @ '' cannot approve '' @ c @ ''; allowed proofs: ''
                 @ py_or (Some (join '', '' (map proof_value (ar_allowed_proofs rule)))) ''none'')
             else decide True (''proof '' @ proof_value proof @ '' accepted for '' @ c))"

definition default_approval_matrix :: approval_matrix where
  "default_approval_matrix =
     [\<lparr>ar_action_class = ''observe.report'', ar_required_tier = OBSERVE, ar_proof_required = False, ar_allowed_proofs = []\<rparr>,
      \<lparr>ar_action_class = ''plan.recommend'', ar_required_tier = RECOMMEND, ar_proof_required = False, ar_allowed_proofs = []\<rparr>,
      \<lparr>ar_action_class = ''task.move'', ar_required_tier = ACT, ar_proof_required = True, ar_allowed_proofs = [DEVICE_SIGNED]\<rparr>,
      \<lparr>ar_action_class = ''calendar.apply'', ar_required_tier = ACT, ar_proof_required = True, ar_allowed_proofs = [DEVICE_SIGNED]\<rparr>,
      \<lparr>ar_action_class = ''calendar.revert'', ar_required_tier = ACT, ar_proof_required = True, ar_allowed_proofs = [DEVICE_SIGNED]\<rparr>,
      \<lparr>ar_action_class = ''message.send'', ar_required_tier = EXTERNAL, ar_proof_required = True, ar_allowed_proofs = [DEVICE_SIGNED]\<rparr>,
      \<lparr>ar_action_class = ''worker.execute'', ar_required_tier = EXTERNAL, ar_proof_required = True, ar_allowed_proofs = [DEVICE_SIGNED]\<rparr>]"

section \<open>Proposals and authorization facts\<close>

datatype proposal_state = PROPOSED | APPROVED | REJECTED | EXPIRED | APPLIED | REVERTED | RECONCILED

fun proposal_state_value :: "proposal_state \<Rightarrow> string" where
  "proposal_state_value PROPOSED = ''proposed''"
| "proposal_state_value APPROVED = ''approved''"
| "proposal_state_value REJECTED = ''rejected''"
| "proposal_state_value EXPIRED = ''expired''"
| "proposal_state_value APPLIED = ''applied''"
| "proposal_state_value REVERTED = ''reverted''"
| "proposal_state_value RECONCILED = ''reconciled''"

record proposal_record =
  proposal_id :: string
  action_class :: string
  payload :: string
  proposal_state_of :: proposal_state
  created_at :: datetime

record payload_bound_fact =
  fact_id :: string
  fact_proposal_id :: string
  fact_payload_hash :: string
  issued_at :: datetime
  expires_at :: datetime
  idempotency_key :: string
  fact_actor :: string
  fact_correlation_id :: string

text \<open>\<open>ResetRequest\<close> is a subclass of \<open>Approval\<close> with its own signing domain: the class is a tag.\<close>

datatype approval_class = Approval | ResetRequest

record approval = payload_bound_fact +
  proof_of :: approval_proof
  approval_device_id :: "string option"
  approval_signature :: string
  approval_class_of :: approval_class

record capability_lease = payload_bound_fact +
  capability :: string
  worker_id :: string
  lease_signature :: string

record rollback = payload_bound_fact +
  rollback_reason :: string

record reconciliation = payload_bound_fact +
  outcome :: string

record authority_env =
  sha256_hex :: "string \<Rightarrow> string"
  ed25519_verify :: "string \<Rightarrow> string \<Rightarrow> string \<Rightarrow> bool"
  time_text :: "datetime \<Rightarrow> string"
  devices_env :: device_env

definition payload_hash :: "authority_env \<Rightarrow> proposal_record \<Rightarrow> string" where
  "payload_hash env p = sha256_hex env (payload p)"

definition approval_json :: "authority_env \<Rightarrow> approval \<Rightarrow> json" where
  "approval_json env a = JObject
     [(''fact_id'', JString (fact_id a)), (''proposal_id'', JString (fact_proposal_id a)),
      (''payload_hash'', JString (fact_payload_hash a)), (''issued_at'', JString (time_text env (issued_at a))),
      (''expires_at'', JString (time_text env (expires_at a))), (''idempotency_key'', JString (idempotency_key a)),
      (''actor'', JString (fact_actor a)), (''correlation_id'', JString (fact_correlation_id a)),
      (''proof'', JString (proof_value (proof_of a))),
      (''device_id'', case approval_device_id a of None \<Rightarrow> JNull | Some d \<Rightarrow> JString d)]"

definition signing_bytes :: "authority_env \<Rightarrow> approval \<Rightarrow> string \<Rightarrow> string" where
  "signing_bytes env a c =
     (let text = json_dumps (JList [JString ''lifeos.approval.v1'', JString c, approval_json env a])
      in case approval_class_of a of
           Approval \<Rightarrow> text
         | ResetRequest \<Rightarrow> ''lifeos.reset.v1'' @ [CHR 0x00] @ text)"

section \<open>The lifecycle\<close>

text \<open>Python refuses to order a naive and an aware timestamp.\<close>

definition py_compare :: "(datetime \<Rightarrow> datetime \<Rightarrow> bool) \<Rightarrow> datetime \<Rightarrow> datetime \<Rightarrow> policy_error + bool" where
  "py_compare cmp a b = (if is_naive a = is_naive b then Inr (cmp a b) else Inl TypeError)"

definition refuse_if :: "bool \<Rightarrow> string \<Rightarrow> policy_error + unit" where
  "refuse_if b reason = (if b then Inl (PolicyViolationError reason) else Inr ())"

fun device_error_text :: "device_error \<Rightarrow> string" where
  "device_error_text (ForgedDeviceError fp) = ''no enrolled active device matches public key fingerprint '' @ fp"
| "device_error_text (RevokedDeviceError i) = ''device '' @ i @ '' is revoked''"
| "device_error_text (DeviceNotFoundError i) = ''device '' @ i @ '' is not enrolled''"
| "device_error_text (DeviceAlreadyEnrolledError i) = ''device '' @ i @ '' is already enrolled''"
| "device_error_text InvalidPublicKey = ''invalid public key''"
| "device_error_text DeviceValidationError = ''invalid device record''"

definition active_device :: "authority_env \<Rightarrow> registry \<Rightarrow> string \<Rightarrow> policy_error + device" where
  "active_device env reg i =
     (case require_active_device (devices_env env) reg i of
        Inr d \<Rightarrow> Inr d
      | Inl (DeviceNotFoundError j) \<Rightarrow> Inl (PolicyViolationError
          (''device-signed approval requires an active enrolled device: '' @ device_error_text (DeviceNotFoundError j)))
      | Inl (RevokedDeviceError j) \<Rightarrow> Inl (PolicyViolationError
          (''device-signed approval requires an active enrolled device: '' @ device_error_text (RevokedDeviceError j)))
      | Inl e \<Rightarrow> Inl (DeviceFailure e))"

definition verify_device_signature :: "authority_env \<Rightarrow> registry \<Rightarrow> proposal_record \<Rightarrow> approval \<Rightarrow> policy_error + unit" where
  "verify_device_signature env reg p a =
     (case approval_device_id a of
        None \<Rightarrow> Inl (PolicyViolationError ''device-signed approval requires an enrolled device id'')
      | Some i \<Rightarrow>
          ebind (active_device env reg i) (\<lambda>d.
            case dv_approval_public_key d of
              None \<Rightarrow> Inl (PolicyViolationError ''device has no enrolled approval signing key'')
            | Some key \<Rightarrow>
                if ed25519_verify env key (approval_signature a) (signing_bytes env a (action_class p)) then Inr ()
                else Inl (PolicyViolationError ''approval signature verification failed'')))"

definition validate_approval ::
  "authority_env \<Rightarrow> registry \<Rightarrow> datetime \<Rightarrow> proposal_record \<Rightarrow> approval \<Rightarrow> approval_matrix \<Rightarrow> policy_error + unit" where
  "validate_approval env reg now p a matrix =
     (let decision = can_approve matrix (action_class p) (proof_of a) in
      ebind (refuse_if (\<not> allowed decision) (pc_reason decision)) (\<lambda>_.
      ebind (refuse_if (fact_proposal_id a \<noteq> proposal_id p) ''approval proposal id does not match'') (\<lambda>_.
      ebind (refuse_if (fact_payload_hash a \<noteq> payload_hash env p) ''approval payload hash does not match proposal'') (\<lambda>_.
      ebind (py_compare dt_le (expires_at a) now) (\<lambda>expired.
      ebind (refuse_if expired ''approval has expired'') (\<lambda>_.
      ebind (py_compare (\<lambda>x y. dt_lt y x) (issued_at a) now) (\<lambda>early.
      ebind (if early then Inr True else py_compare (\<lambda>x y. dt_le y x) (issued_at a) (expires_at a)) (\<lambda>invalid.
      ebind (refuse_if invalid ''approval issuance time is invalid'') (\<lambda>_.
      if proof_of a = DEVICE_SIGNED then verify_device_signature env reg p a else Inr ())))))))))"

record 's store_ops =
  store_generation :: "'s \<Rightarrow> string \<Rightarrow> nat"
  store_consume :: "consumption_key list \<Rightarrow> 's \<Rightarrow> bool \<times> 's"

definition claim :: "'s store_ops \<Rightarrow> consumption_key list \<Rightarrow> string \<Rightarrow> proposal_state \<Rightarrow> ('s, policy_error, proposal_state) action" where
  "claim ops keys reason next s =
     (let (ok, s') = store_consume ops keys s in
      if ok then (Inr next, s') else (Inl (PolicyViolationError reason), s'))"

definition approval_round_key :: "'s store_ops \<Rightarrow> 's \<Rightarrow> string \<Rightarrow> string" where
  "approval_round_key ops s i =
     (let generation = store_generation ops s i in if generation = 0 then i else i @ '':'' @ dec generation)"

definition approve_keys :: "'s store_ops \<Rightarrow> 's \<Rightarrow> proposal_record \<Rightarrow> approval \<Rightarrow> consumption_key list" where
  "approve_keys ops s p a =
     [(''approve'', fact_id a),
      (''approve-proposal'', approval_round_key ops s (proposal_id p)),
      (''approve-idempotency'', (case approval_device_id a of None \<Rightarrow> ''None'' | Some i \<Rightarrow> i) @ '':'' @ idempotency_key a)]"

definition approve ::
  "'s store_ops \<Rightarrow> authority_env \<Rightarrow> registry \<Rightarrow> datetime \<Rightarrow> proposal_record \<Rightarrow> approval \<Rightarrow> approval_matrix
   \<Rightarrow> ('s, policy_error, proposal_state) action" where
  "approve ops env reg now p a matrix =
     abind (alift (refuse_if (proposal_state_of p \<noteq> PROPOSED)
        (''cannot approve proposal in state '' @ proposal_state_value (proposal_state_of p)))) (\<lambda>_.
     abind (alift (refuse_if (approval_class_of a = ResetRequest) ''reset proof cannot approve execution'')) (\<lambda>_.
     abind (alift (validate_approval env reg now p a matrix)) (\<lambda>_.
     abind (aget (\<lambda>s. approve_keys ops s p a)) (\<lambda>keys. claim ops keys ''approval replay'' APPROVED))))"

definition check_fact ::
  "authority_env \<Rightarrow> datetime \<Rightarrow> proposal_record \<Rightarrow> string \<Rightarrow> 'x payload_bound_fact_scheme \<Rightarrow> policy_error + unit" where
  "check_fact env now p name f =
     ebind (refuse_if (fact_proposal_id f \<noteq> proposal_id p) (name @ '' proposal id does not match'')) (\<lambda>_.
     ebind (refuse_if (fact_payload_hash f \<noteq> payload_hash env p) (name @ '' payload hash does not match proposal'')) (\<lambda>_.
     ebind (py_compare dt_le (expires_at f) now) (\<lambda>expired.
     refuse_if expired (name @ '' has expired''))))"

definition consume_one :: "'s store_ops \<Rightarrow> string \<Rightarrow> string \<Rightarrow> proposal_state \<Rightarrow> ('s, policy_error, proposal_state) action" where
  "consume_one ops transition i next = claim ops [(transition, i)] (transition @ '' replay for fact '' @ i) next"

definition apply_proposal ::
  "'s store_ops \<Rightarrow> authority_env \<Rightarrow> datetime \<Rightarrow> proposal_record \<Rightarrow> capability_lease \<Rightarrow> ('s, policy_error, proposal_state) action" where
  "apply_proposal ops env now p lease =
     abind (alift (refuse_if (proposal_state_of p \<noteq> APPROVED)
        (''cannot apply proposal in state '' @ proposal_state_value (proposal_state_of p)))) (\<lambda>_.
     abind (alift (check_fact env now p ''lease'' lease)) (\<lambda>_. consume_one ops ''apply'' (fact_id lease) APPLIED))"

definition revert ::
  "'s store_ops \<Rightarrow> authority_env \<Rightarrow> datetime \<Rightarrow> proposal_record \<Rightarrow> rollback \<Rightarrow> ('s, policy_error, proposal_state) action" where
  "revert ops env now p rb =
     abind (alift (refuse_if (proposal_state_of p \<noteq> APPLIED)
        (''cannot revert proposal in state '' @ proposal_state_value (proposal_state_of p)))) (\<lambda>_.
     abind (alift (check_fact env now p ''rollback'' rb)) (\<lambda>_. consume_one ops ''revert'' (fact_id rb) REVERTED))"

definition reconcile ::
  "'s store_ops \<Rightarrow> authority_env \<Rightarrow> datetime \<Rightarrow> proposal_record \<Rightarrow> reconciliation \<Rightarrow> ('s, policy_error, proposal_state) action" where
  "reconcile ops env now p rc =
     abind (alift (refuse_if (proposal_state_of p \<noteq> APPLIED)
        (''cannot reconcile proposal in state '' @ proposal_state_value (proposal_state_of p)))) (\<lambda>_.
     abind (alift (check_fact env now p ''reconciliation'' rc)) (\<lambda>_. consume_one ops ''reconcile'' (fact_id rc) RECONCILED))"

definition reset_keys :: "proposal_record \<Rightarrow> approval \<Rightarrow> string \<Rightarrow> consumption_key list" where
  "reset_keys p a i =
     [(''recover'', fact_id a), (reset_round (proposal_id p), fact_id a), (''recover-idempotency'', i @ '':'' @ idempotency_key a)]"

definition reset ::
  "'s store_ops \<Rightarrow> authority_env \<Rightarrow> registry \<Rightarrow> datetime \<Rightarrow> proposal_record \<Rightarrow> approval \<Rightarrow> approval_matrix \<Rightarrow> bool
   \<Rightarrow> ('s, policy_error, proposal_state) action" where
  "reset ops env reg now p a matrix zero_effects_verified =
     abind (alift (refuse_if (proposal_state_of p \<noteq> APPROVED)
        (''cannot reset proposal in state '' @ proposal_state_value (proposal_state_of p)))) (\<lambda>_.
     abind (alift (refuse_if (\<not> zero_effects_verified)
        ''reset requires a dedicated proof and zero-effect reconciliation'')) (\<lambda>_.
     abind (alift (validate_approval env reg now p a matrix)) (\<lambda>_.
       case approval_device_id a of
         None \<Rightarrow> araise (PolicyViolationError ''reset request requires an enrolled device id'')
       | Some i \<Rightarrow> claim ops (reset_keys p a i) ''reset replay'' PROPOSED)))"

end
