(* ===== verification/Authority_Lifecycle.thy ===== *)
theory Authority_Lifecycle
  imports Authority
begin

text \<open>
  Sequences of lifecycle operations against one consumption store.  The lemmas are proved once in the
  locale \<open>consumption_store\<close>, from the protocol alone, and hold for the in-memory and the encrypted store.
\<close>

datatype lifecycle_op =
    Approve_op registry datetime proposal_record approval approval_matrix
  | Apply_op datetime proposal_record capability_lease
  | Revert_op datetime proposal_record rollback
  | Reconcile_op datetime proposal_record reconciliation
  | Reset_op registry datetime proposal_record approval approval_matrix bool

fun run_op :: "'s store_ops \<Rightarrow> authority_env \<Rightarrow> lifecycle_op \<Rightarrow> ('s, policy_error, proposal_state) action" where
  "run_op ops env (Approve_op reg now p a m) = approve ops env reg now p a m"
| "run_op ops env (Apply_op now p l) = apply_proposal ops env now p l"
| "run_op ops env (Revert_op now p r) = revert ops env now p r"
| "run_op ops env (Reconcile_op now p r) = reconcile ops env now p r"
| "run_op ops env (Reset_op reg now p a m z) = reset ops env reg now p a m z"

text \<open>The operations that succeeded, in order, and the final store.\<close>

fun run_ops :: "'s store_ops \<Rightarrow> authority_env \<Rightarrow> lifecycle_op list \<Rightarrow> 's \<Rightarrow> lifecycle_op list \<times> 's" where
  "run_ops ops env [] s = ([], s)"
| "run_ops ops env (x # xs) s =
     (case run_op ops env x s of
        (Inl e, s') \<Rightarrow> run_ops ops env xs s'
      | (Inr st, s') \<Rightarrow> (let (oks, t) = run_ops ops env xs s' in (x # oks, t)))"

fun fact_key :: "lifecycle_op \<Rightarrow> consumption_key" where
  "fact_key (Approve_op reg now p a m) = (''approve'', fact_id a)"
| "fact_key (Apply_op now p l) = (''apply'', fact_id l)"
| "fact_key (Revert_op now p r) = (''revert'', fact_id r)"
| "fact_key (Reconcile_op now p r) = (''reconcile'', fact_id r)"
| "fact_key (Reset_op reg now p a m z) = (''recover'', fact_id a)"

fun approves :: "string \<Rightarrow> lifecycle_op \<Rightarrow> bool" where
  "approves i (Approve_op reg now p a m) = (proposal_id p = i)"
| "approves i _ = False"

fun resets :: "string \<Rightarrow> lifecycle_op \<Rightarrow> bool" where
  "resets i (Reset_op reg now p a m z) = (proposal_id p = i)"
| "resets i _ = False"

section \<open>What a successful operation did\<close>

lemma refuse_if_Inr [simp]: "refuse_if b r = Inr u \<longleftrightarrow> \<not> b"
  by (simp add: refuse_if_def)

lemma refuse_if_cases: "refuse_if b r = (if b then Inl (PolicyViolationError r) else Inr ())"
  by (simp add: refuse_if_def)

lemma claim_Inr: "claim ops keys reason next s = (Inr st, s') \<Longrightarrow> st = next \<and> store_consume ops keys s = (True, s')"
  by (auto simp: claim_def Let_def split: prod.splits if_splits)

lemma claim_Inl: "claim ops keys reason next s = (Inl e, s') \<Longrightarrow> store_consume ops keys s = (False, s')"
  by (auto simp: claim_def Let_def split: prod.splits if_splits)

lemma validate_approval_Inr:
  assumes "validate_approval env reg now p a matrix = Inr u"
  shows "allowed (can_approve matrix (action_class p) (proof_of a))"
    and "fact_proposal_id a = proposal_id p" and "fact_payload_hash a = payload_hash env p"
    and "\<not> dt_le (expires_at a) now" and "\<not> dt_lt now (issued_at a)"
    and "proof_of a = DEVICE_SIGNED \<Longrightarrow> verify_device_signature env reg p a = Inr ()"
  using assms unfolding validate_approval_def
  by (simp_all add: Let_def ebind_Inr_iff py_compare_def split: if_splits) blast+

lemma verify_device_signature_Inr:
  assumes "verify_device_signature env reg p a = Inr u"
  shows "\<exists>i d key. approval_device_id a = Some i
       \<and> device_of (devices_env env) reg i = Inr (Some d) \<and> dv_state d = ENROLLED \<and> dv_approval_public_key d = Some key
       \<and> ed25519_verify env key (approval_signature a) (signing_bytes env a (action_class p))"
proof -
  have active: "\<exists>d. active_device env reg i = Inr d \<Longrightarrow>
      \<exists>d. active_device env reg i = Inr d \<and> device_of (devices_env env) reg i = Inr (Some d) \<and> dv_state d = ENROLLED" for i
    by (auto simp: active_device_def require_active_device_def ebind_def split: sum.splits option.splits if_splits device_error.splits)
  from assms obtain i d key where "approval_device_id a = Some i" "active_device env reg i = Inr d"
    "dv_approval_public_key d = Some key" "ed25519_verify env key (approval_signature a) (signing_bytes env a (action_class p))"
    by (auto simp: verify_device_signature_def ebind_Inr_iff split: option.splits if_splits)
  with active [of i] show ?thesis by auto
qed

lemma consequential_proof:
  assumes "required_tier default_approval_matrix c \<in> {Inr ACT, Inr EXTERNAL}"
  shows "allowed (can_approve default_approval_matrix c proof) \<longleftrightarrow> proof = DEVICE_SIGNED"
  using assms by (auto simp: required_tier_def can_approve_def rule_for_def default_approval_matrix_def Let_def split: if_splits)

text \<open>Every operation either refuses before it touches the store, or ends in one claim.\<close>

definition op_keys :: "'s store_ops \<Rightarrow> 's \<Rightarrow> lifecycle_op \<Rightarrow> consumption_key list" where
  "op_keys ops s x = (case x of
       Approve_op reg now p a m \<Rightarrow> approve_keys ops s p a
     | Apply_op now p l \<Rightarrow> [(''apply'', fact_id l)]
     | Revert_op now p r \<Rightarrow> [(''revert'', fact_id r)]
     | Reconcile_op now p r \<Rightarrow> [(''reconcile'', fact_id r)]
     | Reset_op reg now p a m z \<Rightarrow> reset_keys p a (case approval_device_id a of None \<Rightarrow> [] | Some i \<Rightarrow> i))"

lemma claim_after_check:
  "abind (alift c) (\<lambda>_. m) s = (r, s') \<Longrightarrow> (\<exists>e. r = Inl e \<and> s' = s) \<or> m s = (r, s')"
  by (cases c) (auto simp: abind_def)

lemma run_op_claims:
  assumes "run_op ops env x s = (r, s')"
  shows "(\<exists>e. r = Inl e \<and> s' = s) \<or> (\<exists>reason nxt. claim ops (op_keys ops s x) reason nxt s = (r, s'))"
proof (cases x)
  case (Approve_op reg now p a m)
  from assms [unfolded Approve_op run_op.simps approve_def] show ?thesis
    unfolding Approve_op op_keys_def
    by (elim claim_after_check [elim_format] disjE) (auto simp: abind_def)
next
  case (Apply_op now p l)
  from assms [unfolded Apply_op run_op.simps apply_proposal_def consume_one_def] show ?thesis
    unfolding Apply_op op_keys_def by (elim claim_after_check [elim_format] disjE) auto
next
  case (Revert_op now p l)
  from assms [unfolded Revert_op run_op.simps revert_def consume_one_def] show ?thesis
    unfolding Revert_op op_keys_def by (elim claim_after_check [elim_format] disjE) auto
next
  case (Reconcile_op now p l)
  from assms [unfolded Reconcile_op run_op.simps reconcile_def consume_one_def] show ?thesis
    unfolding Reconcile_op op_keys_def by (elim claim_after_check [elim_format] disjE) auto
next
  case (Reset_op reg now p a m z)
  from assms [unfolded Reset_op run_op.simps reset_def] show ?thesis
    unfolding Reset_op op_keys_def
    by (elim claim_after_check [elim_format] disjE) (auto split: option.splits)
qed

lemma op_keys_distinct: "distinct (op_keys ops s x)"
  by (cases x) (simp_all add: op_keys_def approve_keys_def reset_keys_def reset_round_def)

lemma fact_key_in_op_keys: "fact_key x \<in> set (op_keys ops s x)"
  by (cases x) (simp_all add: op_keys_def approve_keys_def reset_keys_def)

lemma op_keys_no_reset: "\<not> resets i x \<Longrightarrow> k \<in> set (op_keys ops s x) \<Longrightarrow> fst k \<noteq> reset_round i"
  by (cases x) (auto simp: op_keys_def approve_keys_def reset_keys_def reset_round_def)

lemma op_keys_reset:
  "resets i x \<Longrightarrow> \<exists>k. k \<in> set (op_keys ops s x) \<and> fst k = reset_round i
     \<and> (\<forall>j \<in> set (op_keys ops s x). fst j = reset_round i \<longrightarrow> j = k)"
  by (cases x) (auto simp: op_keys_def reset_keys_def reset_round_def)

definition round_key :: "string \<Rightarrow> nat \<Rightarrow> consumption_key" where
  "round_key i g = (''approve-proposal'', if g = 0 then i else i @ '':'' @ dec g)"

lemma op_keys_approves: "approves i x \<Longrightarrow> round_key i (store_generation ops s i) \<in> set (op_keys ops s x)"
  by (cases x) (auto simp: op_keys_def approve_keys_def approval_round_key_def round_key_def Let_def)

section \<open>Traces over any consumption store\<close>

context consumption_store
begin

lemma run_op_Inr:
  assumes "invar s" and "run_op \<lparr>store_generation = generation, store_consume = consume\<rparr> env x s = (Inr st, s')"
  shows "consume (op_keys \<lparr>store_generation = generation, store_consume = consume\<rparr> s x) s = (True, s')"
  using run_op_claims [OF assms(2)] by (auto dest: claim_Inr)

lemma run_op_Inl:
  assumes "invar s" and "run_op \<lparr>store_generation = generation, store_consume = consume\<rparr> env x s = (Inl e, s')"
  shows "invar s' \<and> consumed s' = consumed s"
proof -
  let ?ops = "\<lparr>store_generation = generation, store_consume = consume\<rparr>"
  from run_op_claims [OF assms(2)] consider "s' = s" | "consume (op_keys ?ops s x) s = (False, s')"
    by (auto dest: claim_Inl)
  then show ?thesis
  proof cases
    case 2
    then show ?thesis
      using consume_invar [OF assms(1)] consume_state [OF assms(1) op_keys_distinct 2] by auto
  qed (use assms(1) in simp)
qed

lemma run_op_Inr_state:
  assumes "invar s" and "run_op \<lparr>store_generation = generation, store_consume = consume\<rparr> env x s = (Inr st, s')"
  shows "invar s'" and "consumed s' = consumed s \<union> set (op_keys \<lparr>store_generation = generation, store_consume = consume\<rparr> s x)"
    and "consumed s \<inter> set (op_keys \<lparr>store_generation = generation, store_consume = consume\<rparr> s x) = {}"
  using consume_invar [OF assms(1)] consume_state [OF assms(1) op_keys_distinct run_op_Inr [OF assms]]
    consume_ok [OF assms(1) op_keys_distinct run_op_Inr [OF assms]] run_op_Inr [OF assms] by auto

lemma run_ops_once:
  assumes "invar s" and "run_ops \<lparr>store_generation = generation, store_consume = consume\<rparr> env xs s = (oks, t)"
  shows "length (filter (\<lambda>x. fact_key x = k) oks) + (if k \<in> consumed s then 1 else 0) \<le> 1"
  using assms
proof (induction xs arbitrary: s oks)
  case (Cons x xs)
  let ?ops = "\<lparr>store_generation = generation, store_consume = consume\<rparr>"
  obtain r s1 where step: "run_op ?ops env x s = (r, s1)" by fastforce
  show ?case
  proof (cases r)
    case (Inl e)
    with step have f: "run_op ?ops env x s = (Inl e, s1)" by simp
    with Cons.IH [of s1 oks] run_op_Inl [OF Cons.prems(1) f] Cons.prems(2) show ?thesis by simp
  next
    case (Inr st)
    with step have f: "run_op ?ops env x s = (Inr st, s1)" by simp
    note st = run_op_Inr_state [OF Cons.prems(1) f]
    obtain d where d: "run_ops ?ops env xs s1 = (d, t)" "oks = x # d"
      using Cons.prems(2) f by (auto simp: Let_def split: prod.splits)
    from Cons.IH [OF st(1) d(1)] st(2,3) fact_key_in_op_keys [of x ?ops s] d(2) show ?thesis
      by (auto split: if_splits)
  qed
qed simp

definition rounds_used :: "string \<Rightarrow> nat \<Rightarrow> 's \<Rightarrow> bool" where
  "rounds_used i n s \<longleftrightarrow> (\<exists>U \<subseteq> {..generation s i}. card U = n \<and> (\<forall>g \<in> U. round_key i g \<in> consumed s))"

lemma rounds_used_bound: "rounds_used i n s \<Longrightarrow> n \<le> Suc (generation s i)"
  unfolding rounds_used_def by (metis card_atMost card_mono finite_atMost)

lemma rounds_used_mono:
  "rounds_used i n s \<Longrightarrow> consumed s \<subseteq> consumed t \<Longrightarrow> generation s i \<le> generation t i \<Longrightarrow> rounds_used i n t"
  unfolding rounds_used_def by (elim exE conjE, rule_tac x = U in exI) auto

lemma rounds_used_approve:
  assumes "rounds_used i n s" and "round_key i (generation s i) \<notin> consumed s"
    and "round_key i (generation s i) \<in> consumed t" and "consumed s \<subseteq> consumed t" and "generation t i = generation s i"
  shows "rounds_used i (Suc n) t"
proof -
  from assms(1) obtain U where U: "U \<subseteq> {..generation s i}" "card U = n" "\<forall>g \<in> U. round_key i g \<in> consumed s"
    by (auto simp: rounds_used_def)
  then have "generation s i \<notin> U" and "finite U" using assms(2) finite_subset by auto
  with U assms(3-5) show ?thesis
    unfolding rounds_used_def by (intro exI [of _ "insert (generation s i) U"]) auto
qed

lemma run_op_generation:
  assumes "invar s" and "run_op \<lparr>store_generation = generation, store_consume = consume\<rparr> env x s = (Inr st, s')"
  shows "generation s' i = generation s i + (if resets i x then 1 else 0)"
proof -
  let ?ops = "\<lparr>store_generation = generation, store_consume = consume\<rparr>"
  note c = run_op_Inr [OF assms]
  show ?thesis
  proof (cases "resets i x")
    case True
    from op_keys_reset [OF True, of ?ops s] obtain k where "k \<in> set (op_keys ?ops s x)" "fst k = reset_round i"
      "\<And>j. j \<in> set (op_keys ?ops s x) \<Longrightarrow> fst j = reset_round i \<Longrightarrow> j = k" by blast
    from generation_next [OF assms(1) op_keys_distinct c this] True show ?thesis by simp
  next
    case False
    from generation_unchanged [OF assms(1) op_keys_distinct c op_keys_no_reset [OF False]] False show ?thesis by simp
  qed
qed

lemma run_op_rounds:
  assumes "invar s" and "run_op \<lparr>store_generation = generation, store_consume = consume\<rparr> env x s = (Inr st, s')"
    and "rounds_used i n s"
  shows "rounds_used i (n + (if approves i x then 1 else 0)) s'"
proof -
  let ?ops = "\<lparr>store_generation = generation, store_consume = consume\<rparr>"
  note st = run_op_Inr_state [OF assms(1,2)] and g = run_op_generation [OF assms(1,2), of i]
  show ?thesis
  proof (cases "approves i x")
    case True
    then have "\<not> resets i x" by (cases x) auto
    moreover have "round_key i (generation s i) \<in> set (op_keys ?ops s x)"
      using op_keys_approves [OF True, of ?ops s] by simp
    ultimately show ?thesis
      using rounds_used_approve [OF assms(3), of s'] st(2,3) g True by auto
  next
    case False
    with rounds_used_mono [OF assms(3), of s'] st(2) g show ?thesis by simp
  qed
qed

lemma run_ops_rounds:
  assumes "invar s" and "rounds_used i n s"
    and "run_ops \<lparr>store_generation = generation, store_consume = consume\<rparr> env xs s = (oks, t)"
  shows "rounds_used i (n + length (filter (approves i) oks)) t
     \<and> generation t i = generation s i + length (filter (resets i) oks)"
  using assms
proof (induction xs arbitrary: s n oks)
  case (Cons x xs)
  let ?ops = "\<lparr>store_generation = generation, store_consume = consume\<rparr>"
  obtain r s1 where step: "run_op ?ops env x s = (r, s1)" by fastforce
  show ?case
  proof (cases r)
    case (Inl e)
    with step have f: "run_op ?ops env x s = (Inl e, s1)" by simp
    note s1 = run_op_Inl [OF Cons.prems(1) f]
    have g: "generation s1 i = generation s i" using s1 Cons.prems(1) by (simp add: generation_card)
    with s1 have "rounds_used i n s1" using rounds_used_mono [OF Cons.prems(2)] by simp
    with Cons.IH [of s1 n oks] s1 f g Cons.prems(3) show ?thesis by simp
  next
    case (Inr st)
    with step have f: "run_op ?ops env x s = (Inr st, s1)" by simp
    obtain d where d: "run_ops ?ops env xs s1 = (d, t)" "oks = x # d"
      using Cons.prems(3) f by (auto simp: Let_def split: prod.splits)
    from Cons.IH [OF run_op_Inr_state(1) [OF Cons.prems(1) f] run_op_rounds [OF Cons.prems(1) f Cons.prems(2)] d(1)]
      run_op_generation [OF Cons.prems(1) f, of i] d(2) show ?thesis
      by (simp add: add.assoc split: if_splits)
  qed
qed simp

lemma run_ops_bounded:
  assumes "invar s" and "consumed s = {}"
    and "run_ops \<lparr>store_generation = generation, store_consume = consume\<rparr> env xs s = (oks, t)"
  shows "length (filter (approves i) oks) \<le> Suc (length (filter (resets i) oks))"
proof -
  have "rounds_used i 0 s" unfolding rounds_used_def by (intro exI [of _ "{}"]) simp
  note r = run_ops_rounds [OF assms(1) this assms(3)]
  then have "length (filter (approves i) oks) \<le> Suc (generation t i)"
    by (intro rounds_used_bound) simp
  moreover have "generation s i = 0" using assms(1,2) by (simp add: generation_card)
  ultimately show ?thesis using r by simp
qed

end

end
