(* ===== verification/Text_Codec.thy ===== *)
theory Text_Codec
  imports Enrollment
begin

text \<open>
  A concrete text codec for the records whose JSON round trip is a hypothesis of the development: it shows
  that the hypothesis can hold.  Encoders are paired with decoders that return the unread rest.
\<close>

definition codec :: "('a \<Rightarrow> string) \<Rightarrow> (string \<Rightarrow> ('a \<times> string) option) \<Rightarrow> bool" where
  "codec e d \<longleftrightarrow> (\<forall>x rest. d (e x @ rest) = Some (x, rest))"

lemma codecD: "codec e d \<Longrightarrow> d (e x @ rest) = Some (x, rest)"
  by (simp add: codec_def)

definition enc_nat :: "nat \<Rightarrow> string" where
  "enc_nat n = replicate n (CHR ''1'') @ ''0''"

fun dec_nat :: "string \<Rightarrow> (nat \<times> string) option" where
  "dec_nat [] = None"
| "dec_nat (c # cs) = (if c = CHR ''1'' then map_option (\<lambda>(n, r). (Suc n, r)) (dec_nat cs) else Some (0, cs))"

lemma codec_nat: "codec enc_nat dec_nat"
proof -
  have "dec_nat (replicate n (CHR ''1'') @ ''0'' @ rest) = Some (n, rest)" for n rest by (induction n) auto
  then show ?thesis by (simp add: codec_def enc_nat_def)
qed

definition enc_string :: "string \<Rightarrow> string" where
  "enc_string s = enc_nat (length s) @ s"

definition dec_string :: "string \<Rightarrow> (string \<times> string) option" where
  "dec_string t = (case dec_nat t of None \<Rightarrow> None | Some (n, r) \<Rightarrow> Some (take n r, drop n r))"

lemma codec_string: "codec enc_string dec_string"
  by (simp add: codec_def enc_string_def dec_string_def codecD [OF codec_nat])

definition enc_pair :: "('a \<Rightarrow> string) \<Rightarrow> ('b \<Rightarrow> string) \<Rightarrow> 'a \<times> 'b \<Rightarrow> string" where
  "enc_pair f g p = f (fst p) @ g (snd p)"

definition dec_pair :: "(string \<Rightarrow> ('a \<times> string) option) \<Rightarrow> (string \<Rightarrow> ('b \<times> string) option) \<Rightarrow> string \<Rightarrow> (('a \<times> 'b) \<times> string) option" where
  "dec_pair f g t = (case f t of None \<Rightarrow> None | Some (a, r) \<Rightarrow>
     (case g r of None \<Rightarrow> None | Some (b, r') \<Rightarrow> Some ((a, b), r')))"

lemma codec_pair: "codec f f' \<Longrightarrow> codec g g' \<Longrightarrow> codec (enc_pair f g) (dec_pair f' g')"
  by (simp add: codec_def enc_pair_def dec_pair_def)

definition enc_option :: "('a \<Rightarrow> string) \<Rightarrow> 'a option \<Rightarrow> string" where
  "enc_option f m = (case m of None \<Rightarrow> ''0'' | Some x \<Rightarrow> ''1'' @ f x)"

definition dec_option :: "(string \<Rightarrow> ('a \<times> string) option) \<Rightarrow> string \<Rightarrow> ('a option \<times> string) option" where
  "dec_option f t = (case t of [] \<Rightarrow> None | c # cs \<Rightarrow>
     if c = CHR ''1'' then map_option (\<lambda>(x, r). (Some x, r)) (f cs) else Some (None, cs))"

lemma codec_option: "codec f f' \<Longrightarrow> codec (enc_option f) (dec_option f')"
  by (auto simp: codec_def enc_option_def dec_option_def split: option.split)

definition dec_as :: "('b \<Rightarrow> 'a) \<Rightarrow> (string \<Rightarrow> ('b \<times> string) option) \<Rightarrow> string \<Rightarrow> ('a \<times> string) option" where
  "dec_as g f t = map_option (\<lambda>(x, r). (g x, r)) (f t)"

lemma codec_as: "codec f f' \<Longrightarrow> (\<And>x. g (h x) = x) \<Longrightarrow> codec (\<lambda>x. f (h x)) (dec_as g f')"
  by (simp add: codec_def dec_as_def)

section \<open>Timestamps and devices\<close>

definition int_parts :: "int \<Rightarrow> nat \<times> nat" where "int_parts i = (nat i, nat (- i))"
definition int_of_parts :: "nat \<times> nat \<Rightarrow> int" where "int_of_parts p = int (fst p) - int (snd p)"
definition bool_part :: "bool \<Rightarrow> nat" where "bool_part b = (if b then 1 else 0)"
definition bool_of_part :: "nat \<Rightarrow> bool" where "bool_of_part n \<longleftrightarrow> n = 1"

abbreviation "enc_int \<equiv> \<lambda>i. enc_pair enc_nat enc_nat (int_parts i)"
abbreviation "dec_int \<equiv> dec_as int_of_parts (dec_pair dec_nat dec_nat)"
abbreviation "enc_bool \<equiv> \<lambda>b. enc_nat (bool_part b)"
abbreviation "dec_bool \<equiv> dec_as bool_of_part dec_nat"

lemma codec_int: "codec enc_int dec_int"
  by (intro codec_as codec_pair codec_nat) (simp add: int_parts_def int_of_parts_def)

lemma codec_bool: "codec enc_bool dec_bool"
  by (intro codec_as codec_nat) (simp add: bool_part_def bool_of_part_def)

definition tz_parts :: "tzinfo \<Rightarrow> nat \<times> nat \<times> string" where
  "tz_parts z = (case z of NoTz \<Rightarrow> (0, 0, []) | Utc \<Rightarrow> (1, 0, []) | FixedOffset n \<Rightarrow> (2, n, []) | Zone k \<Rightarrow> (3, 0, k))"

definition tz_of_parts :: "nat \<times> nat \<times> string \<Rightarrow> tzinfo" where
  "tz_of_parts p = (case p of (n, m, k) \<Rightarrow> if n = 0 then NoTz else if n = 1 then Utc else if n = 2 then FixedOffset m else Zone k)"

definition datetime_parts :: "datetime \<Rightarrow> int \<times> int option \<times> (nat \<times> nat \<times> string) \<times> bool" where
  "datetime_parts d = (wall d, offset d, tz_parts (tz d), fold_sensitive d)"

definition datetime_of_parts :: "int \<times> int option \<times> (nat \<times> nat \<times> string) \<times> bool \<Rightarrow> datetime" where
  "datetime_of_parts p = (case p of (w, off, z, f) \<Rightarrow> \<lparr>wall = w, offset = off, tz = tz_of_parts z, fold_sensitive = f\<rparr>)"

abbreviation "enc_datetime \<equiv> \<lambda>d. enc_pair enc_int (enc_pair (enc_option enc_int)
  (enc_pair (enc_pair enc_nat (enc_pair enc_nat enc_string)) enc_bool)) (datetime_parts d)"
abbreviation "dec_datetime \<equiv> dec_as datetime_of_parts (dec_pair dec_int (dec_pair (dec_option dec_int)
  (dec_pair (dec_pair dec_nat (dec_pair dec_nat dec_string)) dec_bool)))"

lemma tz_parts [simp]: "tz_of_parts (tz_parts z) = z"
  by (cases z) (simp_all add: tz_parts_def tz_of_parts_def)

lemma codec_datetime: "codec enc_datetime dec_datetime"
  by (intro codec_as codec_pair codec_int codec_option codec_nat codec_string codec_bool)
    (simp add: datetime_parts_def datetime_of_parts_def)

definition device_parts where
  "device_parts d = (dv_device_id d, dv_public_key_fingerprint d, dv_enrolled_at d, dv_enrolled_by d,
     dv_state d = ENROLLED, dv_revoked_at d, dv_revoked_by d, dv_approval_public_key d)"

definition device_of_parts where
  "device_of_parts p = (case p of (i, fp, at, who, enrolled, rat, rby, key) \<Rightarrow>
     \<lparr>dv_device_id = i, dv_public_key_fingerprint = fp, dv_enrolled_at = at, dv_enrolled_by = who,
      dv_state = (if enrolled then ENROLLED else REVOKED), dv_revoked_at = rat, dv_revoked_by = rby,
      dv_approval_public_key = key\<rparr>)"

lemma device_parts [simp]: "device_of_parts (device_parts d) = d"
  by (cases d; cases "dv_state d") (simp_all add: device_parts_def device_of_parts_def)

definition text_device :: "device \<Rightarrow> string" where
  "text_device d = enc_pair enc_string (enc_pair enc_string (enc_pair enc_datetime (enc_pair enc_string (enc_pair enc_bool
     (enc_pair (enc_option enc_datetime) (enc_pair (enc_option enc_string) (enc_option enc_string))))))) (device_parts d)"

definition untext_device :: "string \<Rightarrow> device option" where
  "untext_device t = map_option fst (dec_as device_of_parts (dec_pair dec_string (dec_pair dec_string (dec_pair dec_datetime
     (dec_pair dec_string (dec_pair dec_bool (dec_pair (dec_option dec_datetime) (dec_pair (dec_option dec_string)
     (dec_option dec_string)))))))) t)"

lemma untext_device: "untext_device (text_device d) = Some d"
proof -
  have c: "codec text_device (dec_as device_of_parts (dec_pair dec_string (dec_pair dec_string (dec_pair dec_datetime
     (dec_pair dec_string (dec_pair dec_bool (dec_pair (dec_option dec_datetime) (dec_pair (dec_option dec_string)
     (dec_option dec_string)))))))))"
    unfolding text_device_def
    by (intro codec_as codec_pair codec_string codec_datetime codec_bool codec_option) simp
  from codecD [OF c, of d "[]"] show ?thesis unfolding untext_device_def by simp
qed

definition text_device_env :: device_env where
  "text_device_env = \<lparr>dump_device = text_device, parse_device = untext_device, public_key_ok = (\<lambda>_. True)\<rparr>"

lemma text_device_env_codec: "codec_ok text_device_env"
  by (simp add: codec_ok_def text_device_env_def untext_device)

end
