(* ===== verification/Authority_Properties.thy ===== *)
theory Authority_Properties
  imports Authority_Lifecycle Text_Codec
begin

text \<open>
  The properties of enrollment, one-shot consumption and the proposal lifecycle.
\<close>

section \<open>Concrete data\<close>

definition at_second :: "int \<Rightarrow> datetime" where
  "at_second n = utc_datetime (n * second)"

definition ex_authority_env :: authority_env where
  "ex_authority_env = \<lparr>sha256_hex = (\<lambda>s. s), ed25519_verify = (\<lambda>key sig msg. sig = key), time_text = (\<lambda>_. []),
     devices_env = text_device_env\<rparr>"

definition ex_registry :: registry where
  "ex_registry = snd (projr (enroll text_device_env (at_second 0) (new_registry None) ''phone'' ''fp'' ''user'' (Some ''pk'')))"

definition ex_proposal :: "proposal_state \<Rightarrow> proposal_record" where
  "ex_proposal st = \<lparr>proposal_id = ''p1'', action_class = ''calendar.apply'', payload = ''move'',
     proposal_state_of = st, created_at = at_second 0\<rparr>"

definition ex_approval :: "string \<Rightarrow> approval_class \<Rightarrow> approval" where
  "ex_approval f c = \<lparr>fact_id = f, fact_proposal_id = ''p1'', fact_payload_hash = ''move'', issued_at = at_second 1,
     expires_at = at_second 100, idempotency_key = f, fact_actor = ''user'', fact_correlation_id = ''c'',
     proof_of = DEVICE_SIGNED, approval_device_id = Some ''phone'', approval_signature = ''pk'', approval_class_of = c\<rparr>"

lemma ex_registry_device:
  "device_of text_device_env ex_registry ''phone'' = Inr (Some \<lparr>dv_device_id = ''phone'', dv_public_key_fingerprint = ''fp'',
     dv_enrolled_at = at_second 0, dv_enrolled_by = ''user'', dv_state = ENROLLED, dv_revoked_at = None,
     dv_revoked_by = None, dv_approval_public_key = Some ''pk''\<rparr>)"
  by (simp add: ex_registry_def enroll_def device_of_def new_registry_def text_device_env_def Let_def)

lemma ex_calendar_rule: "allowed (can_approve default_approval_matrix ''calendar.apply'' DEVICE_SIGNED)"
  by (simp add: can_approve_def rule_for_def default_approval_matrix_def)

lemma ex_approval_valid:
  assumes "1 \<le> n" and "n < 100"
  shows "validate_approval ex_authority_env ex_registry (at_second n) (ex_proposal st) (ex_approval f c)
     default_approval_matrix = Inr ()"
  using assms ex_calendar_rule ex_registry_device
  by (simp add: validate_approval_def verify_device_signature_def active_device_def require_active_device_def
      ex_proposal_def ex_approval_def ex_authority_env_def payload_hash_def py_compare_def refuse_if_def
      at_second_def utc_datetime_def is_naive_def dt_le_def dt_lt_def second_def)

definition memory_ops :: "consumption_key set store_ops" where
  "memory_ops = \<lparr>store_generation = memory_generation, store_consume = memory_consume\<rparr>"

definition encrypted_ops :: "consumption_key list connection store_ops" where
  "encrypted_ops = \<lparr>store_generation = encrypted_generation, store_consume = encrypted_consume\<rparr>"
definition ex_ops :: "lifecycle_op list" where
  "ex_ops =
     [Approve_op ex_registry (at_second 5) (ex_proposal PROPOSED) (ex_approval ''f1'' Approval) default_approval_matrix,
      Approve_op ex_registry (at_second 6) (ex_proposal PROPOSED) (ex_approval ''f2'' Approval) default_approval_matrix,
      Reset_op ex_registry (at_second 7) (ex_proposal APPROVED) (ex_approval ''f3'' ResetRequest) default_approval_matrix True,
      Approve_op ex_registry (at_second 8) (ex_proposal PROPOSED) (ex_approval ''f2'' Approval) default_approval_matrix,
      Approve_op ex_registry (at_second 9) (ex_proposal PROPOSED) (ex_approval ''f2'' Approval) default_approval_matrix]"

lemma ex_approve:
  assumes "1 \<le> n" and "n < 100"
  shows "approve ops ex_authority_env ex_registry (at_second n) (ex_proposal PROPOSED) (ex_approval f Approval) default_approval_matrix s
     = claim ops [(''approve'', f), (''approve-proposal'', approval_round_key ops s ''p1''), (''approve-idempotency'', ''phone:'' @ f)]
         ''approval replay'' APPROVED s"
  using ex_approval_valid [OF assms]
  by (simp add: approve_def refuse_if_def ex_proposal_def ex_approval_def abind_def approve_keys_def)

lemma ex_reset:
  assumes "1 \<le> n" and "n < 100"
  shows "reset ops ex_authority_env ex_registry (at_second n) (ex_proposal APPROVED) (ex_approval f c) default_approval_matrix True s
     = claim ops [(''recover'', f), (''reset-round:p1'', f), (''recover-idempotency'', ''phone:'' @ f)] ''reset replay'' PROPOSED s"
  using ex_approval_valid [OF assms]
  by (simp add: reset_def refuse_if_def ex_proposal_def ex_approval_def abind_def reset_keys_def reset_round_def)

lemma ex_run: "fst (run_ops encrypted_ops ex_authority_env ex_ops (idle [])) = [ex_ops ! 0, ex_ops ! 2, ex_ops ! 3]"
  by (simp add: ex_ops_def ex_approve ex_reset claim_def encrypted_ops_def approval_round_key_def encrypted_generation_def
     encrypted_consume_distinct table_invar_def idle_def reset_round_def dec.simps digit_char_def)

section \<open>Consumption\<close>

text \<open>
  The encrypted store implements the one-shot protocol: a claim of distinct keys succeeds exactly when
  none of them was consumed, a successful claim durably consumes all of them, and a failed one leaves the
  database as it was.
\<close>
theorem encrypted_consume_atomic:
  assumes "distinct keys" and "distinct rows"
  shows "encrypted_consume keys (idle rows) =
     (if set rows \<inter> set keys = {} then (True, idle (rows @ keys)) else (False, idle rows))"
  using assms by (subst encrypted_consume_distinct) (simp_all add: table_invar_def idle_def)

theorem encrypted_consume_atomic_witness:
  "encrypted_consume [(''a'', ''1''), (''b'', ''2'')] (idle [(''b'', ''2'')]) = (False, idle [(''b'', ''2'')])"
  using encrypted_consume_atomic [of "[(''a'', ''1''), (''b'', ''2'')]" "[(''b'', ''2'')]"] by simp



section \<open>The lifecycle\<close>

text \<open>
  C10: on the encrypted store, whatever sequence of lifecycle calls is made, with whatever arguments, a
  proposal is approved at most once more often than it was reset with a device-signed recovery proof.
\<close>
theorem approvals_bounded_by_resets:
  assumes "run_ops encrypted_ops env xs (idle []) = (oks, t)"
  shows "length (filter (approves i) oks) \<le> Suc (length (filter (resets i) oks))"
  using assms unfolding encrypted_ops_def
  by (intro encrypted.run_ops_bounded) (simp_all add: table_invar_def idle_def)

theorem approvals_bounded_by_resets_witness:
  "length (filter (approves ''p1'') (fst (run_ops encrypted_ops ex_authority_env ex_ops (idle [])))) = 2
   \<and> length (filter (approves ''p1'') (fst (run_ops encrypted_ops ex_authority_env ex_ops (idle []))))
      \<le> Suc (length (filter (resets ''p1'') (fst (run_ops encrypted_ops ex_authority_env ex_ops (idle [])))))"
proof
  show "length (filter (approves ''p1'') (fst (run_ops encrypted_ops ex_authority_env ex_ops (idle [])))) = 2"
    unfolding ex_run by (simp add: ex_ops_def ex_proposal_def)
  show "length (filter (approves ''p1'') (fst (run_ops encrypted_ops ex_authority_env ex_ops (idle []))))
      \<le> Suc (length (filter (resets ''p1'') (fst (run_ops encrypted_ops ex_authority_env ex_ops (idle [])))))"
    by (rule approvals_bounded_by_resets [OF prod.collapse [symmetric]])
qed

text \<open>
  No authorization fact is used twice: in every sequence of lifecycle calls on the encrypted store each
  approval, lease, rollback, reconciliation and reset fact succeeds at most once.
\<close>
theorem facts_are_one_shot:
  assumes "run_ops encrypted_ops env xs (idle rows) = (oks, t)" and "distinct rows"
  shows "length (filter (\<lambda>x. fact_key x = k) oks) \<le> (if k \<in> set rows then 0 else 1)"
  using assms encrypted.run_ops_once [of "idle rows" env xs oks t k]
  by (auto simp: encrypted_ops_def table_invar_def idle_def split: if_splits)

theorem facts_are_one_shot_witness:
  "length (filter (\<lambda>x. fact_key x = (''approve'', ''f2'')) (fst (run_ops encrypted_ops ex_authority_env ex_ops (idle [])))) = 1
   \<and> length (filter (\<lambda>x. fact_key x = (''approve'', ''f2'')) (fst (run_ops encrypted_ops ex_authority_env ex_ops (idle [])))) \<le> 1"
proof
  show "length (filter (\<lambda>x. fact_key x = (''approve'', ''f2''))
      (fst (run_ops encrypted_ops ex_authority_env ex_ops (idle [])))) = 1"
    unfolding ex_run by (simp add: ex_ops_def ex_approval_def)
  show "length (filter (\<lambda>x. fact_key x = (''approve'', ''f2''))
      (fst (run_ops encrypted_ops ex_authority_env ex_ops (idle [])))) \<le> 1"
    using facts_are_one_shot [of ex_authority_env ex_ops "[]" "fst (run_ops encrypted_ops ex_authority_env ex_ops (idle []))"
        "snd (run_ops encrypted_ops ex_authority_env ex_ops (idle []))" "(''approve'', ''f2'')"]
    by simp
qed

text \<open>
  C9: an action that changes state or reaches outside (tier \<open>act\<close> or \<open>external\<close> of the canonical matrix) is
  approved only by a device: the approval names an enrolled, active device whose enrolled key verifies the
  signature over the action and the approval, it is bound to this proposal and payload, and it is in force.
\<close>
theorem approve_requires_device:
  assumes "approve ops env reg now p a default_approval_matrix s = (Inr st, s')"
    and "required_tier default_approval_matrix (action_class p) \<in> {Inr ACT, Inr EXTERNAL}"
  shows "proof_of a = DEVICE_SIGNED \<and> (\<exists>i d key. approval_device_id a = Some i
       \<and> device_of (devices_env env) reg i = Inr (Some d) \<and> dv_state d = ENROLLED \<and> dv_approval_public_key d = Some key
       \<and> ed25519_verify env key (approval_signature a) (signing_bytes env a (action_class p)))
     \<and> approval_class_of a = Approval \<and> proposal_state_of p = PROPOSED \<and> st = APPROVED
     \<and> fact_proposal_id a = proposal_id p \<and> fact_payload_hash a = sha256_hex env (payload p)
     \<and> \<not> dt_le (expires_at a) now \<and> \<not> dt_lt now (issued_at a)"
proof -
  from assms(1) have v: "validate_approval env reg now p a default_approval_matrix = Inr ()"
    and c: "approval_class_of a = Approval" "proposal_state_of p = PROPOSED" "st = APPROVED"
    by (auto simp: approve_def abind_Inr_iff refuse_if_cases split: if_splits dest!: claim_Inr) (cases "approval_class_of a"; simp)
  note f = validate_approval_Inr [OF v]
  from f(1) consequential_proof [OF assms(2)] have d: "proof_of a = DEVICE_SIGNED" by blast
  from verify_device_signature_Inr [OF f(6) [OF d]] show ?thesis using c d f(2-5) by (simp add: payload_hash_def)
qed

theorem approve_requires_device_witness:
  "proof_of (ex_approval ''f1'' Approval) = DEVICE_SIGNED
   \<and> fact_payload_hash (ex_approval ''f1'' Approval) = sha256_hex ex_authority_env (payload (ex_proposal PROPOSED))"
proof -
  have "\<exists>s'. approve memory_ops ex_authority_env ex_registry (at_second 5) (ex_proposal PROPOSED) (ex_approval ''f1'' Approval)
      default_approval_matrix {} = (Inr APPROVED, s')"
    by (simp add: ex_approve claim_def memory_ops_def memory_consume_def)
  then obtain s' where a: "approve memory_ops ex_authority_env ex_registry (at_second 5) (ex_proposal PROPOSED)
      (ex_approval ''f1'' Approval) default_approval_matrix {} = (Inr APPROVED, s')" ..
  have "required_tier default_approval_matrix (action_class (ex_proposal PROPOSED)) \<in> {Inr ACT, Inr EXTERNAL}"
    by (simp add: ex_proposal_def required_tier_def rule_for_def default_approval_matrix_def)
  from approve_requires_device [OF a this] show ?thesis by blast
qed

text \<open>
  The signing domains are separate: no approval has the signed bytes of a reset request, whatever the
  two contain, so a recovery signature can never be presented as an approval.
\<close>
theorem signing_domains_disjoint:
  "approval_class_of a = Approval \<and> approval_class_of r = ResetRequest \<longrightarrow> signing_bytes env a c \<noteq> signing_bytes env r c'"
  by (auto simp: signing_bytes_def Let_def)

theorem signing_domains_disjoint_witness:
  "signing_bytes ex_authority_env (ex_approval ''f'' Approval) ''calendar.apply''
   \<noteq> signing_bytes ex_authority_env (ex_approval ''f'' ResetRequest) ''calendar.apply''"
  using signing_domains_disjoint [of "ex_approval ''f'' Approval" "ex_approval ''f'' ResetRequest"]
  by (simp add: ex_approval_def)

section \<open>Devices\<close>

text \<open>
  C11: revocation is irreversible: once a device is revoked, after any further enrollments, revocations and
  restarts it is still known under the same key and fingerprint, still revoked, refused by the mTLS check,
  and no approval it signed passes validation.
\<close>
theorem revocation_is_permanent:
  assumes "codec_ok (devices_env env)" and "revoke (devices_env env) now reg i actor = Inr (d, reg')"
    and "registry_steps (devices_env env) reg' reg''"
  shows "(\<exists>e. verify_mtls_identity (devices_env env) reg'' i fp = Inl e)
     \<and> (approval_device_id a = Some i \<and> proof_of a = DEVICE_SIGNED \<longrightarrow>
          (\<exists>e. validate_approval env reg'' t p a matrix = Inl e))"
proof -
  have "device_of (devices_env env) reg' i = Inr (Some d)" using device_of_revoke [OF assms(1,2), of i] by simp
  moreover have "dv_state d = REVOKED" using revoke_cases [OF assms(2)] by (metis device.select_convs(5) device.surjective device.update_convs(5,6,7))
  ultimately obtain d' where d': "device_of (devices_env env) reg'' i = Inr (Some d')" "dv_state d' = REVOKED"
    using registry_steps_keep [OF assms(3,1)] by blast
  show ?thesis
  proof (intro conjI impI)
    show "\<exists>e. verify_mtls_identity (devices_env env) reg'' i fp = Inl e"
      using d' by (auto simp: verify_mtls_identity_def)
    assume a: "approval_device_id a = Some i \<and> proof_of a = DEVICE_SIGNED"
    show "\<exists>e. validate_approval env reg'' t p a matrix = Inl e"
    proof (rule ccontr)
      assume "\<nexists>e. validate_approval env reg'' t p a matrix = Inl e"
      then have "validate_approval env reg'' t p a matrix = Inr ()"
        by (cases "validate_approval env reg'' t p a matrix") auto
      from verify_device_signature_Inr [OF validate_approval_Inr(6) [OF this]] a d' show False by auto
    qed
  qed
qed

lemma ex_persisted_enroll:
  "\<exists>d r. enroll text_device_env (at_second 0) (new_registry (Some [])) ''phone'' ''fp'' ''user'' (Some ''pk'') = Inr (d, r)
     \<and> reg_persistence r \<noteq> None"
  by (simp add: enroll_def device_of_def new_registry_def text_device_env_def persist_load_def persist_insert_def Let_def)

theorem revocation_is_permanent_witness:
  "\<exists>d r rows. revoke text_device_env (at_second 1)
       (snd (projr (enroll text_device_env (at_second 0) (new_registry (Some [])) ''phone'' ''fp'' ''user'' (Some ''pk''))))
       ''phone'' ''user'' = Inr (d, r) \<and> reg_persistence r = Some rows
     \<and> (\<exists>e. verify_mtls_identity text_device_env (new_registry (Some rows)) ''phone'' ''fp'' = Inl e)"
proof -
  obtain d0 r0 where e: "enroll text_device_env (at_second 0) (new_registry (Some [])) ''phone'' ''fp'' ''user'' (Some ''pk'') = Inr (d0, r0)"
    and p: "reg_persistence r0 \<noteq> None" using ex_persisted_enroll by blast
  have "device_of text_device_env r0 ''phone'' = Inr (Some d0)"
    using device_of_enroll [OF text_device_env_codec e, of "''phone''"] by simp
  then obtain d r where r: "revoke text_device_env (at_second 1) r0 ''phone'' ''user'' = Inr (d, r)"
    by (simp add: revoke_def Let_def)
  then obtain rows where rows: "reg_persistence r = Some rows" using p by (auto elim!: revoke_cases)
  have "registry_steps text_device_env r (new_registry (Some rows))"
    using step_restart [OF rows] by blast
  with revocation_is_permanent [of ex_authority_env "at_second 1" r0 "''phone''" "''user''" d r]
    r text_device_env_codec have "\<exists>e. verify_mtls_identity text_device_env (new_registry (Some rows)) ''phone'' ''fp'' = Inl e"
    by (simp add: ex_authority_env_def)
  with e r rows show ?thesis by auto
qed

text \<open>
  Public key fingerprints identify devices: in every registry that is reached from an empty one, two
  enrolled or revoked devices with the same fingerprint are the same device.
\<close>
theorem fingerprints_are_unique:
  assumes "codec_ok env" and "registry_steps env (new_registry persistence) reg" and "persistence \<in> {None, Some []}"
    and "device_of env reg i = Inr (Some d)" and "device_of env reg j = Inr (Some e)"
    and "dv_public_key_fingerprint d = dv_public_key_fingerprint e"
  shows "i = j"
proof -
  have "registry_inv env reg" using registry_inv_steps [OF assms(2,1)] registry_inv_new assms(3) by auto
  then show ?thesis using assms(4-6) by (rule device_of_unique)
qed

theorem fingerprints_are_unique_witness:
  "\<exists>reg d. registry_steps text_device_env (new_registry (Some [])) reg \<and> device_of text_device_env reg ''phone'' = Inr (Some d)
     \<and> (\<forall>j. device_of text_device_env reg j = Inr (Some d) \<longrightarrow> ''phone'' = j)"
proof -
  obtain d r where e: "enroll text_device_env (at_second 0) (new_registry (Some [])) ''phone'' ''fp'' ''user'' (Some ''pk'') = Inr (d, r)"
    using ex_persisted_enroll by blast
  have steps: "registry_steps text_device_env (new_registry (Some [])) r" using step_enroll [OF e] by blast
  have dev: "device_of text_device_env r ''phone'' = Inr (Some d)"
    using device_of_enroll [OF text_device_env_codec e, of "''phone''"] by simp
  have "''phone'' = j" if "device_of text_device_env r j = Inr (Some d)" for j
    using fingerprints_are_unique [OF text_device_env_codec steps _ dev that] by simp
  with steps dev show ?thesis by blast
qed

end
