(* ===== verification/Leases.thy ===== *)
theory Leases
  imports Authority
begin

text \<open>
  \<open>leases.py\<close>: rotating signing keys and one-shot capability leases.  HMAC-SHA256 is a parameter, the clock
  reading is an instant (the injected clock is a UTC clock), and the identifier drawn by \<open>uuid4\<close> is an
  argument of \<open>issue\<close>.
\<close>

record signing_key_ring =
  current_key :: string
  ring_generation :: nat

datatype lease_error = LeaseViolationError string | KeyValueError string

definition new_key_ring :: "string \<Rightarrow> signing_key_ring" where
  "new_key_ring key = \<lparr>current_key = key, ring_generation = 0\<rparr>"

definition rotate :: "string \<Rightarrow> signing_key_ring \<Rightarrow> lease_error + signing_key_ring" where
  "rotate new_key ring =
     (if new_key = current_key ring then Inl (KeyValueError ''new signing key must differ from the current key'')
      else Inr (ring\<lparr>current_key := new_key, ring_generation := ring_generation ring + 1\<rparr>))"

definition ring_sign :: "(string \<Rightarrow> string \<Rightarrow> string) \<Rightarrow> signing_key_ring \<Rightarrow> string \<Rightarrow> string" where
  "ring_sign hmac ring text = hmac (current_key ring) text"

definition ring_verify :: "(string \<Rightarrow> string \<Rightarrow> string) \<Rightarrow> signing_key_ring \<Rightarrow> string \<Rightarrow> string \<Rightarrow> bool" where
  "ring_verify hmac ring text signature \<longleftrightarrow> signature = hmac (current_key ring) text"

record lease_request =
  lr_capability :: string
  lr_worker_id :: string
  lr_actor :: string
  lr_correlation_id :: string
  lr_idempotency_key :: string

record lease_verification =
  lv_lease_id :: string
  lv_proposal_id :: string
  lv_capability :: string
  lv_worker_id :: string
  lv_verified_at :: datetime

record lease_issuer =
  issuer_keys :: signing_key_ring
  lease_ttl :: int
  lease_consumed :: "string set"

definition new_lease_issuer :: "signing_key_ring \<Rightarrow> int \<Rightarrow> lease_issuer" where
  "new_lease_issuer keys ttl = \<lparr>issuer_keys = keys, lease_ttl = ttl, lease_consumed = {}\<rparr>"

definition lease_payload :: "capability_lease \<Rightarrow> string" where
  "lease_payload lease = join [CHR 0x1F]
     [fact_id lease, fact_proposal_id lease, fact_payload_hash lease, capability lease, worker_id lease,
      isoformat (issued_at lease), isoformat (expires_at lease), idempotency_key lease,
      fact_actor lease, fact_correlation_id lease]"

definition issue ::
  "authority_env \<Rightarrow> (string \<Rightarrow> string \<Rightarrow> string) \<Rightarrow> instant \<Rightarrow> string \<Rightarrow> lease_issuer \<Rightarrow> proposal_record \<Rightarrow> lease_request
   \<Rightarrow> lease_error + capability_lease" where
  "issue env hmac now new_id issuer p r =
     (if proposal_state_of p \<noteq> APPROVED
      then Inl (LeaseViolationError (''cannot lease proposal in state '' @ proposal_state_value (proposal_state_of p)))
      else
        let issued = utc_datetime now;
            expires = utc_datetime (now + lease_ttl issuer);
            fields = [new_id, proposal_id p, payload_hash env p, lr_capability r, lr_worker_id r,
              isoformat issued, isoformat expires, lr_idempotency_key r, lr_actor r, lr_correlation_id r]
        in Inr \<lparr>fact_id = new_id, fact_proposal_id = proposal_id p, fact_payload_hash = payload_hash env p,
                issued_at = issued, expires_at = expires, idempotency_key = lr_idempotency_key r,
                fact_actor = lr_actor r, fact_correlation_id = lr_correlation_id r,
                capability = lr_capability r, worker_id = lr_worker_id r,
                lease_signature = ring_sign hmac (issuer_keys issuer) (join [CHR 0x1F] fields)\<rparr>)"

definition verify_lease ::
  "authority_env \<Rightarrow> (string \<Rightarrow> string \<Rightarrow> string) \<Rightarrow> instant \<Rightarrow> capability_lease \<Rightarrow> proposal_record
   \<Rightarrow> (lease_issuer, lease_error, lease_verification) action" where
  "verify_lease env hmac now lease p issuer =
     (if \<not> ring_verify hmac (issuer_keys issuer) (lease_payload lease) (lease_signature lease)
      then (Inl (LeaseViolationError ''lease signature is invalid (forged or key rotated)''), issuer)
      else if fact_proposal_id lease \<noteq> proposal_id p
      then (Inl (LeaseViolationError ''lease proposal id does not match''), issuer)
      else if fact_payload_hash lease \<noteq> payload_hash env p
      then (Inl (LeaseViolationError ''lease payload hash does not match proposal''), issuer)
      else if dt_le (expires_at lease) (utc_datetime now)
      then (Inl (LeaseViolationError ''lease has expired''), issuer)
      else if fact_id lease \<in> lease_consumed issuer
      then (Inl (LeaseViolationError ''lease replay''), issuer)
      else (Inr \<lparr>lv_lease_id = fact_id lease, lv_proposal_id = fact_proposal_id lease, lv_capability = capability lease,
                 lv_worker_id = worker_id lease, lv_verified_at = utc_datetime now\<rparr>,
            issuer\<lparr>lease_consumed := insert (fact_id lease) (lease_consumed issuer)\<rparr>))"

section \<open>The life of an issuer\<close>

datatype issuer_op = Verify_op instant capability_lease proposal_record | Rotate_op string

fun issuer_step ::
  "authority_env \<Rightarrow> (string \<Rightarrow> string \<Rightarrow> string) \<Rightarrow> issuer_op \<Rightarrow> lease_issuer \<Rightarrow> lease_verification option \<times> lease_issuer" where
  "issuer_step env hmac (Verify_op now lease p) issuer =
     (case verify_lease env hmac now lease p issuer of
        (Inl e, issuer') \<Rightarrow> (None, issuer')
      | (Inr v, issuer') \<Rightarrow> (Some v, issuer'))"
| "issuer_step env hmac (Rotate_op key) issuer =
     (case rotate key (issuer_keys issuer) of
        Inl e \<Rightarrow> (None, issuer)
      | Inr ring \<Rightarrow> (None, issuer\<lparr>issuer_keys := ring\<rparr>))"

fun issuer_run ::
  "authority_env \<Rightarrow> (string \<Rightarrow> string \<Rightarrow> string) \<Rightarrow> issuer_op list \<Rightarrow> lease_issuer \<Rightarrow> lease_verification list \<times> lease_issuer" where
  "issuer_run env hmac [] issuer = ([], issuer)"
| "issuer_run env hmac (x # xs) issuer =
     (let (v, issuer1) = issuer_step env hmac x issuer; (vs, issuer2) = issuer_run env hmac xs issuer1
      in ((case v of None \<Rightarrow> [] | Some w \<Rightarrow> [w]) @ vs, issuer2))"

lemma issue_Inr:
  assumes "issue env hmac now i issuer p r = Inr lease"
  shows "lease_signature lease = hmac (current_key (issuer_keys issuer)) (lease_payload lease)"
    and "fact_proposal_id lease = proposal_id p" and "fact_payload_hash lease = payload_hash env p"
    and "expires_at lease = utc_datetime (now + lease_ttl issuer)" and "fact_id lease = i"
    and "proposal_state_of p = APPROVED"
  using assms by (auto simp: issue_def lease_payload_def ring_sign_def Let_def split: if_splits)

lemma verify_lease_Inr:
  assumes "verify_lease env hmac now lease p issuer = (Inr v, issuer')"
  shows "fact_id lease \<notin> lease_consumed issuer"
    and "issuer' = issuer\<lparr>lease_consumed := insert (fact_id lease) (lease_consumed issuer)\<rparr>" and "lv_lease_id v = fact_id lease"
  using assms by (auto simp: verify_lease_def split: if_splits)

lemma verify_lease_Inl: "verify_lease env hmac now lease p issuer = (Inl e, issuer') \<Longrightarrow> issuer' = issuer"
  by (auto simp: verify_lease_def split: if_splits)

lemma issuer_step_facts:
  assumes "issuer_step env hmac x issuer = (v, issuer')"
  shows "case v of None \<Rightarrow> lease_consumed issuer' = lease_consumed issuer
     | Some w \<Rightarrow> lv_lease_id w \<notin> lease_consumed issuer \<and> lease_consumed issuer' = insert (lv_lease_id w) (lease_consumed issuer)"
proof (cases x)
  case (Verify_op now lease p)
  obtain r i1 where r: "verify_lease env hmac now lease p issuer = (r, i1)" by fastforce
  show ?thesis
  proof (cases r)
    case (Inl e)
    with r assms Verify_op show ?thesis using verify_lease_Inl [of env hmac now lease p issuer e i1] by simp
  next
    case (Inr w)
    with r assms Verify_op show ?thesis using verify_lease_Inr [of env hmac now lease p issuer w i1] by auto
  qed
next
  case (Rotate_op key)
  with assms show ?thesis by (auto split: sum.splits)
qed

lemma issuer_run_once:
  assumes "issuer_run env hmac xs issuer = (vs, issuer')"
  shows "distinct (map lv_lease_id vs) \<and> set (map lv_lease_id vs) \<inter> lease_consumed issuer = {}"
  using assms
proof (induction xs arbitrary: issuer vs)
  case (Cons x xs)
  obtain v issuer1 where s: "issuer_step env hmac x issuer = (v, issuer1)" by fastforce
  obtain vs1 where r: "issuer_run env hmac xs issuer1 = (vs1, issuer')"
    and vs: "vs = (case v of None \<Rightarrow> [] | Some w \<Rightarrow> [w]) @ vs1"
    using Cons.prems s by (auto simp: Let_def split: prod.splits)
  from Cons.IH [OF r] issuer_step_facts [OF s] vs show ?case by (cases v) auto
qed simp

section \<open>Properties\<close>

text \<open>
  An issued lease is good exactly once: until its deadline, and while its key is current, it verifies
  against the approved proposal it was issued for; afterwards the same lease is refused at every later time.
\<close>
theorem lease_round_trip:
  assumes "issue env hmac now i issuer p r = Inr lease" and "i \<notin> lease_consumed issuer"
    and "t < now + lease_ttl issuer"
  shows "\<exists>v issuer'. verify_lease env hmac t lease p issuer = (Inr v, issuer')
     \<and> lv_lease_id v = i \<and> lv_capability v = lr_capability r \<and> lv_worker_id v = lr_worker_id r
     \<and> (\<forall>t' p'. \<exists>reason. verify_lease env hmac t' lease p' issuer' = (Inl (LeaseViolationError reason), issuer'))"
proof -
  note f = issue_Inr [OF assms(1)]
  have w: "capability lease = lr_capability r" "worker_id lease = lr_worker_id r"
    using assms(1) by (auto simp: issue_def Let_def split: if_splits)
  show ?thesis
    using f assms(2,3) w by (simp add: verify_lease_def ring_verify_def)
qed

definition ex_lease_env :: authority_env where
  "ex_lease_env = \<lparr>sha256_hex = (\<lambda>s. s), ed25519_verify = (\<lambda>_ _ _. False), time_text = (\<lambda>_. []),
     devices_env = \<lparr>dump_device = (\<lambda>_. []), parse_device = (\<lambda>_. None), public_key_ok = (\<lambda>_. False)\<rparr>\<rparr>"

definition ex_lease_proposal :: proposal_record where
  "ex_lease_proposal = \<lparr>proposal_id = ''p1'', action_class = ''worker.execute'', payload = ''run'',
     proposal_state_of = APPROVED, created_at = utc_datetime 0\<rparr>"

definition ex_lease_request :: "string \<Rightarrow> string \<Rightarrow> lease_request" where
  "ex_lease_request c w = \<lparr>lr_capability = c, lr_worker_id = w, lr_actor = ''user'', lr_correlation_id = ''c'',
     lr_idempotency_key = ''k''\<rparr>"

abbreviation ex_hmac :: "string \<Rightarrow> string \<Rightarrow> string" where
  "ex_hmac \<equiv> \<lambda>key text. key @ ''|'' @ text"

definition ex_issuer :: lease_issuer where
  "ex_issuer = new_lease_issuer (new_key_ring ''k0'') 60"

lemma ex_issue: "\<exists>lease. issue ex_lease_env ex_hmac 0 ''l1'' ex_issuer ex_lease_proposal (ex_lease_request ''read'' ''w1'') = Inr lease"
  by (simp add: issue_def ex_lease_proposal_def Let_def)

theorem lease_round_trip_witness:
  "\<exists>lease v issuer'. issue ex_lease_env ex_hmac 0 ''l1'' ex_issuer ex_lease_proposal (ex_lease_request ''read'' ''w1'') = Inr lease
     \<and> verify_lease ex_lease_env ex_hmac 30 lease ex_lease_proposal ex_issuer = (Inr v, issuer')"
proof -
  obtain lease where l: "issue ex_lease_env ex_hmac 0 ''l1'' ex_issuer ex_lease_proposal (ex_lease_request ''read'' ''w1'') = Inr lease"
    using ex_issue by blast
  have "''l1'' \<notin> lease_consumed ex_issuer" and "(30::int) < 0 + lease_ttl ex_issuer"
    by (simp_all add: ex_issuer_def new_lease_issuer_def)
  from lease_round_trip [OF l this] l show ?thesis by blast
qed

text \<open>
  In every sequence of verifications and key rotations no lease is accepted twice, and none that was
  consumed before is accepted at all.
\<close>
theorem leases_are_one_shot:
  assumes "issuer_run env hmac xs issuer = (vs, issuer')"
  shows "distinct (map lv_lease_id vs) \<and> set (map lv_lease_id vs) \<inter> lease_consumed issuer = {}"
  using assms by (rule issuer_run_once)

theorem leases_are_one_shot_witness:
  "distinct (map lv_lease_id (fst (issuer_run ex_lease_env ex_hmac [Rotate_op ''k1'', Rotate_op ''k1''] ex_issuer)))"
  using leases_are_one_shot [OF prod.collapse [symmetric], of ex_lease_env ex_hmac "[Rotate_op ''k1'', Rotate_op ''k1'']" ex_issuer]
  by blast

text \<open>
  Rotating the signing key revokes every lease signed before: when different keys give different
  authentication codes, a lease issued under the old key is refused as forged or rotated.
\<close>
theorem rotation_revokes_leases:
  assumes "\<forall>k k' m. hmac k m = hmac k' m \<longrightarrow> k = k'"
    and "issue env hmac now i issuer p r = Inr lease" and "rotate key (issuer_keys issuer) = Inr ring"
  shows "verify_lease env hmac t lease p' (issuer\<lparr>issuer_keys := ring\<rparr>)
     = (Inl (LeaseViolationError ''lease signature is invalid (forged or key rotated)''), issuer\<lparr>issuer_keys := ring\<rparr>)"
proof -
  have "current_key ring \<noteq> current_key (issuer_keys issuer)"
    using assms(3) by (auto simp: rotate_def split: if_splits)
  then have "lease_signature lease \<noteq> hmac (current_key ring) (lease_payload lease)"
    using assms(1) issue_Inr(1) [OF assms(2)] by metis
  then show ?thesis by (simp add: verify_lease_def ring_verify_def)
qed

definition keyed_hmac :: "string \<Rightarrow> string \<Rightarrow> string" where
  "keyed_hmac key text = key"

theorem rotation_revokes_leases_witness:
  "\<exists>lease ring. issue ex_lease_env keyed_hmac 0 ''l1'' ex_issuer ex_lease_proposal (ex_lease_request ''read'' ''w1'') = Inr lease
     \<and> rotate ''k1'' (issuer_keys ex_issuer) = Inr ring
     \<and> fst (verify_lease ex_lease_env keyed_hmac 30 lease ex_lease_proposal (ex_issuer\<lparr>issuer_keys := ring\<rparr>))
        = Inl (LeaseViolationError ''lease signature is invalid (forged or key rotated)'')"
proof -
  have h: "\<forall>k k' m. keyed_hmac k m = keyed_hmac k' m \<longrightarrow> k = k'" by (simp add: keyed_hmac_def)
  have "\<exists>lease. issue ex_lease_env keyed_hmac 0 ''l1'' ex_issuer ex_lease_proposal (ex_lease_request ''read'' ''w1'') = Inr lease"
    by (simp add: issue_def ex_lease_proposal_def Let_def)
  then obtain lease where l: "issue ex_lease_env keyed_hmac 0 ''l1'' ex_issuer ex_lease_proposal (ex_lease_request ''read'' ''w1'') = Inr lease" ..
  have "\<exists>ring. rotate ''k1'' (issuer_keys ex_issuer) = Inr ring"
    by (simp add: rotate_def ex_issuer_def new_lease_issuer_def new_key_ring_def)
  then obtain ring where k: "rotate ''k1'' (issuer_keys ex_issuer) = Inr ring" ..
  from rotation_revokes_leases [OF h l k] l k show ?thesis by simp
qed

text \<open>
  The signed text joins its fields with a separator it does not exclude: a lease issued for one capability
  and worker also carries a valid signature for another pair.
\<close>

lemma lease_text_ambiguous:
  "\<exists>lease. issue ex_lease_env hmac 0 ''l1'' ex_issuer ex_lease_proposal
       (ex_lease_request (''read'' @ [CHR 0x1F] @ ''mail'') ''w1'') = Inr lease
     \<and> \<not> isl (fst (verify_lease ex_lease_env hmac 30
          (lease\<lparr>capability := ''read'', worker_id := ''mail'' @ [CHR 0x1F] @ ''w1''\<rparr>) ex_lease_proposal ex_issuer))"
  by (simp add: issue_def ex_lease_proposal_def ex_issuer_def new_lease_issuer_def new_key_ring_def ex_lease_request_def
      verify_lease_def ring_verify_def ring_sign_def lease_payload_def Let_def payload_hash_def ex_lease_env_def)

end
