(* ===== verification/Domain_Models.thy ===== *)
theory Domain_Models
  imports Datetime
begin

text \<open>
  \<open>models.py\<close>: the persisted domain records.  The fields every version shares are the record
  \<open>domain_record\<close>; the closed set of variants is the datatype \<open>record_body\<close>.  UUIDs are their text.
\<close>

datatype record_kind =
    IDENTITY | CONNECTOR | CAPABILITY | SOURCE_ITEM | NORMALIZED_FACT | TASK | EVENT | PROPOSAL | APPROVAL
  | EXECUTION | ENERGY_CHECK_IN | GOAL | PATTERN_SNAPSHOT | CONSENT_RECORD

fun record_kind_value :: "record_kind \<Rightarrow> string" where
  "record_kind_value IDENTITY = ''identity''"
| "record_kind_value CONNECTOR = ''connector''"
| "record_kind_value CAPABILITY = ''capability''"
| "record_kind_value SOURCE_ITEM = ''source_item''"
| "record_kind_value NORMALIZED_FACT = ''normalized_fact''"
| "record_kind_value TASK = ''task''"
| "record_kind_value EVENT = ''event''"
| "record_kind_value PROPOSAL = ''proposal''"
| "record_kind_value APPROVAL = ''approval''"
| "record_kind_value EXECUTION = ''execution''"
| "record_kind_value ENERGY_CHECK_IN = ''energy_check_in''"
| "record_kind_value GOAL = ''goal''"
| "record_kind_value PATTERN_SNAPSHOT = ''pattern_snapshot''"
| "record_kind_value CONSENT_RECORD = ''consent_record''"

lemma record_kind_value_inject [simp]: "record_kind_value k = record_kind_value l \<longleftrightarrow> k = l"
  by (cases k; cases l) simp_all

datatype record_body =
    Identity string
  | Connector string string
  | Capability string string bool
  | SourceItem string string string
  | NormalizedFact string string string
  | Task string
  | Event string datetime
  | Proposal string string string string bool string
  | ApprovalFact string string
  | Execution string string
  | EnergyCheckIn int string
  | Goal string
  | PatternSnapshot string int
  | ConsentRecord string bool

record domain_record =
  record_id :: string
  record_created_at :: datetime
  record_state :: string
  record_body :: record_body

record transition_context =
  ctx_actor :: string
  ctx_correlation_id :: string
  ctx_occurred_at :: datetime

fun body_kind :: "record_body \<Rightarrow> record_kind" where
  "body_kind (Identity _) = IDENTITY"
| "body_kind (Connector _ _) = CONNECTOR"
| "body_kind (Capability _ _ _) = CAPABILITY"
| "body_kind (SourceItem _ _ _) = SOURCE_ITEM"
| "body_kind (NormalizedFact _ _ _) = NORMALIZED_FACT"
| "body_kind (Task _) = TASK"
| "body_kind (Event _ _) = EVENT"
| "body_kind (Proposal _ _ _ _ _ _) = PROPOSAL"
| "body_kind (ApprovalFact _ _) = APPROVAL"
| "body_kind (Execution _ _) = EXECUTION"
| "body_kind (EnergyCheckIn _ _) = ENERGY_CHECK_IN"
| "body_kind (Goal _) = GOAL"
| "body_kind (PatternSnapshot _ _) = PATTERN_SNAPSHOT"
| "body_kind (ConsentRecord _ _) = CONSENT_RECORD"

definition kind_of_record :: "domain_record \<Rightarrow> record_kind" where
  "kind_of_record r = body_kind (record_body r)"

fun provenance_source_id :: "record_body \<Rightarrow> string option" where
  "provenance_source_id (NormalizedFact source_id _ _) = Some source_id"
| "provenance_source_id _ = None"

definition source_reference :: "domain_record \<Rightarrow> string option" where
  "source_reference r = provenance_source_id (record_body r)"

text \<open>The declared constraints: non-empty texts, energy between 1 and 5, a non-negative sample count.\<close>

fun valid_body :: "record_body \<Rightarrow> bool" where
  "valid_body (Identity name) = (name \<noteq> [])"
| "valid_body (Connector name secret) = (name \<noteq> [] \<and> secret \<noteq> [])"
| "valid_body (Capability connector name granted) = (name \<noteq> [])"
| "valid_body (SourceItem source_type external_id raw) = (source_type = ''communication'' \<and> external_id \<noteq> [] \<and> raw \<noteq> [])"
| "valid_body (NormalizedFact source fact_type v) = (fact_type \<noteq> [] \<and> v \<noteq> [])"
| "valid_body (Task title) = (title \<noteq> [])"
| "valid_body (Event title starts) = (title \<noteq> [])"
| "valid_body (Proposal ptype payload decision version reversible approval) =
     (ptype \<noteq> [] \<and> payload \<noteq> [] \<and> decision \<noteq> [] \<and> version \<noteq> [] \<and> approval \<noteq> [])"
| "valid_body (ApprovalFact p decision) = (decision \<noteq> [])"
| "valid_body (Execution p result) = (result \<noteq> [])"
| "valid_body (EnergyCheckIn energy mood) = (1 \<le> energy \<and> energy \<le> 5 \<and> mood \<noteq> [])"
| "valid_body (Goal title) = (title \<noteq> [])"
| "valid_body (PatternSnapshot label n) = (label \<noteq> [] \<and> 0 \<le> n)"
| "valid_body (ConsentRecord scope granted) = (scope \<noteq> [])"

definition valid_record :: "domain_record \<Rightarrow> bool" where
  "valid_record r \<longleftrightarrow> record_state r \<noteq> [] \<and> valid_body (record_body r)"

record tombstone =
  tb_record_id :: string
  tb_record_kind :: record_kind
  tb_deleted_at :: datetime
  tb_source_fingerprint :: string

end
