(* ===== verification/Ledger.thy ===== *)
theory Ledger
  imports Domain_Models Json Transactions
begin

text \<open>
  \<open>audit.py\<close> and \<open>ledger.py\<close>: the HMAC-chained audit ledger.  The tables are lists of rows; \<open>ORDER BY
  sequence\<close> is a sort.  A stored timestamp comes back from \<open>fromisoformat(isoformat(..))\<close> with the same
  clock reading and offset but with a fixed-offset \<open>tzinfo\<close>.  HMAC-SHA256 is a parameter.
\<close>

record audit_entry =
  ae_sequence :: int
  ae_occurred_at :: datetime
  ae_action_class :: string
  ae_record_kind :: record_kind
  ae_record_id :: string
  ae_actor :: string
  ae_correlation_id :: string
  ae_source_fingerprint :: string
  ae_action_metadata :: string
  ae_previous_hash :: string
  ae_entry_hash :: string

record audit_verification =
  entries_verified :: nat
  final_hash :: string

record audit_mutation =
  am_record_kind :: record_kind
  am_record_id :: string
  am_state :: string
  am_action_class :: string
  am_source_fingerprint :: string
  am_context :: transition_context

datatype ledger_error =
    AuditTamperError int
  | LedgerIntegrityError
  | LifecycleRequired
  | LedgerTypeError

definition audit_payload :: "audit_entry \<Rightarrow> string" where
  "audit_payload e = join [CHR 0x1F]
     [str_int (ae_sequence e), isoformat (ae_occurred_at e), ae_action_class e, record_kind_value (ae_record_kind e),
      ae_record_id e, ae_actor e, ae_correlation_id e, ae_source_fingerprint e, ae_action_metadata e, ae_previous_hash e]"

definition sign_entry :: "(string \<Rightarrow> string \<Rightarrow> string) \<Rightarrow> audit_entry \<Rightarrow> string \<Rightarrow> string" where
  "sign_entry hmac e key = hmac key (audit_payload e)"

record ledger =
  audit_rows :: "audit_entry list"
  audit_chain_anchor :: "(int \<times> string) option"
  lifecycle_delete_allowed :: bool

definition zero_hash :: string where
  "zero_hash = replicate 64 (CHR ''0'')"

definition new_ledger :: ledger where
  "new_ledger = \<lparr>audit_rows = [], audit_chain_anchor = Some (0, zero_hash), lifecycle_delete_allowed = False\<rparr>"

definition reread :: "datetime \<Rightarrow> datetime" where
  "reread d = d\<lparr>tz := (case offset d of None \<Rightarrow> NoTz
       | Some off \<Rightarrow> if off = 0 then Utc else FixedOffset (nat (off + 86400000000))), fold_sensitive := False\<rparr>"

definition ledger_entries :: "ledger \<Rightarrow> audit_entry list" where
  "ledger_entries l = map (\<lambda>e. e\<lparr>ae_occurred_at := reread (ae_occurred_at e)\<rparr>) (sort_key ae_sequence (audit_rows l))"

text \<open>The row the next entry follows: the last entry, or the anchor when the table is empty.\<close>

definition last_link :: "ledger \<Rightarrow> (int \<times> string) option" where
  "last_link l = (case rev (sort_key ae_sequence (audit_rows l)) of
       e # _ \<Rightarrow> Some (ae_sequence e, ae_entry_hash e)
     | [] \<Rightarrow> audit_chain_anchor l)"

definition unsigned_entry :: "audit_mutation \<Rightarrow> (int \<times> string) option \<Rightarrow> audit_entry" where
  "unsigned_entry m link =
     \<lparr>ae_sequence = (case link of None \<Rightarrow> 1 | Some (n, _) \<Rightarrow> n + 1),
      ae_occurred_at = ctx_occurred_at (am_context m), ae_action_class = am_action_class m,
      ae_record_kind = am_record_kind m, ae_record_id = am_record_id m, ae_actor = ctx_actor (am_context m),
      ae_correlation_id = ctx_correlation_id (am_context m), ae_source_fingerprint = am_source_fingerprint m,
      ae_action_metadata = json_dumps (JObject [(''state'', JString (am_state m))]),
      ae_previous_hash = (case link of None \<Rightarrow> zero_hash | Some (_, h) \<Rightarrow> h), ae_entry_hash = []\<rparr>"

definition ledger_append ::
  "(string \<Rightarrow> string \<Rightarrow> string) \<Rightarrow> string \<Rightarrow> audit_mutation \<Rightarrow> (ledger, ledger_error, unit) action" where
  "ledger_append hmac key m l =
     (let unsigned = unsigned_entry m (last_link l);
          e = unsigned\<lparr>ae_entry_hash := sign_entry hmac unsigned key\<rparr>
      in if ae_sequence e \<in> ae_sequence ` set (audit_rows l) then (Inl LedgerIntegrityError, l)
         else (Inr (), l\<lparr>audit_rows := audit_rows l @ [e]\<rparr>))"

fun verify_entries ::
  "(string \<Rightarrow> string \<Rightarrow> string) \<Rightarrow> string \<Rightarrow> int \<Rightarrow> string \<Rightarrow> audit_entry list \<Rightarrow> ledger_error + string" where
  "verify_entries hmac key expected previous [] = Inr previous"
| "verify_entries hmac key expected previous (e # es) =
     (if ae_sequence e = expected \<and> ae_previous_hash e = previous \<and> ae_entry_hash e = sign_entry hmac e key
      then verify_entries hmac key (expected + 1) (ae_entry_hash e) es
      else Inl (AuditTamperError expected))"

definition anchor_sequence :: "ledger \<Rightarrow> int" where
  "anchor_sequence l = (case audit_chain_anchor l of None \<Rightarrow> 0 | Some (n, _) \<Rightarrow> n)"

definition anchor_hash :: "ledger \<Rightarrow> string" where
  "anchor_hash l = (case audit_chain_anchor l of None \<Rightarrow> zero_hash | Some (_, h) \<Rightarrow> h)"

definition ledger_verify ::
  "(string \<Rightarrow> string \<Rightarrow> string) \<Rightarrow> string \<Rightarrow> ledger \<Rightarrow> ledger_error + audit_verification" where
  "ledger_verify hmac key l =
     ebind (verify_entries hmac key (anchor_sequence l + 1) (anchor_hash l) (ledger_entries l)) (\<lambda>h.
       Inr \<lparr>entries_verified = length (ledger_entries l), final_hash = h\<rparr>)"

text \<open>\<open>DELETE\<close> is guarded by a trigger that asks whether the lifecycle has authorized it.\<close>

definition delete_entries :: "int \<Rightarrow> (ledger, ledger_error, unit) action" where
  "delete_entries n l =
     (if \<not> lifecycle_delete_allowed l \<and> (\<exists>e \<in> set (audit_rows l). ae_sequence e \<le> n) then (Inl LifecycleRequired, l)
      else (Inr (), l\<lparr>audit_rows := filter (\<lambda>e. \<not> ae_sequence e \<le> n) (audit_rows l)\<rparr>))"

definition authorize_lifecycle_delete :: "ledger \<Rightarrow> ledger" where
  "authorize_lifecycle_delete l = l\<lparr>lifecycle_delete_allowed := True\<rparr>"

definition revoke_lifecycle_delete :: "ledger \<Rightarrow> ledger" where
  "revoke_lifecycle_delete l = l\<lparr>lifecycle_delete_allowed := False\<rparr>"

definition prune_before ::
  "(string \<Rightarrow> string \<Rightarrow> string) \<Rightarrow> string \<Rightarrow> datetime \<Rightarrow> (ledger, ledger_error, nat) action" where
  "prune_before hmac key cutoff l =
     (case ledger_verify hmac key l of
        Inl e \<Rightarrow> (Inl e, l)
      | Inr _ \<Rightarrow>
          if \<exists>e \<in> set (ledger_entries l). is_naive (ae_occurred_at e) \<noteq> is_naive cutoff then (Inl LedgerTypeError, l)
          else let expired = filter (\<lambda>e. dt_lt (ae_occurred_at e) cutoff) (ledger_entries l) in
            if expired = [] then (Inr 0, l)
            else let
                final = last expired;
                (result, l1) = delete_entries (ae_sequence final) (authorize_lifecycle_delete l);
                l2 = revoke_lifecycle_delete l1
              in case result of
                   Inl e \<Rightarrow> (Inl e, l2)
                 | Inr _ \<Rightarrow> (Inr (length expired),
                     l2\<lparr>audit_chain_anchor := map_option (\<lambda>_. (ae_sequence final, ae_entry_hash final)) (audit_chain_anchor l2)\<rparr>))"

end
