(* ===== verification/Ledger_Chain.thy ===== *)
theory Ledger_Chain
  imports Ledger "HOL-Library.Multiset"
begin

text \<open>
  The audit chain: appending and pruning keep it verifiable, and a verified chain is determined by its
  final hash.
\<close>

section \<open>Verification of a list of entries\<close>

lemma isoformat_reread [simp]: "isoformat (reread d) = isoformat d"
  by (simp add: isoformat_def reread_def)

lemma audit_payload_reread [simp]: "audit_payload (e\<lparr>ae_occurred_at := reread (ae_occurred_at e)\<rparr>) = audit_payload e"
  by (simp add: audit_payload_def)

lemma audit_payload_hash [simp]: "audit_payload (e\<lparr>ae_entry_hash := h\<rparr>) = audit_payload e"
  by (simp add: audit_payload_def)

lemma sign_entry_reread [simp]: "sign_entry hmac (e\<lparr>ae_occurred_at := reread (ae_occurred_at e)\<rparr>) key = sign_entry hmac e key"
  by (simp add: sign_entry_def)

lemma verify_entries_reread [simp]:
  "verify_entries hmac key n p (map (\<lambda>e. e\<lparr>ae_occurred_at := reread (ae_occurred_at e)\<rparr>) es) = verify_entries hmac key n p es"
  by (induction es arbitrary: n p) simp_all

lemma verify_entries_append:
  "verify_entries hmac key n p (es @ fs) =
   ebind (verify_entries hmac key n p es) (\<lambda>h. verify_entries hmac key (n + int (length es)) h fs)"
  by (induction es arbitrary: n p) (simp_all add: algebra_simps)

lemma verify_entries_final:
  "verify_entries hmac key n p es = Inr h \<Longrightarrow> h = (if es = [] then p else ae_entry_hash (last es))"
  by (induction es arbitrary: n p) (auto split: if_splits)

lemma verify_entries_sequence:
  "verify_entries hmac key n p es = Inr h \<Longrightarrow> map ae_sequence es = map (\<lambda>i. n + int i) [0..<length es]"
proof (induction es arbitrary: n p)
  case (Cons e es)
  then have "ae_sequence e = n" and "map ae_sequence es = map (\<lambda>i. n + 1 + int i) [0..<length es]"
    by (auto split: if_splits)
  then show ?case by (simp add: upt_conv_Cons map_Suc_upt [symmetric] comp_def algebra_simps del: upt_Suc)
qed simp

lemma verify_entries_nth:
  assumes "verify_entries hmac key n p es = Inr h" and "i < length es"
  shows "ae_sequence (es ! i) = n + int i"
proof -
  have "map ae_sequence es ! i = map (\<lambda>i. n + int i) [0..<length es] ! i"
    by (simp only: verify_entries_sequence [OF assms(1)])
  with assms(2) show ?thesis by simp
qed

section \<open>The verified ledger\<close>

definition stored_entries :: "ledger \<Rightarrow> audit_entry list" where
  "stored_entries l = sort_key ae_sequence (audit_rows l)"

definition chain_ok :: "(string \<Rightarrow> string \<Rightarrow> string) \<Rightarrow> string \<Rightarrow> ledger \<Rightarrow> bool" where
  "chain_ok hmac key l \<longleftrightarrow> (\<exists>v. ledger_verify hmac key l = Inr v)"

lemma ledger_verify_stored:
  "ledger_verify hmac key l =
   ebind (verify_entries hmac key (anchor_sequence l + 1) (anchor_hash l) (stored_entries l)) (\<lambda>h.
     Inr \<lparr>entries_verified = length (stored_entries l), final_hash = h\<rparr>)"
  by (simp add: ledger_verify_def ledger_entries_def stored_entries_def)

lemma last_link_stored:
  "last_link l = (if stored_entries l = [] then audit_chain_anchor l
     else Some (ae_sequence (last (stored_entries l)), ae_entry_hash (last (stored_entries l))))"
  by (cases "stored_entries l" rule: rev_cases) (simp_all add: last_link_def stored_entries_def)

lemma stored_append:
  assumes "\<forall>r \<in> set (audit_rows l). ae_sequence r < ae_sequence e" and "distinct (map ae_sequence (audit_rows l))"
  shows "stored_entries (l\<lparr>audit_rows := audit_rows l @ [e]\<rparr>) = stored_entries l @ [e]"
proof -
  have "sort_key ae_sequence (audit_rows l @ [e]) = sort_key ae_sequence (audit_rows l) @ [e]"
  proof (rule sort_key_inj_key_eq)
    show "mset (audit_rows l @ [e]) = mset (sort_key ae_sequence (audit_rows l) @ [e])" by simp
    show "inj_on ae_sequence (set (audit_rows l @ [e]))"
      using assms by (auto simp: distinct_map inj_on_def)
    show "sorted (map ae_sequence (sort_key ae_sequence (audit_rows l) @ [e]))"
      using assms(1) by (auto simp: sorted_append intro: less_imp_le)
  qed
  then show ?thesis by (simp add: stored_entries_def)
qed

text \<open>What verification says of the stored rows.\<close>

lemma chain_rows:
  assumes "verify_entries hmac key (anchor_sequence l + 1) (anchor_hash l) (stored_entries l) = Inr h"
  shows "distinct (map ae_sequence (audit_rows l))"
    and "\<forall>r \<in> set (audit_rows l). ae_sequence r \<le> anchor_sequence l + int (length (stored_entries l))"
    and "h = (if stored_entries l = [] then anchor_hash l else ae_entry_hash (last (stored_entries l)))"
    and "stored_entries l \<noteq> [] \<Longrightarrow> ae_sequence (last (stored_entries l)) = anchor_sequence l + int (length (stored_entries l))"
proof -
  note seqs = verify_entries_sequence [OF assms]
  have m: "mset (audit_rows l) = mset (stored_entries l)" by (simp add: stored_entries_def)
  have "distinct (map ae_sequence (stored_entries l))" unfolding seqs by (simp add: distinct_map inj_on_def)
  then show "distinct (map ae_sequence (audit_rows l))"
    by (metis m mset_map mset_eq_imp_distinct_iff)
  have s: "set (audit_rows l) = set (stored_entries l)" by (simp add: stored_entries_def)
  have "ae_sequence r \<in> set (map ae_sequence (stored_entries l))" if "r \<in> set (audit_rows l)" for r
    using that s by simp
  then show "\<forall>r \<in> set (audit_rows l). ae_sequence r \<le> anchor_sequence l + int (length (stored_entries l))"
    unfolding seqs by fastforce
  show "h = (if stored_entries l = [] then anchor_hash l else ae_entry_hash (last (stored_entries l)))"
    by (rule verify_entries_final [OF assms])
  assume "stored_entries l \<noteq> []"
  then show "ae_sequence (last (stored_entries l)) = anchor_sequence l + int (length (stored_entries l))"
    using verify_entries_nth [OF assms, of "length (stored_entries l) - 1"] by (simp add: last_conv_nth of_nat_diff Suc_le_eq)
qed

lemma unsigned_link:
  assumes "verify_entries hmac key (anchor_sequence l + 1) (anchor_hash l) (stored_entries l) = Inr h"
  shows "ae_sequence (unsigned_entry m (last_link l)) = anchor_sequence l + int (length (stored_entries l)) + 1"
    and "ae_previous_hash (unsigned_entry m (last_link l)) = h"
  using chain_rows(3,4) [OF assms]
  by (auto simp: unsigned_entry_def last_link_stored anchor_sequence_def anchor_hash_def split: option.splits)

lemma ledger_append_chain:
  fixes m :: audit_mutation and l :: ledger
  assumes v: "ledger_verify hmac key l = Inr v"
  defines "e \<equiv> (unsigned_entry m (last_link l))\<lparr>ae_entry_hash := sign_entry hmac (unsigned_entry m (last_link l)) key\<rparr>"
  shows "ledger_append hmac key m l = (Inr (), l\<lparr>audit_rows := audit_rows l @ [e]\<rparr>)"
    and "stored_entries (l\<lparr>audit_rows := audit_rows l @ [e]\<rparr>) = stored_entries l @ [e]"
    and "ledger_verify hmac key (l\<lparr>audit_rows := audit_rows l @ [e]\<rparr>)
       = Inr \<lparr>entries_verified = Suc (entries_verified v), final_hash = ae_entry_hash e\<rparr>"
proof -
  from v obtain h where h: "verify_entries hmac key (anchor_sequence l + 1) (anchor_hash l) (stored_entries l) = Inr h"
    and ev: "entries_verified v = length (stored_entries l)"
    by (auto simp: ledger_verify_stored ebind_Inr_iff)
  note u = unsigned_link [OF h, of m] and rows = chain_rows [OF h]
  have es: "ae_sequence e = anchor_sequence l + int (length (stored_entries l)) + 1"
    "ae_previous_hash e = h" "ae_entry_hash e = sign_entry hmac e key"
    using u by (simp_all add: e_def sign_entry_def)
  have lt: "\<forall>r \<in> set (audit_rows l). ae_sequence r < ae_sequence e" using rows(2) es(1) by force
  then show "ledger_append hmac key m l = (Inr (), l\<lparr>audit_rows := audit_rows l @ [e]\<rparr>)"
    by (auto simp: ledger_append_def Let_def e_def)
  show st: "stored_entries (l\<lparr>audit_rows := audit_rows l @ [e]\<rparr>) = stored_entries l @ [e]"
    by (rule stored_append [OF lt rows(1)])
  show "ledger_verify hmac key (l\<lparr>audit_rows := audit_rows l @ [e]\<rparr>)
       = Inr \<lparr>entries_verified = Suc (entries_verified v), final_hash = ae_entry_hash e\<rparr>"
    unfolding ledger_verify_stored st using h es ev
    by (simp add: verify_entries_append anchor_sequence_def anchor_hash_def algebra_simps)
qed

section \<open>Pruning\<close>

lemma stored_filter:
  "stored_entries (l\<lparr>audit_rows := filter P (audit_rows l), audit_chain_anchor := a, lifecycle_delete_allowed := b\<rparr>)
   = filter P (stored_entries l)"
  by (simp add: stored_entries_def filter_sort)

lemma verified_suffix:
  assumes "verify_entries hmac key (n + 1) p es = Inr h" and "i < length es"
  shows "filter (\<lambda>e. \<not> ae_sequence e \<le> ae_sequence (es ! i)) es = drop (Suc i) es"
    and "verify_entries hmac key (ae_sequence (es ! i) + 1) (ae_entry_hash (es ! i)) (drop (Suc i) es) = Inr h"
proof -
  have split: "es = take (Suc i) es @ drop (Suc i) es" by simp
  note nth = verify_entries_nth [OF assms(1)]
  have "\<not> ae_sequence e \<le> ae_sequence (es ! i)" if "e \<in> set (drop (Suc i) es)" for e
    using that nth assms(2) by (auto simp: in_set_conv_nth)
  moreover have "ae_sequence e \<le> ae_sequence (es ! i)" if "e \<in> set (take (Suc i) es)" for e
    using that nth assms(2) by (auto simp: in_set_conv_nth)
  ultimately show "filter (\<lambda>e. \<not> ae_sequence e \<le> ae_sequence (es ! i)) es = drop (Suc i) es"
    by (subst split, subst filter_append) (simp add: filter_empty_conv)
  have "ebind (verify_entries hmac key (n + 1) p (take (Suc i) es))
      (\<lambda>h. verify_entries hmac key (n + 1 + int (length (take (Suc i) es))) h (drop (Suc i) es)) = Inr h"
    using assms(1) by (simp only: verify_entries_append [symmetric] append_take_drop_id)
  then obtain g where g: "verify_entries hmac key (n + 1) p (take (Suc i) es) = Inr g"
    "verify_entries hmac key (n + 1 + int (length (take (Suc i) es))) g (drop (Suc i) es) = Inr h" by blast
  have "g = ae_entry_hash (es ! i)"
    using verify_entries_final [OF g(1)] assms(2) by (simp add: take_Suc_conv_app_nth)
  moreover have "n + 1 + int (length (take (Suc i) es)) = ae_sequence (es ! i) + 1"
    using nth [OF assms(2)] assms(2) by simp
  ultimately show "verify_entries hmac key (ae_sequence (es ! i) + 1) (ae_entry_hash (es ! i)) (drop (Suc i) es) = Inr h"
    using g(2) by (simp only:)
qed

lemma last_filter_nth:
  "filter P xs \<noteq> [] \<Longrightarrow> \<exists>i < length xs. last (filter P xs) = xs ! i \<and> P (xs ! i) \<and> (\<forall>j. i < j \<and> j < length xs \<longrightarrow> \<not> P (xs ! j))"
proof (induction xs rule: rev_induct)
  case (snoc x xs)
  show ?case
  proof (cases "P x")
    case True
    then show ?thesis by (intro exI [of _ "length xs"]) (auto simp: less_Suc_eq)
  next
    case False
    with snoc obtain i where "i < length xs" "last (filter P xs) = xs ! i" "P (xs ! i)"
      "\<forall>j. i < j \<and> j < length xs \<longrightarrow> \<not> P (xs ! j)" by auto
    with False show ?thesis by (intro exI [of _ i]) (auto simp: nth_append less_Suc_eq)
  qed
qed simp

lemma prune_before_cases:
  assumes "prune_before hmac key cutoff l = (Inr k, l')" and "audit_chain_anchor l \<noteq> None"
  shows "chain_ok hmac key l \<and> (l' = l \<and> k = 0 \<or> (\<exists>i < length (stored_entries l).
     dt_lt (ae_occurred_at (ledger_entries l ! i)) cutoff
     \<and> (\<forall>j. i < j \<and> j < length (stored_entries l) \<longrightarrow> \<not> dt_lt (ae_occurred_at (ledger_entries l ! j)) cutoff)
     \<and> l' = l\<lparr>audit_rows := filter (\<lambda>e. \<not> ae_sequence e \<le> ae_sequence (stored_entries l ! i)) (audit_rows l),
           audit_chain_anchor := Some (ae_sequence (stored_entries l ! i), ae_entry_hash (stored_entries l ! i)),
           lifecycle_delete_allowed := False\<rparr>))"
proof -
  let ?es = "ledger_entries l" and ?ex = "filter (\<lambda>e. dt_lt (ae_occurred_at e) cutoff) (ledger_entries l)"
  have len: "length ?es = length (stored_entries l)" by (simp add: ledger_entries_def stored_entries_def)
  have same: "ae_sequence (?es ! i) = ae_sequence (stored_entries l ! i)" "ae_entry_hash (?es ! i) = ae_entry_hash (stored_entries l ! i)"
    if "i < length (stored_entries l)" for i
    using that by (simp_all add: ledger_entries_def stored_entries_def)
  from assms(1) have ok: "chain_ok hmac key l"
    by (auto simp: prune_before_def chain_ok_def split: sum.splits)
  show ?thesis
  proof (cases "?ex = []")
    case True
    with assms(1) ok show ?thesis by (auto simp: prune_before_def split: sum.splits if_splits)
  next
    case False
    then obtain i where i: "i < length ?es" "last ?ex = ?es ! i" "dt_lt (ae_occurred_at (?es ! i)) cutoff"
      "\<forall>j. i < j \<and> j < length ?es \<longrightarrow> \<not> dt_lt (ae_occurred_at (?es ! j)) cutoff"
      using last_filter_nth by blast
    have "l' = l\<lparr>audit_rows := filter (\<lambda>e. \<not> ae_sequence e \<le> ae_sequence (?es ! i)) (audit_rows l),
           audit_chain_anchor := Some (ae_sequence (?es ! i), ae_entry_hash (?es ! i)),
           lifecycle_delete_allowed := False\<rparr>"
      using assms False i(2) by (auto simp: prune_before_def delete_entries_def authorize_lifecycle_delete_def
          revoke_lifecycle_delete_def Let_def split: sum.splits if_splits)
    with i ok len same show ?thesis by auto
  qed
qed

section \<open>Tamper evidence\<close>

lemma join_snoc: "xs \<noteq> [] \<Longrightarrow> join sep (xs @ [x]) = join sep xs @ sep @ x"
  by (induction sep xs rule: join.induct) auto

lemma last_field:
  assumes "a @ c # x = b @ c # y" and "c \<notin> set x" and "c \<notin> set y"
  shows "x = y"
  using assms(1)
proof (induction a arbitrary: b)
  case Nil
  with assms(2,3) show ?case by (cases b) auto
next
  case (Cons z a)
  with assms(2,3) show ?case by (cases b) auto
qed

lemma audit_payload_previous:
  assumes "audit_payload e = audit_payload f" and "CHR 0x1F \<notin> set (ae_previous_hash e)" and "CHR 0x1F \<notin> set (ae_previous_hash f)"
  shows "ae_previous_hash e = ae_previous_hash f"
proof -
  have split: "\<exists>a. audit_payload g = a @ CHR 0x1F # ae_previous_hash g" for g
    by (rule exI [of _ "join [CHR 0x1F] [str_int (ae_sequence g), isoformat (ae_occurred_at g), ae_action_class g,
      record_kind_value (ae_record_kind g), ae_record_id g, ae_actor g, ae_correlation_id g, ae_source_fingerprint g,
      ae_action_metadata g]"]) (simp add: audit_payload_def)
  obtain a b where "audit_payload e = a @ CHR 0x1F # ae_previous_hash e" "audit_payload f = b @ CHR 0x1F # ae_previous_hash f"
    using split by metis
  with assms show ?thesis using last_field [of a "CHR 0x1F" "ae_previous_hash e" b "ae_previous_hash f"] by simp
qed

lemma verify_entries_snoc:
  assumes "verify_entries hmac key n p (es @ [e]) = Inr h"
  obtains g where "verify_entries hmac key n p es = Inr g" and "ae_previous_hash e = g" and "h = hmac key (audit_payload e)"
  using assms by (auto simp: verify_entries_append sign_entry_def simp del: append_assoc split: if_splits)

lemma verify_entries_clean:
  assumes "\<And>t. CHR 0x1F \<notin> set (hmac key t)" and "CHR 0x1F \<notin> set p" and "verify_entries hmac key n p es = Inr h"
  shows "CHR 0x1F \<notin> set h"
proof (cases es rule: rev_cases)
  case Nil
  with assms(2,3) show ?thesis by simp
next
  case (snoc fs e)
  from assms(3) [unfolded snoc] show ?thesis by (rule verify_entries_snoc) (simp add: assms(1))
qed

lemma verified_chain_determined:
  assumes "inj (hmac key)" and "\<And>t. CHR 0x1F \<notin> set (hmac key t)" and "CHR 0x1F \<notin> set p"
    and "verify_entries hmac key n p es = Inr h" and "verify_entries hmac key n p fs = Inr h" and "length es = length fs"
  shows "map audit_payload es = map audit_payload fs"
  using assms(4-6)
proof (induction es arbitrary: fs h rule: rev_induct)
  case (snoc e es)
  from snoc.prems(3) obtain f fs' where fs: "fs = fs' @ [f]" and len: "length es = length fs'"
    by (cases fs rule: rev_cases) auto
  from snoc.prems(1) obtain g where g: "verify_entries hmac key n p es = Inr g" "ae_previous_hash e = g"
    "h = hmac key (audit_payload e)" by (rule verify_entries_snoc)
  from snoc.prems(2) [unfolded fs] obtain g' where g': "verify_entries hmac key n p fs' = Inr g'" "ae_previous_hash f = g'"
    "h = hmac key (audit_payload f)" by (rule verify_entries_snoc)
  have eq: "audit_payload e = audit_payload f" using injD [OF assms(1)] g(3) g'(3) by simp
  have "g = g'"
    using audit_payload_previous [OF eq] verify_entries_clean [OF assms(2,3) g(1)] verify_entries_clean [OF assms(2,3) g'(1)] g(2) g'(2)
    by simp
  with snoc.IH [OF g(1) _ len] g'(1) eq fs show ?case by simp
qed simp

end
