(* ===== verification/Ledger_Properties.thy ===== *)
theory Ledger_Properties
  imports Ledger_Chain
begin

text \<open>The properties of the audit ledger, and a concrete authentication code on which they are applied.\<close>

text \<open>An injective code without the separator: \<open>1\<close> is an escape character.\<close>

fun escape_code :: "string \<Rightarrow> string" where
  "escape_code [] = []"
| "escape_code (c # cs) = (if c = CHR 0x1F then ''10'' else if c = CHR ''1'' then ''11'' else [c]) @ escape_code cs"

definition ex_code :: "string \<Rightarrow> string \<Rightarrow> string" where
  "ex_code key text = escape_code text"

lemma escape_code_clean: "CHR 0x1F \<notin> set (escape_code t)"
  by (induction t) auto

lemma escape_code_inject: "escape_code s = escape_code t \<Longrightarrow> s = t"
proof (induction s arbitrary: t)
  case Nil
  then show ?case by (cases t) (auto split: if_splits)
next
  case (Cons c s)
  then show ?case by (cases t) (auto split: if_splits)
qed

lemma ex_code_inj: "inj (ex_code key)"
  by (rule injI) (simp add: ex_code_def escape_code_inject)

definition ex_context :: "int \<Rightarrow> transition_context" where
  "ex_context t = \<lparr>ctx_actor = ''user'', ctx_correlation_id = ''c'', ctx_occurred_at = utc_datetime t\<rparr>"

definition ex_mutation :: "int \<Rightarrow> string \<Rightarrow> audit_mutation" where
  "ex_mutation t i = \<lparr>am_record_kind = TASK, am_record_id = i, am_state = ''open'', am_action_class = ''task.created'',
     am_source_fingerprint = ''f'', am_context = ex_context t\<rparr>"

definition append_all :: "(string \<Rightarrow> string \<Rightarrow> string) \<Rightarrow> audit_mutation list \<Rightarrow> ledger \<Rightarrow> ledger" where
  "append_all hmac ms l = foldl (\<lambda>l m. snd (ledger_append hmac ''key'' m l)) l ms"

lemma new_ledger_verified: "ledger_verify hmac key new_ledger = Inr \<lparr>entries_verified = 0, final_hash = zero_hash\<rparr>"
  by (simp add: ledger_verify_def ledger_entries_def new_ledger_def anchor_hash_def)

section \<open>Appending\<close>

text \<open>
  On a verified ledger an append never fails and keeps the chain verifiable: it adds exactly one entry
  after all others, which names the mutation and links to the previous hash, and the new final hash is
  the authentication code of that entry.
\<close>
theorem append_extends_chain:
  assumes "ledger_verify hmac key l = Inr v"
  shows "\<exists>e l'. ledger_append hmac key m l = (Inr (), l') \<and> stored_entries l' = stored_entries l @ [e]
     \<and> ledger_verify hmac key l' = Inr \<lparr>entries_verified = Suc (entries_verified v), final_hash = hmac key (audit_payload e)\<rparr>
     \<and> ae_previous_hash e = final_hash v \<and> ae_record_id e = am_record_id m \<and> ae_record_kind e = am_record_kind m
     \<and> ae_action_class e = am_action_class m \<and> ae_actor e = ctx_actor (am_context m)"
proof -
  let ?e = "(unsigned_entry m (last_link l))\<lparr>ae_entry_hash := sign_entry hmac (unsigned_entry m (last_link l)) key\<rparr>"
  from assms obtain h where "verify_entries hmac key (anchor_sequence l + 1) (anchor_hash l) (stored_entries l) = Inr h" "final_hash v = h"
    by (auto simp: ledger_verify_stored ebind_Inr_iff)
  then have "ae_previous_hash ?e = final_hash v" using unsigned_link(2) [of hmac key l h m] by simp
  moreover have "ae_record_id ?e = am_record_id m" "ae_record_kind ?e = am_record_kind m"
     "ae_action_class ?e = am_action_class m" "ae_actor ?e = ctx_actor (am_context m)" by (simp_all add: unsigned_entry_def)
  moreover have "ae_entry_hash ?e = hmac key (audit_payload ?e)" by (simp add: sign_entry_def)
  ultimately show ?thesis
    using ledger_append_chain [OF assms, of m] by (intro exI [of _ ?e] exI [of _ "l\<lparr>audit_rows := audit_rows l @ [?e]\<rparr>"]) auto
qed

theorem append_extends_chain_witness:
  "\<exists>e l'. ledger_append ex_code ''key'' (ex_mutation 5 ''t1'') new_ledger = (Inr (), l') \<and> stored_entries l' = [e]
     \<and> ae_previous_hash e = zero_hash \<and> ae_record_id e = ''t1''"
  using append_extends_chain [OF new_ledger_verified, of ex_code "''key''" "ex_mutation 5 ''t1''"]
  by (auto simp: ex_mutation_def stored_entries_def new_ledger_def)

section \<open>Pruning\<close>

text \<open>
  Pruning keeps the chain: it runs only on a verified ledger, the retained entries are a suffix of the old
  ones that still verifies from the new anchor to the same final hash, and no retained entry has expired.
\<close>
theorem prune_keeps_chain:
  assumes "prune_before hmac key cutoff l = (Inr k, l')" and "audit_chain_anchor l \<noteq> None"
  shows "\<exists>v v' n. ledger_verify hmac key l = Inr v \<and> ledger_verify hmac key l' = Inr v' \<and> final_hash v' = final_hash v
     \<and> stored_entries l' = drop n (stored_entries l)
     \<and> (\<forall>e \<in> set (ledger_entries l'). \<not> dt_lt (ae_occurred_at e) cutoff)"
proof -
  from prune_before_cases [OF assms] obtain v where v: "ledger_verify hmac key l = Inr v"
    by (auto simp: chain_ok_def)
  then obtain h where h: "verify_entries hmac key (anchor_sequence l + 1) (anchor_hash l) (stored_entries l) = Inr h" "final_hash v = h"
    by (auto simp: ledger_verify_stored ebind_Inr_iff)
  from prune_before_cases [OF assms] consider (none) "l' = l" "k = 0" | (some) i where "i < length (stored_entries l)"
    "\<forall>j. i < j \<and> j < length (stored_entries l) \<longrightarrow> \<not> dt_lt (ae_occurred_at (ledger_entries l ! j)) cutoff"
    "l' = l\<lparr>audit_rows := filter (\<lambda>e. \<not> ae_sequence e \<le> ae_sequence (stored_entries l ! i)) (audit_rows l),
       audit_chain_anchor := Some (ae_sequence (stored_entries l ! i), ae_entry_hash (stored_entries l ! i)),
       lifecycle_delete_allowed := False\<rparr>" by blast
  then show ?thesis
  proof cases
    case none
    from assms(1) v none have "filter (\<lambda>e. dt_lt (ae_occurred_at e) cutoff) (ledger_entries l) = []"
      by (auto simp: prune_before_def Let_def split: if_splits sum.splits prod.splits)
    with v none show ?thesis by (intro exI [of _ v] exI [of _ 0]) (simp add: filter_empty_conv)
  next
    case (some i)
    note suffix = verified_suffix [OF h(1) some(1)]
    have st: "stored_entries l' = drop (Suc i) (stored_entries l)" unfolding some(3) stored_filter suffix(1) ..
    have le: "ledger_entries l' = drop (Suc i) (ledger_entries l)"
      using st by (simp add: ledger_entries_def drop_map flip: stored_entries_def)
    have "\<not> dt_lt (ae_occurred_at e) cutoff" if "e \<in> set (ledger_entries l')" for e
      using that some(2) unfolding le by (auto simp: in_set_conv_nth ledger_entries_def stored_entries_def)
    moreover have "ledger_verify hmac key l' = Inr \<lparr>entries_verified = length (drop (Suc i) (stored_entries l)), final_hash = h\<rparr>"
      unfolding ledger_verify_stored st using suffix(2) some(3) by (simp add: anchor_sequence_def anchor_hash_def)
    ultimately show ?thesis using v h(2) st by auto
  qed
qed

definition ex_ledger :: ledger where
  "ex_ledger = append_all (\<lambda>key text. ''h'') [ex_mutation 1 ''a'', ex_mutation 5 ''b''] new_ledger"

theorem prune_keeps_chain_witness:
  "fst (prune_before (\<lambda>key text. ''h'') ''key'' (utc_datetime 3) ex_ledger) = Inr 1
   \<and> (\<exists>v'. ledger_verify (\<lambda>key text. ''h'') ''key'' (snd (prune_before (\<lambda>key text. ''h'') ''key'' (utc_datetime 3) ex_ledger)) = Inr v')"
proof -
  let ?r = "prune_before (\<lambda>key text. ''h'') ''key'' (utc_datetime 3) ex_ledger"
  have "fst ?r = Inr 1" by code_simp
  then have r: "?r = (Inr 1, snd ?r)" by (metis prod.collapse)
  have "audit_chain_anchor ex_ledger \<noteq> None" by code_simp
  from prune_keeps_chain [OF r this] \<open>fst ?r = Inr 1\<close> show ?thesis by blast
qed

section \<open>Tamper evidence\<close>


lemma ledger_verify_flag [simp]: "ledger_verify hmac key (l\<lparr>lifecycle_delete_allowed := b\<rparr>) = ledger_verify hmac key l"
  by (simp add: ledger_verify_def ledger_entries_def anchor_sequence_def anchor_hash_def)


section \<open>What the ledger does not promise\<close>

text \<open>
  The signed text is not a canonical encoding: moving the separator between two fields gives a different
  entry with the same text, hence the same hash.
\<close>

lemma audit_payload_ambiguous:
  "audit_payload (e\<lparr>ae_actor := ''a'' @ [CHR 0x1F] @ ''b'', ae_correlation_id := ''c''\<rparr>)
   = audit_payload (e\<lparr>ae_actor := ''a'', ae_correlation_id := ''b'' @ [CHR 0x1F] @ ''c''\<rparr>)"
  by (simp add: audit_payload_def)

text \<open>
  Pruning deletes by sequence up to the last expired entry: an entry that has not expired is deleted with
  them when a later entry carries an older timestamp, and the count it returns leaves it out.
\<close>

lemma prune_drops_unexpired:
  "let l = append_all (\<lambda>key text. ''h'') [ex_mutation 9 ''a'', ex_mutation 1 ''b''] new_ledger;
       (k, l') = prune_before (\<lambda>key text. ''h'') ''key'' (utc_datetime 3) l
   in k = Inr 1 \<and> map ae_record_id (ledger_entries l) = [''a'', ''b''] \<and> ledger_entries l' = []"
  by code_simp

end
