(* ===== verification/Domain_Repository.thy ===== *)
theory Domain_Repository
  imports Ledger_Chain
begin

text \<open>
  \<open>domain_repository.py\<close>: append-only versions of the domain records, deletion with a tombstone, and one
  audit entry per change, all in one transaction.  The JSON text of a record (pydantic) and HMAC are
  parameters; \<open>record_codec_ok\<close> states the documented behaviour of the former: validation accepts exactly
  the texts of valid records and gives the record back.
\<close>

record repository_env =
  dump_record :: "domain_record \<Rightarrow> string"
  parse_record :: "string \<Rightarrow> domain_record option"
  repo_hmac :: "string \<Rightarrow> string \<Rightarrow> string"
  audit_key :: string

definition record_codec_ok :: "repository_env \<Rightarrow> bool" where
  "record_codec_ok env \<longleftrightarrow> (\<forall>r. parse_record env (dump_record env r) = (if valid_record r then Some r else None))"

record version_row =
  vr_record_id :: string
  vr_version :: int
  vr_state :: string
  vr_content_json :: string
  vr_created_at :: datetime

record domain_db =
  db_tables :: "record_kind \<Rightarrow> version_row list"
  db_tombstones :: "tombstone list"
  db_ledger :: ledger

datatype repository_error =
    RecordNotFoundError record_kind string
  | IdentityReused
  | RowIntegrityError
  | RecordValidationError
  | LedgerFailure ledger_error

type_synonym 'a repo_action = "(domain_db, repository_error, 'a) action"

definition fingerprint :: "repository_env \<Rightarrow> domain_record \<Rightarrow> string" where
  "fingerprint env r = repo_hmac env (audit_key env) (dump_record env r)"

definition verify_ledger :: "repository_env \<Rightarrow> unit repo_action" where
  "verify_ledger env db =
     (case ledger_verify (repo_hmac env) (audit_key env) (db_ledger db) of
        Inl e \<Rightarrow> (Inl (LedgerFailure e), db)
      | Inr _ \<Rightarrow> (Inr (), db))"

definition append_audit :: "repository_env \<Rightarrow> audit_mutation \<Rightarrow> unit repo_action" where
  "append_audit env m db =
     (case ledger_append (repo_hmac env) (audit_key env) m (db_ledger db) of
        (Inl e, l) \<Rightarrow> (Inl (LedgerFailure e), db\<lparr>db_ledger := l\<rparr>)
      | (Inr _, l) \<Rightarrow> (Inr (), db\<lparr>db_ledger := l\<rparr>))"

definition insert_version :: "record_kind \<Rightarrow> version_row \<Rightarrow> unit repo_action" where
  "insert_version k row db =
     (if \<exists>r \<in> set (db_tables db k). vr_record_id r = vr_record_id row \<and> vr_version r = vr_version row
      then (Inl RowIntegrityError, db)
      else (Inr (), db\<lparr>db_tables := (db_tables db)(k := db_tables db k @ [row])\<rparr>))"

definition versions_of :: "domain_db \<Rightarrow> record_kind \<Rightarrow> string \<Rightarrow> version_row list" where
  "versions_of db k i = filter (\<lambda>r. vr_record_id r = i) (db_tables db k)"

definition version_count :: "domain_db \<Rightarrow> record_kind \<Rightarrow> string \<Rightarrow> nat" where
  "version_count db k i = length (versions_of db k i)"

definition read_record :: "repository_env \<Rightarrow> domain_db \<Rightarrow> record_kind \<Rightarrow> string \<Rightarrow> repository_error + domain_record option" where
  "read_record env db k i =
     (case rev (sort_key vr_version (versions_of db k i)) of
        [] \<Rightarrow> Inr None
      | row # _ \<Rightarrow> (case parse_record env (vr_content_json row) of
          None \<Rightarrow> Inl RecordValidationError
        | Some r \<Rightarrow> Inr (Some r)))"

definition mutation_of :: "record_kind \<Rightarrow> string \<Rightarrow> string \<Rightarrow> string \<Rightarrow> string \<Rightarrow> transition_context \<Rightarrow> audit_mutation" where
  "mutation_of k i state suffix fp ctx =
     \<lparr>am_record_kind = k, am_record_id = i, am_state = state, am_action_class = record_kind_value k @ suffix,
      am_source_fingerprint = fp, am_context = ctx\<rparr>"

definition create_body :: "repository_env \<Rightarrow> domain_record \<Rightarrow> transition_context \<Rightarrow> unit repo_action" where
  "create_body env r ctx =
     abind (verify_ledger env) (\<lambda>_.
     abind (aget (\<lambda>db. record_id r \<in> tb_record_id ` set (db_tombstones db))) (\<lambda>deleted.
     if deleted then araise IdentityReused
     else
       abind (insert_version (kind_of_record r)
         \<lparr>vr_record_id = record_id r, vr_version = 1, vr_state = record_state r,
          vr_content_json = dump_record env r, vr_created_at = record_created_at r\<rparr>) (\<lambda>_.
       append_audit env (mutation_of (kind_of_record r) (record_id r) (record_state r) ''.created'' (fingerprint env r) ctx))))"

definition transition_body ::
  "repository_env \<Rightarrow> record_kind \<Rightarrow> string \<Rightarrow> string \<Rightarrow> transition_context \<Rightarrow> unit repo_action" where
  "transition_body env k i new_state ctx =
     abind (verify_ledger env) (\<lambda>_ db.
       case read_record env db k i of
         Inl e \<Rightarrow> (Inl e, db)
       | Inr None \<Rightarrow> (Inl (RecordNotFoundError k i), db)
       | Inr (Some rec) \<Rightarrow>
           (case parse_record env (dump_record env (rec\<lparr>record_state := new_state\<rparr>)) of
              None \<Rightarrow> (Inl RecordValidationError, db)
            | Some changed \<Rightarrow>
                abind (insert_version k
                  \<lparr>vr_record_id = i, vr_version = int (version_count db k i) + 1, vr_state = new_state,
                   vr_content_json = dump_record env changed, vr_created_at = record_created_at rec\<rparr>) (\<lambda>_.
                append_audit env (mutation_of k i new_state ''.transitioned'' (fingerprint env changed) ctx)) db))"

definition insert_tombstone :: "tombstone \<Rightarrow> unit repo_action" where
  "insert_tombstone t db =
     (if tb_record_id t \<in> tb_record_id ` set (db_tombstones db) then (Inl RowIntegrityError, db)
      else (Inr (), db\<lparr>db_tombstones := db_tombstones db @ [t]\<rparr>))"

definition delete_versions :: "record_kind \<Rightarrow> string \<Rightarrow> unit repo_action" where
  "delete_versions k i db =
     (if \<not> lifecycle_delete_allowed (db_ledger db) \<and> versions_of db k i \<noteq> [] then (Inl (LedgerFailure LifecycleRequired), db)
      else (Inr (), db\<lparr>db_tables := (db_tables db)(k := filter (\<lambda>r. vr_record_id r \<noteq> i) (db_tables db k))\<rparr>))"

text \<open>\<open>authorize_delete(); try: DELETE finally: revoke_delete()\<close>\<close>

definition authorized_delete :: "record_kind \<Rightarrow> string \<Rightarrow> unit repo_action" where
  "authorized_delete k i db =
     (let (r, db') = delete_versions k i (db\<lparr>db_ledger := authorize_lifecycle_delete (db_ledger db)\<rparr>)
      in (r, db'\<lparr>db_ledger := revoke_lifecycle_delete (db_ledger db')\<rparr>))"

definition delete_body :: "repository_env \<Rightarrow> record_kind \<Rightarrow> string \<Rightarrow> transition_context \<Rightarrow> unit repo_action" where
  "delete_body env k i ctx =
     abind (verify_ledger env) (\<lambda>_ db.
       case read_record env db k i of
         Inl e \<Rightarrow> (Inl e, db)
       | Inr None \<Rightarrow> (Inl (RecordNotFoundError k i), db)
       | Inr (Some rec) \<Rightarrow>
           abind (authorized_delete k i) (\<lambda>_.
           abind (insert_tombstone \<lparr>tb_record_id = i, tb_record_kind = k, tb_deleted_at = ctx_occurred_at ctx,
              tb_source_fingerprint = fingerprint env rec\<rparr>) (\<lambda>_.
           append_audit env (mutation_of k i ''deleted'' ''.deleted'' (fingerprint env rec) ctx))) db)"

type_synonym 'a store_action = "(domain_db connection, repository_error, 'a) action"

definition create_record :: "repository_env \<Rightarrow> domain_record \<Rightarrow> transition_context \<Rightarrow> unit store_action" where
  "create_record env r ctx = domain_transaction (on_tables (create_body env r ctx))"

definition transition_record :: "repository_env \<Rightarrow> record_kind \<Rightarrow> string \<Rightarrow> string \<Rightarrow> transition_context \<Rightarrow> unit store_action" where
  "transition_record env k i new_state ctx = domain_transaction (on_tables (transition_body env k i new_state ctx))"

definition delete_record :: "repository_env \<Rightarrow> record_kind \<Rightarrow> string \<Rightarrow> transition_context \<Rightarrow> unit store_action" where
  "delete_record env k i ctx = domain_transaction (on_tables (delete_body env k i ctx))"

definition tombstone_of :: "domain_db \<Rightarrow> string \<Rightarrow> repository_error + tombstone" where
  "tombstone_of db i =
     (case find (\<lambda>t. tb_record_id t = i) (db_tombstones db) of
        None \<Rightarrow> Inl (RecordNotFoundError SOURCE_ITEM i)
      | Some t \<Rightarrow> Inr (t\<lparr>tb_deleted_at := reread (tb_deleted_at t)\<rparr>))"

text \<open>\<open>records\<close>: the latest version of every record of every kind, in table order.\<close>

definition all_kinds :: "record_kind list" where
  "all_kinds = [IDENTITY, CONNECTOR, CAPABILITY, SOURCE_ITEM, NORMALIZED_FACT, TASK, EVENT, PROPOSAL, APPROVAL,
     EXECUTION, ENERGY_CHECK_IN, GOAL, PATTERN_SNAPSHOT, CONSENT_RECORD]"

definition latest_rows :: "version_row list \<Rightarrow> version_row list" where
  "latest_rows rows = filter (\<lambda>r. \<forall>s \<in> set rows. vr_record_id s = vr_record_id r \<longrightarrow> vr_version s \<le> vr_version r) rows"

definition all_records :: "repository_env \<Rightarrow> domain_db \<Rightarrow> repository_error + domain_record list" where
  "all_records env db =
     emapM (\<lambda>row. case parse_record env (vr_content_json row) of None \<Rightarrow> Inl RecordValidationError | Some r \<Rightarrow> Inr r)
       (concat (map (\<lambda>k. latest_rows (db_tables db k)) all_kinds))"

definition new_domain_db :: domain_db where
  "new_domain_db = \<lparr>db_tables = (\<lambda>_. []), db_tombstones = [], db_ledger = new_ledger\<rparr>"

end
