(* ===== verification/Record_Codec.thy ===== *)
theory Record_Codec
  imports Text_Codec Domain_Repository
begin

text \<open>A concrete codec for domain records: it satisfies the hypothesis on pydantic's JSON text.\<close>

type_synonym body_parts =
  "nat \<times> string \<times> string \<times> string \<times> string \<times> string \<times> int \<times> bool \<times> datetime option"

fun body_parts :: "record_body \<Rightarrow> body_parts" where
  "body_parts (Identity a) = (0, a, [], [], [], [], 0, False, None)"
| "body_parts (Connector a b) = (1, a, b, [], [], [], 0, False, None)"
| "body_parts (Capability a b f) = (2, a, b, [], [], [], 0, f, None)"
| "body_parts (SourceItem a b c) = (3, a, b, c, [], [], 0, False, None)"
| "body_parts (NormalizedFact a b c) = (4, a, b, c, [], [], 0, False, None)"
| "body_parts (Task a) = (5, a, [], [], [], [], 0, False, None)"
| "body_parts (Event a t) = (6, a, [], [], [], [], 0, False, Some t)"
| "body_parts (Proposal a b c d f e) = (7, a, b, c, d, e, 0, f, None)"
| "body_parts (ApprovalFact a b) = (8, a, b, [], [], [], 0, False, None)"
| "body_parts (Execution a b) = (9, a, b, [], [], [], 0, False, None)"
| "body_parts (EnergyCheckIn n a) = (10, a, [], [], [], [], n, False, None)"
| "body_parts (Goal a) = (11, a, [], [], [], [], 0, False, None)"
| "body_parts (PatternSnapshot a n) = (12, a, [], [], [], [], n, False, None)"
| "body_parts (ConsentRecord a f) = (13, a, [], [], [], [], 0, f, None)"

definition body_of_parts :: "body_parts \<Rightarrow> record_body" where
  "body_of_parts p = (case p of (t, a, b, c, d, e, n, f, m) \<Rightarrow>
     if t = 0 then Identity a else if t = 1 then Connector a b else if t = 2 then Capability a b f
     else if t = 3 then SourceItem a b c else if t = 4 then NormalizedFact a b c else if t = 5 then Task a
     else if t = 6 then Event a (the m) else if t = 7 then Proposal a b c d f e else if t = 8 then ApprovalFact a b
     else if t = 9 then Execution a b else if t = 10 then EnergyCheckIn n a else if t = 11 then Goal a
     else if t = 12 then PatternSnapshot a n else ConsentRecord a f)"

lemma body_parts [simp]: "body_of_parts (body_parts b) = b"
  by (cases b) (simp_all add: body_of_parts_def)

definition record_parts where
  "record_parts r = (record_id r, record_created_at r, record_state r, body_parts (record_body r))"

definition record_of_parts where
  "record_of_parts p = (case p of (i, t, s, b) \<Rightarrow>
     \<lparr>record_id = i, record_created_at = t, record_state = s, record_body = body_of_parts b\<rparr>)"

lemma record_parts [simp]: "record_of_parts (record_parts r) = r"
  by (simp add: record_parts_def record_of_parts_def)

abbreviation "enc_body \<equiv> enc_pair enc_nat (enc_pair enc_string (enc_pair enc_string (enc_pair enc_string
  (enc_pair enc_string (enc_pair enc_string (enc_pair enc_int (enc_pair enc_bool (enc_option enc_datetime))))))))"
abbreviation "dec_body \<equiv> dec_pair dec_nat (dec_pair dec_string (dec_pair dec_string (dec_pair dec_string
  (dec_pair dec_string (dec_pair dec_string (dec_pair dec_int (dec_pair dec_bool (dec_option dec_datetime))))))))"

lemma codec_body: "codec enc_body dec_body"
  by (intro codec_pair codec_nat codec_string codec_int codec_bool codec_option codec_datetime)

definition text_record :: "domain_record \<Rightarrow> string" where
  "text_record r = enc_pair enc_string (enc_pair enc_datetime (enc_pair enc_string enc_body)) (record_parts r)"

definition untext_record :: "string \<Rightarrow> domain_record option" where
  "untext_record t = (case dec_as record_of_parts (dec_pair dec_string (dec_pair dec_datetime (dec_pair dec_string dec_body))) t of
     None \<Rightarrow> None | Some (r, _) \<Rightarrow> if valid_record r then Some r else None)"

lemma untext_record: "untext_record (text_record r) = (if valid_record r then Some r else None)"
proof -
  have c: "codec text_record (dec_as record_of_parts (dec_pair dec_string (dec_pair dec_datetime (dec_pair dec_string dec_body))))"
    unfolding text_record_def by (intro codec_as codec_pair codec_string codec_datetime codec_body) simp
  from codecD [OF c, of r "[]"] show ?thesis unfolding untext_record_def by simp
qed

definition text_repository_env :: repository_env where
  "text_repository_env = \<lparr>dump_record = text_record, parse_record = untext_record, repo_hmac = (\<lambda>key text. text), audit_key = ''key''\<rparr>"

lemma text_repository_env_codec: "record_codec_ok text_repository_env"
  by (simp add: record_codec_ok_def text_repository_env_def untext_record)

end
