(* ===== verification/Repository_Properties.thy ===== *)
theory Repository_Properties
  imports Record_Codec
begin

text \<open>
  The invariant of the domain repository and the effect of its operations: complete version histories,
  exactly one audit entry per change, atomic failures, and deletions that cannot be undone.
\<close>

definition row_valid :: "repository_env \<Rightarrow> record_kind \<Rightarrow> version_row \<Rightarrow> bool" where
  "row_valid env k row \<longleftrightarrow> (\<exists>r. parse_record env (vr_content_json row) = Some r \<and> record_id r = vr_record_id row
     \<and> kind_of_record r = k \<and> valid_record r)"

definition repo_inv :: "repository_env \<Rightarrow> domain_db \<Rightarrow> bool" where
  "repo_inv env db \<longleftrightarrow> chain_ok (repo_hmac env) (audit_key env) (db_ledger db)
     \<and> (\<forall>k i. map vr_version (versions_of db k i) = map (\<lambda>n. int n + 1) [0..<version_count db k i])
     \<and> (\<forall>k. \<forall>row \<in> set (db_tables db k). row_valid env k row)
     \<and> (\<forall>t \<in> set (db_tombstones db). versions_of db (tb_record_kind t) (tb_record_id t) = [])"

abbreviation audit_count :: "domain_db \<Rightarrow> nat" where
  "audit_count db \<equiv> length (stored_entries (db_ledger db))"

lemma repo_inv_new: "repo_inv env new_domain_db"
  by (simp add: repo_inv_def new_domain_db_def versions_of_def version_count_def chain_ok_def ledger_verify_def
      ledger_entries_def new_ledger_def)

section \<open>Reading\<close>

lemma versions_sorted:
  assumes "repo_inv env db"
  shows "sort_key vr_version (versions_of db k i) = versions_of db k i"
proof (rule sort_key_id_if_sorted)
  have "map vr_version (versions_of db k i) = map (\<lambda>n. int n + 1) [0..<version_count db k i]"
    using assms by (simp add: repo_inv_def)
  then show "sorted (map vr_version (versions_of db k i))" by (simp add: sorted_map)
qed

lemma read_record_eq:
  assumes "repo_inv env db"
  shows "read_record env db k i =
     (if versions_of db k i = [] then Inr None
      else Inr (parse_record env (vr_content_json (last (versions_of db k i)))))"
    and "versions_of db k i \<noteq> [] \<Longrightarrow> row_valid env k (last (versions_of db k i)) \<and> vr_record_id (last (versions_of db k i)) = i"
proof -
  have valid: "row_valid env k (last (versions_of db k i)) \<and> vr_record_id (last (versions_of db k i)) = i"
    if "versions_of db k i \<noteq> []"
  proof -
    from last_in_set [OF that] have "last (versions_of db k i) \<in> set (db_tables db k)"
      and "vr_record_id (last (versions_of db k i)) = i" by (auto simp: versions_of_def)
    with assms show ?thesis by (simp add: repo_inv_def)
  qed
  then show "versions_of db k i \<noteq> [] \<Longrightarrow> row_valid env k (last (versions_of db k i)) \<and> vr_record_id (last (versions_of db k i)) = i" .
  show "read_record env db k i = (if versions_of db k i = [] then Inr None
      else Inr (parse_record env (vr_content_json (last (versions_of db k i)))))"
  proof (cases "versions_of db k i" rule: rev_cases)
    case Nil
    then show ?thesis by (simp add: read_record_def)
  next
    case (snoc rows row)
    with valid obtain r where "parse_record env (vr_content_json row) = Some r" by (auto simp: row_valid_def)
    with snoc versions_sorted [OF assms, of k i] show ?thesis by (simp add: read_record_def)
  qed
qed

lemma read_record_Some:
  assumes "repo_inv env db" and "read_record env db k i = Inr (Some r)"
  shows "valid_record r" and "record_id r = i" and "kind_of_record r = k" and "versions_of db k i \<noteq> []"
  using assms(2) read_record_eq(2) [OF assms(1), of k i]
  by (auto simp: read_record_eq(1) [OF assms(1)] row_valid_def split: if_splits)

lemma read_record_None: "repo_inv env db \<Longrightarrow> read_record env db k i = Inr None \<longleftrightarrow> versions_of db k i = []"
  using read_record_eq(2) [of env db k i] by (auto simp: read_record_eq(1) row_valid_def)

lemma read_record_defined: "repo_inv env db \<Longrightarrow> \<exists>m. read_record env db k i = Inr m"
  by (simp add: read_record_eq(1))

section \<open>Adding a version\<close>

definition add_version :: "record_kind \<Rightarrow> version_row \<Rightarrow> domain_db \<Rightarrow> domain_db" where
  "add_version k row db = db\<lparr>db_tables := (db_tables db)(k := db_tables db k @ [row])\<rparr>"

lemma versions_of_add:
  "versions_of (add_version k row db) k' i = versions_of db k' i @ (if k' = k \<and> i = vr_record_id row then [row] else [])"
  by (simp add: versions_of_def add_version_def)

lemma versions_of_ledger [simp]: "versions_of (db\<lparr>db_ledger := l\<rparr>) k i = versions_of db k i"
  "versions_of (db\<lparr>db_tombstones := ts\<rparr>) k i = versions_of db k i"
  by (simp_all add: versions_of_def)

lemma version_count_ledger [simp]: "version_count (db\<lparr>db_ledger := l\<rparr>) k i = version_count db k i"
  "version_count (db\<lparr>db_tombstones := ts\<rparr>) k i = version_count db k i"
  by (simp_all add: version_count_def)

lemma repo_inv_ledger:
  "repo_inv env db \<Longrightarrow> chain_ok (repo_hmac env) (audit_key env) l \<Longrightarrow> repo_inv env (db\<lparr>db_ledger := l\<rparr>)"
  by (simp add: repo_inv_def)

lemma repo_inv_add:
  assumes "repo_inv env db" and "row_valid env k row" and "vr_version row = int (version_count db k (vr_record_id row)) + 1"
    and "vr_record_id row \<notin> tb_record_id ` set (db_tombstones db) \<or> versions_of db k (vr_record_id row) \<noteq> []"
  shows "repo_inv env (add_version k row db)"
proof -
  have rows: "set (db_tables (add_version k row db) k') = set (db_tables db k') \<union> (if k' = k then {row} else {})" for k'
    by (auto simp: add_version_def)
  have tables: "\<forall>k'. \<forall>row' \<in> set (db_tables (add_version k row db) k'). row_valid env k' row'"
    unfolding rows using assms(1,2) by (auto simp: repo_inv_def split: if_splits)
  have vs: "map vr_version (versions_of db k' i) = map (\<lambda>n. int n + 1) [0..<version_count db k' i]" for k' i
    using assms(1) by (simp add: repo_inv_def)
  have versions: "map vr_version (versions_of (add_version k row db) k' i)
      = map (\<lambda>n. int n + 1) [0..<version_count (add_version k row db) k' i]" for k' i
    using vs [of k' i] assms(3) by (auto simp: versions_of_add version_count_def)
  have "db_tombstones (add_version k row db) = db_tombstones db" "db_ledger (add_version k row db) = db_ledger db"
    by (simp_all add: add_version_def)
  moreover have "versions_of (add_version k row db) (tb_record_kind t) (tb_record_id t) = []" if "t \<in> set (db_tombstones db)" for t
    using that assms(1,4) by (auto simp: repo_inv_def versions_of_add image_iff)
  ultimately show ?thesis using assms(1) tables versions by (simp add: repo_inv_def)
qed

lemma insert_version_fresh:
  "\<forall>r \<in> set (versions_of db k (vr_record_id row)). vr_version r \<noteq> vr_version row \<Longrightarrow>
   insert_version k row db = (Inr (), add_version k row db)"
  by (auto simp: insert_version_def add_version_def versions_of_def)

lemma append_audit_ok:
  assumes "chain_ok (repo_hmac env) (audit_key env) (db_ledger db)"
  shows "\<exists>l. append_audit env m db = (Inr (), db\<lparr>db_ledger := l\<rparr>) \<and> chain_ok (repo_hmac env) (audit_key env) l
     \<and> length (stored_entries l) = Suc (audit_count db)"
proof -
  from assms obtain v where v: "ledger_verify (repo_hmac env) (audit_key env) (db_ledger db) = Inr v"
    by (auto simp: chain_ok_def)
  from ledger_append_chain [OF v, of m] show ?thesis
    by (auto simp: append_audit_def chain_ok_def)
qed

lemma verify_ledger_ok: "chain_ok (repo_hmac env) (audit_key env) (db_ledger db) \<Longrightarrow> verify_ledger env db = (Inr (), db)"
  by (auto simp: verify_ledger_def chain_ok_def)

lemma repo_inv_chain: "repo_inv env db \<Longrightarrow> chain_ok (repo_hmac env) (audit_key env) (db_ledger db)"
  by (simp add: repo_inv_def)

section \<open>The bodies of the operations\<close>

lemma create_body_cases:
  assumes inv: "repo_inv env db" and codec: "record_codec_ok env" and r: "valid_record r"
  defines "row \<equiv> \<lparr>vr_record_id = record_id r, vr_version = 1, vr_state = record_state r,
          vr_content_json = dump_record env r, vr_created_at = record_created_at r\<rparr>"
  shows "if record_id r \<in> tb_record_id ` set (db_tombstones db) \<or> versions_of db (kind_of_record r) (record_id r) \<noteq> []
     then \<exists>e db'. create_body env r ctx db = (Inl e, db')
     else \<exists>l. create_body env r ctx db = (Inr (), (add_version (kind_of_record r) row db)\<lparr>db_ledger := l\<rparr>)
        \<and> repo_inv env ((add_version (kind_of_record r) row db)\<lparr>db_ledger := l\<rparr>) \<and> length (stored_entries l) = Suc (audit_count db)"
proof -
  note v = verify_ledger_ok [OF repo_inv_chain [OF inv]]
  have parse: "parse_record env (dump_record env r) = Some r" using codec r by (simp add: record_codec_ok_def)
  show ?thesis
  proof (cases "record_id r \<in> tb_record_id ` set (db_tombstones db)")
    case True
    with v show ?thesis by (simp add: create_body_def abind_def)
  next
    case fresh: False
    show ?thesis
    proof (cases "versions_of db (kind_of_record r) (record_id r) = []")
      case False
      then obtain row0 rows where rs: "versions_of db (kind_of_record r) (record_id r) = row0 # rows" by (cases "versions_of db (kind_of_record r) (record_id r)") auto
      with inv have "map vr_version (row0 # rows) = map (\<lambda>n. int n + 1) [0..<Suc (length rows)]"
        by (metis repo_inv_def version_count_def length_Cons)
      then have "vr_version row0 = 1" by (simp add: upt_conv_Cons del: upt_Suc)
      moreover have "row0 \<in> set (db_tables db (kind_of_record r))" "vr_record_id row0 = record_id r"
        using arg_cong [OF rs, of set] by (auto simp: versions_of_def)
      ultimately have "insert_version (kind_of_record r) row db = (Inl RowIntegrityError, db)"
        by (auto simp: insert_version_def row_def)
      with v fresh False show ?thesis by (simp add: create_body_def abind_def flip: row_def)
    next
      case True
      then have ins: "insert_version (kind_of_record r) row db = (Inr (), add_version (kind_of_record r) row db)"
        by (intro insert_version_fresh) (simp add: row_def)
      have inv1: "repo_inv env (add_version (kind_of_record r) row db)"
        using inv parse r fresh True by (intro repo_inv_add) (auto simp: row_valid_def row_def version_count_def)
      have ac: "audit_count (add_version (kind_of_record r) row db) = audit_count db" by (simp add: add_version_def)
      from append_audit_ok [OF repo_inv_chain [OF inv1]] obtain l where
        "append_audit env (mutation_of (kind_of_record r) (record_id r) (record_state r) ''.created'' (fingerprint env r) ctx)
           (add_version (kind_of_record r) row db) = (Inr (), (add_version (kind_of_record r) row db)\<lparr>db_ledger := l\<rparr>)"
        "chain_ok (repo_hmac env) (audit_key env) l" "length (stored_entries l) = Suc (audit_count db)"
        using ac by auto
      with v fresh True ins repo_inv_ledger [OF inv1] show ?thesis
        by (auto simp: create_body_def abind_def simp flip: row_def)
    qed
  qed
qed

lemma transition_body_cases:
  assumes inv: "repo_inv env db" and codec: "record_codec_ok env" and read: "read_record env db k i = Inr m"
  shows "case m of None \<Rightarrow> transition_body env k i st ctx db = (Inl (RecordNotFoundError k i), db)
     | Some r \<Rightarrow> if st = [] then transition_body env k i st ctx db = (Inl RecordValidationError, db)
        else \<exists>row l. transition_body env k i st ctx db = (Inr (), (add_version k row db)\<lparr>db_ledger := l\<rparr>)
          \<and> vr_record_id row = i \<and> parse_record env (vr_content_json row) = Some (r\<lparr>record_state := st\<rparr>)
          \<and> repo_inv env ((add_version k row db)\<lparr>db_ledger := l\<rparr>) \<and> length (stored_entries l) = Suc (audit_count db)"
proof (cases m)
  case None
  with read verify_ledger_ok [OF repo_inv_chain [OF inv]] show ?thesis by (simp add: transition_body_def abind_def)
next
  case (Some r)
  note v = verify_ledger_ok [OF repo_inv_chain [OF inv]] and r = read_record_Some [OF inv read [unfolded Some]]
  let ?r = "r\<lparr>record_state := st\<rparr>"
  let ?row = "\<lparr>vr_record_id = i, vr_version = int (version_count db k i) + 1, vr_state = st,
      vr_content_json = dump_record env ?r, vr_created_at = record_created_at r\<rparr>"
  have parse: "parse_record env (dump_record env ?r) = (if st = [] then None else Some ?r)"
    using codec r(1) by (simp add: record_codec_ok_def valid_record_def)
  show ?thesis
  proof (cases "st = []")
    case True
    with v read parse Some show ?thesis by (simp add: transition_body_def abind_def)
  next
    case False
    have "vr_version row' \<le> int (version_count db k i)" if "row' \<in> set (versions_of db k i)" for row'
    proof -
      have "map vr_version (versions_of db k i) = map (\<lambda>n. int n + 1) [0..<version_count db k i]"
        using inv by (simp add: repo_inv_def)
      from arg_cong [OF this, of set] that have "vr_version row' \<in> (\<lambda>n. int n + 1) ` {0..<version_count db k i}"
        by (metis image_set imageI set_upt list.set_map)
      then show ?thesis by auto
    qed
    then have ins: "insert_version k ?row db = (Inr (), add_version k ?row db)"
      by (intro insert_version_fresh) fastforce
    have "row_valid env k ?row"
      using parse False r by (auto simp: row_valid_def kind_of_record_def valid_record_def)
    then have inv1: "repo_inv env (add_version k ?row db)"
      using r(4) by (intro repo_inv_add [OF inv]) simp_all
    have "audit_count (add_version k ?row db) = audit_count db" by (simp add: add_version_def)
    with append_audit_ok [OF repo_inv_chain [OF inv1], of "mutation_of k i st ''.transitioned'' (fingerprint env ?r) ctx"]
    obtain l where "append_audit env (mutation_of k i st ''.transitioned'' (fingerprint env ?r) ctx) (add_version k ?row db)
        = (Inr (), (add_version k ?row db)\<lparr>db_ledger := l\<rparr>)" "chain_ok (repo_hmac env) (audit_key env) l"
        "length (stored_entries l) = Suc (audit_count db)" by auto
    with v read Some parse False ins repo_inv_ledger [OF inv1]
    have "transition_body env k i st ctx db = (Inr (), (add_version k ?row db)\<lparr>db_ledger := l\<rparr>)
        \<and> repo_inv env ((add_version k ?row db)\<lparr>db_ledger := l\<rparr>) \<and> length (stored_entries l) = Suc (audit_count db)"
      by (simp add: transition_body_def abind_def)
    with parse False have "\<exists>row l. transition_body env k i st ctx db = (Inr (), (add_version k row db)\<lparr>db_ledger := l\<rparr>)
          \<and> vr_record_id row = i \<and> parse_record env (vr_content_json row) = Some ?r
          \<and> repo_inv env ((add_version k row db)\<lparr>db_ledger := l\<rparr>) \<and> length (stored_entries l) = Suc (audit_count db)"
      by (intro exI [of _ ?row] exI [of _ l]) simp
    then show ?thesis using Some False by simp
  qed
qed

definition drop_versions :: "record_kind \<Rightarrow> string \<Rightarrow> domain_db \<Rightarrow> domain_db" where
  "drop_versions k i db = db\<lparr>db_tables := (db_tables db)(k := filter (\<lambda>r. vr_record_id r \<noteq> i) (db_tables db k))\<rparr>"

lemma versions_of_drop:
  "versions_of (drop_versions k i db) k' j = (if k' = k \<and> j = i then [] else versions_of db k' j)"
  by (auto simp: versions_of_def drop_versions_def filter_empty_conv intro: filter_cong)

lemma chain_ok_flag [simp]: "chain_ok hmac key (revoke_lifecycle_delete (authorize_lifecycle_delete l)) = chain_ok hmac key l"
  by (simp add: chain_ok_def ledger_verify_def ledger_entries_def anchor_sequence_def anchor_hash_def
      revoke_lifecycle_delete_def authorize_lifecycle_delete_def)

lemma stored_entries_flag [simp]:
  "stored_entries (revoke_lifecycle_delete (authorize_lifecycle_delete l)) = stored_entries l"
  by (simp add: stored_entries_def revoke_lifecycle_delete_def authorize_lifecycle_delete_def)

lemma authorized_delete_eq:
  "authorized_delete k i db =
   (Inr (), (drop_versions k i db)\<lparr>db_ledger := revoke_lifecycle_delete (authorize_lifecycle_delete (db_ledger db))\<rparr>)"
  by (simp add: authorized_delete_def delete_versions_def drop_versions_def authorize_lifecycle_delete_def versions_of_def)

lemma repo_inv_drop: "repo_inv env db \<Longrightarrow> repo_inv env (drop_versions k i db)"
proof -
  assume inv: "repo_inv env db"
  have "map vr_version (versions_of (drop_versions k i db) k' j) = map (\<lambda>n. int n + 1) [0..<version_count (drop_versions k i db) k' j]" for k' j
    using inv by (simp add: repo_inv_def version_count_def versions_of_drop)
  moreover have "set (db_tables (drop_versions k i db) k') \<subseteq> set (db_tables db k')" for k'
    by (auto simp: drop_versions_def)
  moreover have "db_tombstones (drop_versions k i db) = db_tombstones db" "db_ledger (drop_versions k i db) = db_ledger db"
    by (simp_all add: drop_versions_def)
  ultimately show ?thesis using inv unfolding repo_inv_def versions_of_drop by (metis subsetD)
qed

lemma repo_inv_tombstone:
  "repo_inv env db \<Longrightarrow> versions_of db (tb_record_kind t) (tb_record_id t) = [] \<Longrightarrow>
   repo_inv env (db\<lparr>db_tombstones := db_tombstones db @ [t]\<rparr>)"
  by (simp add: repo_inv_def)

lemma delete_body_cases:
  assumes inv: "repo_inv env db" and read: "read_record env db k i = Inr m"
  shows "case m of None \<Rightarrow> delete_body env k i ctx db = (Inl (RecordNotFoundError k i), db)
     | Some r \<Rightarrow> if i \<in> tb_record_id ` set (db_tombstones db) then \<exists>db'. delete_body env k i ctx db = (Inl RowIntegrityError, db')
        else \<exists>l. let db' = (drop_versions k i db)\<lparr>db_tombstones := db_tombstones db @ [\<lparr>tb_record_id = i, tb_record_kind = k,
                   tb_deleted_at = ctx_occurred_at ctx, tb_source_fingerprint = fingerprint env r\<rparr>], db_ledger := l\<rparr>
          in delete_body env k i ctx db = (Inr (), db') \<and> repo_inv env db' \<and> length (stored_entries l) = Suc (audit_count db)"
proof (cases m)
  case None
  with read verify_ledger_ok [OF repo_inv_chain [OF inv]] show ?thesis by (simp add: delete_body_def abind_def)
next
  case (Some r)
  note v = verify_ledger_ok [OF repo_inv_chain [OF inv]]
  let ?l = "revoke_lifecycle_delete (authorize_lifecycle_delete (db_ledger db))"
  let ?t = "\<lparr>tb_record_id = i, tb_record_kind = k, tb_deleted_at = ctx_occurred_at ctx, tb_source_fingerprint = fingerprint env r\<rparr>"
  let ?db1 = "(drop_versions k i db)\<lparr>db_ledger := ?l\<rparr>"
  let ?db2 = "?db1\<lparr>db_tombstones := db_tombstones db @ [?t]\<rparr>"
  have ts: "db_tombstones ?db1 = db_tombstones db" by (simp add: drop_versions_def)
  show ?thesis
  proof (cases "i \<in> tb_record_id ` set (db_tombstones db)")
    case True
    with v read Some ts show ?thesis by (simp add: delete_body_def abind_def authorized_delete_eq insert_tombstone_def)
  next
    case False
    have inv1: "repo_inv env ?db1" using repo_inv_chain [OF inv] by (intro repo_inv_ledger repo_inv_drop inv) simp
    have inv2: "repo_inv env ?db2"
      using repo_inv_tombstone [OF inv1, of ?t] by (simp add: versions_of_drop ts)
    have "audit_count ?db2 = audit_count db" by simp
    with append_audit_ok [OF repo_inv_chain [OF inv2], of "mutation_of k i ''deleted'' ''.deleted'' (fingerprint env r) ctx"]
    obtain l where l: "append_audit env (mutation_of k i ''deleted'' ''.deleted'' (fingerprint env r) ctx) ?db2 = (Inr (), ?db2\<lparr>db_ledger := l\<rparr>)"
      "chain_ok (repo_hmac env) (audit_key env) l" "length (stored_entries l) = Suc (audit_count db)" by auto
    with v read Some ts False have "delete_body env k i ctx db = (Inr (), ?db2\<lparr>db_ledger := l\<rparr>)"
      by (simp add: delete_body_def abind_def authorized_delete_eq insert_tombstone_def)
    with repo_inv_ledger [OF inv2 l(2)] l(3) Some False show ?thesis by (auto simp: Let_def)
  qed
qed

section \<open>The operations on an idle connection\<close>

lemma read_record_cong: "versions_of db' k i = versions_of db k i \<Longrightarrow> read_record env db' k i = read_record env db k i"
  by (simp add: read_record_def)

lemma idle_inject [simp]: "idle d = idle e \<longleftrightarrow> d = e"
  by (auto simp: idle_def)

lemmas idle_transaction = create_record_def transition_record_def delete_record_def domain_transaction_tables

lemma create_record_outcome:
  assumes "repo_inv env db" and "record_codec_ok env" and "valid_record r"
  shows "if record_id r \<in> tb_record_id ` set (db_tombstones db) \<or> read_record env db (kind_of_record r) (record_id r) \<noteq> Inr None
     then \<exists>e. create_record env r ctx (idle db) = (Inl e, idle db)
     else \<exists>db'. create_record env r ctx (idle db) = (Inr (), idle db') \<and> repo_inv env db'
        \<and> read_record env db' (kind_of_record r) (record_id r) = Inr (Some r)
        \<and> version_count db' (kind_of_record r) (record_id r) = 1 \<and> audit_count db' = Suc (audit_count db)
        \<and> (\<forall>k i. (k, i) \<noteq> (kind_of_record r, record_id r) \<longrightarrow> read_record env db' k i = read_record env db k i)"
proof (cases "record_id r \<in> tb_record_id ` set (db_tombstones db) \<or> versions_of db (kind_of_record r) (record_id r) \<noteq> []")
  case True
  with create_body_cases [OF assms, of ctx] obtain e db' where "create_body env r ctx db = (Inl e, db')" by auto
  with True read_record_None [OF assms(1)] show ?thesis by (simp add: idle_transaction)
next
  case False
  let ?row = "\<lparr>vr_record_id = record_id r, vr_version = 1, vr_state = record_state r,
      vr_content_json = dump_record env r, vr_created_at = record_created_at r\<rparr>"
  from False create_body_cases [OF assms, of ctx] obtain l where
    b: "create_body env r ctx db = (Inr (), (add_version (kind_of_record r) ?row db)\<lparr>db_ledger := l\<rparr>)"
    and inv: "repo_inv env ((add_version (kind_of_record r) ?row db)\<lparr>db_ledger := l\<rparr>)"
    and n: "length (stored_entries l) = Suc (audit_count db)" by auto
  let ?db = "(add_version (kind_of_record r) ?row db)\<lparr>db_ledger := l\<rparr>"
  have "read_record env ?db (kind_of_record r) (record_id r) = Inr (Some r)"
    using assms(2,3) by (simp add: read_record_eq(1) [OF inv] versions_of_add record_codec_ok_def)
  moreover have "version_count ?db (kind_of_record r) (record_id r) = 1" using False by (simp add: version_count_def versions_of_add)
  moreover have "(k, i) \<noteq> (kind_of_record r, record_id r) \<Longrightarrow> read_record env ?db k i = read_record env db k i" for k i
    by (rule read_record_cong) (auto simp: versions_of_add)
  ultimately show ?thesis
    using b inv n False read_record_None [OF assms(1)] by (auto simp: idle_transaction intro!: exI [of _ ?db])
qed

text \<open>
  \<open>create\<close> succeeds exactly when the identity was never deleted and is not live in its kind.  It then
  stores version one, which \<open>read\<close> returns, leaves every other record alone and adds one audit entry to the
  verified chain; otherwise the database is unchanged.
\<close>
theorem create_record_correct:
  assumes "repo_inv env db" and "record_codec_ok env" and "valid_record r"
  shows "if record_id r \<in> tb_record_id ` set (db_tombstones db) \<or> read_record env db (kind_of_record r) (record_id r) \<noteq> Inr None
     then \<exists>e. create_record env r ctx (idle db) = (Inl e, idle db)
     else \<exists>db'. create_record env r ctx (idle db) = (Inr (), idle db') \<and> repo_inv env db'
        \<and> read_record env db' (kind_of_record r) (record_id r) = Inr (Some r)
        \<and> version_count db' (kind_of_record r) (record_id r) = 1 \<and> audit_count db' = Suc (audit_count db)
        \<and> (\<forall>k i. (k, i) \<noteq> (kind_of_record r, record_id r) \<longrightarrow> read_record env db' k i = read_record env db k i)"
  by (rule create_record_outcome [OF assms])

definition ex_task :: domain_record where
  "ex_task = \<lparr>record_id = ''t1'', record_created_at = utc_datetime 0, record_state = ''open'', record_body = Task ''write''\<rparr>"

definition ex_ctx :: transition_context where
  "ex_ctx = \<lparr>ctx_actor = ''user'', ctx_correlation_id = ''c'', ctx_occurred_at = utc_datetime 1\<rparr>"

lemma ex_task_created:
  "\<exists>db. create_record text_repository_env ex_task ex_ctx (idle new_domain_db) = (Inr (), idle db) \<and> repo_inv text_repository_env db
     \<and> versions_of db TASK ''t1'' \<noteq> [] \<and> db_tombstones db = []"
proof -
  have "valid_record ex_task" by (simp add: valid_record_def ex_task_def)
  from create_body_cases [OF repo_inv_new text_repository_env_codec this, of ex_ctx] show ?thesis
    by (auto simp: idle_transaction new_domain_db_def versions_of_def add_version_def kind_of_record_def ex_task_def)
qed

theorem create_record_correct_witness:
  "\<exists>db. create_record text_repository_env ex_task ex_ctx (idle new_domain_db) = (Inr (), idle db)
     \<and> read_record text_repository_env db TASK ''t1'' = Inr (Some ex_task)"
proof -
  have v: "valid_record ex_task" by (simp add: valid_record_def ex_task_def)
  have "read_record text_repository_env new_domain_db TASK ''t1'' = Inr None"
    by (simp add: read_record_def new_domain_db_def versions_of_def)
  with create_record_correct [OF repo_inv_new text_repository_env_codec v, of ex_ctx] show ?thesis
    by (auto simp: ex_task_def kind_of_record_def new_domain_db_def)
qed

lemma transition_record_outcome:
  assumes "repo_inv env db" and "record_codec_ok env"
  shows "case read_record env db k i of
       Inr (Some r) \<Rightarrow>
         if st = [] then transition_record env k i st ctx (idle db) = (Inl RecordValidationError, idle db)
         else \<exists>db' row. transition_record env k i st ctx (idle db) = (Inr (), idle db') \<and> repo_inv env db'
            \<and> read_record env db' k i = Inr (Some (r\<lparr>record_state := st\<rparr>))
            \<and> versions_of db' k i = versions_of db k i @ [row] \<and> audit_count db' = Suc (audit_count db)
            \<and> (\<forall>k' i'. (k', i') \<noteq> (k, i) \<longrightarrow> read_record env db' k' i' = read_record env db k' i')
     | Inr None \<Rightarrow> transition_record env k i st ctx (idle db) = (Inl (RecordNotFoundError k i), idle db)
     | Inl e \<Rightarrow> False"
proof -
  obtain m where m: "read_record env db k i = Inr m" using read_record_defined [OF assms(1)] by blast
  note c = transition_body_cases [OF assms m, of st ctx]
  show ?thesis
  proof (cases m)
    case None
    with c m show ?thesis by (simp add: idle_transaction)
  next
    case (Some r)
    show ?thesis
    proof (cases "st = []")
      case True
      with c m Some show ?thesis by (simp add: idle_transaction)
    next
      case False
      with c Some obtain row l where b: "transition_body env k i st ctx db = (Inr (), (add_version k row db)\<lparr>db_ledger := l\<rparr>)"
        and row: "vr_record_id row = i" "parse_record env (vr_content_json row) = Some (r\<lparr>record_state := st\<rparr>)"
        and inv: "repo_inv env ((add_version k row db)\<lparr>db_ledger := l\<rparr>)" and n: "length (stored_entries l) = Suc (audit_count db)"
        by auto
      let ?db = "(add_version k row db)\<lparr>db_ledger := l\<rparr>"
      have "read_record env ?db k i = Inr (Some (r\<lparr>record_state := st\<rparr>))"
        using row by (simp add: read_record_eq(1) [OF inv] versions_of_add)
      moreover have "read_record env ?db k' i' = read_record env db k' i'" if "(k', i') \<noteq> (k, i)" for k' i'
        by (rule read_record_cong) (use that row in \<open>auto simp: versions_of_add\<close>)
      ultimately show ?thesis
        using b inv n row m Some False by (auto simp: idle_transaction versions_of_add intro!: exI [of _ ?db])
    qed
  qed
qed

text \<open>
  \<open>transition\<close> appends: on a live record and a non-empty state it adds one version after all earlier
  ones, which stay as they were, \<open>read\<close> then returns the record in the new state, and one audit entry is added;
  a missing record or an empty state is an error that leaves the database unchanged.
\<close>
theorem transition_record_correct:
  assumes "repo_inv env db" and "record_codec_ok env"
  shows "case read_record env db k i of
       Inr (Some r) \<Rightarrow>
         if st = [] then transition_record env k i st ctx (idle db) = (Inl RecordValidationError, idle db)
         else \<exists>db' row. transition_record env k i st ctx (idle db) = (Inr (), idle db') \<and> repo_inv env db'
            \<and> read_record env db' k i = Inr (Some (r\<lparr>record_state := st\<rparr>))
            \<and> versions_of db' k i = versions_of db k i @ [row] \<and> audit_count db' = Suc (audit_count db)
            \<and> (\<forall>k' i'. (k', i') \<noteq> (k, i) \<longrightarrow> read_record env db' k' i' = read_record env db k' i')
     | Inr None \<Rightarrow> transition_record env k i st ctx (idle db) = (Inl (RecordNotFoundError k i), idle db)
     | Inl e \<Rightarrow> False"
  by (rule transition_record_outcome [OF assms])

theorem transition_record_correct_witness:
  "\<exists>db db'. create_record text_repository_env ex_task ex_ctx (idle new_domain_db) = (Inr (), idle db)
     \<and> transition_record text_repository_env TASK ''t1'' ''done'' ex_ctx (idle db) = (Inr (), idle db')
     \<and> version_count db' TASK ''t1'' = Suc (version_count db TASK ''t1'')"
proof -
  obtain db where db: "create_record text_repository_env ex_task ex_ctx (idle new_domain_db) = (Inr (), idle db)"
    "repo_inv text_repository_env db" "versions_of db TASK ''t1'' \<noteq> []" using ex_task_created by blast
  obtain m where m: "read_record text_repository_env db TASK ''t1'' = Inr m" using read_record_defined [OF db(2)] by blast
  with db(2,3) read_record_None [OF db(2), of TASK "''t1''"] obtain r where "m = Some r" by (cases m) auto
  with m transition_record_correct [OF db(2) text_repository_env_codec, of TASK "''t1''" "''done''" ex_ctx] db(1) show ?thesis
    by (auto simp: version_count_def)
qed

section \<open>Deletion\<close>

text \<open>The life of the repository: the successful operations on idle connections.\<close>

inductive repo_step :: "repository_env \<Rightarrow> domain_db \<Rightarrow> domain_db \<Rightarrow> bool" for env where
  step_create: "valid_record r \<Longrightarrow> create_record env r ctx (idle db) = (Inr (), idle db') \<Longrightarrow> repo_step env db db'"
| step_transition: "transition_record env k i st ctx (idle db) = (Inr (), idle db') \<Longrightarrow> repo_step env db db'"
| step_delete: "delete_record env k i ctx (idle db) = (Inr (), idle db') \<Longrightarrow> repo_step env db db'"

abbreviation repo_steps :: "repository_env \<Rightarrow> domain_db \<Rightarrow> domain_db \<Rightarrow> bool" where
  "repo_steps env \<equiv> (repo_step env)\<^sup>*\<^sup>*"

lemma idle_success:
  assumes "domain_transaction (on_tables m) (idle db) = (Inr (), idle db')"
  shows "m db = (Inr (), db')"
  using assms by (cases "m db"; cases "fst (m db)") (auto simp: domain_transaction_tables)

lemma delete_body_success:
  assumes "repo_inv env db" and "delete_body env k i ctx db = (Inr (), db')"
  shows "repo_inv env db'" and "\<exists>t. db_tombstones db' = db_tombstones db @ [t] \<and> tb_record_id t = i \<and> tb_record_kind t = k"
    and "audit_count db' = Suc (audit_count db)"
    and "(k', j) \<noteq> (k, i) \<Longrightarrow> versions_of db' k' j = versions_of db k' j"
proof -
  obtain m where m: "read_record env db k i = Inr m" using read_record_defined [OF assms(1)] by blast
  note c = delete_body_cases [OF assms(1) m, of ctx]
  from c assms(2) obtain r where r: "m = Some r" by (cases m) auto
  with c assms(2) have "i \<notin> tb_record_id ` set (db_tombstones db)" by (auto split: if_splits)
  with c r assms(2) obtain l where l: "db' = (drop_versions k i db)\<lparr>db_tombstones := db_tombstones db @ [\<lparr>tb_record_id = i, tb_record_kind = k,
         tb_deleted_at = ctx_occurred_at ctx, tb_source_fingerprint = fingerprint env r\<rparr>], db_ledger := l\<rparr>"
      "repo_inv env db'" "length (stored_entries l) = Suc (audit_count db)" by (auto simp: Let_def)
  from l show "repo_inv env db'" "\<exists>t. db_tombstones db' = db_tombstones db @ [t] \<and> tb_record_id t = i \<and> tb_record_kind t = k"
    "audit_count db' = Suc (audit_count db)" by simp_all
  show "(k', j) \<noteq> (k, i) \<Longrightarrow> versions_of db' k' j = versions_of db k' j" using l(1) by (auto simp: versions_of_drop)
qed

lemma repo_step_keeps:
  assumes "repo_step env db db'" and "record_codec_ok env" and "repo_inv env db"
  shows "repo_inv env db' \<and> set (db_tombstones db) \<subseteq> set (db_tombstones db')"
  using assms(1)
proof cases
  case (step_create r ctx)
  from step_create(2) have b: "create_body env r ctx db = (Inr (), db')" unfolding create_record_def by (rule idle_success)
  show ?thesis using create_body_cases [OF assms(3,2) step_create(1), of ctx] b
    by (auto simp: add_version_def split: if_splits)
next
  case (step_transition k i st ctx)
  from step_transition have b: "transition_body env k i st ctx db = (Inr (), db')" unfolding transition_record_def by (rule idle_success)
  obtain m where m: "read_record env db k i = Inr m" using read_record_defined [OF assms(3)] by blast
  show ?thesis using transition_body_cases [OF assms(3,2) m, of st ctx] b
    by (cases m) (auto simp: add_version_def split: if_splits)
next
  case (step_delete k i ctx)
  from step_delete have b: "delete_body env k i ctx db = (Inr (), db')" unfolding delete_record_def by (rule idle_success)
  from delete_body_success [OF assms(3) b] show ?thesis by auto
qed

lemma repo_steps_keep:
  "repo_steps env db db' \<Longrightarrow> record_codec_ok env \<Longrightarrow> repo_inv env db \<Longrightarrow>
   repo_inv env db' \<and> set (db_tombstones db) \<subseteq> set (db_tombstones db')"
  by (induction rule: rtranclp_induct) (auto dest: repo_step_keeps)

text \<open>
  C14: a deletion is final: after \<open>delete\<close> succeeds, in every later state of the repository the record reads as
  absent, its tombstone is kept, and no record of any kind can be created under its identity.
\<close>
theorem deletion_is_final:
  assumes "repo_inv env db" and "record_codec_ok env" and "delete_record env k i ctx (idle db) = (Inr (), idle db1)"
    and "repo_steps env db1 db2"
  shows "read_record env db2 k i = Inr None \<and> (\<exists>t. tombstone_of db2 i = Inr t)
     \<and> (\<forall>r ctx'. record_id r = i \<longrightarrow> create_record env r ctx' (idle db2) = (Inl IdentityReused, idle db2))"
proof -
  from assms(3) have b: "delete_body env k i ctx db = (Inr (), db1)" unfolding delete_record_def by (rule idle_success)
  note d = delete_body_success [OF assms(1) b]
  from d(2) obtain t where ts: "db_tombstones db1 = db_tombstones db @ [t]" and t': "tb_record_id t = i" "tb_record_kind t = k" by blast
  then have t: "t \<in> set (db_tombstones db1)" "tb_record_id t = i" "tb_record_kind t = k" by simp_all
  from repo_steps_keep [OF assms(4,2) d(1)] have inv: "repo_inv env db2" and t2: "t \<in> set (db_tombstones db2)" using t(1) by auto
  then have "versions_of db2 k i = []" using t(2,3) by (auto simp: repo_inv_def)
  moreover have "\<exists>t. tombstone_of db2 i = Inr t"
    using t2 t(2) by (auto simp: tombstone_of_def find_None_iff split: option.split)
  moreover have "create_record env r ctx' (idle db2) = (Inl IdentityReused, idle db2)" if "record_id r = i" for r ctx'
    using that t(2) t2 verify_ledger_ok [OF repo_inv_chain [OF inv]]
    by (simp add: idle_transaction create_body_def abind_def) force
  ultimately show ?thesis using read_record_None [OF inv] by blast
qed

theorem deletion_is_final_witness:
  "\<exists>db db1. create_record text_repository_env ex_task ex_ctx (idle new_domain_db) = (Inr (), idle db)
     \<and> delete_record text_repository_env TASK ''t1'' ex_ctx (idle db) = (Inr (), idle db1)
     \<and> create_record text_repository_env ex_task ex_ctx (idle db1) = (Inl IdentityReused, idle db1)"
proof -
  obtain db where db: "create_record text_repository_env ex_task ex_ctx (idle new_domain_db) = (Inr (), idle db)"
    "repo_inv text_repository_env db" "versions_of db TASK ''t1'' \<noteq> []" "db_tombstones db = []" using ex_task_created by blast
  obtain m where m: "read_record text_repository_env db TASK ''t1'' = Inr m" using read_record_defined [OF db(2)] by blast
  with db(2,3) read_record_None [OF db(2), of TASK "''t1''"] obtain r where r: "m = Some r" by (cases m) auto
  from delete_body_cases [OF db(2) m, of ex_ctx] r db(4) obtain db1
    where d: "delete_record text_repository_env TASK ''t1'' ex_ctx (idle db) = (Inr (), idle db1)"
    by (auto simp: idle_transaction Let_def)
  from deletion_is_final [OF db(2) text_repository_env_codec d] have "create_record text_repository_env ex_task ex_ctx (idle db1) = (Inl IdentityReused, idle db1)"
    by (simp add: ex_task_def)
  with db(1) d show ?thesis by blast
qed

end
