(* ===== verification/Encodings.thy ===== *)
theory Encodings
  imports Prelude
begin

text \<open>
  The parts of Python's \<open>uuid\<close> and \<open>base64\<close> modules the voice relay uses, on ASCII text: a UUID is its
  128-bit integer, with the readings \<open>UUID(int=n)\<close> and \<open>UUID(text)\<close> and the printing \<open>str(u)\<close>; the URL-safe
  alphabet of \<open>urlsafe_b64encode\<close> and the strict reading \<open>b64decode(.., altchars=b"-_", validate=True)\<close>.
\<close>

section \<open>UUIDs\<close>

type_synonym uuid = nat

definition uuid_of_int :: "nat \<Rightarrow> uuid option" where
  "uuid_of_int n = (if n < 2 ^ 128 then Some n else None)"

fun hex_pad :: "nat \<Rightarrow> nat \<Rightarrow> string" where
  "hex_pad 0 n = []"
| "hex_pad (Suc w) n = hex_pad w (n div 16) @ [''0123456789abcdef'' ! (n mod 16)]"

definition uuid_str :: "uuid \<Rightarrow> string" where
  "uuid_str u = (let h = hex_pad 32 u in
     take 8 h @ ''-'' @ take 4 (drop 8 h) @ ''-'' @ take 4 (drop 12 h) @ ''-'' @ take 4 (drop 16 h) @ ''-'' @ drop 20 h)"

text \<open>\<open>text.replace(pat, "")\<close>, and \<open>text.strip(chars)\<close> for a test on characters.\<close>

fun py_remove :: "string \<Rightarrow> string \<Rightarrow> string" where
  "py_remove pat [] = []"
| "py_remove pat (c # cs) =
     (if pat \<noteq> [] \<and> take (length pat) (c # cs) = pat then py_remove pat (drop (length pat - 1) cs)
      else c # py_remove pat cs)"

definition py_strip :: "(char \<Rightarrow> bool) \<Rightarrow> string \<Rightarrow> string" where
  "py_strip P s = rev (dropWhile P (rev (dropWhile P s)))"

definition hex_value :: "char \<Rightarrow> nat option" where
  "hex_value c = (let n = of_char c :: nat in
     if 48 \<le> n \<and> n \<le> 57 then Some (n - 48)
     else if 97 \<le> n \<and> n \<le> 102 then Some (n - 87)
     else if 65 \<le> n \<and> n \<le> 70 then Some (n - 55)
     else None)"

text \<open>\<open>int(text, 16)\<close>: surrounding white space, a sign, the prefix \<open>0x\<close> and single underscores between digits are accepted.\<close>

fun hex_digits :: "bool \<Rightarrow> nat \<Rightarrow> string \<Rightarrow> nat option" where
  "hex_digits ok acc [] = (if ok then Some acc else None)"
| "hex_digits ok acc (c # cs) =
     (if c = CHR ''_'' then (if ok then hex_digits False acc cs else None)
      else case hex_value c of None \<Rightarrow> None | Some d \<Rightarrow> hex_digits True (acc * 16 + d) cs)"

definition is_space :: "char \<Rightarrow> bool" where
  "is_space c \<longleftrightarrow> (let n = of_char c :: nat in 9 \<le> n \<and> n \<le> 13 \<or> 28 \<le> n \<and> n \<le> 32)"

text \<open>\<open>lower\<close> and \<open>casefold\<close> of ASCII text.\<close>

definition py_lower :: "string \<Rightarrow> string" where
  "py_lower s = map (\<lambda>c. let n = of_char c :: nat in if 65 \<le> n \<and> n \<le> 90 then char_of (n + 32) else c) s"

definition hex_magnitude :: "string \<Rightarrow> nat option" where
  "hex_magnitude s =
     (if length s > 2 \<and> s ! 0 = CHR ''0'' \<and> s ! 1 \<in> {CHR ''x'', CHR ''X''} then hex_digits True 0 (drop 2 s)
      else hex_digits False 0 s)"

definition py_int16 :: "string \<Rightarrow> int option" where
  "py_int16 s = (case py_strip is_space s of
       [] \<Rightarrow> None
     | c # cs \<Rightarrow> if c = CHR ''-'' then map_option (\<lambda>n. - int n) (hex_magnitude cs)
                 else if c = CHR ''+'' then map_option int (hex_magnitude cs)
                 else map_option int (hex_magnitude (c # cs)))"

definition uuid_parse :: "string \<Rightarrow> uuid option" where
  "uuid_parse s =
     (let h = filter (\<lambda>c. c \<noteq> CHR ''-'') (py_strip (\<lambda>c. c = CHR ''{'' \<or> c = CHR ''}'') (py_remove ''uuid:'' (py_remove ''urn:'' s)))
      in if length h \<noteq> 32 then None
         else case py_int16 h of None \<Rightarrow> None | Some i \<Rightarrow> if 0 \<le> i \<and> i < 2 ^ 128 then Some (nat i) else None)"

section \<open>Base64\<close>

definition b64_alphabet :: string where
  "b64_alphabet = ''ABCDEFGHIJKLMNOPQRSTUVWXYZabcdefghijklmnopqrstuvwxyz0123456789-_''"

definition b64_char :: "nat \<Rightarrow> char" where
  "b64_char d = b64_alphabet ! d"

text \<open>After the translation of \<open>-_\<close> the original \<open>+/\<close> are still letters of the alphabet.\<close>

definition b64_value :: "char \<Rightarrow> nat option" where
  "b64_value c = map_of (zip b64_alphabet [0..<64])
     (if c = CHR ''+'' then CHR ''-'' else if c = CHR ''/'' then CHR ''_'' else c)"

fun b64_encode :: "string \<Rightarrow> string" where
  "b64_encode [] = []"
| "b64_encode [x] = (let a = of_char x :: nat in [b64_char (a div 4), b64_char (a mod 4 * 16), CHR ''='', CHR ''=''])"
| "b64_encode [x, y] = (let a = of_char x :: nat; b = of_char y :: nat in
     [b64_char (a div 4), b64_char (a mod 4 * 16 + b div 16), b64_char (b mod 16 * 4), CHR ''=''])"
| "b64_encode (x # y # z # s) = (let a = of_char x :: nat; b = of_char y :: nat; c = of_char z :: nat in
     b64_char (a div 4) # b64_char (a mod 4 * 16 + b div 16) # b64_char (b mod 16 * 4 + c div 64) # b64_char (c mod 64)
     # b64_encode s)"

text \<open>Strict decoding: groups of four letters, padding only at the very end.\<close>

fun b64_decode :: "string \<Rightarrow> string option" where
  "b64_decode [] = Some []"
| "b64_decode (w # x # y # z # s) =
     (case (b64_value w, b64_value x) of
        (Some i, Some j) \<Rightarrow>
          let first = char_of (i * 4 + j div 16) in
          (if y = CHR ''='' \<and> z = CHR ''='' \<and> s = [] then Some [first]
           else case b64_value y of
             None \<Rightarrow> None
           | Some k \<Rightarrow>
               let snd_char = char_of (j mod 16 * 16 + k div 4) in
               (if z = CHR ''='' \<and> s = [] then Some [first, snd_char]
                else case (b64_value z, b64_decode s) of
                  (Some l, Some r) \<Rightarrow> Some (first # snd_char # char_of (k mod 4 * 64 + l) # r)
                | _ \<Rightarrow> None))
      | _ \<Rightarrow> None)"
| "b64_decode s = None"

section \<open>Round trips\<close>

lemma length_hex_pad [simp]: "length (hex_pad w n) = w"
  by (induction w arbitrary: n) simp_all

lemma all_below: "list_all Q [0..<n] \<Longrightarrow> d < n \<Longrightarrow> Q d"
  by (simp add: list_all_iff)

lemma hex_value_digit: "d < 16 \<Longrightarrow> hex_value (''0123456789abcdef'' ! d) = Some d"
  by (rule all_below [where Q = "\<lambda>d. hex_value (''0123456789abcdef'' ! d) = Some d" and n = 16]) code_simp

lemma hex_digit_plain:
  "d < 16 \<Longrightarrow> ''0123456789abcdef'' ! d \<notin> set ''_-+uxX{}'' \<and> \<not> is_space (''0123456789abcdef'' ! d)"
  by (rule all_below [where n = 16]) code_simp

lemma hex_pad_digits: "c \<in> set (hex_pad w n) \<Longrightarrow> \<exists>d < 16. c = ''0123456789abcdef'' ! d"
proof (induction w arbitrary: n)
  case (Suc w)
  from Suc.prems consider "c \<in> set (hex_pad w (n div 16))" | "c = ''0123456789abcdef'' ! (n mod 16)" by auto
  then show ?case
  proof cases
    case 1
    then show ?thesis by (rule Suc.IH)
  next
    case 2
    then show ?thesis by (intro exI [of _ "n mod 16"]) simp
  qed
qed simp

lemma hex_pad_plain: "c \<in> set (hex_pad w n) \<Longrightarrow> c \<notin> set ''_-+uxX{}'' \<and> \<not> is_space c \<and> hex_value c \<noteq> None"
  using hex_pad_digits hex_digit_plain hex_value_digit by fastforce

lemma hex_digits_foldl:
  "\<forall>c \<in> set xs. c \<noteq> CHR ''_'' \<and> hex_value c \<noteq> None \<Longrightarrow> xs \<noteq> [] \<or> ok
   \<Longrightarrow> hex_digits ok acc xs = Some (foldl (\<lambda>a c. a * 16 + the (hex_value c)) acc xs)"
  by (induction xs arbitrary: ok acc) auto

lemma foldl_hex_pad:
  "foldl (\<lambda>a c. a * 16 + the (hex_value c)) acc (hex_pad w n) = acc * 16 ^ w + n mod 16 ^ w"
proof (induction w arbitrary: n)
  case (Suc w)
  have "n mod (16 * 16 ^ w) = 16 * (n div 16 mod 16 ^ w) + n mod 16" by (rule mod_mult2_eq)
  with Suc show ?case by (simp add: hex_value_digit algebra_simps)
qed simp

lemma py_remove_absent: "p \<notin> set s \<Longrightarrow> py_remove (p # ps) s = s"
  by (induction s) auto

lemma dropWhile_absent: "\<forall>c \<in> set s. \<not> P c \<Longrightarrow> dropWhile P s = s"
  by (cases s) auto

lemma py_strip_absent: "\<forall>c \<in> set s. \<not> P c \<Longrightarrow> py_strip P s = s"
  by (simp add: py_strip_def dropWhile_absent)

lemma py_int16_hex_pad:
  assumes "0 < w"
  shows "py_int16 (hex_pad w n) = Some (int (n mod 16 ^ w))"
proof -
  let ?h = "hex_pad w n"
  have plain: "c \<in> set ?h \<Longrightarrow> c \<notin> set ''_-+uxX{}'' \<and> \<not> is_space c \<and> hex_value c \<noteq> None" for c
    by (rule hex_pad_plain)
  have ne: "?h \<noteq> []" using assms length_hex_pad [of w n] by (metis less_numeral_extra(3) list.size(3))
  have "length ?h > 2 \<Longrightarrow> ?h ! 1 \<in> set ?h" by simp
  then have x: "\<not> (length ?h > 2 \<and> ?h ! 0 = CHR ''0'' \<and> ?h ! 1 \<in> {CHR ''x'', CHR ''X''})"
    using plain [of "?h ! 1"] by auto
  have digits: "hex_digits False 0 ?h = Some (n mod 16 ^ w)"
    using hex_digits_foldl [of ?h False 0] plain ne by (auto simp: foldl_hex_pad)
  then have "hex_magnitude ?h = Some (n mod 16 ^ w)"
    by (simp only: hex_magnitude_def if_not_P [OF x])
  moreover obtain c cs where h: "?h = c # cs" using ne by (cases ?h) auto
  moreover from h have "c \<noteq> CHR ''-'' \<and> c \<noteq> CHR ''+''" using plain [of c] by auto
  moreover have "py_strip is_space ?h = ?h" using plain by (auto intro: py_strip_absent)
  ultimately show ?thesis by (simp add: py_int16_def)
qed

lemma uuid_roundtrip: "u < 2 ^ 128 \<Longrightarrow> uuid_parse (uuid_str u) = Some u"
proof -
  assume u: "u < 2 ^ 128"
  let ?h = "hex_pad 32 u"
  have plain: "c \<in> set ?h \<Longrightarrow> c \<notin> set ''_-+uxX{}''" for c using hex_pad_plain by blast
  have sub: "c \<in> set (uuid_str u) \<Longrightarrow> c = CHR ''-'' \<or> c \<in> set ?h" for c
    by (auto simp: uuid_str_def Let_def dest: in_set_takeD in_set_dropD)
  then have clean: "c \<in> set (uuid_str u) \<Longrightarrow> c \<noteq> CHR ''u'' \<and> c \<noteq> CHR ''{'' \<and> c \<noteq> CHR ''}''" for c
    using plain by fastforce
  have nodash: "filter (\<lambda>c. c \<noteq> CHR ''-'') xs = xs" if "set xs \<subseteq> set ?h" for xs
    using that plain by (intro filter_True) auto
  have join: "take 8 h @ take 4 (drop 8 h) @ take 4 (drop 12 h) @ take 4 (drop 16 h) @ drop 20 h = h" for h :: string
  proof -
    have d: "take 4 (drop k h) @ drop (k + 4) h = drop k h" for k
      using append_take_drop_id [of 4 "drop k h"] by (simp add: add.commute)
    show ?thesis using d [of 8] d [of 12] d [of 16] append_take_drop_id [of 8 h] by simp
  qed
  have "filter (\<lambda>c. c \<noteq> CHR ''-'') (uuid_str u) = ?h"
    using join [of ?h] nodash
    by (simp add: uuid_str_def Let_def set_take_subset set_drop_subset subset_trans [OF set_take_subset])
  moreover have "py_remove ''uuid:'' (py_remove ''urn:'' (uuid_str u)) = uuid_str u"
  proof -
    have u: "CHR ''u'' \<notin> set (uuid_str u)" using clean by blast
    show ?thesis unfolding py_remove_absent [OF u] ..
  qed
  moreover have "py_strip (\<lambda>c. c = CHR ''{'' \<or> c = CHR ''}'') (uuid_str u) = uuid_str u"
    using clean by (auto intro: py_strip_absent)
  ultimately show ?thesis using u by (simp add: uuid_parse_def py_int16_hex_pad)
qed

lemma b64_alphabet_facts:
  "distinct b64_alphabet" "length b64_alphabet = 64" "CHR ''='' \<notin> set b64_alphabet"
  "CHR ''+'' \<notin> set b64_alphabet" "CHR ''/'' \<notin> set b64_alphabet"
  by (simp_all add: b64_alphabet_def)

lemma b64_char_mem: "d < 64 \<Longrightarrow> b64_char d \<in> set b64_alphabet"
  by (simp add: b64_char_def b64_alphabet_facts)

lemma b64_char_pad: "d < 64 \<Longrightarrow> b64_char d \<noteq> CHR ''='' \<and> b64_char d \<noteq> CHR ''+'' \<and> b64_char d \<noteq> CHR ''/''"
  using b64_char_mem b64_alphabet_facts by metis

lemma b64_value_char: "d < 64 \<Longrightarrow> b64_value (b64_char d) = Some d"
  using map_of_zip_nth [of b64_alphabet "[0..<64]" d] b64_char_pad [of d] b64_alphabet_facts
  by (simp add: b64_value_def b64_char_def)

lemma b64_digits:
  fixes a b c :: nat
  assumes "a < 256" and "b < 256" and "c < 256"
  shows "a div 4 < 64" and "a mod 4 * 16 + b div 16 < 64" and "b mod 16 * 4 + c div 64 < 64"
    and "a div 4 * 4 + (a mod 4 * 16 + b div 16) div 16 = a"
    and "(a mod 4 * 16 + b div 16) mod 16 * 16 + (b mod 16 * 4 + c div 64) div 4 = b"
    and "(b mod 16 * 4 + c div 64) mod 4 * 64 + c mod 64 = c"
proof -
  have "b div 16 < 16" and "c div 64 < 4" and "a mod 4 < 4" and "b mod 16 < 16" using assms by auto
  then show "a div 4 < 64" and "a mod 4 * 16 + b div 16 < 64" and "b mod 16 * 4 + c div 64 < 64"
    and "a div 4 * 4 + (a mod 4 * 16 + b div 16) div 16 = a"
    and "(a mod 4 * 16 + b div 16) mod 16 * 16 + (b mod 16 * 4 + c div 64) div 4 = b"
    and "(b mod 16 * 4 + c div 64) mod 4 * 64 + c mod 64 = c"
    using assms by auto
qed

lemma b64_roundtrip: "b64_decode (b64_encode s) = Some s"
proof (induction s rule: b64_encode.induct)
  case (2 x)
  have "of_char x < (256::nat)" by (rule nat_of_char_less_256)
  from b64_digits [OF this, of 0 0] show ?case
    by (simp add: Let_def b64_value_char)
next
  case (3 x y)
  have "of_char x < (256::nat)" "of_char y < (256::nat)" by (rule nat_of_char_less_256)+
  from b64_digits [OF this, of 0] show ?case
    by (simp add: Let_def b64_value_char b64_char_pad)
next
  case (4 x y z s)
  have "of_char x < (256::nat)" "of_char y < (256::nat)" "of_char z < (256::nat)" by (rule nat_of_char_less_256)+
  from b64_digits [OF this] 4 show ?case
    by (simp add: Let_def b64_value_char b64_char_pad)
qed simp

end
