(* ===== verification/Voice_Models.thy ===== *)
theory Voice_Models
  imports Enrollment Encodings
begin

text \<open>
  \<open>voice/models.py\<close> and \<open>voice/errors.py\<close>: the data of the owned voice relay.  Byte strings and texts are
  both char lists (texts in UTF-8), durations are microseconds.
\<close>

definition SESSION_TOKEN_TTL :: int where "SESSION_TOKEN_TTL = 10 * minute"
definition RECONNECT_WINDOW :: int where "RECONNECT_WINDOW = 30 * second"
definition TRANSCRIPT_RETENTION :: int where "TRANSCRIPT_RETENTION = 180 * day_us"
definition ROOT_KEY_ROTATION_INTERVAL :: int where "ROOT_KEY_ROTATION_INTERVAL = 90 * day_us"
definition MAX_PCM_FRAME_BYTES :: nat where "MAX_PCM_FRAME_BYTES = 4800"

datatype voice_surface =
    PUSH_TO_TALK | APP_SHORTCUT | BACK_TAP | ACTION_BUTTON | CONTROL_CENTER | LOCK_SCREEN | NOTIFICATION

datatype session_mode = PROVIDER_AUDIO | LOCAL_TEXT

datatype voice_event_kind = VTRANSCRIPT_PARTIAL | VTRANSCRIPT_FINAL | VACTION_PROGRESS | VCANCELLATION

datatype provider_retention_type = ZERO_DATA_RETENTION | MODIFIED_ABUSE_MONITORING | ORGANIZATION_DEFAULT

datatype voice_error =
    VoiceAccessError string
  | VoiceOrderError string
  | ProviderUnavailableError
  | RecoveryEnvelopeError string
  | VoiceValueError string
  | VoiceTypeError
  | VoiceKeyError
  | VoiceValidationError
  | VoiceDeviceError device_error

record relay_endpoint =
  ep_url :: string

definition validate_endpoint :: "string \<Rightarrow> voice_error + relay_endpoint" where
  "validate_endpoint url =
     (if url \<noteq> [] \<and> take 6 url = ''wss://'' then Inr \<lparr>ep_url = url\<rparr> else Inl VoiceValidationError)"

record session_start_request =
  rq_device_id :: string
  rq_public_key_fingerprint :: string
  rq_participant_id :: uuid
  rq_conversation_id :: uuid
  rq_surface :: voice_surface

record session_token =
  st_value :: string
  st_session_id :: uuid
  st_device_id :: string
  st_issued_at :: datetime
  st_expires_at :: datetime

record audio_frame =
  fr_event_id :: int
  fr_turn_id :: uuid
  fr_pcm :: string

definition validate_frame :: "int \<Rightarrow> uuid \<Rightarrow> string \<Rightarrow> voice_error + audio_frame" where
  "validate_frame i t pcm =
     (if 1 \<le> i \<and> 2 \<le> length pcm \<and> length pcm \<le> MAX_PCM_FRAME_BYTES \<and> length pcm mod 2 = 0
      then Inr \<lparr>fr_event_id = i, fr_turn_id = t, fr_pcm = pcm\<rparr> else Inl VoiceValidationError)"

text \<open>The literal fields of the provider configuration (no storage, 24 kHz PCM16, server VAD) are not state.\<close>

record provider_session_config =
  pc_project_id :: string
  pc_transcript_context :: "string list"

type_synonym provider_handle = string

record voice_event =
  ve_event_id :: nat
  ve_kind :: voice_event_kind
  ve_turn_id :: uuid
  ve_text :: string

record session_start_result =
  sr_token :: session_token
  sr_mode :: session_mode
  sr_endpoint :: relay_endpoint
  sr_reason :: string

record resume_result =
  rr_token :: session_token
  rr_replayed_events :: "voice_event list"

record session_snapshot =
  sn_retained_audio_bytes :: nat
  sn_queued_tts_bytes :: nat
  sn_queued_action_progress :: nat
  sn_next_event_id :: nat

record redacted_log_entry =
  lg_event :: string
  lg_session_id :: uuid
  lg_device_id :: string
  lg_byte_count :: nat

end
