(* ===== verification/Voice_Privacy.thy ===== *)
theory Voice_Privacy
  imports Voice_Models
begin

text \<open>
  \<open>voice/privacy.py\<close>: consent per invocation surface, the verified retention of the provider project, and
  the rotation of the database root key.  Comparing a naive with an aware timestamp raises, so the checks
  return a result.  The Keychain custodian is outside the repository: its answer is an argument.
\<close>

definition voice_le :: "datetime \<Rightarrow> datetime \<Rightarrow> voice_error + bool" where
  "voice_le a b = (if is_naive a = is_naive b then Inr (dt_le a b) else Inl VoiceTypeError)"

definition voice_lt :: "datetime \<Rightarrow> datetime \<Rightarrow> voice_error + bool" where
  "voice_lt a b = (if is_naive a = is_naive b then Inr (dt_lt a b) else Inl VoiceTypeError)"

section \<open>Consent\<close>

record consent_record =
  cr_surface :: voice_surface
  cr_granted_at :: datetime
  cr_withdrawn_at :: "datetime option"

type_synonym consent_registry = "voice_surface \<Rightarrow> consent_record option"

definition grant :: "voice_surface \<Rightarrow> datetime \<Rightarrow> consent_registry \<Rightarrow> consent_registry" where
  "grant f at reg = reg(f \<mapsto> \<lparr>cr_surface = f, cr_granted_at = at, cr_withdrawn_at = None\<rparr>)"

definition withdraw :: "voice_surface \<Rightarrow> datetime \<Rightarrow> consent_registry \<Rightarrow> consent_registry" where
  "withdraw f at reg = (case reg f of
       None \<Rightarrow> reg
     | Some r \<Rightarrow> reg(f \<mapsto> r\<lparr>cr_withdrawn_at := Some at\<rparr>))"

definition is_granted :: "consent_registry \<Rightarrow> voice_surface \<Rightarrow> datetime \<Rightarrow> voice_error + bool" where
  "is_granted reg f now = (case reg f of
       None \<Rightarrow> Inr False
     | Some r \<Rightarrow> ebind (voice_le (cr_granted_at r) now) (\<lambda>started. Inr (started \<and> cr_withdrawn_at r = None)))"

section \<open>Provider retention\<close>

record retention_verification =
  rv_project_id :: string
  rv_retention_type :: provider_retention_type
  rv_store :: bool
  rv_verified_at :: datetime
  rv_valid_until :: datetime

definition SAFE_PROVIDER_RETENTION :: "provider_retention_type set" where
  "SAFE_PROVIDER_RETENTION = {ZERO_DATA_RETENTION, MODIFIED_ABUSE_MONITORING}"

definition authorizes :: "retention_verification \<Rightarrow> string \<Rightarrow> datetime \<Rightarrow> voice_error + bool" where
  "authorizes v project now =
     (if rv_project_id v \<noteq> project \<or> rv_store v then Inr False
      else ebind (voice_le (rv_verified_at v) now) (\<lambda>verified.
           if \<not> verified then Inr False
           else ebind (voice_lt now (rv_valid_until v)) (\<lambda>valid.
                if \<not> valid then Inr False else Inr (rv_retention_type v \<in> SAFE_PROVIDER_RETENTION))))"

section \<open>Root-key rotation\<close>

datatype key_rotation_reason = SCHEDULED | COMPROMISE

record root_key_handle =
  rk_reference :: string
  rk_generation :: int
  rk_activated_at :: datetime

record recovery_envelope =
  re_reference :: string
  re_created_at :: datetime
  re_offline :: bool
  re_sealed :: bool
  re_audit_chain_verified :: bool

record key_rotation_plan =
  kp_replacement_reference :: string
  kp_envelope :: recovery_envelope
  kp_reason :: key_rotation_reason
  kp_now :: datetime

text \<open>
  \<open>custodian current replacement envelope\<close> is the exception the Keychain raises, if any.  The rotation
  requests made to it are listed in the result, whatever its outcome.
\<close>

definition rotate_root_key ::
  "(string \<Rightarrow> string \<Rightarrow> string \<Rightarrow> voice_error option) \<Rightarrow> root_key_handle \<Rightarrow> key_rotation_plan
   \<Rightarrow> (voice_error + root_key_handle) \<times> (string \<times> string \<times> string) list" where
  "rotate_root_key custodian k plan =
     (let env = kp_envelope plan in
      if \<not> (re_offline env \<and> re_sealed env \<and> re_audit_chain_verified env)
      then (Inl (RecoveryEnvelopeError (re_reference env)), [])
      else case (if kp_reason plan = SCHEDULED then voice_lt (kp_now plan) (dt_add (rk_activated_at k) ROOT_KEY_ROTATION_INTERVAL)
                 else Inr False) of
        Inl e \<Rightarrow> (Inl e, [])
      | Inr True \<Rightarrow> (Inl (VoiceValueError ''scheduled root-key rotation is not due''), [])
      | Inr False \<Rightarrow>
          let call = (rk_reference k, kp_replacement_reference plan, re_reference env) in
          (case custodian (rk_reference k) (kp_replacement_reference plan) (re_reference env) of
             Some e \<Rightarrow> (Inl e, [call])
           | None \<Rightarrow> (Inr \<lparr>rk_reference = kp_replacement_reference plan, rk_generation = rk_generation k + 1,
                            rk_activated_at = kp_now plan\<rparr>, [call])))"

end
