(* ===== verification/Voice_Tokens.thy ===== *)
theory Voice_Tokens
  imports Voice_Privacy
begin

text \<open>
  \<open>voice/tokens.py\<close>: opaque session tokens.  HMAC-SHA256 and SHA-256 are the parameters of \<open>voice_crypto\<close>,
  the nonce drawn by \<open>secrets.token_bytes\<close> is an argument.
\<close>

record voice_crypto =
  vc_hmac :: "string \<Rightarrow> string \<Rightarrow> string"
  vc_sha256 :: "string \<Rightarrow> string"

definition TOKEN_NONCE_BYTES :: nat where "TOKEN_NONCE_BYTES = 32"

record token_record =
  tr_token :: session_token
  tr_digest :: string

record token_manager =
  tm_signing_key :: string
  tm_records :: "token_record list"

definition new_token_manager :: "string \<Rightarrow> token_manager" where
  "new_token_manager key = \<lparr>tm_signing_key = key, tm_records = []\<rparr>"

definition token_binding :: "uuid \<Rightarrow> string \<Rightarrow> datetime \<Rightarrow> string" where
  "token_binding sid device at = uuid_str sid @ [CHR 0x1F] @ device @ [CHR 0x1F] @ isoformat at"

definition issue_token ::
  "voice_crypto \<Rightarrow> string \<Rightarrow> uuid \<Rightarrow> string \<Rightarrow> datetime \<Rightarrow> token_manager \<Rightarrow> session_token \<times> token_manager" where
  "issue_token vc nonce sid device now tm =
     (let signature = vc_hmac vc (tm_signing_key tm) (nonce @ token_binding sid device now);
          value = b64_encode (nonce @ signature);
          token = \<lparr>st_value = value, st_session_id = sid, st_device_id = device, st_issued_at = now,
                   st_expires_at = dt_add now SESSION_TOKEN_TTL\<rparr>;
          digest = vc_sha256 vc value
      in (token, tm\<lparr>tm_records := keyed_put tr_digest \<lparr>tr_token = token, tr_digest = digest\<rparr> (tm_records tm)\<rparr>))"

definition verified_record :: "voice_crypto \<Rightarrow> token_manager \<Rightarrow> string \<Rightarrow> voice_error + token_record" where
  "verified_record vc tm value =
     (case dict_get tr_digest (tm_records tm) (vc_sha256 vc value) of
        None \<Rightarrow> Inl (VoiceAccessError ''unknown voice session token'')
      | Some r \<Rightarrow>
          (case b64_decode value of
             None \<Rightarrow> Inl (VoiceAccessError ''malformed voice session token'')
           | Some decoded \<Rightarrow>
               let nonce = take TOKEN_NONCE_BYTES decoded;
                   signature = drop TOKEN_NONCE_BYTES decoded;
                   token = tr_token r;
                   expected = vc_hmac vc (tm_signing_key tm)
                     (nonce @ token_binding (st_session_id token) (st_device_id token) (st_issued_at token))
               in if length nonce \<noteq> TOKEN_NONCE_BYTES \<or> signature \<noteq> expected
                  then Inl (VoiceAccessError ''invalid voice session token'') else Inr r))"

definition verify_token :: "voice_crypto \<Rightarrow> token_manager \<Rightarrow> string \<Rightarrow> datetime \<Rightarrow> voice_error + session_token" where
  "verify_token vc tm value now =
     ebind (verified_record vc tm value) (\<lambda>r.
       if dt_le (st_expires_at (tr_token r)) now then Inl (VoiceAccessError ''voice session token expired'')
       else Inr (tr_token r))"

definition verify_for_resume :: "voice_crypto \<Rightarrow> token_manager \<Rightarrow> string \<Rightarrow> voice_error + session_token" where
  "verify_for_resume vc tm value = ebind (verified_record vc tm value) (\<lambda>r. Inr (tr_token r))"

definition replace_token ::
  "voice_crypto \<Rightarrow> string \<Rightarrow> string \<Rightarrow> datetime \<Rightarrow> token_manager \<Rightarrow> voice_error + session_token \<times> token_manager" where
  "replace_token vc nonce value now tm =
     ebind (verified_record vc tm value) (\<lambda>old.
       Inr (issue_token vc nonce (st_session_id (tr_token old)) (st_device_id (tr_token old)) now
              (tm\<lparr>tm_records := dict_pop tr_digest (tr_digest old) (tm_records tm)\<rparr>)))"

definition invalidate_token :: "voice_crypto \<Rightarrow> string \<Rightarrow> token_manager \<Rightarrow> token_manager" where
  "invalidate_token vc value tm = tm\<lparr>tm_records := dict_pop tr_digest (vc_sha256 vc value) (tm_records tm)\<rparr>"

end
