(* ===== verification/Conversation.thy ===== *)
theory Conversation
  imports Datetime Encodings
begin

text \<open>
  \<open>conversation_api.py\<close>: the portable Conversation contract and \<open>ConversationJournal\<close>, the ordering gate
  of one conversation's event stream.  A journal is an explicit state; \<open>accept\<close> returns the acceptance
  together with the new state, and a rejection is a value.
\<close>

section \<open>The contract\<close>

datatype participant_kind = USER_participant | AGENT_participant

datatype conversation_device_kind = IOS | MAC | WEB | CHANNEL

datatype conversation_state = ACTIVE | CANCELLED | COMPLETED

datatype conversation_event_kind =
    TRANSCRIPT_PARTIAL | TRANSCRIPT_FINAL | ATTACHMENT | TOOL_RESULT | CANCELLATION | RESUME | ERROR

datatype tool_result_status = OK_status | ERROR_status

record conversation_device =
  cd_device_id :: uuid
  cd_participant_id :: uuid
  cd_kind :: conversation_device_kind
  cd_name :: string
  cd_created_at :: datetime

record conversation =
  cv_conversation_id :: uuid
  cv_title :: string
  cv_participant_ids :: "uuid list"
  cv_device_ids :: "uuid list"
  cv_created_at :: datetime
  cv_state :: conversation_state

datatype conversation_payload =
    TranscriptPartial uuid string
  | TranscriptFinal uuid string
  | Attachment uuid string int string
  | ToolResult string string tool_result_status string
  | Cancellation uuid string
  | Resume uuid uuid
  | ConversationError string string bool

fun payload_kind :: "conversation_payload \<Rightarrow> conversation_event_kind" where
  "payload_kind (TranscriptPartial t x) = TRANSCRIPT_PARTIAL"
| "payload_kind (TranscriptFinal t x) = TRANSCRIPT_FINAL"
| "payload_kind (Attachment i m n r) = ATTACHMENT"
| "payload_kind (ToolResult c n s r) = TOOL_RESULT"
| "payload_kind (Cancellation t r) = CANCELLATION"
| "payload_kind (Resume t f) = RESUME"
| "payload_kind (ConversationError c m r) = ERROR"

record conversation_event =
  ce_event_id :: uuid
  ce_conversation_id :: uuid
  ce_participant_id :: uuid
  ce_device_id :: uuid
  ce_sequence :: int
  ce_occurred_at :: datetime
  ce_kind :: conversation_event_kind
  ce_payload :: conversation_payload

datatype conversation_rejection =
    UNKNOWN_CONVERSATION | CONVERSATION_CLOSED | DUPLICATE_EVENT | OUT_OF_ORDER | FOREIGN_PARTICIPANT
  | FOREIGN_DEVICE | DEVICE_PARTICIPANT_MISMATCH | KIND_MISMATCH | FINAL_WITHOUT_PARTIAL | TURN_CLOSED
  | EVENT_AFTER_CANCELLATION | RESUME_WITHOUT_CANCELLATION

fun rejection_value :: "conversation_rejection \<Rightarrow> string" where
  "rejection_value UNKNOWN_CONVERSATION = ''unknown_conversation''"
| "rejection_value CONVERSATION_CLOSED = ''conversation_closed''"
| "rejection_value DUPLICATE_EVENT = ''duplicate_event''"
| "rejection_value OUT_OF_ORDER = ''out_of_order''"
| "rejection_value FOREIGN_PARTICIPANT = ''foreign_participant''"
| "rejection_value FOREIGN_DEVICE = ''foreign_device''"
| "rejection_value DEVICE_PARTICIPANT_MISMATCH = ''device_participant_mismatch''"
| "rejection_value KIND_MISMATCH = ''kind_mismatch''"
| "rejection_value FINAL_WITHOUT_PARTIAL = ''final_without_partial''"
| "rejection_value TURN_CLOSED = ''turn_closed''"
| "rejection_value EVENT_AFTER_CANCELLATION = ''event_after_cancellation''"
| "rejection_value RESUME_WITHOUT_CANCELLATION = ''resume_without_cancellation''"

record conversation_acceptance =
  accepted :: bool
  rejection :: "conversation_rejection option"
  next_sequence :: int

section \<open>The journal\<close>

record conversation_journal =
  jr_conversation :: conversation
  jr_devices :: "conversation_device list"
  jr_next_sequence :: int
  jr_seen_event_ids :: "uuid set"
  jr_open_turn_id :: "uuid option"
  jr_cancelled_turn_id :: "uuid option"

definition new_journal :: "conversation \<Rightarrow> conversation_device list \<Rightarrow> conversation_journal" where
  "new_journal c devices =
     \<lparr>jr_conversation = c, jr_devices = dict_by cd_device_id devices, jr_next_sequence = 1,
      jr_seen_event_ids = {}, jr_open_turn_id = None, jr_cancelled_turn_id = None\<rparr>"

definition envelope_rejection :: "conversation_journal \<Rightarrow> conversation_event \<Rightarrow> conversation_rejection option" where
  "envelope_rejection j e =
     (if ce_conversation_id e \<noteq> cv_conversation_id (jr_conversation j) then Some UNKNOWN_CONVERSATION
      else if cv_state (jr_conversation j) \<noteq> ACTIVE then Some CONVERSATION_CLOSED
      else if ce_event_id e \<in> jr_seen_event_ids j then Some DUPLICATE_EVENT
      else if ce_participant_id e \<notin> set (cv_participant_ids (jr_conversation j)) then Some FOREIGN_PARTICIPANT
      else case dict_get cd_device_id (jr_devices j) (ce_device_id e) of
        None \<Rightarrow> Some FOREIGN_DEVICE
      | Some d \<Rightarrow>
          if ce_device_id e \<notin> set (cv_device_ids (jr_conversation j)) then Some FOREIGN_DEVICE
          else if cd_participant_id d \<noteq> ce_participant_id e then Some DEVICE_PARTICIPANT_MISMATCH
          else if ce_kind e \<noteq> payload_kind (ce_payload e) then Some KIND_MISMATCH
          else if ce_sequence e \<noteq> jr_next_sequence j then Some OUT_OF_ORDER
          else None)"

definition transcript_rejection :: "conversation_journal \<Rightarrow> bool \<Rightarrow> uuid \<Rightarrow> conversation_rejection option" where
  "transcript_rejection j is_final t =
     (if jr_cancelled_turn_id j = Some t then Some EVENT_AFTER_CANCELLATION
      else case jr_open_turn_id j of
        None \<Rightarrow> if is_final then Some FINAL_WITHOUT_PARTIAL else None
      | Some u \<Rightarrow> if t \<noteq> u then Some TURN_CLOSED else None)"

fun payload_rejection :: "conversation_journal \<Rightarrow> conversation_payload \<Rightarrow> conversation_rejection option" where
  "payload_rejection j (TranscriptPartial t x) = transcript_rejection j False t"
| "payload_rejection j (TranscriptFinal t x) = transcript_rejection j True t"
| "payload_rejection j (Resume t from_turn) =
     (if jr_cancelled_turn_id j \<noteq> Some from_turn then Some RESUME_WITHOUT_CANCELLATION else None)"
| "payload_rejection j p = None"

fun apply_payload_state :: "conversation_payload \<Rightarrow> conversation_journal \<Rightarrow> conversation_journal" where
  "apply_payload_state (TranscriptPartial t x) j = j\<lparr>jr_open_turn_id := Some t\<rparr>"
| "apply_payload_state (TranscriptFinal t x) j = j\<lparr>jr_open_turn_id := None\<rparr>"
| "apply_payload_state (Cancellation t r) j = j\<lparr>jr_open_turn_id := None, jr_cancelled_turn_id := Some t\<rparr>"
| "apply_payload_state (Resume t f) j = j\<lparr>jr_open_turn_id := Some t, jr_cancelled_turn_id := None\<rparr>"
| "apply_payload_state p j = j"

definition journal_reject :: "conversation_journal \<Rightarrow> conversation_rejection \<Rightarrow> conversation_acceptance" where
  "journal_reject j r = \<lparr>accepted = False, rejection = Some r, next_sequence = jr_next_sequence j\<rparr>"

definition accept :: "conversation_event \<Rightarrow> conversation_journal \<Rightarrow> conversation_acceptance \<times> conversation_journal" where
  "accept e j =
     (case envelope_rejection j e of
        Some r \<Rightarrow> (journal_reject j r, j)
      | None \<Rightarrow>
          (case payload_rejection j (ce_payload e) of
             Some r \<Rightarrow> (journal_reject j r, j)
           | None \<Rightarrow>
               let j1 = j\<lparr>jr_seen_event_ids := insert (ce_event_id e) (jr_seen_event_ids j),
                          jr_next_sequence := jr_next_sequence j + 1\<rparr>;
                   j2 = apply_payload_state (ce_payload e) j1
               in (\<lparr>accepted = True, rejection = None, next_sequence = jr_next_sequence j2\<rparr>, j2)))"

section \<open>Streams\<close>

text \<open>The events a journal accepts from a stream, and the journal afterwards.\<close>

fun journal_run :: "conversation_event list \<Rightarrow> conversation_journal \<Rightarrow> conversation_event list \<times> conversation_journal" where
  "journal_run [] j = ([], j)"
| "journal_run (e # es) j =
     (let (a, j1) = accept e j; (acc, j2) = journal_run es j1
      in (if accepted a then e # acc else acc, j2))"

text \<open>
  The specification of turns as a function of the accepted history alone: the turn that is open, and the
  turn whose cancellation is the latest.
\<close>

fun turn_step :: "uuid option \<times> uuid option \<Rightarrow> conversation_payload \<Rightarrow> uuid option \<times> uuid option" where
  "turn_step (opened, cancelled) (TranscriptPartial t x) = (Some t, cancelled)"
| "turn_step (opened, cancelled) (TranscriptFinal t x) = (None, cancelled)"
| "turn_step (opened, cancelled) (Cancellation t r) = (None, Some t)"
| "turn_step (opened, cancelled) (Resume t f) = (Some t, None)"
| "turn_step s p = s"

definition turns_after :: "conversation_event list \<Rightarrow> uuid option \<times> uuid option" where
  "turns_after es = foldl (\<lambda>s e. turn_step s (ce_payload e)) (None, None) es"

definition opens_turn :: "uuid \<Rightarrow> conversation_event \<Rightarrow> bool" where
  "opens_turn t e = (case ce_payload e of TranscriptPartial u x \<Rightarrow> u = t | Resume u f \<Rightarrow> u = t | _ \<Rightarrow> False)"

definition closes_turn :: "conversation_event \<Rightarrow> bool" where
  "closes_turn e = (case ce_payload e of TranscriptFinal u x \<Rightarrow> True | Cancellation u r \<Rightarrow> True | _ \<Rightarrow> False)"

definition lifts_cancellation :: "conversation_event \<Rightarrow> bool" where
  "lifts_cancellation e = (case ce_payload e of Cancellation u r \<Rightarrow> True | Resume u f \<Rightarrow> True | _ \<Rightarrow> False)"

definition transcript_of :: "uuid \<Rightarrow> conversation_event \<Rightarrow> bool" where
  "transcript_of t e = (case ce_payload e of TranscriptPartial u x \<Rightarrow> u = t | TranscriptFinal u x \<Rightarrow> u = t | _ \<Rightarrow> False)"

section \<open>Lemmas\<close>

lemma apply_payload_state_simps [simp]:
  "jr_conversation (apply_payload_state p j) = jr_conversation j"
  "jr_devices (apply_payload_state p j) = jr_devices j"
  "jr_next_sequence (apply_payload_state p j) = jr_next_sequence j"
  "jr_seen_event_ids (apply_payload_state p j) = jr_seen_event_ids j"
  by (cases p; simp)+

lemma apply_payload_state_turns:
  "(jr_open_turn_id (apply_payload_state p j), jr_cancelled_turn_id (apply_payload_state p j)) =
   turn_step (jr_open_turn_id j, jr_cancelled_turn_id j) p"
  by (cases p) simp_all

lemma accept_cases:
  obtains (rejects) r where "accept e j = (journal_reject j r, j)"
      and "envelope_rejection j e = Some r \<or> envelope_rejection j e = None \<and> payload_rejection j (ce_payload e) = Some r"
  | (accepts) j' where "accept e j = (\<lparr>accepted = True, rejection = None, next_sequence = jr_next_sequence j'\<rparr>, j')"
      and "envelope_rejection j e = None" and "payload_rejection j (ce_payload e) = None"
      and "jr_conversation j' = jr_conversation j" and "jr_devices j' = jr_devices j"
      and "jr_next_sequence j' = jr_next_sequence j + 1"
      and "jr_seen_event_ids j' = insert (ce_event_id e) (jr_seen_event_ids j)"
      and "(jr_open_turn_id j', jr_cancelled_turn_id j') =
           turn_step (jr_open_turn_id j, jr_cancelled_turn_id j) (ce_payload e)"
proof (cases "envelope_rejection j e")
  case (Some r)
  then show thesis by (intro rejects) (simp_all add: accept_def)
next
  case env: None
  show thesis
  proof (cases "payload_rejection j (ce_payload e)")
    case (Some r)
    with env show thesis by (intro rejects) (simp_all add: accept_def)
  next
    case None
    with env show thesis
      by (intro accepts [of "snd (accept e j)"]) (simp_all add: accept_def Let_def apply_payload_state_turns)
  qed
qed

lemma journal_reject_simps [simp]: "accepted (journal_reject j r) = False" "rejection (journal_reject j r) = Some r"
  by (simp_all add: journal_reject_def)

lemma envelope_accepts:
  assumes "envelope_rejection j e = None"
  shows "ce_conversation_id e = cv_conversation_id (jr_conversation j)" and "cv_state (jr_conversation j) = ACTIVE"
    and "ce_event_id e \<notin> jr_seen_event_ids j" and "ce_participant_id e \<in> set (cv_participant_ids (jr_conversation j))"
    and "ce_device_id e \<in> set (cv_device_ids (jr_conversation j))" and "ce_kind e = payload_kind (ce_payload e)"
    and "ce_sequence e = jr_next_sequence j"
    and "\<exists>d. dict_get cd_device_id (jr_devices j) (ce_device_id e) = Some d \<and> cd_participant_id d = ce_participant_id e"
  using assms by (auto simp: envelope_rejection_def split: if_splits option.splits)

text \<open>A run seen as its accepted events only: each is accepted where the run stands, the rest leave no trace.\<close>

lemma journal_run_cases:
  assumes "journal_run (e # es) j = (acc, j')"
  obtains (rejects) "\<not> accepted (fst (accept e j))" and "snd (accept e j) = j" and "journal_run es j = (acc, j')"
  | (accepts) j1 acc' where "acc = e # acc'" and "accepted (fst (accept e j))" and "snd (accept e j) = j1"
      and "journal_run es j1 = (acc', j')" and "envelope_rejection j e = None" and "payload_rejection j (ce_payload e) = None"
      and "jr_conversation j1 = jr_conversation j" and "jr_devices j1 = jr_devices j"
      and "jr_next_sequence j1 = jr_next_sequence j + 1"
      and "jr_seen_event_ids j1 = insert (ce_event_id e) (jr_seen_event_ids j)"
      and "(jr_open_turn_id j1, jr_cancelled_turn_id j1) =
           turn_step (jr_open_turn_id j, jr_cancelled_turn_id j) (ce_payload e)"
proof (cases rule: accept_cases [of e j])
  case (rejects r)
  with assms show thesis by (intro that(1)) (auto split: prod.splits)
next
  case (accepts j1)
  obtain acc' j2 where "journal_run es j1 = (acc', j2)" by fastforce
  with accepts assms show thesis by (intro that(2)) auto
qed

definition event_admitted :: "conversation \<Rightarrow> conversation_device list \<Rightarrow> conversation_event \<Rightarrow> bool" where
  "event_admitted c ds e \<longleftrightarrow>
     ce_conversation_id e = cv_conversation_id c \<and> cv_state c = ACTIVE
     \<and> ce_participant_id e \<in> set (cv_participant_ids c) \<and> ce_device_id e \<in> set (cv_device_ids c)
     \<and> (\<exists>d \<in> set ds. cd_device_id d = ce_device_id e \<and> cd_participant_id d = ce_participant_id e)
     \<and> ce_kind e = payload_kind (ce_payload e)"

lemma envelope_admitted:
  "envelope_rejection j e = None \<Longrightarrow> event_admitted (jr_conversation j) (jr_devices j) e"
  using envelope_accepts [of j e] dict_get_Some [of cd_device_id "jr_devices j" "ce_device_id e"]
  unfolding event_admitted_def by blast

lemma journal_run_history:
  "journal_run es j = (acc, j') \<Longrightarrow>
     map ce_sequence acc = map (\<lambda>i. jr_next_sequence j + int i) [0..<length acc]
     \<and> distinct (map ce_event_id acc) \<and> ce_event_id ` set acc \<inter> jr_seen_event_ids j = {}
     \<and> (\<forall>e \<in> set acc. event_admitted (jr_conversation j) (jr_devices j) e)
     \<and> journal_run acc j = (acc, j')
     \<and> (jr_open_turn_id j', jr_cancelled_turn_id j') =
         foldl (\<lambda>s e. turn_step s (ce_payload e)) (jr_open_turn_id j, jr_cancelled_turn_id j) acc"
proof (induction es arbitrary: j acc)
  case Nil
  then show ?case by simp
next
  case (Cons e es)
  from Cons.prems show ?case
  proof (cases rule: journal_run_cases)
    case rejects
    with Cons.IH show ?thesis by blast
  next
    case (accepts j1 acc')
    note IH = Cons.IH [OF accepts(4)]
    have "map ce_sequence acc = map (\<lambda>i. jr_next_sequence j + int i) [0..<length acc]"
      using IH accepts(1,9) envelope_accepts(7) [OF accepts(5)]
      by (simp add: upt_conv_Cons map_Suc_upt [symmetric] comp_def del: upt_Suc)
    moreover have "distinct (map ce_event_id acc) \<and> ce_event_id ` set acc \<inter> jr_seen_event_ids j = {}"
      using IH accepts(1,10) envelope_accepts(3) [OF accepts(5)] by auto
    moreover have "\<forall>e \<in> set acc. event_admitted (jr_conversation j) (jr_devices j) e"
      using IH accepts(1,7,8) envelope_admitted [OF accepts(5)] by auto
    moreover obtain a where "accept e j = (a, j1)" and "accepted a" using accepts(2,3) by (metis prod.collapse)
    then have "journal_run acc j = (acc, j')" using IH accepts(1) by simp
    ultimately show ?thesis using IH accepts(1,11) by simp
  qed
qed

lemma journal_run_append:
  "journal_run (xs @ ys) j =
     (let (acc1, j1) = journal_run xs j; (acc2, j2) = journal_run ys j1 in (acc1 @ acc2, j2))"
  by (induction xs arbitrary: j) (simp_all add: Let_def split: prod.splits)

text \<open>An accepted history, split at one of its events: the event was accepted on the turns of what came before.\<close>

lemma journal_run_split:
  assumes "journal_run es (new_journal c ds) = (pre @ e # post, j)"
  shows "\<exists>j0. payload_rejection j0 (ce_payload e) = None \<and> (jr_open_turn_id j0, jr_cancelled_turn_id j0) = turns_after pre"
proof -
  have run: "journal_run (pre @ e # post) (new_journal c ds) = (pre @ e # post, j)"
    using journal_run_history [OF assms] by blast
  obtain acc0 j0 where pre: "journal_run pre (new_journal c ds) = (acc0, j0)" by fastforce
  obtain acc1 j1 where rest: "journal_run (e # post) j0 = (acc1, j1)" by fastforce
  have shorter: "journal_run xs k = (ys, k') \<Longrightarrow> length ys \<le> length xs" for xs ys k k'
    by (induction xs arbitrary: k ys) (auto simp: Let_def split: prod.splits if_splits, fastforce+)
  from run pre rest have eq: "acc0 @ acc1 = pre @ e # post" by (simp add: journal_run_append)
  have "length acc0 \<le> length pre" "length acc1 \<le> length (e # post)"
    using shorter [OF pre] shorter [OF rest] by auto
  moreover have "length acc0 + length acc1 = length pre + length (e # post)" using eq by (metis length_append)
  ultimately have "length acc0 = length pre" by linarith
  with eq have acc: "acc0 = pre" "acc1 = e # post" by auto
  have "turns_after pre = (jr_open_turn_id j0, jr_cancelled_turn_id j0)"
    using journal_run_history [OF pre] acc(1) by (simp add: turns_after_def new_journal_def)
  moreover have "payload_rejection j0 (ce_payload e) = None"
  proof (cases rule: journal_run_cases [OF rest])
    case 1
    then show ?thesis using shorter acc(2) by fastforce
  qed
  ultimately show ?thesis by metis
qed

lemma turns_after_snoc: "turns_after (es @ [e]) = turn_step (turns_after es) (ce_payload e)"
  by (simp add: turns_after_def)

lemma open_turn_opened:
  "fst (turns_after es) = Some t \<Longrightarrow>
     \<exists>pre e mid. es = pre @ e # mid \<and> opens_turn t e \<and> (\<forall>x \<in> set mid. \<not> closes_turn x)"
proof (induction es rule: rev_induct)
  case Nil
  then show ?case by (simp add: turns_after_def)
next
  case (snoc x es)
  obtain a b where turns: "turns_after es = (a, b)" by fastforce
  show ?case
  proof (cases "opens_turn t x")
    case True
    then show ?thesis by (metis append_Nil2 empty_iff list.set(1))
  next
    case False
    with snoc.prems turns have "a = Some t \<and> \<not> closes_turn x"
      by (cases "ce_payload x") (auto simp: turns_after_snoc opens_turn_def closes_turn_def)
    with snoc.IH turns obtain pre e mid where "es = pre @ e # mid" "opens_turn t e" "\<forall>x \<in> set mid. \<not> closes_turn x"
      by auto
    with \<open>a = Some t \<and> \<not> closes_turn x\<close> show ?thesis
      by (intro exI [of _ pre] exI [of _ e] exI [of _ "mid @ [x]"]) auto
  qed
qed

lemma cancelled_turn_stays:
  "\<forall>x \<in> set mid. \<not> lifts_cancellation x \<Longrightarrow> ce_payload e = Cancellation t r
   \<Longrightarrow> snd (turns_after (pre @ e # mid)) = Some t"
proof (induction mid rule: rev_induct)
  case Nil
  obtain a b where "turns_after pre = (a, b)" by fastforce
  with Nil show ?case by (simp add: turns_after_snoc)
next
  case (snoc x mid)
  obtain a b where turns: "turns_after (pre @ e # mid) = (a, b)" by fastforce
  have "turns_after (pre @ e # mid @ [x]) = turn_step (a, b) (ce_payload x)"
    using turns_after_snoc [of "pre @ e # mid" x] turns by simp
  moreover have "b = Some t" using snoc turns by simp
  ultimately show ?case using snoc.prems
    by (cases "ce_payload x") (auto simp: lifts_cancellation_def)
qed

section \<open>Properties\<close>

abbreviation ex_conversation :: conversation where
  "ex_conversation \<equiv> \<lparr>cv_conversation_id = 7, cv_title = ''Day'', cv_participant_ids = [3], cv_device_ids = [2],
     cv_created_at = utc_datetime 0, cv_state = ACTIVE\<rparr>"

abbreviation ex_conversation_device :: conversation_device where
  "ex_conversation_device \<equiv> \<lparr>cd_device_id = 2, cd_participant_id = 3, cd_kind = IOS, cd_name = ''phone'',
     cd_created_at = utc_datetime 0\<rparr>"

abbreviation ex_event :: "uuid \<Rightarrow> int \<Rightarrow> conversation_payload \<Rightarrow> conversation_event" where
  "ex_event i n p \<equiv> \<lparr>ce_event_id = i, ce_conversation_id = 7, ce_participant_id = 3, ce_device_id = 2, ce_sequence = n,
     ce_occurred_at = utc_datetime 0, ce_kind = payload_kind p, ce_payload = p\<rparr>"

abbreviation ex_stream :: "conversation_event list" where
  "ex_stream \<equiv> [ex_event 11 1 (TranscriptPartial 5 ''mo''), ex_event 11 2 (TranscriptPartial 5 ''mov''),
     ex_event 12 2 (TranscriptFinal 5 ''move''), ex_event 13 3 (Cancellation 6 ''stop''), ex_event 14 4 (TranscriptPartial 6 ''late'')]"

lemma ex_stream_run:
  "\<exists>j. journal_run ex_stream (new_journal ex_conversation [ex_conversation_device]) =
     ([ex_event 11 1 (TranscriptPartial 5 ''mo''), ex_event 12 2 (TranscriptFinal 5 ''move''), ex_event 13 3 (Cancellation 6 ''stop'')], j)"
  by (simp add: new_journal_def accept_def envelope_rejection_def transcript_rejection_def journal_reject_def
      dict_by_def dict_get_def Let_def)

text \<open>
  Whatever stream of events a journal is offered, the events it accepts carry the sequence numbers
  1, 2, 3, .. in this order and pairwise distinct event ids, each belongs to the bound conversation, which is
  active, comes from a participant and a device of the conversation where the device is the participant's own,
  and says the kind of its payload; the rejected events leave no trace in the journal.
\<close>

theorem journal_accepts_in_order:
  assumes "journal_run es (new_journal c ds) = (acc, j)"
  shows "map ce_sequence acc = map (\<lambda>i. int i + 1) [0..<length acc] \<and> distinct (map ce_event_id acc)
    \<and> (\<forall>e \<in> set acc. event_admitted c ds e) \<and> journal_run acc (new_journal c ds) = (acc, j)"
proof -
  have "set (dict_by cd_device_id ds) \<subseteq> set ds" by (rule set_dict_by)
  then have "event_admitted c (dict_by cd_device_id ds) e \<Longrightarrow> event_admitted c ds e" for e
    unfolding event_admitted_def by blast
  with journal_run_history [OF assms] show ?thesis by (simp add: new_journal_def add.commute)
qed

theorem journal_accepts_in_order_witness:
  "\<exists>acc j. journal_run ex_stream (new_journal ex_conversation [ex_conversation_device]) = (acc, j) \<and> length acc = 3
     \<and> map ce_sequence acc = map (\<lambda>i. int i + 1) [0..<length acc] \<and> distinct (map ce_event_id acc)"
proof -
  obtain j where run: "journal_run ex_stream (new_journal ex_conversation [ex_conversation_device]) =
     ([ex_event 11 1 (TranscriptPartial 5 ''mo''), ex_event 12 2 (TranscriptFinal 5 ''move''), ex_event 13 3 (Cancellation 6 ''stop'')], j)"
    using ex_stream_run by blast
  from journal_accepts_in_order [OF run] run show ?thesis by auto
qed

text \<open>
  Turns follow the protocol.  An accepted final transcript of a turn comes after an accepted event that
  opened exactly this turn (a partial or a resume) with no final transcript and no cancellation accepted
  in between; and after an accepted cancellation no partial or final transcript of the cancelled turn is
  accepted until another cancellation or a resume is.
\<close>

theorem journal_turn_discipline:
  assumes "journal_run es (new_journal c ds) = (pre @ e # post, j)"
  shows "(\<forall>t x. ce_payload e = TranscriptFinal t x \<longrightarrow>
       (\<exists>before opener mid. pre = before @ opener # mid \<and> opens_turn t opener \<and> (\<forall>m \<in> set mid. \<not> closes_turn m)))
    \<and> (\<forall>before cancel mid t r. pre = before @ cancel # mid \<and> ce_payload cancel = Cancellation t r
         \<and> (\<forall>m \<in> set mid. \<not> lifts_cancellation m) \<longrightarrow> \<not> transcript_of t e)"
proof -
  obtain j0 where ok: "payload_rejection j0 (ce_payload e) = None"
    and turns: "turns_after pre = (jr_open_turn_id j0, jr_cancelled_turn_id j0)"
    using journal_run_split [OF assms] by metis
  have "fst (turns_after pre) = Some t" if "ce_payload e = TranscriptFinal t x" for t x
    using ok turns that by (simp add: transcript_rejection_def split: if_splits option.splits)
  moreover have "\<not> transcript_of t e" if "snd (turns_after pre) = Some t" for t
    using ok turns that
    by (cases "ce_payload e") (auto simp: transcript_of_def transcript_rejection_def split: if_splits)
  ultimately show ?thesis using open_turn_opened [of pre] cancelled_turn_stays by blast
qed

theorem journal_turn_discipline_witness:
  "\<exists>pre opener mid. [ex_event 11 1 (TranscriptPartial 5 ''mo'')] = pre @ opener # mid \<and> opens_turn 5 opener
     \<and> (\<forall>m \<in> set mid. \<not> closes_turn m)"
proof -
  obtain j where "journal_run ex_stream (new_journal ex_conversation [ex_conversation_device]) =
     ([ex_event 11 1 (TranscriptPartial 5 ''mo'')] @ ex_event 12 2 (TranscriptFinal 5 ''move'') # [ex_event 13 3 (Cancellation 6 ''stop'')], j)"
    using ex_stream_run by auto
  from journal_turn_discipline [OF this] show ?thesis by auto
qed

end
