(* ===== verification/Voice_Session.thy ===== *)
theory Voice_Session
  imports Voice_Tokens Conversation Transactions
begin

text \<open>
  \<open>voice/journal.py\<close>, \<open>voice/provider.py\<close>, \<open>voice/state.py\<close> and \<open>voice/session.py\<close>: the encrypted
  transcript table, the privacy-gated provider, the event emitter and the session state machine.  The
  state of the service is one record; an operation is an action, so what it did before an exception stays
  done.  The realtime provider is a parameter that answers from the calls made so far; every call to it is
  recorded.  The injected clock is a UTC clock, read once per operation.
\<close>

section \<open>Transcripts\<close>

record transcript_entry =
  te_session_id :: uuid
  te_turn_id :: uuid
  te_text :: string
  te_finalized_at :: datetime
  te_expires_at :: datetime

type_synonym transcript_table = "transcript_entry list"

text \<open>SQL compares the timestamps as text; \<open>turn_id\<close> is the primary key.\<close>

definition entry_for :: "transcript_table \<Rightarrow> uuid \<Rightarrow> transcript_entry option" where
  "entry_for rows turn = find (\<lambda>r. te_turn_id r = turn) rows"

definition append_final ::
  "datetime \<Rightarrow> uuid \<Rightarrow> uuid \<Rightarrow> string \<Rightarrow> (transcript_table, voice_error, transcript_entry) action" where
  "append_final now sid turn text rows =
     (case entry_for rows turn of
        Some r \<Rightarrow> (if te_text r \<noteq> text then Inl (VoiceOrderError ''conflicting final transcript'') else Inr r, rows)
      | None \<Rightarrow>
          if text = [] then (Inl VoiceValidationError, rows)
          else let r = \<lparr>te_session_id = sid, te_turn_id = turn, te_text = text, te_finalized_at = now,
                        te_expires_at = dt_add now TRANSCRIPT_RETENTION\<rparr>
               in (Inr r, rows @ [r]))"

definition entries :: "datetime \<Rightarrow> transcript_table \<Rightarrow> transcript_entry list" where
  "entries now rows =
     sort_key (\<lambda>r. (isoformat (te_finalized_at r), uuid_str (te_turn_id r)))
       (filter (\<lambda>r. isoformat now < isoformat (te_expires_at r)) rows)"

text \<open>\<open>text[:n]\<close> counts characters: the continuation bytes of UTF-8 go with their first byte.\<close>

fun take_chars :: "nat \<Rightarrow> string \<Rightarrow> string" where
  "take_chars n [] = []"
| "take_chars n (c # cs) =
     (if 128 \<le> (of_char c :: nat) \<and> (of_char c :: nat) < 192 then c # take_chars n cs
      else case n of 0 \<Rightarrow> [] | Suc m \<Rightarrow> c # take_chars m cs)"

definition latest_context :: "datetime \<Rightarrow> transcript_table \<Rightarrow> string list" where
  "latest_context now rows = (let es = entries now rows in
     map (\<lambda>e. take_chars 256 (te_text e)) (drop (length es - 2) es))"

definition purge_expired :: "datetime \<Rightarrow> transcript_table \<Rightarrow> nat \<times> transcript_table" where
  "purge_expired now rows =
     (let expired = \<lambda>r. isoformat (te_expires_at r) \<le> isoformat now
      in (length (filter expired rows), filter (\<lambda>r. \<not> expired r) rows))"

section \<open>The service state\<close>

datatype provider_call =
    StartCall provider_session_config
  | SendCall provider_handle string
  | CancelCall provider_handle
  | CloseCall provider_handle

record provider =
  pv_start :: "provider_call list \<Rightarrow> provider_session_config \<Rightarrow> provider_handle option"
  pv_available :: "provider_call list \<Rightarrow> provider_call \<Rightarrow> bool"

record session =
  ss_session_id :: uuid
  ss_request :: session_start_request
  ss_mode :: session_mode
  ss_provider_handle :: "provider_handle option"
  ss_disconnected_at :: "datetime option"
  ss_ended :: bool
  ss_last_client_event_id :: int
  ss_queued_tts :: string
  ss_action_progress :: "voice_event list"
  ss_events :: "voice_event list"
  ss_partial_turns :: "uuid set"
  ss_cancelled_turns :: "uuid set"
  ss_final_events :: "uuid \<Rightarrow> voice_event option"

definition new_session :: "uuid \<Rightarrow> session_start_request \<Rightarrow> session_mode \<Rightarrow> provider_handle option \<Rightarrow> session" where
  "new_session sid r m h =
     \<lparr>ss_session_id = sid, ss_request = r, ss_mode = m, ss_provider_handle = h, ss_disconnected_at = None,
      ss_ended = False, ss_last_client_event_id = 0, ss_queued_tts = [], ss_action_progress = [], ss_events = [],
      ss_partial_turns = {}, ss_cancelled_turns = {}, ss_final_events = Map.empty\<rparr>"

record voice_service =
  vs_tokens :: token_manager
  vs_sessions :: "session list"
  vs_journal :: conversation_journal
  vs_next_event_id :: nat
  vs_next_conversation_sequence :: int
  vs_logs :: "redacted_log_entry list"
  vs_transcripts :: transcript_table
  vs_consent :: consent_registry
  vs_devices :: registry
  vs_calls :: "provider_call list"

record voice_config =
  vd_crypto :: voice_crypto
  vd_device_env :: device_env
  vd_provider :: provider
  vd_endpoint :: relay_endpoint
  vd_project_id :: string
  vd_retention :: retention_verification

definition new_voice_service ::
  "string \<Rightarrow> conversation_journal \<Rightarrow> transcript_table \<Rightarrow> consent_registry \<Rightarrow> registry \<Rightarrow> voice_service" where
  "new_voice_service key journal transcripts consent devices =
     \<lparr>vs_tokens = new_token_manager key, vs_sessions = [], vs_journal = journal, vs_next_event_id = 1,
      vs_next_conversation_sequence = 1, vs_logs = [], vs_transcripts = transcripts, vs_consent = consent,
      vs_devices = devices, vs_calls = []\<rparr>"

type_synonym 'a voice = "(voice_service, voice_error, 'a) action"

definition get_session :: "voice_service \<Rightarrow> uuid \<Rightarrow> session option" where
  "get_session s sid = dict_get ss_session_id (vs_sessions s) sid"

text \<open>A mutation of the one session object that the dictionary holds under this identifier.\<close>

definition update_session :: "uuid \<Rightarrow> (session \<Rightarrow> session) \<Rightarrow> voice_service \<Rightarrow> voice_service" where
  "update_session sid f s =
     s\<lparr>vs_sessions := map (\<lambda>x. if ss_session_id x = sid then f x else x) (vs_sessions s)\<rparr>"

definition log_entry :: "string \<Rightarrow> uuid \<Rightarrow> string \<Rightarrow> nat \<Rightarrow> voice_service \<Rightarrow> voice_service" where
  "log_entry event sid device n s =
     s\<lparr>vs_logs := vs_logs s @ [\<lparr>lg_event = event, lg_session_id = sid, lg_device_id = device, lg_byte_count = n\<rparr>]\<rparr>"

section \<open>The provider\<close>

definition call_provider :: "voice_config \<Rightarrow> provider_call \<Rightarrow> unit voice" where
  "call_provider cfg c s =
     (if pv_available (vd_provider cfg) (vs_calls s) c then Inr () else Inl ProviderUnavailableError,
      s\<lparr>vs_calls := vs_calls s @ [c]\<rparr>)"

definition provider_start :: "voice_config \<Rightarrow> provider_session_config \<Rightarrow> provider_handle option voice" where
  "provider_start cfg config s =
     (Inr (pv_start (vd_provider cfg) (vs_calls s) config), s\<lparr>vs_calls := vs_calls s @ [StartCall config]\<rparr>)"

definition start_authorized :: "voice_config \<Rightarrow> datetime \<Rightarrow> voice_surface \<Rightarrow> voice_service \<Rightarrow> voice_error + bool" where
  "start_authorized cfg now surface s =
     ebind (is_granted (vs_consent s) surface now) (\<lambda>granted.
       if \<not> granted then Inr False else authorizes (vd_retention cfg) (vd_project_id cfg) now)"

definition start_provider_session ::
  "voice_config \<Rightarrow> datetime \<Rightarrow> voice_surface \<Rightarrow> (session_mode \<times> provider_handle option \<times> string) voice" where
  "start_provider_session cfg now surface =
     abind (aread (start_authorized cfg now surface)) (\<lambda>authorized.
       if \<not> authorized then areturn (LOCAL_TEXT, None, ''privacy_gate_closed'')
       else abind (aget (\<lambda>s. \<lparr>pc_project_id = vd_project_id cfg,
                               pc_transcript_context = latest_context now (vs_transcripts s)\<rparr>)) (\<lambda>config.
            abind (provider_start cfg config) (\<lambda>answer.
              case answer of
                None \<Rightarrow> areturn (LOCAL_TEXT, None, ''provider_unavailable'')
              | Some h \<Rightarrow> areturn (PROVIDER_AUDIO, Some h, ''provider_enabled''))))"

section \<open>The emitter\<close>

definition emit_voice :: "uuid \<Rightarrow> voice_event_kind \<Rightarrow> uuid \<Rightarrow> string \<Rightarrow> voice_event voice" where
  "emit_voice sid kind turn text s =
     (let e = \<lparr>ve_event_id = vs_next_event_id s, ve_kind = kind, ve_turn_id = turn, ve_text = text\<rparr>
      in (Inr e, update_session sid (\<lambda>x. x\<lparr>ss_events := ss_events x @ [e]\<rparr>)
                   (s\<lparr>vs_next_event_id := vs_next_event_id s + 1\<rparr>)))"

definition canonical_event ::
  "datetime \<Rightarrow> session_start_request \<Rightarrow> int \<Rightarrow> voice_event \<Rightarrow> conversation_payload \<Rightarrow> voice_error + conversation_event" where
  "canonical_event now r n e p =
     (case (uuid_of_int (ve_event_id e), uuid_parse (rq_device_id r)) of
        (Some i, Some d) \<Rightarrow>
          Inr \<lparr>ce_event_id = i, ce_conversation_id = rq_conversation_id r, ce_participant_id = rq_participant_id r,
               ce_device_id = d, ce_sequence = n, ce_occurred_at = now, ce_kind = payload_kind p, ce_payload = p\<rparr>
      | _ \<Rightarrow> Inl (VoiceValueError ''badly formed UUID''))"

definition emit_canonical ::
  "datetime \<Rightarrow> uuid \<Rightarrow> session_start_request \<Rightarrow> voice_event \<Rightarrow> conversation_payload \<Rightarrow> voice_event voice" where
  "emit_canonical now sid r e p s =
     (case canonical_event now r (vs_next_conversation_sequence s) e p of
        Inl err \<Rightarrow> (Inl err, s)
      | Inr canonical \<Rightarrow>
          let (a, j) = accept canonical (vs_journal s); s1 = s\<lparr>vs_journal := j\<rparr>
          in if \<not> accepted a
             then (Inl (VoiceOrderError (case rejection a of
                          None \<Rightarrow> ''conversation event rejected'' | Some x \<Rightarrow> rejection_value x)),
                   update_session sid (\<lambda>x. x\<lparr>ss_events := butlast (ss_events x)\<rparr>)
                     (s1\<lparr>vs_next_event_id := vs_next_event_id s1 - 1\<rparr>))
             else (Inr e, s1\<lparr>vs_next_conversation_sequence := vs_next_conversation_sequence s1 + 1\<rparr>))"

definition emit_partial :: "datetime \<Rightarrow> session \<Rightarrow> uuid \<Rightarrow> string \<Rightarrow> voice_event voice" where
  "emit_partial now x turn text =
     abind (emit_voice (ss_session_id x) VTRANSCRIPT_PARTIAL turn text) (\<lambda>e.
       emit_canonical now (ss_session_id x) (ss_request x) e (TranscriptPartial turn text))"

definition emit_final :: "datetime \<Rightarrow> session \<Rightarrow> uuid \<Rightarrow> string \<Rightarrow> voice_event voice" where
  "emit_final now x turn text =
     abind (emit_voice (ss_session_id x) VTRANSCRIPT_FINAL turn text) (\<lambda>e.
       emit_canonical now (ss_session_id x) (ss_request x) e (TranscriptFinal turn text))"

definition emit_cancellation :: "datetime \<Rightarrow> session \<Rightarrow> uuid \<Rightarrow> string \<Rightarrow> voice_event voice" where
  "emit_cancellation now x turn reason =
     abind (emit_voice (ss_session_id x) VCANCELLATION turn reason) (\<lambda>e.
       emit_canonical now (ss_session_id x) (ss_request x) e (Cancellation turn reason))"

definition emit_action_progress :: "session \<Rightarrow> uuid \<Rightarrow> string \<Rightarrow> voice_event voice" where
  "emit_action_progress x turn text =
     abind (emit_voice (ss_session_id x) VACTION_PROGRESS turn text) (\<lambda>e.
     abind (amodify (update_session (ss_session_id x) (\<lambda>y. y\<lparr>ss_action_progress := ss_action_progress y @ [e]\<rparr>))) (\<lambda>_.
       areturn e))"

section \<open>Sessions\<close>

definition session_for_token :: "voice_config \<Rightarrow> instant \<Rightarrow> string \<Rightarrow> voice_service \<Rightarrow> voice_error + session" where
  "session_for_token cfg now value s =
     ebind (verify_token (vd_crypto cfg) (vs_tokens s) value (utc_datetime now)) (\<lambda>token.
       case get_session s (st_session_id token) of None \<Rightarrow> Inl VoiceKeyError | Some x \<Rightarrow> Inr x)"

definition active_session :: "voice_config \<Rightarrow> instant \<Rightarrow> string \<Rightarrow> voice_service \<Rightarrow> voice_error + session" where
  "active_session cfg now value s =
     ebind (session_for_token cfg now value s) (\<lambda>x.
       if ss_ended x \<or> ss_disconnected_at x \<noteq> None then Inl (VoiceAccessError ''voice session is not connected'') else Inr x)"

definition close_provider :: "voice_config \<Rightarrow> session \<Rightarrow> unit voice" where
  "close_provider cfg x = (case ss_provider_handle x of None \<Rightarrow> areturn () | Some h \<Rightarrow> call_provider cfg (CloseCall h))"

definition window_passed :: "instant \<Rightarrow> session \<Rightarrow> bool" where
  "window_passed now x = (case ss_disconnected_at x of
       None \<Rightarrow> False | Some d \<Rightarrow> dt_lt (dt_add d RECONNECT_WINDOW) (utc_datetime now))"

fun expire_sessions :: "voice_config \<Rightarrow> instant \<Rightarrow> session list \<Rightarrow> unit voice" where
  "expire_sessions cfg now [] = areturn ()"
| "expire_sessions cfg now (x # xs) =
     abind (if window_passed now x
            then abind (close_provider cfg x) (\<lambda>_.
                   amodify (update_session (ss_session_id x)
                     (\<lambda>y. y\<lparr>ss_queued_tts := [], ss_action_progress := [], ss_ended := True\<rparr>)))
            else areturn ()) (\<lambda>_. expire_sessions cfg now xs)"

definition expire_disconnected_sessions :: "voice_config \<Rightarrow> instant \<Rightarrow> unit voice" where
  "expire_disconnected_sessions cfg now = abind (aget vs_sessions) (expire_sessions cfg now)"

definition verify_device :: "voice_config \<Rightarrow> string \<Rightarrow> string \<Rightarrow> voice_service \<Rightarrow> voice_error + device" where
  "verify_device cfg i fp s =
     (case verify_mtls_identity (vd_device_env cfg) (vs_devices s) i fp of Inl e \<Rightarrow> Inl (VoiceDeviceError e) | Inr d \<Rightarrow> Inr d)"

definition has_active_session :: "string \<Rightarrow> voice_service \<Rightarrow> bool" where
  "has_active_session i s = list_ex (\<lambda>x. rq_device_id (ss_request x) = i \<and> \<not> ss_ended x) (vs_sessions s)"

definition issue_for_session :: "voice_config \<Rightarrow> string \<Rightarrow> uuid \<Rightarrow> string \<Rightarrow> instant \<Rightarrow> session_token voice" where
  "issue_for_session cfg nonce sid i now s =
     (let (token, tm) = issue_token (vd_crypto cfg) nonce sid i (utc_datetime now) (vs_tokens s)
      in (Inr token, s\<lparr>vs_tokens := tm\<rparr>))"

definition start :: "voice_config \<Rightarrow> instant \<Rightarrow> uuid \<Rightarrow> string \<Rightarrow> session_start_request \<Rightarrow> session_start_result voice" where
  "start cfg now sid nonce r =
     abind (aread (verify_device cfg (rq_device_id r) (rq_public_key_fingerprint r))) (\<lambda>_.
     abind (expire_disconnected_sessions cfg now) (\<lambda>_.
     abind (aread (\<lambda>s. require (\<not> has_active_session (rq_device_id r) s)
                        (VoiceAccessError ''device already has an active voice session''))) (\<lambda>_.
     abind (start_provider_session cfg (utc_datetime now) (rq_surface r)) (\<lambda>(m, h, reason).
     abind (amodify (\<lambda>s. s\<lparr>vs_sessions := keyed_put ss_session_id (new_session sid r m h) (vs_sessions s)\<rparr>)) (\<lambda>_.
     abind (issue_for_session cfg nonce sid (rq_device_id r) now) (\<lambda>token.
     abind (amodify (log_entry ''voice_session_start'' sid (rq_device_id r) 0)) (\<lambda>_.
       areturn \<lparr>sr_token = token, sr_mode = m, sr_endpoint = vd_endpoint cfg, sr_reason = reason\<rparr>)))))))"

definition append_audio :: "voice_config \<Rightarrow> instant \<Rightarrow> string \<Rightarrow> audio_frame \<Rightarrow> bool voice" where
  "append_audio cfg now value fr =
     abind (aread (active_session cfg now value)) (\<lambda>x.
     abind (alift (require (ss_last_client_event_id x < fr_event_id fr)
                     (VoiceOrderError ''client event ids must increase monotonically''))) (\<lambda>_.
     abind (amodify (update_session (ss_session_id x) (\<lambda>y. y\<lparr>ss_last_client_event_id := fr_event_id fr\<rparr>))) (\<lambda>_.
       case ss_provider_handle x of
         None \<Rightarrow> areturn False
       | Some h \<Rightarrow>
           abind (call_provider cfg (SendCall h (fr_pcm fr))) (\<lambda>_.
           abind (amodify (log_entry ''voice_audio_forward'' (ss_session_id x) (rq_device_id (ss_request x)) (length (fr_pcm fr)))) (\<lambda>_.
             areturn True)))))"

definition accept_partial :: "voice_config \<Rightarrow> instant \<Rightarrow> string \<Rightarrow> uuid \<Rightarrow> string \<Rightarrow> voice_event voice" where
  "accept_partial cfg now value turn text =
     abind (aread (active_session cfg now value)) (\<lambda>x.
     abind (alift (require (turn \<notin> ss_cancelled_turns x \<and> ss_final_events x turn = None)
                     (VoiceOrderError ''partial received for a closed turn''))) (\<lambda>_.
     abind (emit_partial (utc_datetime now) x turn text) (\<lambda>e.
     abind (amodify (update_session (ss_session_id x) (\<lambda>y. y\<lparr>ss_partial_turns := insert turn (ss_partial_turns y)\<rparr>))) (\<lambda>_.
       areturn e))))"

definition journal_final :: "instant \<Rightarrow> uuid \<Rightarrow> uuid \<Rightarrow> string \<Rightarrow> transcript_entry voice" where
  "journal_final now sid turn text s =
     (let (r, rows) = append_final (utc_datetime now) sid turn text (vs_transcripts s) in (r, s\<lparr>vs_transcripts := rows\<rparr>))"

definition finalize :: "voice_config \<Rightarrow> instant \<Rightarrow> string \<Rightarrow> uuid \<Rightarrow> string \<Rightarrow> voice_event voice" where
  "finalize cfg now value turn text =
     abind (aread (active_session cfg now value)) (\<lambda>x.
       case ss_final_events x turn of
         Some e \<Rightarrow> if ve_text e \<noteq> text then araise (VoiceOrderError ''conflicting final transcript'') else areturn e
       | None \<Rightarrow>
           abind (alift (require (turn \<in> ss_partial_turns x) (VoiceOrderError ''final transcript requires a partial''))) (\<lambda>_.
           abind (emit_final (utc_datetime now) x turn text) (\<lambda>e.
           abind (journal_final now (ss_session_id x) turn text) (\<lambda>_.
           abind (amodify (update_session (ss_session_id x) (\<lambda>y. y\<lparr>ss_final_events := (ss_final_events y)(turn \<mapsto> e),
                     ss_partial_turns := ss_partial_turns y - {turn}, ss_queued_tts := []\<rparr>))) (\<lambda>_.
             areturn e)))))"

definition queue_tts :: "voice_config \<Rightarrow> instant \<Rightarrow> string \<Rightarrow> uuid \<Rightarrow> string \<Rightarrow> unit voice" where
  "queue_tts cfg now value turn pcm =
     abind (aread (active_session cfg now value)) (\<lambda>x.
       if turn \<notin> ss_cancelled_turns x
       then amodify (update_session (ss_session_id x) (\<lambda>y. y\<lparr>ss_queued_tts := ss_queued_tts y @ pcm\<rparr>))
       else areturn ())"

definition queue_action_progress :: "voice_config \<Rightarrow> instant \<Rightarrow> string \<Rightarrow> uuid \<Rightarrow> string \<Rightarrow> voice_event option voice" where
  "queue_action_progress cfg now value turn text =
     abind (aread (active_session cfg now value)) (\<lambda>x.
       if turn \<in> ss_cancelled_turns x then areturn None
       else abind (emit_action_progress x turn text) (\<lambda>e. areturn (Some e)))"

definition barge_in :: "voice_config \<Rightarrow> instant \<Rightarrow> string \<Rightarrow> uuid \<Rightarrow> voice_event voice" where
  "barge_in cfg now value turn =
     abind (aread (active_session cfg now value)) (\<lambda>x.
     abind (amodify (update_session (ss_session_id x) (\<lambda>y. y\<lparr>ss_cancelled_turns := insert turn (ss_cancelled_turns y),
               ss_partial_turns := ss_partial_turns y - {turn}, ss_queued_tts := [], ss_action_progress := []\<rparr>))) (\<lambda>_.
     abind (case ss_provider_handle x of None \<Rightarrow> areturn () | Some h \<Rightarrow> call_provider cfg (CancelCall h)) (\<lambda>_.
       emit_cancellation (utc_datetime now) x turn ''barge_in'')))"

definition disconnect :: "voice_config \<Rightarrow> instant \<Rightarrow> string \<Rightarrow> unit voice" where
  "disconnect cfg now value =
     abind (aread (active_session cfg now value)) (\<lambda>x.
       amodify (update_session (ss_session_id x) (\<lambda>y. y\<lparr>ss_disconnected_at := Some (utc_datetime now)\<rparr>)))"

definition replace_for_session :: "voice_config \<Rightarrow> string \<Rightarrow> string \<Rightarrow> instant \<Rightarrow> session_token voice" where
  "replace_for_session cfg nonce value now s =
     (case replace_token (vd_crypto cfg) nonce value (utc_datetime now) (vs_tokens s) of
        Inl e \<Rightarrow> (Inl e, s)
      | Inr (token, tm) \<Rightarrow> (Inr token, s\<lparr>vs_tokens := tm\<rparr>))"

definition resume ::
  "voice_config \<Rightarrow> instant \<Rightarrow> string \<Rightarrow> string \<Rightarrow> string \<Rightarrow> string \<Rightarrow> int \<Rightarrow> resume_result voice" where
  "resume cfg now nonce value i fp last_event_id =
     abind (aread (\<lambda>s. verify_for_resume (vd_crypto cfg) (vs_tokens s) value)) (\<lambda>old.
     abind (aread (\<lambda>s. case get_session s (st_session_id old) of None \<Rightarrow> Inl VoiceKeyError | Some x \<Rightarrow> Inr x)) (\<lambda>x.
     abind (aread (verify_device cfg i fp)) (\<lambda>_.
     abind (alift (require (i = st_device_id old \<and> ss_disconnected_at x \<noteq> None)
                     (VoiceAccessError ''voice reconnect identity mismatch''))) (\<lambda>_.
     abind (alift (require (\<not> window_passed now x) (VoiceAccessError ''voice reconnect window expired''))) (\<lambda>_.
     abind (replace_for_session cfg nonce value now) (\<lambda>token.
     abind (amodify (update_session (ss_session_id x) (\<lambda>y. y\<lparr>ss_disconnected_at := None\<rparr>))) (\<lambda>_.
       areturn \<lparr>rr_token = token, rr_replayed_events = filter (\<lambda>e. last_event_id < int (ve_event_id e)) (ss_events x)\<rparr>)))))))"

definition snapshot :: "voice_config \<Rightarrow> instant \<Rightarrow> string \<Rightarrow> session_snapshot voice" where
  "snapshot cfg now value =
     abind (aread (session_for_token cfg now value)) (\<lambda>x.
     abind (aget vs_next_event_id) (\<lambda>n.
       areturn \<lparr>sn_retained_audio_bytes = 0, sn_queued_tts_bytes = length (ss_queued_tts x),
                sn_queued_action_progress = length (ss_action_progress x), sn_next_event_id = n\<rparr>))"

definition end_session :: "voice_config \<Rightarrow> instant \<Rightarrow> string \<Rightarrow> unit voice" where
  "end_session cfg now value =
     abind (aread (session_for_token cfg now value)) (\<lambda>x.
     abind (amodify (update_session (ss_session_id x) (\<lambda>y. y\<lparr>ss_queued_tts := [], ss_action_progress := []\<rparr>))) (\<lambda>_.
     abind (close_provider cfg x) (\<lambda>_.
     abind (amodify (update_session (ss_session_id x) (\<lambda>y. y\<lparr>ss_ended := True\<rparr>))) (\<lambda>_.
       amodify (\<lambda>s. s\<lparr>vs_tokens := invalidate_token (vd_crypto cfg) value (vs_tokens s)\<rparr>)))))"

end
