(* ===== verification/Action_Logic.thy ===== *)
theory Action_Logic
  imports Transactions
begin

text \<open>
  Hoare triples for actions, with one postcondition for a value and one for an exception: the state an
  exception leaves behind is part of what an operation promises.  \<open>keeps I m\<close> says that the action keeps
  an invariant on both paths.
\<close>

named_theorems triple_rules \<open>syntax-directed rules of the action logic\<close>

definition triple ::
  "('s \<Rightarrow> bool) \<Rightarrow> ('s, 'e, 'a) action \<Rightarrow> ('a \<Rightarrow> 's \<Rightarrow> bool) \<Rightarrow> ('e \<Rightarrow> 's \<Rightarrow> bool) \<Rightarrow> bool" where
  "triple P m Q E \<longleftrightarrow> (\<forall>s. P s \<longrightarrow> (case m s of (Inl e, t) \<Rightarrow> E e t | (Inr x, t) \<Rightarrow> Q x t))"

abbreviation keeps :: "('s \<Rightarrow> bool) \<Rightarrow> ('s, 'e, 'a) action \<Rightarrow> bool" where
  "keeps I m \<equiv> triple I m (\<lambda>_. I) (\<lambda>_. I)"

lemma tripleI:
  assumes "\<And>s x t. P s \<Longrightarrow> m s = (Inr x, t) \<Longrightarrow> Q x t" and "\<And>s e t. P s \<Longrightarrow> m s = (Inl e, t) \<Longrightarrow> E e t"
  shows "triple P m Q E"
  unfolding triple_def using assms by (auto split: prod.splits sum.splits)

lemma triple_value: "triple P m Q E \<Longrightarrow> P s \<Longrightarrow> m s = (Inr x, t) \<Longrightarrow> Q x t"
  unfolding triple_def by fastforce

lemma triple_error: "triple P m Q E \<Longrightarrow> P s \<Longrightarrow> m s = (Inl e, t) \<Longrightarrow> E e t"
  unfolding triple_def by fastforce

lemma triple_abind [triple_rules]:
  assumes "triple P m R E" and "\<And>x. triple (R x) (f x) Q E"
  shows "triple P (abind m f) Q E"
proof (rule tripleI)
  fix s y t assume "P s" and "abind m f s = (Inr y, t)"
  then obtain x u where "m s = (Inr x, u)" and f: "f x u = (Inr y, t)" by (auto simp: abind_Inr_iff)
  with \<open>P s\<close> have "R x u" using triple_value [OF assms(1)] by blast
  then show "Q y t" using f triple_value [OF assms(2)] by blast
next
  fix s e t assume P: "P s" and eq: "abind m f s = (Inl e, t)"
  obtain r u where m: "m s = (r, u)" by fastforce
  show "E e t"
  proof (cases r)
    case (Inl d)
    with m eq P show ?thesis using triple_error [OF assms(1)] by auto
  next
    case (Inr x)
    with m eq P show ?thesis using triple_value [OF assms(1)] triple_error [OF assms(2)] by fastforce
  qed
qed

lemma triple_areturn [triple_rules]: "(\<And>s. P s \<Longrightarrow> Q x s) \<Longrightarrow> triple P (areturn x) Q E"
  by (auto simp: triple_def)

lemma triple_araise [triple_rules]: "(\<And>s. P s \<Longrightarrow> E e s) \<Longrightarrow> triple P (araise e) Q E"
  by (auto simp: triple_def)

lemma triple_amodify [triple_rules]: "(\<And>s. P s \<Longrightarrow> Q () (f s)) \<Longrightarrow> triple P (amodify f) Q E"
  by (auto simp: triple_def)

lemma triple_aget [triple_rules]: "(\<And>s. P s \<Longrightarrow> Q (f s) s) \<Longrightarrow> triple P (aget f) Q E"
  by (auto simp: triple_def)

lemma triple_aread [triple_rules]:
  "(\<And>s x. P s \<Longrightarrow> f s = Inr x \<Longrightarrow> Q x s) \<Longrightarrow> (\<And>s e. P s \<Longrightarrow> f s = Inl e \<Longrightarrow> E e s) \<Longrightarrow> triple P (aread f) Q E"
  by (auto simp: triple_def split: sum.splits)

lemma triple_alift [triple_rules]:
  "(\<And>s x. P s \<Longrightarrow> r = Inr x \<Longrightarrow> Q x s) \<Longrightarrow> (\<And>s e. P s \<Longrightarrow> r = Inl e \<Longrightarrow> E e s) \<Longrightarrow> triple P (alift r) Q E"
  by (auto simp: triple_def split: sum.splits)

lemma triple_weaken:
  assumes "triple P' m Q' E'" and "\<And>s. P s \<Longrightarrow> P' s" and "\<And>x s. Q' x s \<Longrightarrow> Q x s" and "\<And>e s. E' e s \<Longrightarrow> E e s"
  shows "triple P m Q E"
  using assms unfolding triple_def by (fastforce split: prod.splits sum.splits)

lemma triple_conj:
  "triple P m Q E \<Longrightarrow> triple P' m Q' E' \<Longrightarrow>
   triple (\<lambda>s. P s \<and> P' s) m (\<lambda>x s. Q x s \<and> Q' x s) (\<lambda>e s. E e s \<and> E' e s)"
  unfolding triple_def by (fastforce split: prod.splits sum.splits)

lemma triple_pure: "(b \<Longrightarrow> triple P m Q E) \<Longrightarrow> triple (\<lambda>s. P s \<and> b) m Q E"
  by (cases b) (simp_all add: triple_def)

text \<open>Reading a value whose facts do not depend on later states.\<close>

lemma keeps_read:
  assumes "\<And>s x. I s \<Longrightarrow> f s = Inr x \<Longrightarrow> B x" and "\<And>x. B x \<Longrightarrow> keeps I (g x)"
  shows "keeps I (abind (aread f) g)"
  by (rule triple_abind [where R = "\<lambda>x s. I s \<and> B x"])
    (auto intro!: triple_aread triple_pure assms)

lemma triple_if [triple_rules]:
  "(b \<Longrightarrow> triple P m Q E) \<Longrightarrow> (\<not> b \<Longrightarrow> triple P n Q E) \<Longrightarrow> triple P (if b then m else n) Q E"
  by simp

lemma triple_option [triple_rules]:
  "(v = None \<Longrightarrow> triple P m Q E) \<Longrightarrow> (\<And>y. v = Some y \<Longrightarrow> triple P (n y) Q E)
   \<Longrightarrow> triple P (case v of None \<Rightarrow> m | Some y \<Rightarrow> n y) Q E"
  by (simp split: option.split)

lemma triple_prod3 [triple_rules]:
  "(\<And>a b c. v = (a, b, c) \<Longrightarrow> triple P (m a b c) Q E) \<Longrightarrow> triple P (case v of (a, b, c) \<Rightarrow> m a b c) Q E"
  by (simp split: prod.split)

lemma keeps_snd: "triple P m (\<lambda>_. I) (\<lambda>_. I) \<Longrightarrow> P s \<Longrightarrow> I (snd (m s))"
  unfolding triple_def by (fastforce split: prod.splits sum.splits)

lemma keepsI: "(\<And>s. I s \<Longrightarrow> I (snd (m s))) \<Longrightarrow> keeps I m"
  unfolding triple_def by (fastforce split: prod.splits sum.splits)

text \<open>Invariants: the same rules with the invariant in every place.\<close>

named_theorems keeps_rules \<open>syntax-directed rules for invariants of actions\<close>

lemma keeps_abind [keeps_rules]: "keeps I m \<Longrightarrow> (\<And>x. keeps I (f x)) \<Longrightarrow> keeps I (abind m f)"
  by (rule triple_abind)

lemma keeps_pure [keeps_rules]:
  "keeps I (areturn x)" "keeps I (araise e)" "keeps I (aget g)" "keeps I (aread f)" "keeps I (alift r)"
  by (simp_all add: triple_def split: sum.split)

lemma keeps_amodify [keeps_rules]: "(\<And>s. I s \<Longrightarrow> I (f s)) \<Longrightarrow> keeps I (amodify f)"
  by (simp add: triple_def)

lemmas keeps_branch [keeps_rules] = triple_if [where P = I and Q = "\<lambda>_. I" and E = "\<lambda>_. I" for I]
  triple_option [where P = I and Q = "\<lambda>_. I" and E = "\<lambda>_. I" for I]

end
