(* ===== verification/Voice_Run.thy ===== *)
theory Voice_Run
  imports Voice_Session Action_Logic
begin

text \<open>
  The life of a voice service: every public operation of \<open>VoiceSessionService\<close>, and what the owner does to
  the boundaries it shares (consent, transcript purge, device registry), as one labelled step.  The lemmas
  show the invariants of the state machine for every operation, on the exception paths too.
\<close>

datatype voice_op =
    Start uuid string session_start_request
  | AppendAudio string audio_frame
  | AcceptPartial string uuid string
  | Finalize string uuid string
  | QueueTts string uuid string
  | QueueActionProgress string uuid string
  | BargeIn string uuid
  | Disconnect string
  | ResumeSession string string string string int
  | EndSession string
  | GrantConsent voice_surface datetime
  | WithdrawConsent voice_surface datetime
  | PurgeTranscripts
  | EnrollDevice string string string "string option"
  | RevokeDevice string string

definition ignore :: "'a voice \<Rightarrow> unit voice" where
  "ignore m = abind m (\<lambda>_. areturn ())"

definition device_op :: "(registry \<Rightarrow> device_error + device \<times> registry) \<Rightarrow> unit voice" where
  "device_op f s = (case f (vs_devices s) of
       Inl e \<Rightarrow> (Inl (VoiceDeviceError e), s)
     | Inr (d, reg) \<Rightarrow> (Inr (), s\<lparr>vs_devices := reg\<rparr>))"

fun voice_exec :: "voice_config \<Rightarrow> instant \<Rightarrow> voice_op \<Rightarrow> unit voice" where
  "voice_exec cfg now (Start sid nonce r) = ignore (start cfg now sid nonce r)"
| "voice_exec cfg now (AppendAudio v fr) = ignore (append_audio cfg now v fr)"
| "voice_exec cfg now (AcceptPartial v turn text) = ignore (accept_partial cfg now v turn text)"
| "voice_exec cfg now (Finalize v turn text) = ignore (finalize cfg now v turn text)"
| "voice_exec cfg now (QueueTts v turn pcm) = queue_tts cfg now v turn pcm"
| "voice_exec cfg now (QueueActionProgress v turn text) = ignore (queue_action_progress cfg now v turn text)"
| "voice_exec cfg now (BargeIn v turn) = ignore (barge_in cfg now v turn)"
| "voice_exec cfg now (Disconnect v) = disconnect cfg now v"
| "voice_exec cfg now (ResumeSession nonce v i fp n) = ignore (resume cfg now nonce v i fp n)"
| "voice_exec cfg now (EndSession v) = end_session cfg now v"
| "voice_exec cfg now (GrantConsent f at) = amodify (\<lambda>s. s\<lparr>vs_consent := grant f at (vs_consent s)\<rparr>)"
| "voice_exec cfg now (WithdrawConsent f at) = amodify (\<lambda>s. s\<lparr>vs_consent := withdraw f at (vs_consent s)\<rparr>)"
| "voice_exec cfg now PurgeTranscripts =
     amodify (\<lambda>s. s\<lparr>vs_transcripts := snd (purge_expired (utc_datetime now) (vs_transcripts s))\<rparr>)"
| "voice_exec cfg now (EnrollDevice i fp actor key) =
     device_op (\<lambda>reg. enroll (vd_device_env cfg) (utc_datetime now) reg i fp actor key)"
| "voice_exec cfg now (RevokeDevice i actor) =
     device_op (\<lambda>reg. revoke (vd_device_env cfg) (utc_datetime now) reg i actor)"

fun voice_run :: "voice_config \<Rightarrow> (instant \<times> voice_op) list \<Rightarrow> voice_service \<Rightarrow> voice_service" where
  "voice_run cfg [] s = s"
| "voice_run cfg ((now, x) # xs) s = voice_run cfg xs (snd (voice_exec cfg now x s))"

lemma voice_run_keeps:
  assumes "\<And>now x. keeps I (voice_exec cfg now x)"
  shows "I s \<Longrightarrow> I (voice_run cfg ops s)"
proof (induction ops arbitrary: s)
  case (Cons a ops)
  obtain now x where a: "a = (now, x)" by fastforce
  from keeps_snd [OF assms Cons.prems] have "I (snd (voice_exec cfg now x s))" .
  from Cons.IH [OF this] show ?case by (simp add: a)
qed simp

section \<open>Emission\<close>

text \<open>The three canonical emitters are one: append the event, then offer it to the journal.\<close>

definition emit :: "datetime \<Rightarrow> session \<Rightarrow> voice_event_kind \<Rightarrow> uuid \<Rightarrow> string \<Rightarrow> conversation_payload \<Rightarrow> voice_event voice" where
  "emit now x kind turn text p =
     abind (emit_voice (ss_session_id x) kind turn text) (\<lambda>e. emit_canonical now (ss_session_id x) (ss_request x) e p)"

lemma emitters:
  "emit_partial now x turn text = emit now x VTRANSCRIPT_PARTIAL turn text (TranscriptPartial turn text)"
  "emit_final now x turn text = emit now x VTRANSCRIPT_FINAL turn text (TranscriptFinal turn text)"
  "emit_cancellation now x turn text = emit now x VCANCELLATION turn text (Cancellation turn text)"
  by (simp_all add: emit_def emit_partial_def emit_final_def emit_cancellation_def)

definition emitted :: "uuid \<Rightarrow> voice_event \<Rightarrow> voice_service \<Rightarrow> voice_service" where
  "emitted sid e s = update_session sid (\<lambda>x. x\<lparr>ss_events := ss_events x @ [e]\<rparr>) (s\<lparr>vs_next_event_id := vs_next_event_id s + 1\<rparr>)"

lemma emit_voice_eq:
  "emit_voice sid kind turn text s =
     (let e = \<lparr>ve_event_id = vs_next_event_id s, ve_kind = kind, ve_turn_id = turn, ve_text = text\<rparr> in (Inr e, emitted sid e s))"
  by (simp add: emit_voice_def emitted_def Let_def)

lemma update_session_simps [simp]:
  "vs_tokens (update_session sid f s) = vs_tokens s"
  "vs_journal (update_session sid f s) = vs_journal s"
  "vs_next_event_id (update_session sid f s) = vs_next_event_id s"
  "vs_next_conversation_sequence (update_session sid f s) = vs_next_conversation_sequence s"
  "vs_transcripts (update_session sid f s) = vs_transcripts s"
  "vs_consent (update_session sid f s) = vs_consent s"
  "vs_devices (update_session sid f s) = vs_devices s"
  "vs_calls (update_session sid f s) = vs_calls s"
  "vs_sessions (update_session sid f s) = map (\<lambda>x. if ss_session_id x = sid then f x else x) (vs_sessions s)"
  by (simp_all add: update_session_def)

lemma emitted_simps [simp]:
  "vs_tokens (emitted sid e s) = vs_tokens s"
  "vs_journal (emitted sid e s) = vs_journal s"
  "vs_next_event_id (emitted sid e s) = vs_next_event_id s + 1"
  "vs_next_conversation_sequence (emitted sid e s) = vs_next_conversation_sequence s"
  "vs_transcripts (emitted sid e s) = vs_transcripts s"
  "vs_consent (emitted sid e s) = vs_consent s"
  "vs_devices (emitted sid e s) = vs_devices s"
  "vs_calls (emitted sid e s) = vs_calls s"
  by (simp_all add: emitted_def)

lemma undo_emitted:
  "update_session sid (\<lambda>x. x\<lparr>ss_events := butlast (ss_events x)\<rparr>)
     ((emitted sid e s)\<lparr>vs_journal := vs_journal s, vs_next_event_id := vs_next_event_id s\<rparr>) = s"
  by (simp add: emitted_def update_session_def comp_def if_distrib cong: if_cong)

text \<open>
  The outcomes of an emission.  A rejection by the journal leaves the service exactly as it was; an event
  that cannot be addressed (an identifier that is no UUID) stays in the replay buffer.
\<close>

lemma emit_cases:
  fixes now x kind turn body p s
  defines "e \<equiv> \<lparr>ve_event_id = vs_next_event_id s, ve_kind = kind, ve_turn_id = turn, ve_text = body\<rparr>"
  obtains (malformed) reason where "emit now x kind turn body p s = (Inl (VoiceValueError reason), emitted (ss_session_id x) e s)"
  | (rejected) c r where "canonical_event now (ss_request x) (vs_next_conversation_sequence s) e p = Inr c"
      and "accept c (vs_journal s) = (journal_reject (vs_journal s) r, vs_journal s)"
      and "envelope_rejection (vs_journal s) c = Some r \<or>
           envelope_rejection (vs_journal s) c = None \<and> payload_rejection (vs_journal s) p = Some r"
      and "emit now x kind turn body p s = (Inl (VoiceOrderError (rejection_value r)), s)"
  | (accepted) c a j where "canonical_event now (ss_request x) (vs_next_conversation_sequence s) e p = Inr c"
      and "accept c (vs_journal s) = (a, j)" and "jr_next_sequence j = jr_next_sequence (vs_journal s) + 1"
      and "jr_seen_event_ids j = insert (vs_next_event_id s) (jr_seen_event_ids (vs_journal s))"
      and "emit now x kind turn body p s =
        (Inr e, (emitted (ss_session_id x) e s)\<lparr>vs_journal := j,
                  vs_next_conversation_sequence := vs_next_conversation_sequence s + 1\<rparr>)"
proof (cases "canonical_event now (ss_request x) (vs_next_conversation_sequence s) e p")
  case (Inl err)
  then obtain reason where "err = VoiceValueError reason"
    by (auto simp: canonical_event_def split: option.splits)
  with Inl show thesis
    by (intro malformed [of reason]) (simp add: emit_def emit_voice_eq Let_def e_def [symmetric] emit_canonical_def)
next
  case (Inr c)
  then have c: "ce_event_id c = vs_next_event_id s \<and> ce_payload c = p"
    by (auto simp: canonical_event_def e_def uuid_of_int_def split: option.splits if_splits)
  show thesis
  proof (cases rule: accept_cases [of c "vs_journal s"])
    case (rejects r)
    with Inr c undo_emitted [where sid = "ss_session_id x" and e = e and s = s] show thesis
      by (intro rejected [of c r])
        (simp_all add: emit_def emit_voice_eq Let_def e_def [symmetric] emit_canonical_def)
  next
    case (accepts j)
    with Inr c show thesis
      by (intro accepted [of c _ j]) (simp_all add: emit_def emit_voice_eq Let_def e_def [symmetric] emit_canonical_def)
  qed
qed

end
