(* ===== verification/Voice_Invariants.thy ===== *)
theory Voice_Invariants
  imports Voice_Run
begin

text \<open>
  The invariants of the voice state machine: one live session per device, strictly increasing event
  identifiers, and an emitter in step with the conversation journal.  Every operation is \<open>safe\<close>: it keeps the
  invariants whether it returns or raises, and never raises for an event out of order or seen before.
\<close>

definition sessions_ok :: "session list \<Rightarrow> bool" where
  "sessions_ok xs \<longleftrightarrow> distinct (map ss_session_id xs)
     \<and> (\<forall>x \<in> set xs. \<forall>y \<in> set xs. \<not> ss_ended x \<and> \<not> ss_ended y
          \<and> rq_device_id (ss_request x) = rq_device_id (ss_request y) \<longrightarrow> ss_session_id x = ss_session_id y)"

definition event_ids :: "session \<Rightarrow> nat list" where
  "event_ids x = map ve_event_id (ss_events x)"

definition events_ok :: "nat \<Rightarrow> session list \<Rightarrow> bool" where
  "events_ok n xs \<longleftrightarrow> 1 \<le> n
     \<and> (\<forall>x \<in> set xs. sorted_wrt (<) (event_ids x) \<and> set (event_ids x) \<subseteq> {1..<n})
     \<and> (\<forall>x \<in> set xs. \<forall>y \<in> set xs. ss_session_id x \<noteq> ss_session_id y \<longrightarrow> set (event_ids x) \<inter> set (event_ids y) = {})"

definition in_step :: "voice_service \<Rightarrow> bool" where
  "in_step s \<longleftrightarrow> vs_next_conversation_sequence s = jr_next_sequence (vs_journal s)
     \<and> jr_seen_event_ids (vs_journal s) \<subseteq> {..<vs_next_event_id s}"

definition voice_inv :: "voice_service \<Rightarrow> bool" where
  "voice_inv s \<longleftrightarrow> sessions_ok (vs_sessions s) \<and> events_ok (vs_next_event_id s) (vs_sessions s) \<and> in_step s"

definition orderly :: "voice_error \<Rightarrow> bool" where
  "orderly e \<longleftrightarrow> e \<noteq> VoiceOrderError (rejection_value OUT_OF_ORDER) \<and> e \<noteq> VoiceOrderError (rejection_value DUPLICATE_EVENT)"

abbreviation safe :: "'a voice \<Rightarrow> bool" where
  "safe m \<equiv> triple voice_inv m (\<lambda>_. voice_inv) (\<lambda>e s. voice_inv s \<and> orderly e)"

lemma voice_inv_new: "voice_inv (new_voice_service key (new_journal c ds) rows consent reg)"
  by (simp add: voice_inv_def new_voice_service_def new_journal_def sessions_ok_def events_ok_def in_step_def)

lemma voice_inv_ignores [simp]:
  "voice_inv (s\<lparr>vs_tokens := a\<rparr>) = voice_inv s"
  "voice_inv (s\<lparr>vs_logs := b\<rparr>) = voice_inv s"
  "voice_inv (s\<lparr>vs_transcripts := c\<rparr>) = voice_inv s"
  "voice_inv (s\<lparr>vs_consent := d\<rparr>) = voice_inv s"
  "voice_inv (s\<lparr>vs_devices := e\<rparr>) = voice_inv s"
  "voice_inv (s\<lparr>vs_calls := f\<rparr>) = voice_inv s"
  "voice_inv (log_entry event sid i n s) = voice_inv s"
  by (simp_all add: voice_inv_def in_step_def log_entry_def)

text \<open>A benign mutation keeps the identity and the events of a session and never revives it.\<close>

definition benign :: "(session \<Rightarrow> session) \<Rightarrow> bool" where
  "benign f \<longleftrightarrow> (\<forall>y. ss_session_id (f y) = ss_session_id y \<and> ss_request (f y) = ss_request y
     \<and> ss_events (f y) = ss_events y \<and> (ss_ended y \<longrightarrow> ss_ended (f y)))"

lemma sessions_ok_map:
  assumes "sessions_ok xs" and "\<And>y. ss_session_id (g y) = ss_session_id y" and "\<And>y. ss_request (g y) = ss_request y"
    and "\<And>y. ss_ended y \<Longrightarrow> ss_ended (g y)"
  shows "sessions_ok (map g xs)"
proof -
  have "map ss_session_id (map g xs) = map ss_session_id xs" using assms(2) by simp
  moreover have "ss_session_id (g x) = ss_session_id (g y)"
    if "x \<in> set xs" "y \<in> set xs" "\<not> ss_ended (g x)" "\<not> ss_ended (g y)"
      "rq_device_id (ss_request (g x)) = rq_device_id (ss_request (g y))" for x y
  proof -
    have "\<not> ss_ended x" "\<not> ss_ended y" using that(3,4) assms(4) by blast+
    moreover have "rq_device_id (ss_request x) = rq_device_id (ss_request y)" using that(5) assms(3) by simp
    ultimately have "ss_session_id x = ss_session_id y"
      using that(1,2) assms(1) unfolding sessions_ok_def by blast
    then show ?thesis by (simp add: assms(2))
  qed
  moreover have "distinct (map ss_session_id xs)" using assms(1) by (simp add: sessions_ok_def)
  ultimately show ?thesis unfolding sessions_ok_def list.set_map ball_simps by metis
qed

lemma events_ok_map:
  assumes "1 \<le> n" and "\<And>y. ss_session_id (g y) = ss_session_id y"
    and "\<And>x. x \<in> set xs \<Longrightarrow> sorted_wrt (<) (event_ids (g x)) \<and> set (event_ids (g x)) \<subseteq> {1..<n}"
    and "\<And>x y. x \<in> set xs \<Longrightarrow> y \<in> set xs \<Longrightarrow> ss_session_id x \<noteq> ss_session_id y
         \<Longrightarrow> set (event_ids (g x)) \<inter> set (event_ids (g y)) = {}"
  shows "events_ok n (map g xs)"
  using assms(1,3,4) by (simp add: events_ok_def assms(2))

lemma events_okD:
  assumes "events_ok n xs" and "x \<in> set xs"
  shows "sorted_wrt (<) (event_ids x)" and "set (event_ids x) \<subseteq> {1..<n}"
    and "y \<in> set xs \<Longrightarrow> ss_session_id x \<noteq> ss_session_id y \<Longrightarrow> set (event_ids x) \<inter> set (event_ids y) = {}"
  using assms by (simp_all add: events_ok_def)

lemma voice_inv_benign:
  assumes "voice_inv s" and "benign f"
  shows "voice_inv (update_session sid f s)"
proof -
  define g where "g = (\<lambda>x. if ss_session_id x = sid then f x else x)"
  have g: "ss_session_id (g y) = ss_session_id y" "ss_request (g y) = ss_request y"
    "event_ids (g y) = event_ids y" "ss_ended y \<Longrightarrow> ss_ended (g y)" for y
    using assms(2) by (simp_all add: benign_def event_ids_def g_def)
  have ev: "events_ok (vs_next_event_id s) (vs_sessions s)" using assms(1) by (simp add: voice_inv_def)
  have "sessions_ok (map g (vs_sessions s))"
    using assms(1) g(1,2,4) by (intro sessions_ok_map) (simp_all add: voice_inv_def)
  moreover have "events_ok (vs_next_event_id s) (map g (vs_sessions s))"
    using ev events_okD [OF ev] by (intro events_ok_map) (simp_all add: g events_ok_def)
  ultimately show ?thesis using assms(1) by (simp add: voice_inv_def in_step_def g_def)
qed

lemma events_ok_emitted:
  assumes ev: "events_ok n xs" and "ve_event_id e = n"
  shows "events_ok (n + 1) (map (\<lambda>x. if ss_session_id x = sid then x\<lparr>ss_events := ss_events x @ [e]\<rparr> else x) xs)"
proof -
  define g :: "session \<Rightarrow> session"
    where "g = (\<lambda>x. if ss_session_id x = sid then x\<lparr>ss_events := ss_events x @ [e]\<rparr> else x)"
  have g: "ss_session_id (g x) = ss_session_id x"
    "event_ids (g x) = (if ss_session_id x = sid then event_ids x @ [n] else event_ids x)" for x
    by (simp_all add: event_ids_def assms(2) g_def)
  have n: "1 \<le> n" using ev by (simp add: events_ok_def)
  have old: "\<forall>i \<in> set (event_ids x). 1 \<le> i \<and> i < n" if "x \<in> set xs" for x
    using events_okD(2) [OF ev that] by auto
  have "events_ok (n + 1) (map g xs)"
  proof (rule events_ok_map)
    fix x assume x: "x \<in> set xs"
    show "sorted_wrt (<) (event_ids (g x)) \<and> set (event_ids (g x)) \<subseteq> {1..<n + 1}"
      using events_okD(1) [OF ev x] old [OF x] n by (auto simp: g(2) sorted_wrt_append)
  next
    fix x y assume xy: "x \<in> set xs" "y \<in> set xs" "ss_session_id x \<noteq> ss_session_id y"
    have "n \<notin> set (event_ids x)" and "n \<notin> set (event_ids y)" using old xy(1,2) by blast+
    then show "set (event_ids (g x)) \<inter> set (event_ids (g y)) = {}"
      using events_okD(3) [OF ev xy] xy(3) by (auto simp: g(2))
  qed (use n g(1) in simp_all)
  then show ?thesis by (simp add: g_def)
qed

lemma voice_inv_emitted:
  assumes "voice_inv s" and "ve_event_id e = vs_next_event_id s"
  shows "voice_inv (emitted sid e s)"
proof -
  have "events_ok (vs_next_event_id s + 1)
      (map (\<lambda>x. if ss_session_id x = sid then x\<lparr>ss_events := ss_events x @ [e]\<rparr> else x) (vs_sessions s))"
    using assms by (intro events_ok_emitted) (simp_all add: voice_inv_def)
  moreover have "sessions_ok (map (\<lambda>x. if ss_session_id x = sid then x\<lparr>ss_events := ss_events x @ [e]\<rparr> else x) (vs_sessions s))"
    using assms(1) by (intro sessions_ok_map) (simp_all add: voice_inv_def)
  moreover have "in_step (emitted sid e s)" using assms(1) by (auto simp: voice_inv_def in_step_def)
  ultimately show ?thesis by (simp add: voice_inv_def emitted_def)
qed

text \<open>Emission is safe: its identifier is fresh and its sequence number is the journal's next one.\<close>

lemma canonical_event_facts:
  assumes "canonical_event now r n e p = Inr c"
  shows "ce_sequence c = n" and "ce_event_id c = ve_event_id e" and "ce_payload c = p"
  using assms by (auto simp: canonical_event_def uuid_of_int_def split: option.splits if_splits)

lemma envelope_orderly:
  assumes "envelope_rejection j c = Some r" and "ce_sequence c = jr_next_sequence j" and "ce_event_id c \<notin> jr_seen_event_ids j"
  shows "r \<noteq> OUT_OF_ORDER \<and> r \<noteq> DUPLICATE_EVENT"
  using assms by (auto simp: envelope_rejection_def split: if_splits option.splits)

lemma payload_orderly: "payload_rejection j p = Some r \<Longrightarrow> r \<noteq> OUT_OF_ORDER \<and> r \<noteq> DUPLICATE_EVENT"
  by (cases p) (auto simp: transcript_rejection_def split: if_splits option.splits)

lemma orderly_rejection: "orderly (VoiceOrderError (rejection_value r)) \<longleftrightarrow> r \<noteq> OUT_OF_ORDER \<and> r \<noteq> DUPLICATE_EVENT"
  by (cases r) (simp_all add: orderly_def)

lemma safe_emit: "safe (emit now x kind turn body p)"
proof (rule tripleI)
  fix s y t assume inv: "voice_inv s" and eq: "emit now x kind turn body p s = (Inr y, t)"
  let ?e = "\<lparr>ve_event_id = vs_next_event_id s, ve_kind = kind, ve_turn_id = turn, ve_text = body\<rparr>"
  have emitted: "voice_inv (emitted (ss_session_id x) ?e s)" using voice_inv_emitted [OF inv, of ?e] by simp
  show "voice_inv t"
  proof (cases rule: emit_cases [of now x kind turn body p s])
    case (accepted c a j)
    with eq emitted inv show ?thesis by (auto simp: voice_inv_def in_step_def)
  qed (use eq in simp_all)
next
  fix s err t assume inv: "voice_inv s" and eq: "emit now x kind turn body p s = (Inl err, t)"
  let ?e = "\<lparr>ve_event_id = vs_next_event_id s, ve_kind = kind, ve_turn_id = turn, ve_text = body\<rparr>"
  have emitted: "voice_inv (emitted (ss_session_id x) ?e s)" using voice_inv_emitted [OF inv, of ?e] by simp
  show "voice_inv t \<and> orderly err"
  proof (cases rule: emit_cases [of now x kind turn body p s])
    case (malformed reason)
    with eq emitted show ?thesis by (auto simp: orderly_def)
  next
    case (rejected c r)
    have "ce_sequence c = jr_next_sequence (vs_journal s)" and "ce_event_id c \<notin> jr_seen_event_ids (vs_journal s)"
      using canonical_event_facts [OF rejected(1)] inv by (auto simp: voice_inv_def in_step_def)
    then have "orderly (VoiceOrderError (rejection_value r))"
      using rejected(3) envelope_orderly payload_orderly unfolding orderly_rejection by blast
    with eq rejected(4) inv show ?thesis by simp
  qed (use eq in simp)
qed

section \<open>Every operation is safe\<close>

lemma safe_update: "benign f \<Longrightarrow> safe (amodify (update_session sid f))"
  by (rule triple_amodify) (rule voice_inv_benign)

lemma safe_call: "safe (call_provider cfg c)"
  by (rule tripleI) (auto simp: call_provider_def orderly_def split: if_splits)

lemma safe_log: "safe (amodify (log_entry event sid i n))"
  by (rule triple_amodify) simp

lemma safe_areturn: "safe (areturn x)"
  by (rule triple_areturn)

lemma safe_require: "orderly e \<Longrightarrow> safe (alift (require b e))"
  by (rule triple_alift) (auto simp: require_def split: if_splits)

lemma safe_aread: "(\<And>s e. f s = Inl e \<Longrightarrow> orderly e) \<Longrightarrow> safe (aread f)"
  by (rule triple_aread) auto

lemma orderly_simps [simp]:
  "orderly (VoiceAccessError r)" "orderly ProviderUnavailableError" "orderly (VoiceValueError r)" "orderly VoiceTypeError"
  "orderly VoiceKeyError" "orderly VoiceValidationError" "orderly (VoiceDeviceError d)"
  "orderly (VoiceOrderError ''client event ids must increase monotonically'')"
  "orderly (VoiceOrderError ''partial received for a closed turn'')"
  "orderly (VoiceOrderError ''conflicting final transcript'')"
  "orderly (VoiceOrderError ''final transcript requires a partial'')"
  by (simp_all add: orderly_def)

lemma orderly_session:
  "session_for_token cfg now v s = Inl e \<Longrightarrow> orderly e"
  "active_session cfg now v s = Inl e \<Longrightarrow> orderly e"
  "verify_for_resume vc tm v = Inl e \<Longrightarrow> orderly e"
  "verify_device cfg i fp s = Inl e \<Longrightarrow> orderly e"
  "start_authorized cfg at surface s = Inl e \<Longrightarrow> orderly e"
  by (auto simp: session_for_token_def active_session_def verify_token_def verify_for_resume_def verified_record_def
      verify_device_def start_authorized_def is_granted_def authorizes_def voice_le_def voice_lt_def ebind_def Let_def
      split: option.splits sum.splits if_splits)

lemmas safe_rules = triple_abind [where R = "\<lambda>_. voice_inv"] safe_emit safe_update safe_call safe_log safe_areturn
  safe_require safe_aread triple_if triple_option triple_prod3

lemma safe_disconnect: "safe (disconnect cfg now v)"
  unfolding disconnect_def by (intro safe_rules) (auto simp: benign_def orderly_session)

lemma safe_append_audio: "safe (append_audio cfg now v fr)"
  unfolding append_audio_def by (intro safe_rules) (auto simp: benign_def orderly_session)

lemma safe_accept_partial: "safe (accept_partial cfg now v turn body)"
  unfolding accept_partial_def emitters by (intro safe_rules) (auto simp: benign_def orderly_session)

lemma safe_journal_final: "safe (journal_final now sid turn body)"
  by (rule tripleI) (auto simp: journal_final_def append_final_def Let_def split: option.splits if_splits prod.splits)

lemma safe_finalize: "safe (finalize cfg now v turn body)"
  unfolding finalize_def emitters
  by (intro safe_rules safe_journal_final triple_araise) (auto simp: benign_def orderly_session)

lemma safe_queue_tts: "safe (queue_tts cfg now v turn pcm)"
  unfolding queue_tts_def by (intro safe_rules) (auto simp: benign_def orderly_session)

lemma safe_emit_voice: "safe (emit_voice sid kind turn body)"
  by (rule tripleI) (auto simp: emit_voice_eq Let_def intro: voice_inv_emitted)

lemma safe_queue_action_progress: "safe (queue_action_progress cfg now v turn body)"
  unfolding queue_action_progress_def emit_action_progress_def
  by (intro safe_rules safe_emit_voice) (auto simp: benign_def orderly_session)

lemma safe_barge_in: "safe (barge_in cfg now v turn)"
  unfolding barge_in_def emitters by (intro safe_rules) (auto simp: benign_def orderly_session)

lemma safe_replace: "safe (replace_for_session cfg nonce v now)"
  by (rule tripleI)
    (auto simp: replace_for_session_def replace_token_def verified_record_def ebind_def Let_def
      split: option.splits sum.splits if_splits prod.splits)

lemma safe_resume: "safe (resume cfg now nonce v i fp n)"
  unfolding resume_def by (intro safe_rules safe_replace) (auto simp: benign_def orderly_session split: option.splits)

lemma safe_end_session: "safe (end_session cfg now v)"
  unfolding end_session_def close_provider_def
  by (intro safe_rules triple_amodify) (auto simp: orderly_session intro!: voice_inv_benign simp: benign_def)

text \<open>
  Starting a session: after the check nothing but the provider is touched, so the new session is the only
  live one of its device, and it has no events yet.
\<close>

lemma safe_expire_sessions: "safe (expire_sessions cfg now xs)"
proof (induction xs)
  case Nil
  show ?case unfolding expire_sessions.simps by (rule safe_areturn)
next
  case (Cons x xs)
  show ?case unfolding expire_sessions.simps close_provider_def
    by (intro safe_rules Cons.IH) (auto simp: benign_def)
qed

lemma safe_expire: "safe (expire_disconnected_sessions cfg now)"
  unfolding expire_disconnected_sessions_def by (intro safe_rules triple_aget safe_expire_sessions)

definition ready :: "string \<Rightarrow> voice_service \<Rightarrow> bool" where
  "ready i s \<longleftrightarrow> voice_inv s \<and> \<not> has_active_session i s"

lemma ready_provider:
  "triple (ready i) (start_provider_session cfg at surface) (\<lambda>_. ready i) (\<lambda>e s. voice_inv s \<and> orderly e)"
  unfolding start_provider_session_def
  by (rule tripleI)
    (auto simp: ready_def has_active_session_def abind_def provider_start_def orderly_session
      split: sum.splits option.splits if_splits)

lemma voice_inv_put:
  assumes "ready (rq_device_id r) s"
  shows "voice_inv (s\<lparr>vs_sessions := keyed_put ss_session_id (new_session sid r m h) (vs_sessions s)\<rparr>)"
proof -
  let ?new = "new_session sid r m h" and ?xs = "keyed_put ss_session_id (new_session sid r m h) (vs_sessions s)"
  have inv: "voice_inv s" and free: "\<forall>x \<in> set (vs_sessions s). rq_device_id (ss_request x) = rq_device_id r \<longrightarrow> ss_ended x"
    using assms by (auto simp: ready_def has_active_session_def list_ex_iff)
  have new: "ss_session_id ?new = sid" "ss_request ?new = r" "event_ids ?new = []"
    by (simp_all add: new_session_def event_ids_def)
  have d: "distinct (map ss_session_id (vs_sessions s))" using inv by (simp add: voice_inv_def sessions_ok_def)
  have set: "set ?xs = insert ?new {y \<in> set (vs_sessions s). ss_session_id y \<noteq> sid}"
    using set_keyed_put_distinct [OF d, of ?new] new(1) by simp
  have "sessions_ok ?xs"
    unfolding sessions_ok_def
  proof (intro conjI ballI impI)
    show "distinct (map ss_session_id ?xs)" using distinct_keyed_put [OF d] .
    fix x y assume x: "x \<in> set ?xs" and y: "y \<in> set ?xs"
      and live: "\<not> ss_ended x \<and> \<not> ss_ended y \<and> rq_device_id (ss_request x) = rq_device_id (ss_request y)"
    show "ss_session_id x = ss_session_id y"
    proof (cases "x = ?new \<or> y = ?new")
      case True
      with live free x y set new(2) have "x = ?new \<and> y = ?new" by auto
      then show ?thesis by simp
    next
      case False
      with x y set inv live show ?thesis unfolding voice_inv_def sessions_ok_def by blast
    qed
  qed
  moreover have "events_ok (vs_next_event_id s) ?xs"
    using inv new(3) unfolding voice_inv_def events_ok_def set by auto
  ultimately show ?thesis using inv by (simp add: voice_inv_def in_step_def)
qed

lemma safe_start: "safe (start cfg now sid nonce r)"
  unfolding start_def
  apply (rule triple_abind [where R = "\<lambda>_. voice_inv"], rule safe_aread, erule orderly_session)
  apply (rule triple_abind [OF safe_expire])
  apply (rule triple_abind [where R = "\<lambda>_. ready (rq_device_id r)"])
   apply (rule triple_aread; auto simp: ready_def require_def split: if_splits)
  apply (rule triple_abind [OF ready_provider], rule triple_prod3)
  apply (intro triple_abind [where R = "\<lambda>_. voice_inv"] safe_log safe_areturn)
   apply (rule triple_amodify, erule voice_inv_put)
  apply (rule tripleI; auto simp: issue_for_session_def Let_def split: prod.splits)
  done

lemma safe_ignore: "safe m \<Longrightarrow> safe (ignore m)"
  unfolding ignore_def by (erule triple_abind) (rule safe_areturn)

lemma safe_exec: "safe (voice_exec cfg now x)"
  by (cases x)
    (auto simp: safe_start safe_append_audio safe_accept_partial safe_finalize safe_queue_tts safe_queue_action_progress
      safe_barge_in safe_disconnect safe_resume safe_end_session safe_ignore device_op_def
      intro!: triple_amodify tripleI split: sum.splits)

lemma keeps_exec: "keeps voice_inv (voice_exec cfg now x)"
  by (rule triple_weaken [OF safe_exec]) auto

lemma voice_inv_run: "voice_inv s \<Longrightarrow> voice_inv (voice_run cfg ops s)"
  by (rule voice_run_keeps [OF keeps_exec])

end
