(* ===== verification/Voice_Properties.thy ===== *)
theory Voice_Properties
  imports Voice_Invariants
begin

text \<open>
  What the voice relay promises: the lifetime of its tokens, the gate in front of the realtime provider,
  and the properties of every run of the state machine.
\<close>

section \<open>Tokens\<close>

lemma issue_token_record:
  assumes "issue_token vc nonce sid i now tm = (token, tm')" and "length nonce = TOKEN_NONCE_BYTES"
  shows "verified_record vc tm' (st_value token) = Inr \<lparr>tr_token = token, tr_digest = vc_sha256 vc (st_value token)\<rparr>"
    and "st_session_id token = sid" and "st_device_id token = i" and "st_issued_at token = now"
    and "st_expires_at token = dt_add now SESSION_TOKEN_TTL"
proof -
  let ?r = "\<lparr>tr_token = token, tr_digest = vc_sha256 vc (st_value token)\<rparr>"
  have tm': "tm_records tm' = keyed_put tr_digest ?r (tm_records tm)" "tm_signing_key tm' = tm_signing_key tm"
    and val: "st_value token = b64_encode (nonce @ vc_hmac vc (tm_signing_key tm) (nonce @ token_binding sid i now))"
    using assms(1) by (auto simp: issue_token_def Let_def)
  show fields: "st_session_id token = sid" "st_device_id token = i" "st_issued_at token = now"
    "st_expires_at token = dt_add now SESSION_TOKEN_TTL"
    using assms(1) by (auto simp: issue_token_def Let_def)
  have "dict_get tr_digest (tm_records tm') (vc_sha256 vc (st_value token)) = Some ?r"
    using dict_get_keyed_put [of tr_digest ?r "tm_records tm"] tm' by simp
  moreover have "b64_decode (st_value token) = Some (nonce @ vc_hmac vc (tm_signing_key tm) (nonce @ token_binding sid i now))"
    using val b64_roundtrip by simp
  ultimately show "verified_record vc tm' (st_value token) = Inr ?r"
    using assms(2) tm'(2) fields by (simp add: verified_record_def Let_def)
qed

lemma verified_record_Inr:
  assumes "verified_record vc tm v = Inr r"
  shows "r \<in> set (tm_records tm)" and "tr_digest r = vc_sha256 vc v"
  using assms dict_get_Some [of tr_digest "tm_records tm" "vc_sha256 vc v"]
  by (auto simp: verified_record_def Let_def split: option.splits if_splits)

text \<open>
  A token issued with a 32-byte nonce is accepted for exactly ten minutes.  Presented at a time before its
  expiry it verifies as the session and device it was issued for, from the expiry on it is refused as expired;
  replacing it with a new value of another digest makes the old value unknown, and the replacement is bound to
  the same session and device.
\<close>

theorem token_lifetime:
  assumes "issue_token vc nonce sid i (utc_datetime t0) tm = (token, tm')" and "length nonce = TOKEN_NONCE_BYTES"
  shows "(\<forall>t < t0 + SESSION_TOKEN_TTL. verify_token vc tm' (st_value token) (utc_datetime t) = Inr token)
    \<and> (\<forall>t \<ge> t0 + SESSION_TOKEN_TTL.
         verify_token vc tm' (st_value token) (utc_datetime t) = Inl (VoiceAccessError ''voice session token expired''))
    \<and> st_session_id token = sid \<and> st_device_id token = i
    \<and> (\<forall>nonce' t new tm''. replace_token vc nonce' (st_value token) (utc_datetime t) tm' = Inr (new, tm'')
         \<and> vc_sha256 vc (st_value new) \<noteq> vc_sha256 vc (st_value token)
       \<longrightarrow> verified_record vc tm'' (st_value token) = Inl (VoiceAccessError ''unknown voice session token'')
         \<and> st_session_id new = sid \<and> st_device_id new = i)"
proof -
  note facts = issue_token_record [OF assms]
  have "verified_record vc tm'' (st_value token) = Inl (VoiceAccessError ''unknown voice session token'')
      \<and> st_session_id new = sid \<and> st_device_id new = i"
    if "replace_token vc nonce' (st_value token) (utc_datetime t) tm' = Inr (new, tm'')"
      and other: "vc_sha256 vc (st_value new) \<noteq> vc_sha256 vc (st_value token)" for nonce' t new tm''
  proof -
    let ?d = "vc_sha256 vc (st_value token)"
    have issued: "issue_token vc nonce' sid i (utc_datetime t) (tm'\<lparr>tm_records := dict_pop tr_digest ?d (tm_records tm')\<rparr>) = (new, tm'')"
      using that(1) facts by (simp add: replace_token_def)
    then have "tm_records tm'' = keyed_put tr_digest \<lparr>tr_token = new, tr_digest = vc_sha256 vc (st_value new)\<rparr>
        (dict_pop tr_digest ?d (tm_records tm'))"
      and "st_session_id new = sid \<and> st_device_id new = i"
      by (auto simp: issue_token_def Let_def)
    with other show ?thesis
      by (simp add: verified_record_def dict_get_keyed_put_other dict_get_pop)
  qed
  then show ?thesis using facts by (auto simp: verify_token_def)
qed

abbreviation ex_voice_crypto :: voice_crypto where
  "ex_voice_crypto \<equiv> \<lparr>vc_hmac = \<lambda>key m. key @ m, vc_sha256 = \<lambda>m. m\<rparr>"

abbreviation ex_nonce :: string where
  "ex_nonce \<equiv> replicate 32 (CHR ''n'')"

theorem token_lifetime_witness:
  "\<exists>token tm'. issue_token ex_voice_crypto ex_nonce 4 ''d1'' (utc_datetime 0) (new_token_manager ''k'') = (token, tm')
     \<and> verify_token ex_voice_crypto tm' (st_value token) (utc_datetime 5) = Inr token
     \<and> verify_token ex_voice_crypto tm' (st_value token) (utc_datetime SESSION_TOKEN_TTL)
       = Inl (VoiceAccessError ''voice session token expired'')"
proof -
  obtain token tm' where issued:
    "issue_token ex_voice_crypto ex_nonce 4 ''d1'' (utc_datetime 0) (new_token_manager ''k'') = (token, tm')"
    by fastforce
  have "length ex_nonce = TOKEN_NONCE_BYTES" by (simp add: TOKEN_NONCE_BYTES_def)
  from token_lifetime [OF issued this] issued show ?thesis
    by (auto simp: SESSION_TOKEN_TTL_def minute_def)
qed

section \<open>The provider gate\<close>

text \<open>A run in which no session is started with a current grant and a qualified, current retention verification.\<close>

fun unauthorized_run :: "voice_config \<Rightarrow> (instant \<times> voice_op) list \<Rightarrow> voice_service \<Rightarrow> bool" where
  "unauthorized_run cfg [] s = True"
| "unauthorized_run cfg ((now, x) # xs) s =
     ((case x of Start sid nonce r \<Rightarrow> start_authorized cfg (utc_datetime now) (rq_surface r) s \<noteq> Inr True | _ \<Rightarrow> True)
      \<and> unauthorized_run cfg xs (snd (voice_exec cfg now x s)))"

definition no_provider :: "voice_service \<Rightarrow> bool" where
  "no_provider s \<longleftrightarrow> vs_calls s = [] \<and> (\<forall>x \<in> set (vs_sessions s). ss_provider_handle x = None)"

lemma no_provider_ignores [simp]:
  "no_provider (s\<lparr>vs_tokens := a\<rparr>) = no_provider s"
  "no_provider (s\<lparr>vs_transcripts := c\<rparr>) = no_provider s"
  "no_provider (s\<lparr>vs_consent := d\<rparr>) = no_provider s"
  "no_provider (s\<lparr>vs_devices := e\<rparr>) = no_provider s"
  "no_provider (log_entry event sid i n s) = no_provider s"
  by (simp_all add: no_provider_def log_entry_def)

lemma no_provider_update:
  assumes "no_provider s" and "\<And>y. ss_provider_handle (f y) = ss_provider_handle y"
  shows "no_provider (update_session sid f s)"
  using assms by (auto simp: no_provider_def)

lemma no_provider_emitted: "no_provider s \<Longrightarrow> no_provider (emitted sid e s)"
  unfolding emitted_def by (rule no_provider_update) (simp_all add: no_provider_def)

lemma no_provider_emit: "keeps no_provider (emit now x kind turn body p)"
proof -
  have "no_provider (snd (emit now x kind turn body p s))" if "no_provider s" for s
    using that no_provider_emitted [OF that]
    by (cases rule: emit_cases [of now x kind turn body p s]) (simp_all add: no_provider_def)
  then show ?thesis by (auto intro!: tripleI) (metis snd_conv)+
qed

lemma handle_of_session:
  "no_provider s \<Longrightarrow> get_session s i = Some x \<Longrightarrow> ss_provider_handle x = None"
  "no_provider s \<Longrightarrow> active_session cfg now v s = Inr x \<Longrightarrow> ss_provider_handle x = None"
  "no_provider s \<Longrightarrow> session_for_token cfg now v s = Inr x \<Longrightarrow> ss_provider_handle x = None"
  using dict_get_Some [of ss_session_id "vs_sessions s"]
  by (auto simp: no_provider_def get_session_def active_session_def session_for_token_def split: option.splits if_splits)

lemmas no_provider_rules = triple_abind [where R = "\<lambda>_. no_provider"] no_provider_emit triple_areturn triple_amodify triple_alift
  triple_araise triple_if triple_option no_provider_update

lemma no_provider_ops:
  "keeps no_provider (append_audio cfg now v fr)" "keeps no_provider (accept_partial cfg now v turn body)"
  "keeps no_provider (queue_tts cfg now v turn pcm)" "keeps no_provider (barge_in cfg now v turn)"
  "keeps no_provider (disconnect cfg now v)"
  unfolding append_audio_def accept_partial_def queue_tts_def barge_in_def disconnect_def emitters
  by (rule keeps_read [where B = "\<lambda>x. ss_provider_handle x = None"];
      auto simp: handle_of_session intro!: no_provider_rules)+

lemma no_provider_finalize: "keeps no_provider (finalize cfg now v turn body)"
proof -
  have "keeps no_provider (journal_final now sid turn body)" for sid
    by (rule tripleI) (auto simp: journal_final_def Let_def split: prod.splits)
  then show ?thesis unfolding finalize_def emitters
    by (intro keeps_read [where B = "\<lambda>x. ss_provider_handle x = None"])
      (auto simp: handle_of_session intro!: no_provider_rules)
qed

lemma no_provider_progress: "keeps no_provider (queue_action_progress cfg now v turn body)"
proof -
  have "keeps no_provider (emit_voice sid kind turn body)" for sid kind
    by (rule tripleI) (auto simp: emit_voice_eq Let_def no_provider_emitted)
  then show ?thesis unfolding queue_action_progress_def emit_action_progress_def
    by (intro keeps_read [where B = "\<lambda>x. ss_provider_handle x = None"])
      (auto simp: handle_of_session intro!: no_provider_rules)
qed

lemma no_provider_end: "keeps no_provider (end_session cfg now v)"
  unfolding end_session_def close_provider_def
  by (rule keeps_read [where B = "\<lambda>x. ss_provider_handle x = None"])
    (auto simp: handle_of_session intro!: no_provider_rules)

lemma no_provider_resume: "keeps no_provider (resume cfg now nonce v i fp n)"
proof -
  have "keeps no_provider (replace_for_session cfg nonce v now)"
    by (rule tripleI) (auto simp: replace_for_session_def split: sum.splits prod.splits)
  then show ?thesis unfolding resume_def
    by (auto intro!: no_provider_rules triple_aread)
qed

lemma no_provider_start:
  assumes "no_provider s" and "start_authorized cfg (utc_datetime now) (rq_surface r) s \<noteq> Inr True"
  shows "no_provider (snd (start cfg now sid nonce r s))"
proof -
  let ?I = "\<lambda>t. no_provider t \<and> vs_consent t = vs_consent s"
  have "keeps ?I (expire_sessions cfg now xs)" if "\<forall>x \<in> set xs. ss_provider_handle x = None" for xs
    using that
    by (induction xs) (auto simp: close_provider_def intro!: triple_areturn triple_abind [where R = "\<lambda>_. ?I"] triple_amodify no_provider_update)
  then have expire: "keeps ?I (expire_disconnected_sessions cfg now)"
    unfolding expire_disconnected_sessions_def
    by (intro triple_abind [where R = "\<lambda>xs t. ?I t \<and> (\<forall>x \<in> set xs. ss_provider_handle x = None)"] triple_aget triple_pure)
      (auto simp: no_provider_def)
  have gate: "triple ?I (start_provider_session cfg (utc_datetime now) (rq_surface r)) (\<lambda>(m, h, _) t. no_provider t \<and> h = None) (\<lambda>_. no_provider)"
    using assms(2) unfolding start_provider_session_def
    by (intro tripleI) (auto simp: abind_def start_authorized_def split: sum.splits if_splits)
  have "triple ?I (start cfg now sid nonce r) (\<lambda>_. no_provider) (\<lambda>_. no_provider)"
    unfolding start_def
    apply (rule triple_abind [where R = "\<lambda>_. ?I"], rule triple_aread; simp)
    apply (rule triple_abind [where R = "\<lambda>_. ?I"], rule triple_weaken [OF expire]; simp)
    apply (rule triple_abind [where R = "\<lambda>_. ?I"], rule triple_aread; simp)
    apply (rule triple_abind [OF gate], rule triple_prod3)
    apply (intro no_provider_rules)
      apply (auto simp: no_provider_def new_session_def dest: set_keyed_put [THEN subsetD])[1]
     apply (rule tripleI; auto simp: issue_for_session_def Let_def split: prod.splits)
    apply simp_all
    done
  from keeps_snd [OF this] assms(1) show ?thesis by blast
qed

lemma no_provider_exec:
  assumes "no_provider s"
    and "case x of Start sid nonce r \<Rightarrow> start_authorized cfg (utc_datetime now) (rq_surface r) s \<noteq> Inr True | _ \<Rightarrow> True"
  shows "no_provider (snd (voice_exec cfg now x s))"
proof -
  have ignore: "snd (ignore m s) = snd (m s)" for m :: "'a voice"
    by (simp add: ignore_def abind_def split: prod.split sum.split)
  show ?thesis
    using assms no_provider_start keeps_snd [OF no_provider_ops(1)] keeps_snd [OF no_provider_ops(2)]
      keeps_snd [OF no_provider_ops(3)] keeps_snd [OF no_provider_ops(4)] keeps_snd [OF no_provider_ops(5)]
      keeps_snd [OF no_provider_finalize] keeps_snd [OF no_provider_progress] keeps_snd [OF no_provider_end]
      keeps_snd [OF no_provider_resume]
    by (cases x) (simp_all add: ignore device_op_def split: sum.split prod.split)
qed

lemma no_provider_run: "unauthorized_run cfg ops s \<Longrightarrow> no_provider s \<Longrightarrow> no_provider (voice_run cfg ops s)"
proof (induction ops arbitrary: s)
  case (Cons a ops)
  obtain now x where a: "a = (now, x)" by fastforce
  from Cons.prems no_provider_exec [where s = s and x = x and cfg = cfg and now = now] have "no_provider (snd (voice_exec cfg now x s))" by (simp add: a)
  with Cons show ?case by (simp add: a)
qed simp

text \<open>
  C16: the realtime provider is reached only through the privacy gate.  In every run of a voice service in which
  no session start finds a current grant for its surface together with a current retention verification that
  qualifies, the provider receives no call at all (no session, no audio, no cancellation), and every session
  runs on local text.
\<close>

theorem provider_requires_authorization:
  assumes "unauthorized_run cfg ops (new_voice_service key journal rows consent reg)"
  shows "vs_calls (voice_run cfg ops (new_voice_service key journal rows consent reg)) = []
    \<and> (\<forall>x \<in> set (vs_sessions (voice_run cfg ops (new_voice_service key journal rows consent reg))). ss_provider_handle x = None)"
proof -
  have "no_provider (new_voice_service key journal rows consent reg)" by (simp add: no_provider_def new_voice_service_def)
  from no_provider_run [OF assms this] show ?thesis by (simp add: no_provider_def)
qed

section \<open>An example service\<close>

abbreviation ex_phone :: device where
  "ex_phone \<equiv> \<lparr>dv_device_id = uuid_str 2, dv_public_key_fingerprint = ''fp'', dv_enrolled_at = utc_datetime 0,
     dv_enrolled_by = ''owner'', dv_state = ENROLLED, dv_revoked_at = None, dv_revoked_by = None, dv_approval_public_key = None\<rparr>"

abbreviation ex_phone_registry :: registry where
  "ex_phone_registry \<equiv> \<lparr>reg_devices = [uuid_str 2 \<mapsto> ex_phone], reg_by_fingerprint = [''fp'' \<mapsto> uuid_str 2], reg_persistence = None\<rparr>"

abbreviation ex_voice_config :: voice_config where
  "ex_voice_config \<equiv> \<lparr>vd_crypto = ex_voice_crypto,
     vd_device_env = \<lparr>dump_device = \<lambda>d. [], parse_device = \<lambda>t. None, public_key_ok = \<lambda>k. True\<rparr>,
     vd_provider = \<lparr>pv_start = \<lambda>calls c. Some ''h'', pv_available = \<lambda>calls c. True\<rparr>,
     vd_endpoint = \<lparr>ep_url = ''wss://relay''\<rparr>, vd_project_id = ''p'',
     vd_retention = \<lparr>rv_project_id = ''p'', rv_retention_type = ZERO_DATA_RETENTION, rv_store = False,
       rv_verified_at = utc_datetime 0, rv_valid_until = utc_datetime 100\<rparr>\<rparr>"

abbreviation ex_voice_service :: voice_service where
  "ex_voice_service \<equiv> new_voice_service ''k'' (new_journal ex_conversation [ex_conversation_device]) [] Map.empty ex_phone_registry"

abbreviation ex_voice_request :: session_start_request where
  "ex_voice_request \<equiv> \<lparr>rq_device_id = uuid_str 2, rq_public_key_fingerprint = ''fp'', rq_participant_id = 3,
     rq_conversation_id = 7, rq_surface = PUSH_TO_TALK\<rparr>"

lemma ex_unauthorized: "start_authorized ex_voice_config now PUSH_TO_TALK ex_voice_service = Inr False"
  by (simp add: start_authorized_def is_granted_def new_voice_service_def)

lemma ex_verify: "verify_device ex_voice_config (uuid_str 2) ''fp'' ex_voice_service = Inr ex_phone"
  by (simp add: verify_device_def verify_mtls_identity_def device_of_def new_voice_service_def)

theorem provider_requires_authorization_witness:
  "vs_calls (voice_run ex_voice_config [(0, Start 4 ex_nonce ex_voice_request), (1, BargeIn ''t'' 5)] ex_voice_service) = []"
  using provider_requires_authorization [of ex_voice_config
      "[(0, Start 4 ex_nonce ex_voice_request), (1, BargeIn ''t'' 5)]" "''k''" "new_journal ex_conversation [ex_conversation_device]"
      "[]" Map.empty ex_phone_registry]
  by (simp add: ex_unauthorized del: voice_exec.simps)

lemma ex_start:
  "\<exists>token tm logs. voice_run ex_voice_config [(0, Start 4 ex_nonce ex_voice_request)] ex_voice_service =
     ex_voice_service\<lparr>vs_sessions := [new_session 4 ex_voice_request LOCAL_TEXT None], vs_tokens := tm, vs_logs := logs\<rparr>
     \<and> issue_token ex_voice_crypto ex_nonce 4 (uuid_str 2) (utc_datetime 0) (new_token_manager ''k'') = (token, tm)"
proof -
  obtain token tm where issued:
    "issue_token ex_voice_crypto ex_nonce 4 (uuid_str 2) (utc_datetime 0) (new_token_manager ''k'') = (token, tm)"
    by fastforce
  then show ?thesis
    using ex_verify ex_unauthorized
    by (simp add: ignore_def start_def expire_disconnected_sessions_def has_active_session_def start_provider_session_def
        issue_for_session_def log_entry_def abind_def new_voice_service_def start_authorized_def is_granted_def)
qed

section \<open>Every run\<close>

text \<open>
  C15: at any time a device has at most one live session.  In every run of a voice service, two sessions of the
  same device that have both not ended are one and the same session.
\<close>

theorem one_live_session_per_device:
  assumes "s = voice_run cfg ops (new_voice_service key (new_journal c ds) rows consent reg)"
    and "x \<in> set (vs_sessions s)" and "y \<in> set (vs_sessions s)" and "\<not> ss_ended x" and "\<not> ss_ended y"
    and "rq_device_id (ss_request x) = rq_device_id (ss_request y)"
  shows "x = y"
proof -
  have "sessions_ok (vs_sessions s)" using voice_inv_run [OF voice_inv_new] assms(1) by (simp add: voice_inv_def)
  with assms(2-6) have "ss_session_id x = ss_session_id y" and "distinct (map ss_session_id (vs_sessions s))"
    unfolding sessions_ok_def by blast+
  with assms(2,3) show ?thesis by (simp add: distinct_map inj_on_def)
qed

theorem one_live_session_per_device_witness:
  "\<exists>x \<in> set (vs_sessions (voice_run ex_voice_config [(0, Start 4 ex_nonce ex_voice_request)] ex_voice_service)).
     \<not> ss_ended x \<and> (\<forall>y \<in> set (vs_sessions (voice_run ex_voice_config [(0, Start 4 ex_nonce ex_voice_request)] ex_voice_service)).
        \<not> ss_ended y \<and> rq_device_id (ss_request x) = rq_device_id (ss_request y) \<longrightarrow> x = y)"
proof -
  let ?x = "new_session 4 ex_voice_request LOCAL_TEXT None"
  obtain tm logs where run: "voice_run ex_voice_config [(0, Start 4 ex_nonce ex_voice_request)] ex_voice_service =
     ex_voice_service\<lparr>vs_sessions := [?x], vs_tokens := tm, vs_logs := logs\<rparr>"
    using ex_start by blast
  have "?x \<in> set (vs_sessions (voice_run ex_voice_config [(0, Start 4 ex_nonce ex_voice_request)] ex_voice_service))"
    unfolding run by simp
  moreover have "\<not> ss_ended ?x" by (simp add: new_session_def)
  ultimately show ?thesis using one_live_session_per_device [OF refl] by blast
qed

text \<open>
  C17: event identifiers are monotone.  In every run, the events a session keeps for replay have strictly
  increasing identifiers, positive and below the service's next one, and no two sessions share an identifier,
  whichever operations raised on the way.
\<close>

theorem voice_events_monotone:
  assumes "s = voice_run cfg ops (new_voice_service key (new_journal c ds) rows consent reg)"
    and "x \<in> set (vs_sessions s)"
  shows "sorted_wrt (<) (event_ids x) \<and> (\<forall>i \<in> set (event_ids x). 1 \<le> i \<and> i < vs_next_event_id s)
    \<and> (\<forall>y \<in> set (vs_sessions s). y \<noteq> x \<longrightarrow> set (event_ids x) \<inter> set (event_ids y) = {})"
proof -
  have inv: "sessions_ok (vs_sessions s)" "events_ok (vs_next_event_id s) (vs_sessions s)"
    using voice_inv_run [OF voice_inv_new] assms(1) by (simp_all add: voice_inv_def)
  have "ss_session_id y \<noteq> ss_session_id x" if "y \<in> set (vs_sessions s)" "y \<noteq> x" for y
    using inv(1) that assms(2) by (auto simp: sessions_ok_def distinct_map inj_on_def)
  then show ?thesis using events_okD [OF inv(2) assms(2)] by fastforce
qed

theorem voice_events_monotone_witness:
  "\<exists>x \<in> set (vs_sessions (voice_run ex_voice_config [(0, Start 4 ex_nonce ex_voice_request)] ex_voice_service)).
     sorted_wrt (<) (event_ids x)"
proof -
  obtain tm logs where run: "voice_run ex_voice_config [(0, Start 4 ex_nonce ex_voice_request)] ex_voice_service =
     ex_voice_service\<lparr>vs_sessions := [new_session 4 ex_voice_request LOCAL_TEXT None], vs_tokens := tm, vs_logs := logs\<rparr>"
    using ex_start by blast
  have "new_session 4 ex_voice_request LOCAL_TEXT None
      \<in> set (vs_sessions (voice_run ex_voice_config [(0, Start 4 ex_nonce ex_voice_request)] ex_voice_service))"
    unfolding run by simp
  with voice_events_monotone [OF refl this] show ?thesis by blast
qed

text \<open>
  The emitter stays in step with the conversation journal.  Whatever a voice service went through, an
  operation on it is never refused because its event is out of order or carries an identifier the journal has
  seen.
\<close>

theorem voice_emission_in_step:
  "fst (voice_exec cfg now x (voice_run cfg ops (new_voice_service key (new_journal c ds) rows consent reg)))
     \<notin> {Inl (VoiceOrderError (rejection_value OUT_OF_ORDER)), Inl (VoiceOrderError (rejection_value DUPLICATE_EVENT))}"
proof -
  let ?s = "voice_run cfg ops (new_voice_service key (new_journal c ds) rows consent reg)"
  have "voice_inv ?s" by (rule voice_inv_run [OF voice_inv_new])
  obtain r t where r: "voice_exec cfg now x ?s = (r, t)" by fastforce
  show ?thesis
  proof (cases r)
    case (Inl e)
    then have "orderly e" using triple_error [OF safe_exec \<open>voice_inv ?s\<close>] r by blast
    with r Inl show ?thesis by (simp add: orderly_def)
  qed (use r in simp)
qed

section \<open>Reconnecting\<close>

lemma replay_suffix:
  "sorted_wrt (<) (map ve_event_id es) \<Longrightarrow>
     filter (\<lambda>e. n < int (ve_event_id e)) es = dropWhile (\<lambda>e. int (ve_event_id e) \<le> n) es"
proof (induction es)
  case (Cons e es)
  show ?case
  proof (cases "int (ve_event_id e) \<le> n")
    case True
    with Cons show ?thesis by simp
  next
    case False
    with Cons.prems have "\<forall>x \<in> set (e # es). n < int (ve_event_id x)" by auto
    then have "filter (\<lambda>e. n < int (ve_event_id e)) (e # es) = e # es" by (intro filter_True) blast
    with False show ?thesis by simp
  qed
qed simp

text \<open>
  C18: reconnecting is same-device, within the window, and loses nothing.  When a resume succeeds on a service
  that any run produced, the presented token belongs to a disconnected session, the caller is the device the
  token was issued to and its certificate is currently valid, at most 30 seconds have passed since the
  disconnect, and the events replayed are exactly the retained ones after the last identifier the client saw.
\<close>

theorem resume_correct:
  assumes "s = voice_run cfg ops (new_voice_service key (new_journal c ds) rows consent reg)"
    and "resume cfg now nonce v i fp n s = (Inr res, t)"
  shows "\<exists>x \<in> set (vs_sessions s). \<exists>d at. verify_device cfg i fp s = Inr d \<and> ss_disconnected_at x = Some at
    \<and> \<not> dt_lt (dt_add at RECONNECT_WINDOW) (utc_datetime now)
    \<and> (\<exists>old. verify_for_resume (vd_crypto cfg) (vs_tokens s) v = Inr old \<and> st_session_id old = ss_session_id x \<and> st_device_id old = i)
    \<and> rr_replayed_events res = dropWhile (\<lambda>e. int (ve_event_id e) \<le> n) (ss_events x)"
proof -
  from assms(2) obtain old x d where old: "verify_for_resume (vd_crypto cfg) (vs_tokens s) v = Inr old"
    and x: "get_session s (st_session_id old) = Some x" and d: "verify_device cfg i fp s = Inr d"
    and facts: "i = st_device_id old" "ss_disconnected_at x \<noteq> None" "\<not> window_passed now x"
    and events: "rr_replayed_events res = filter (\<lambda>e. n < int (ve_event_id e)) (ss_events x)"
    by (auto simp: resume_def split: option.splits)
  have mem: "x \<in> set (vs_sessions s)" "ss_session_id x = st_session_id old"
    using dict_get_Some x unfolding get_session_def by metis+
  have "events_ok (vs_next_event_id s) (vs_sessions s)"
    using voice_inv_run [OF voice_inv_new] assms(1) by (simp add: voice_inv_def)
  from events_okD(1) [OF this mem(1)] have "sorted_wrt (<) (map ve_event_id (ss_events x))" by (simp add: event_ids_def)
  from replay_suffix [OF this] events have "rr_replayed_events res = dropWhile (\<lambda>e. int (ve_event_id e) \<le> n) (ss_events x)"
    by simp
  with old d facts mem show ?thesis
    by (intro bexI [of _ x]) (auto simp: window_passed_def)
qed

lemma ex_disconnected:
  assumes "issue_token ex_voice_crypto ex_nonce 4 (uuid_str 2) (utc_datetime 0) (new_token_manager ''k'') = (token, tm)"
  shows "\<exists>logs. voice_run ex_voice_config [(0, Start 4 ex_nonce ex_voice_request), (1, Disconnect (st_value token))] ex_voice_service =
     ex_voice_service\<lparr>vs_sessions := [(new_session 4 ex_voice_request LOCAL_TEXT None)\<lparr>ss_disconnected_at := Some (utc_datetime 1)\<rparr>],
       vs_tokens := tm, vs_logs := logs\<rparr>"
proof -
  obtain logs where run: "voice_run ex_voice_config [(0, Start 4 ex_nonce ex_voice_request)] ex_voice_service =
     ex_voice_service\<lparr>vs_sessions := [new_session 4 ex_voice_request LOCAL_TEXT None], vs_tokens := tm, vs_logs := logs\<rparr>"
    (is "_ = ?s1") using ex_start assms by auto
  have "verify_token ex_voice_crypto tm (st_value token) (utc_datetime 1) = Inr token"
    using issue_token_record [OF assms] by (simp add: verify_token_def TOKEN_NONCE_BYTES_def SESSION_TOKEN_TTL_def minute_def)
  then have "active_session ex_voice_config 1 (st_value token) ?s1 = Inr (new_session 4 ex_voice_request LOCAL_TEXT None)"
    using issue_token_record [OF assms]
    by (simp add: active_session_def session_for_token_def get_session_def dict_get_def new_session_def TOKEN_NONCE_BYTES_def)
  then have disc: "snd (disconnect ex_voice_config 1 (st_value token) ?s1) =
      ?s1\<lparr>vs_sessions := [(new_session 4 ex_voice_request LOCAL_TEXT None)\<lparr>ss_disconnected_at := Some (utc_datetime 1)\<rparr>]\<rparr>"
    by (simp add: disconnect_def update_session_def new_session_def)
  have two: "voice_run cfg [(0, a), (1, b)] z = snd (voice_exec cfg 1 b (voice_run cfg [(0, a)] z))" for cfg a b z
    by simp
  show ?thesis unfolding two run voice_exec.simps disc by (intro exI [of _ logs]) simp
qed

theorem resume_correct_witness:
  "\<exists>ops v res t. resume ex_voice_config 2 ex_nonce v (uuid_str 2) ''fp'' 0 (voice_run ex_voice_config ops ex_voice_service) = (Inr res, t)
     \<and> (\<exists>x \<in> set (vs_sessions (voice_run ex_voice_config ops ex_voice_service)).
          rr_replayed_events res = dropWhile (\<lambda>e. int (ve_event_id e) \<le> 0) (ss_events x))"
proof -
  obtain token tm where issued:
    "issue_token ex_voice_crypto ex_nonce 4 (uuid_str 2) (utc_datetime 0) (new_token_manager ''k'') = (token, tm)"
    by fastforce
  let ?ops = "[(0, Start 4 ex_nonce ex_voice_request), (1, Disconnect (st_value token))]"
  obtain logs where run: "voice_run ex_voice_config ?ops ex_voice_service =
     ex_voice_service\<lparr>vs_sessions := [(new_session 4 ex_voice_request LOCAL_TEXT None)\<lparr>ss_disconnected_at := Some (utc_datetime 1)\<rparr>],
       vs_tokens := tm, vs_logs := logs\<rparr>"
    using ex_disconnected [OF issued] by blast
  note token = issue_token_record [OF issued]
  have "verify_device ex_voice_config (uuid_str 2) ''fp'' (voice_run ex_voice_config ?ops ex_voice_service) = Inr ex_phone"
    unfolding run by (simp add: verify_device_def verify_mtls_identity_def device_of_def new_voice_service_def)
  then have "\<exists>res t. resume ex_voice_config 2 ex_nonce (st_value token) (uuid_str 2) ''fp'' 0 (voice_run ex_voice_config ?ops ex_voice_service) = (Inr res, t)"
    unfolding run using token
    by (simp add: resume_def verify_for_resume_def get_session_def dict_get_def new_session_def TOKEN_NONCE_BYTES_def
        window_passed_def RECONNECT_WINDOW_def second_def replace_for_session_def replace_token_def abind_def split: prod.split)
  then obtain res t where r: "resume ex_voice_config 2 ex_nonce (st_value token) (uuid_str 2) ''fp'' 0 (voice_run ex_voice_config ?ops ex_voice_service) = (Inr res, t)"
    by blast
  from resume_correct [OF refl r] have "\<exists>x \<in> set (vs_sessions (voice_run ex_voice_config ?ops ex_voice_service)).
      rr_replayed_events res = dropWhile (\<lambda>e. int (ve_event_id e) \<le> 0) (ss_events x)"
    by blast
  with r show ?thesis by (intro exI [of _ ?ops] exI [of _ "st_value token"] exI [of _ res] exI [of _ t] conjI)
qed

end
