(* ===== verification/Voice_Lockout.thy ===== *)
theory Voice_Lockout
  imports Voice_Properties
begin

text \<open>
  What happens to a device whose token expires while its connection is open: an invariant of the state machine
  that no later operation leaves.
\<close>

section \<open>A token that expires while connected\<close>

text \<open>
  The session \<open>sid\<close> of device \<open>i\<close> is live and connected, and every token bound to it has expired: the
  client kept the connection open past the lifetime of its token.
\<close>

definition stranded :: "string \<Rightarrow> uuid \<Rightarrow> instant \<Rightarrow> voice_service \<Rightarrow> bool" where
  "stranded i sid now s \<longleftrightarrow> voice_inv s
     \<and> (\<exists>x. get_session s sid = Some x \<and> \<not> ss_ended x \<and> ss_disconnected_at x = None \<and> rq_device_id (ss_request x) = i)
     \<and> (\<forall>r \<in> set (tm_records (vs_tokens s)). st_session_id (tr_token r) = sid
          \<longrightarrow> dt_le (st_expires_at (tr_token r)) (utc_datetime now))"

definition expired_later :: "uuid \<Rightarrow> instant \<Rightarrow> token_record \<Rightarrow> bool" where
  "expired_later sid t r \<longleftrightarrow> (st_session_id (tr_token r) = sid \<longrightarrow> dt_le (st_expires_at (tr_token r)) (utc_datetime t))"

lemma dt_le_later: "dt_le d (utc_datetime s) \<Longrightarrow> s \<le> t \<Longrightarrow> dt_le d (utc_datetime t)"
  by (auto simp: dt_le_def utc_datetime_def utc_def split: if_splits)

lemma get_session_update:
  assumes "sid' \<noteq> sid" and "\<And>y. ss_session_id (f y) = ss_session_id y"
  shows "get_session (update_session sid' f s) sid = get_session s sid"
proof -
  have "find (\<lambda>x. ss_session_id x = sid) (map (\<lambda>x. if ss_session_id x = sid' then f x else x) xs)
      = find (\<lambda>x. ss_session_id x = sid) xs" for xs
    using assms by (induction xs) auto
  then show ?thesis by (simp add: get_session_def dict_get_def)
qed

lemma get_session_ignores [simp]:
  "get_session (s\<lparr>vs_tokens := a\<rparr>) sid = get_session s sid" "get_session (s\<lparr>vs_logs := b\<rparr>) sid = get_session s sid"
  "get_session (s\<lparr>vs_transcripts := c\<rparr>) sid = get_session s sid" "get_session (s\<lparr>vs_consent := d\<rparr>) sid = get_session s sid"
  "get_session (s\<lparr>vs_devices := e\<rparr>) sid = get_session s sid" "get_session (s\<lparr>vs_calls := f\<rparr>) sid = get_session s sid"
  "get_session (s\<lparr>vs_journal := g\<rparr>) sid = get_session s sid" "get_session (s\<lparr>vs_next_event_id := h\<rparr>) sid = get_session s sid"
  "get_session (s\<lparr>vs_next_conversation_sequence := k\<rparr>) sid = get_session s sid"
  "get_session (log_entry event x i n s) sid = get_session s sid"
  by (simp_all add: get_session_def log_entry_def)

lemma get_session_id: "get_session s k = Some x \<Longrightarrow> ss_session_id x = k"
  using dict_get_Some unfolding get_session_def by metis

text \<open>The part of the condition that the invariant does not cover, and the operations that leave it alone.\<close>

definition strand :: "string \<Rightarrow> uuid \<Rightarrow> instant \<Rightarrow> voice_service \<Rightarrow> bool" where
  "strand i sid now s \<longleftrightarrow>
     (\<exists>x. get_session s sid = Some x \<and> \<not> ss_ended x \<and> ss_disconnected_at x = None \<and> rq_device_id (ss_request x) = i)
     \<and> (\<forall>r \<in> set (tm_records (vs_tokens s)). expired_later sid now r)"

lemma stranded_split: "stranded i sid now s \<longleftrightarrow> voice_inv s \<and> strand i sid now s"
  by (auto simp: stranded_def strand_def expired_later_def)

lemma strand_ignores [simp]:
  "strand i sid now (s\<lparr>vs_logs := b\<rparr>) = strand i sid now s" "strand i sid now (s\<lparr>vs_transcripts := c\<rparr>) = strand i sid now s"
  "strand i sid now (s\<lparr>vs_consent := d\<rparr>) = strand i sid now s" "strand i sid now (s\<lparr>vs_devices := e\<rparr>) = strand i sid now s"
  "strand i sid now (s\<lparr>vs_calls := f\<rparr>) = strand i sid now s" "strand i sid now (log_entry event k j n s) = strand i sid now s"
  by (simp_all add: strand_def log_entry_def get_session_def)

lemma strand_update:
  "strand i sid now s \<Longrightarrow> sid' \<noteq> sid \<Longrightarrow> (\<And>y. ss_session_id (f y) = ss_session_id y) \<Longrightarrow> strand i sid now (update_session sid' f s)"
  by (simp add: strand_def get_session_update)

lemma strand_emitted: "strand i sid now s \<Longrightarrow> sid' \<noteq> sid \<Longrightarrow> strand i sid now (emitted sid' e s)"
  unfolding emitted_def by (rule strand_update) (simp_all add: strand_def)

lemma strand_emit:
  assumes "ss_session_id x \<noteq> sid"
  shows "keeps (strand i sid now) (emit at x kind turn body p)"
proof -
  have "strand i sid now (snd (emit at x kind turn body p s))" if "strand i sid now s" for s
    using that strand_emitted [OF that assms]
    by (cases rule: emit_cases [of at x kind turn body p s]) (simp_all add: strand_def)
  then show ?thesis by (auto intro!: tripleI) (metis snd_conv)+
qed

lemma strand_call: "keeps (strand i sid now) (call_provider cfg c)"
  by (rule tripleI) (auto simp: call_provider_def split: if_splits)

lemma stranded_session_unreachable:
  assumes "strand i sid now s" and "now \<le> t"
  shows "session_for_token cfg t v s = Inr x \<Longrightarrow> ss_session_id x \<noteq> sid"
    and "active_session cfg t v s = Inr x \<Longrightarrow> ss_session_id x \<noteq> sid"
proof -
  have *: "session_for_token cfg t v s = Inr y \<Longrightarrow> ss_session_id y \<noteq> sid" for y
  proof -
    assume "session_for_token cfg t v s = Inr y"
    then obtain r where r: "verified_record (vd_crypto cfg) (vs_tokens s) v = Inr r"
      and live: "\<not> dt_le (st_expires_at (tr_token r)) (utc_datetime t)"
      and y: "get_session s (st_session_id (tr_token r)) = Some y"
      by (auto simp: session_for_token_def verify_token_def split: option.splits if_splits)
    have "st_session_id (tr_token r) \<noteq> sid"
      using assms verified_record_Inr(1) [OF r] live dt_le_later by (auto simp: strand_def expired_later_def)
    with get_session_id [OF y] show ?thesis by simp
  qed
  show "session_for_token cfg t v s = Inr x \<Longrightarrow> ss_session_id x \<noteq> sid" by (rule *)
  show "active_session cfg t v s = Inr x \<Longrightarrow> ss_session_id x \<noteq> sid"
    using * by (auto simp: active_session_def split: if_splits)
qed

lemma strand_read:
  assumes "now \<le> t" and "\<And>x. ss_session_id x \<noteq> sid \<Longrightarrow> keeps (strand i sid now) (f x)"
  shows "keeps (strand i sid now) (abind (aread (active_session cfg t v)) f)"
    and "keeps (strand i sid now) (abind (aread (session_for_token cfg t v)) f)"
  by (rule keeps_read [where B = "\<lambda>x. ss_session_id x \<noteq> sid"];
      use assms stranded_session_unreachable [OF _ assms(1)] in blast)+

lemmas strand_rules = triple_abind [where R = "\<lambda>_. strand i sid now" for i sid now] strand_emit strand_call triple_areturn triple_amodify
  triple_alift triple_araise triple_if triple_option strand_update

lemma strand_ops:
  assumes "now \<le> t"
  shows "keeps (strand i sid now) (append_audio cfg t v fr)" and "keeps (strand i sid now) (accept_partial cfg t v turn body)"
    and "keeps (strand i sid now) (queue_tts cfg t v turn pcm)" and "keeps (strand i sid now) (barge_in cfg t v turn)"
    and "keeps (strand i sid now) (disconnect cfg t v)"
  unfolding append_audio_def accept_partial_def queue_tts_def barge_in_def disconnect_def emitters
  by (rule strand_read [OF assms]; auto intro!: strand_rules)+

lemma strand_finalize: "now \<le> t \<Longrightarrow> keeps (strand i sid now) (finalize cfg t v turn body)"
proof -
  assume "now \<le> t"
  have "keeps (strand i sid now) (journal_final t k turn body)" for k
    by (rule tripleI) (auto simp: journal_final_def Let_def split: prod.splits)
  then show ?thesis unfolding finalize_def emitters
    by (intro strand_read(1) [OF \<open>now \<le> t\<close>]) (auto intro!: strand_rules)
qed

lemma strand_progress: "now \<le> t \<Longrightarrow> keeps (strand i sid now) (queue_action_progress cfg t v turn body)"
proof -
  assume "now \<le> t"
  have "k \<noteq> sid \<Longrightarrow> keeps (strand i sid now) (emit_voice k kind turn body)" for k kind
    by (rule tripleI) (auto simp: emit_voice_eq Let_def strand_emitted)
  then show ?thesis unfolding queue_action_progress_def emit_action_progress_def
    by (intro strand_read(1) [OF \<open>now \<le> t\<close>]) (auto intro!: strand_rules)
qed

lemma strand_tokens:
  assumes "strand i sid now s" and "\<And>r. r \<in> set (tm_records tm) \<Longrightarrow> r \<in> set (tm_records (vs_tokens s)) \<or> st_session_id (tr_token r) \<noteq> sid"
  shows "strand i sid now (s\<lparr>vs_tokens := tm\<rparr>)"
  using assms by (auto simp: strand_def expired_later_def)

lemma strand_end: "now \<le> t \<Longrightarrow> keeps (strand i sid now) (end_session cfg t v)"
  unfolding end_session_def close_provider_def
  by (rule strand_read(2)) (auto intro!: strand_rules strand_tokens simp: invalidate_token_def)

lemma issue_token_records:
  "issue_token vc nonce k d at tm = (token, tm') \<Longrightarrow> r \<in> set (tm_records tm')
   \<Longrightarrow> r \<in> set (tm_records tm) \<or> st_session_id (tr_token r) = k"
  by (auto simp: issue_token_def Let_def dest!: set_keyed_put [THEN subsetD])

lemma replace_token_records:
  assumes "replace_token vc nonce v at tm = Inr new" and "verified_record vc tm v = Inr old" and "r \<in> set (tm_records (snd new))"
  shows "r \<in> set (tm_records tm) \<or> st_session_id (tr_token r) = st_session_id (tr_token old)"
proof -
  obtain token tm' where new: "new = (token, tm')" by fastforce
  from assms(1,2) new have "issue_token vc nonce (st_session_id (tr_token old)) (st_device_id (tr_token old)) at
      (tm\<lparr>tm_records := dict_pop tr_digest (tr_digest old) (tm_records tm)\<rparr>) = (token, tm')"
    by (simp add: replace_token_def)
  from issue_token_records [OF this] assms(3) new show ?thesis by auto
qed

lemma strand_resume: "keeps (strand i sid now) (resume cfg t nonce v j fp n)"
proof -
  have "strand i sid now (snd (resume cfg t nonce v j fp n s))" if strand: "strand i sid now s" for s
  proof (cases "fst (resume cfg t nonce v j fp n s)")
    case (Inl e)
    then have "snd (resume cfg t nonce v j fp n s) = s"
      by (auto simp: resume_def abind_def replace_for_session_def split: sum.splits prod.splits option.splits)
    with strand show ?thesis by simp
  next
    case (Inr res)
    then have "resume cfg t nonce v j fp n s = (Inr res, snd (resume cfg t nonce v j fp n s))" by (metis prod.collapse)
    then obtain old x tm where old: "verified_record (vd_crypto cfg) (vs_tokens s) v = Inr old"
      and x: "get_session s (st_session_id (tr_token old)) = Some x" "ss_disconnected_at x \<noteq> None"
      and issued: "replace_token (vd_crypto cfg) nonce v (utc_datetime t) (vs_tokens s) = Inr tm"
      and eq: "snd (resume cfg t nonce v j fp n s) =
        update_session (ss_session_id x) (\<lambda>y. y\<lparr>ss_disconnected_at := None\<rparr>) (s\<lparr>vs_tokens := snd tm\<rparr>)"
      unfolding resume_def replace_for_session_def verify_for_resume_def
      by (auto split: sum.splits prod.splits option.splits)
    have other: "st_session_id (tr_token old) \<noteq> sid" using strand x by (auto simp: strand_def)
    have "strand i sid now (s\<lparr>vs_tokens := snd tm\<rparr>)"
      using replace_token_records [OF issued old] other by (intro strand_tokens [OF strand]) metis
    then show ?thesis unfolding eq using other get_session_id [OF x(1)] by (intro strand_update) auto
  qed
  then show ?thesis by (auto intro!: tripleI) (metis snd_conv)+
qed

lemma strand_has_active: "strand i sid now s \<Longrightarrow> has_active_session i s"
  using dict_get_Some [of ss_session_id "vs_sessions s" sid]
  by (auto simp: strand_def has_active_session_def list_ex_iff get_session_def)

lemma stranded_expire: "triple (stranded i sid now) (expire_disconnected_sessions cfg t) (\<lambda>_. stranded i sid now) (\<lambda>_. stranded i sid now)"
proof -
  let ?B = "\<lambda>xs. \<forall>x \<in> set xs. window_passed t x \<longrightarrow> ss_session_id x \<noteq> sid"
  have loop: "keeps (strand i sid now) (expire_sessions cfg t xs)" if "?B xs" for xs
    using that
  proof (induction xs)
    case Nil
    show ?case unfolding expire_sessions.simps by (rule triple_areturn)
  next
    case (Cons x xs)
    then show ?case unfolding expire_sessions.simps close_provider_def
      by (auto intro!: strand_rules)
  qed
  have "triple (stranded i sid now) (aget vs_sessions) (\<lambda>xs s. stranded i sid now s \<and> ?B xs) (\<lambda>_. stranded i sid now)"
  proof (rule triple_aget, intro conjI ballI impI)
    fix s x assume s: "stranded i sid now s" and x: "x \<in> set (vs_sessions s)" "window_passed t x"
    obtain y where y: "get_session s sid = Some y" "ss_disconnected_at y = None" using s by (auto simp: stranded_def)
    have "distinct (map ss_session_id (vs_sessions s))" using s by (simp add: stranded_def voice_inv_def sessions_ok_def)
    from dict_get_distinct [OF this x(1)] show "ss_session_id x \<noteq> sid"
      using x(2) y by (auto simp: get_session_def window_passed_def)
  qed
  moreover have "keeps (stranded i sid now) (expire_sessions cfg t xs)" if "?B xs" for xs
    using triple_conj [OF safe_expire_sessions [of cfg t xs] loop [OF that]]
    by (rule triple_weaken) (auto simp: stranded_split)
  ultimately show ?thesis unfolding expire_disconnected_sessions_def
    by (intro triple_abind [where R = "\<lambda>xs s. stranded i sid now s \<and> ?B xs"] triple_pure) auto
qed

lemma stranded_start_refused:
  "triple (stranded i sid now) (start cfg t k nonce r) (\<lambda>_ _. rq_device_id r \<noteq> i) (\<lambda>_ _. True)"
  unfolding start_def
  apply (rule triple_abind [where R = "\<lambda>_. stranded i sid now"], rule triple_aread; simp)
  apply (rule triple_abind [where R = "\<lambda>_. stranded i sid now"], rule triple_weaken [OF stranded_expire]; simp)
  apply (rule triple_abind [where R = "\<lambda>_ _. rq_device_id r \<noteq> i"], rule triple_aread)
    apply (auto simp: stranded_split require_def dest: strand_has_active split: if_splits)[1]
   apply simp
  apply (rule tripleI; simp)
  done

lemma strand_provider: "keeps (strand i sid now) (start_provider_session cfg at surface)"
  unfolding start_provider_session_def
  by (intro strand_rules triple_aread triple_aget) (auto simp: provider_start_def intro!: tripleI)

lemma strand_put:
  assumes "strand i sid now s" and "ss_session_id x \<noteq> sid"
  shows "strand i sid now (s\<lparr>vs_sessions := keyed_put ss_session_id x (vs_sessions s)\<rparr>)"
  using assms dict_get_keyed_put_other [of ss_session_id x sid "vs_sessions s"] by (simp add: strand_def get_session_def)

lemma strand_issue: "k \<noteq> sid \<Longrightarrow> keeps (strand i sid now) (issue_for_session cfg nonce k d t)"
  by (rule tripleI)
    (auto simp: issue_for_session_def Let_def split: prod.splits intro!: strand_tokens dest: issue_token_records)

lemma strand_start:
  assumes "k \<noteq> sid"
  shows "triple (stranded i sid now) (start cfg t k nonce r) (\<lambda>_. strand i sid now) (\<lambda>_. strand i sid now)"
  unfolding start_def
  apply (rule triple_abind [where R = "\<lambda>_. stranded i sid now"])
   apply (rule triple_aread; simp add: stranded_split)
  apply (rule triple_abind [where R = "\<lambda>_. strand i sid now"])
   apply (rule triple_weaken [OF stranded_expire [of i sid now]]; simp add: stranded_split)
  apply (intro triple_abind [where R = "\<lambda>_. strand i sid now"] triple_prod3 triple_areturn triple_amodify triple_aread strand_provider strand_issue assms)
  using assms by (auto intro!: strand_put simp: new_session_def)

definition later_and_fresh :: "uuid \<Rightarrow> instant \<Rightarrow> (instant \<times> voice_op) list \<Rightarrow> bool" where
  "later_and_fresh sid now ops \<longleftrightarrow>
     list_all (\<lambda>(t, x). now \<le> t \<and> (case x of Start k nonce r \<Rightarrow> k \<noteq> sid | _ \<Rightarrow> True)) ops"

lemma snd_ignore: "snd (ignore m s) = snd (m s)" and fst_ignore: "fst (ignore m s) = Inr u \<longleftrightarrow> (\<exists>x. fst (m s) = Inr x)"
  by (simp_all add: ignore_def abind_def split: prod.split sum.split)

lemma stranded_exec:
  assumes "stranded i sid now s" and "now \<le> t" and "case x of Start k nonce r \<Rightarrow> k \<noteq> sid | _ \<Rightarrow> True"
  shows "stranded i sid now (snd (voice_exec cfg t x s))"
proof -
  have "strand i sid now s" and inv: "voice_inv s" using assms(1) by (simp_all add: stranded_split)
  note keep = keeps_snd [where P = "strand i sid now" and I = "strand i sid now" and s = s, OF _ this(1)]
  have "strand i sid now (snd (voice_exec cfg t x s))"
    using assms(2,3) \<open>strand i sid now s\<close> keeps_snd [OF strand_start assms(1)] keep [OF strand_ops(1)] keep [OF strand_ops(2)]
      keep [OF strand_ops(3)] keep [OF strand_ops(4)] keep [OF strand_ops(5)] keep [OF strand_finalize]
      keep [OF strand_progress] keep [OF strand_end] keep [OF strand_resume]
    by (cases x) (simp_all add: snd_ignore device_op_def split: sum.split prod.split)
  with keeps_snd [OF keeps_exec inv] show ?thesis by (simp add: stranded_split)
qed

lemma stranded_run: "stranded i sid now s \<Longrightarrow> later_and_fresh sid now ops \<Longrightarrow> stranded i sid now (voice_run cfg ops s)"
proof (induction ops arbitrary: s)
  case (Cons a ops)
  obtain t x where a: "a = (t, x)" by fastforce
  from Cons.prems a have "now \<le> t" "case x of Start k nonce r \<Rightarrow> k \<noteq> sid | _ \<Rightarrow> True" "later_and_fresh sid now ops"
    by (simp_all add: later_and_fresh_def)
  with Cons.IH [OF stranded_exec [OF Cons.prems(1)]] a show ?case by simp
qed simp

text \<open>
  C19: a token that expires on an open connection locks its device out.  Once a live, connected session has no
  unexpired token, nothing that happens later frees the device, short of a restart of the service (or a
  collision of session identifiers): the session stays live and connected through every sequence of later
  operations, and every attempt to start a new session for the device fails.
\<close>

theorem expired_token_locks_device:
  assumes "stranded i sid now s" and "later_and_fresh sid now ops" and "now \<le> t" and "rq_device_id r = i"
  shows "(\<exists>x. get_session (voice_run cfg ops s) sid = Some x \<and> \<not> ss_ended x \<and> ss_disconnected_at x = None)
    \<and> (\<exists>e. fst (start cfg t k nonce r (voice_run cfg ops s)) = Inl e)"
proof -
  have run: "stranded i sid now (voice_run cfg ops s)" by (rule stranded_run [OF assms(1,2)])
  obtain y u where y: "start cfg t k nonce r (voice_run cfg ops s) = (y, u)" by fastforce
  have "\<exists>e. y = Inl e"
  proof (cases y)
    case (Inr z)
    with triple_value [OF stranded_start_refused run] y assms(4) show ?thesis by blast
  qed simp
  with y run show ?thesis by (auto simp: stranded_def)
qed

theorem expired_token_locks_device_witness:
  "\<exists>s e. stranded (uuid_str 2) 4 SESSION_TOKEN_TTL s
     \<and> fst (start ex_voice_config SESSION_TOKEN_TTL 9 ex_nonce ex_voice_request s) = Inl e"
proof -
  let ?run = "voice_run ex_voice_config [(0, Start 4 ex_nonce ex_voice_request)] ex_voice_service"
  obtain token tm logs where run: "?run =
     ex_voice_service\<lparr>vs_sessions := [new_session 4 ex_voice_request LOCAL_TEXT None], vs_tokens := tm, vs_logs := logs\<rparr>"
    and issued: "issue_token ex_voice_crypto ex_nonce 4 (uuid_str 2) (utc_datetime 0) (new_token_manager ''k'') = (token, tm)"
    using ex_start by blast
  have "tm_records tm = [\<lparr>tr_token = token, tr_digest = st_value token\<rparr>]" and "st_expires_at token = utc_datetime SESSION_TOKEN_TTL"
    using issued by (auto simp: issue_token_def new_token_manager_def Let_def)
  moreover have "voice_inv ?run" by (rule voice_inv_run [OF voice_inv_new])
  ultimately have stranded: "stranded (uuid_str 2) 4 SESSION_TOKEN_TTL ?run"
    unfolding stranded_def run by (simp add: get_session_def dict_get_def new_session_def)
  have "\<exists>e. fst (start ex_voice_config SESSION_TOKEN_TTL 9 ex_nonce ex_voice_request ?run) = Inl e"
    using expired_token_locks_device [OF stranded, of "[]" SESSION_TOKEN_TTL ex_voice_request ex_voice_config 9 ex_nonce]
    by (simp add: later_and_fresh_def del: voice_exec.simps)
  with stranded show ?thesis by blast
qed

end
