(* ===== verification/Rollout.thy ===== *)
theory Rollout
  imports Authority_Properties Leases Repository_Properties
begin

text \<open>
  \<open>rollout.py\<close>, \<open>rollout_models.py\<close> and the revision policy of \<open>openclaw/contracts.py\<close>: staged rollouts
  that never enable anything.  The coordinator composes the proposal lifecycle, the lease issuer and the
  domain repository; its state is theirs side by side.  Reading a preview back from its JSON text is
  pydantic's and a parameter.
\<close>

section \<open>Plans and previews\<close>

definition OPENCLAW_REVISION :: string where "OPENCLAW_REVISION = ''befc0c24''"

definition ALLOWED_ENDPOINTS :: "string list" where
  "ALLOWED_ENDPOINTS = [''conversation.get'', ''conversation.events.list'', ''conversation.events.append'']"

definition ALLOWED_CAPABILITIES :: "string list" where
  "ALLOWED_CAPABILITIES = [''conversation.read'', ''conversation.write'']"

record revision_compatibility =
  rc_compatible :: bool
  rc_expected_revision :: string
  rc_presented_revision :: string

definition assess_revision :: "string \<Rightarrow> revision_compatibility" where
  "assess_revision presented =
     \<lparr>rc_compatible = (presented = OPENCLAW_REVISION), rc_expected_revision = OPENCLAW_REVISION, rc_presented_revision = presented\<rparr>"

definition ROLLOUT_CAPABILITY :: string where "ROLLOUT_CAPABILITY = ''rollout.stage''"
definition ROLLOUT_WORKER :: string where "ROLLOUT_WORKER = ''lifeos-rollout''"

datatype rollout_target = SANDBOX | PRODUCTION

fun target_value :: "rollout_target \<Rightarrow> string" where
  "target_value SANDBOX = ''sandbox''"
| "target_value PRODUCTION = ''production''"

record rollout_plan =
  pl_rollout_id :: string
  pl_target :: rollout_target
  pl_pinned_revision :: string
  pl_candidate_revision :: string
  pl_expected_endpoints :: "string list"
  pl_expected_capabilities :: "string list"
  pl_reversible :: bool
  pl_fabric_enabled :: bool
  pl_workers_enabled :: bool
  pl_production_capabilities_enabled :: bool

record rollout_preview =
  rp_rollout_id :: string
  rp_target :: rollout_target
  rp_candidate_revision :: string
  rp_revision_compatible :: bool
  rp_endpoints_unchanged :: bool
  rp_capabilities_unchanged :: bool
  rp_reversible :: bool
  rp_fabric_enabled :: bool
  rp_workers_enabled :: bool
  rp_production_capabilities_enabled :: bool
  rp_external_operations :: int

definition canonical_payload :: "rollout_preview \<Rightarrow> string" where
  "canonical_payload v = json_dumps (JObject
     [(''rollout_id'', JString (rp_rollout_id v)), (''target'', JString (target_value (rp_target v))),
      (''candidate_revision'', JString (rp_candidate_revision v)), (''revision_compatible'', JBool (rp_revision_compatible v)),
      (''endpoints_unchanged'', JBool (rp_endpoints_unchanged v)), (''capabilities_unchanged'', JBool (rp_capabilities_unchanged v)),
      (''reversible'', JBool (rp_reversible v)), (''fabric_enabled'', JBool (rp_fabric_enabled v)),
      (''workers_enabled'', JBool (rp_workers_enabled v)),
      (''production_capabilities_enabled'', JBool (rp_production_capabilities_enabled v)),
      (''external_operations'', JInt (rp_external_operations v))])"

record rollout_result =
  ro_proposal :: proposal_record
  ro_fabric_enabled :: bool
  ro_workers_enabled :: bool
  ro_production_capabilities_enabled :: bool
  ro_audit_entries :: nat

record rollout_approval_request =
  ra_approval :: approval
  ra_fingerprint :: string
  ra_context :: transition_context

datatype rollout_error =
    RolloutViolationError string
  | RolloutPolicy policy_error
  | RolloutLease lease_error
  | RolloutDevice device_error
  | RolloutStore repository_error
  | PreviewValidationError

definition ROLLOUT_APPROVAL_MATRIX :: approval_matrix where
  "ROLLOUT_APPROVAL_MATRIX =
     [\<lparr>ar_action_class = ''rollout.apply'', ar_required_tier = ACT, ar_proof_required = True, ar_allowed_proofs = [DEVICE_SIGNED]\<rparr>]"

section \<open>The coordinator\<close>

record rollout_env =
  rl_authority :: authority_env
  rl_repository :: repository_env
  rl_hmac :: "string \<Rightarrow> string \<Rightarrow> string"
  parse_preview :: "string \<Rightarrow> rollout_preview option"

record rollout_state =
  rs_store :: "domain_db connection"
  rs_consumption :: "consumption_key list connection"
  rs_issuer :: lease_issuer
  rs_devices :: registry

type_synonym 'a rollout = "(rollout_state, rollout_error, 'a) action"

text \<open>An action of one part of the state, with its exceptions passed on.\<close>

definition on_store :: "'a store_action \<Rightarrow> 'a rollout" where
  "on_store m s = (case m (rs_store s) of
       (Inl e, t) \<Rightarrow> (Inl (RolloutStore e), s\<lparr>rs_store := t\<rparr>)
     | (Inr x, t) \<Rightarrow> (Inr x, s\<lparr>rs_store := t\<rparr>))"

definition on_consumption :: "(consumption_key list connection, policy_error, 'a) action \<Rightarrow> 'a rollout" where
  "on_consumption m s = (case m (rs_consumption s) of
       (Inl e, t) \<Rightarrow> (Inl (RolloutPolicy e), s\<lparr>rs_consumption := t\<rparr>)
     | (Inr x, t) \<Rightarrow> (Inr x, s\<lparr>rs_consumption := t\<rparr>))"

definition on_issuer :: "(lease_issuer, lease_error, 'a) action \<Rightarrow> 'a rollout" where
  "on_issuer m s = (case m (rs_issuer s) of
       (Inl e, t) \<Rightarrow> (Inl (RolloutLease e), s\<lparr>rs_issuer := t\<rparr>)
     | (Inr x, t) \<Rightarrow> (Inr x, s\<lparr>rs_issuer := t\<rparr>))"

definition dry_run :: "rollout_plan \<Rightarrow> rollout_preview" where
  "dry_run plan =
     (let compatibility = assess_revision (pl_candidate_revision plan) in
      \<lparr>rp_rollout_id = pl_rollout_id plan, rp_target = pl_target plan, rp_candidate_revision = pl_candidate_revision plan,
       rp_revision_compatible = (rc_compatible compatibility \<and> pl_pinned_revision plan = rc_expected_revision compatibility),
       rp_endpoints_unchanged = (set (pl_expected_endpoints plan) = set ALLOWED_ENDPOINTS),
       rp_capabilities_unchanged = (set (pl_expected_capabilities plan) = set ALLOWED_CAPABILITIES),
       rp_reversible = pl_reversible plan, rp_fabric_enabled = pl_fabric_enabled plan,
       rp_workers_enabled = pl_workers_enabled plan,
       rp_production_capabilities_enabled = pl_production_capabilities_enabled plan, rp_external_operations = 0\<rparr>)"

definition safe_preview :: "rollout_preview \<Rightarrow> bool" where
  "safe_preview v \<longleftrightarrow> rp_target v = SANDBOX \<and> rp_revision_compatible v \<and> rp_endpoints_unchanged v \<and> rp_capabilities_unchanged v
     \<and> rp_reversible v \<and> \<not> rp_fabric_enabled v \<and> \<not> rp_workers_enabled v \<and> \<not> rp_production_capabilities_enabled v
     \<and> rp_external_operations v = 0"

definition require_safe_preview :: "rollout_preview \<Rightarrow> rollout_error + unit" where
  "require_safe_preview v = require (safe_preview v) (RolloutViolationError ''rollout is not an inert reversible sandbox stage'')"

definition rollout_capability :: "rollout_preview \<Rightarrow> datetime \<Rightarrow> domain_record" where
  "rollout_capability v now =
     \<lparr>record_id = rp_rollout_id v, record_created_at = now, record_state = ''proposed'',
      record_body = Capability (rp_rollout_id v) ''integration-fabric-and-workers'' False\<rparr>"

definition propose :: "rollout_env \<Rightarrow> datetime \<Rightarrow> rollout_preview \<Rightarrow> transition_context \<Rightarrow> proposal_record rollout" where
  "propose env now v ctx =
     abind (alift (require_safe_preview v)) (\<lambda>_.
     abind (on_store (create_record (rl_repository env) (rollout_capability v now) ctx)) (\<lambda>_.
       areturn \<lparr>proposal_id = rp_rollout_id v, action_class = ''rollout.apply'', payload = canonical_payload v,
                proposal_state_of = PROPOSED, created_at = now\<rparr>))"

definition stage :: "rollout_env \<Rightarrow> proposal_record \<Rightarrow> proposal_state \<Rightarrow> transition_context \<Rightarrow> unit rollout" where
  "stage env p st ctx =
     on_store (transition_record (rl_repository env) CAPABILITY (proposal_id p) (proposal_state_value st) ctx)"

definition rollout_approve ::
  "rollout_env \<Rightarrow> datetime \<Rightarrow> proposal_record \<Rightarrow> rollout_approval_request \<Rightarrow> proposal_record rollout" where
  "rollout_approve env now p request =
     (case approval_device_id (ra_approval request) of
        None \<Rightarrow> araise (RolloutViolationError ''device-signed rollout approval required'')
      | Some i \<Rightarrow>
          abind (aread (\<lambda>s. case verify_mtls_identity (devices_env (rl_authority env)) (rs_devices s) i (ra_fingerprint request) of
                              Inl e \<Rightarrow> Inl (RolloutDevice e) | Inr d \<Rightarrow> Inr d)) (\<lambda>_.
          abind (aget rs_devices) (\<lambda>reg.
          abind (on_consumption (approve encrypted_ops (rl_authority env) reg now p (ra_approval request) ROLLOUT_APPROVAL_MATRIX)) (\<lambda>st.
          abind (stage env p st (ra_context request)) (\<lambda>_.
            areturn (p\<lparr>proposal_state_of := st\<rparr>))))))"

definition rollout_outcome :: "proposal_record \<Rightarrow> rollout_result rollout" where
  "rollout_outcome p =
     aget (\<lambda>s. \<lparr>ro_proposal = p, ro_fabric_enabled = False, ro_workers_enabled = False,
       ro_production_capabilities_enabled = False,
       ro_audit_entries = length (ledger_entries (db_ledger (current (rs_store s))))\<rparr>)"

definition rollout_apply ::
  "rollout_env \<Rightarrow> instant \<Rightarrow> proposal_record \<Rightarrow> capability_lease \<Rightarrow> transition_context \<Rightarrow> rollout_result rollout" where
  "rollout_apply env now p lease ctx =
     (case parse_preview env (payload p) of
        None \<Rightarrow> araise PreviewValidationError
      | Some v \<Rightarrow>
          abind (alift (require_safe_preview v)) (\<lambda>_.
          abind (alift (require (capability lease = ROLLOUT_CAPABILITY \<and> worker_id lease = ROLLOUT_WORKER)
                          (RolloutViolationError ''rollout lease scope mismatch''))) (\<lambda>_.
          abind (on_issuer (verify_lease (rl_authority env) (rl_hmac env) now lease p)) (\<lambda>_.
          abind (on_consumption (apply_proposal encrypted_ops (rl_authority env) (utc_datetime now) p lease)) (\<lambda>st.
          abind (stage env p st ctx) (\<lambda>_.
            rollout_outcome (p\<lparr>proposal_state_of := st\<rparr>)))))))"

definition rollout_rollback ::
  "rollout_env \<Rightarrow> datetime \<Rightarrow> proposal_record \<Rightarrow> rollback \<Rightarrow> transition_context \<Rightarrow> rollout_result rollout" where
  "rollout_rollback env now p rb ctx =
     abind (on_consumption (revert encrypted_ops (rl_authority env) now p rb)) (\<lambda>st.
     abind (stage env p st ctx) (\<lambda>_. rollout_outcome (p\<lparr>proposal_state_of := st\<rparr>)))"

section \<open>Lemmas\<close>

lemma on_store_Inr: "on_store m s = (Inr x, s') \<longleftrightarrow> (\<exists>t. m (rs_store s) = (Inr x, t) \<and> s' = s\<lparr>rs_store := t\<rparr>)"
  by (auto simp: on_store_def split: prod.splits sum.splits)

lemma on_consumption_Inr:
  "on_consumption m s = (Inr x, s') \<longleftrightarrow> (\<exists>t. m (rs_consumption s) = (Inr x, t) \<and> s' = s\<lparr>rs_consumption := t\<rparr>)"
  by (auto simp: on_consumption_def split: prod.splits sum.splits)

lemma on_issuer_Inr: "on_issuer m s = (Inr x, s') \<longleftrightarrow> (\<exists>t. m (rs_issuer s) = (Inr x, t) \<and> s' = s\<lparr>rs_issuer := t\<rparr>)"
  by (auto simp: on_issuer_def split: prod.splits sum.splits)

lemmas rollout_simps = on_store_Inr on_consumption_Inr on_issuer_Inr require_safe_preview_def

definition inert_plan :: "rollout_plan \<Rightarrow> bool" where
  "inert_plan plan \<longleftrightarrow> pl_target plan = SANDBOX \<and> pl_candidate_revision plan = OPENCLAW_REVISION
     \<and> pl_pinned_revision plan = OPENCLAW_REVISION \<and> set (pl_expected_endpoints plan) = set ALLOWED_ENDPOINTS
     \<and> set (pl_expected_capabilities plan) = set ALLOWED_CAPABILITIES \<and> pl_reversible plan \<and> \<not> pl_fabric_enabled plan
     \<and> \<not> pl_workers_enabled plan \<and> \<not> pl_production_capabilities_enabled plan"

lemma safe_dry_run: "safe_preview (dry_run plan) \<longleftrightarrow> inert_plan plan"
  by (auto simp: safe_preview_def dry_run_def inert_plan_def assess_revision_def Let_def)

lemma apply_proposal_Inr:
  assumes "apply_proposal ops env now p lease s = (Inr st, s')"
  shows "st = APPLIED" and "proposal_state_of p = APPROVED" and "fact_proposal_id lease = proposal_id p"
    and "fact_payload_hash lease = payload_hash env p" and "\<not> dt_le (expires_at lease) now"
    and "store_consume ops [(''apply'', fact_id lease)] s = (True, s')"
  using assms
  by (auto simp: apply_proposal_def check_fact_def consume_one_def py_compare_def split: if_splits dest!: claim_Inr)

lemma verify_lease_accepts:
  assumes "verify_lease env hmac now lease p issuer = (Inr v, issuer')"
  shows "lease_signature lease = hmac (current_key (issuer_keys issuer)) (lease_payload lease)"
    and "fact_id lease \<notin> lease_consumed issuer" and "lease_consumed issuer' = insert (fact_id lease) (lease_consumed issuer)"
  using assms by (auto simp: verify_lease_def ring_verify_def split: if_splits)

section \<open>Properties\<close>

text \<open>
  A plan becomes a proposal exactly when it is inert.  The dry run of a plan is refused, with nothing
  changed, unless the plan targets the sandbox, pins and presents the reviewed revision, expects exactly the
  allowed endpoints and capabilities, is reversible and enables nothing; for an inert plan with a fresh
  identity the proposal is recorded as an ungranted capability in state \<open>proposed\<close> with one audit entry, and its
  payload is the canonical text of the preview.
\<close>

theorem propose_inert_only:
  assumes "repo_inv (rl_repository env) db" and "record_codec_ok (rl_repository env)" and "rs_store s = idle db"
  shows "if \<not> inert_plan plan
     then propose env now (dry_run plan) ctx s = (Inl (RolloutViolationError ''rollout is not an inert reversible sandbox stage''), s)
     else if pl_rollout_id plan \<in> tb_record_id ` set (db_tombstones db)
        \<or> read_record (rl_repository env) db CAPABILITY (pl_rollout_id plan) \<noteq> Inr None
     then \<exists>e. propose env now (dry_run plan) ctx s = (Inl (RolloutStore e), s)
     else \<exists>p db'. propose env now (dry_run plan) ctx s = (Inr p, s\<lparr>rs_store := idle db'\<rparr>)
       \<and> proposal_id p = pl_rollout_id plan \<and> proposal_state_of p = PROPOSED \<and> payload p = canonical_payload (dry_run plan)
       \<and> read_record (rl_repository env) db' CAPABILITY (pl_rollout_id plan) = Inr (Some (rollout_capability (dry_run plan) now))
       \<and> audit_count db' = Suc (audit_count db)"
proof (cases "inert_plan plan")
  case False
  then show ?thesis by (simp add: propose_def require_safe_preview_def safe_dry_run)
next
  case True
  let ?r = "rollout_capability (dry_run plan) now"
  have r: "valid_record ?r" "kind_of_record ?r = CAPABILITY" "record_id ?r = pl_rollout_id plan"
    by (simp_all add: rollout_capability_def valid_record_def kind_of_record_def dry_run_def Let_def)
  have s: "s\<lparr>rs_store := idle db\<rparr> = s" using assms(3) by simp
  have run: "propose env now (dry_run plan) ctx s =
      abind (on_store (create_record (rl_repository env) ?r ctx)) (\<lambda>_.
        areturn \<lparr>proposal_id = rp_rollout_id (dry_run plan), action_class = ''rollout.apply'', payload = canonical_payload (dry_run plan),
                 proposal_state_of = PROPOSED, created_at = now\<rparr>) s"
    using True by (simp add: propose_def require_safe_preview_def safe_dry_run)
  from create_record_outcome [OF assms(1,2) r(1), of ctx] True show ?thesis
    unfolding run r using s by (auto simp: on_store_def assms(3) abind_def dry_run_def Let_def split: if_splits)
qed

definition ex_plan :: rollout_plan where
  "ex_plan = \<lparr>pl_rollout_id = ''r1'', pl_target = SANDBOX, pl_pinned_revision = OPENCLAW_REVISION,
     pl_candidate_revision = OPENCLAW_REVISION, pl_expected_endpoints = ALLOWED_ENDPOINTS,
     pl_expected_capabilities = ALLOWED_CAPABILITIES, pl_reversible = True, pl_fabric_enabled = False,
     pl_workers_enabled = False, pl_production_capabilities_enabled = False\<rparr>"

definition ex_rollout_env :: rollout_env where
  "ex_rollout_env = \<lparr>rl_authority = ex_lease_env, rl_repository = text_repository_env, rl_hmac = ex_hmac,
     parse_preview = \<lambda>t. Some (dry_run ex_plan)\<rparr>"

definition ex_rollout_state :: "domain_db \<Rightarrow> rollout_state" where
  "ex_rollout_state db = \<lparr>rs_store = idle db, rs_consumption = idle [], rs_issuer = ex_issuer, rs_devices = new_registry None\<rparr>"

lemma ex_plan_inert: "inert_plan ex_plan"
  by (simp add: inert_plan_def ex_plan_def)

lemma ex_rollout_new:
  "repo_inv (rl_repository ex_rollout_env) new_domain_db" "record_codec_ok (rl_repository ex_rollout_env)"
  "rs_store (ex_rollout_state db) = idle db"
  by (simp_all add: ex_rollout_env_def ex_rollout_state_def repo_inv_new text_repository_env_codec)

theorem propose_inert_only_witness:
  "\<exists>p s'. propose ex_rollout_env (utc_datetime 0) (dry_run ex_plan) ex_ctx (ex_rollout_state new_domain_db) = (Inr p, s')
     \<and> payload p = canonical_payload (dry_run ex_plan)"
proof -
  have "read_record (rl_repository ex_rollout_env) new_domain_db CAPABILITY (pl_rollout_id ex_plan) = Inr None"
    by (simp add: read_record_def new_domain_db_def versions_of_def)
  with propose_inert_only [OF ex_rollout_new(1,2) ex_rollout_new(3), of ex_plan "utc_datetime 0" ex_ctx] show ?thesis
    by (auto simp: ex_plan_inert new_domain_db_def)
qed

text \<open>
  C20: a stage is applied only under an exact one-shot lease and never enables anything.  If \<open>apply\<close>
  succeeds, the preview in the proposal's payload is an inert sandbox stage, the proposal was approved, the
  lease is scoped to the rollout capability and worker, bound to this proposal and payload, signed with the
  issuer's current key, in force, and unused before both at the issuer and in the consumption store; it is
  consumed at both afterwards, the result reports every capability disabled, and applying with the same lease
  again fails.
\<close>

theorem apply_guarded:
  assumes "rollout_apply env now p lease ctx s = (Inr res, s')"
  shows "(\<exists>v. parse_preview env (payload p) = Some v \<and> safe_preview v) \<and> proposal_state_of p = APPROVED
    \<and> capability lease = ROLLOUT_CAPABILITY \<and> worker_id lease = ROLLOUT_WORKER
    \<and> fact_proposal_id lease = proposal_id p \<and> fact_payload_hash lease = sha256_hex (rl_authority env) (payload p)
    \<and> lease_signature lease = rl_hmac env (current_key (issuer_keys (rs_issuer s))) (lease_payload lease)
    \<and> \<not> dt_le (expires_at lease) (utc_datetime now) \<and> fact_id lease \<notin> lease_consumed (rs_issuer s)
    \<and> fst (encrypted_consume [(''apply'', fact_id lease)] (rs_consumption s))
    \<and> \<not> ro_fabric_enabled res \<and> \<not> ro_workers_enabled res \<and> \<not> ro_production_capabilities_enabled res
    \<and> proposal_state_of (ro_proposal res) = APPLIED
    \<and> (\<forall>now' p' ctx'. \<exists>e. fst (rollout_apply env now' p' lease ctx' s') = Inl e)"
proof -
  from assms obtain v where v: "parse_preview env (payload p) = Some v" by (auto simp: rollout_apply_def split: option.splits)
  with assms obtain w issuer c db where safe: "safe_preview v"
    and scope: "capability lease = ROLLOUT_CAPABILITY" "worker_id lease = ROLLOUT_WORKER"
    and lease: "verify_lease (rl_authority env) (rl_hmac env) now lease p (rs_issuer s) = (Inr w, issuer)"
    and applied: "\<exists>st. apply_proposal encrypted_ops (rl_authority env) (utc_datetime now) p lease (rs_consumption s) = (Inr st, c)
        \<and> res = \<lparr>ro_proposal = p\<lparr>proposal_state_of := st\<rparr>, ro_fabric_enabled = False, ro_workers_enabled = False,
           ro_production_capabilities_enabled = False, ro_audit_entries = length (ledger_entries (db_ledger (current db)))\<rparr>"
    and s': "s' = s\<lparr>rs_issuer := issuer, rs_consumption := c, rs_store := db\<rparr>"
    by (auto simp: rollout_apply_def rollout_simps stage_def rollout_outcome_def)
  then obtain st where ap: "apply_proposal encrypted_ops (rl_authority env) (utc_datetime now) p lease (rs_consumption s) = (Inr st, c)"
    and res: "res = \<lparr>ro_proposal = p\<lparr>proposal_state_of := st\<rparr>, ro_fabric_enabled = False, ro_workers_enabled = False,
           ro_production_capabilities_enabled = False, ro_audit_entries = length (ledger_entries (db_ledger (current db)))\<rparr>"
    by auto
  note ap_facts = apply_proposal_Inr [OF ap] and lease_facts = verify_lease_accepts [OF lease]
  have "\<exists>e. fst (rollout_apply env now' p' lease ctx' s') = Inl e" for now' p' ctx'
  proof (cases "fst (rollout_apply env now' p' lease ctx' s')")
    case (Inr y)
    then obtain w' issuer' where "verify_lease (rl_authority env) (rl_hmac env) now' lease p' (rs_issuer s') = (Inr w', issuer')"
      by (cases "rollout_apply env now' p' lease ctx' s'") (auto simp: rollout_apply_def rollout_simps split: option.splits)
    from verify_lease_accepts(2) [OF this] lease_facts(3) s' show ?thesis by simp
  qed auto
  moreover have "fst (encrypted_consume [(''apply'', fact_id lease)] (rs_consumption s))"
    using ap_facts(6) by (simp add: encrypted_ops_def)
  ultimately show ?thesis using v safe scope ap_facts lease_facts res by (simp add: payload_hash_def)
qed

definition ex_rollout_proposal :: proposal_record where
  "ex_rollout_proposal = \<lparr>proposal_id = ''r1'', action_class = ''rollout.apply'', payload = ''p'',
     proposal_state_of = APPROVED, created_at = utc_datetime 0\<rparr>"

theorem apply_guarded_witness:
  "\<exists>lease s res s'. rollout_apply ex_rollout_env 1 ex_rollout_proposal lease ex_ctx s = (Inr res, s')
     \<and> \<not> ro_production_capabilities_enabled res
     \<and> (\<exists>e. fst (rollout_apply ex_rollout_env 2 ex_rollout_proposal lease ex_ctx s') = Inl e)"
proof -
  let ?r = "rollout_capability (dry_run ex_plan) (utc_datetime 0)"
  have r: "valid_record ?r" "kind_of_record ?r = CAPABILITY" "record_id ?r = ''r1''"
    by (simp_all add: rollout_capability_def valid_record_def kind_of_record_def dry_run_def ex_plan_def Let_def)
  have "read_record text_repository_env new_domain_db CAPABILITY ''r1'' = Inr None"
    by (simp add: read_record_def new_domain_db_def versions_of_def)
  with create_record_outcome [OF repo_inv_new text_repository_env_codec r(1), of ex_ctx] obtain db where
    db: "repo_inv text_repository_env db" "read_record text_repository_env db CAPABILITY ''r1'' = Inr (Some ?r)"
    by (auto simp: r new_domain_db_def)
  from transition_record_outcome [OF db(1) text_repository_env_codec, of CAPABILITY "''r1''" "''applied''" ex_ctx] db(2)
  obtain db' where moved: "transition_record text_repository_env CAPABILITY ''r1'' ''applied'' ex_ctx (idle db) = (Inr (), idle db')"
    by auto
  obtain lease where issued: "issue ex_lease_env ex_hmac 0 ''l1'' ex_issuer ex_rollout_proposal
      (ex_lease_request ROLLOUT_CAPABILITY ROLLOUT_WORKER) = Inr lease"
    by (simp add: issue_def ex_rollout_proposal_def Let_def)
  have scope: "capability lease = ROLLOUT_CAPABILITY" "worker_id lease = ROLLOUT_WORKER"
    using issued by (auto simp: issue_def Let_def ex_rollout_proposal_def ex_lease_request_def)
  note lease = issue_Inr [OF issued]
  have "\<exists>v t. verify_lease ex_lease_env ex_hmac 1 lease ex_rollout_proposal ex_issuer = (Inr v, t)"
    using lease by (simp add: verify_lease_def ring_verify_def ex_issuer_def new_lease_issuer_def)
  moreover have "\<exists>c. apply_proposal encrypted_ops ex_lease_env (utc_datetime 1) ex_rollout_proposal lease (idle []) = (Inr APPLIED, c)"
    using lease
    by (simp add: apply_proposal_def refuse_if_def ex_rollout_proposal_def check_fact_def py_compare_def consume_one_def claim_def
        encrypted_ops_def encrypted_consume_def domain_transaction_tables insert_key_def ex_issuer_def new_lease_issuer_def)
  ultimately have "\<exists>res s'. rollout_apply ex_rollout_env 1 ex_rollout_proposal lease ex_ctx (ex_rollout_state db) = (Inr res, s')"
    using moved scope ex_plan_inert
    by (auto simp: rollout_apply_def ex_rollout_env_def require_safe_preview_def safe_dry_run ex_rollout_state_def on_issuer_def
        on_consumption_def stage_def on_store_def rollout_outcome_def ex_rollout_proposal_def abind_def)
  then obtain res s' where "rollout_apply ex_rollout_env 1 ex_rollout_proposal lease ex_ctx (ex_rollout_state db) = (Inr res, s')"
    by blast
  with apply_guarded [OF this] show ?thesis by blast
qed

end
