(* ===== verification/Relay_Store.thy ===== *)
theory Relay_Store
  imports Conversation Ledger_Chain Action_Logic
begin

text \<open>
  \<open>relay_store.py\<close>: durable conversations.  The tables are lists of rows in insertion order; a JSON cell that
  pydantic writes and reads back is the record it holds, with the timestamps as \<open>fromisoformat\<close> returns them,
  except the payload of a canonical event, which is text: the JSON of a relay event is a parameter, and
  \<open>event_codec_ok\<close> states its documented round trip.  Foreign keys are on.
\<close>

section \<open>Tables\<close>

record canonical_identity =
  ki_record_id :: uuid
  ki_created_at :: datetime
  ki_state :: string
  ki_display_name :: string
  ki_is_primary :: bool

record conversation_record =
  kr_record_id :: uuid
  kr_created_at :: datetime
  kr_state :: string
  kr_title :: "string option"
  kr_participant_ids :: "uuid list"

record canonical_event_record =
  ke_record_id :: uuid
  ke_created_at :: datetime
  ke_state :: string
  ke_conversation_id :: uuid
  ke_sequence :: int
  ke_event_type :: string
  ke_payload :: string

record relay_event_row =
  re_event_id :: uuid
  re_conversation_id :: uuid
  re_sequence :: int

record relay_db =
  rd_enrolled :: "uuid set"
  rd_identities :: "(int \<times> canonical_identity) list"
  rd_conversation_records :: "(int \<times> conversation_record) list"
  rd_event_records :: "(int \<times> canonical_event_record) list"
  rd_devices :: "conversation_device list"
  rd_conversations :: "uuid list"
  rd_relay_events :: "relay_event_row list"
  rd_retention :: "(uuid \<times> datetime) list"
  rd_ledger :: ledger

datatype relay_error =
    RelayConflictError
  | RelayAccessError
  | RelayIntegrityError
  | RelayLifecycleRequired
  | RelayValidationError
  | RelayLedgerError ledger_error
  | RelayNestedTransaction

record relay_env =
  dump_event :: "conversation_event \<Rightarrow> string"
  parse_event :: "string \<Rightarrow> conversation_event option"
  dump_relay_device :: "conversation_device \<Rightarrow> string"
  dump_conversation :: "conversation_record \<Rightarrow> string"
  relay_hmac :: "string \<Rightarrow> string \<Rightarrow> string"
  relay_audit_key :: string

definition reread_event :: "conversation_event \<Rightarrow> conversation_event" where
  "reread_event e = e\<lparr>ce_occurred_at := reread (ce_occurred_at e)\<rparr>"

definition event_codec_ok :: "relay_env \<Rightarrow> bool" where
  "event_codec_ok env \<longleftrightarrow> (\<forall>e. parse_event env (dump_event env e) = Some (reread_event e))"

definition MAX_CONVERSATION_EVENTS :: nat where "MAX_CONVERSATION_EVENTS = 10000"
definition MAX_BATCH_EVENTS :: nat where "MAX_BATCH_EVENTS = 100"
definition MAX_EVENT_BYTES :: nat where "MAX_EVENT_BYTES = 16 * 1024"
definition CONVERSATION_RETENTION :: int where "CONVERSATION_RETENTION = 180 * day_us"

definition CLIENT_KINDS :: "conversation_event_kind set" where
  "CLIENT_KINDS = {TRANSCRIPT_PARTIAL, TRANSCRIPT_FINAL, CANCELLATION, RESUME}"

type_synonym 'a relay_action = "(relay_db, relay_error, 'a) action"

section \<open>Transactions\<close>

text \<open>
  \<open>with connection: execute("BEGIN IMMEDIATE"); ..\<close>: commit at the end, roll back on an exception.  Inside an
  open transaction the statement itself fails, and the exception rolls the open transaction back.
\<close>

definition immediate :: "'a relay_action \<Rightarrow> (relay_db connection, relay_error, 'a) action" where
  "immediate body c =
     (if in_transaction c then (Inl RelayNestedTransaction, c\<lparr>current := committed c, in_transaction := False\<rparr>)
      else case body (current c) of
        (Inl e, d) \<Rightarrow> (Inl e, c\<lparr>current := committed c\<rparr>)
      | (Inr x, d) \<Rightarrow> (Inr x, c\<lparr>committed := d, current := d\<rparr>))"

lemma immediate_idle:
  "immediate body (idle d) = (fst (body d), idle (case fst (body d) of Inl e \<Rightarrow> d | Inr x \<Rightarrow> snd (body d)))"
  by (simp add: immediate_def idle_def split: prod.split sum.split)

section \<open>Audit\<close>

definition relay_audit :: "relay_env \<Rightarrow> uuid \<Rightarrow> string \<Rightarrow> string \<Rightarrow> transition_context \<Rightarrow> unit relay_action" where
  "relay_audit env i action content ctx db =
     (case ledger_verify (relay_hmac env) (relay_audit_key env) (rd_ledger db) of
        Inl e \<Rightarrow> (Inl (RelayLedgerError e), db)
      | Inr _ \<Rightarrow>
          (case ledger_append (relay_hmac env) (relay_audit_key env)
             \<lparr>am_record_kind = EVENT, am_record_id = uuid_str i, am_state = ''accepted'', am_action_class = action,
              am_source_fingerprint = relay_hmac env (relay_audit_key env) content, am_context = ctx\<rparr> (rd_ledger db) of
             (Inl e, l) \<Rightarrow> (Inl (RelayLedgerError e), db\<lparr>rd_ledger := l\<rparr>)
           | (Inr _, l) \<Rightarrow> (Inr (), db\<lparr>rd_ledger := l\<rparr>)))"

section \<open>Devices and conversations\<close>

text \<open>
  \<open>!=\<close> on models: fields are compared with \<open>==\<close>, timestamps as \<open>datetime\<close> values.
\<close>

definition identity_eq :: "canonical_identity \<Rightarrow> canonical_identity \<Rightarrow> bool" where
  "identity_eq a b \<longleftrightarrow> stamp_eq (ki_created_at a) (ki_created_at b) \<and> a\<lparr>ki_created_at := ki_created_at b\<rparr> = b"

definition device_eq :: "conversation_device \<Rightarrow> conversation_device \<Rightarrow> bool" where
  "device_eq a b \<longleftrightarrow> stamp_eq (cd_created_at a) (cd_created_at b) \<and> a\<lparr>cd_created_at := cd_created_at b\<rparr> = b"

definition event_eq :: "conversation_event \<Rightarrow> conversation_event \<Rightarrow> bool" where
  "event_eq a b \<longleftrightarrow> stamp_eq (ce_occurred_at a) (ce_occurred_at b) \<and> a\<lparr>ce_occurred_at := ce_occurred_at b\<rparr> = b"

definition relay_device :: "relay_db \<Rightarrow> uuid \<Rightarrow> conversation_device option" where
  "relay_device db i = find (\<lambda>d. cd_device_id d = i) (rd_devices db)"

text \<open>\<open>ORDER BY version DESC LIMIT 1\<close> among the rows of one record.\<close>

definition latest_version :: "(int \<times> 'a) list \<Rightarrow> 'a option" where
  "latest_version rows = (case rev (sort_key fst rows) of [] \<Rightarrow> None | r # _ \<Rightarrow> Some (snd r))"

definition devices_for :: "relay_db \<Rightarrow> uuid list \<Rightarrow> conversation_device list" where
  "devices_for db participants = filter (\<lambda>d. cd_participant_id d \<in> set participants) (rd_devices db)"

definition provision_body ::
  "relay_env \<Rightarrow> canonical_identity \<Rightarrow> conversation_device \<Rightarrow> transition_context \<Rightarrow> unit relay_action" where
  "provision_body env identity device ctx =
     abind (aget (\<lambda>db. latest_version (filter (\<lambda>r. ki_record_id (snd r) = ki_record_id identity) (rd_identities db)))) (\<lambda>row.
     abind (case row of
              None \<Rightarrow> amodify (\<lambda>db. db\<lparr>rd_identities := rd_identities db
                       @ [(1, identity\<lparr>ki_created_at := reread (ki_created_at identity)\<rparr>)]\<rparr>)
            | Some known \<Rightarrow> alift (require (identity_eq known identity) RelayConflictError)) (\<lambda>_.
     abind (aget (\<lambda>db. relay_device db (cd_device_id device))) (\<lambda>existing.
       case existing of
         Some d \<Rightarrow> alift (require (device_eq d device) RelayConflictError)
       | None \<Rightarrow>
           abind (aread (\<lambda>db. require (cd_device_id device \<in> rd_enrolled db) RelayIntegrityError)) (\<lambda>_.
           abind (amodify (\<lambda>db. db\<lparr>rd_devices := rd_devices db
                                          @ [device\<lparr>cd_created_at := reread (cd_created_at device)\<rparr>]\<rparr>)) (\<lambda>_.
             relay_audit env (cd_device_id device) ''device.bound'' (dump_relay_device env device) ctx)))))"

definition provision ::
  "relay_env \<Rightarrow> canonical_identity \<Rightarrow> conversation_device \<Rightarrow> transition_context \<Rightarrow> (relay_db connection, relay_error, unit) action" where
  "provision env identity device ctx =
     (if ki_record_id identity \<noteq> cd_participant_id device then araise RelayAccessError
      else immediate (provision_body env identity device ctx))"

definition conversation_state_of :: "string \<Rightarrow> conversation_state option" where
  "conversation_state_of t =
     (if t = ''active'' then Some ACTIVE else if t = ''cancelled'' then Some CANCELLED
      else if t = ''completed'' then Some COMPLETED else None)"

definition conversation_row :: "relay_db \<Rightarrow> uuid \<Rightarrow> conversation_record option" where
  "conversation_row db cid =
     (if cid \<in> set (rd_conversations db)
      then latest_version (filter (\<lambda>r. kr_record_id (snd r) = cid) (rd_conversation_records db)) else None)"

definition conversation_of :: "relay_db \<Rightarrow> uuid \<Rightarrow> uuid \<Rightarrow> relay_error + conversation" where
  "conversation_of db cid did =
     (case (relay_device db did, conversation_row db cid) of
        (Some device, Some r) \<Rightarrow>
          if cd_participant_id device \<notin> set (kr_participant_ids r) then Inl RelayAccessError
          else (case conversation_state_of (kr_state r) of
            None \<Rightarrow> Inl RelayValidationError
          | Some st \<Rightarrow>
              Inr \<lparr>cv_conversation_id = cid, cv_title = (case kr_title r of None \<Rightarrow> [] | Some t \<Rightarrow> t),
                   cv_participant_ids = kr_participant_ids r,
                   cv_device_ids = map cd_device_id (devices_for db (kr_participant_ids r)),
                   cv_created_at = kr_created_at r, cv_state = st\<rparr>)
      | _ \<Rightarrow> Inl RelayAccessError)"

definition create_conversation_body ::
  "relay_env \<Rightarrow> uuid \<Rightarrow> string \<Rightarrow> uuid \<Rightarrow> conversation_device \<Rightarrow> transition_context \<Rightarrow> unit relay_action" where
  "create_conversation_body env cid title did device ctx =
     abind (aget (\<lambda>db. \<exists>r \<in> set (rd_conversation_records db). kr_record_id (snd r) = cid)) (\<lambda>exists.
     if exists
     then abind (aread (\<lambda>db. conversation_of db cid did)) (\<lambda>c. alift (require (cv_title c = title) RelayConflictError))
     else if title = [] then araise RelayValidationError
     else
       let r = \<lparr>kr_record_id = cid, kr_created_at = reread (ctx_occurred_at ctx), kr_state = ''active'',
                kr_title = Some title, kr_participant_ids = [cd_participant_id device]\<rparr>
       in abind (amodify (\<lambda>db. db\<lparr>rd_conversation_records := rd_conversation_records db @ [(1, r)]\<rparr>)) (\<lambda>_.
          abind (aread (\<lambda>db. require (cid \<notin> set (rd_conversations db)) RelayIntegrityError)) (\<lambda>_.
          abind (amodify (\<lambda>db. db\<lparr>rd_conversations := rd_conversations db @ [cid]\<rparr>)) (\<lambda>_.
          abind (aread (\<lambda>db. require (cid \<notin> fst ` set (rd_retention db)) RelayIntegrityError)) (\<lambda>_.
          abind (amodify (\<lambda>db. db\<lparr>rd_retention := rd_retention db
                   @ [(cid, (ctx_occurred_at ctx)\<lparr>wall := wall (ctx_occurred_at ctx) + CONVERSATION_RETENTION\<rparr>)]\<rparr>)) (\<lambda>_.
            relay_audit env cid ''conversation.created'' (dump_conversation env r) ctx))))))"

definition create_conversation ::
  "relay_env \<Rightarrow> uuid \<Rightarrow> string \<Rightarrow> uuid \<Rightarrow> transition_context \<Rightarrow> (relay_db connection, relay_error, conversation) action" where
  "create_conversation env cid title did ctx =
     abind (aread (\<lambda>c. case relay_device (current c) did of None \<Rightarrow> Inl RelayAccessError | Some d \<Rightarrow> Inr d)) (\<lambda>device.
     abind (immediate (create_conversation_body env cid title did device ctx)) (\<lambda>_.
       aread (\<lambda>c. conversation_of (current c) cid did)))"

section \<open>Events\<close>

definition event_rows :: "relay_db \<Rightarrow> uuid \<Rightarrow> relay_event_row list" where
  "event_rows db cid = sort_key re_sequence (filter (\<lambda>r. re_conversation_id r = cid) (rd_relay_events db))"

text \<open>The join with version one of the canonical event, and the two JSON readings of its payload.\<close>

definition event_cell :: "relay_db \<Rightarrow> relay_event_row \<Rightarrow> canonical_event_record list" where
  "event_cell db r = map snd (filter (\<lambda>c. fst c = 1 \<and> ke_record_id (snd c) = re_event_id r) (rd_event_records db))"

definition read_events :: "relay_env \<Rightarrow> relay_db \<Rightarrow> uuid \<Rightarrow> int \<Rightarrow> nat \<Rightarrow> relay_error + conversation_event list" where
  "read_events env db cid after limit =
     emapM (\<lambda>k. case parse_event env (ke_payload k) of None \<Rightarrow> Inl RelayValidationError | Some e \<Rightarrow> Inr e)
       (take limit (concat (map (event_cell db) (filter (\<lambda>r. after < re_sequence r) (event_rows db cid)))))"

definition events_page ::
  "relay_env \<Rightarrow> uuid \<Rightarrow> uuid \<Rightarrow> int \<Rightarrow> int \<Rightarrow> relay_db \<Rightarrow> relay_error + conversation_event list" where
  "events_page env cid did after limit db =
     ebind (conversation_of db cid did) (\<lambda>_.
       if after < 0 \<or> \<not> (1 \<le> limit \<and> limit \<le> int MAX_CONVERSATION_EVENTS) then Inl RelayConflictError
       else read_events env db cid after (nat limit))"

definition insert_event :: "relay_env \<Rightarrow> conversation_event \<Rightarrow> transition_context \<Rightarrow> unit relay_action" where
  "insert_event env e ctx =
     abind (alift (require (1 \<le> ce_sequence e) RelayValidationError)) (\<lambda>_.
     abind (aread (\<lambda>db. require (\<forall>r \<in> set (rd_event_records db). \<not> (fst r = 1 \<and> ke_record_id (snd r) = ce_event_id e)) RelayIntegrityError)) (\<lambda>_.
     abind (amodify (\<lambda>db. db\<lparr>rd_event_records := rd_event_records db
        @ [(1, \<lparr>ke_record_id = ce_event_id e, ke_created_at = reread (ce_occurred_at e), ke_state = ''accepted'',
                ke_conversation_id = ce_conversation_id e, ke_sequence = ce_sequence e, ke_event_type = ''relay.v1'',
                ke_payload = dump_event env e\<rparr>)]\<rparr>)) (\<lambda>_.
     abind (aread (\<lambda>db. require (ce_conversation_id e \<in> set (rd_conversations db) \<and>
              (\<forall>r \<in> set (rd_relay_events db). re_event_id r \<noteq> ce_event_id e
                 \<and> \<not> (re_conversation_id r = ce_conversation_id e \<and> re_sequence r = ce_sequence e))) RelayIntegrityError)) (\<lambda>_.
     abind (amodify (\<lambda>db. db\<lparr>rd_relay_events := rd_relay_events db
        @ [\<lparr>re_event_id = ce_event_id e, re_conversation_id = ce_conversation_id e, re_sequence = ce_sequence e\<rparr>]\<rparr>)) (\<lambda>_.
       relay_audit env (ce_event_id e) ''conversation.event.accepted'' (dump_event env e) ctx)))))"

fun append_loop ::
  "relay_env \<Rightarrow> uuid \<Rightarrow> transition_context \<Rightarrow> conversation_event list \<Rightarrow> conversation_event list \<Rightarrow> conversation_journal
   \<Rightarrow> nat relay_action" where
  "append_loop env did ctx [] known j = areturn (length known + 1)"
| "append_loop env did ctx (e # es) known j =
     (if ce_device_id e \<noteq> did \<or> ce_kind e \<notin> CLIENT_KINDS then araise RelayAccessError
      else if tz (ce_occurred_at e) = NoTz \<or> MAX_EVENT_BYTES < length (dump_event env e) then araise RelayConflictError
      else case dict_get ce_event_id known (ce_event_id e) of
        Some k \<Rightarrow> if \<not> event_eq e k then araise RelayConflictError else append_loop env did ctx es known j
      | None \<Rightarrow>
          if MAX_CONVERSATION_EVENTS \<le> length known then araise RelayConflictError
          else let (a, j1) = accept e j in
            if \<not> accepted a then araise RelayConflictError
            else abind (insert_event env e ctx) (\<lambda>_. append_loop env did ctx es (known @ [e]) j1))"

fun replay_history :: "conversation_event list \<Rightarrow> conversation_journal \<Rightarrow> relay_error + conversation_journal" where
  "replay_history [] j = Inr j"
| "replay_history (e # es) j =
     (let (a, j1) = accept e j in if \<not> accepted a then Inl RelayConflictError else replay_history es j1)"

definition append_body ::
  "relay_env \<Rightarrow> uuid \<Rightarrow> uuid \<Rightarrow> conversation_event list \<Rightarrow> transition_context \<Rightarrow> nat relay_action" where
  "append_body env cid did events ctx =
     abind (aread (\<lambda>db. conversation_of db cid did)) (\<lambda>c.
     abind (aget (\<lambda>db. devices_for db (cv_participant_ids c))) (\<lambda>devices.
     abind (aread (events_page env cid did 0 (int MAX_CONVERSATION_EVENTS))) (\<lambda>history.
     abind (alift (replay_history history (new_journal c devices))) (\<lambda>j.
     abind (alift (require (1 \<le> length events \<and> length events \<le> MAX_BATCH_EVENTS \<and> distinct (map ce_event_id events))
                     RelayConflictError)) (\<lambda>_.
       append_loop env did ctx events (dict_by ce_event_id history) j)))))"

definition append_events ::
  "relay_env \<Rightarrow> uuid \<Rightarrow> uuid \<Rightarrow> conversation_event list \<Rightarrow> transition_context \<Rightarrow> (relay_db connection, relay_error, nat) action" where
  "append_events env cid did events ctx = immediate (append_body env cid did events ctx)"

section \<open>Deletion and retention\<close>

definition delete_canonical :: "uuid \<Rightarrow> unit relay_action" where
  "delete_canonical cid db =
     (if \<not> lifecycle_delete_allowed (rd_ledger db)
         \<and> ((\<exists>r \<in> set (rd_event_records db). ke_conversation_id (snd r) = cid)
            \<or> (\<exists>r \<in> set (rd_conversation_records db). kr_record_id (snd r) = cid))
      then (Inl RelayLifecycleRequired, db)
      else (let doomed = ke_record_id ` snd ` {r \<in> set (rd_event_records db). ke_conversation_id (snd r) = cid} in
        (Inr (), db\<lparr>rd_event_records := filter (\<lambda>r. ke_record_id (snd r) \<notin> doomed) (rd_event_records db),
                    rd_conversation_records := filter (\<lambda>r. kr_record_id (snd r) \<noteq> cid) (rd_conversation_records db)\<rparr>)))"

definition set_lifecycle :: "bool \<Rightarrow> relay_db \<Rightarrow> relay_db" where
  "set_lifecycle b db = db\<lparr>rd_ledger := (rd_ledger db)\<lparr>lifecycle_delete_allowed := b\<rparr>\<rparr>"

definition delete_conversation_body :: "relay_env \<Rightarrow> uuid \<Rightarrow> transition_context \<Rightarrow> nat relay_action" where
  "delete_conversation_body env cid ctx =
     abind (aget (\<lambda>db. length (filter (\<lambda>r. ke_conversation_id (snd r) = cid) (rd_event_records db)))) (\<lambda>n.
     abind (amodify (\<lambda>db. db\<lparr>rd_relay_events := filter (\<lambda>r. re_conversation_id r \<noteq> cid) (rd_relay_events db)\<rparr>)) (\<lambda>_.
     abind (\<lambda>db. let (r, db1) = delete_canonical cid (set_lifecycle True db) in (r, set_lifecycle False db1)) (\<lambda>_.
     abind (amodify (\<lambda>db. db\<lparr>rd_retention := filter (\<lambda>r. fst r \<noteq> cid) (rd_retention db),
                             rd_conversations := filter (\<lambda>i. i \<noteq> cid) (rd_conversations db)\<rparr>)) (\<lambda>_.
     abind (relay_audit env cid ''conversation.deleted'' (uuid_str cid @ '':'' @ dec n) ctx) (\<lambda>_.
       areturn n)))))"

definition delete_conversation ::
  "relay_env \<Rightarrow> uuid \<Rightarrow> uuid \<Rightarrow> transition_context \<Rightarrow> (relay_db connection, relay_error, nat) action" where
  "delete_conversation env cid did ctx =
     abind (aread (\<lambda>c. conversation_of (current c) cid did)) (\<lambda>_. immediate (delete_conversation_body env cid ctx))"

fun delete_each :: "relay_env \<Rightarrow> transition_context \<Rightarrow> uuid list \<Rightarrow> (relay_db connection, relay_error, unit) action" where
  "delete_each env ctx [] = areturn ()"
| "delete_each env ctx (i # is) = abind (immediate (delete_conversation_body env i ctx)) (\<lambda>_. delete_each env ctx is)"

definition expired_conversations :: "datetime \<Rightarrow> relay_db \<Rightarrow> uuid list" where
  "expired_conversations now db =
     map fst (sort_key (\<lambda>r. isoformat (snd r)) (filter (\<lambda>r. isoformat (snd r) \<le> isoformat now) (rd_retention db)))"

definition expire :: "relay_env \<Rightarrow> datetime \<Rightarrow> transition_context \<Rightarrow> (relay_db connection, relay_error, nat) action" where
  "expire env now ctx =
     abind (aget (\<lambda>c. expired_conversations now (current c))) (\<lambda>ids.
     abind (delete_each env ctx ids) (\<lambda>_. areturn (length ids)))"

section \<open>Assistant turns\<close>

record agent_turn =
  at_conversation_id :: uuid
  at_device_id :: uuid
  at_expected_revision :: int
  at_text :: string
  at_reply :: string
  at_context :: transition_context

fun split_line :: "string \<Rightarrow> (string \<times> string) option" where
  "split_line [] = None"
| "split_line (c # cs) =
     (if c = CHR 10 then Some ([], cs) else map_option (\<lambda>(a, b). (c # a, b)) (split_line cs))"

definition agent_records :: "relay_db \<Rightarrow> uuid \<Rightarrow> canonical_event_record list" where
  "agent_records db cid = take 4 (rev (sort_key ke_sequence (map snd
     (filter (\<lambda>r. ke_conversation_id (snd r) = cid \<and> ke_event_type (snd r) = ''agent.turn'') (rd_event_records db)))))"

definition agent_history :: "uuid \<Rightarrow> uuid \<Rightarrow> relay_db \<Rightarrow> relay_error + int \<times> (string \<times> string) list" where
  "agent_history cid did db =
     ebind (conversation_of db cid did) (\<lambda>c.
       if cv_state c \<noteq> ACTIVE then Inl RelayConflictError
       else let records = agent_records db cid in
         ebind (emapM (\<lambda>r. case split_line (ke_payload r) of None \<Rightarrow> Inl RelayValidationError | Some p \<Rightarrow> Inr p) (rev records)) (\<lambda>turns.
           Inr (case records of [] \<Rightarrow> 0 | r # _ \<Rightarrow> ke_sequence r, turns)))"

definition save_turn_body :: "relay_env \<Rightarrow> uuid \<Rightarrow> agent_turn \<Rightarrow> unit relay_action" where
  "save_turn_body env new_id t =
     abind (aread (agent_history (at_conversation_id t) (at_device_id t))) (\<lambda>(revision, _).
     if revision \<noteq> at_expected_revision t \<or> int MAX_CONVERSATION_EVENTS \<le> revision then araise RelayConflictError
     else
       let body = map (\<lambda>c. if c = CHR 10 then CHR '' '' else c) (at_text t) @ [CHR 10] @ at_reply t in
       abind (alift (require (1 \<le> revision + 1) RelayValidationError)) (\<lambda>_.
       abind (aread (\<lambda>db. require (\<forall>r \<in> set (rd_event_records db). \<not> (fst r = 1 \<and> ke_record_id (snd r) = new_id)) RelayIntegrityError)) (\<lambda>_.
       abind (amodify (\<lambda>db. db\<lparr>rd_event_records := rd_event_records db
          @ [(1, \<lparr>ke_record_id = new_id, ke_created_at = reread (ctx_occurred_at (at_context t)), ke_state = ''accepted'',
                  ke_conversation_id = at_conversation_id t, ke_sequence = revision + 1, ke_event_type = ''agent.turn'',
                  ke_payload = body\<rparr>)]\<rparr>)) (\<lambda>_.
         relay_audit env new_id ''conversation.agent.accepted'' body (at_context t)))))"

definition save_agent_turn :: "relay_env \<Rightarrow> uuid \<Rightarrow> agent_turn \<Rightarrow> (relay_db connection, relay_error, unit) action" where
  "save_agent_turn env new_id t = immediate (save_turn_body env new_id t)"

end
