(* ===== verification/Relay_History.thy ===== *)
theory Relay_History
  imports Relay_Store
begin

text \<open>
  The stored history of a conversation: which relay event the rows of the two event tables hold, what a page of
  it is, how an insertion extends it, and when a journal replays it.
\<close>

section \<open>Journals that differ in their devices only\<close>

definition journal_le :: "conversation_journal \<Rightarrow> conversation_journal \<Rightarrow> bool" where
  "journal_le j k \<longleftrightarrow>
     cv_conversation_id (jr_conversation k) = cv_conversation_id (jr_conversation j)
     \<and> cv_state (jr_conversation k) = cv_state (jr_conversation j)
     \<and> cv_participant_ids (jr_conversation k) = cv_participant_ids (jr_conversation j)
     \<and> set (cv_device_ids (jr_conversation j)) \<subseteq> set (cv_device_ids (jr_conversation k))
     \<and> (\<forall>i d. dict_get cd_device_id (jr_devices j) i = Some d \<longrightarrow> dict_get cd_device_id (jr_devices k) i = Some d)
     \<and> jr_next_sequence k = jr_next_sequence j \<and> jr_seen_event_ids k = jr_seen_event_ids j
     \<and> jr_open_turn_id k = jr_open_turn_id j \<and> jr_cancelled_turn_id k = jr_cancelled_turn_id j"

lemma journal_le_envelope:
  assumes "journal_le j k" and "envelope_rejection j e = None"
  shows "envelope_rejection k e = None"
  using assms envelope_accepts [OF assms(2)] unfolding journal_le_def envelope_rejection_def by auto

lemma journal_le_payload: "journal_le j k \<Longrightarrow> payload_rejection k p = payload_rejection j p"
  unfolding journal_le_def by (cases p) (simp_all add: transcript_rejection_def)

lemma journal_le_accept:
  assumes "journal_le j k" and "accept e j = (a, j')" and "accepted a"
  shows "\<exists>k'. accept e k = (a, k') \<and> journal_le j' k'"
proof -
  from assms(2,3) have ok: "envelope_rejection j e = None" "payload_rejection j (ce_payload e) = None"
    by (auto simp: accept_def split: option.splits)
  note okk = journal_le_envelope [OF assms(1) ok(1)] ok(2) [folded journal_le_payload [OF assms(1)]]
  show ?thesis using assms(1,2) ok okk
    by (cases "ce_payload e") (auto simp: accept_def Let_def journal_le_def)
qed

lemma journal_le_replay:
  "journal_le j k \<Longrightarrow> replay_history es j = Inr j' \<Longrightarrow> \<exists>k'. replay_history es k = Inr k' \<and> journal_le j' k'"
proof (induction es arbitrary: j k)
  case (Cons e es)
  obtain a j1 where a: "accept e j = (a, j1)" by fastforce
  with Cons.prems(2) have acc: "accepted a" and rest: "replay_history es j1 = Inr j'" by (auto split: if_splits)
  from journal_le_accept [OF Cons.prems(1) a acc] obtain k1 where "accept e k = (a, k1)" "journal_le j1 k1" by blast
  with Cons.IH rest acc show ?case by auto
qed auto

section \<open>Replaying\<close>

lemma reread_event_simps [simp]:
  "ce_event_id (reread_event e) = ce_event_id e" "ce_conversation_id (reread_event e) = ce_conversation_id e"
  "ce_sequence (reread_event e) = ce_sequence e" "ce_device_id (reread_event e) = ce_device_id e"
  "ce_participant_id (reread_event e) = ce_participant_id e" "ce_kind (reread_event e) = ce_kind e" "ce_payload (reread_event e) = ce_payload e"
  by (simp_all add: reread_event_def)

lemma envelope_reread [simp]: "envelope_rejection j (reread_event e) = envelope_rejection j e"
  by (simp add: envelope_rejection_def split: option.split)

lemma accept_reread [simp]: "accept (reread_event e) j = accept e j"
  by (simp add: accept_def split: option.split)

lemma replay_reread [simp]: "replay_history (map reread_event es) j = replay_history es j"
  by (induction es arbitrary: j) (simp_all split: prod.split)

lemma replay_append:
  "replay_history (xs @ ys) j = ebind (replay_history xs j) (replay_history ys)"
  by (induction xs arbitrary: j) (simp_all split: prod.split)

lemma replay_run: "replay_history es j = Inr j' \<Longrightarrow> journal_run es j = (es, j')"
proof (induction es arbitrary: j)
  case (Cons e es)
  obtain a j1 where "accept e j = (a, j1)" by fastforce
  with Cons show ?case by (auto split: if_splits)
qed simp

lemma replay_facts:
  assumes "replay_history es (new_journal c ds) = Inr j"
  shows "distinct (map ce_event_id es)" and "map ce_sequence es = map (\<lambda>i. 1 + int i) [0..<length es]"
    and "\<forall>e \<in> set es. ce_conversation_id e = cv_conversation_id c"
  using journal_run_history [OF replay_run [OF assms]] by (auto simp: new_journal_def event_admitted_def)

lemma replay_state:
  assumes "replay_history es j = Inr j'"
  shows "jr_next_sequence j' = jr_next_sequence j + int (length es)"
    and "jr_seen_event_ids j' = jr_seen_event_ids j \<union> ce_event_id ` set es"
    and "jr_conversation j' = jr_conversation j"
  using assms
proof (induction es arbitrary: j)
  case (Cons e es)
  {
    case 1
    then show ?case using Cons.IH(1) by (cases rule: accept_cases [of e j]) fastforce+
  next
    case 2
    then show ?case using Cons.IH(2) by (cases rule: accept_cases [of e j]) fastforce+
  next
    case 3
    then show ?case using Cons.IH(3) by (cases rule: accept_cases [of e j]) fastforce+
  }
qed auto

section \<open>Stored events\<close>

definition record_of :: "relay_db \<Rightarrow> uuid \<Rightarrow> canonical_event_record list" where
  "record_of db i = map snd (filter (\<lambda>c. fst c = 1 \<and> ke_record_id (snd c) = i) (rd_event_records db))"

definition holds_event :: "relay_env \<Rightarrow> relay_db \<Rightarrow> relay_event_row \<Rightarrow> conversation_event \<Rightarrow> bool" where
  "holds_event env db r e \<longleftrightarrow>
     (\<exists>k. record_of db (re_event_id r) = [k] \<and> ke_conversation_id k = re_conversation_id r \<and> parse_event env (ke_payload k) = Some e)
     \<and> ce_event_id e = re_event_id r \<and> ce_conversation_id e = re_conversation_id r \<and> ce_sequence e = re_sequence r"

definition holds_history :: "relay_env \<Rightarrow> relay_db \<Rightarrow> uuid \<Rightarrow> conversation_event list \<Rightarrow> bool" where
  "holds_history env db cid es \<longleftrightarrow>
     list_all2 (holds_event env db) (event_rows db cid) es
     \<and> map ce_sequence es = map (\<lambda>i. 1 + int i) [0..<length es] \<and> length es \<le> MAX_CONVERSATION_EVENTS"

lemma event_cell_record: "event_cell db r = record_of db (re_event_id r)"
  by (simp add: event_cell_def record_of_def)

lemma sorted_event_rows: "sorted (map re_sequence (event_rows db cid))"
  by (simp add: event_rows_def)

lemma set_event_rows [simp]: "set (event_rows db cid) = {r \<in> set (rd_relay_events db). re_conversation_id r = cid}"
  by (auto simp: event_rows_def)

lemma emap_cells:
  "list_all2 (holds_event env db) rs es \<Longrightarrow>
     emapM (\<lambda>k. case parse_event env (ke_payload k) of None \<Rightarrow> Inl RelayValidationError | Some e \<Rightarrow> Inr e)
       (concat (map (event_cell db) rs)) = Inr es \<and> length (concat (map (event_cell db) rs)) = length es"
  by (induction rs es rule: list_all2_induct) (auto simp: holds_event_def event_cell_record)

lemma emapM_take: "emapM f xs = Inr ys \<Longrightarrow> emapM f (take n xs) = Inr (take n ys)"
  by (induction xs arbitrary: ys n) (auto simp: take_Cons split: nat.split)

lemma filter_sequence:
  assumes "map f es = map (\<lambda>i. m + int i) [0..<length es]" and "m - 1 \<le> a"
  shows "filter (\<lambda>e. a < f e) es = drop (nat (a - m + 1)) es"
  using assms
proof (induction es arbitrary: m)
  case (Cons e es)
  from Cons.prems(1) have fe: "f e = m" by (simp add: upt_conv_Cons del: upt_Suc)
  have "map f es = map (\<lambda>i. m + int i) [Suc 0..<Suc (length es)]"
    using Cons.prems(1) by (simp add: upt_conv_Cons del: upt_Suc)
  then have tl: "map f es = map (\<lambda>i. (m + 1) + int i) [0..<length es]"
    by (simp add: map_Suc_upt [symmetric] comp_def add.assoc add.commute add.left_commute del: upt_Suc)
  show ?case
  proof (cases "a < m")
    case True
    with Cons.prems(2) have a: "a = m - 1" by simp
    have "a < f x" if "x \<in> set es" for x
    proof -
      from that have "f x \<in> set (map f es)" by simp
      then show ?thesis unfolding tl using a by auto
    qed
    then have "filter (\<lambda>e. a < f e) es = es" by (auto intro: filter_True)
    then show ?thesis using fe a by simp
  next
    case False
    then have "filter (\<lambda>e. a < f e) es = drop (nat (a - m)) es" using Cons.IH [OF tl] by simp
    with False fe show ?thesis by (simp add: nat_add_distrib)
  qed
qed simp

text \<open>A page is a segment of the history: the cursor counts the events before it.\<close>

lemma rows_sequences:
  "list_all2 (holds_event env db) rs es \<Longrightarrow> map re_sequence rs = map ce_sequence es \<and> map re_event_id rs = map ce_event_id es"
  by (induction rs es rule: list_all2_induct) (simp_all add: holds_event_def)

lemma read_events_segment:
  assumes h: "holds_history env db cid es" and a: "0 \<le> after"
  shows "read_events env db cid after limit = Inr (take limit (drop (nat after) es))"
proof -
  let ?rows = "filter (\<lambda>r. after < re_sequence r) (event_rows db cid)"
  from h have la: "list_all2 (holds_event env db) (event_rows db cid) es"
    and seq: "map ce_sequence es = map (\<lambda>i. 1 + int i) [0..<length es]" by (auto simp: holds_history_def)
  have "map re_sequence (event_rows db cid) = map (\<lambda>i. 1 + int i) [0..<length (event_rows db cid)]"
    using rows_sequences [OF la] seq list_all2_lengthD [OF la] by simp
  from filter_sequence [OF this, of after] a have "?rows = drop (nat after) (event_rows db cid)" by simp
  then have "list_all2 (holds_event env db) ?rows (drop (nat after) es)" using la by (simp add: list_all2_dropI)
  from emap_cells [OF this] show ?thesis unfolding read_events_def by (blast intro: emapM_take)
qed

section \<open>Insertion\<close>

lemma sort_key_snoc:
  assumes "\<forall>y \<in> set xs. f y \<le> f x"
  shows "sort_key f (xs @ [x]) = sort_key f xs @ [x]"
proof -
  have "insort_key f y (ys @ [x]) = insort_key f y ys @ [x]" if "f y \<le> f x" for y ys
    using that by (induction ys) simp_all
  then have "set ys \<subseteq> set xs \<Longrightarrow> sort_key f (ys @ [x]) = sort_key f ys @ [x]" for ys
    using assms by (induction ys) (auto simp: sort_key_def)
  then show ?thesis by simp
qed

definition audit_count :: "relay_db \<Rightarrow> nat" where
  "audit_count db = length (audit_rows (rd_ledger db))"

abbreviation relay_chain :: "relay_env \<Rightarrow> relay_db \<Rightarrow> bool" where
  "relay_chain env db \<equiv> chain_ok (relay_hmac env) (relay_audit_key env) (rd_ledger db)"

lemma relay_audit_appends:
  assumes "relay_chain env db"
  shows "\<exists>l. relay_audit env i action content ctx db = (Inr (), db\<lparr>rd_ledger := l\<rparr>)
    \<and> chain_ok (relay_hmac env) (relay_audit_key env) l \<and> length (audit_rows l) = Suc (audit_count db)"
proof -
  from assms obtain v where v: "ledger_verify (relay_hmac env) (relay_audit_key env) (rd_ledger db) = Inr v"
    by (auto simp: chain_ok_def)
  show ?thesis
    using v ledger_append_chain [OF v] by (auto simp: relay_audit_def chain_ok_def audit_count_def)
qed

text \<open>The two rows an accepted event adds.\<close>

definition add_event :: "relay_env \<Rightarrow> conversation_event \<Rightarrow> relay_db \<Rightarrow> relay_db" where
  "add_event env e db = db\<lparr>rd_event_records := rd_event_records db
        @ [(1, \<lparr>ke_record_id = ce_event_id e, ke_created_at = reread (ce_occurred_at e), ke_state = ''accepted'',
                ke_conversation_id = ce_conversation_id e, ke_sequence = ce_sequence e, ke_event_type = ''relay.v1'',
                ke_payload = dump_event env e\<rparr>)],
     rd_relay_events := rd_relay_events db
        @ [\<lparr>re_event_id = ce_event_id e, re_conversation_id = ce_conversation_id e, re_sequence = ce_sequence e\<rparr>]\<rparr>"

lemma record_of_Nil:
  "record_of db i = [] \<longleftrightarrow> (\<forall>r \<in> set (rd_event_records db). \<not> (fst r = 1 \<and> ke_record_id (snd r) = i))"
  by (auto simp: record_of_def filter_empty_conv)

lemma insert_event_adds:
  assumes "relay_chain env db" and "insert_event env e ctx db = (Inr u, db')"
  shows "\<exists>l. db' = (add_event env e db)\<lparr>rd_ledger := l\<rparr> \<and> chain_ok (relay_hmac env) (relay_audit_key env) l
     \<and> length (audit_rows l) = Suc (audit_count db)
     \<and> record_of db (ce_event_id e) = [] \<and> ce_conversation_id e \<in> set (rd_conversations db)
     \<and> (\<forall>r \<in> set (rd_relay_events db). re_event_id r \<noteq> ce_event_id e)"
proof -
  have chain: "relay_chain env (add_event env e db)" using assms(1) by (simp add: add_event_def)
  obtain l where l: "relay_audit env (ce_event_id e) ''conversation.event.accepted'' (dump_event env e) ctx (add_event env e db)
      = (Inr (), (add_event env e db)\<lparr>rd_ledger := l\<rparr>)" "chain_ok (relay_hmac env) (relay_audit_key env) l"
      "length (audit_rows l) = Suc (audit_count (add_event env e db))"
    using relay_audit_appends [OF chain] by blast
  have "audit_count (add_event env e db) = audit_count db" by (simp add: audit_count_def add_event_def)
  with l assms(2) show ?thesis
    by (intro exI [of _ l]) (auto simp: insert_event_def record_of_Nil add_event_def, force)
qed

lemma record_of_add:
  "record_of (add_event env e db) i = record_of db i @
     (if i = ce_event_id e then [\<lparr>ke_record_id = ce_event_id e, ke_created_at = reread (ce_occurred_at e), ke_state = ''accepted'',
                ke_conversation_id = ce_conversation_id e, ke_sequence = ce_sequence e, ke_event_type = ''relay.v1'',
                ke_payload = dump_event env e\<rparr>] else [])"
  by (simp add: record_of_def add_event_def)

lemma holds_event_add:
  "record_of db (ce_event_id e) = [] \<Longrightarrow> holds_event env db r x \<Longrightarrow> holds_event env (add_event env e db) r x"
  by (auto simp: holds_event_def record_of_add)

lemma event_rows_other:
  "cid \<noteq> ce_conversation_id e \<Longrightarrow> event_rows (add_event env e db) cid = event_rows db cid"
  by (simp add: event_rows_def add_event_def)

lemma holds_history_other:
  assumes "record_of db (ce_event_id e) = []" and "cid \<noteq> ce_conversation_id e" and "holds_history env db cid es"
  shows "holds_history env (add_event env e db) cid es"
  using assms unfolding holds_history_def event_rows_other [OF assms(2)]
  by (blast intro: list_all2_mono holds_event_add)

lemma holds_history_add:
  assumes "event_codec_ok env" and "record_of db (ce_event_id e) = []" and h: "holds_history env db (ce_conversation_id e) es"
    and seq: "ce_sequence e = 1 + int (length es)" and room: "length es < MAX_CONVERSATION_EVENTS"
  shows "holds_history env (add_event env e db) (ce_conversation_id e) (es @ [reread_event e])"
proof -
  let ?cid = "ce_conversation_id e" and ?db = "add_event env e db"
  let ?row = "\<lparr>re_event_id = ce_event_id e, re_conversation_id = ?cid, re_sequence = ce_sequence e\<rparr>"
  from h have la: "list_all2 (holds_event env db) (event_rows db ?cid) es"
    and sq: "map ce_sequence es = map (\<lambda>i. 1 + int i) [0..<length es]" by (auto simp: holds_history_def)
  have "re_sequence r \<le> ce_sequence e" if "r \<in> set (event_rows db ?cid)" for r
  proof -
    from that have "re_sequence r \<in> set (map re_sequence (event_rows db ?cid))" by (simp del: set_event_rows)
    then show ?thesis using rows_sequences [OF la] sq seq by auto
  qed
  then have rows: "event_rows ?db ?cid = event_rows db ?cid @ [?row]"
    by (simp add: event_rows_def add_event_def sort_key_snoc)
  have "holds_event env ?db ?row (reread_event e)"
    using assms(1,2) by (simp add: holds_event_def record_of_add event_codec_ok_def)
  moreover have "list_all2 (holds_event env ?db) (event_rows db ?cid) es"
    using la by (rule list_all2_mono) (rule holds_event_add [OF assms(2)])
  ultimately show ?thesis using sq seq room by (simp add: holds_history_def rows list_all2_appendI)
qed

end
