(* ===== verification/Relay_Append.thy ===== *)
theory Relay_Append
  imports Relay_History
begin

text \<open>
  The batch loop of \<open>append\<close>: what a successful run stores, acknowledges and audits.
\<close>

text \<open>The tables an append may touch: event records, relay events and the ledger.\<close>

definition event_tables_only :: "relay_db \<Rightarrow> relay_db \<Rightarrow> bool" where
  "event_tables_only db db' \<longleftrightarrow> (\<exists>rs es l. db' = db\<lparr>rd_event_records := rs, rd_relay_events := es, rd_ledger := l\<rparr>)"

definition rows_bound :: "relay_db \<Rightarrow> bool" where
  "rows_bound db \<longleftrightarrow> (\<forall>r \<in> set (rd_relay_events db). re_conversation_id r \<in> set (rd_conversations db))"

definition client_event :: "relay_env \<Rightarrow> uuid \<Rightarrow> conversation_event \<Rightarrow> bool" where
  "client_event env did e \<longleftrightarrow> ce_device_id e = did \<and> ce_kind e \<in> CLIENT_KINDS \<and> tz (ce_occurred_at e) \<noteq> NoTz
     \<and> length (dump_event env e) \<le> MAX_EVENT_BYTES"

definition fresh_events :: "conversation_event list \<Rightarrow> conversation_event list \<Rightarrow> conversation_event list" where
  "fresh_events known es = filter (\<lambda>e. ce_event_id e \<notin> ce_event_id ` set known) es"

lemma event_tables_refl [simp]: "event_tables_only db db"
  unfolding event_tables_only_def
  by (intro exI [of _ "rd_event_records db"] exI [of _ "rd_relay_events db"] exI [of _ "rd_ledger db"]) simp

lemma event_tables_step:
  "event_tables_only ((add_event env e db)\<lparr>rd_ledger := l\<rparr>) db' \<Longrightarrow> event_tables_only db db'"
  unfolding event_tables_only_def add_event_def by auto

lemma conversation_of_cong:
  assumes "rd_devices db' = rd_devices db" and "rd_conversations db' = rd_conversations db"
    and "rd_conversation_records db' = rd_conversation_records db"
  shows "conversation_of db' = conversation_of db" and "devices_for db' = devices_for db"
proof -
  show dv: "devices_for db' = devices_for db" using assms(1) by (simp add: fun_eq_iff devices_for_def)
  have rd: "relay_device db' = relay_device db" using assms(1) by (simp add: fun_eq_iff relay_device_def)
  have cr: "conversation_row db' = conversation_row db" using assms(2,3) by (simp add: fun_eq_iff conversation_row_def)
  show "conversation_of db' = conversation_of db" by (rule ext)+ (simp only: conversation_of_def dv rd cr)
qed

lemma event_tables_frame:
  assumes "event_tables_only db db'"
  shows "rd_devices db' = rd_devices db" and "rd_conversations db' = rd_conversations db"
    and "rd_conversation_records db' = rd_conversation_records db" and "rd_identities db' = rd_identities db"
    and "rd_retention db' = rd_retention db" and "rd_enrolled db' = rd_enrolled db"
    and "conversation_of db' = conversation_of db" and "devices_for db' = devices_for db"
proof -
  show d: "rd_devices db' = rd_devices db" and c: "rd_conversations db' = rd_conversations db"
    and r: "rd_conversation_records db' = rd_conversation_records db" and "rd_identities db' = rd_identities db"
    and "rd_retention db' = rd_retention db" and "rd_enrolled db' = rd_enrolled db"
    using assms unfolding event_tables_only_def by auto
  show "conversation_of db' = conversation_of db" "devices_for db' = devices_for db"
    using conversation_of_cong [OF d c r] by blast+
qed

lemma holds_history_ledger [simp]: "holds_history env (db\<lparr>rd_ledger := l\<rparr>) = holds_history env db"
proof -
  have "holds_event env (db\<lparr>rd_ledger := l\<rparr>) = holds_event env db"
    by (simp add: fun_eq_iff holds_event_def record_of_def)
  moreover have "event_rows (db\<lparr>rd_ledger := l\<rparr>) = event_rows db" by (simp add: fun_eq_iff event_rows_def)
  ultimately show ?thesis by (intro ext) (simp only: holds_history_def)
qed

lemma fresh_events_snoc:
  "distinct (map ce_event_id (e # es)) \<Longrightarrow> fresh_events (known @ [e]) es = fresh_events known es"
  unfolding fresh_events_def by (rule filter_cong) (auto intro: rev_image_eqI)

lemma append_loop_stores:
  assumes codec: "event_codec_ok env" and "distinct (map ce_event_id events)"
    and "append_loop env did ctx events known j db = (Inr n, db')"
    and "relay_chain env db" and "rows_bound db"
    and "holds_history env db (cv_conversation_id c) st" and "replay_history st (new_journal c ds) = Inr j"
    and "map ce_event_id st = map ce_event_id known"
  shows "n = length (st @ fresh_events known events) + 1 \<and> event_tables_only db db' \<and> relay_chain env db' \<and> rows_bound db'
    \<and> holds_history env db' (cv_conversation_id c) (st @ map reread_event (fresh_events known events))
    \<and> (\<exists>j'. replay_history (st @ fresh_events known events) (new_journal c ds) = Inr j')
    \<and> audit_count db' = audit_count db + length (fresh_events known events)
    \<and> (\<forall>i hs. i \<noteq> cv_conversation_id c \<longrightarrow> holds_history env db i hs \<longrightarrow> holds_history env db' i hs)
    \<and> (\<forall>e \<in> set events. client_event env did e \<and> (\<forall>k. dict_get ce_event_id known (ce_event_id e) = Some k \<longrightarrow> event_eq e k))"
  using assms(2-)
proof (induction events arbitrary: known j db st)
  case Nil
  have "length st = length known" using Nil.prems(7) by (metis length_map)
  with Nil.prems show ?case by (auto simp: fresh_events_def)
next
  case (Cons e es)
  from Cons.prems(2) have client: "client_event env did e"
    by (auto simp: client_event_def split: if_splits)
  have len: "length st = length known" using Cons.prems(7) by (metis length_map)
  have ids: "ce_event_id ` set st = ce_event_id ` set known" using Cons.prems(7) by (metis list.set_map)
  show ?case
  proof (cases "dict_get ce_event_id known (ce_event_id e)")
    case (Some k)
    with Cons.prems(2) client have eq: "event_eq e k" and run: "append_loop env did ctx es known j db = (Inr n, db')"
      by (auto simp: client_event_def split: if_splits)
    have "ce_event_id e \<in> ce_event_id ` set known" using dict_get_Some [OF Some] by (metis imageI)
    then have "fresh_events known (e # es) = fresh_events known es" by (simp add: fresh_events_def)
    with Cons.IH [OF _ run Cons.prems(3-7)] Cons.prems(1) client eq Some show ?thesis by simp
  next
    case None
    obtain a j1 where a: "accept e j = (a, j1)" by fastforce
    from None Cons.prems(2) client a obtain u db1 where room: "length known < MAX_CONVERSATION_EVENTS" and acc: "accepted a"
      and ins: "insert_event env e ctx db = (Inr u, db1)"
      and run: "append_loop env did ctx es (known @ [e]) j1 db1 = (Inr n, db')"
      by (auto simp: client_event_def split: if_splits)
    from insert_event_adds [OF Cons.prems(3) ins] obtain l where db1: "db1 = (add_event env e db)\<lparr>rd_ledger := l\<rparr>"
      and chain: "chain_ok (relay_hmac env) (relay_audit_key env) l" and cnt: "length (audit_rows l) = Suc (audit_count db)"
      and new: "record_of db (ce_event_id e) = []" and conv: "ce_conversation_id e \<in> set (rd_conversations db)" by blast
    from a acc have env_ok: "envelope_rejection j e = None" by (auto simp: accept_def split: option.splits)
    note js = replay_state [OF Cons.prems(6)]
    have cid: "ce_conversation_id e = cv_conversation_id c" and seq: "ce_sequence e = 1 + int (length st)"
      using envelope_accepts(1,7) [OF env_ok] js by (simp_all add: new_journal_def)
    have hist: "holds_history env db1 (cv_conversation_id c) (st @ [reread_event e])"
      using holds_history_add [OF codec new _ seq] Cons.prems(5) cid room len db1 by simp
    have replay: "replay_history (st @ [reread_event e]) (new_journal c ds) = Inr j1"
      using Cons.prems(6) a acc by (simp add: replay_append)
    have bound: "rows_bound db1" using Cons.prems(4) conv by (auto simp: rows_bound_def db1 add_event_def)
    note IH = Cons.IH [OF _ run _ bound hist replay]
    have fresh: "fresh_events known (e # es) = e # fresh_events (known @ [e]) es"
      using None fresh_events_snoc [OF Cons.prems(1)] by (simp add: dict_get_None fresh_events_def)
    have "dict_get ce_event_id known i = Some k \<Longrightarrow> dict_get ce_event_id (known @ [e]) i = Some k" for i k
      by (simp add: dict_get_def find_append)
    moreover have "holds_history env db i hs \<Longrightarrow> i \<noteq> cv_conversation_id c \<Longrightarrow> holds_history env db1 i hs" for i hs
      using holds_history_other [OF new] cid db1 by simp
    moreover have "event_tables_only db1 db' \<Longrightarrow> event_tables_only db db'" using event_tables_step db1 by blast
    moreover have "audit_count db1 = Suc (audit_count db)" using cnt db1 by (simp add: audit_count_def)
    moreover have "replay_history (st @ reread_event e # xs) k = replay_history (st @ e # xs) k" for xs k
      by (cases "replay_history st k") (simp_all add: replay_append)
    ultimately show ?thesis using IH Cons.prems(1,7) chain client None db1 fresh by simp
  qed
qed

end
