(* ===== verification/Relay_Invariant.thy ===== *)
theory Relay_Invariant
  imports Relay_Append
begin

text \<open>
  The invariant of the conversation store: the ledger verifies, and the history of every conversation is
  complete, in order, bounded, and accepted in full by a journal made from the conversation as it is now.
\<close>

section \<open>The conversation a device sees\<close>

definition conversation_view :: "relay_db \<Rightarrow> uuid \<Rightarrow> conversation_record \<Rightarrow> conversation_state \<Rightarrow> conversation" where
  "conversation_view db cid r st =
     \<lparr>cv_conversation_id = cid, cv_title = (case kr_title r of None \<Rightarrow> [] | Some t \<Rightarrow> t),
      cv_participant_ids = kr_participant_ids r, cv_device_ids = map cd_device_id (devices_for db (kr_participant_ids r)),
      cv_created_at = kr_created_at r, cv_state = st\<rparr>"

lemma conversation_of_view:
  assumes "conversation_of db cid did = Inr c"
  obtains d r st where "relay_device db did = Some d" and "conversation_row db cid = Some r"
    and "cd_participant_id d \<in> set (kr_participant_ids r)" and "conversation_state_of (kr_state r) = Some st"
    and "c = conversation_view db cid r st"
  using assms by (auto simp: conversation_of_def conversation_view_def split: option.splits if_splits)

lemma conversation_view_simps [simp]:
  "cv_conversation_id (conversation_view db cid r st) = cid"
  "cv_participant_ids (conversation_view db cid r st) = kr_participant_ids r"
  by (simp_all add: conversation_view_def)

definition view_journal :: "relay_db \<Rightarrow> uuid \<Rightarrow> conversation_record \<Rightarrow> conversation_state \<Rightarrow> conversation_journal" where
  "view_journal db cid r st = new_journal (conversation_view db cid r st) (devices_for db (kr_participant_ids r))"

definition replayable :: "relay_db \<Rightarrow> uuid \<Rightarrow> conversation_event list \<Rightarrow> bool" where
  "replayable db cid es \<longleftrightarrow>
     (\<forall>r st. conversation_row db cid = Some r \<longrightarrow> conversation_state_of (kr_state r) = Some st \<longrightarrow>
        (\<exists>j. replay_history es (view_journal db cid r st) = Inr j))"

definition relay_inv :: "relay_env \<Rightarrow> relay_db \<Rightarrow> bool" where
  "relay_inv env db \<longleftrightarrow> relay_chain env db \<and> rows_bound db \<and> distinct (map cd_device_id (rd_devices db))
     \<and> (\<forall>r \<in> set (rd_event_records db). fst r = 1)
     \<and> (\<forall>cid. \<exists>es. holds_history env db cid es \<and> replayable db cid es)"

lemma relay_invD:
  assumes "relay_inv env db"
  shows "relay_chain env db" and "rows_bound db" and "distinct (map cd_device_id (rd_devices db))"
    and "\<forall>r \<in> set (rd_event_records db). fst r = 1"
  using assms by (auto simp: relay_inv_def)

lemma relay_inv_history:
  assumes "relay_inv env db"
  obtains es where "holds_history env db cid es" and "replayable db cid es"
  using assms by (auto simp: relay_inv_def)

lemma replayable_view:
  assumes "replayable db cid es" and "conversation_of db cid did = Inr c"
  shows "\<exists>j. replay_history es (new_journal c (devices_for db (cv_participant_ids c))) = Inr j"
proof -
  from assms(2) obtain r st where "conversation_row db cid = Some r" "conversation_state_of (kr_state r) = Some st"
    "c = conversation_view db cid r st" by (elim conversation_of_view)
  then show ?thesis using assms(1) by (auto simp: replayable_def view_journal_def)
qed

lemma replayable_Nil [simp]: "replayable db cid []"
  by (simp add: replayable_def)

lemma holds_history_Nil: "cid \<notin> re_conversation_id ` set (rd_relay_events db) \<Longrightarrow> holds_history env db cid []"
proof -
  assume "cid \<notin> re_conversation_id ` set (rd_relay_events db)"
  then have "filter (\<lambda>r. re_conversation_id r = cid) (rd_relay_events db) = []" by (auto simp: filter_empty_conv)
  then show ?thesis by (simp add: holds_history_def event_rows_def)
qed

text \<open>An authorized page is a segment of the history.\<close>

lemma events_page_segment:
  assumes "holds_history env db cid es" and "conversation_of db cid did = Inr c"
    and "0 \<le> after" and "1 \<le> limit" and "limit \<le> int MAX_CONVERSATION_EVENTS"
  shows "events_page env cid did after limit db = Inr (take (nat limit) (drop (nat after) es))"
  using assms by (simp add: events_page_def read_events_segment)

lemma max_events_pos [simp]: "Suc 0 \<le> MAX_CONVERSATION_EVENTS"
  by (simp add: MAX_CONVERSATION_EVENTS_def)

lemma full_history:
  assumes "holds_history env db cid es" and "conversation_of db cid did = Inr c"
  shows "events_page env cid did 0 (int MAX_CONVERSATION_EVENTS) db = Inr es"
  using events_page_segment [OF assms, of 0 "int MAX_CONVERSATION_EVENTS"] assms(1) by (simp add: holds_history_def)

section \<open>Appending\<close>

lemma append_body_outcome:
  assumes inv: "relay_inv env db" and codec: "event_codec_ok env"
    and run: "append_body env cid did events ctx db = (Inr n, db')"
    and h: "holds_history env db cid hist" "replayable db cid hist"
  shows "\<exists>c. conversation_of db cid did = Inr c \<and> distinct (map ce_event_id events)
    \<and> 1 \<le> length events \<and> length events \<le> MAX_BATCH_EVENTS
    \<and> n = length (hist @ fresh_events hist events) + 1 \<and> event_tables_only db db' \<and> relay_chain env db' \<and> rows_bound db'
    \<and> holds_history env db' cid (hist @ map reread_event (fresh_events hist events))
    \<and> (\<exists>j'. replay_history (hist @ fresh_events hist events) (new_journal c (devices_for db (cv_participant_ids c))) = Inr j')
    \<and> audit_count db' = audit_count db + length (fresh_events hist events)
    \<and> (\<forall>i hs. i \<noteq> cid \<longrightarrow> holds_history env db i hs \<longrightarrow> holds_history env db' i hs)
    \<and> (\<forall>e \<in> set events. client_event env did e \<and> (\<forall>k. dict_get ce_event_id hist (ce_event_id e) = Some k \<longrightarrow> event_eq e k))"
proof -
  from run obtain c where c: "conversation_of db cid did = Inr c" by (auto simp: append_body_def)
  then have cid: "cv_conversation_id c = cid" by (elim conversation_of_view) simp
  obtain j where j: "replay_history hist (new_journal c (devices_for db (cv_participant_ids c))) = Inr j"
    using replayable_view [OF h(2) c] by blast
  have known: "dict_by ce_event_id hist = hist" using replay_facts(1) [OF j] by simp
  from run c j full_history [OF h(1) c] have
    batch: "1 \<le> length events" "length events \<le> MAX_BATCH_EVENTS" "distinct (map ce_event_id events)"
    and loop: "append_loop env did ctx events hist j db = (Inr n, db')"
    by (auto simp: append_body_def known)
  from append_loop_stores [OF codec batch(3) loop relay_invD(1,2) [OF inv] h(1) [folded cid] j refl] c batch cid
  show ?thesis by blast
qed

text \<open>The exact retry of a stored batch changes nothing.\<close>

lemma append_loop_known:
  assumes "\<forall>e \<in> set events. client_event env did e \<and> (\<exists>k. dict_get ce_event_id known (ce_event_id e) = Some k \<and> event_eq e k)"
  shows "append_loop env did ctx events known j db = (Inr (length known + 1), db)"
  using assms by (induction events) (auto simp: client_event_def split: option.splits)

lemma event_eq_reread:
  "tz (ce_occurred_at e) \<noteq> NoTz \<Longrightarrow> \<not> fold_sensitive (ce_occurred_at e) \<Longrightarrow> event_eq e (reread_event e)"
  by (auto simp: event_eq_def reread_event_def stamp_eq_def dt_eq_def reread_def is_naive_def utc_def split: option.splits)

section \<open>Preservation\<close>

lemma view_journal_cong:
  "devices_for db' = devices_for db \<Longrightarrow> view_journal db' cid r st = view_journal db cid r st"
  by (simp add: view_journal_def conversation_view_def)

lemma conversation_row_cong:
  "rd_conversations db' = rd_conversations db \<Longrightarrow> rd_conversation_records db' = rd_conversation_records db
   \<Longrightarrow> conversation_row db' = conversation_row db"
  by (simp add: fun_eq_iff conversation_row_def)

lemma replayable_cong:
  assumes "rd_devices db' = rd_devices db" and "conversation_row db' cid = conversation_row db cid"
  shows "replayable db' cid es = replayable db cid es"
proof -
  have "devices_for db' = devices_for db" using assms(1) by (simp add: fun_eq_iff devices_for_def)
  from view_journal_cong [OF this] show ?thesis unfolding replayable_def assms(2) by presburger
qed

text \<open>Every canonical event is inserted as version one.\<close>

abbreviation first_versions :: "relay_db \<Rightarrow> bool" where
  "first_versions db \<equiv> \<forall>r \<in> set (rd_event_records db). fst r = 1"

lemma relay_audit_ledger: "\<exists>l. snd (relay_audit env i action content ctx db) = db\<lparr>rd_ledger := l\<rparr>"
proof -
  have "\<exists>l. db = db\<lparr>rd_ledger := l\<rparr>" by (rule exI [of _ "rd_ledger db"]) simp
  then show ?thesis unfolding relay_audit_def by (auto split: sum.splits prod.splits)
qed

lemma relay_audit_keeps [keeps_rules]:
  assumes "\<And>db l. I db \<Longrightarrow> I (db\<lparr>rd_ledger := l\<rparr>)"
  shows "keeps I (relay_audit env i action content ctx)"
proof (rule tripleI)
  fix db r db' assume "I db" "relay_audit env i action content ctx db = (r, db')"
  then show "I db'" using relay_audit_ledger [of env i action content ctx db] assms by auto
next
  fix db r db' assume "I db" "relay_audit env i action content ctx db = (Inl r, db')"
  then show "I db'" using relay_audit_ledger [of env i action content ctx db] assms by auto
qed

lemma insert_event_first_versions: "keeps first_versions (insert_event env e ctx)"
  unfolding insert_event_def by (intro keeps_rules) auto

lemma append_loop_first_versions: "keeps first_versions (append_loop env did ctx events known j)"
proof (induction events arbitrary: known j)
  case (Cons e es)
  obtain a j1 where acc: "accept e j = (a, j1)" by fastforce
  show ?case unfolding append_loop.simps Let_def acc prod.case by (intro keeps_rules insert_event_first_versions Cons.IH)
qed (simp add: keeps_rules)

lemma append_body_first_versions: "keeps first_versions (append_body env cid did events ctx)"
  unfolding append_body_def by (intro keeps_rules append_loop_first_versions)

lemma append_body_inv:
  assumes inv: "relay_inv env db" and codec: "event_codec_ok env"
    and run: "append_body env cid did events ctx db = (Inr n, db')"
  shows "relay_inv env db'"
proof -
  obtain hist where h: "holds_history env db cid hist" "replayable db cid hist" by (rule relay_inv_history [OF inv])
  from append_body_outcome [OF inv codec run h] obtain c where c: "conversation_of db cid did = Inr c"
    and only: "event_tables_only db db'" and chain: "relay_chain env db'" "rows_bound db'"
    and hist': "holds_history env db' cid (hist @ map reread_event (fresh_events hist events))"
    and rep: "\<exists>j'. replay_history (hist @ fresh_events hist events) (new_journal c (devices_for db (cv_participant_ids c))) = Inr j'"
    and other: "\<forall>i hs. i \<noteq> cid \<longrightarrow> holds_history env db i hs \<longrightarrow> holds_history env db' i hs" by blast
  note frame = event_tables_frame [OF only]
  have ones: "first_versions db'"
    using triple_value [OF append_body_first_versions _ run] relay_invD(4) [OF inv] by blast
  have rc: "replayable db' i es = replayable db i es" for i es
    using replayable_cong [OF frame(1)] conversation_row_cong [OF frame(2,3)] by simp
  have "replay_history (hist @ map reread_event (fresh_events hist events)) k = replay_history (hist @ fresh_events hist events) k" for k
    by (cases "replay_history hist k") (simp_all add: replay_append)
  moreover obtain r st where "conversation_row db cid = Some r" "conversation_state_of (kr_state r) = Some st"
    "c = conversation_view db cid r st" using c by (elim conversation_of_view)
  ultimately have "replayable db' cid (hist @ map reread_event (fresh_events hist events))"
    unfolding rc using rep by (auto simp: replayable_def view_journal_def)
  with hist' other rc show ?thesis
    unfolding relay_inv_def using chain relay_invD(3) [OF inv] frame(1) ones by (metis relay_inv_history [OF inv])
qed

text \<open>Binding a device: every conversation keeps its journal, with more devices known to it.\<close>

lemma view_journal_bind:
  assumes "distinct (map cd_device_id (rd_devices db @ [d]))" and "rd_devices db' = rd_devices db @ [d]"
  shows "journal_le (view_journal db cid r st) (view_journal db' cid r st)"
proof -
  let ?ps = "kr_participant_ids r"
  have dv: "devices_for db' ?ps = devices_for db ?ps @ devices_for (db\<lparr>rd_devices := [d]\<rparr>) ?ps"
    using assms(2) by (simp add: devices_for_def)
  have "distinct (map cd_device_id (devices_for db' ?ps))" and "distinct (map cd_device_id (devices_for db ?ps))"
    using assms by (auto simp: devices_for_def distinct_map inj_on_def)
  then have "dict_by cd_device_id (devices_for db' ?ps) = devices_for db' ?ps"
    and "dict_by cd_device_id (devices_for db ?ps) = devices_for db ?ps" by simp_all
  then show ?thesis unfolding journal_le_def view_journal_def new_journal_def conversation_view_def
    by (auto simp: dv dict_get_def find_append)
qed

text \<open>Steps that leave the event tables alone.\<close>

lemma holds_history_tables:
  assumes "rd_relay_events db' = rd_relay_events db" and "\<And>i. record_of db' i = record_of db i"
  shows "holds_history env db' = holds_history env db"
proof -
  have "holds_event env db' = holds_event env db" by (simp add: fun_eq_iff holds_event_def assms(2))
  moreover have "event_rows db' = event_rows db" using assms(1) by (simp add: fun_eq_iff event_rows_def)
  ultimately show ?thesis by (intro ext) (simp only: holds_history_def)
qed

lemma relay_inv_frame:
  assumes inv: "relay_inv env db" and "relay_chain env db'"
    and ev: "rd_relay_events db' = rd_relay_events db" "rd_event_records db' = rd_event_records db"
    and "set (rd_conversations db) \<subseteq> set (rd_conversations db')" and "distinct (map cd_device_id (rd_devices db'))"
    and rep: "\<And>cid es. holds_history env db cid es \<Longrightarrow> replayable db cid es \<Longrightarrow> replayable db' cid es"
  shows "relay_inv env db'"
proof -
  have "holds_history env db' = holds_history env db"
    by (rule holds_history_tables) (simp_all add: ev record_of_def)
  then have "\<exists>es. holds_history env db' cid es \<and> replayable db' cid es" for cid
    using rep by (metis relay_inv_history [OF inv])
  moreover have "rows_bound db'" using relay_invD(2) [OF inv] assms(5) ev(1) by (auto simp: rows_bound_def)
  ultimately show ?thesis unfolding relay_inv_def using assms(2,6) relay_invD(4) [OF inv] ev(2) by simp
qed

lemma relay_inv_ledger:
  assumes "relay_inv env db" and "chain_ok (relay_hmac env) (relay_audit_key env) l"
  shows "relay_inv env (db\<lparr>rd_ledger := l\<rparr>)"
proof (rule relay_inv_frame [OF assms(1)])
  show "replayable (db\<lparr>rd_ledger := l\<rparr>) cid es" if "replayable db cid es" for cid es
    using that replayable_cong [of "db\<lparr>rd_ledger := l\<rparr>" db] by (simp add: conversation_row_def)
qed (use assms relay_invD in auto)

lemma relay_audit_inv:
  assumes "relay_inv env db" and "relay_audit env i action content ctx db = (r, db')"
  shows "relay_inv env db'"
proof -
  obtain l where "db' = db\<lparr>rd_ledger := l\<rparr>" "chain_ok (relay_hmac env) (relay_audit_key env) l"
    using relay_audit_appends [OF relay_invD(1) [OF assms(1)], of i action content ctx] assms(2) by auto
  then show ?thesis using relay_inv_ledger [OF assms(1)] by simp
qed

lemma relay_inv_identities: "relay_inv env db \<Longrightarrow> relay_inv env (db\<lparr>rd_identities := x\<rparr>)"
  by (rule relay_inv_frame [where db = db])
    (use relay_invD replayable_cong [of "db\<lparr>rd_identities := x\<rparr>" db] in \<open>auto simp: conversation_row_def\<close>)

lemma relay_inv_bind:
  assumes inv: "relay_inv env db" and "relay_device db (cd_device_id d) = None"
  shows "relay_inv env (db\<lparr>rd_devices := rd_devices db @ [d]\<rparr>)"
proof -
  let ?db = "db\<lparr>rd_devices := rd_devices db @ [d]\<rparr>"
  have dist: "distinct (map cd_device_id (rd_devices db @ [d]))"
    using relay_invD(3) [OF inv] assms(2) by (auto simp: relay_device_def find_None_iff)
  have row: "conversation_row ?db cid = conversation_row db cid" for cid by (simp add: conversation_row_def)
  show ?thesis
  proof (rule relay_inv_frame [OF inv])
    show "replayable ?db cid es" if "replayable db cid es" for cid es
      using that journal_le_replay [OF view_journal_bind [OF dist, of ?db]] unfolding replayable_def row
      by simp blast
  qed (use relay_invD(1) [OF inv] dist in simp_all)
qed

abbreviation safely :: "relay_env \<Rightarrow> 'a relay_action \<Rightarrow> bool" where
  "safely env m \<equiv> triple (relay_inv env) m (\<lambda>_. relay_inv env) (\<lambda>_ _. True)"

lemma safely_audit: "safely env (relay_audit env i action content ctx)"
  by (rule tripleI) (auto intro: relay_audit_inv)

lemmas safely_abind = triple_abind [where R = "\<lambda>_. relay_inv env" and P = "relay_inv env" for env]

lemma provision_body_inv: "safely env (provision_body env identity device ctx)"
proof -
  let ?d = "device\<lparr>cd_created_at := reread (cd_created_at device)\<rparr>"
  have "triple (\<lambda>db. relay_inv env db \<and> relay_device db (cd_device_id device) = None)
     (amodify (\<lambda>db. db\<lparr>rd_devices := rd_devices db @ [?d]\<rparr>)) (\<lambda>_. relay_inv env) (\<lambda>_ _. True)"
    by (rule triple_amodify) (use relay_inv_bind [of env _ ?d] in auto)
  from triple_abind [OF this safely_audit]
  have bind: "triple (\<lambda>db. relay_inv env db \<and> relay_device db (cd_device_id device) = None)
     (abind (aread (\<lambda>db. require (cd_device_id device \<in> rd_enrolled db) RelayIntegrityError)) (\<lambda>_.
      abind (amodify (\<lambda>db. db\<lparr>rd_devices := rd_devices db @ [?d]\<rparr>)) (\<lambda>_.
        relay_audit env (cd_device_id device) ''device.bound'' (dump_relay_device env device) ctx)))
     (\<lambda>_. relay_inv env) (\<lambda>_ _. True)"
    by (rule triple_abind [rotated]) (auto intro!: triple_aread)
  have tail: "triple (relay_inv env) (abind (aget (\<lambda>db. relay_device db (cd_device_id device))) (\<lambda>existing.
       case existing of
         Some d \<Rightarrow> alift (require (device_eq d device) RelayConflictError)
       | None \<Rightarrow>
           abind (aread (\<lambda>db. require (cd_device_id device \<in> rd_enrolled db) RelayIntegrityError)) (\<lambda>_.
           abind (amodify (\<lambda>db. db\<lparr>rd_devices := rd_devices db @ [?d]\<rparr>)) (\<lambda>_.
             relay_audit env (cd_device_id device) ''device.bound'' (dump_relay_device env device) ctx))))
       (\<lambda>_. relay_inv env) (\<lambda>_ _. True)"
    by (rule triple_abind [where R = "\<lambda>x db. relay_inv env db \<and> relay_device db (cd_device_id device) = x"])
      (auto intro!: triple_aget triple_option triple_alift bind intro: triple_weaken [OF bind])
  show ?thesis unfolding provision_body_def
    by (rule safely_abind [OF _ safely_abind [OF _ tail]])
      (auto intro!: triple_aget triple_option triple_amodify triple_alift relay_inv_identities)
qed

end
