(* ===== verification/Relay_Steps.thy ===== *)
theory Relay_Steps
  imports Relay_Invariant
begin

text \<open>
  Creation, deletion and assistant turns keep the invariant of the conversation store; reachable stores.
\<close>

section \<open>Creation\<close>

definition created :: "uuid \<Rightarrow> conversation_record \<Rightarrow> datetime \<Rightarrow> relay_db \<Rightarrow> relay_db" where
  "created cid r until db = db\<lparr>rd_conversation_records := rd_conversation_records db @ [(1, r)],
     rd_conversations := rd_conversations db @ [cid], rd_retention := rd_retention db @ [(cid, until)]\<rparr>"

definition first_record :: "uuid \<Rightarrow> string \<Rightarrow> conversation_device \<Rightarrow> transition_context \<Rightarrow> conversation_record" where
  "first_record cid title device ctx = \<lparr>kr_record_id = cid, kr_created_at = reread (ctx_occurred_at ctx), kr_state = ''active'',
     kr_title = Some title, kr_participant_ids = [cd_participant_id device]\<rparr>"

definition retained_until :: "transition_context \<Rightarrow> datetime" where
  "retained_until ctx = (ctx_occurred_at ctx)\<lparr>wall := wall (ctx_occurred_at ctx) + CONVERSATION_RETENTION\<rparr>"

lemma create_conversation_cases:
  assumes "create_conversation_body env cid title did device ctx db = (Inr u, db')"
  obtains (retry) c where "db' = db" and "conversation_of db cid did = Inr c" and "cv_title c = title"
  | (new) "cid \<notin> set (rd_conversations db)" and "\<forall>k \<in> set (rd_conversation_records db). kr_record_id (snd k) \<noteq> cid"
      and "title \<noteq> []"
      and "relay_audit env cid ''conversation.created'' (dump_conversation env (first_record cid title device ctx)) ctx
         (created cid (first_record cid title device ctx) (retained_until ctx) db) = (Inr (), db')"
  using assms
  by (auto simp: create_conversation_body_def created_def first_record_def retained_until_def Let_def split: if_splits)

lemma relay_inv_created:
  assumes inv: "relay_inv env db" and fresh: "cid \<notin> set (rd_conversations db)" and "kr_record_id r = cid"
  shows "relay_inv env (created cid r until db)"
proof (rule relay_inv_frame [OF inv])
  fix i es assume h: "holds_history env db i es" and rep: "replayable db i es"
  show "replayable (created cid r until db) i es"
  proof (cases "i = cid")
    case True
    then have "event_rows db i = []"
      using fresh relay_invD(2) [OF inv] by (auto simp: rows_bound_def simp flip: set_empty)
    with h have "es = []" by (simp add: holds_history_def)
    then show ?thesis by simp
  next
    case False
    then have "conversation_row (created cid r until db) i = conversation_row db i"
      using assms(3) by (simp add: conversation_row_def created_def)
    then show ?thesis using rep replayable_cong [of "created cid r until db" db i es] by (simp add: created_def)
  qed
qed (use relay_invD [OF inv] in \<open>auto simp: created_def\<close>)

lemma create_body_inv: "safely env (create_conversation_body env cid title did device ctx)"
proof (rule tripleI)
  fix db u db' assume inv: "relay_inv env db" and run: "create_conversation_body env cid title did device ctx db = (Inr u, db')"
  from run show "relay_inv env db'"
  proof (cases rule: create_conversation_cases)
    case retry
    with inv show ?thesis by simp
  next
    case new
    have "kr_record_id (first_record cid title device ctx) = cid" by (simp add: first_record_def)
    with new show ?thesis using relay_audit_inv [OF relay_inv_created [OF inv new(1)]] by blast
  qed
qed simp

section \<open>Deletion\<close>

definition doomed :: "uuid \<Rightarrow> relay_db \<Rightarrow> uuid set" where
  "doomed cid db = ke_record_id ` snd ` {r \<in> set (rd_event_records db). ke_conversation_id (snd r) = cid}"

definition deleted :: "uuid \<Rightarrow> relay_db \<Rightarrow> relay_db" where
  "deleted cid db = db\<lparr>
     rd_relay_events := filter (\<lambda>r. re_conversation_id r \<noteq> cid) (rd_relay_events db),
     rd_event_records := filter (\<lambda>r. ke_record_id (snd r) \<notin> doomed cid db) (rd_event_records db),
     rd_conversation_records := filter (\<lambda>r. kr_record_id (snd r) \<noteq> cid) (rd_conversation_records db),
     rd_ledger := (rd_ledger db)\<lparr>lifecycle_delete_allowed := False\<rparr>,
     rd_retention := filter (\<lambda>r. fst r \<noteq> cid) (rd_retention db),
     rd_conversations := filter (\<lambda>i. i \<noteq> cid) (rd_conversations db)\<rparr>"

lemma relay_chain_flag [simp]: "chain_ok hmac key (l\<lparr>lifecycle_delete_allowed := b\<rparr>) = chain_ok hmac key l"
  by (simp add: chain_ok_def ledger_verify_def ledger_entries_def anchor_sequence_def anchor_hash_def)

lemma delete_body_total:
  assumes "relay_chain env db"
  shows "\<exists>l. delete_conversation_body env cid ctx db =
      (Inr (length (filter (\<lambda>r. ke_conversation_id (snd r) = cid) (rd_event_records db))), (deleted cid db)\<lparr>rd_ledger := l\<rparr>)
    \<and> chain_ok (relay_hmac env) (relay_audit_key env) l \<and> length (audit_rows l) = Suc (audit_count db)"
proof -
  let ?n = "length (filter (\<lambda>r. ke_conversation_id (snd r) = cid) (rd_event_records db))"
  have "relay_chain env (deleted cid db)" using assms by (simp add: deleted_def)
  from relay_audit_appends [OF this] obtain l where
    l: "relay_audit env cid ''conversation.deleted'' (uuid_str cid @ '':'' @ dec ?n) ctx (deleted cid db)
       = (Inr (), (deleted cid db)\<lparr>rd_ledger := l\<rparr>)"
      "chain_ok (relay_hmac env) (relay_audit_key env) l" "length (audit_rows l) = Suc (audit_count (deleted cid db))"
    by blast
  have "audit_count (deleted cid db) = audit_count db" by (simp add: audit_count_def deleted_def)
  moreover have "delete_conversation_body env cid ctx db =
      abind (relay_audit env cid ''conversation.deleted'' (uuid_str cid @ '':'' @ dec ?n) ctx) (\<lambda>_. areturn ?n) (deleted cid db)"
    by (simp add: delete_conversation_body_def abind_def delete_canonical_def set_lifecycle_def deleted_def doomed_def Let_def)
  ultimately show ?thesis using l by auto
qed

lemma holds_history_deleted:
  assumes inv: "relay_inv env db" and h: "holds_history env db i es" and "i \<noteq> cid"
  shows "holds_history env (deleted cid db) i es"
proof -
  have rows: "event_rows (deleted cid db) i = event_rows db i"
    using assms(3) by (auto simp: event_rows_def deleted_def intro!: arg_cong [of _ _ "sort_key re_sequence"] filter_cong)
  have "holds_event env (deleted cid db) r e" if r: "r \<in> set (event_rows db i)" and e: "holds_event env db r e" for r e
  proof -
    from e obtain k where k: "record_of db (re_event_id r) = [k]" "ke_conversation_id k = re_conversation_id r"
      by (auto simp: holds_event_def)
    have "re_event_id r \<notin> doomed cid db"
    proof
      assume "re_event_id r \<in> doomed cid db"
      then obtain x where "x \<in> set (rd_event_records db)" "ke_conversation_id (snd x) = cid" "ke_record_id (snd x) = re_event_id r"
        by (auto simp: doomed_def)
      moreover from this have "snd x \<in> set (record_of db (re_event_id r))"
        using relay_invD(4) [OF inv] by (auto simp: record_of_def intro!: rev_image_eqI)
      ultimately show False using k r assms(3) by auto
    qed
    then have "record_of (deleted cid db) (re_event_id r) = record_of db (re_event_id r)"
      by (auto simp: record_of_def deleted_def intro!: arg_cong [of _ _ "map snd"] filter_cong)
    with e show ?thesis by (simp add: holds_event_def)
  qed
  then have "list_all2 (holds_event env db) (event_rows db i) es \<Longrightarrow> list_all2 (holds_event env (deleted cid db)) (event_rows db i) es"
    using list.rel_mono_strong [of "holds_event env db" "event_rows db i" es "holds_event env (deleted cid db)"] by blast
  with h show ?thesis unfolding holds_history_def rows by blast
qed

lemma relay_inv_deleted:
  assumes inv: "relay_inv env db"
  shows "relay_inv env (deleted cid db)"
proof -
  have row: "conversation_row (deleted cid db) i = (if i = cid then None else conversation_row db i)" for i
    by (auto simp: conversation_row_def deleted_def intro!: arg_cong [of _ _ latest_version] filter_cong)
  have "\<exists>es. holds_history env (deleted cid db) i es \<and> replayable (deleted cid db) i es" for i
  proof (cases "i = cid")
    case True
    have "holds_history env (deleted cid db) cid []" by (rule holds_history_Nil) (auto simp: deleted_def)
    with True show ?thesis by (intro exI [of _ "[]"]) simp
  next
    case False
    obtain es where h: "holds_history env db i es" and rep: "replayable db i es" by (rule relay_inv_history [OF inv])
    have "replayable (deleted cid db) i es"
      using rep replayable_cong [of "deleted cid db" db i es] row [of i] False by (simp add: deleted_def)
    with holds_history_deleted [OF inv h False] show ?thesis by blast
  qed
  moreover have "rows_bound (deleted cid db)" using relay_invD(2) [OF inv] by (auto simp: rows_bound_def deleted_def)
  ultimately show ?thesis
    unfolding relay_inv_def using relay_invD(1,3,4) [OF inv] by (simp add: deleted_def)
qed

lemma delete_body_inv:
  assumes "relay_inv env db" and "delete_conversation_body env cid ctx db = (r, db')"
  shows "relay_inv env db'"
  using delete_body_total [OF relay_invD(1) [OF assms(1)], of cid ctx] assms(2)
    relay_inv_ledger [OF relay_inv_deleted [OF assms(1)]] by auto

section \<open>Assistant turns\<close>

definition turn_body :: "agent_turn \<Rightarrow> string" where
  "turn_body t = map (\<lambda>c. if c = CHR 10 then CHR '' '' else c) (at_text t) @ [CHR 10] @ at_reply t"

definition turn_record :: "uuid \<Rightarrow> agent_turn \<Rightarrow> int \<Rightarrow> canonical_event_record" where
  "turn_record i t revision = \<lparr>ke_record_id = i, ke_created_at = reread (ctx_occurred_at (at_context t)), ke_state = ''accepted'',
     ke_conversation_id = at_conversation_id t, ke_sequence = revision + 1, ke_event_type = ''agent.turn'', ke_payload = turn_body t\<rparr>"

definition add_record :: "canonical_event_record \<Rightarrow> relay_db \<Rightarrow> relay_db" where
  "add_record k db = db\<lparr>rd_event_records := rd_event_records db @ [(1, k)]\<rparr>"

lemma save_turn_cases:
  assumes "save_turn_body env new_id t db = (Inr u, db')"
  obtains revision turns where "agent_history (at_conversation_id t) (at_device_id t) db = Inr (revision, turns)"
    and "revision = at_expected_revision t" and "revision < int MAX_CONVERSATION_EVENTS" and "record_of db new_id = []"
    and "relay_audit env new_id ''conversation.agent.accepted'' (turn_body t) (at_context t) (add_record (turn_record new_id t revision) db)
         = (Inr (), db')"
proof -
  from assms obtain revision turns where h: "agent_history (at_conversation_id t) (at_device_id t) db = Inr (revision, turns)"
    by (auto simp: save_turn_body_def)
  with assms have "revision = at_expected_revision t" "revision < int MAX_CONVERSATION_EVENTS" "record_of db new_id = []"
    "relay_audit env new_id ''conversation.agent.accepted'' (turn_body t) (at_context t) (add_record (turn_record new_id t revision) db)
         = (Inr (), db')"
    by (auto simp: save_turn_body_def record_of_Nil turn_record_def turn_body_def add_record_def Let_def split: if_splits, force)
  with h that show thesis by blast
qed

lemma relay_inv_add_record:
  assumes inv: "relay_inv env db" and new: "record_of db (ke_record_id k) = []"
  shows "relay_inv env (add_record k db)"
proof -
  have rec: "record_of (add_record k db) i = record_of db i @ (if i = ke_record_id k then [k] else [])" for i
    by (simp add: record_of_def add_record_def)
  have "holds_event env (add_record k db) r e" if "holds_event env db r e" for r e
    using that new by (auto simp: holds_event_def rec)
  moreover have rows: "event_rows (add_record k db) i = event_rows db i" for i by (simp add: event_rows_def add_record_def)
  ultimately have "holds_history env (add_record k db) i es" if "holds_history env db i es" for i es
    using that unfolding holds_history_def rows by (blast intro: list_all2_mono)
  moreover have "replayable (add_record k db) i es = replayable db i es" for i es
    by (rule replayable_cong) (simp_all add: add_record_def conversation_row_def)
  ultimately have "\<exists>es. holds_history env (add_record k db) i es \<and> replayable (add_record k db) i es" for i
    by (metis relay_inv_history [OF inv])
  then show ?thesis unfolding relay_inv_def using relay_invD [OF inv] by (auto simp: add_record_def rows_bound_def)
qed

lemma save_turn_inv: "safely env (save_turn_body env new_id t)"
proof (rule tripleI)
  fix db u db' assume inv: "relay_inv env db" and run: "save_turn_body env new_id t db = (Inr u, db')"
  from run show "relay_inv env db'"
  proof (cases rule: save_turn_cases)
    case (1 revision turns)
    have "relay_inv env (add_record (turn_record new_id t revision) db)"
      using relay_inv_add_record [OF inv] 1(4) by (simp add: turn_record_def)
    then show ?thesis using relay_audit_inv 1(5) by blast
  qed
qed simp

section \<open>Reachable stores\<close>

definition new_relay_db :: relay_db where
  "new_relay_db = \<lparr>rd_enrolled = {}, rd_identities = [], rd_conversation_records = [], rd_event_records = [], rd_devices = [],
     rd_conversations = [], rd_relay_events = [], rd_retention = [], rd_ledger = new_ledger\<rparr>"

inductive relay_step :: "relay_env \<Rightarrow> relay_db \<Rightarrow> relay_db \<Rightarrow> bool" for env where
  step_enrolled: "relay_step env db (db\<lparr>rd_enrolled := insert i (rd_enrolled db)\<rparr>)"
| step_provision: "provision env identity device ctx (idle db) = (r, k) \<Longrightarrow> relay_step env db (current k)"
| step_create: "create_conversation env cid title did ctx (idle db) = (r, k) \<Longrightarrow> relay_step env db (current k)"
| step_append: "append_events env cid did events ctx (idle db) = (r, k) \<Longrightarrow> relay_step env db (current k)"
| step_delete: "delete_conversation env cid did ctx (idle db) = (r, k) \<Longrightarrow> relay_step env db (current k)"
| step_expire: "expire env now ctx (idle db) = (r, k) \<Longrightarrow> relay_step env db (current k)"
| step_turn: "save_agent_turn env new_id t (idle db) = (r, k) \<Longrightarrow> relay_step env db (current k)"

inductive relay_reachable :: "relay_env \<Rightarrow> relay_db \<Rightarrow> bool" for env where
  reachable_new: "relay_reachable env new_relay_db"
| reachable_step: "relay_reachable env db \<Longrightarrow> relay_step env db db' \<Longrightarrow> relay_reachable env db'"

lemma relay_inv_new: "relay_inv env new_relay_db"
proof -
  have "holds_history env new_relay_db cid []" for cid by (rule holds_history_Nil) (simp add: new_relay_db_def)
  moreover have "chain_ok (relay_hmac env) (relay_audit_key env) new_ledger"
    by (simp add: chain_ok_def ledger_verify_def ledger_entries_def new_ledger_def anchor_sequence_def anchor_hash_def)
  ultimately have "relay_chain env new_relay_db" "\<exists>es. holds_history env new_relay_db cid es \<and> replayable new_relay_db cid es" for cid
    by (auto simp: new_relay_db_def intro!: exI [of _ "[]"])
  then show ?thesis unfolding relay_inv_def rows_bound_def by (simp add: new_relay_db_def)
qed

lemma immediate_safely:
  assumes "relay_inv env db" and "safely env m" and "immediate m (idle db) = (r, k)"
  shows "\<exists>db'. k = idle db' \<and> relay_inv env db'"
proof (cases "m db")
  case (Pair x db1)
  with assms triple_value [OF assms(2,1)] show ?thesis by (cases x) (auto simp: immediate_idle)
qed

lemma delete_each_safe:
  "relay_inv env db \<Longrightarrow> \<exists>db'. delete_each env ctx is (idle db) = (Inr (), idle db') \<and> relay_inv env db'"
proof (induction "is" arbitrary: db)
  case (Cons i "is")
  obtain n db1 where d: "delete_conversation_body env i ctx db = (Inr n, db1)"
    using delete_body_total [OF relay_invD(1) [OF Cons.prems]] by blast
  from Cons.IH [OF delete_body_inv [OF Cons.prems this]] d show ?case by (simp add: abind_def immediate_idle)
qed auto

end
