(* ===== verification/Relay_Codec.thy ===== *)
theory Relay_Codec
  imports Text_Codec Relay_Store
begin

text \<open>A concrete codec for relay events: it satisfies \<open>event_codec_ok\<close>.\<close>

type_synonym payload_parts = "nat \<times> nat \<times> nat \<times> string \<times> string \<times> string \<times> int \<times> bool"

fun payload_parts :: "conversation_payload \<Rightarrow> payload_parts" where
  "payload_parts (TranscriptPartial t x) = (0, t, 0, x, [], [], 0, False)"
| "payload_parts (TranscriptFinal t x) = (1, t, 0, x, [], [], 0, False)"
| "payload_parts (Attachment i m n r) = (2, i, 0, m, r, [], n, False)"
| "payload_parts (ToolResult c n s r) = (3, 0, 0, c, n, r, 0, s = OK_status)"
| "payload_parts (Cancellation t r) = (4, t, 0, r, [], [], 0, False)"
| "payload_parts (Resume t f) = (5, t, f, [], [], [], 0, False)"
| "payload_parts (ConversationError c m r) = (6, 0, 0, c, m, [], 0, r)"

definition payload_of_parts :: "payload_parts \<Rightarrow> conversation_payload" where
  "payload_of_parts p = (case p of (k, i, j, a, b, c, n, f) \<Rightarrow>
     if k = 0 then TranscriptPartial i a else if k = 1 then TranscriptFinal i a else if k = 2 then Attachment i a n b
     else if k = 3 then ToolResult a b (if f then OK_status else ERROR_status) c else if k = 4 then Cancellation i a
     else if k = 5 then Resume i j else ConversationError a b f)"

lemma payload_parts [simp]: "payload_of_parts (payload_parts p) = p"
proof (cases p)
  case (ToolResult c n s r)
  then show ?thesis by (cases s) (simp_all add: payload_of_parts_def)
qed (simp_all add: payload_of_parts_def)

fun kind_part :: "conversation_event_kind \<Rightarrow> nat" where
  "kind_part TRANSCRIPT_PARTIAL = 0" | "kind_part TRANSCRIPT_FINAL = 1" | "kind_part ATTACHMENT = 2"
| "kind_part TOOL_RESULT = 3" | "kind_part CANCELLATION = 4" | "kind_part RESUME = 5" | "kind_part ERROR = 6"

definition kind_of_part :: "nat \<Rightarrow> conversation_event_kind" where
  "kind_of_part n = [TRANSCRIPT_PARTIAL, TRANSCRIPT_FINAL, ATTACHMENT, TOOL_RESULT, CANCELLATION, RESUME, ERROR] ! n"

lemma kind_part [simp]: "kind_of_part (kind_part k) = k"
  by (cases k) (simp_all add: kind_of_part_def)

definition event_parts where
  "event_parts e = (ce_event_id e, ce_conversation_id e, ce_participant_id e, ce_device_id e, ce_sequence e, ce_occurred_at e,
     kind_part (ce_kind e), payload_parts (ce_payload e))"

definition event_of_parts where
  "event_of_parts p = (case p of (i, c, q, d, n, t, k, b) \<Rightarrow>
     \<lparr>ce_event_id = i, ce_conversation_id = c, ce_participant_id = q, ce_device_id = d, ce_sequence = n, ce_occurred_at = t,
      ce_kind = kind_of_part k, ce_payload = payload_of_parts b\<rparr>)"

lemma event_parts [simp]: "event_of_parts (event_parts e) = e"
  by (simp add: event_parts_def event_of_parts_def)

abbreviation "enc_payload \<equiv> enc_pair enc_nat (enc_pair enc_nat (enc_pair enc_nat (enc_pair enc_string (enc_pair enc_string
  (enc_pair enc_string (enc_pair enc_int enc_bool))))))"
abbreviation "dec_payload \<equiv> dec_pair dec_nat (dec_pair dec_nat (dec_pair dec_nat (dec_pair dec_string (dec_pair dec_string
  (dec_pair dec_string (dec_pair dec_int dec_bool))))))"
abbreviation "enc_event \<equiv> enc_pair enc_nat (enc_pair enc_nat (enc_pair enc_nat (enc_pair enc_nat (enc_pair enc_int
  (enc_pair enc_datetime (enc_pair enc_nat enc_payload))))))"
abbreviation "dec_event \<equiv> dec_pair dec_nat (dec_pair dec_nat (dec_pair dec_nat (dec_pair dec_nat (dec_pair dec_int
  (dec_pair dec_datetime (dec_pair dec_nat dec_payload))))))"

definition text_event :: "conversation_event \<Rightarrow> string" where
  "text_event e = enc_event (event_parts e)"

definition untext_event :: "string \<Rightarrow> conversation_event option" where
  "untext_event t = map_option (reread_event \<circ> fst) (dec_as event_of_parts dec_event t)"

lemma untext_event: "untext_event (text_event e) = Some (reread_event e)"
proof -
  have c: "codec text_event (dec_as event_of_parts dec_event)"
    unfolding text_event_def
    by (intro codec_as codec_pair codec_nat codec_string codec_int codec_bool codec_datetime) simp
  from codecD [OF c, of e "[]"] show ?thesis unfolding untext_event_def by simp
qed

definition text_relay_env :: relay_env where
  "text_relay_env = \<lparr>dump_event = text_event, parse_event = untext_event, dump_relay_device = cd_name,
     dump_conversation = kr_state, relay_hmac = (\<lambda>key t. key @ t), relay_audit_key = ''key''\<rparr>"

lemma text_relay_env_codec: "event_codec_ok text_relay_env"
  by (simp add: event_codec_ok_def text_relay_env_def untext_event)

end
