(* ===== verification/Relay_Properties.thy ===== *)
theory Relay_Properties
  imports Relay_Steps Relay_Codec
begin

text \<open>
  What the conversation store promises: atomic ordered ingestion, idempotent retries, complete histories on
  every reachable store, compare-and-swap of assistant turns, and deletion without residue.
\<close>

section \<open>Reachable stores\<close>

lemma append_body_safely: "event_codec_ok env \<Longrightarrow> safely env (append_body env cid did events ctx)"
  by (rule tripleI) (auto intro: append_body_inv)

lemma aread_idle: "abind (aread f) g c = (case f c of Inl e \<Rightarrow> (Inl e, c) | Inr x \<Rightarrow> g x c)"
  by (simp add: abind_def split: sum.split)

lemma delete_conversation_inv:
  assumes inv: "relay_inv env db" and run: "delete_conversation env cid did ctx (idle db) = (r, k)"
  shows "relay_inv env (current k)"
proof -
  have "safely env (delete_conversation_body env cid ctx)" by (rule tripleI) (auto intro: delete_body_inv)
  then show ?thesis using immediate_safely [OF inv] run inv
    by (auto simp: delete_conversation_def aread_idle idle_def split: sum.splits) (fastforce simp: idle_def)+
qed

lemma current_idle [simp]: "current (idle d) = d"
  by (simp add: idle_def)

lemma relay_step_inv:
  assumes codec: "event_codec_ok env" and "relay_step env db db'" and inv: "relay_inv env db"
  shows "relay_inv env db'"
  using assms(2)
proof cases
  case (step_enrolled i)
  show ?thesis unfolding step_enrolled
    by (rule relay_inv_frame [OF inv])
      (use relay_invD [OF inv] replayable_cong [of "db\<lparr>rd_enrolled := insert i (rd_enrolled db)\<rparr>" db] in
        \<open>auto simp: conversation_row_def\<close>)
next
  case (step_provision identity device ctx r k)
  then show ?thesis using immediate_safely [OF inv provision_body_inv] inv
    by (auto simp: provision_def split: if_splits) fastforce
next
  case (step_create cid title did ctx r k)
  show ?thesis
  proof (cases "relay_device db did")
    case None
    with step_create inv show ?thesis by (auto simp: create_conversation_def aread_idle)
  next
    case (Some device)
    obtain r1 k1 where i: "immediate (create_conversation_body env cid title did device ctx) (idle db) = (r1, k1)" by fastforce
    have "k = k1" using step_create(2) Some i
      by (cases r1) (auto simp: create_conversation_def aread_idle abind_def split: sum.splits)
    with immediate_safely [OF inv create_body_inv i] step_create(1) show ?thesis by auto
  qed
next
  case (step_append cid did events ctx r k)
  then show ?thesis using immediate_safely [OF inv append_body_safely [OF codec]] by (fastforce simp: append_events_def)
next
  case (step_delete cid did ctx r k)
  then show ?thesis using delete_conversation_inv [OF inv] by blast
next
  case (step_expire now ctx r k)
  then show ?thesis using delete_each_safe [OF inv, of ctx "expired_conversations now db"]
    by (auto simp: expire_def)
next
  case (step_turn new_id t r k)
  then show ?thesis using immediate_safely [OF inv save_turn_inv] by (fastforce simp: save_agent_turn_def)
qed

lemma relay_reachable_inv: "event_codec_ok env \<Longrightarrow> relay_reachable env db \<Longrightarrow> relay_inv env db"
  by (rotate_tac, induction rule: relay_reachable.induct) (auto intro: relay_inv_new relay_step_inv)

section \<open>An example store\<close>

definition ex_identity :: canonical_identity where
  "ex_identity = \<lparr>ki_record_id = 3, ki_created_at = utc_datetime 0, ki_state = ''active'', ki_display_name = ''me'', ki_is_primary = True\<rparr>"

definition ex_relay_device :: conversation_device where
  "ex_relay_device = \<lparr>cd_device_id = 2, cd_participant_id = 3, cd_kind = IOS, cd_name = ''phone'', cd_created_at = utc_datetime 0\<rparr>"

definition ex_relay_ctx :: transition_context where
  "ex_relay_ctx = \<lparr>ctx_actor = ''user'', ctx_correlation_id = ''c'', ctx_occurred_at = utc_datetime 0\<rparr>"

definition ex_partial :: conversation_event where
  "ex_partial = \<lparr>ce_event_id = 11, ce_conversation_id = 7, ce_participant_id = 3, ce_device_id = 2, ce_sequence = 1,
     ce_occurred_at = utc_datetime 0, ce_kind = TRANSCRIPT_PARTIAL, ce_payload = TranscriptPartial 5 ''mo''\<rparr>"

lemma ex_created:
  "\<exists>db c. relay_reachable text_relay_env db \<and> conversation_of db 7 2 = Inr c \<and> rd_devices db = [ex_relay_device]
     \<and> rd_relay_events db = [] \<and> rd_event_records db = [] \<and> rd_conversations db = [7] \<and> cv_participant_ids c = [3] \<and> cv_device_ids c = [2]
     \<and> cv_state c = ACTIVE \<and> cv_conversation_id c = 7"
proof -
  let ?env = text_relay_env
  let ?db1 = "new_relay_db\<lparr>rd_enrolled := {2}\<rparr>"
  have r1: "relay_reachable ?env ?db1"
    using reachable_step [OF reachable_new step_enrolled [of ?env new_relay_db 2]] by (simp add: new_relay_db_def)
  let ?db2 = "?db1\<lparr>rd_identities := [(1, ex_identity)], rd_devices := [ex_relay_device]\<rparr>"
  have c1: "relay_chain ?env ?db2"
    using relay_invD(1) [OF relay_reachable_inv [OF text_relay_env_codec r1]] by simp
  have re: "ex_identity\<lparr>ki_created_at := reread (ki_created_at ex_identity)\<rparr> = ex_identity"
    "ex_relay_device\<lparr>cd_created_at := reread (cd_created_at ex_relay_device)\<rparr> = ex_relay_device"
    by (simp_all add: ex_identity_def ex_relay_device_def reread_def utc_datetime_def)
  obtain l where l: "relay_audit ?env (cd_device_id ex_relay_device) ''device.bound'' (dump_relay_device ?env ex_relay_device) ex_relay_ctx ?db2
      = (Inr (), ?db2\<lparr>rd_ledger := l\<rparr>)" "chain_ok (relay_hmac ?env) (relay_audit_key ?env) l"
    using relay_audit_appends [OF c1] by blast
  have "provision ?env ex_identity ex_relay_device ex_relay_ctx (idle ?db1) = (Inr (), idle (?db2\<lparr>rd_ledger := l\<rparr>))"
    using l re by (simp add: provision_def immediate_idle provision_body_def abind_def latest_version_def relay_device_def new_relay_db_def
        ex_identity_def ex_relay_device_def require_def)
  from step_provision [OF this] have r2: "relay_reachable ?env (?db2\<lparr>rd_ledger := l\<rparr>)"
    using reachable_step [OF r1] by simp
  let ?r = "first_record 7 ''Day'' ex_relay_device ex_relay_ctx"
  let ?db3 = "created 7 ?r (retained_until ex_relay_ctx) (?db2\<lparr>rd_ledger := l\<rparr>)"
  have "relay_chain ?env ?db3" using l(2) by (simp add: created_def)
  from relay_audit_appends [OF this] obtain l3 where
    l3: "relay_audit ?env 7 ''conversation.created'' (dump_conversation ?env ?r) ex_relay_ctx ?db3 = (Inr (), ?db3\<lparr>rd_ledger := l3\<rparr>)" by blast
  have body: "create_conversation_body ?env 7 ''Day'' 2 ex_relay_device ex_relay_ctx (?db2\<lparr>rd_ledger := l\<rparr>) = (Inr (), ?db3\<lparr>rd_ledger := l3\<rparr>)"
    using l3 by (simp add: create_conversation_body_def abind_def new_relay_db_def created_def first_record_def retained_until_def Let_def)
  have dev: "relay_device (?db2\<lparr>rd_ledger := l\<rparr>) 2 = Some ex_relay_device" by (simp add: relay_device_def ex_relay_device_def)
  obtain x where "create_conversation ?env 7 ''Day'' 2 ex_relay_ctx (idle (?db2\<lparr>rd_ledger := l\<rparr>)) = (x, idle (?db3\<lparr>rd_ledger := l3\<rparr>))"
    using body dev by (simp add: create_conversation_def abind_def immediate_idle)
  from step_create [OF this] have r3: "relay_reachable ?env (?db3\<lparr>rd_ledger := l3\<rparr>)" using reachable_step [OF r2] by simp
  have "\<exists>c. conversation_of (?db3\<lparr>rd_ledger := l3\<rparr>) 7 2 = Inr c \<and> cv_participant_ids c = [3] \<and> cv_device_ids c = [2]
     \<and> cv_state c = ACTIVE \<and> cv_conversation_id c = 7"
    by (simp add: conversation_of_def relay_device_def conversation_row_def latest_version_def devices_for_def created_def first_record_def
        conversation_state_of_def new_relay_db_def ex_relay_device_def)
  with r3 show ?thesis by (intro exI [of _ "?db3\<lparr>rd_ledger := l3\<rparr>"]) (auto simp: created_def new_relay_db_def)
qed

section \<open>Histories\<close>

text \<open>
  C22: on every store the operations can reach, the conversation a device is authorized for has one complete
  history: every page is the segment of it that cursor and limit name, its events are numbered 1, 2, 3, .. with
  distinct ids, at most ten thousand of them, a journal made from the conversation as it is now accepts all of them, and the
  audit ledger verifies.
\<close>

theorem relay_histories_complete:
  assumes "event_codec_ok env" and "relay_reachable env db" and "conversation_of db cid did = Inr c"
  shows "(\<exists>es. (\<forall>after limit. 0 \<le> after \<longrightarrow> 1 \<le> limit \<longrightarrow> limit \<le> int MAX_CONVERSATION_EVENTS \<longrightarrow>
         events_page env cid did after limit db = Inr (take (nat limit) (drop (nat after) es)))
      \<and> map ce_sequence es = map (\<lambda>i. 1 + int i) [0..<length es] \<and> distinct (map ce_event_id es)
      \<and> length es \<le> MAX_CONVERSATION_EVENTS
      \<and> (\<exists>j. replay_history es (new_journal c (devices_for db (cv_participant_ids c))) = Inr j))
    \<and> (\<exists>v. ledger_verify (relay_hmac env) (relay_audit_key env) (rd_ledger db) = Inr v)"
proof -
  note inv = relay_reachable_inv [OF assms(1,2)]
  obtain es where h: "holds_history env db cid es" and rep: "replayable db cid es" by (rule relay_inv_history [OF inv])
  obtain j where j: "replay_history es (new_journal c (devices_for db (cv_participant_ids c))) = Inr j"
    using replayable_view [OF rep assms(3)] by blast
  have "map ce_sequence es = map (\<lambda>i. 1 + int i) [0..<length es] \<and> length es \<le> MAX_CONVERSATION_EVENTS"
    using h by (simp add: holds_history_def)
  with j replay_facts(1) [OF j] events_page_segment [OF h assms(3)] relay_invD(1) [OF inv] show ?thesis
    unfolding chain_ok_def by blast
qed

theorem relay_histories_complete_witness:
  "\<exists>db es. relay_reachable text_relay_env db \<and> events_page text_relay_env 7 2 0 (int MAX_CONVERSATION_EVENTS) db = Inr es
     \<and> distinct (map ce_event_id es)"
proof -
  obtain db c where db: "relay_reachable text_relay_env db" "conversation_of db 7 2 = Inr c" using ex_created by blast
  from relay_histories_complete [OF text_relay_env_codec db] obtain es where es: "distinct (map ce_event_id es)"
    and pages: "\<forall>after limit. 0 \<le> after \<longrightarrow> 1 \<le> limit \<longrightarrow> limit \<le> int MAX_CONVERSATION_EVENTS \<longrightarrow>
         events_page text_relay_env 7 2 after limit db = Inr (take (nat limit) (drop (nat after) es))"
    and len: "length es \<le> MAX_CONVERSATION_EVENTS" by blast
  have "events_page text_relay_env 7 2 0 (int MAX_CONVERSATION_EVENTS) db = Inr es"
    using pages len by simp
  with db es show ?thesis by blast
qed

text \<open>
  C21: ingestion is all or nothing.  A batch that fails leaves the store as it was.  A batch that is accepted extends the
  history by exactly its events that are not stored yet, in order, acknowledges the length of the history
  plus one, writes one audit entry per new event, leaves every other conversation alone, and consists of events of the
  authenticated device of kinds a client may send, within the size bound.
\<close>

theorem append_all_or_nothing:
  assumes "event_codec_ok env" and "relay_inv env db"
  shows "case append_events env cid did events ctx (idle db) of
      (Inl e, k) \<Rightarrow> k = idle db
    | (Inr n, k) \<Rightarrow> \<exists>db' hist. k = idle db' \<and> relay_inv env db'
        \<and> events_page env cid did 0 (int MAX_CONVERSATION_EVENTS) db = Inr hist
        \<and> events_page env cid did 0 (int MAX_CONVERSATION_EVENTS) db' = Inr (hist @ map reread_event (fresh_events hist events))
        \<and> n = length hist + length (fresh_events hist events) + 1
        \<and> audit_count db' = audit_count db + length (fresh_events hist events)
        \<and> (\<forall>i d. i \<noteq> cid \<longrightarrow> events_page env i d 0 (int MAX_CONVERSATION_EVENTS) db' = events_page env i d 0 (int MAX_CONVERSATION_EVENTS) db)
        \<and> (\<forall>e \<in> set events. client_event env did e)"
proof (cases "append_body env cid did events ctx db")
  case (Pair r db')
  show ?thesis
  proof (cases r)
    case (Inl e)
    with Pair show ?thesis by (simp add: append_events_def immediate_idle)
  next
    case (Inr n)
    obtain hist where h: "holds_history env db cid hist" "replayable db cid hist" by (rule relay_inv_history [OF assms(2)])
    note run = Pair [unfolded Inr]
    from append_body_outcome [OF assms(2,1) run h] obtain c where c: "conversation_of db cid did = Inr c"
      and n: "n = length (hist @ fresh_events hist events) + 1" and only: "event_tables_only db db'"
      and hist': "holds_history env db' cid (hist @ map reread_event (fresh_events hist events))"
      and audit: "audit_count db' = audit_count db + length (fresh_events hist events)"
      and other: "\<forall>i hs. i \<noteq> cid \<longrightarrow> holds_history env db i hs \<longrightarrow> holds_history env db' i hs"
      and client: "\<forall>e \<in> set events. client_event env did e" by blast
    note co = event_tables_frame(7) [OF only]
    have "events_page env i d 0 (int MAX_CONVERSATION_EVENTS) db' = events_page env i d 0 (int MAX_CONVERSATION_EVENTS) db"
      if "i \<noteq> cid" for i d
    proof (cases "conversation_of db i d")
      case (Inl e)
      then show ?thesis by (simp add: events_page_def co)
    next
      case (Inr ci)
      obtain hs where hs: "holds_history env db i hs" by (rule relay_inv_history [OF assms(2)])
      with other that have "holds_history env db' i hs" by blast
      from full_history [OF this] full_history [OF hs] Inr co show ?thesis by simp
    qed
    moreover have "events_page env cid did 0 (int MAX_CONVERSATION_EVENTS) db' = Inr (hist @ map reread_event (fresh_events hist events))"
      using full_history [OF hist'] c co by simp
    ultimately show ?thesis
      using Pair Inr full_history [OF h(1) c] append_body_inv [OF assms(2,1) run] n audit client
      by (simp add: append_events_def immediate_idle) (intro exI [of _ db'] exI [of _ hist], simp)
  qed
qed

lemma ex_partial_size: "length (text_event ex_partial) \<le> MAX_EVENT_BYTES"
  by (simp add: text_event_def event_parts_def ex_partial_def enc_pair_def enc_nat_def enc_string_def enc_option_def int_parts_def
      bool_part_def MAX_EVENT_BYTES_def utc_datetime_def datetime_parts_def tz_parts_def)

lemma insert_event_succeeds:
  assumes "relay_chain env db" and "1 \<le> ce_sequence e" and "record_of db (ce_event_id e) = []"
    and "ce_conversation_id e \<in> set (rd_conversations db)"
    and "\<forall>r \<in> set (rd_relay_events db). re_event_id r \<noteq> ce_event_id e \<and> \<not> (re_conversation_id r = ce_conversation_id e \<and> re_sequence r = ce_sequence e)"
  shows "\<exists>db'. insert_event env e ctx db = (Inr (), db')"
proof -
  have "relay_chain env (add_event env e db)" using assms(1) by (simp add: add_event_def)
  from relay_audit_appends [OF this] obtain db' where
    "relay_audit env (ce_event_id e) ''conversation.event.accepted'' (dump_event env e) ctx (add_event env e db) = (Inr (), db')" by blast
  with assms(2-) show ?thesis
    by (intro exI [of _ db']) (simp add: insert_event_def abind_def add_event_def record_of_Nil require_def)
qed

lemma ex_appended:
  "\<exists>db db'. relay_reachable text_relay_env db \<and> append_events text_relay_env 7 2 [ex_partial] ex_relay_ctx (idle db) = (Inr 2, idle db')"
proof -
  let ?env = text_relay_env
  obtain db c where db: "relay_reachable ?env db" "conversation_of db 7 2 = Inr c" "rd_devices db = [ex_relay_device]"
     "rd_relay_events db = []" "rd_event_records db = []" "rd_conversations db = [7]" "cv_participant_ids c = [3]" "cv_device_ids c = [2]"
     "cv_state c = ACTIVE" "cv_conversation_id c = 7" using ex_created by blast
  have page: "events_page ?env 7 2 0 (int MAX_CONVERSATION_EVENTS) db = Inr []"
    using full_history [OF holds_history_Nil db(2)] db(4) by simp
  have "accepted (fst (accept ex_partial (new_journal c (devices_for db [3]))))"
    using db(3,7-) by (simp add: accept_def envelope_rejection_def new_journal_def devices_for_def ex_partial_def ex_relay_device_def
        dict_by_def dict_get_def transcript_rejection_def Let_def)
  then obtain a j1 where acc: "accept ex_partial (new_journal c (devices_for db [3])) = (a, j1)" "accepted a" by (metis prod.collapse)
  obtain db' where ins: "insert_event ?env ex_partial ex_relay_ctx db = (Inr (), db')"
    using insert_event_succeeds [OF relay_invD(1) [OF relay_reachable_inv [OF text_relay_env_codec db(1)]], of ex_partial] db(4-6)
    by (auto simp: ex_partial_def record_of_def)
  have "append_loop ?env 2 ex_relay_ctx [ex_partial] [] (new_journal c (devices_for db [3])) db = (Inr 2, db')"
    using acc ins ex_partial_size
    by (simp add: ex_partial_def CLIENT_KINDS_def utc_datetime_def text_relay_env_def MAX_CONVERSATION_EVENTS_def dict_get_def abind_def)
  then have "append_body ?env 7 2 [ex_partial] ex_relay_ctx db = (Inr 2, db')"
    using db(2,7) page by (simp add: append_body_def abind_def MAX_BATCH_EVENTS_def del: append_loop.simps)
  then show ?thesis using db(1) by (intro exI [of _ db] exI [of _ db']) (simp add: append_events_def immediate_idle)
qed

theorem append_all_or_nothing_witness:
  "\<exists>db db' hist. append_events text_relay_env 7 2 [ex_partial] ex_relay_ctx (idle db) = (Inr 2, idle db')
     \<and> events_page text_relay_env 7 2 0 (int MAX_CONVERSATION_EVENTS) db' = Inr (hist @ map reread_event (fresh_events hist [ex_partial]))"
proof -
  obtain db db' where run: "relay_reachable text_relay_env db"
    "append_events text_relay_env 7 2 [ex_partial] ex_relay_ctx (idle db) = (Inr 2, idle db')" using ex_appended by blast
  from append_all_or_nothing [OF text_relay_env_codec relay_reachable_inv [OF text_relay_env_codec run(1)], of 7 2 "[ex_partial]" ex_relay_ctx]
  obtain d hist where "idle db' = idle d"
    "events_page text_relay_env 7 2 0 (int MAX_CONVERSATION_EVENTS) d = Inr (hist @ map reread_event (fresh_events hist [ex_partial]))"
    unfolding run(2) by auto
  with run show ?thesis by (metis current_idle)
qed

text \<open>
  An exact retry of an accepted batch acknowledges the same number and changes nothing, neither content nor audit:
  the timestamps of the batch carry no daylight-saving ambiguity, as those of a parsed request do not.
\<close>

theorem append_retry_idempotent:
  assumes "event_codec_ok env" and "relay_inv env db" and run: "append_events env cid did events ctx (idle db) = (Inr n, k)"
    and "\<forall>e \<in> set events. \<not> fold_sensitive (ce_occurred_at e)"
  shows "append_events env cid did events ctx' k = (Inr n, k)"
proof -
  obtain r db' where b: "append_body env cid did events ctx db = (r, db')" by fastforce
  with run have r: "r = Inr n" and k: "k = idle db'" by (cases r; simp add: append_events_def immediate_idle)+
  obtain hist where h: "holds_history env db cid hist" "replayable db cid hist" by (rule relay_inv_history [OF assms(2)])
  let ?new = "fresh_events hist events"
  let ?hist = "hist @ map reread_event ?new"
  from append_body_outcome [OF assms(2,1) b [unfolded r] h] obtain c where c: "conversation_of db cid did = Inr c"
    and batch: "distinct (map ce_event_id events)" "1 \<le> length events" "length events \<le> MAX_BATCH_EVENTS"
    and n: "n = length (hist @ ?new) + 1" and only: "event_tables_only db db'"
    and hist': "holds_history env db' cid ?hist"
    and rep: "\<exists>j'. replay_history (hist @ ?new) (new_journal c (devices_for db (cv_participant_ids c))) = Inr j'"
    and known: "\<forall>e \<in> set events. client_event env did e \<and> (\<forall>k. dict_get ce_event_id hist (ce_event_id e) = Some k \<longrightarrow> event_eq e k)"
    by blast
  note frame = event_tables_frame(7,8) [OF only]
  from rep obtain j where j: "replay_history ?hist (new_journal c (devices_for db (cv_participant_ids c))) = Inr j"
    by (auto simp: replay_append)
  have page: "events_page env cid did 0 (int MAX_CONVERSATION_EVENTS) db' = Inr ?hist" using full_history [OF hist'] c frame by simp
  have dist: "distinct (map ce_event_id ?hist)" by (rule replay_facts(1) [OF j])
  have "client_event env did e \<and> (\<exists>x. dict_get ce_event_id ?hist (ce_event_id e) = Some x \<and> event_eq e x)" if e: "e \<in> set events" for e
  proof (cases "dict_get ce_event_id hist (ce_event_id e)")
    case (Some x)
    with known e show ?thesis by (auto simp: dict_get_def find_append)
  next
    case None
    with e have "reread_event e \<in> set ?hist" by (auto simp: fresh_events_def dict_get_None)
    from dict_get_distinct [OF dist this] have "dict_get ce_event_id ?hist (ce_event_id e) = Some (reread_event e)" by simp
    moreover have "event_eq e (reread_event e)" using known e assms(4) by (intro event_eq_reread) (auto simp: client_event_def)
    ultimately show ?thesis using known e by blast
  qed
  then have "append_loop env did ctx' events ?hist j db' = (Inr n, db')"
    using append_loop_known [of events env did ?hist ctx' j db'] n by simp
  then have "append_body env cid did events ctx' db' = (Inr n, db')"
    using c frame page j batch dist by (simp add: append_body_def abind_def)
  then show ?thesis unfolding k by (simp add: append_events_def immediate_idle)
qed

theorem append_retry_idempotent_witness:
  "\<exists>db k. append_events text_relay_env 7 2 [ex_partial] ex_relay_ctx (idle db) = (Inr 2, k)
     \<and> append_events text_relay_env 7 2 [ex_partial] ex_relay_ctx k = (Inr 2, k)"
proof -
  obtain db db' where run: "relay_reachable text_relay_env db"
    "append_events text_relay_env 7 2 [ex_partial] ex_relay_ctx (idle db) = (Inr 2, idle db')" using ex_appended by blast
  have "\<forall>e \<in> set [ex_partial]. \<not> fold_sensitive (ce_occurred_at e)" by (simp add: ex_partial_def utc_datetime_def)
  from append_retry_idempotent [OF text_relay_env_codec relay_reachable_inv [OF text_relay_env_codec run(1)] run(2) this] run(2)
  show ?thesis by blast
qed

section \<open>Assistant turns\<close>

lemma split_line_first: "CHR 10 \<notin> set a \<Longrightarrow> split_line (a @ CHR 10 # b) = Some (a, b)"
  by (induction a) auto

definition one_line :: "string \<Rightarrow> string" where
  "one_line t = map (\<lambda>c. if c = CHR 10 then CHR '' '' else c) t"

lemma split_turn_body: "split_line (turn_body t) = Some (one_line (at_text t), at_reply t)"
  using split_line_first [of "one_line (at_text t)" "at_reply t"] by (auto simp: turn_body_def one_line_def)

lemma emapM_drop: "emapM f xs = Inr ys \<Longrightarrow> emapM f (drop n xs) = Inr (drop n ys)"
  by (induction xs arbitrary: ys n) (auto simp: drop_Cons split: nat.split)

lemma emapM_snoc: "emapM f (xs @ [x]) = ebind (emapM f xs) (\<lambda>ys. ebind (f x) (\<lambda>y. Inr (ys @ [y])))"
  by (induction xs) (auto simp: ebind_def split: sum.splits)

definition turn_records :: "relay_db \<Rightarrow> uuid \<Rightarrow> canonical_event_record list" where
  "turn_records db cid = sort_key ke_sequence (map snd
     (filter (\<lambda>r. ke_conversation_id (snd r) = cid \<and> ke_event_type (snd r) = ''agent.turn'') (rd_event_records db)))"

lemma agent_records_turns: "agent_records db cid = take 4 (rev (turn_records db cid))"
  by (simp add: agent_records_def turn_records_def)

lemma turn_records_bound:
  assumes "r \<in> set (turn_records db cid)"
  shows "ke_sequence r \<le> (case agent_records db cid of [] \<Rightarrow> 0 | x # _ \<Rightarrow> ke_sequence x)"
proof -
  have "sorted (map ke_sequence (turn_records db cid))" by (simp add: turn_records_def)
  with assms show ?thesis
    by (cases "turn_records db cid" rule: rev_cases) (auto simp: agent_records_turns sorted_append)
qed

lemma agent_history_after:
  assumes h: "agent_history (at_conversation_id t) did db = Inr (revision, turns)"
  shows "agent_history (at_conversation_id t) did (add_record (turn_record i t revision) db)
    = Inr (revision + 1, drop (length turns - 3) turns @ [(one_line (at_text t), at_reply t)])"
proof -
  let ?cid = "at_conversation_id t" and ?k = "turn_record i t revision"
  let ?db = "add_record ?k db"
  let ?f = "\<lambda>r. case split_line (ke_payload r) of None \<Rightarrow> Inl RelayValidationError | Some p \<Rightarrow> Inr p"
  from h obtain c where c: "conversation_of db ?cid did = Inr c" "cv_state c = ACTIVE"
    and rev: "revision = (case agent_records db ?cid of [] \<Rightarrow> 0 | r # _ \<Rightarrow> ke_sequence r)"
    and turns: "emapM ?f (rev (agent_records db ?cid)) = Inr turns"
    by (auto simp: agent_history_def Let_def split: if_splits)
  have "conversation_of ?db = conversation_of db" by (rule conversation_of_cong) (simp_all add: add_record_def)
  moreover have "turn_records ?db ?cid = turn_records db ?cid @ [?k]"
  proof -
    have "ke_sequence y \<le> ke_sequence ?k" if "y \<in> set (turn_records db ?cid)" for y
      using turn_records_bound [OF that] rev by (simp add: turn_record_def)
    then have "\<forall>y \<in> set (map snd (filter (\<lambda>r. ke_conversation_id (snd r) = ?cid \<and> ke_event_type (snd r) = ''agent.turn'')
        (rd_event_records db))). ke_sequence y \<le> ke_sequence ?k" by (auto simp: turn_records_def)
    from sort_key_snoc [OF this] show ?thesis by (simp add: turn_records_def add_record_def turn_record_def)
  qed
  then have recs: "agent_records ?db ?cid = ?k # take 3 (agent_records db ?cid)"
    by (simp add: agent_records_turns)
  have len: "length turns = length (agent_records db ?cid)"
    using emapM_Inr_map [OF turns] by (auto dest: list_all2_lengthD)
  have "emapM ?f (rev (take 3 (agent_records db ?cid))) = Inr (drop (length turns - 3) turns)"
    unfolding rev_take len using emapM_drop [OF turns] by simp
  moreover have "?f ?k = Inr (one_line (at_text t), at_reply t)" by (simp add: turn_record_def split_turn_body)
  moreover have "ke_sequence ?k = revision + 1" by (simp add: turn_record_def)
  ultimately show ?thesis using c by (simp add: agent_history_def recs emapM_snoc Let_def)
qed

lemma agent_history_ledger [simp]: "agent_history cid did (db\<lparr>rd_ledger := l\<rparr>) = agent_history cid did db"
proof -
  have "conversation_of (db\<lparr>rd_ledger := l\<rparr>) = conversation_of db" by (rule conversation_of_cong) simp_all
  moreover have "agent_records (db\<lparr>rd_ledger := l\<rparr>) = agent_records db" by (simp add: fun_eq_iff agent_records_def)
  ultimately show ?thesis by (simp only: agent_history_def)
qed

text \<open>
  Saving an assistant turn is a compare-and-swap.  A turn is saved only on the revision it was made for; it becomes the
  last of the at most four exchanges that are read back, as the text with line breaks blanked and the reply unchanged, under the
  next revision; and every further turn made for the same revision is refused and leaves the store unchanged.
\<close>

theorem agent_turn_compare_and_swap:
  assumes "relay_inv env db" and run: "save_agent_turn env i t (idle db) = (Inr u, k)"
  shows "\<exists>turns. agent_history (at_conversation_id t) (at_device_id t) db = Inr (at_expected_revision t, turns)
    \<and> agent_history (at_conversation_id t) (at_device_id t) (current k)
        = Inr (at_expected_revision t + 1, drop (length turns - 3) turns @ [(one_line (at_text t), at_reply t)])
    \<and> (\<forall>i' t'. at_conversation_id t' = at_conversation_id t \<longrightarrow> at_expected_revision t' = at_expected_revision t \<longrightarrow>
         (\<exists>e. save_agent_turn env i' t' k = (Inl e, k)))"
proof -
  obtain r db' where b: "save_turn_body env i t db = (r, db')" by fastforce
  with run have r: "r = Inr u" and k: "k = idle db'" by (cases r; simp add: save_agent_turn_def immediate_idle)+
  from b [unfolded r] show ?thesis
  proof (cases rule: save_turn_cases)
    case (1 revision turns)
    have inv: "relay_inv env (add_record (turn_record i t revision) db)"
      using relay_inv_add_record [OF assms(1)] 1(4) by (simp add: turn_record_def)
    obtain l where db': "db' = (add_record (turn_record i t revision) db)\<lparr>rd_ledger := l\<rparr>"
      using relay_audit_appends [OF relay_invD(1) [OF inv]] 1(5) by (metis prod.inject)
    have swap: "\<exists>e. save_agent_turn env i' t' k = (Inl e, k)"
      if t': "at_conversation_id t' = at_conversation_id t" "at_expected_revision t' = at_expected_revision t" for i' t'
    proof (cases "agent_history (at_conversation_id t') (at_device_id t') db'")
      case (Inl e)
      then have "save_turn_body env i' t' db' = (Inl e, db')" by (simp add: save_turn_body_def abind_def)
      then show ?thesis by (simp add: k save_agent_turn_def immediate_idle)
    next
      case (Inr p)
      have "fst p = revision + 1"
      proof -
        have "agent_history (at_conversation_id t) (at_device_id t) db' =
            Inr (revision + 1, drop (length turns - 3) turns @ [(one_line (at_text t), at_reply t)])"
          using agent_history_after [OF 1(1)] db' by simp
        with Inr t'(1) show ?thesis by (auto simp: agent_history_def Let_def split: if_splits)
      qed
      then have "save_turn_body env i' t' db' = (Inl RelayConflictError, db')"
        using Inr t'(2) 1(2) by (cases p) (simp add: save_turn_body_def abind_def)
      then show ?thesis by (simp add: k save_agent_turn_def immediate_idle)
    qed
    show ?thesis using 1(1,2) agent_history_after [OF 1(1), of i] swap k db' by auto
  qed
qed

definition ex_turn :: agent_turn where
  "ex_turn = \<lparr>at_conversation_id = 7, at_device_id = 2, at_expected_revision = 0, at_text = ''plan'', at_reply = ''ok'', at_context = ex_relay_ctx\<rparr>"

theorem agent_turn_compare_and_swap_witness:
  "\<exists>db k. save_agent_turn text_relay_env 21 ex_turn (idle db) = (Inr (), k)
     \<and> (\<exists>e. save_agent_turn text_relay_env 22 ex_turn k = (Inl e, k))"
proof -
  let ?env = text_relay_env
  obtain db c where db: "relay_reachable ?env db" "conversation_of db 7 2 = Inr c" "rd_event_records db = []" "cv_state c = ACTIVE"
    using ex_created by blast
  note inv = relay_reachable_inv [OF text_relay_env_codec db(1)]
  have h: "agent_history 7 2 db = Inr (0, [])" using db by (simp add: agent_history_def agent_records_def Let_def)
  have "relay_chain ?env (add_record (turn_record 21 ex_turn 0) db)" using relay_invD(1) [OF inv] by (simp add: add_record_def)
  from relay_audit_appends [OF this] obtain db' where
    a: "relay_audit ?env 21 ''conversation.agent.accepted'' (turn_body ex_turn) ex_relay_ctx (add_record (turn_record 21 ex_turn 0) db)
      = (Inr (), db')" by blast
  have "save_turn_body ?env 21 ex_turn db = (Inr (), db')"
    using h a db(3) by (simp add: save_turn_body_def abind_def ex_turn_def turn_record_def turn_body_def add_record_def
        MAX_CONVERSATION_EVENTS_def Let_def)
  then have s: "save_agent_turn ?env 21 ex_turn (idle db) = (Inr (), idle db')" by (simp add: save_agent_turn_def immediate_idle)
  from agent_turn_compare_and_swap [OF inv s] s show ?thesis by blast
qed

section \<open>Deletion\<close>

text \<open>
  C23: an authorized deletion always succeeds and leaves no content behind: no event, no conversation row of any version,
  no index row and no retention deadline of the conversation is left, its former participants are refused, the number of events it had is
  returned, one audit entry is added, and every other conversation reads as before.
\<close>

theorem deletion_leaves_no_content:
  assumes inv: "relay_inv env db" and c: "conversation_of db cid did = Inr c"
  shows "\<exists>db'. delete_conversation env cid did ctx (idle db)
      = (Inr (length (filter (\<lambda>r. ke_conversation_id (snd r) = cid) (rd_event_records db))), idle db')
    \<and> relay_inv env db'
    \<and> cid \<notin> ke_conversation_id ` snd ` set (rd_event_records db') \<and> cid \<notin> kr_record_id ` snd ` set (rd_conversation_records db')
    \<and> cid \<notin> re_conversation_id ` set (rd_relay_events db') \<and> cid \<notin> fst ` set (rd_retention db') \<and> cid \<notin> set (rd_conversations db')
    \<and> (\<forall>d. conversation_of db' cid d = Inl RelayAccessError)
    \<and> audit_count db' = Suc (audit_count db)
    \<and> (\<forall>i d. i \<noteq> cid \<longrightarrow> events_page env i d 0 (int MAX_CONVERSATION_EVENTS) db' = events_page env i d 0 (int MAX_CONVERSATION_EVENTS) db)"
proof -
  obtain l where l: "delete_conversation_body env cid ctx db =
      (Inr (length (filter (\<lambda>r. ke_conversation_id (snd r) = cid) (rd_event_records db))), (deleted cid db)\<lparr>rd_ledger := l\<rparr>)"
    "length (audit_rows l) = Suc (audit_count db)" using delete_body_total [OF relay_invD(1) [OF inv]] by blast
  let ?db = "(deleted cid db)\<lparr>rd_ledger := l\<rparr>"
  have inv': "relay_inv env ?db" by (rule delete_body_inv [OF inv l(1)])
  have run: "delete_conversation env cid did ctx (idle db)
      = (Inr (length (filter (\<lambda>r. ke_conversation_id (snd r) = cid) (rd_event_records db))), idle ?db)"
    using c l(1) by (simp add: delete_conversation_def aread_idle immediate_idle)
  have gone: "conversation_of ?db cid d = Inl RelayAccessError" for d
    by (simp add: conversation_of_def conversation_row_def deleted_def split: option.split)
  have other: "events_page env i d 0 (int MAX_CONVERSATION_EVENTS) ?db = events_page env i d 0 (int MAX_CONVERSATION_EVENTS) db"
    if "i \<noteq> cid" for i d
  proof -
    have row: "conversation_row ?db i = conversation_row db i"
      using that by (auto simp: conversation_row_def deleted_def intro!: arg_cong [of _ _ latest_version] filter_cong)
    have dev: "devices_for ?db = devices_for db" "relay_device ?db = relay_device db"
      by (simp_all add: fun_eq_iff devices_for_def relay_device_def deleted_def)
    have co: "conversation_of ?db i d = conversation_of db i d" by (simp only: conversation_of_def row dev)
    obtain hs where hs: "holds_history env db i hs" by (rule relay_inv_history [OF inv])
    have "holds_history env ?db i hs" using holds_history_deleted [OF inv hs that] by simp
    from full_history [OF this] full_history [OF hs] co show ?thesis
      by (cases "conversation_of db i d") (simp_all add: events_page_def)
  qed
  have "cid \<notin> ke_conversation_id ` snd ` set (rd_event_records ?db)" by (auto simp: deleted_def doomed_def)
  with run inv' gone other l(2) show ?thesis
    by (intro exI [of _ ?db]) (auto simp: deleted_def audit_count_def)
qed

theorem deletion_leaves_no_content_witness:
  "\<exists>db db'. delete_conversation text_relay_env 7 2 ex_relay_ctx (idle db) = (Inr 0, idle db')
     \<and> conversation_of db' 7 2 = Inl RelayAccessError"
proof -
  obtain db c where db: "relay_reachable text_relay_env db" "conversation_of db 7 2 = Inr c" "rd_event_records db = []"
    using ex_created by blast
  from deletion_leaves_no_content [OF relay_reachable_inv [OF text_relay_env_codec db(1)] db(2), of ex_relay_ctx] db(3)
  obtain db' where "delete_conversation text_relay_env 7 2 ex_relay_ctx (idle db) = (Inr 0, idle db')"
    "conversation_of db' 7 2 = Inl RelayAccessError" by auto
  then show ?thesis by blast
qed

end
