(* ===== verification/Calendar_Contract.thy ===== *)
theory Calendar_Contract
  imports Authority Encodings
begin

text \<open>
  \<open>google_calendar_contract.py\<close> and \<open>google_calendar_errors.py\<close>: the records of the calendar boundary with their
  validators, and the transport protocol, a record of actions on the state of the provider.  The text pydantic gives a timestamp
  is \<open>time_text\<close> of the authority environment; SHA-256 is a parameter.
\<close>

section \<open>Errors\<close>

datatype calendar_error =
    CalendarAuthorizationError string
  | CalendarContractError string
  | CalendarTransientError string
  | CalendarInterruptedError string
  | StaleSyncTokenError string
  | CalendarKeyError
  | CalendarValueError
  | CalendarTypeError
  | CalendarAssertionError

section \<open>Grants, drafts and plans\<close>

definition GOOGLE_CALENDAR_APP_SCOPE :: string where
  "GOOGLE_CALENDAR_APP_SCOPE = ''https://www.googleapis.com/auth/calendar.app.created''"

definition GOOGLE_CALENDAR_READ_SCOPES :: "string list" where
  "GOOGLE_CALENDAR_READ_SCOPES =
     [''https://www.googleapis.com/auth/calendar.calendarlist.readonly'', ''https://www.googleapis.com/auth/calendar.events.readonly'']"

definition LIFEOS_PROPOSED_CALENDAR :: string where "LIFEOS_PROPOSED_CALENDAR = ''LifeOS Proposed''"

record oauth_grant =
  og_secret_reference :: string
  og_scopes :: "string list"

definition require_least_scope :: "oauth_grant \<Rightarrow> bool" where
  "require_least_scope g \<longleftrightarrow> og_secret_reference g \<noteq> [] \<and> og_scopes g = [GOOGLE_CALENDAR_APP_SCOPE]"

definition require_read_only :: "oauth_grant \<Rightarrow> bool" where
  "require_read_only g \<longleftrightarrow> og_secret_reference g \<noteq> [] \<and> og_scopes g = GOOGLE_CALENDAR_READ_SCOPES"

record event_draft =
  ed_event_key :: string
  ed_summary :: string
  ed_starts_at :: datetime
  ed_ends_at :: datetime

definition event_key_char :: "char \<Rightarrow> bool" where
  "event_key_char c \<longleftrightarrow> (let n = of_char c :: nat in
     97 \<le> n \<and> n \<le> 122 \<or> 65 \<le> n \<and> n \<le> 90 \<or> 48 \<le> n \<and> n \<le> 57 \<or> n = 95 \<or> n = 45)"

definition valid_event_key :: "string \<Rightarrow> bool" where
  "valid_event_key k \<longleftrightarrow> k \<noteq> [] \<and> length k \<le> 128 \<and> list_all event_key_char k"

definition valid_draft :: "event_draft \<Rightarrow> bool" where
  "valid_draft d \<longleftrightarrow> valid_event_key (ed_event_key d) \<and> ed_summary d \<noteq> []
     \<and> tz (ed_starts_at d) \<noteq> NoTz \<and> tz (ed_ends_at d) \<noteq> NoTz \<and> \<not> dt_le (ed_ends_at d) (ed_starts_at d)"

definition calendar_payload :: "authority_env \<Rightarrow> event_draft list \<Rightarrow> string" where
  "calendar_payload env ds = json_dumps (JList (map (\<lambda>d. JObject
     [(''event_key'', JString (ed_event_key d)), (''summary'', JString (ed_summary d)),
      (''starts_at'', JString (time_text env (ed_starts_at d))), (''ends_at'', JString (time_text env (ed_ends_at d)))]) ds))"

record calendar_plan =
  pl_authorization :: proposal_record
  pl_events :: "event_draft list"

definition valid_plan :: "authority_env \<Rightarrow> calendar_plan \<Rightarrow> bool" where
  "valid_plan env p \<longleftrightarrow> list_all valid_draft (pl_events p) \<and> action_class (pl_authorization p) = ''calendar.apply''
     \<and> payload (pl_authorization p) = calendar_payload env (pl_events p)"

section \<open>Provider records\<close>

record calendar_ownership =
  ow_owner_id :: string
  ow_proposal_id :: string
  ow_payload_hash :: string
  ow_event_key :: string

record remote_calendar =
  rc_calendar_id :: string
  rc_summary :: string
  rc_app_owned :: bool
  rc_primary :: bool

record remote_event =
  rv_calendar_id :: string
  rv_event_id :: string
  rv_summary :: string
  rv_starts_at :: datetime
  rv_ends_at :: datetime
  rv_ownership :: "calendar_ownership option"
  rv_revision :: string
  rv_deleted :: bool

record calendar_sync_page =
  sp_events :: "remote_event list"
  sp_next_sync_token :: string
  sp_full_sync :: bool

record calendar_write =
  cw_calendar_id :: string
  cw_event :: remote_event

record calendar_delete =
  cx_calendar_id :: string
  cx_event_id :: string

type_synonym ('w, 'a) calendar_action = "('w, calendar_error, 'a) action"

record 'w calendar_transport =
  find_calendar :: "string \<Rightarrow> string \<Rightarrow> ('w, remote_calendar option) calendar_action"
  create_calendar :: "string \<Rightarrow> string \<Rightarrow> ('w, remote_calendar) calendar_action"
  sync_events :: "string \<Rightarrow> string \<Rightarrow> string option \<Rightarrow> ('w, calendar_sync_page) calendar_action"
  write_event :: "string \<Rightarrow> calendar_write \<Rightarrow> ('w, remote_event) calendar_action"
  delete_event :: "string \<Rightarrow> calendar_delete \<Rightarrow> ('w, unit) calendar_action"

section \<open>Operations and results\<close>

datatype calendar_operation = OP_INSERT | OP_UPDATE | OP_NOOP | OP_DELETE | OP_EXTERNAL_EDIT | OP_MISSING | OP_CONFLICT

fun operation_value :: "calendar_operation \<Rightarrow> string" where
  "operation_value OP_INSERT = ''insert''"
| "operation_value OP_UPDATE = ''update''"
| "operation_value OP_NOOP = ''noop''"
| "operation_value OP_DELETE = ''delete''"
| "operation_value OP_EXTERNAL_EDIT = ''external_edit''"
| "operation_value OP_MISSING = ''missing''"
| "operation_value OP_CONFLICT = ''conflict''"

record calendar_diff =
  df_operation :: calendar_operation
  df_event_id :: string
  df_before_summary :: "string option"
  df_after_summary :: "string option"

record calendar_sync_state =
  sy_calendar_id :: "string option"
  sy_next_sync_token :: "string option"
  sy_events :: "remote_event list"

record calendar_preview =
  pv_calendar_summary :: string
  pv_operations :: "calendar_diff list"

record calendar_apply_result =
  ar_operations :: "calendar_diff list"
  ar_sync_state :: calendar_sync_state
  ar_attempts :: nat

record calendar_reconciliation =
  rn_operations :: "calendar_diff list"
  rn_sync_state :: calendar_sync_state

record calendar_rollback_result =
  rb_operations :: "calendar_diff list"
  rb_sync_state :: calendar_sync_state

record calendar_config =
  cc_owner_id :: string
  cc_oauth_grant :: oauth_grant
  cc_max_attempts :: nat

definition valid_config :: "calendar_config \<Rightarrow> bool" where
  "valid_config c \<longleftrightarrow> cc_owner_id c \<noteq> [] \<and> require_least_scope (cc_oauth_grant c) \<and> 1 \<le> cc_max_attempts c \<and> cc_max_attempts c \<le> 5"

text \<open>What the adapter is given: provider, token source, the clock's time, and the digests.\<close>

record 'w calendar_env =
  ce_transport :: "'w calendar_transport"
  ce_access_token :: "oauth_grant \<Rightarrow> ('w, string) calendar_action"
  ce_authority :: authority_env
  ce_sha256 :: "string \<Rightarrow> string"

text \<open>\<open>KeychainOAuthTokenSource\<close>: the secret of an opaque reference, when the Keychain has it.\<close>

definition keychain_access_token :: "(string \<Rightarrow> string option) \<Rightarrow> oauth_grant \<Rightarrow> ('w, string) calendar_action" where
  "keychain_access_token connector_secret g =
     alift (case connector_secret (og_secret_reference g) of
        None \<Rightarrow> Inl (CalendarAuthorizationError ''OAuth token is unavailable'')
      | Some s \<Rightarrow> Inr s)"

end
