(* ===== verification/Calendar_Operations.thy ===== *)
theory Calendar_Operations
  imports Calendar_Contract Action_Logic
begin

text \<open>
  \<open>google_calendar_operations.py\<close>: deterministic event identities, the comparison of a plan with the synchronized
  events, and provider writes with bounded retries.
\<close>

section \<open>Base 32\<close>

text \<open>\<open>base64.b32hexencode\<close>: groups of five bits, the last one filled with zeros, padded with \<open>=\<close> to a multiple of eight.\<close>

fun char_bits :: "char \<Rightarrow> bool list" where
  "char_bits (Char b0 b1 b2 b3 b4 b5 b6 b7) = [b7, b6, b5, b4, b3, b2, b1, b0]"

definition bits_value :: "bool list \<Rightarrow> nat" where
  "bits_value bs = foldl (\<lambda>n b. 2 * n + of_bool b) 0 bs"

fun b32_digits :: "bool list \<Rightarrow> nat list" where
  "b32_digits bs = (if bs = [] then [] else bits_value (take 5 (bs @ replicate 4 False)) # b32_digits (drop 5 bs))"

declare b32_digits.simps [simp del]

definition b32hexencode :: "string \<Rightarrow> string" where
  "b32hexencode s = (let cs = map (\<lambda>d. ''0123456789ABCDEFGHIJKLMNOPQRSTUV'' ! d) (b32_digits (concat (map char_bits s)))
     in cs @ replicate ((8 - length cs mod 8) mod 8) (CHR ''=''))"

definition py_rstrip :: "char \<Rightarrow> string \<Rightarrow> string" where
  "py_rstrip c s = rev (dropWhile (\<lambda>x. x = c) (rev s))"

definition event_identity :: "(string \<Rightarrow> string) \<Rightarrow> string \<Rightarrow> string \<Rightarrow> string" where
  "event_identity sha256 owner key =
     ''lifeos'' @ py_rstrip (CHR ''='') (py_lower (b32hexencode (sha256 (owner @ [CHR 0x1F] @ key))))"

section \<open>Mapping and comparison\<close>

definition remote :: "'w calendar_env \<Rightarrow> calendar_config \<Rightarrow> calendar_plan \<Rightarrow> event_draft \<Rightarrow> string \<Rightarrow> remote_event" where
  "remote env cfg plan draft calendar_id =
     \<lparr>rv_calendar_id = calendar_id, rv_event_id = event_identity (ce_sha256 env) (cc_owner_id cfg) (ed_event_key draft),
      rv_summary = ed_summary draft, rv_starts_at = ed_starts_at draft, rv_ends_at = ed_ends_at draft,
      rv_ownership = Some \<lparr>ow_owner_id = cc_owner_id cfg, ow_proposal_id = proposal_id (pl_authorization plan),
         ow_payload_hash = payload_hash (ce_authority env) (pl_authorization plan), ow_event_key = ed_event_key draft\<rparr>,
      rv_revision = ''pending'', rv_deleted = False\<rparr>"

definition same_content :: "remote_event \<Rightarrow> remote_event \<Rightarrow> bool" where
  "same_content a b \<longleftrightarrow> rv_summary a = rv_summary b \<and> stamp_eq (rv_starts_at a) (rv_starts_at b)
     \<and> stamp_eq (rv_ends_at a) (rv_ends_at b) \<and> rv_ownership a = rv_ownership b"

definition event_operation :: "calendar_config \<Rightarrow> bool \<Rightarrow> remote_event option \<Rightarrow> remote_event \<Rightarrow> calendar_error + calendar_operation" where
  "event_operation cfg applying found desired =
     (case found of
        None \<Rightarrow> Inr (if applying then OP_INSERT else OP_MISSING)
      | Some f \<Rightarrow>
          (case rv_ownership f of
             None \<Rightarrow> Inr OP_CONFLICT
           | Some own \<Rightarrow>
               if ow_owner_id own \<noteq> cc_owner_id cfg then Inr OP_CONFLICT
               else if same_content f desired then Inr OP_NOOP
               else (case rv_ownership desired of
                  None \<Rightarrow> Inl (CalendarContractError ''generated event is missing ownership'')
                | Some w \<Rightarrow>
                    if ow_payload_hash own = ow_payload_hash w then Inr OP_EXTERNAL_EDIT
                    else Inr (if applying then OP_UPDATE else OP_CONFLICT))))"

definition diff_entry :: "'w calendar_env \<Rightarrow> calendar_config \<Rightarrow> calendar_plan \<Rightarrow> calendar_sync_state \<Rightarrow> bool \<Rightarrow> event_draft
   \<Rightarrow> calendar_error + calendar_diff" where
  "diff_entry env cfg plan st applying draft =
     (let current = dict_by rv_event_id (sy_events st);
          calendar_id = py_or (sy_calendar_id st) ''pending-app-calendar'';
          desired = remote env cfg plan draft calendar_id;
          found = dict_get rv_event_id current (rv_event_id desired)
      in ebind (event_operation cfg applying found desired) (\<lambda>operation.
           Inr \<lparr>df_operation = operation, df_event_id = rv_event_id desired, df_before_summary = map_option rv_summary found,
                df_after_summary = Some (ed_summary draft)\<rparr>))"

definition diff :: "'w calendar_env \<Rightarrow> calendar_config \<Rightarrow> calendar_plan \<Rightarrow> calendar_sync_state \<Rightarrow> bool
   \<Rightarrow> calendar_error + calendar_diff list" where
  "diff env cfg plan st applying = emapM (diff_entry env cfg plan st applying) (pl_events plan)"

section \<open>Bounded provider writes\<close>

definition write_matches :: "remote_calendar \<Rightarrow> remote_event \<Rightarrow> remote_event \<Rightarrow> bool" where
  "write_matches calendar event result \<longleftrightarrow>
     rv_calendar_id result = rc_calendar_id calendar \<and> rv_event_id result = rv_event_id event \<and> same_content result event"

text \<open>\<open>for attempt in range(1, max_attempts + 1)\<close>, by the number of attempts left.\<close>

fun write_attempts :: "'w calendar_env \<Rightarrow> string \<Rightarrow> remote_calendar \<Rightarrow> remote_event \<Rightarrow> nat \<Rightarrow> nat \<Rightarrow> ('w, nat) calendar_action" where
  "write_attempts env token calendar event attempt 0 w = (Inl CalendarAssertionError, w)"
| "write_attempts env token calendar event attempt (Suc left) w =
     (case write_event (ce_transport env) token \<lparr>cw_calendar_id = rc_calendar_id calendar, cw_event = event\<rparr> w of
        (Inl (CalendarTransientError m), w') \<Rightarrow>
          if left = 0 then (Inl (CalendarTransientError m), w')
          else write_attempts env token calendar event (attempt + 1) left w'
      | (Inl e, w') \<Rightarrow> (Inl e, w')
      | (Inr result, w') \<Rightarrow>
          if \<not> write_matches calendar event result
          then (Inl (CalendarContractError ''provider returned mismatched calendar event identity or content''), w')
          else (Inr attempt, w'))"

definition calendar_write_bounded ::
  "'w calendar_env \<Rightarrow> calendar_config \<Rightarrow> string \<Rightarrow> remote_calendar \<Rightarrow> remote_event \<Rightarrow> ('w, nat) calendar_action" where
  "calendar_write_bounded env cfg token calendar event = write_attempts env token calendar event 1 (cc_max_attempts cfg)"

fun delete_attempts :: "'w calendar_env \<Rightarrow> string \<Rightarrow> calendar_delete \<Rightarrow> nat \<Rightarrow> ('w, unit) calendar_action" where
  "delete_attempts env token request 0 w = (Inr (), w)"
| "delete_attempts env token request (Suc left) w =
     (case delete_event (ce_transport env) token request w of
        (Inl (CalendarTransientError m), w') \<Rightarrow>
          if left = 0 then (Inl (CalendarTransientError m), w') else delete_attempts env token request left w'
      | (r, w') \<Rightarrow> (r, w'))"

definition calendar_delete_bounded :: "'w calendar_env \<Rightarrow> calendar_config \<Rightarrow> string \<Rightarrow> calendar_delete \<Rightarrow> ('w, unit) calendar_action" where
  "calendar_delete_bounded env cfg token request = delete_attempts env token request (cc_max_attempts cfg)"

section \<open>Distinct keys have distinct identities\<close>

lemma length_char_bits [simp]: "length (char_bits c) = 8"
  by (cases c) simp

lemma char_bits_inject: "char_bits c = char_bits d \<Longrightarrow> c = d"
  by (cases c; cases d) simp

lemma concat_char_bits:
  "length s = length t \<Longrightarrow> concat (map char_bits s) = concat (map char_bits t) \<Longrightarrow> s = t"
  by (induction s t rule: list_induct2) (auto dest: char_bits_inject)

lemma bits_value_snoc: "bits_value (bs @ [b]) = 2 * bits_value bs + of_bool b"
  by (simp add: bits_value_def)

lemma bits_value_inject: "length a = length b \<Longrightarrow> bits_value a = bits_value b \<Longrightarrow> a = b"
proof (induction a arbitrary: b rule: rev_induct)
  case (snoc x xs)
  then obtain ys y where b: "b = ys @ [y]" by (cases b rule: rev_cases) auto
  with snoc.prems(2) have eq: "2 * bits_value xs + of_bool x = 2 * bits_value ys + of_bool y" by (simp add: bits_value_snoc)
  then have xy: "x = y" by (cases x; cases y; simp; presburger)
  with eq have "bits_value xs = bits_value ys" by simp
  with snoc b xy show ?case by simp
qed simp

lemma bits_value_bound: "bits_value bs < 2 ^ length bs"
  by (induction bs rule: rev_induct) (auto simp: bits_value_snoc bits_value_def of_bool_def)

lemma take5_padded: "bs \<noteq> [] \<Longrightarrow> length (take 5 (bs @ replicate 4 False)) = 5"
  by (cases bs) simp_all

lemma bits_value_padded: "bs \<noteq> [] \<Longrightarrow> bits_value (take 5 (bs @ replicate 4 False)) < 32"
proof -
  assume "bs \<noteq> []"
  from take5_padded [OF this] have "2 ^ length (take 5 (bs @ replicate 4 False)) = (32 :: nat)" by (simp del: take_append)
  with bits_value_bound [of "take 5 (bs @ replicate 4 False)"] show ?thesis by (simp del: take_append)
qed

lemma b32_digits_bound: "d \<in> set (b32_digits bs) \<Longrightarrow> d < 32"
proof (induction bs rule: b32_digits.induct)
  case (1 bs)
  with bits_value_padded show ?case by (auto simp: b32_digits.simps [of bs] split: if_splits simp del: take_append)
qed

lemma b32_digits_inject: "b32_digits a = b32_digits b \<Longrightarrow> length a = length b \<Longrightarrow> a = b"
proof (induction a arbitrary: b rule: b32_digits.induct)
  case (1 a)
  show ?case
  proof (cases "a = []")
    case True
    with 1 show ?thesis by simp
  next
    case False
    with "1.prems" have nb: "b \<noteq> []" by auto
    from "1.prems"(1) False nb have v: "bits_value (take 5 (a @ replicate 4 False)) = bits_value (take 5 (b @ replicate 4 False))"
      and r: "b32_digits (drop 5 a) = b32_digits (drop 5 b)"
      by (simp_all add: b32_digits.simps [of a] b32_digits.simps [of b])
    from bits_value_inject [OF _ v] take5_padded [OF False] take5_padded [OF nb]
    have "take 5 a = take 5 b" using "1.prems"(2) by simp
    moreover have "drop 5 a = drop 5 b" using "1.IH" [OF False r] "1.prems"(2) by simp
    ultimately show ?thesis by (metis append_take_drop_id)
  qed
qed

definition b32_letter :: "nat \<Rightarrow> char" where
  "b32_letter d = ''0123456789abcdefghijklmnopqrstuv'' ! d"

lemma lower_alphabet: "py_lower ''0123456789ABCDEFGHIJKLMNOPQRSTUV'' = ''0123456789abcdefghijklmnopqrstuv''"
  by (simp add: py_lower_def char_of_def bit_0)

lemma lower_letter:
  assumes "d < 32"
  shows "py_lower [''0123456789ABCDEFGHIJKLMNOPQRSTUV'' ! d] = [b32_letter d] \<and> b32_letter d \<noteq> CHR ''=''"
proof -
  have len: "length ''0123456789ABCDEFGHIJKLMNOPQRSTUV'' = 32" "length ''0123456789abcdefghijklmnopqrstuv'' = 32" by simp_all
  have "py_lower ''0123456789ABCDEFGHIJKLMNOPQRSTUV'' ! d = b32_letter d" unfolding lower_alphabet b32_letter_def ..
  then have "py_lower [''0123456789ABCDEFGHIJKLMNOPQRSTUV'' ! d] = [b32_letter d]"
    unfolding py_lower_def using assms len by (subst (asm) nth_map) simp_all
  moreover have "b32_letter d \<in> set ''0123456789abcdefghijklmnopqrstuv''" unfolding b32_letter_def using assms len(2) by (metis nth_mem)
  then have "b32_letter d \<noteq> CHR ''=''" by auto
  ultimately show ?thesis ..
qed

lemma b32_letter_inject: "d < 32 \<Longrightarrow> e < 32 \<Longrightarrow> b32_letter d = b32_letter e \<Longrightarrow> d = e"
proof -
  have "distinct ''0123456789abcdefghijklmnopqrstuv''" by simp
  moreover assume "d < 32" "e < 32" "b32_letter d = b32_letter e"
  ultimately show ?thesis unfolding b32_letter_def by (subst (asm) nth_eq_iff_index_eq) simp_all
qed

lemma py_lower_map: "(\<forall>d \<in> set ds. d < 32) \<Longrightarrow>
   py_lower (map (\<lambda>d. ''0123456789ABCDEFGHIJKLMNOPQRSTUV'' ! d) ds) = map b32_letter ds"
  using lower_letter by (induction ds) (auto simp: py_lower_def Let_def)

lemma rstrip_pad: "c \<notin> set s \<Longrightarrow> py_rstrip c (s @ replicate n c) = s"
proof -
  assume "c \<notin> set s"
  then have "dropWhile (\<lambda>x. x = c) (rev s) = rev s" by (cases s rule: rev_cases) auto
  moreover have "dropWhile (\<lambda>x. x = c) (replicate n c @ ys) = dropWhile (\<lambda>x. x = c) ys" for n ys by (induction n) simp_all
  ultimately show ?thesis by (simp add: py_rstrip_def)
qed

lemma identity_letters:
  "event_identity sha256 owner key =
   ''lifeos'' @ map b32_letter (b32_digits (concat (map char_bits (sha256 (owner @ [CHR 0x1F] @ key)))))"
proof -
  let ?ds = "b32_digits (concat (map char_bits (sha256 (owner @ [CHR 0x1F] @ key))))"
  have d: "\<forall>d \<in> set ?ds. d < 32" using b32_digits_bound by blast
  have "py_lower (replicate n (CHR ''='')) = replicate n (CHR ''='')" for n by (induction n) (simp_all add: py_lower_def)
  moreover have "py_lower (a @ b) = py_lower a @ py_lower b" for a b by (simp add: py_lower_def)
  moreover have "CHR ''='' \<notin> set (map b32_letter ?ds)" using d lower_letter by force
  ultimately show ?thesis unfolding event_identity_def b32hexencode_def Let_def
    using py_lower_map [OF d] rstrip_pad [of "CHR ''=''" "map b32_letter ?ds"] by presburger
qed

lemma identity_inject:
  assumes "\<And>x. length (sha256 x) = n" and "event_identity sha256 owner k = event_identity sha256 owner l"
  shows "sha256 (owner @ [CHR 0x1F] @ k) = sha256 (owner @ [CHR 0x1F] @ l)"
proof -
  let ?b = "\<lambda>k. concat (map char_bits (sha256 (owner @ [CHR 0x1F] @ k)))"
  from assms(2) have m: "map b32_letter (b32_digits (?b k)) = map b32_letter (b32_digits (?b l))" by (simp add: identity_letters)
  have "inj_on b32_letter (set (b32_digits (?b k)) \<union> set (b32_digits (?b l)))"
    using b32_letter_inject b32_digits_bound unfolding inj_on_def by blast
  from map_inj_on [OF m this] have "b32_digits (?b k) = b32_digits (?b l)" .
  moreover have "length (?b k) = length (?b l)"
    using assms(1) by (simp add: length_concat comp_def sum_list_triv)
  ultimately have "?b k = ?b l" by (rule b32_digits_inject)
  then show ?thesis using concat_char_bits assms(1) by metis
qed

lemma identities_distinct:
  assumes "\<And>x. length (sha256 x) = n" and "distinct (map ed_event_key ds)"
    and "inj_on (\<lambda>k. sha256 (owner @ [CHR 0x1F] @ k)) (ed_event_key ` set ds)"
  shows "distinct (map (\<lambda>d. event_identity sha256 owner (ed_event_key d)) ds)"
proof -
  have "ed_event_key x = ed_event_key y"
    if "x \<in> set ds" "y \<in> set ds" "event_identity sha256 owner (ed_event_key x) = event_identity sha256 owner (ed_event_key y)" for x y
    using identity_inject [of sha256 n owner, OF assms(1) that(3)] that(1,2) assms(3) by (auto dest: inj_onD)
  with assms(2) show ?thesis by (auto simp: distinct_map inj_on_def)
qed

end
