(* ===== verification/Calendar_Adapter.thy ===== *)
theory Calendar_Adapter
  imports Calendar_Operations
begin

text \<open>
  \<open>google_calendar.py\<close>: synchronization, preview, apply, reconciliation and rollback of approved calendar plans, as actions on the
  state of the provider.
\<close>

definition validate_calendar :: "remote_calendar \<Rightarrow> calendar_error + unit" where
  "validate_calendar c = require (rc_summary c = LIFEOS_PROPOSED_CALENDAR \<and> rc_app_owned c \<and> \<not> rc_primary c)
     (CalendarContractError ''provider returned a non-owned, primary, or mismatched calendar'')"

definition calendar_token :: "'w calendar_env \<Rightarrow> calendar_config \<Rightarrow> ('w, string) calendar_action" where
  "calendar_token env cfg = ce_access_token env (cc_oauth_grant cfg)"

text \<open>\<open>events.pop(id, None)\<close> for a tombstone, \<open>events[id] = event\<close> otherwise.\<close>

definition merge_event :: "remote_event list \<Rightarrow> remote_event \<Rightarrow> remote_event list" where
  "merge_event d e = (if rv_deleted e then dict_pop rv_event_id (rv_event_id e) d else keyed_put rv_event_id e d)"

definition merged_events :: "calendar_sync_state option \<Rightarrow> calendar_sync_page \<Rightarrow> remote_event list" where
  "merged_events previous page =
     (let base = (case previous of
          None \<Rightarrow> []
        | Some p \<Rightarrow> if sp_full_sync page then [] else dict_by rv_event_id (sy_events p))
      in sort_key rv_event_id (foldl merge_event base (sp_events page)))"

definition sync_page :: "'w calendar_env \<Rightarrow> string \<Rightarrow> string \<Rightarrow> string option \<Rightarrow> ('w, calendar_sync_page) calendar_action" where
  "sync_page env token calendar_id sync_token w =
     (case sync_events (ce_transport env) token calendar_id sync_token w of
        (Inl (StaleSyncTokenError m), w') \<Rightarrow> sync_events (ce_transport env) token calendar_id None w'
      | r \<Rightarrow> r)"

definition sync :: "'w calendar_env \<Rightarrow> calendar_config \<Rightarrow> calendar_sync_state option \<Rightarrow> ('w, calendar_sync_state) calendar_action" where
  "sync env cfg previous =
     abind (calendar_token env cfg) (\<lambda>token.
     abind (find_calendar (ce_transport env) token LIFEOS_PROPOSED_CALENDAR) (\<lambda>calendar.
       case calendar of
         None \<Rightarrow> areturn \<lparr>sy_calendar_id = None, sy_next_sync_token = None, sy_events = []\<rparr>
       | Some c \<Rightarrow>
           abind (alift (validate_calendar c)) (\<lambda>_.
           abind (sync_page env token (rc_calendar_id c) (case previous of None \<Rightarrow> None | Some p \<Rightarrow> sy_next_sync_token p)) (\<lambda>page.
             areturn \<lparr>sy_calendar_id = Some (rc_calendar_id c), sy_next_sync_token = Some (sp_next_sync_token page),
                      sy_events = merged_events previous page\<rparr>))))"

definition calendar_dry_run :: "'w calendar_env \<Rightarrow> calendar_config \<Rightarrow> calendar_plan \<Rightarrow> ('w, calendar_preview) calendar_action" where
  "calendar_dry_run env cfg plan =
     abind (sync env cfg None) (\<lambda>st.
     abind (alift (diff env cfg plan st True)) (\<lambda>operations.
       areturn \<lparr>pv_calendar_summary = LIFEOS_PROPOSED_CALENDAR, pv_operations = operations\<rparr>))"

text \<open>One turn of the \<open>match\<close> in the apply loop: the number of attempts it made.\<close>

definition apply_operation ::
  "'w calendar_env \<Rightarrow> calendar_config \<Rightarrow> calendar_plan \<Rightarrow> string \<Rightarrow> remote_calendar \<Rightarrow> remote_event list
   \<Rightarrow> calendar_diff \<Rightarrow> event_draft \<Rightarrow> ('w, nat) calendar_action" where
  "apply_operation env cfg plan token calendar known operation draft =
     (let event = remote env cfg plan draft (rc_calendar_id calendar) in
      case df_operation operation of
        OP_INSERT \<Rightarrow> calendar_write_bounded env cfg token calendar event
      | OP_UPDATE \<Rightarrow>
          (case dict_get rv_event_id known (rv_event_id event) of
             None \<Rightarrow> araise (CalendarContractError ''calendar update lost its synchronized event'')
           | Some expected \<Rightarrow> calendar_write_bounded env cfg token calendar (event\<lparr>rv_revision := rv_revision expected\<rparr>))
      | OP_NOOP \<Rightarrow> areturn 0
      | OP_EXTERNAL_EDIT \<Rightarrow> araise (CalendarContractError (''refusing to overwrite '' @ operation_value OP_EXTERNAL_EDIT))
      | OP_CONFLICT \<Rightarrow> araise (CalendarContractError (''refusing to overwrite '' @ operation_value OP_CONFLICT))
      | OP_DELETE \<Rightarrow> araise (CalendarContractError (''invalid apply operation: '' @ operation_value OP_DELETE))
      | OP_MISSING \<Rightarrow> araise (CalendarContractError (''invalid apply operation: '' @ operation_value OP_MISSING)))"

fun apply_loop ::
  "'w calendar_env \<Rightarrow> calendar_config \<Rightarrow> calendar_plan \<Rightarrow> string \<Rightarrow> remote_calendar \<Rightarrow> remote_event list
   \<Rightarrow> (calendar_diff \<times> event_draft) list \<Rightarrow> nat \<Rightarrow> ('w, nat) calendar_action" where
  "apply_loop env cfg plan token calendar known [] attempts = areturn attempts"
| "apply_loop env cfg plan token calendar known ((operation, draft) # rest) attempts =
     abind (apply_operation env cfg plan token calendar known operation draft) (\<lambda>n.
       apply_loop env cfg plan token calendar known rest (attempts + n))"

definition open_calendar :: "'w calendar_env \<Rightarrow> string \<Rightarrow> ('w, remote_calendar) calendar_action" where
  "open_calendar env token =
     abind (find_calendar (ce_transport env) token LIFEOS_PROPOSED_CALENDAR) (\<lambda>found.
       case found of
         Some c \<Rightarrow> areturn c
       | None \<Rightarrow> create_calendar (ce_transport env) token LIFEOS_PROPOSED_CALENDAR)"

definition apply_plan ::
  "'w calendar_env \<Rightarrow> calendar_config \<Rightarrow> calendar_plan \<Rightarrow> string \<Rightarrow> remote_calendar \<Rightarrow> ('w, calendar_apply_result) calendar_action" where
  "apply_plan env cfg plan token calendar =
     abind (alift (validate_calendar calendar)) (\<lambda>_.
     abind (sync env cfg None) (\<lambda>st.
     abind (alift (diff env cfg plan st True)) (\<lambda>operations.
     abind (apply_loop env cfg plan token calendar (dict_by rv_event_id (sy_events st)) (zip operations (pl_events plan)) 0) (\<lambda>attempts.
     abind (sync env cfg None) (\<lambda>final.
       areturn \<lparr>ar_operations = operations, ar_sync_state = final, ar_attempts = attempts\<rparr>)))))"

definition calendar_apply :: "'w calendar_env \<Rightarrow> calendar_config \<Rightarrow> calendar_plan \<Rightarrow> ('w, calendar_apply_result) calendar_action" where
  "calendar_apply env cfg plan =
     (if proposal_state_of (pl_authorization plan) \<noteq> APPROVED
      then araise (CalendarAuthorizationError ''calendar apply requires an approved proposal'')
      else
        abind (calendar_token env cfg) (\<lambda>token.
        abind (open_calendar env token) (\<lambda>calendar.
          apply_plan env cfg plan token calendar)))"

definition calendar_reconcile ::
  "'w calendar_env \<Rightarrow> calendar_config \<Rightarrow> calendar_plan \<Rightarrow> calendar_sync_state option \<Rightarrow> ('w, calendar_reconciliation) calendar_action" where
  "calendar_reconcile env cfg plan previous =
     abind (sync env cfg previous) (\<lambda>st.
     abind (alift (diff env cfg plan st False)) (\<lambda>operations.
       areturn \<lparr>rn_operations = operations, rn_sync_state = st\<rparr>))"

definition validate_rollback :: "'w calendar_env \<Rightarrow> datetime \<Rightarrow> calendar_plan \<Rightarrow> rollback \<Rightarrow> calendar_error + unit" where
  "validate_rollback env now plan rb =
     (let authorization = pl_authorization plan;
          message = CalendarAuthorizationError ''calendar rollback authorization is stale or mismatched''
      in if proposal_state_of authorization \<noteq> APPLIED
         then Inl (CalendarAuthorizationError ''calendar rollback requires an applied proposal'')
         else if \<not> (fact_proposal_id rb = proposal_id authorization
                   \<and> fact_payload_hash rb = payload_hash (ce_authority env) authorization) then Inl message
         else if is_naive (expires_at rb) \<noteq> is_naive now then Inl CalendarTypeError
         else if dt_le (expires_at rb) now then Inl message
         else Inr ())"

definition rollback_owns :: "'w calendar_env \<Rightarrow> calendar_config \<Rightarrow> calendar_plan \<Rightarrow> remote_event \<Rightarrow> bool" where
  "rollback_owns env cfg plan e =
     (case rv_ownership e of
        None \<Rightarrow> False
      | Some own \<Rightarrow> ow_owner_id own = cc_owner_id cfg \<and> ow_proposal_id own = proposal_id (pl_authorization plan)
          \<and> ow_payload_hash own = payload_hash (ce_authority env) (pl_authorization plan))"

fun rollback_loop ::
  "'w calendar_env \<Rightarrow> calendar_config \<Rightarrow> calendar_plan \<Rightarrow> string \<Rightarrow> remote_event list \<Rightarrow> ('w, calendar_diff list) calendar_action" where
  "rollback_loop env cfg plan token [] = areturn []"
| "rollback_loop env cfg plan token (e # es) =
     (if \<not> rollback_owns env cfg plan e then rollback_loop env cfg plan token es
      else abind (calendar_delete_bounded env cfg token \<lparr>cx_calendar_id = rv_calendar_id e, cx_event_id = rv_event_id e\<rparr>) (\<lambda>_.
           abind (rollback_loop env cfg plan token es) (\<lambda>operations.
             areturn (\<lparr>df_operation = OP_DELETE, df_event_id = rv_event_id e, df_before_summary = Some (rv_summary e),
                        df_after_summary = None\<rparr> # operations))))"

definition calendar_rollback ::
  "'w calendar_env \<Rightarrow> calendar_config \<Rightarrow> datetime \<Rightarrow> calendar_plan \<Rightarrow> rollback \<Rightarrow> ('w, calendar_rollback_result) calendar_action" where
  "calendar_rollback env cfg now plan rb =
     abind (alift (validate_rollback env now plan rb)) (\<lambda>_.
     abind (calendar_token env cfg) (\<lambda>token.
     abind (sync env cfg None) (\<lambda>st.
     abind (rollback_loop env cfg plan token (sy_events st)) (\<lambda>operations.
     abind (sync env cfg None) (\<lambda>final.
       areturn \<lparr>rb_operations = operations, rb_sync_state = final\<rparr>)))))"

end
