(* ===== verification/Calendar_Provider.thy ===== *)
theory Calendar_Provider
  imports Calendar_Adapter
begin

text \<open>
  The provider protocol \<open>GoogleCalendarTransport\<close> as a locale: what the adapter relies on of a provider, and what follows for
  synchronization, apply and rollback on every such provider.
\<close>

definition committed_write :: "(string \<rightharpoonup> remote_event) \<Rightarrow> remote_event \<Rightarrow> (string \<rightharpoonup> remote_event) \<Rightarrow> bool" where
  "committed_write before e after \<longleftrightarrow> (\<exists>rev. after = before(rv_event_id e \<mapsto> e\<lparr>rv_revision := rev\<rparr>))"

locale calendar_provider =
  fixes env :: "'w calendar_env" and good :: "'w \<Rightarrow> bool" and calendar_of :: "'w \<Rightarrow> remote_calendar option"
    and event_at :: "'w \<Rightarrow> string \<rightharpoonup> remote_event" and elsewhere :: "'w \<Rightarrow> 'o"
  assumes token_reads: "ce_access_token env g w = (r, w') \<Longrightarrow> w' = w"
    and find_reads: "good w \<Longrightarrow> find_calendar (ce_transport env) token LIFEOS_PROPOSED_CALENDAR w = (rf, w') \<Longrightarrow>
      w' = w \<and> (\<forall>c. rf = Inr c \<longrightarrow> c = calendar_of w)"
    and create_adds: "good w \<Longrightarrow> create_calendar (ce_transport env) token LIFEOS_PROPOSED_CALENDAR w = (rk, w') \<Longrightarrow>
      good w' \<and> elsewhere w' = elsewhere w \<and> event_at w' = event_at w \<and> (\<forall>c. rk = Inr c \<longrightarrow> calendar_of w' = Some c)"
    and full_sync: "good w \<Longrightarrow> calendar_of w = Some c \<Longrightarrow> sync_events (ce_transport env) token (rc_calendar_id c) None w = (rs, w') \<Longrightarrow>
      w' = w \<and> (\<forall>p. rs = Inr p \<longrightarrow> sp_full_sync p \<and> distinct (map rv_event_id (sp_events p)) \<and> (\<forall>e \<in> set (sp_events p). \<not> rv_deleted e)
        \<and> (\<forall>i. dict_get rv_event_id (sp_events p) i = event_at w i))"
    and write_commits: "good w \<Longrightarrow> calendar_of w = Some c \<Longrightarrow> rv_calendar_id e = rc_calendar_id c \<Longrightarrow> \<not> rv_deleted e \<Longrightarrow>
      write_event (ce_transport env) token \<lparr>cw_calendar_id = rc_calendar_id c, cw_event = e\<rparr> w = (rw, w') \<Longrightarrow>
      good w' \<and> elsewhere w' = elsewhere w \<and> calendar_of w' = Some c
      \<and> (committed_write (event_at w) e (event_at w') \<or> (\<exists>x. rw = Inl x) \<and> event_at w' = event_at w)
      \<and> (\<forall>m. rw = Inl (CalendarTransientError m) \<longrightarrow> event_at w' = event_at w)"
    and delete_commits: "good w \<Longrightarrow> calendar_of w = Some c \<Longrightarrow>
      delete_event (ce_transport env) token \<lparr>cx_calendar_id = rc_calendar_id c, cx_event_id = i\<rparr> w = (rd, w') \<Longrightarrow>
      good w' \<and> elsewhere w' = elsewhere w \<and> calendar_of w' = Some c
      \<and> (event_at w' = (event_at w)(i := None) \<or> (\<exists>x. rd = Inl x) \<and> event_at w' = event_at w)"
    and no_calendar: "good w \<Longrightarrow> calendar_of w = None \<Longrightarrow> event_at w = Map.empty"
    and event_home: "good w \<Longrightarrow> calendar_of w = Some c \<Longrightarrow> event_at w i = Some e \<Longrightarrow> rv_calendar_id e = rc_calendar_id c \<and> rv_event_id e = i"
begin

section \<open>Synchronization\<close>

definition reflects :: "'w \<Rightarrow> calendar_sync_state \<Rightarrow> bool" where
  "reflects w s \<longleftrightarrow> sy_calendar_id s = map_option rc_calendar_id (calendar_of w) \<and> distinct (map rv_event_id (sy_events s))
     \<and> (\<forall>i. dict_get rv_event_id (sy_events s) i = event_at w i)"

lemma merge_fresh:
  "distinct (map rv_event_id (d @ es)) \<Longrightarrow> \<forall>e \<in> set es. \<not> rv_deleted e \<Longrightarrow> foldl merge_event d es = d @ es"
proof (induction es arbitrary: d)
  case (Cons e es)
  then have "merge_event d e = d @ [e]" by (simp add: merge_event_def keyed_put_fresh)
  with Cons show ?case by simp
qed simp

lemma full_page:
  assumes "sp_full_sync p" "distinct (map rv_event_id (sp_events p))" "\<forall>e \<in> set (sp_events p). \<not> rv_deleted e"
  shows "merged_events previous p = sort_key rv_event_id (sp_events p)"
  using assms merge_fresh [of "[]" "sp_events p"] by (simp add: merged_events_def Let_def split: option.split)

lemma sync_page_full:
  assumes "good w" and "calendar_of w = Some c" and "sync_page env token (rc_calendar_id c) None w = (r, w')"
  shows "w' = w \<and> (\<forall>p. r = Inr p \<longrightarrow> sp_full_sync p \<and> distinct (map rv_event_id (sp_events p)) \<and> (\<forall>e \<in> set (sp_events p). \<not> rv_deleted e)
        \<and> (\<forall>i. dict_get rv_event_id (sp_events p) i = event_at w i))"
proof -
  obtain r1 w1 where s: "sync_events (ce_transport env) token (rc_calendar_id c) None w = (r1, w1)" by fastforce
  note f = full_sync [OF assms(1,2) s]
  then have "(r, w') = (r1, w1)"
    using assms(3) s by (auto simp: sync_page_def split: sum.splits calendar_error.splits)
  with f show ?thesis by blast
qed

lemma sync_None:
  assumes good: "good w" and run: "sync env cfg None w = (r, w')"
  shows "w' = w \<and> (\<forall>s. r = Inr s \<longrightarrow> reflects w s \<and> (\<forall>c. calendar_of w = Some c \<longrightarrow> validate_calendar c = Inr ()))"
proof -
  obtain rt wt where t: "ce_access_token env (cc_oauth_grant cfg) w = (rt, wt)" by fastforce
  note wt = token_reads [OF t]
  show ?thesis
  proof (cases rt)
    case (Inl e)
    with run t wt show ?thesis by (auto simp: sync_def calendar_token_def)
  next
    case (Inr token)
    obtain rf wf where f: "find_calendar (ce_transport env) token LIFEOS_PROPOSED_CALENDAR w = (rf, wf)" by fastforce
    note ff = find_reads [OF good f]
    show ?thesis
    proof (cases rf)
      case (Inl e)
      with run t wt Inr f ff show ?thesis by (auto simp: sync_def calendar_token_def)
    next
      case fnd: (Inr found)
      show ?thesis
      proof (cases found)
        case None
        with fnd ff have "calendar_of w = None" by simp
        with run t wt Inr f fnd None no_calendar [OF good] ff show ?thesis
          by (auto simp: sync_def calendar_token_def reflects_def dict_get_def)
      next
        case (Some c)
        with fnd ff have c: "calendar_of w = Some c" by simp
        obtain rp wp where p: "sync_page env token (rc_calendar_id c) None w = (rp, wp)" by fastforce
        note pp = sync_page_full [OF good c p]
        have "find_calendar (ce_transport env) token LIFEOS_PROPOSED_CALENDAR w = (Inr (Some c), w)" using f fnd ff Some by simp
        then show ?thesis
          using run t wt Inr p pp c
          by (cases "validate_calendar c"; cases rp)
            (auto simp: sync_def calendar_token_def reflects_def full_page dict_get_sorted distinct_map_sort_key)
      qed
    qed
  qed
qed

section \<open>Writes\<close>

text \<open>What any sequence of bounded writes may do to a world.\<close>

definition same_home :: "'w \<Rightarrow> 'w \<Rightarrow> bool" where
  "same_home w w' \<longleftrightarrow> good w' \<and> elsewhere w' = elsewhere w \<and> calendar_of w' = calendar_of w"

lemma write_attempts_commits:
  assumes "good w" and "calendar_of w = Some c" and "rv_calendar_id e = rc_calendar_id c" and "\<not> rv_deleted e"
    and "write_attempts env token c e attempt left w = (r, w')"
  shows "same_home w w' \<and> (committed_write (event_at w) e (event_at w') \<or> (\<exists>x. r = Inl x) \<and> event_at w' = event_at w)
    \<and> (\<forall>n. r = Inr n \<longrightarrow> attempt \<le> n \<and> n < attempt + left)"
  using assms
proof (induction left arbitrary: w attempt)
  case 0
  then show ?case by (auto simp: same_home_def)
next
  case (Suc left)
  obtain r1 w1 where wr: "write_event (ce_transport env) token \<lparr>cw_calendar_id = rc_calendar_id c, cw_event = e\<rparr> w = (r1, w1)" by fastforce
  note c1 = write_commits [OF Suc.prems(1-4) wr]
  show ?case
  proof (cases "left \<noteq> 0 \<and> (\<exists>m. r1 = Inl (CalendarTransientError m))")
    case True
    then obtain m where m: "r1 = Inl (CalendarTransientError m)" by blast
    with Suc.prems(5) wr True have "write_attempts env token c e (attempt + 1) left w1 = (r, w')" by simp
    from Suc.IH [OF _ _ Suc.prems(3,4) this] c1 m Suc.prems(2) show ?thesis by (auto simp: same_home_def)
  next
    case False
    with Suc.prems(5) wr have "w' = w1 \<and> (\<forall>n. r = Inr n \<longrightarrow> n = attempt) \<and> ((\<exists>x. r = Inl x) \<or> (\<exists>x. r1 = Inr x))"
      by (auto split: sum.splits calendar_error.splits if_splits)
    with c1 Suc.prems(2) show ?thesis by (auto simp: same_home_def)
  qed
qed

lemma delete_attempts_commits:
  assumes "good w" and "calendar_of w = Some c"
    and "delete_attempts env token \<lparr>cx_calendar_id = rc_calendar_id c, cx_event_id = i\<rparr> (Suc left) w = (r, w')"
  shows "same_home w w' \<and> (event_at w' = (event_at w)(i := None) \<or> (\<exists>x. r = Inl x) \<and> event_at w' = event_at w)"
  using assms
proof (induction left arbitrary: w)
  case (0 w)
  obtain r1 w1 where d: "delete_event (ce_transport env) token \<lparr>cx_calendar_id = rc_calendar_id c, cx_event_id = i\<rparr> w = (r1, w1)" by fastforce
  from delete_commits [OF 0(1,2) d] d 0 show ?case
    by (auto simp: same_home_def split: sum.splits calendar_error.splits)
next
  case (Suc left w)
  obtain r1 w1 where d: "delete_event (ce_transport env) token \<lparr>cx_calendar_id = rc_calendar_id c, cx_event_id = i\<rparr> w = (r1, w1)" by fastforce
  note c1 = delete_commits [OF Suc.prems(1,2) d]
  show ?case
  proof (cases "\<exists>m. r1 = Inl (CalendarTransientError m)")
    case True
    then have "delete_attempts env token \<lparr>cx_calendar_id = rc_calendar_id c, cx_event_id = i\<rparr> (Suc left) w1 = (r, w')"
      using Suc.prems(3) d by auto
    from Suc.IH [OF _ _ this] c1 Suc.prems(2) show ?thesis by (auto simp: same_home_def)
  next
    case False
    then have "(r, w') = (r1, w1)" using Suc.prems(3) d by (auto split: sum.splits calendar_error.splits)
    with c1 Suc.prems(2) show ?thesis by (auto simp: same_home_def)
  qed
qed

lemma same_home_trans: "same_home w v \<Longrightarrow> same_home v u \<Longrightarrow> same_home w u"
  by (simp add: same_home_def)

section \<open>Apply\<close>

definition identity_of :: "calendar_config \<Rightarrow> event_draft \<Rightarrow> string" where
  "identity_of cfg d = event_identity (ce_sha256 env) (cc_owner_id cfg) (ed_event_key d)"

lemma remote_simps [simp]:
  "rv_event_id (remote env cfg plan d i) = identity_of cfg d" "rv_calendar_id (remote env cfg plan d i) = i"
  "rv_deleted (remote env cfg plan d i) = False"
  by (simp_all add: remote_def identity_of_def)

definition may_overwrite :: "calendar_config \<Rightarrow> calendar_plan \<Rightarrow> remote_event option \<Rightarrow> bool" where
  "may_overwrite cfg plan found \<longleftrightarrow> (case found of None \<Rightarrow> True | Some f \<Rightarrow>
     (\<exists>own. rv_ownership f = Some own \<and> ow_owner_id own = cc_owner_id cfg
        \<and> ow_payload_hash own \<noteq> payload_hash (ce_authority env) (pl_authorization plan)))"

text \<open>The event a draft stands for, as far as the provider may fill it in: everything but the revision.\<close>

definition written :: "calendar_config \<Rightarrow> calendar_plan \<Rightarrow> string \<Rightarrow> event_draft \<Rightarrow> remote_event \<Rightarrow> bool" where
  "written cfg plan i d e \<longleftrightarrow> (\<exists>rev. e = (remote env cfg plan d i)\<lparr>rv_revision := rev\<rparr>)"

lemma operation_writes:
  assumes "event_operation cfg True found (remote env cfg plan d i) = Inr x" and "x = OP_INSERT \<or> x = OP_UPDATE"
  shows "may_overwrite cfg plan found"
  using assms by (auto simp: event_operation_def may_overwrite_def remote_def split: option.splits if_splits)

definition writes :: "calendar_diff \<Rightarrow> bool" where
  "writes dff \<longleftrightarrow> df_operation dff = OP_INSERT \<or> df_operation dff = OP_UPDATE"

lemma apply_operation_effect:
  assumes good: "good w" and c: "calendar_of w = Some c"
    and run: "apply_operation env cfg plan token c known dff d w = (r, w')"
  shows "same_home w w' \<and> (event_at w' = event_at w \<and> (\<forall>n. r = Inr n \<longrightarrow> df_operation dff = OP_NOOP)
    \<or> writes dff \<and> (\<exists>e. written cfg plan (rc_calendar_id c) d e \<and> event_at w' = (event_at w)(identity_of cfg d \<mapsto> e)))"
proof -
  have wr: "same_home w u \<and> ((\<exists>e. written cfg plan (rc_calendar_id c) d e \<and> event_at u = (event_at w)(identity_of cfg d \<mapsto> e))
      \<or> (\<exists>x. q = Inl x) \<and> event_at u = event_at w)"
    if "calendar_write_bounded env cfg token c ((remote env cfg plan d (rc_calendar_id c))\<lparr>rv_revision := rev\<rparr>) w = (q, u)" for rev q u
    using write_attempts_commits [OF good c _ _ that [unfolded calendar_write_bounded_def]]
    by (auto simp: committed_write_def written_def)
  have pending: "remote env cfg plan d i = (remote env cfg plan d i)\<lparr>rv_revision := ''pending''\<rparr>" for i by (simp add: remote_def)
  have home: "same_home w w" using good by (simp add: same_home_def)
  show ?thesis
  proof (cases "df_operation dff")
    case OP_INSERT
    with run wr [of "''pending''" r w'] pending show ?thesis by (auto simp: apply_operation_def writes_def)
  next
    case OP_UPDATE
    show ?thesis
    proof (cases "dict_get rv_event_id known (identity_of cfg d)")
      case None
      with run OP_UPDATE home show ?thesis by (auto simp: apply_operation_def writes_def)
    next
      case (Some e)
      with run OP_UPDATE wr [of "rv_revision e" r w'] show ?thesis by (auto simp: apply_operation_def writes_def)
    qed
  qed (use run home in \<open>auto simp: apply_operation_def writes_def\<close>)
qed

lemma apply_loop_effect:
  assumes "good w" and "calendar_of w = Some c" and "apply_loop env cfg plan token c known pairs n w = (r, w')"
  shows "same_home w w' \<and> (\<forall>i. event_at w' i = event_at w i \<or>
      (\<exists>(dff, d) \<in> set pairs. writes dff \<and> i = identity_of cfg d \<and> (\<exists>e. written cfg plan (rc_calendar_id c) d e \<and> event_at w' i = Some e)))"
  using assms
proof (induction pairs arbitrary: w n)
  case Nil
  then show ?case by (simp add: same_home_def)
next
  case (Cons p pairs)
  obtain dff d where p: "p = (dff, d)" by fastforce
  obtain r1 w1 where op: "apply_operation env cfg plan token c known dff d w = (r1, w1)" by fastforce
  note e1 = apply_operation_effect [OF Cons.prems(1,2) op]
  show ?case
  proof (cases r1)
    case (Inl x)
    with Cons.prems(3) op p have "w' = w1" by simp
    with e1 p show ?thesis by auto
  next
    case (Inr m)
    with Cons.prems(3) op p have "apply_loop env cfg plan token c known pairs (n + m) w1 = (r, w')" by simp
    from Cons.IH [OF _ _ this] e1 Cons.prems(2) have h: "same_home w1 w'" and ih: "\<forall>i. event_at w' i = event_at w1 i \<or>
      (\<exists>(dff, d) \<in> set pairs. writes dff \<and> i = identity_of cfg d \<and> (\<exists>e. written cfg plan (rc_calendar_id c) d e \<and> event_at w' i = Some e))"
      by (auto simp: same_home_def)
    have "event_at w' i = event_at w i \<or> (\<exists>(dff, d) \<in> set (p # pairs). writes dff \<and> i = identity_of cfg d
        \<and> (\<exists>e. written cfg plan (rc_calendar_id c) d e \<and> event_at w' i = Some e))" for i
      using ih [rule_format, of i] e1 p by (cases "i = identity_of cfg d") auto
    with e1 h show ?thesis by (auto intro: same_home_trans)
  qed
qed

lemma apply_loop_success:
  assumes "good w" and "calendar_of w = Some c" and "apply_loop env cfg plan token c known pairs n w = (Inr m, w')"
    and "distinct (map (identity_of cfg \<circ> snd) pairs)" and "(dff, d) \<in> set pairs"
  shows "df_operation dff = OP_NOOP \<and> event_at w' (identity_of cfg d) = event_at w (identity_of cfg d)
    \<or> (\<exists>e. written cfg plan (rc_calendar_id c) d e \<and> event_at w' (identity_of cfg d) = Some e)"
  using assms
proof (induction pairs arbitrary: w n)
  case (Cons p pairs)
  obtain dp d0 where p: "p = (dp, d0)" by fastforce
  obtain m1 w1 where op: "apply_operation env cfg plan token c known dp d0 w = (Inr m1, w1)"
    and rest: "apply_loop env cfg plan token c known pairs (n + m1) w1 = (Inr m, w')"
    using Cons.prems(3) p by auto
  note e1 = apply_operation_effect [OF Cons.prems(1,2) op]
  have g1: "good w1" "calendar_of w1 = Some c" using e1 Cons.prems(2) by (auto simp: same_home_def)
  show ?case
  proof (cases "(dff, d) \<in> set pairs")
    case True
    have "identity_of cfg d \<noteq> identity_of cfg d0" using True Cons.prems(4) p by force
    with Cons.IH [OF g1 rest _ True] Cons.prems(4) e1 show ?thesis by auto
  next
    case False
    with Cons.prems(5) p have d: "dp = dff" "d0 = d" by auto
    have "event_at w' (identity_of cfg d) = event_at w1 (identity_of cfg d)"
      using apply_loop_effect [OF g1 rest] Cons.prems(4) p d by force
    with e1 d show ?thesis by auto
  qed
qed simp

lemma open_calendar_effect:
  assumes "good w" and "open_calendar env token w = (r, w')"
  shows "good w' \<and> elsewhere w' = elsewhere w \<and> event_at w' = event_at w \<and> (\<forall>c. r = Inr c \<longrightarrow> calendar_of w' = Some c)"
proof -
  obtain rf wf where f: "find_calendar (ce_transport env) token LIFEOS_PROPOSED_CALENDAR w = (rf, wf)" by fastforce
  note ff = find_reads [OF assms(1) f]
  show ?thesis
  proof (cases rf)
    case (Inl x)
    with assms f ff show ?thesis by (auto simp: open_calendar_def)
  next
    case (Inr found)
    with assms f ff create_adds [OF assms(1), of token r w'] show ?thesis
      by (cases found) (auto simp: open_calendar_def)
  qed
qed

text \<open>A run on an open calendar stops early without touching anything, or reaches the loop.\<close>

lemma apply_plan_cases:
  assumes good: "good w" and c: "calendar_of w = Some c" and run: "apply_plan env cfg plan token c w = (r, w')"
  obtains (early) x where "r = Inl x" and "w' = w"
  | (reached) st ops r1 where "validate_calendar c = Inr ()" and "sync env cfg None w = (Inr st, w)" and "diff env cfg plan st True = Inr ops"
      and "apply_loop env cfg plan token c (dict_by rv_event_id (sy_events st)) (zip ops (pl_events plan)) 0 w = (r1, w')"
      and "\<forall>res. r = Inr res \<longrightarrow> (\<exists>m final. r1 = Inr m \<and> sync env cfg None w' = (Inr final, w')
            \<and> res = \<lparr>ar_operations = ops, ar_sync_state = final, ar_attempts = m\<rparr>)"
proof -
  obtain rs ws where s: "sync env cfg None w = (rs, ws)" by fastforce
  have ws: "ws = w" using sync_None [OF good s] by blast
  show thesis
  proof (cases "\<exists>st ops. validate_calendar c = Inr () \<and> rs = Inr st \<and> diff env cfg plan st True = Inr ops")
    case False
    then have "w' = w \<and> (\<exists>x. r = Inl x)" using run s ws unfolding apply_plan_def
      by (cases "validate_calendar c"; cases rs; cases "diff env cfg plan (projr rs) True") auto
    then show thesis by (auto intro: early)
  next
    case True
    then obtain st ops where v: "validate_calendar c = Inr ()" and rs: "rs = Inr st" and d: "diff env cfg plan st True = Inr ops" by blast
    obtain r1 w2 where l: "apply_loop env cfg plan token c (dict_by rv_event_id (sy_events st)) (zip ops (pl_events plan)) 0 w = (r1, w2)"
      by fastforce
    have g2: "good w2" using apply_loop_effect [OF good c l] by (simp add: same_home_def)
    obtain rz wz where z: "sync env cfg None w2 = (rz, wz)" by fastforce
    have wz: "wz = w2" using sync_None [OF g2 z] by blast
    have "w' = w2 \<and> (\<forall>res. r = Inr res \<longrightarrow> (\<exists>m final. r1 = Inr m \<and> rz = Inr final
            \<and> res = \<lparr>ar_operations = ops, ar_sync_state = final, ar_attempts = m\<rparr>))"
      using run s ws v rs d l z wz unfolding apply_plan_def by (cases r1; cases rz) auto
    with reached [OF v _ d] l s ws rs z wz show thesis by blast
  qed
qed

lemma calendar_apply_cases:
  assumes good: "good w" and run: "calendar_apply env cfg plan w = (r, w')"
  obtains (early) x where "r = Inl x" and "good w'" and "elsewhere w' = elsewhere w" and "event_at w' = event_at w"
  | (opened) token c w1 where "good w1" and "elsewhere w1 = elsewhere w" and "event_at w1 = event_at w" and "calendar_of w1 = Some c"
      and "proposal_state_of (pl_authorization plan) = APPROVED" and "apply_plan env cfg plan token c w1 = (r, w')"
proof (cases "proposal_state_of (pl_authorization plan) = APPROVED")
  case False
  with run good show thesis by (intro early) (auto simp: calendar_apply_def)
next
  case st: True
  obtain rt wt where t: "calendar_token env cfg w = (rt, wt)" by fastforce
  have wt: "wt = w" using token_reads t by (simp add: calendar_token_def)
  show thesis
  proof (cases rt)
    case (Inl x)
    with run good st t wt show thesis by (intro early) (auto simp: calendar_apply_def)
  next
    case tok: (Inr token)
    obtain rk w1 where k: "open_calendar env token w = (rk, w1)" by fastforce
    note k1 = open_calendar_effect [OF good k]
    show thesis
    proof (cases rk)
      case (Inl x)
      with run st t wt tok k k1 show thesis by (intro early) (auto simp: calendar_apply_def)
    next
      case (Inr c)
      with run st t wt tok k k1 show thesis by (intro opened [of w1 c token]) (auto simp: calendar_apply_def)
    qed
  qed
qed

section \<open>What the diff says\<close>

lemma event_operation_home:
  "event_operation cfg applying found (remote env cfg plan d i) = event_operation cfg applying found (remote env cfg plan d j)"
  by (simp add: event_operation_def same_content_def remote_def split: option.split)

lemma diff_entry_reads:
  assumes "reflects w st" and "diff_entry env cfg plan st applying d = Inr dff"
  shows "event_operation cfg applying (event_at w (identity_of cfg d)) (remote env cfg plan d i) = Inr (df_operation dff)"
    and "df_event_id dff = identity_of cfg d"
  using assms event_operation_home [of cfg applying "event_at w (identity_of cfg d)" plan d i
    "py_or (sy_calendar_id st) ''pending-app-calendar''"]
  by (auto simp: diff_entry_def Let_def reflects_def)

lemma diff_pairs:
  assumes "diff env cfg plan st applying = Inr ops"
  shows "length ops = length (pl_events plan)"
    and "(dff, d) \<in> set (zip ops (pl_events plan)) \<Longrightarrow> diff_entry env cfg plan st applying d = Inr dff"
proof -
  from assms have la: "list_all2 (\<lambda>d dff. diff_entry env cfg plan st applying d = Inr dff) (pl_events plan) ops"
    unfolding diff_def by (rule emapM_Inr_map)
  then show "length ops = length (pl_events plan)" by (simp add: list_all2_lengthD)
  show "(dff, d) \<in> set (zip ops (pl_events plan)) \<Longrightarrow> diff_entry env cfg plan st applying d = Inr dff"
    using la by (auto simp: list_all2_conv_all_nth set_zip)
qed

section \<open>Results\<close>

theorem apply_confined:
  assumes good: "good w" and run: "calendar_apply env cfg plan w = (r, w')"
  shows "good w' \<and> elsewhere w' = elsewhere w \<and> (\<forall>i. event_at w' i = event_at w i \<or>
    proposal_state_of (pl_authorization plan) = APPROVED \<and>
    (\<exists>d \<in> set (pl_events plan). i = identity_of cfg d \<and> may_overwrite cfg plan (event_at w i)
       \<and> (\<exists>j e. written cfg plan j d e \<and> event_at w' i = Some e)))"
  using good run
proof (cases rule: calendar_apply_cases)
  case early
  then show ?thesis by simp
next
  case (opened token c w1)
  from opened(1,4,6) show ?thesis
  proof (cases rule: apply_plan_cases)
    case early
    with opened show ?thesis by simp
  next
    case (reached st ops r1)
    note eff = apply_loop_effect [OF opened(1,4) reached(4)]
    have st: "reflects w1 st" using sync_None [OF opened(1) reached(2)] by blast
    have "may_overwrite cfg plan (event_at w i)"
      if "(dff, d) \<in> set (zip ops (pl_events plan))" "writes dff" "i = identity_of cfg d" for dff d i
    proof -
      from diff_pairs(2) [OF reached(3) that(1)] have "diff_entry env cfg plan st True d = Inr dff" .
      from diff_entry_reads(1) [OF st this] that(2,3) opened(3) show ?thesis
        using operation_writes [of cfg "event_at w i" plan d "[]"] unfolding writes_def by fastforce
    qed
    then have "event_at w' i = event_at w i \<or> (\<exists>d \<in> set (pl_events plan). i = identity_of cfg d \<and> may_overwrite cfg plan (event_at w i)
       \<and> (\<exists>j e. written cfg plan j d e \<and> event_at w' i = Some e))" for i
      using eff opened(3) by (fastforce dest: set_zip_rightD)
    with eff opened(2,5) show ?thesis by (auto simp: same_home_def)
  qed
qed

lemma written_content:
  assumes "written cfg plan j d e"
  shows "same_content e (remote env cfg plan d i)" and "rv_ownership e = rv_ownership (remote env cfg plan d i)"
  using assms by (auto simp: written_def same_content_def remote_def)

text \<open>After a successful apply every event of the plan is in place.\<close>

lemma apply_in_place:
  assumes good: "good w" and run: "calendar_apply env cfg plan w = (Inr res, w')"
    and dist: "distinct (map (identity_of cfg) (pl_events plan))" and d: "d \<in> set (pl_events plan)"
  shows "\<exists>e. event_at w' (identity_of cfg d) = Some e \<and> same_content e (remote env cfg plan d i)"
  using good run
proof (cases rule: calendar_apply_cases)
  case (opened token c w1)
  from opened(1,4,6) show ?thesis
  proof (cases rule: apply_plan_cases)
    case (reached st ops r1)
    then obtain m where r1: "r1 = Inr m" by auto
    have st: "reflects w1 st" using sync_None [OF opened(1) reached(2)] by blast
    from d diff_pairs(1) [OF reached(3)] obtain dff where p: "(dff, d) \<in> set (zip ops (pl_events plan))"
      by (metis in_set_impl_in_set_zip2)
    have "map (identity_of cfg \<circ> snd) (zip ops (pl_events plan)) = map (identity_of cfg) (pl_events plan)"
      using diff_pairs(1) [OF reached(3)] by (metis map_map map_snd_zip)
    with dist have "distinct (map (identity_of cfg \<circ> snd) (zip ops (pl_events plan)))" by simp
    from apply_loop_success [OF opened(1,4) reached(4) [unfolded r1] this p] show ?thesis
    proof
      assume noop: "df_operation dff = OP_NOOP \<and> event_at w' (identity_of cfg d) = event_at w1 (identity_of cfg d)"
      from diff_entry_reads(1) [OF st diff_pairs(2) [OF reached(3) p], of i] noop show ?thesis
        by (auto simp: event_operation_def split: option.splits if_splits)
    next
      assume "\<exists>e. written cfg plan (rc_calendar_id c) d e \<and> event_at w' (identity_of cfg d) = Some e"
      then show ?thesis using written_content(1) by blast
    qed
  qed (use good in simp)
qed simp

text \<open>Applying again finds nothing to do.\<close>

lemma diff_all_noop:
  assumes st: "reflects w st" and own: "\<And>d. d \<in> set ds \<Longrightarrow> \<exists>e. event_at w (identity_of cfg d) = Some e \<and> same_content e (remote env cfg plan d [])"
  shows "\<exists>ops. emapM (diff_entry env cfg plan st True) ds = Inr ops \<and> (\<forall>dff \<in> set ops. df_operation dff = OP_NOOP)"
  using own
proof (induction ds)
  case (Cons d ds)
  let ?desired = "remote env cfg plan d (py_or (sy_calendar_id st) ''pending-app-calendar'')"
  from Cons.prems [of d] obtain e where e: "event_at w (identity_of cfg d) = Some e" "same_content e (remote env cfg plan d [])" by auto
  have "event_operation cfg True (Some e) (remote env cfg plan d []) = Inr OP_NOOP"
    using e(2) by (auto simp: event_operation_def same_content_def remote_def)
  then have "event_operation cfg True (Some e) ?desired = Inr OP_NOOP" by (metis event_operation_home)
  then have "\<exists>dff. diff_entry env cfg plan st True d = Inr dff \<and> df_operation dff = OP_NOOP"
    using st e(1) by (simp add: diff_entry_def Let_def reflects_def)
  with Cons show ?case by auto
qed simp

lemma apply_loop_noop:
  "\<forall>(dff, d) \<in> set pairs. df_operation dff = OP_NOOP \<Longrightarrow> apply_loop env cfg plan token c known pairs n w = (Inr n, w)"
  by (induction pairs arbitrary: n) (auto simp: apply_operation_def)

theorem apply_idempotent:
  assumes good: "good w" and run: "calendar_apply env cfg plan w = (Inr res, w')"
    and dist: "distinct (map (identity_of cfg) (pl_events plan))"
  shows "\<exists>ops. calendar_apply env cfg plan w' = (Inr \<lparr>ar_operations = ops, ar_sync_state = ar_sync_state res, ar_attempts = 0\<rparr>, w')
    \<and> (\<forall>dff \<in> set ops. df_operation dff = OP_NOOP)"
  using good run
proof (cases rule: calendar_apply_cases)
  case (opened token c w1)
  from opened(1,4,6) show ?thesis
  proof (cases rule: apply_plan_cases)
    case (reached st ops r1)
    then obtain final m where final: "sync env cfg None w' = (Inr final, w')" and res: "ar_sync_state res = final" by auto
    have home: "good w'" "calendar_of w' = Some c" using apply_loop_effect [OF opened(1,4) reached(4)] opened(4) by (auto simp: same_home_def)
    have refl: "reflects w' final" using sync_None [OF home(1) final] by blast
    from final obtain tok where tok: "calendar_token env cfg w' = (Inr tok, w')"
      and find: "find_calendar (ce_transport env) tok LIFEOS_PROPOSED_CALENDAR w' = (Inr (Some c), w')"
    proof -
      obtain x wx where t: "ce_access_token env (cc_oauth_grant cfg) w' = (x, wx)" by fastforce
      with token_reads final obtain tok where x: "x = Inr tok" "wx = w'" by (cases x) (auto simp: sync_def calendar_token_def)
      obtain y wy where f: "find_calendar (ce_transport env) tok LIFEOS_PROPOSED_CALENDAR w' = (y, wy)" by fastforce
      with find_reads [OF home(1) f] final t x home(2) have "y = Inr (Some c)" "wy = w'"
        by (cases y; auto simp: sync_def calendar_token_def)+
      with that t x f show thesis by (simp add: calendar_token_def)
    qed
    from diff_all_noop [OF refl apply_in_place [OF good run dist]] obtain ops' where
      d: "diff env cfg plan final True = Inr ops'" and noop: "\<forall>dff \<in> set ops'. df_operation dff = OP_NOOP" by (auto simp: diff_def)
    have "apply_loop env cfg plan tok c (dict_by rv_event_id (sy_events final)) (zip ops' (pl_events plan)) 0 w' = (Inr 0, w')"
      using noop by (intro apply_loop_noop) (auto dest: set_zip_leftD)
    then have "apply_plan env cfg plan tok c w' = (Inr \<lparr>ar_operations = ops', ar_sync_state = final, ar_attempts = 0\<rparr>, w')"
      using reached(1) final d by (simp add: apply_plan_def)
    with opened(5) tok find res noop show ?thesis by (simp add: calendar_apply_def open_calendar_def)
  qed simp
qed simp

section \<open>Rollback\<close>

lemma rollback_loop_effect:
  assumes "good w" and "calendar_of w = Some c" and "1 \<le> cc_max_attempts cfg"
    and "\<forall>e \<in> set es. rv_calendar_id e = rc_calendar_id c" and "rollback_loop env cfg plan token es w = (r, w')"
  shows "same_home w w' \<and> (\<forall>i. event_at w' i = event_at w i
      \<or> event_at w' i = None \<and> (\<exists>e \<in> set es. rv_event_id e = i \<and> rollback_owns env cfg plan e))
    \<and> (\<forall>ops. r = Inr ops \<longrightarrow> (\<forall>e \<in> set es. rollback_owns env cfg plan e \<longrightarrow> event_at w' (rv_event_id e) = None)
         \<and> map df_event_id ops = map rv_event_id (filter (rollback_owns env cfg plan) es))"
  using assms
proof (induction es arbitrary: w r w')
  case Nil
  then show ?case by (auto simp: same_home_def)
next
  case (Cons e es)
  show ?case
  proof (cases "rollback_owns env cfg plan e")
    case False
    with Cons.prems(5) have "rollback_loop env cfg plan token es w = (r, w')" by simp
    from Cons.IH [OF Cons.prems(1-3) _ this] Cons.prems(4) False show ?thesis by auto
  next
    case owns: True
    obtain r1 w1 where d: "calendar_delete_bounded env cfg token \<lparr>cx_calendar_id = rv_calendar_id e, cx_event_id = rv_event_id e\<rparr> w = (r1, w1)"
      by fastforce
    obtain left where left: "cc_max_attempts cfg = Suc left" using Cons.prems(3) by (cases "cc_max_attempts cfg") auto
    have del: "same_home w w1 \<and> (event_at w1 = (event_at w)(rv_event_id e := None) \<or> (\<exists>x. r1 = Inl x) \<and> event_at w1 = event_at w)"
      using delete_attempts_commits [OF Cons.prems(1,2), of token "rv_event_id e" left r1 w1] d left Cons.prems(4)
      by (simp add: calendar_delete_bounded_def)
    show ?thesis
    proof (cases r1)
      case (Inl x)
      with Cons.prems(5) owns d have "w' = w1 \<and> r = Inl x" by simp
      with del owns show ?thesis by auto
    next
      case (Inr u)
      obtain r2 w2 where l: "rollback_loop env cfg plan token es w1 = (r2, w2)" by fastforce
      have w: "w' = w2 \<and> (\<forall>ops. r = Inr ops \<longrightarrow> (\<exists>ops'. r2 = Inr ops' \<and> map df_event_id ops = rv_event_id e # map df_event_id ops'))"
        using Cons.prems(5) owns d Inr l by (cases r2) auto
      have "good w1" "calendar_of w1 = Some c" using del Cons.prems(2) by (auto simp: same_home_def)
      from Cons.IH [OF this Cons.prems(3) _ l] Cons.prems(4) have h2: "same_home w1 w2"
        and e2: "\<And>i. event_at w2 i = event_at w1 i \<or> event_at w2 i = None \<and> (\<exists>e \<in> set es. rv_event_id e = i \<and> rollback_owns env cfg plan e)"
        and o2: "\<And>ops. r2 = Inr ops \<Longrightarrow> (\<forall>e \<in> set es. rollback_owns env cfg plan e \<longrightarrow> event_at w2 (rv_event_id e) = None)
           \<and> map df_event_id ops = map rv_event_id (filter (rollback_owns env cfg plan) es)" by auto
      have e1: "event_at w1 = (event_at w)(rv_event_id e := None)" using del Inr by simp
      have "event_at w2 (rv_event_id e) = None" using e2 [of "rv_event_id e"] e1 by auto
      moreover have "event_at w2 i = event_at w i
          \<or> event_at w2 i = None \<and> (\<exists>x \<in> set (e # es). rv_event_id x = i \<and> rollback_owns env cfg plan x)" for i
        using e2 [of i] e1 owns by (cases "i = rv_event_id e") auto
      ultimately show ?thesis using same_home_trans [OF _ h2, of w] del w owns o2 by auto
    qed
  qed
qed

theorem rollback_exact:
  assumes good: "good w" and att: "1 \<le> cc_max_attempts cfg" and run: "calendar_rollback env cfg now plan rb w = (r, w')"
  shows "good w' \<and> elsewhere w' = elsewhere w
    \<and> (\<forall>i. event_at w' i = event_at w i \<or> event_at w' i = None \<and> (\<exists>e. event_at w i = Some e \<and> rollback_owns env cfg plan e))
    \<and> (\<forall>res. r = Inr res \<longrightarrow> validate_rollback env now plan rb = Inr ()
        \<and> (\<forall>i e. event_at w i = Some e \<longrightarrow> rollback_owns env cfg plan e \<longrightarrow> event_at w' i = None))"
proof (cases "validate_rollback env now plan rb")
  case (Inl x)
  with run good show ?thesis by (auto simp: calendar_rollback_def)
next
  case valid: (Inr u)
  obtain rt wt where t: "calendar_token env cfg w = (rt, wt)" by fastforce
  have wt: "wt = w" using token_reads t by (simp add: calendar_token_def)
  obtain rs ws where s: "sync env cfg None w = (rs, ws)" by fastforce
  note sync = sync_None [OF good s]
  show ?thesis
  proof (cases "\<exists>token st. rt = Inr token \<and> rs = Inr st")
    case False
    then have "w' = w \<and> (\<exists>x. r = Inl x)" using run valid t wt s sync by (cases rt; cases rs) (auto simp: calendar_rollback_def)
    with good show ?thesis by auto
  next
    case True
    then obtain token st where tok: "rt = Inr token" and st: "rs = Inr st" by blast
    have reads: "dict_get rv_event_id (sy_events st) i = event_at w i" "distinct (map rv_event_id (sy_events st))" for i
      using sync st by (auto simp: reflects_def)
    obtain r1 w1 where l: "rollback_loop env cfg plan token (sy_events st) w = (r1, w1)" by fastforce
    have eff: "good w1 \<and> elsewhere w1 = elsewhere w
      \<and> (\<forall>i. event_at w1 i = event_at w i
          \<or> event_at w1 i = None \<and> (\<exists>e \<in> set (sy_events st). rv_event_id e = i \<and> rollback_owns env cfg plan e))
      \<and> (\<forall>ops. r1 = Inr ops \<longrightarrow> (\<forall>e \<in> set (sy_events st). rollback_owns env cfg plan e \<longrightarrow> event_at w1 (rv_event_id e) = None))"
    proof (cases "calendar_of w")
      case None
      then have "sy_events st = []" using no_calendar [OF good] reads(1) [of "rv_event_id (hd (sy_events st))"]
        by (cases "sy_events st") (auto simp: dict_get_def)
      with l good show ?thesis by simp
    next
      case (Some c)
      have "\<forall>e \<in> set (sy_events st). rv_calendar_id e = rc_calendar_id c"
        using event_home [OF good Some] reads dict_get_distinct by metis
      from rollback_loop_effect [OF good Some att this l] show ?thesis by (auto simp: same_home_def)
    qed
    obtain rz wz where z: "sync env cfg None w1 = (rz, wz)" by fastforce
    have w: "w' = w1 \<and> (\<forall>res. r = Inr res \<longrightarrow> (\<exists>ops. r1 = Inr ops))"
      using run valid t wt s sync tok st l z sync_None [OF _ z] eff by (cases r1; cases rz) (auto simp: calendar_rollback_def)
    have held: "e \<in> set (sy_events st) \<and> rv_event_id e = i \<longleftrightarrow> event_at w i = Some e" for i e
      unfolding reads(1) [symmetric] using dict_get_distinct [OF reads(2)] dict_get_Some by metis
    from eff have gone: "\<And>ops e. r1 = Inr ops \<Longrightarrow> e \<in> set (sy_events st) \<Longrightarrow> rollback_owns env cfg plan e \<Longrightarrow> event_at w1 (rv_event_id e) = None"
      by simp
    have "event_at w1 i = event_at w i \<or> event_at w1 i = None \<and> (\<exists>e. event_at w i = Some e \<and> rollback_owns env cfg plan e)" for i
      using eff held by meson
    moreover have "event_at w1 i = None" if res: "r = Inr res" and at: "event_at w i = Some e" and own: "rollback_owns env cfg plan e" for res i e
    proof -
      from held [of e i] at have e: "e \<in> set (sy_events st)" and i: "rv_event_id e = i" by simp_all
      obtain ops where "r1 = Inr ops" using w res by blast
      from gone [OF this e own] i show ?thesis by simp
    qed
    ultimately show ?thesis using eff valid w by simp
  qed
qed

end

end
