(* ===== verification/Calendar_Sandbox.thy ===== *)
theory Calendar_Sandbox
  imports Calendar_Adapter
begin

text \<open>
  \<open>google_calendar_sandbox.py\<close>: the in-memory provider, with its injected failure modes.  Dictionaries of events are keyed lists, the
  dictionary of calendars is a map; a missing key raises.
\<close>

section \<open>Decimal integers\<close>

text \<open>\<open>int(text)\<close>: surrounding white space, a sign and single underscores between digits are accepted.\<close>

definition dec_value :: "char \<Rightarrow> nat option" where
  "dec_value c = (let n = of_char c :: nat in if 48 \<le> n \<and> n \<le> 57 then Some (n - 48) else None)"

fun dec_digits :: "bool \<Rightarrow> nat \<Rightarrow> string \<Rightarrow> nat option" where
  "dec_digits ok acc [] = (if ok then Some acc else None)"
| "dec_digits ok acc (c # cs) =
     (if c = CHR ''_'' then (if ok then dec_digits False acc cs else None)
      else case dec_value c of None \<Rightarrow> None | Some d \<Rightarrow> dec_digits True (acc * 10 + d) cs)"

definition py_int :: "string \<Rightarrow> int option" where
  "py_int s = (case py_strip is_space s of
       [] \<Rightarrow> None
     | c # cs \<Rightarrow> if c = CHR ''-'' then map_option (\<lambda>n. - int n) (dec_digits False 0 cs)
                 else if c = CHR ''+'' then map_option int (dec_digits False 0 cs)
                 else map_option int (dec_digits False 0 (c # cs)))"

section \<open>State\<close>

record sandbox =
  sb_valid_token :: string
  sb_revoked :: bool
  sb_proposed_calendar :: "remote_calendar option"
  sb_events :: "string \<rightharpoonup> remote_event list"
  sb_changes :: "(nat \<times> remote_event) list"
  sb_generation :: nat
  sb_minimum_sync_token :: nat
  sb_write_failures :: int
  sb_interrupt_after_write :: bool
  sb_misreport_write :: bool
  sb_mutation_count :: nat

definition new_sandbox :: "string \<Rightarrow> string \<Rightarrow> sandbox" where
  "new_sandbox valid_token primary_event_id =
     \<lparr>sb_valid_token = valid_token, sb_revoked = False, sb_proposed_calendar = None,
      sb_events = [''primary'' \<mapsto>
        [\<lparr>rv_calendar_id = ''primary'', rv_event_id = primary_event_id, rv_summary = ''Protected primary event'',
          rv_starts_at = utc_datetime (1767258000 * second), rv_ends_at = utc_datetime (1767261600 * second),
          rv_ownership = None, rv_revision = ''1'', rv_deleted = False\<rparr>]],
      sb_changes = [], sb_generation = 0, sb_minimum_sync_token = 0, sb_write_failures = 0, sb_interrupt_after_write = False,
      sb_misreport_write = False, sb_mutation_count = 0\<rparr>"

definition proposed_calendar_id :: "sandbox \<Rightarrow> string option" where
  "proposed_calendar_id w = map_option rc_calendar_id (sb_proposed_calendar w)"

type_synonym 'a sandbox_action = "(sandbox, 'a) calendar_action"

definition primary_events :: "sandbox \<Rightarrow> calendar_error + remote_event list" where
  "primary_events w = (case sb_events w ''primary'' of None \<Rightarrow> Inl CalendarKeyError | Some d \<Rightarrow> Inr d)"

definition proposed_events :: "sandbox \<Rightarrow> calendar_error + remote_event list" where
  "proposed_events w =
     (case proposed_calendar_id w of
        None \<Rightarrow> Inr []
      | Some i \<Rightarrow> (case sb_events w i of None \<Rightarrow> Inl CalendarKeyError | Some d \<Rightarrow> Inr (sort_key rv_event_id d)))"

section \<open>Test controls\<close>

definition revoke_token :: "sandbox \<Rightarrow> sandbox" where
  "revoke_token w = w\<lparr>sb_revoked := True\<rparr>"

definition fail_next_writes :: "int \<Rightarrow> sandbox \<Rightarrow> sandbox" where
  "fail_next_writes count w = w\<lparr>sb_write_failures := count\<rparr>"

definition interrupt_next_write_after_commit :: "sandbox \<Rightarrow> sandbox" where
  "interrupt_next_write_after_commit w = w\<lparr>sb_interrupt_after_write := True\<rparr>"

definition misreport_next_write :: "sandbox \<Rightarrow> sandbox" where
  "misreport_next_write w = w\<lparr>sb_misreport_write := True\<rparr>"

definition expire_sync_tokens :: "sandbox \<Rightarrow> sandbox" where
  "expire_sync_tokens w = w\<lparr>sb_minimum_sync_token := sb_generation w\<rparr>"

section \<open>Provider operations\<close>

definition sandbox_authorize :: "string \<Rightarrow> sandbox \<Rightarrow> calendar_error + unit" where
  "sandbox_authorize token w = require (token = sb_valid_token w \<and> \<not> sb_revoked w)
     (CalendarAuthorizationError ''Google OAuth token is revoked or invalid'')"

definition require_proposed :: "string \<Rightarrow> sandbox \<Rightarrow> calendar_error + unit" where
  "require_proposed calendar_id w = require (\<not> (Some calendar_id \<noteq> proposed_calendar_id w \<or> calendar_id = ''primary''))
     (CalendarContractError ''sandbox rejected primary or foreign calendar mutation'')"

text \<open>\<open>self._events[calendar_id]\<close>\<close>

definition calendar_events :: "string \<Rightarrow> sandbox \<Rightarrow> calendar_error + remote_event list" where
  "calendar_events calendar_id w = (case sb_events w calendar_id of None \<Rightarrow> Inl CalendarKeyError | Some d \<Rightarrow> Inr d)"

definition log_change :: "remote_event \<Rightarrow> sandbox \<Rightarrow> sandbox" where
  "log_change event w = w\<lparr>sb_generation := sb_generation w + 1, sb_changes := sb_changes w @ [(sb_generation w + 1, event)],
     sb_mutation_count := sb_mutation_count w + 1\<rparr>"

definition record_change :: "remote_event \<Rightarrow> unit sandbox_action" where
  "record_change event =
     abind (aread (calendar_events (rv_calendar_id event))) (\<lambda>d.
     amodify (\<lambda>w. log_change event (w\<lparr>sb_events := (sb_events w)(rv_calendar_id event \<mapsto> keyed_put rv_event_id event d)\<rparr>)))"

text \<open>\<open>str(int(event.revision) + 1)\<close>\<close>

definition next_revision :: "remote_event \<Rightarrow> calendar_error + string" where
  "next_revision e = (case py_int (rv_revision e) of None \<Rightarrow> Inl CalendarValueError | Some n \<Rightarrow> Inr (str_int (n + 1)))"

definition external_edit :: "string \<Rightarrow> string \<Rightarrow> unit sandbox_action" where
  "external_edit event_id summary =
     abind (aread (\<lambda>w. case proposed_calendar_id w of
        None \<Rightarrow> Inl (CalendarContractError ''proposed calendar does not exist'') | Some i \<Rightarrow> Inr i)) (\<lambda>calendar_id.
     abind (aread (calendar_events calendar_id)) (\<lambda>d.
     abind (alift (case dict_get rv_event_id d event_id of None \<Rightarrow> Inl CalendarKeyError | Some e \<Rightarrow> Inr e)) (\<lambda>event.
     abind (alift (next_revision event)) (\<lambda>revision.
       record_change (event\<lparr>rv_summary := summary, rv_revision := revision\<rparr>)))))"

definition sandbox_find_calendar :: "string \<Rightarrow> string \<Rightarrow> remote_calendar option sandbox_action" where
  "sandbox_find_calendar token summary =
     abind (aread (sandbox_authorize token)) (\<lambda>_.
     aget (\<lambda>w. case sb_proposed_calendar w of
        Some c \<Rightarrow> if summary = rc_summary c then Some c else None
      | None \<Rightarrow> None))"

definition sandbox_create_calendar :: "string \<Rightarrow> string \<Rightarrow> remote_calendar sandbox_action" where
  "sandbox_create_calendar token summary =
     abind (aread (sandbox_authorize token)) (\<lambda>_.
     abind (alift (require (summary = LIFEOS_PROPOSED_CALENDAR)
        (CalendarContractError ''sandbox only permits the LifeOS Proposed calendar''))) (\<lambda>_.
     abind (aget sb_proposed_calendar) (\<lambda>existing.
       case existing of
         Some c \<Rightarrow> areturn c
       | None \<Rightarrow>
           let c = \<lparr>rc_calendar_id = ''lifeos-proposed-sandbox'', rc_summary = summary, rc_app_owned = True, rc_primary = False\<rparr> in
           abind (amodify (\<lambda>w. w\<lparr>sb_proposed_calendar := Some c, sb_events := (sb_events w)(rc_calendar_id c \<mapsto> []),
                              sb_mutation_count := sb_mutation_count w + 1\<rparr>)) (\<lambda>_. areturn c))))"

definition sandbox_sync_events :: "string \<Rightarrow> string \<Rightarrow> string option \<Rightarrow> calendar_sync_page sandbox_action" where
  "sandbox_sync_events token calendar_id sync_token =
     abind (aread (sandbox_authorize token)) (\<lambda>_.
     abind (aread (require_proposed calendar_id)) (\<lambda>_.
       case sync_token of
         None \<Rightarrow>
           abind (aread proposed_events) (\<lambda>es.
           aget (\<lambda>w. \<lparr>sp_events = es, sp_next_sync_token = dec (sb_generation w), sp_full_sync = True\<rparr>))
       | Some t \<Rightarrow>
           (case py_int t of
              None \<Rightarrow> araise (StaleSyncTokenError ''sync token is malformed or stale'')
            | Some generation \<Rightarrow>
                abind (aread (\<lambda>w. require (\<not> (generation < int (sb_minimum_sync_token w) \<or> int (sb_generation w) < generation))
                         (StaleSyncTokenError ''sync token is stale''))) (\<lambda>_.
                aget (\<lambda>w. \<lparr>sp_events = map snd (filter (\<lambda>(v, e). generation < int v) (sb_changes w)),
                           sp_next_sync_token = dec (sb_generation w), sp_full_sync = False\<rparr>)))))"

definition sandbox_write_event :: "string \<Rightarrow> calendar_write \<Rightarrow> remote_event sandbox_action" where
  "sandbox_write_event token request =
     abind (aread (sandbox_authorize token)) (\<lambda>_.
     abind (aread (require_proposed (cw_calendar_id request))) (\<lambda>_.
     abind (aget sb_write_failures) (\<lambda>failures.
     if 0 < failures
     then abind (amodify (\<lambda>w. w\<lparr>sb_write_failures := sb_write_failures w - 1\<rparr>)) (\<lambda>_.
          araise (CalendarTransientError ''sandbox transient write failure''))
     else
       abind (aread (calendar_events (cw_calendar_id request))) (\<lambda>d.
       abind (alift (case dict_get rv_event_id d (rv_event_id (cw_event request)) of
          None \<Rightarrow> Inr ''1'' | Some existing \<Rightarrow> next_revision existing)) (\<lambda>revision.
       let stored = (cw_event request)\<lparr>rv_revision := revision\<rparr> in
       abind (record_change stored) (\<lambda>_.
       abind (aget sb_interrupt_after_write) (\<lambda>interrupt.
       if interrupt
       then abind (amodify (\<lambda>w. w\<lparr>sb_interrupt_after_write := False\<rparr>)) (\<lambda>_.
            araise (CalendarInterruptedError ''sandbox response interrupted after commit''))
       else
         abind (aget sb_misreport_write) (\<lambda>misreport.
         if misreport
         then abind (amodify (\<lambda>w. w\<lparr>sb_misreport_write := False\<rparr>)) (\<lambda>_. areturn (stored\<lparr>rv_calendar_id := ''primary''\<rparr>))
         else areturn stored)))))))) "

definition sandbox_delete_event :: "string \<Rightarrow> calendar_delete \<Rightarrow> unit sandbox_action" where
  "sandbox_delete_event token request =
     abind (aread (sandbox_authorize token)) (\<lambda>_.
     abind (aread (require_proposed (cx_calendar_id request))) (\<lambda>_.
     abind (aread (calendar_events (cx_calendar_id request))) (\<lambda>d.
       case dict_get rv_event_id d (cx_event_id request) of
         None \<Rightarrow> areturn ()
       | Some event \<Rightarrow>
           abind (amodify (\<lambda>w. w\<lparr>sb_events := (sb_events w)(cx_calendar_id request \<mapsto> dict_pop rv_event_id (cx_event_id request) d)\<rparr>)) (\<lambda>_.
           abind (alift (next_revision event)) (\<lambda>revision.
           amodify (log_change (event\<lparr>rv_deleted := True, rv_revision := revision\<rparr>)))))))"

definition sandbox_transport :: "sandbox calendar_transport" where
  "sandbox_transport = \<lparr>find_calendar = sandbox_find_calendar, create_calendar = sandbox_create_calendar,
     sync_events = sandbox_sync_events, write_event = sandbox_write_event, delete_event = sandbox_delete_event\<rparr>"

end
