(* ===== verification/Calendar_Sandbox_Laws.thy ===== *)
theory Calendar_Sandbox_Laws
  imports Calendar_Provider Calendar_Sandbox
begin

text \<open>
  The sandbox keeps the laws of the provider protocol, in every state its operations and its test controls can reach.
\<close>

section \<open>Decimal round trip\<close>

lemma digit_char_facts:
  assumes "d < 10"
  shows "dec_value (digit_char d) = Some d" and "digit_char d \<noteq> CHR ''_''" and "\<not> is_space (digit_char d)"
    and "digit_char d \<noteq> CHR ''-''" and "digit_char d \<noteq> CHR ''+''"
proof -
  have n: "of_char (digit_char d) = 48 + d" using assms by (simp add: digit_char_def)
  show "dec_value (digit_char d) = Some d" "\<not> is_space (digit_char d)" using assms n by (simp_all add: dec_value_def is_space_def)
  have "of_char (CHR ''_'') = (95 :: nat)" "of_char (CHR ''-'') = (45 :: nat)" "of_char (CHR ''+'') = (43 :: nat)" by simp_all
  then show "digit_char d \<noteq> CHR ''_''" "digit_char d \<noteq> CHR ''-''" "digit_char d \<noteq> CHR ''+''" using assms n by auto
qed

lemma dec_digits_snoc:
  "d < 10 \<Longrightarrow> dec_digits ok acc xs = Some v \<Longrightarrow> dec_digits ok acc (xs @ [digit_char d]) = Some (v * 10 + d)"
  by (induction xs arbitrary: ok acc) (auto simp: digit_char_facts split: if_splits option.splits)

lemma dec_digits_dec: "dec_digits False 0 (dec n) = Some n"
proof (induction n rule: dec.induct)
  case (1 n)
  show ?case
  proof (cases "n < 10")
    case True
    then show ?thesis by (simp add: dec.simps [of n] digit_char_facts)
  next
    case False
    then have "dec n = dec (n div 10) @ [digit_char (n mod 10)]" by (simp add: dec.simps [of n])
    with dec_digits_snoc [OF _ 1 [OF False], of "n mod 10"] show ?thesis by simp
  qed
qed

lemma dec_chars: "c \<in> set (dec n) \<Longrightarrow> \<exists>d < 10. c = digit_char d"
proof (induction n rule: dec.induct)
  case (1 n)
  then show ?case by (cases "n < 10") (auto simp: dec.simps [of n] intro: exI [of _ "n mod 10"])
qed

lemma py_int_dec [simp]: "py_int (dec n) = Some (int n)"
proof -
  have "\<not> is_space c" if "c \<in> set (dec n)" for c using dec_chars [OF that] digit_char_facts(3) by blast
  then have "dropWhile is_space (dec n) = dec n" "dropWhile is_space (rev (dec n)) = rev (dec n)"
    using dec_nonempty [of n] by (simp_all add: dropWhile_eq_self_iff hd_rev)
  then have strip: "py_strip is_space (dec n) = dec n" by (simp add: py_strip_def)
  obtain c cs where dec: "dec n = c # cs" using dec_nonempty by (cases "dec n") auto
  then have "c \<noteq> CHR ''-''" "c \<noteq> CHR ''+''" using dec_chars [of c n] digit_char_facts(4,5) by auto
  with strip dec dec_digits_dec [of n] show ?thesis by (simp add: py_int_def)
qed

lemma next_revision_dec: "rv_revision e = dec n \<Longrightarrow> next_revision e = Inr (dec (Suc n))"
  by (simp add: next_revision_def str_int_def nat_add_distrib)

lemma dec_one: "''1'' = dec (Suc 0)"
  by (simp add: dec.simps [of "Suc 0"] digit_char_def char_of_def bit_0)

section \<open>Well-formed sandboxes\<close>

definition sandbox_calendar :: remote_calendar where
  "sandbox_calendar = \<lparr>rc_calendar_id = ''lifeos-proposed-sandbox'', rc_summary = LIFEOS_PROPOSED_CALENDAR, rc_app_owned = True, rc_primary = False\<rparr>"

definition sandbox_dict :: "sandbox \<Rightarrow> remote_event list" where
  "sandbox_dict w = (case sb_events w ''lifeos-proposed-sandbox'' of None \<Rightarrow> [] | Some d \<Rightarrow> d)"

definition sandbox_event_at :: "sandbox \<Rightarrow> string \<rightharpoonup> remote_event" where
  "sandbox_event_at w = dict_get rv_event_id (sandbox_dict w)"

definition sandbox_elsewhere :: "sandbox \<Rightarrow> string \<rightharpoonup> remote_event list" where
  "sandbox_elsewhere w = (sb_events w)(''lifeos-proposed-sandbox'' := None)"

text \<open>The events that a list of changes, applied from the start, leaves.\<close>

definition change_view :: "(nat \<times> remote_event) list \<Rightarrow> remote_event list" where
  "change_view cs = foldl merge_event [] (map snd cs)"

definition dict_good :: "remote_event list \<Rightarrow> bool" where
  "dict_good d \<longleftrightarrow> distinct (map rv_event_id d)
     \<and> (\<forall>e \<in> set d. rv_calendar_id e = ''lifeos-proposed-sandbox'' \<and> \<not> rv_deleted e \<and> (\<exists>n. rv_revision e = dec n))"

definition sandbox_good :: "sandbox \<Rightarrow> bool" where
  "sandbox_good w \<longleftrightarrow>
     (case sb_proposed_calendar w of
        None \<Rightarrow> sb_events w ''lifeos-proposed-sandbox'' = None
      | Some c \<Rightarrow> c = sandbox_calendar \<and> sb_events w ''lifeos-proposed-sandbox'' \<noteq> None)
     \<and> dict_good (sandbox_dict w)
     \<and> map fst (sb_changes w) = [1..<Suc (sb_generation w)]
     \<and> (\<forall>i. dict_get rv_event_id (change_view (sb_changes w)) i = dict_get rv_event_id (sandbox_dict w) i)
     \<and> sb_minimum_sync_token w \<le> sb_generation w"

lemma merge_distinct: "distinct (map rv_event_id d) \<Longrightarrow> distinct (map rv_event_id (merge_event d e))"
  by (simp add: merge_event_def distinct_keyed_put distinct_dict_pop)

lemma fold_merge_distinct: "distinct (map rv_event_id d) \<Longrightarrow> distinct (map rv_event_id (foldl merge_event d es))"
  by (induction es arbitrary: d) (simp_all add: merge_distinct)

lemma dict_get_merge:
  "dict_get rv_event_id (merge_event d e) i = (if i = rv_event_id e then (if rv_deleted e then None else Some e) else dict_get rv_event_id d i)"
  by (auto simp: merge_event_def dict_get_pop dict_get_keyed_put dict_get_keyed_put_other)

lemma change_view_snoc: "change_view (cs @ [(n, e)]) = merge_event (change_view cs) e"
  by (simp add: change_view_def)

lemma sandbox_goodD:
  assumes "sandbox_good w" and "sb_proposed_calendar w = Some c"
  obtains d where "c = sandbox_calendar" and "sb_events w ''lifeos-proposed-sandbox'' = Some d" and "sandbox_dict w = d" and "dict_good d"
  using assms by (auto simp: sandbox_good_def sandbox_dict_def)

lemma sandbox_calendar_id: "sandbox_good w \<Longrightarrow> sb_proposed_calendar w = Some c \<Longrightarrow> rc_calendar_id c = ''lifeos-proposed-sandbox''"
  by (auto simp: sandbox_good_def sandbox_calendar_def)

text \<open>A logged change of the dictionary keeps the log in step with it.\<close>

definition change_dict :: "remote_event \<Rightarrow> sandbox \<Rightarrow> sandbox" where
  "change_dict e w = log_change e (w\<lparr>sb_events := (sb_events w)(''lifeos-proposed-sandbox'' \<mapsto> merge_event (sandbox_dict w) e)\<rparr>)"

lemma change_dict_simps [simp]:
  "sandbox_dict (change_dict e w) = merge_event (sandbox_dict w) e" "sandbox_elsewhere (change_dict e w) = sandbox_elsewhere w"
  "sb_proposed_calendar (change_dict e w) = sb_proposed_calendar w" "sb_minimum_sync_token (change_dict e w) = sb_minimum_sync_token w"
  "sb_generation (change_dict e w) = Suc (sb_generation w)" "sb_changes (change_dict e w) = sb_changes w @ [(Suc (sb_generation w), e)]"
  "sb_events (change_dict e w) ''lifeos-proposed-sandbox'' = Some (merge_event (sandbox_dict w) e)"
  "sb_valid_token (change_dict e w) = sb_valid_token w" "sb_revoked (change_dict e w) = sb_revoked w"
  "sb_interrupt_after_write (change_dict e w) = sb_interrupt_after_write w" "sb_misreport_write (change_dict e w) = sb_misreport_write w"
  by (simp_all add: change_dict_def log_change_def sandbox_dict_def sandbox_elsewhere_def)

lemma dict_good_merge:
  assumes "dict_good d" and "rv_deleted e \<or> rv_calendar_id e = ''lifeos-proposed-sandbox'' \<and> (\<exists>n. rv_revision e = dec n)"
  shows "dict_good (merge_event d e)"
proof -
  have "set (merge_event d e) \<subseteq> (if rv_deleted e then set d else insert e (set d))"
    using set_keyed_put [of rv_event_id e d] by (auto simp: merge_event_def)
  with assms merge_distinct [of d e] show ?thesis by (auto simp: dict_good_def split: if_splits)
qed

lemma change_dict_good:
  assumes good: "sandbox_good w" and cal: "sb_proposed_calendar w = Some c"
    and e: "rv_deleted e \<or> rv_calendar_id e = ''lifeos-proposed-sandbox'' \<and> (\<exists>n. rv_revision e = dec n)"
  shows "sandbox_good (change_dict e w)"
proof -
  have "dict_get rv_event_id (change_view (sb_changes (change_dict e w))) i = dict_get rv_event_id (sandbox_dict (change_dict e w)) i" for i
    using good by (simp add: sandbox_good_def change_view_snoc dict_get_merge)
  moreover have "dict_good (sandbox_dict (change_dict e w))" using good dict_good_merge [OF _ e] by (simp add: sandbox_good_def)
  moreover have "map fst (sb_changes (change_dict e w)) = [1..<Suc (sb_generation (change_dict e w))]"
    using good by (simp add: sandbox_good_def)
  ultimately show ?thesis using good cal by (simp add: sandbox_good_def)
qed

section \<open>The laws\<close>

definition sandbox_env :: "(string \<Rightarrow> string option) \<Rightarrow> authority_env \<Rightarrow> (string \<Rightarrow> string) \<Rightarrow> sandbox calendar_env" where
  "sandbox_env secrets authority sha256 = \<lparr>ce_transport = sandbox_transport, ce_access_token = keychain_access_token secrets,
     ce_authority = authority, ce_sha256 = sha256\<rparr>"

lemma sandbox_env_simps [simp]:
  "ce_access_token (sandbox_env secrets authority sha256) = keychain_access_token secrets"
  "find_calendar (ce_transport (sandbox_env secrets authority sha256)) = sandbox_find_calendar"
  "create_calendar (ce_transport (sandbox_env secrets authority sha256)) = sandbox_create_calendar"
  "sync_events (ce_transport (sandbox_env secrets authority sha256)) = sandbox_sync_events"
  "write_event (ce_transport (sandbox_env secrets authority sha256)) = sandbox_write_event"
  "delete_event (ce_transport (sandbox_env secrets authority sha256)) = sandbox_delete_event"
  "ce_authority (sandbox_env secrets authority sha256) = authority" "ce_sha256 (sandbox_env secrets authority sha256) = sha256"
  by (simp_all add: sandbox_env_def sandbox_transport_def)

lemma sandbox_find_law:
  assumes "sandbox_good w" and "sandbox_find_calendar token LIFEOS_PROPOSED_CALENDAR w = (r, w')"
  shows "w' = w \<and> (\<forall>c. r = Inr c \<longrightarrow> c = sb_proposed_calendar w)"
  using assms by (cases "sandbox_authorize token w"; cases "sb_proposed_calendar w")
    (auto simp: sandbox_find_calendar_def sandbox_good_def sandbox_calendar_def)

lemma sandbox_create_law:
  assumes "sandbox_good w" and "sandbox_create_calendar token LIFEOS_PROPOSED_CALENDAR w = (r, w')"
  shows "sandbox_good w' \<and> sandbox_elsewhere w' = sandbox_elsewhere w \<and> sandbox_event_at w' = sandbox_event_at w
    \<and> (\<forall>c. r = Inr c \<longrightarrow> sb_proposed_calendar w' = Some c)"
proof (cases "sandbox_authorize token w")
  case (Inl e)
  with assms show ?thesis by (auto simp: sandbox_create_calendar_def)
next
  case (Inr u)
  show ?thesis
  proof (cases "sb_proposed_calendar w")
    case (Some c)
    with assms Inr show ?thesis by (auto simp: sandbox_create_calendar_def)
  next
    case None
    with assms(1) have "sandbox_dict w = []" by (simp add: sandbox_good_def sandbox_dict_def)
    with assms Inr None show ?thesis
      by (auto simp: sandbox_create_calendar_def Let_def sandbox_good_def sandbox_dict_def sandbox_elsewhere_def sandbox_event_at_def
          sandbox_calendar_def)
  qed
qed

lemma sandbox_sync_law:
  assumes good: "sandbox_good w" and cal: "sb_proposed_calendar w = Some c"
    and run: "sandbox_sync_events token (rc_calendar_id c) None w = (r, w')"
  shows "w' = w \<and> (\<forall>p. r = Inr p \<longrightarrow> sp_full_sync p \<and> distinct (map rv_event_id (sp_events p)) \<and> (\<forall>e \<in> set (sp_events p). \<not> rv_deleted e)
        \<and> (\<forall>i. dict_get rv_event_id (sp_events p) i = sandbox_event_at w i))"
proof -
  from good cal obtain d where c: "c = sandbox_calendar" and d: "sb_events w ''lifeos-proposed-sandbox'' = Some d" "sandbox_dict w = d" "dict_good d"
    by (rule sandbox_goodD)
  have "proposed_events w = Inr (sort_key rv_event_id d)"
    using cal c d by (simp add: proposed_events_def proposed_calendar_id_def sandbox_calendar_def)
  with run show ?thesis using d
    by (cases "sandbox_authorize token w"; cases "require_proposed (rc_calendar_id c) w")
      (auto simp: sandbox_sync_events_def dict_good_def sandbox_event_at_def distinct_map_sort_key dict_get_sorted)
qed

lemma record_change_dict:
  assumes "sb_events w ''lifeos-proposed-sandbox'' = Some d" and "rv_calendar_id e = ''lifeos-proposed-sandbox''" and "\<not> rv_deleted e"
  shows "record_change e w = (Inr (), change_dict e w)"
  using assms by (simp add: record_change_def calendar_events_def change_dict_def merge_event_def sandbox_dict_def)

text \<open>The part of the state that is data, without the armed failures and the mutation count.\<close>

definition sandbox_core where
  "sandbox_core w = (sb_proposed_calendar w, sb_events w, sb_changes w, sb_generation w, sb_minimum_sync_token w)"

lemma sandbox_core_cong:
  assumes "sandbox_core v = sandbox_core w"
  shows "sandbox_good v = sandbox_good w" and "sandbox_elsewhere v = sandbox_elsewhere w" and "sandbox_event_at v = sandbox_event_at w"
    and "sb_proposed_calendar v = sb_proposed_calendar w"
proof -
  have "sandbox_dict v = sandbox_dict w" using assms by (simp add: sandbox_core_def sandbox_dict_def)
  with assms show "sandbox_good v = sandbox_good w" "sandbox_elsewhere v = sandbox_elsewhere w" "sandbox_event_at v = sandbox_event_at w"
    "sb_proposed_calendar v = sb_proposed_calendar w"
    by (simp_all add: sandbox_core_def sandbox_good_def sandbox_elsewhere_def sandbox_event_at_def cong: option.case_cong)
qed

lemma event_at_change:
  "\<not> rv_deleted e \<Longrightarrow> sandbox_event_at (change_dict e w) = (sandbox_event_at w)(rv_event_id e \<mapsto> e)"
  by (auto simp: fun_eq_iff sandbox_event_at_def dict_get_merge)

lemma sandbox_write_commit:
  assumes "sandbox_authorize token w = Inr ()" "require_proposed k w = Inr ()" "\<not> 0 < sb_write_failures w" "sb_events w k = Some d"
    and "(case dict_get rv_event_id d (rv_event_id e) of None \<Rightarrow> Inr ''1'' | Some existing \<Rightarrow> next_revision existing) = Inr revision"
    and "record_change (e\<lparr>rv_revision := revision\<rparr>) w = (Inr (), v)"
  shows "sandbox_write_event token \<lparr>cw_calendar_id = k, cw_event = e\<rparr> w =
    (if sb_interrupt_after_write v
     then (Inl (CalendarInterruptedError ''sandbox response interrupted after commit''), v\<lparr>sb_interrupt_after_write := False\<rparr>)
     else if sb_misreport_write v then (Inr (e\<lparr>rv_revision := revision, rv_calendar_id := ''primary''\<rparr>), v\<lparr>sb_misreport_write := False\<rparr>)
     else (Inr (e\<lparr>rv_revision := revision\<rparr>), v))"
proof -
  have "calendar_events k w = Inr d" using assms(4) by (simp add: calendar_events_def)
  note rules = assms(1-3,5,6) this
  show ?thesis unfolding sandbox_write_event_def calendar_write.simps Let_def
    by (simp only: abind_simps(2) action_simps rules if_False) simp
qed

text \<open>A write that is not refused and not failed on purpose commits the event under the next revision.\<close>

lemma sandbox_write_cases:
  assumes good: "sandbox_good w" and cal: "sb_proposed_calendar w = Some c" and home: "rv_calendar_id e = rc_calendar_id c" and live: "\<not> rv_deleted e"
    and run: "sandbox_write_event token \<lparr>cw_calendar_id = rc_calendar_id c, cw_event = e\<rparr> w = (r, w')"
  obtains (refused) x where "r = Inl x" and "w' = w" and "\<And>m. x \<noteq> CalendarTransientError m"
  | (transient) m where "r = Inl (CalendarTransientError m)" and "sandbox_core w' = sandbox_core w"
  | (committed) n where "sandbox_core w' = sandbox_core (change_dict (e\<lparr>rv_revision := dec n\<rparr>) w)"
      and "\<And>m. r \<noteq> Inl (CalendarTransientError m)"
proof -
  from good cal obtain d where c: "c = sandbox_calendar" and d: "sb_events w ''lifeos-proposed-sandbox'' = Some d" "sandbox_dict w = d" "dict_good d"
    by (rule sandbox_goodD)
  have id: "rc_calendar_id c = ''lifeos-proposed-sandbox''" using c by (simp add: sandbox_calendar_def)
  show thesis
  proof (cases "sandbox_authorize token w = Inr () \<and> require_proposed (rc_calendar_id c) w = Inr ()")
    case False
    then show thesis using run
      by (cases "sandbox_authorize token w"; cases "require_proposed (rc_calendar_id c) w")
        (auto simp: sandbox_write_event_def sandbox_authorize_def require_proposed_def require_def intro!: refused split: if_splits)
  next
    case ok: True
    show thesis
    proof (cases "0 < sb_write_failures w")
      case True
      with run ok show thesis by (intro transient) (auto simp: sandbox_write_event_def sandbox_core_def)
    next
      case no_fail: False
      obtain n where n: "(case dict_get rv_event_id d (rv_event_id e) of None \<Rightarrow> Inr ''1'' | Some existing \<Rightarrow> next_revision existing) = Inr (dec n)"
      proof (cases "dict_get rv_event_id d (rv_event_id e)")
        case None
        with dec_one that show thesis by simp
      next
        case (Some x)
        with d(3) dict_get_Some [OF Some] obtain k where "rv_revision x = dec k" by (auto simp: dict_good_def)
        with Some next_revision_dec that show thesis by simp
      qed
      let ?e = "e\<lparr>rv_revision := dec n\<rparr>"
      have rc: "record_change ?e w = (Inr (), change_dict ?e w)" using record_change_dict [OF d(1), of ?e] home id live by simp
      have "sandbox_authorize token w = Inr ()" "require_proposed ''lifeos-proposed-sandbox'' w = Inr ()" using ok id by simp_all
      from sandbox_write_commit [OF this no_fail d(1) n rc] run id show thesis
        by (intro committed [of n]) (auto simp: sandbox_core_def split: if_splits)
    qed
  qed
qed

lemma sandbox_write_law:
  assumes "sandbox_good w" and "sb_proposed_calendar w = Some c" and "rv_calendar_id e = rc_calendar_id c" and "\<not> rv_deleted e"
    and "sandbox_write_event token \<lparr>cw_calendar_id = rc_calendar_id c, cw_event = e\<rparr> w = (r, w')"
  shows "sandbox_good w' \<and> sandbox_elsewhere w' = sandbox_elsewhere w \<and> sb_proposed_calendar w' = Some c
    \<and> (committed_write (sandbox_event_at w) e (sandbox_event_at w') \<or> (\<exists>x. r = Inl x) \<and> sandbox_event_at w' = sandbox_event_at w)
    \<and> (\<forall>m. r = Inl (CalendarTransientError m) \<longrightarrow> sandbox_event_at w' = sandbox_event_at w)"
  using assms
proof (cases rule: sandbox_write_cases)
  case (committed n)
  let ?e = "e\<lparr>rv_revision := dec n\<rparr>"
  have "sandbox_good (change_dict ?e w)"
    using change_dict_good [OF assms(1,2), of ?e] assms(3) sandbox_calendar_id [OF assms(1,2)] by auto
  moreover have "sandbox_event_at (change_dict ?e w) = (sandbox_event_at w)(rv_event_id e \<mapsto> ?e)"
    using event_at_change [of ?e w] assms(4) by simp
  ultimately show ?thesis using committed(2) sandbox_core_cong [OF committed(1)] assms(2) by (auto simp: committed_write_def)
next
  case (transient m)
  with assms(1,2) sandbox_core_cong [OF transient(2)] show ?thesis by simp
qed (use assms in auto)

lemma sandbox_delete_cases:
  assumes good: "sandbox_good w" and cal: "sb_proposed_calendar w = Some c"
    and run: "sandbox_delete_event token \<lparr>cx_calendar_id = rc_calendar_id c, cx_event_id = i\<rparr> w = (r, w')"
  obtains (refused) x where "r = Inl x" and "w' = w"
  | (absent) "sandbox_event_at w i = None" and "w' = w"
  | (deleted) t where "w' = change_dict t w" and "rv_deleted t" and "rv_event_id t = i"
proof -
  from good cal obtain d where c: "c = sandbox_calendar" and d: "sb_events w ''lifeos-proposed-sandbox'' = Some d" "sandbox_dict w = d" "dict_good d"
    by (rule sandbox_goodD)
  have id: "rc_calendar_id c = ''lifeos-proposed-sandbox''" using c by (simp add: sandbox_calendar_def)
  show thesis
  proof (cases "sandbox_authorize token w = Inr () \<and> require_proposed (rc_calendar_id c) w = Inr ()")
    case False
    then show thesis using run
      by (cases "sandbox_authorize token w"; cases "require_proposed (rc_calendar_id c) w") 
        (auto simp: sandbox_delete_event_def sandbox_authorize_def require_proposed_def require_def intro!: refused split: if_splits)
  next
    case ok: True
    show thesis
    proof (cases "dict_get rv_event_id d i")
      case None
      with run ok d id show thesis by (intro absent) (auto simp: sandbox_delete_event_def calendar_events_def sandbox_event_at_def)
    next
      case (Some e)
      then have e: "e \<in> set d" "rv_event_id e = i" using dict_get_Some [OF Some] by auto
      obtain k where k: "rv_revision e = dec k" using d(3) e(1) by (auto simp: dict_good_def)
      have "w' = change_dict (e\<lparr>rv_deleted := True, rv_revision := dec (Suc k)\<rparr>) w"
        using run ok Some d id next_revision_dec [OF k] e(2)
        by (simp add: sandbox_delete_event_def calendar_events_def change_dict_def merge_event_def)
      with e(2) show thesis by (intro deleted [of "e\<lparr>rv_deleted := True, rv_revision := dec (Suc k)\<rparr>"]) simp_all
    qed
  qed
qed

lemma sandbox_delete_law:
  assumes good: "sandbox_good w" and cal: "sb_proposed_calendar w = Some c"
    and run: "sandbox_delete_event token \<lparr>cx_calendar_id = rc_calendar_id c, cx_event_id = i\<rparr> w = (r, w')"
  shows "sandbox_good w' \<and> sandbox_elsewhere w' = sandbox_elsewhere w \<and> sb_proposed_calendar w' = Some c
    \<and> (sandbox_event_at w' = (sandbox_event_at w)(i := None) \<or> (\<exists>x. r = Inl x) \<and> sandbox_event_at w' = sandbox_event_at w)"
  using assms
proof (cases rule: sandbox_delete_cases)
  case (deleted t)
  then have "sandbox_event_at w' = (sandbox_event_at w)(i := None)" by (auto simp: fun_eq_iff sandbox_event_at_def dict_get_merge)
  with deleted change_dict_good [OF good cal, of t] cal show ?thesis by simp
qed (use good cal in auto)

lemma sandbox_home_law:
  assumes "sandbox_good w" and "sb_proposed_calendar w = Some c" and "sandbox_event_at w i = Some e"
  shows "rv_calendar_id e = rc_calendar_id c \<and> rv_event_id e = i"
  using assms(1,2)
proof (rule sandbox_goodD)
  fix d assume d: "c = sandbox_calendar" "sandbox_dict w = d" "dict_good d"
  with assms(3) dict_get_Some [of rv_event_id d i e] show ?thesis
    by (auto simp: sandbox_event_at_def dict_good_def sandbox_calendar_def)
qed

interpretation sandbox: calendar_provider "sandbox_env secrets authority sha256" sandbox_good sb_proposed_calendar sandbox_event_at sandbox_elsewhere
  for secrets authority sha256
proof unfold_locales
  fix w :: sandbox assume "sandbox_good w" "sb_proposed_calendar w = None"
  then show "sandbox_event_at w = Map.empty" by (auto simp: sandbox_good_def sandbox_event_at_def sandbox_dict_def dict_get_def)
next
  fix g w r w' assume "ce_access_token (sandbox_env secrets authority sha256) g w = (r, w')"
  then show "w' = w" by (simp add: keychain_access_token_def)
next
  fix w token r w' assume "sandbox_good w" "find_calendar (ce_transport (sandbox_env secrets authority sha256)) token LIFEOS_PROPOSED_CALENDAR w = (r, w')"
  then show "w' = w \<and> (\<forall>c. r = Inr c \<longrightarrow> c = sb_proposed_calendar w)" using sandbox_find_law by simp
next
  fix w token r w' assume "sandbox_good w" "create_calendar (ce_transport (sandbox_env secrets authority sha256)) token LIFEOS_PROPOSED_CALENDAR w = (r, w')"
  then show "sandbox_good w' \<and> sandbox_elsewhere w' = sandbox_elsewhere w \<and> sandbox_event_at w' = sandbox_event_at w
      \<and> (\<forall>c. r = Inr c \<longrightarrow> sb_proposed_calendar w' = Some c)"
    unfolding sandbox_env_simps by (rule sandbox_create_law)
next
  fix w c token r w' assume "sandbox_good w" "sb_proposed_calendar w = Some c"
    "sync_events (ce_transport (sandbox_env secrets authority sha256)) token (rc_calendar_id c) None w = (r, w')"
  then show "w' = w \<and> (\<forall>p. r = Inr p \<longrightarrow> sp_full_sync p \<and> distinct (map rv_event_id (sp_events p)) \<and> (\<forall>e \<in> set (sp_events p). \<not> rv_deleted e)
        \<and> (\<forall>i. dict_get rv_event_id (sp_events p) i = sandbox_event_at w i))"
    unfolding sandbox_env_simps by (rule sandbox_sync_law)
next
  fix w c e token r w' assume "sandbox_good w" "sb_proposed_calendar w = Some c" "rv_calendar_id e = rc_calendar_id c" "\<not> rv_deleted e"
    "write_event (ce_transport (sandbox_env secrets authority sha256)) token \<lparr>cw_calendar_id = rc_calendar_id c, cw_event = e\<rparr> w = (r, w')"
  then show "sandbox_good w' \<and> sandbox_elsewhere w' = sandbox_elsewhere w \<and> sb_proposed_calendar w' = Some c
    \<and> (committed_write (sandbox_event_at w) e (sandbox_event_at w') \<or> (\<exists>x. r = Inl x) \<and> sandbox_event_at w' = sandbox_event_at w)
    \<and> (\<forall>m. r = Inl (CalendarTransientError m) \<longrightarrow> sandbox_event_at w' = sandbox_event_at w)"
    unfolding sandbox_env_simps by (rule sandbox_write_law)
next
  fix w c token i r w' assume "sandbox_good w" "sb_proposed_calendar w = Some c"
    "delete_event (ce_transport (sandbox_env secrets authority sha256)) token \<lparr>cx_calendar_id = rc_calendar_id c, cx_event_id = i\<rparr> w = (r, w')"
  then show "sandbox_good w' \<and> sandbox_elsewhere w' = sandbox_elsewhere w \<and> sb_proposed_calendar w' = Some c
    \<and> (sandbox_event_at w' = (sandbox_event_at w)(i := None) \<or> (\<exists>x. r = Inl x) \<and> sandbox_event_at w' = sandbox_event_at w)"
    unfolding sandbox_env_simps by (rule sandbox_delete_law)
next
  fix w c i e assume "sandbox_good w" "sb_proposed_calendar w = Some c" "sandbox_event_at w i = Some e"
  then show "rv_calendar_id e = rc_calendar_id c \<and> rv_event_id e = i" by (rule sandbox_home_law)
qed

end
