(* ===== verification/Calendar_Properties.thy ===== *)
theory Calendar_Properties
  imports Calendar_Sandbox_Laws Authority_Properties
begin

text \<open>
  What the calendar adapter promises, on the sandbox provider: the facts of the locale \<open>calendar_provider\<close>, and the equality of
  incremental and full synchronization.
\<close>

section \<open>Incremental synchronization\<close>

text \<open>The operations that change a sandbox; writes as the adapter makes them, into the calendar the event names.\<close>

inductive sandbox_step :: "sandbox \<Rightarrow> sandbox \<Rightarrow> bool" where
  step_revoke: "sandbox_step w (revoke_token w)"
| step_fail: "sandbox_step w (fail_next_writes n w)"
| step_interrupt: "sandbox_step w (interrupt_next_write_after_commit w)"
| step_misreport: "sandbox_step w (misreport_next_write w)"
| step_expire_tokens: "sandbox_step w (expire_sync_tokens w)"
| step_external_edit: "external_edit i t w = (r, w') \<Longrightarrow> sandbox_step w w'"
| step_create_calendar: "sandbox_create_calendar token LIFEOS_PROPOSED_CALENDAR w = (r, w') \<Longrightarrow> sandbox_step w w'"
| step_write: "\<not> rv_deleted e \<Longrightarrow> sandbox_write_event token \<lparr>cw_calendar_id = rv_calendar_id e, cw_event = e\<rparr> w = (r, w') \<Longrightarrow> sandbox_step w w'"
| step_delete_event: "sandbox_delete_event token request w = (r, w') \<Longrightarrow> sandbox_step w w'"

definition extends_log :: "sandbox \<Rightarrow> sandbox \<Rightarrow> bool" where
  "extends_log w w' \<longleftrightarrow> sandbox_good w' \<and> (\<exists>cs. sb_changes w' = sb_changes w @ cs)
     \<and> (sb_proposed_calendar w = None \<or> sb_proposed_calendar w' = sb_proposed_calendar w)"

lemma extends_refl: "sandbox_good w \<Longrightarrow> extends_log w w"
  by (auto simp: extends_log_def)

lemma extends_trans: "extends_log w v \<Longrightarrow> extends_log v u \<Longrightarrow> extends_log w u"
  unfolding extends_log_def by auto

lemma extends_core: "sandbox_core w' = sandbox_core v \<Longrightarrow> extends_log w v \<Longrightarrow> extends_log w w'"
  using sandbox_core_cong(1) [of w' v] by (auto simp: extends_log_def sandbox_core_def)

lemma extends_change:
  assumes "sandbox_good w" "sb_proposed_calendar w = Some c"
    and "rv_deleted e \<or> rv_calendar_id e = ''lifeos-proposed-sandbox'' \<and> (\<exists>n. rv_revision e = dec n)"
  shows "extends_log w (change_dict e w)"
  using change_dict_good [OF assms] assms(2) by (simp add: extends_log_def)

lemma require_proposed_foreign:
  "\<not> (\<exists>c. sb_proposed_calendar w = Some c \<and> i = rc_calendar_id c) \<Longrightarrow> require_proposed i w \<noteq> Inr ()"
  by (cases "sb_proposed_calendar w") (auto simp: require_proposed_def require_def proposed_calendar_id_def)

lemma sandbox_step_extends:
  assumes "sandbox_step w w'" and good: "sandbox_good w"
  shows "extends_log w w'"
  using assms(1)
proof cases
  case step_expire_tokens
  then show ?thesis using good
    by (auto simp: extends_log_def expire_sync_tokens_def sandbox_good_def sandbox_dict_def cong: option.case_cong)
next
  case (step_external_edit i t r)
  show ?thesis
  proof (cases "sb_proposed_calendar w")
    case None
    with step_external_edit extends_refl [OF good] show ?thesis by (simp add: external_edit_def proposed_calendar_id_def)
  next
    case (Some c)
    with good obtain d where c: "c = sandbox_calendar" and d: "sb_events w ''lifeos-proposed-sandbox'' = Some d" "sandbox_dict w = d" "dict_good d"
      by (rule sandbox_goodD)
    show ?thesis
    proof (cases "dict_get rv_event_id d i")
      case None
      with step_external_edit Some c d extends_refl [OF good] show ?thesis
        by (simp add: external_edit_def proposed_calendar_id_def sandbox_calendar_def calendar_events_def)
    next
      case (Some e)
      with dict_get_Some [OF Some] d(3) obtain k where e: "rv_calendar_id e = ''lifeos-proposed-sandbox''" "\<not> rv_deleted e" "rv_revision e = dec k"
        by (auto simp: dict_good_def)
      let ?e = "e\<lparr>rv_summary := t, rv_revision := dec (Suc k)\<rparr>"
      have "w' = change_dict ?e w"
        using step_external_edit Some \<open>sb_proposed_calendar w = Some c\<close> c d next_revision_dec [OF e(3)] record_change_dict [OF d(1), of ?e] e
        by (simp add: external_edit_def proposed_calendar_id_def sandbox_calendar_def calendar_events_def)
      with extends_change [OF good \<open>sb_proposed_calendar w = Some c\<close>, of ?e] e show ?thesis by auto
    qed
  qed
next
  case (step_create_calendar token r)
  from sandbox_create_law [OF good step_create_calendar] have "sandbox_good w'" by blast
  moreover have "sb_changes w' = sb_changes w \<and> (sb_proposed_calendar w = None \<or> w' = w)"
    using step_create_calendar by (cases "sandbox_authorize token w"; cases "sb_proposed_calendar w")
      (auto simp: sandbox_create_calendar_def Let_def)
  ultimately show ?thesis by (auto simp: extends_log_def)
next
  case (step_write e token r)
  show ?thesis
  proof (cases "\<exists>c. sb_proposed_calendar w = Some c \<and> rv_calendar_id e = rc_calendar_id c")
    case False
    then have "require_proposed (rv_calendar_id e) w \<noteq> Inr ()" by (rule require_proposed_foreign)
    with step_write extends_refl [OF good] show ?thesis
      by (cases "sandbox_authorize token w"; cases "require_proposed (rv_calendar_id e) w") (auto simp: sandbox_write_event_def)
  next
    case True
    then obtain c where c: "sb_proposed_calendar w = Some c" "rv_calendar_id e = rc_calendar_id c" by blast
    from good c step_write(1) step_write(2) [unfolded c(2)] show ?thesis
    proof (cases rule: sandbox_write_cases)
      case (committed n)
      have "extends_log w (change_dict (e\<lparr>rv_revision := dec n\<rparr>) w)"
        using extends_change [OF good c(1), of "e\<lparr>rv_revision := dec n\<rparr>"] c(2) sandbox_calendar_id [OF good c(1)] by auto
      with committed(1) show ?thesis by (rule extends_core)
    qed (use extends_refl [OF good] extends_core in auto)
  qed
next
  case (step_delete_event token request r)
  show ?thesis
  proof (cases "\<exists>c. sb_proposed_calendar w = Some c \<and> cx_calendar_id request = rc_calendar_id c")
    case False
    then have "require_proposed (cx_calendar_id request) w \<noteq> Inr ()" by (rule require_proposed_foreign)
    with step_delete_event extends_refl [OF good] show ?thesis
      by (cases "sandbox_authorize token w"; cases "require_proposed (cx_calendar_id request) w") (auto simp: sandbox_delete_event_def)
  next
    case True
    then obtain c where c: "sb_proposed_calendar w = Some c" "cx_calendar_id request = rc_calendar_id c" by blast
    then have "request = \<lparr>cx_calendar_id = rc_calendar_id c, cx_event_id = cx_event_id request\<rparr>" by simp
    with step_delete_event have "sandbox_delete_event token \<lparr>cx_calendar_id = rc_calendar_id c, cx_event_id = cx_event_id request\<rparr> w = (r, w')" by metis
    with good c(1) show ?thesis
      by (cases rule: sandbox_delete_cases) (use extends_refl [OF good] extends_change [OF good c(1)] in auto)
  qed
qed (auto intro!: extends_core [OF _ extends_refl [OF good]] simp: sandbox_core_def revoke_token_def fail_next_writes_def
       interrupt_next_write_after_commit_def misreport_next_write_def)

lemma sandbox_steps_extend: "sandbox_step\<^sup>*\<^sup>* w w' \<Longrightarrow> sandbox_good w \<Longrightarrow> extends_log w w'"
proof (induction rule: rtranclp_induct)
  case base
  then show ?case by (rule extends_refl)
next
  case (step v u)
  then have "extends_log w v" by simp
  moreover from this have "sandbox_good v" by (simp add: extends_log_def)
  ultimately show ?case using extends_trans sandbox_step_extends [OF step.hyps(2)] by blast
qed

lemma fold_merge_cong:
  "(\<And>i. dict_get rv_event_id a i = dict_get rv_event_id b i) \<Longrightarrow>
   dict_get rv_event_id (foldl merge_event a es) i = dict_get rv_event_id (foldl merge_event b es) i"
  by (induction es arbitrary: a b) (simp_all add: dict_get_merge)

lemma later_changes:
  assumes "sandbox_good w" and "sandbox_good w'" and cs: "sb_changes w' = sb_changes w @ cs"
  shows "filter (\<lambda>(v, e). int (sb_generation w) < int v) (sb_changes w') = cs"
proof -
  from assms have f: "map fst (sb_changes w) = [1..<Suc (sb_generation w)]"
    and "map fst (sb_changes w) @ map fst cs = [1..<Suc (sb_generation w')]" by (auto simp: sandbox_good_def)
  then have "map fst cs = drop (sb_generation w) [1..<Suc (sb_generation w')]" by (metis append_eq_conv_conj diff_Suc_1 length_upt)
  then have "map fst cs = [Suc (sb_generation w)..<Suc (sb_generation w')]" by (simp del: upt_Suc)
  then have later: "fst ` set cs = {Suc (sb_generation w)..<Suc (sb_generation w')}" by (metis set_map set_upt)
  have earlier: "fst ` set (sb_changes w) = {1..<Suc (sb_generation w)}" using f by (metis set_map set_upt)
  have "fst x \<le> sb_generation w" if "x \<in> set (sb_changes w)" for x using imageI [OF that, of fst] unfolding earlier by simp
  moreover have "sb_generation w < fst x" if "x \<in> set cs" for x using imageI [OF that, of fst] unfolding later by simp
  ultimately have "filter (\<lambda>x. int (sb_generation w) < int (fst x)) (sb_changes w) = []" "filter (\<lambda>x. int (sb_generation w) < int (fst x)) cs = cs"
    by (simp_all add: filter_empty_conv filter_id_conv not_less)
  then show ?thesis unfolding cs by (simp add: case_prod_unfold)
qed

lemma merge_later:
  assumes w: "sandbox_good w" and w': "sandbox_good w'" and cs: "sb_changes w' = sb_changes w @ cs"
  shows "sort_key rv_event_id (foldl merge_event (sort_key rv_event_id (sandbox_dict w)) (map snd cs))
       = sort_key rv_event_id (sandbox_dict w')"
proof (rule sorted_dict_eq)
  have d: "distinct (map rv_event_id (sandbox_dict w))" using w by (simp add: sandbox_good_def dict_good_def)
  then show "distinct (map rv_event_id (foldl merge_event (sort_key rv_event_id (sandbox_dict w)) (map snd cs)))"
    by (intro fold_merge_distinct) (simp add: distinct_map_sort_key)
  show "distinct (map rv_event_id (sandbox_dict w'))" using w' by (simp add: sandbox_good_def dict_good_def)
  fix i
  have "dict_get rv_event_id (foldl merge_event (sort_key rv_event_id (sandbox_dict w)) (map snd cs)) i
      = dict_get rv_event_id (foldl merge_event (change_view (sb_changes w)) (map snd cs)) i"
    using w d by (intro fold_merge_cong) (simp add: dict_get_sorted sandbox_good_def)
  also have "foldl merge_event (change_view (sb_changes w)) (map snd cs) = change_view (sb_changes w')"
    by (simp add: change_view_def cs)
  also have "dict_get rv_event_id (change_view (sb_changes w')) i = dict_get rv_event_id (sandbox_dict w') i" using w' by (simp add: sandbox_good_def)
  finally show "dict_get rv_event_id (foldl merge_event (sort_key rv_event_id (sandbox_dict w)) (map snd cs)) i
      = dict_get rv_event_id (sandbox_dict w') i" .
qed

definition full_state :: "sandbox \<Rightarrow> calendar_sync_state" where
  "full_state w = \<lparr>sy_calendar_id = Some ''lifeos-proposed-sandbox'', sy_next_sync_token = Some (dec (sb_generation w)),
     sy_events = sort_key rv_event_id (sandbox_dict w)\<rparr>"

lemma proposed_events_good:
  assumes "sandbox_good w" and "sb_proposed_calendar w = Some c"
  shows "proposed_events w = Inr (sort_key rv_event_id (sandbox_dict w))"
  using assms by (rule sandbox_goodD) (use assms(2) in \<open>simp add: proposed_events_def proposed_calendar_id_def sandbox_calendar_def\<close>)

lemma sort_key_sort_key: "sort_key f (sort_key f xs) = sort_key f xs"
  by (simp add: sort_key_id_if_sorted)

lemma merged_full:
  assumes "sandbox_good w" and "sp_full_sync p" and "sp_events p = sort_key rv_event_id (sandbox_dict w)"
  shows "merged_events previous p = sort_key rv_event_id (sandbox_dict w)"
proof -
  have "distinct (map rv_event_id (sp_events p))" "\<forall>e \<in> set (sp_events p). \<not> rv_deleted e"
    using assms by (auto simp: sandbox_good_def dict_good_def distinct_map_sort_key)
  from sandbox.full_page [OF assms(2) this] show ?thesis by (simp add: assms(3) sort_key_sort_key)
qed

text \<open>What a synchronization returns, from nothing or from an earlier state.\<close>

lemma sync_sandbox:
  assumes good: "sandbox_good w" and cal: "sb_proposed_calendar w = Some c"
    and tok: "secrets (og_secret_reference (cc_oauth_grant cfg)) = Some token" "sandbox_authorize token w = Inr ()"
    and previous: "previous = None \<or> (\<exists>v. previous = Some (full_state v) \<and> extends_log v w \<and> sandbox_good v)
       \<or> (\<exists>p. previous = Some p \<and> sy_next_sync_token p = None)"
  shows "sync (sandbox_env secrets authority sha256) cfg previous w = (Inr (full_state w), w)"
proof -
  let ?full = "\<lparr>sp_events = sort_key rv_event_id (sandbox_dict w), sp_next_sync_token = dec (sb_generation w), sp_full_sync = True\<rparr>"
  let ?id = "''lifeos-proposed-sandbox''"
  have c: "c = sandbox_calendar" using good cal by (auto simp: sandbox_good_def)
  have id: "rc_calendar_id c = ?id" "validate_calendar c = Inr ()"
    by (simp_all add: c sandbox_calendar_def validate_calendar_def require_def)
  have home: "require_proposed ?id w = Inr ()" using cal id by (simp add: require_proposed_def proposed_calendar_id_def require_def)
  have find: "sandbox_find_calendar token LIFEOS_PROPOSED_CALENDAR w = (Inr (Some c), w)"
    using tok(2) cal by (simp add: sandbox_find_calendar_def c sandbox_calendar_def)
  have full: "sandbox_sync_events token ?id None w = (Inr ?full, w)"
    using tok(2) home proposed_events_good [OF good cal] by (simp add: sandbox_sync_events_def)
  have result: "sync (sandbox_env secrets authority sha256) cfg previous w = (Inr (full_state w), w)"
    if "sync_page (sandbox_env secrets authority sha256) token ?id (case previous of None \<Rightarrow> None | Some p \<Rightarrow> sy_next_sync_token p) w = (Inr p, w)"
      "sp_next_sync_token p = dec (sb_generation w)" "merged_events previous p = sort_key rv_event_id (sandbox_dict w)" for p
    using that tok(1) find id by (simp add: sync_def calendar_token_def keychain_access_token_def full_state_def)
  have fresh: ?thesis if "(case previous of None \<Rightarrow> None | Some p \<Rightarrow> sy_next_sync_token p) = None"
    by (rule result [of ?full]) (use that full merged_full [OF good] in \<open>simp_all add: sync_page_def\<close>)
  from previous consider "(case previous of None \<Rightarrow> None | Some p \<Rightarrow> sy_next_sync_token p) = None"
    | v where "previous = Some (full_state v)" "extends_log v w" "sandbox_good v" by auto
  then show ?thesis
  proof cases
    case 1
    then show ?thesis by (rule fresh)
  next
    case (2 v)
    from 2(2) obtain cs where cs: "sb_changes w = sb_changes v @ cs" by (auto simp: extends_log_def)
    have "length (sb_changes v) \<le> length (sb_changes w)" by (simp add: cs)
    then have "sb_generation v \<le> sb_generation w"
      using good 2(3) by (metis sandbox_good_def diff_Suc_1 length_map length_upt)
    show ?thesis
    proof (cases "sb_generation v < sb_minimum_sync_token w")
      case True
      with tok(2) home have "sandbox_sync_events token ?id (Some (dec (sb_generation v))) w = (Inl (StaleSyncTokenError ''sync token is stale''), w)"
        by (simp add: sandbox_sync_events_def require_def)
      with full 2(1) show ?thesis
        by (intro result [of ?full]) (simp_all add: sync_page_def full_state_def merged_full [OF good])
    next
      case False
      let ?p = "\<lparr>sp_events = map snd cs, sp_next_sync_token = dec (sb_generation w), sp_full_sync = False\<rparr>"
      have "sandbox_sync_events token ?id (Some (dec (sb_generation v))) w = (Inr ?p, w)"
        using False tok(2) home later_changes [OF 2(3) good cs] \<open>sb_generation v \<le> sb_generation w\<close>
        by (simp add: sandbox_sync_events_def require_def)
      moreover have "dict_by rv_event_id (sort_key rv_event_id (sandbox_dict v)) = sort_key rv_event_id (sandbox_dict v)"
        using 2(3) by (intro dict_by_distinct) (simp add: sandbox_good_def dict_good_def distinct_map_sort_key)
      ultimately show ?thesis using 2(1) merge_later [OF 2(3) good cs]
        by (intro result [of ?p]) (simp_all add: sync_page_def full_state_def merged_events_def)
    qed
  qed
qed

section \<open>Properties\<close>

lemma sandbox_good_new: "sandbox_good (new_sandbox token i)"
  by (simp add: sandbox_good_def new_sandbox_def sandbox_dict_def dict_good_def change_view_def)

lemma sandbox_good_reached: "sandbox_step\<^sup>*\<^sup>* (new_sandbox token i) w \<Longrightarrow> sandbox_good w"
  using sandbox_steps_extend sandbox_good_new extends_log_def by blast

text \<open>
  C24: Incremental synchronization is the same as a full one.  In a sandbox that any sequence of provider operations and test
  controls has reached, let a full synchronization return a state, and let any further operations happen.  Synchronizing from that
  state, from its changes or, when the token has expired, by the fallback, gives exactly what a full synchronization gives.
\<close>
theorem incremental_sync_equals_full:
  assumes "sandbox_step\<^sup>*\<^sup>* (new_sandbox t i) w" and "sandbox_step\<^sup>*\<^sup>* w w'"
    and "sync (sandbox_env secrets authority sha256) cfg None w = (Inr s, w)"
  shows "sync (sandbox_env secrets authority sha256) cfg (Some s) w' = sync (sandbox_env secrets authority sha256) cfg None w'"
proof -
  let ?env = "sandbox_env secrets authority sha256"
  have good: "sandbox_good w" using assms(1) by (rule sandbox_good_reached)
  have ext: "extends_log w w'" using assms(2) good by (rule sandbox_steps_extend)
  then have good': "sandbox_good w'" by (simp add: extends_log_def)
  from assms(3) obtain token where tok: "secrets (og_secret_reference (cc_oauth_grant cfg)) = Some token"
    by (cases "secrets (og_secret_reference (cc_oauth_grant cfg))") (auto simp: sync_def calendar_token_def keychain_access_token_def)
  have auth: "sandbox_authorize token w = Inr ()"
    using assms(3) tok by (cases "sandbox_authorize token w") (auto simp: sync_def calendar_token_def keychain_access_token_def sandbox_find_calendar_def)
  have s: "s = full_state w \<or> sy_next_sync_token s = None"
  proof (cases "sb_proposed_calendar w")
    case None
    with assms(3) tok auth show ?thesis by (auto simp: sync_def calendar_token_def keychain_access_token_def sandbox_find_calendar_def)
  next
    case (Some c)
    with sync_sandbox [where secrets = secrets and cfg = cfg and previous = None, OF good Some tok auth] assms(3) show ?thesis by simp
  qed
  show ?thesis
  proof (cases "sandbox_authorize token w' = Inr () \<and> sb_proposed_calendar w' \<noteq> None")
    case False
    then show ?thesis using tok by (cases "sandbox_authorize token w'")
      (auto simp: sync_def calendar_token_def keychain_access_token_def sandbox_find_calendar_def)
  next
    case True
    then obtain c where c: "sb_proposed_calendar w' = Some c" by blast
    have "sync ?env cfg previous w' = (Inr (full_state w'), w')" if "previous = None \<or> previous = Some s" for previous
      using sync_sandbox [where secrets = secrets and cfg = cfg and previous = previous, OF good' c tok] True s that ext good by blast
    then show ?thesis by simp
  qed
qed

text \<open>
  C25: Applying a calendar plan touches nothing else.  Whatever happens to its writes, in a reached sandbox: no other calendar
  changes, the primary one included, and an event of the proposed calendar changes only when the plan is approved, the event has
  the identity of one of its drafts, it was absent or this owner wrote it for another payload, and it now is what the draft says.
\<close>
theorem apply_changes_only_plan_events:
  assumes "sandbox_step\<^sup>*\<^sup>* (new_sandbox t i) w" and "calendar_apply (sandbox_env secrets authority sha256) cfg plan w = (r, w')"
  shows "(\<forall>k. k = ''lifeos-proposed-sandbox'' \<or> sb_events w' k = sb_events w k)
    \<and> (\<forall>i. sandbox_event_at w' i = sandbox_event_at w i
        \<or> proposal_state_of (pl_authorization plan) = APPROVED
          \<and> (\<exists>d \<in> set (pl_events plan). \<exists>j rev. i = event_identity sha256 (cc_owner_id cfg) (ed_event_key d)
               \<and> (sandbox_event_at w i = None \<or> (\<exists>f own. sandbox_event_at w i = Some f \<and> rv_ownership f = Some own
                    \<and> ow_owner_id own = cc_owner_id cfg \<and> ow_payload_hash own \<noteq> payload_hash authority (pl_authorization plan)))
               \<and> sandbox_event_at w' i = Some ((remote (sandbox_env secrets authority sha256) cfg plan d j)\<lparr>rv_revision := rev\<rparr>)))"
proof -
  note c = sandbox.apply_confined [OF sandbox_good_reached [OF assms(1)] assms(2)]
  have elsewhere: "sb_events w' k = sb_events w k" if "k \<noteq> ''lifeos-proposed-sandbox''" for k
    using c that by (auto simp: sandbox_elsewhere_def dest: fun_cong [where x = k])
  have overwrite: "sandbox.may_overwrite secrets authority sha256 cfg plan found \<longleftrightarrow> found = None
      \<or> (\<exists>f own. found = Some f \<and> rv_ownership f = Some own
      \<and> ow_owner_id own = cc_owner_id cfg \<and> ow_payload_hash own \<noteq> payload_hash authority (pl_authorization plan))" for found
    by (cases found) (auto simp: sandbox.may_overwrite_def)
  from c show ?thesis unfolding overwrite sandbox.written_def sandbox.identity_of_def sandbox_env_simps
    using elsewhere by blast
qed

text \<open>
  Applying twice is applying once.  When an apply of a plan with distinct event keys succeeds, for a digest of fixed length that
  does not collide on these keys, applying the plan again succeeds without an attempt to write, leaves the provider as it is,
  and reports every event as already in place.
\<close>
theorem calendar_apply_idempotent:
  assumes "sandbox_step\<^sup>*\<^sup>* (new_sandbox t i) w" and "calendar_apply (sandbox_env secrets authority sha256) cfg plan w = (Inr res, w')"
    and "\<And>x. length (sha256 x) = n" and "distinct (map ed_event_key (pl_events plan))"
    and "inj_on (\<lambda>k. sha256 (cc_owner_id cfg @ [CHR 0x1F] @ k)) (ed_event_key ` set (pl_events plan))"
  shows "\<exists>ops. calendar_apply (sandbox_env secrets authority sha256) cfg plan w'
      = (Inr \<lparr>ar_operations = ops, ar_sync_state = ar_sync_state res, ar_attempts = 0\<rparr>, w')
    \<and> (\<forall>operation \<in> set ops. df_operation operation = OP_NOOP)"
proof -
  have "distinct (map (sandbox.identity_of secrets authority sha256 cfg) (pl_events plan))"
    using identities_distinct [of sha256 n, OF assms(3-5)] by (simp add: sandbox.identity_of_def [abs_def])
  from sandbox.apply_idempotent [OF sandbox_good_reached [OF assms(1)] assms(2) this] show ?thesis .
qed


section \<open>Witnesses\<close>

definition ex_secrets :: "string \<Rightarrow> string option" where "ex_secrets = (\<lambda>_. Some ''token'')"

definition ex_digest :: "string \<Rightarrow> string" where "ex_digest x = take 32 (x @ replicate 32 (CHR 0x00))"

definition ex_calendar_config :: calendar_config where
  "ex_calendar_config = \<lparr>cc_owner_id = ''owner'',
     cc_oauth_grant = \<lparr>og_secret_reference = ''google'', og_scopes = [GOOGLE_CALENDAR_APP_SCOPE]\<rparr>, cc_max_attempts = 3\<rparr>"

definition ex_draft :: event_draft where
  "ex_draft = \<lparr>ed_event_key = ''focus'', ed_summary = ''Focus'', ed_starts_at = at_second 0, ed_ends_at = at_second 60\<rparr>"

definition ex_calendar_plan :: "proposal_state \<Rightarrow> calendar_plan" where
  "ex_calendar_plan st = \<lparr>pl_authorization = \<lparr>proposal_id = ''p'', action_class = ''calendar.apply'',
     payload = calendar_payload ex_authority_env [ex_draft], proposal_state_of = st, created_at = at_second 0\<rparr>, pl_events = [ex_draft]\<rparr>"

abbreviation ex_calendar_env :: "sandbox calendar_env" where
  "ex_calendar_env \<equiv> sandbox_env ex_secrets ex_authority_env ex_digest"

definition ex_event :: remote_event where
  "ex_event = (remote ex_calendar_env ex_calendar_config (ex_calendar_plan APPROVED) ex_draft ''lifeos-proposed-sandbox'')
     \<lparr>rv_revision := ''1''\<rparr>"

definition ex_opened :: sandbox where
  "ex_opened = snd (sandbox_create_calendar ''token'' LIFEOS_PROPOSED_CALENDAR (new_sandbox ''token'' ''e1''))"

definition ex_applied :: sandbox where
  "ex_applied = change_dict ex_event ex_opened"

lemma ex_opened_simps [simp]:
  "sb_valid_token ex_opened = ''token''" "sb_revoked ex_opened = False" "sb_proposed_calendar ex_opened = Some sandbox_calendar"
  "sb_events ex_opened ''lifeos-proposed-sandbox'' = Some []" "sandbox_dict ex_opened = []" "sb_write_failures ex_opened = 0"
  "sb_interrupt_after_write ex_opened = False" "sb_misreport_write ex_opened = False"
  by (simp_all add: ex_opened_def sandbox_create_calendar_def new_sandbox_def sandbox_authorize_def require_def sandbox_calendar_def sandbox_dict_def Let_def)

lemma ex_opened_create: "sandbox_create_calendar ''token'' LIFEOS_PROPOSED_CALENDAR (new_sandbox ''token'' ''e1'') = (Inr sandbox_calendar, ex_opened)"
  by (simp add: ex_opened_def sandbox_create_calendar_def new_sandbox_def sandbox_authorize_def require_def sandbox_calendar_def Let_def)

lemma ex_opened_reached: "sandbox_step\<^sup>*\<^sup>* (new_sandbox ''token'' ''e1'') ex_opened"
  using step_create_calendar [OF ex_opened_create] by blast

lemma ex_token: "ex_secrets (og_secret_reference (cc_oauth_grant ex_calendar_config)) = Some ''token''"
  by (simp add: ex_secrets_def)

lemma ex_sync:
  assumes "sandbox_good w" "sb_proposed_calendar w = Some c" "sb_valid_token w = ''token''" "\<not> sb_revoked w"
  shows "sync ex_calendar_env ex_calendar_config None w = (Inr (full_state w), w)"
  using sync_sandbox [where secrets = ex_secrets and cfg = ex_calendar_config and previous = None, OF assms(1,2) ex_token] assms(3,4)
  by (simp add: sandbox_authorize_def require_def)

lemma ex_event_simps [simp]: "rv_calendar_id ex_event = ''lifeos-proposed-sandbox''" "rv_revision ex_event = ''1''" "\<not> rv_deleted ex_event"
  by (simp_all add: ex_event_def remote_def)

lemma ex_applied_good: "sandbox_good ex_applied"
proof -
  have "\<exists>n. rv_revision ex_event = dec n" unfolding ex_event_simps using dec_one by blast
  with change_dict_good [OF sandbox_good_reached [OF ex_opened_reached], of sandbox_calendar ex_event] show ?thesis
    by (simp add: ex_applied_def)
qed

lemma ex_write: "sandbox_write_event ''token'' \<lparr>cw_calendar_id = ''lifeos-proposed-sandbox'',
    cw_event = remote ex_calendar_env ex_calendar_config (ex_calendar_plan APPROVED) ex_draft ''lifeos-proposed-sandbox''\<rparr> ex_opened
  = (Inr ex_event, ex_applied)"
proof -
  let ?e = "remote ex_calendar_env ex_calendar_config (ex_calendar_plan APPROVED) ex_draft ''lifeos-proposed-sandbox''"
  have "record_change (?e\<lparr>rv_revision := ''1''\<rparr>) ex_opened = (Inr (), ex_applied)"
    using record_change_dict [of ex_opened "[]" ex_event] unfolding ex_event_def [symmetric] by (simp add: ex_applied_def)
  from sandbox_write_commit [OF _ _ _ ex_opened_simps(4) _ this, of "''token''"] show ?thesis
    by (simp add: sandbox_authorize_def require_proposed_def proposed_calendar_id_def require_def sandbox_calendar_def
        dict_get_def ex_applied_def ex_event_def)
qed

lemma ex_attempts: "cc_max_attempts ex_calendar_config = Suc (Suc (Suc 0))"
  by (simp add: ex_calendar_config_def)

lemma ex_apply:
  "\<exists>res. calendar_apply ex_calendar_env ex_calendar_config (ex_calendar_plan APPROVED) ex_opened = (Inr res, ex_applied)
     \<and> map df_operation (ar_operations res) = [OP_INSERT] \<and> ar_attempts res = 1"
proof -
  have find: "sandbox_find_calendar ''token'' LIFEOS_PROPOSED_CALENDAR ex_opened = (Inr (Some sandbox_calendar), ex_opened)"
    by (simp add: sandbox_find_calendar_def sandbox_authorize_def require_def sandbox_calendar_def)
  have s1: "sync ex_calendar_env ex_calendar_config None ex_opened = (Inr (full_state ex_opened), ex_opened)"
    by (rule ex_sync [OF sandbox_good_reached [OF ex_opened_reached]]) simp_all
  have s2: "sync ex_calendar_env ex_calendar_config None ex_applied = (Inr (full_state ex_applied), ex_applied)"
    by (rule ex_sync [OF ex_applied_good, of sandbox_calendar]) (simp_all add: ex_applied_def)
  have d: "\<exists>x. diff ex_calendar_env ex_calendar_config (ex_calendar_plan APPROVED) (full_state ex_opened) True = Inr [x] \<and> df_operation x = OP_INSERT"
    by (simp add: diff_def diff_entry_def full_state_def Let_def dict_by_def dict_get_def event_operation_def ex_calendar_plan_def)
  then obtain x where x: "diff ex_calendar_env ex_calendar_config (ex_calendar_plan APPROVED) (full_state ex_opened) True = Inr [x]" "df_operation x = OP_INSERT"
    by blast
  have m: "write_matches sandbox_calendar (remote ex_calendar_env ex_calendar_config (ex_calendar_plan APPROVED) ex_draft ''lifeos-proposed-sandbox'') ex_event"
    by (simp add: write_matches_def sandbox_calendar_def ex_event_def same_content_def remote_def)
  have id: "rc_calendar_id sandbox_calendar = ''lifeos-proposed-sandbox''" "validate_calendar sandbox_calendar = Inr ()"
    by (simp_all add: sandbox_calendar_def validate_calendar_def require_def)
  have wb: "calendar_write_bounded ex_calendar_env ex_calendar_config ''token'' sandbox_calendar
      (remote ex_calendar_env ex_calendar_config (ex_calendar_plan APPROVED) ex_draft ''lifeos-proposed-sandbox'') ex_opened = (Inr 1, ex_applied)"
    using ex_write m id by (simp add: calendar_write_bounded_def ex_attempts)
  have "calendar_token ex_calendar_env ex_calendar_config w = (Inr ''token'', w)" for w
    by (simp add: calendar_token_def keychain_access_token_def ex_secrets_def)
  moreover have "pl_events (ex_calendar_plan APPROVED) = [ex_draft]" "proposal_state_of (pl_authorization (ex_calendar_plan APPROVED)) = APPROVED"
    by (simp_all add: ex_calendar_plan_def)
  ultimately show ?thesis using find s1 s2 x id wb
    by (simp add: calendar_apply_def open_calendar_def apply_plan_def apply_operation_def)
qed

lemma ex_applied_reached: "sandbox_step\<^sup>*\<^sup>* ex_opened ex_applied"
  using step_write [of "remote ex_calendar_env ex_calendar_config (ex_calendar_plan APPROVED) ex_draft ''lifeos-proposed-sandbox''" "''token''" ex_opened]
    ex_write by (auto simp: remote_def)

lemma ex_event_at: "sandbox_event_at ex_opened i = None" "sandbox_event_at ex_applied (rv_event_id ex_event) = Some ex_event"
  using event_at_change [of ex_event ex_opened] by (simp_all add: sandbox_event_at_def dict_get_def ex_applied_def)

theorem incremental_sync_equals_full_witness:
  "sync ex_calendar_env ex_calendar_config None ex_opened = (Inr (full_state ex_opened), ex_opened)
   \<and> sync ex_calendar_env ex_calendar_config (Some (full_state ex_opened)) ex_applied = sync ex_calendar_env ex_calendar_config None ex_applied"
proof -
  have s: "sync ex_calendar_env ex_calendar_config None ex_opened = (Inr (full_state ex_opened), ex_opened)"
    by (rule ex_sync [OF sandbox_good_reached [OF ex_opened_reached]]) simp_all
  from incremental_sync_equals_full [OF ex_opened_reached ex_applied_reached s] s show ?thesis by simp
qed

theorem apply_changes_only_plan_events_witness:
  "\<exists>r w'. calendar_apply ex_calendar_env ex_calendar_config (ex_calendar_plan APPROVED) ex_opened = (r, w')
     \<and> sandbox_event_at w' (rv_event_id ex_event) \<noteq> sandbox_event_at ex_opened (rv_event_id ex_event)
     \<and> sb_events w' ''primary'' = sb_events ex_opened ''primary''"
proof -
  obtain res where r: "calendar_apply ex_calendar_env ex_calendar_config (ex_calendar_plan APPROVED) ex_opened = (Inr res, ex_applied)"
    using ex_apply by blast
  from conjunct1 [OF apply_changes_only_plan_events [OF ex_opened_reached r], THEN spec, of "''primary''"]
  have "sb_events ex_applied ''primary'' = sb_events ex_opened ''primary''" by simp
  with r ex_event_at show ?thesis by simp
qed

theorem calendar_apply_idempotent_witness:
  "\<exists>res ops. calendar_apply ex_calendar_env ex_calendar_config (ex_calendar_plan APPROVED) ex_opened = (Inr res, ex_applied)
     \<and> map df_operation (ar_operations res) = [OP_INSERT]
     \<and> calendar_apply ex_calendar_env ex_calendar_config (ex_calendar_plan APPROVED) ex_applied
         = (Inr \<lparr>ar_operations = ops, ar_sync_state = ar_sync_state res, ar_attempts = 0\<rparr>, ex_applied)"
proof -
  obtain res where r: "calendar_apply ex_calendar_env ex_calendar_config (ex_calendar_plan APPROVED) ex_opened = (Inr res, ex_applied)"
    and ops: "map df_operation (ar_operations res) = [OP_INSERT]" using ex_apply by (elim exE conjE)
  have "length (ex_digest x) = 32" for x by (simp add: ex_digest_def)
  moreover have "pl_events (ex_calendar_plan APPROVED) = [ex_draft]" by (simp add: ex_calendar_plan_def)
  ultimately obtain ops' where "calendar_apply ex_calendar_env ex_calendar_config (ex_calendar_plan APPROVED) ex_applied
      = (Inr \<lparr>ar_operations = ops', ar_sync_state = ar_sync_state res, ar_attempts = 0\<rparr>, ex_applied)"
    using calendar_apply_idempotent [OF ex_opened_reached r, of 32] by (auto simp: inj_on_def)
  with r ops show ?thesis by (intro exI conjI)
qed

definition ex_rollback :: rollback where
  "ex_rollback = \<lparr>fact_id = ''f'', fact_proposal_id = ''p'',
     fact_payload_hash = payload_hash ex_authority_env (pl_authorization (ex_calendar_plan APPLIED)),
     issued_at = at_second 0, expires_at = at_second 100, idempotency_key = ''k'', fact_actor = ''user'', fact_correlation_id = ''c'',
     rollback_reason = ''undo''\<rparr>"

definition ex_removed :: sandbox where
  "ex_removed = change_dict (ex_event\<lparr>rv_deleted := True, rv_revision := dec (Suc (Suc 0))\<rparr>) ex_applied"

lemma ex_removed_good: "sandbox_good ex_removed"
  using change_dict_good [OF ex_applied_good, of sandbox_calendar] by (simp add: ex_removed_def ex_applied_def)

lemma ex_delete:
  "sandbox_delete_event ''token'' \<lparr>cx_calendar_id = ''lifeos-proposed-sandbox'', cx_event_id = rv_event_id ex_event\<rparr> ex_applied = (Inr (), ex_removed)"
proof -
  have dict: "sandbox_dict ex_applied = [ex_event]" by (simp add: ex_applied_def merge_event_def keyed_put_fresh)
  have at: "sb_events ex_applied ''lifeos-proposed-sandbox'' = Some [ex_event]"
    by (simp add: ex_applied_def merge_event_def keyed_put_fresh)
  have "next_revision ex_event = Inr (dec (Suc (Suc 0)))" by (rule next_revision_dec) (simp only: ex_event_simps dec_one)
  moreover have "sandbox_authorize ''token'' ex_applied = Inr ()" "require_proposed ''lifeos-proposed-sandbox'' ex_applied = Inr ()"
    by (simp_all add: ex_applied_def sandbox_authorize_def require_proposed_def proposed_calendar_id_def require_def sandbox_calendar_def)
  ultimately show ?thesis using at dict
    by (simp add: sandbox_delete_event_def calendar_events_def dict_get_def ex_removed_def change_dict_def merge_event_def)
qed

lemma ex_rolled_back:
  "\<exists>res. calendar_rollback ex_calendar_env ex_calendar_config (at_second 1) (ex_calendar_plan APPLIED) ex_rollback ex_applied = (Inr res, ex_removed)"
proof -
  let ?plan = "ex_calendar_plan APPLIED"
  have owns: "rollback_owns ex_calendar_env ex_calendar_config ?plan ex_event"
    unfolding rollback_owns_def ex_event_def remote_def by (simp add: ex_calendar_plan_def payload_hash_def)
  have "\<not> dt_le (at_second 100) (at_second 1)" "is_naive (at_second n) = is_naive (at_second m)" for n m
    by (simp_all add: at_second_def second_def is_naive_def utc_datetime_def dt_le_def)
  then have valid: "validate_rollback ex_calendar_env (at_second 1) ?plan ex_rollback = Inr ()"
    by (simp add: validate_rollback_def ex_rollback_def ex_calendar_plan_def payload_hash_def)
  have "sandbox_dict ex_applied = [ex_event]" by (simp add: ex_applied_def merge_event_def keyed_put_fresh)
  then have evs: "sy_events (full_state ex_applied) = [ex_event]" by (simp add: full_state_def)
  have s1: "sync ex_calendar_env ex_calendar_config None ex_applied = (Inr (full_state ex_applied), ex_applied)"
    by (rule ex_sync [OF ex_applied_good, of sandbox_calendar]) (simp_all add: ex_applied_def)
  have s2: "sync ex_calendar_env ex_calendar_config None ex_removed = (Inr (full_state ex_removed), ex_removed)"
    by (rule ex_sync [OF ex_removed_good, of sandbox_calendar]) (simp_all add: ex_removed_def ex_applied_def)
  from owns valid evs s1 s2 ex_delete show ?thesis
    by (simp add: ex_attempts calendar_rollback_def calendar_token_def keychain_access_token_def ex_secrets_def calendar_delete_bounded_def)
qed


section \<open>A write that leaves the proposed calendar\<close>

text \<open>
  The sandbox checks the calendar of the request and stores under the calendar of the event: a request for the proposed calendar
  that carries an event of the primary calendar changes the primary calendar.
\<close>

lemma sandbox_write_reaches_primary:
  fixes e :: remote_event
  defines "e \<equiv> ex_event\<lparr>rv_calendar_id := ''primary''\<rparr>"
  shows "fst (sandbox_write_event ''token'' \<lparr>cw_calendar_id = ''lifeos-proposed-sandbox'', cw_event = e\<rparr> ex_opened) = Inr e"
    and "sb_events (snd (sandbox_write_event ''token'' \<lparr>cw_calendar_id = ''lifeos-proposed-sandbox'', cw_event = e\<rparr> ex_opened)) ''primary''
      \<noteq> sb_events ex_opened ''primary''"
proof -
  obtain d where d: "sb_events ex_opened ''primary'' = Some d" "e \<notin> set d"
  proof -
    have "rv_ownership e \<noteq> None" by (simp add: e_def ex_event_def remote_def)
    moreover obtain d where "sb_events ex_opened ''primary'' = Some d" "\<forall>x \<in> set d. rv_ownership x = None"
      by (simp add: ex_opened_def sandbox_create_calendar_def new_sandbox_def sandbox_authorize_def require_def Let_def)
    ultimately show thesis using that [of d] by metis
  qed
  let ?v = "log_change e (ex_opened\<lparr>sb_events := (sb_events ex_opened)(''primary'' \<mapsto> keyed_put rv_event_id e d)\<rparr>)"
  have rev: "e\<lparr>rv_revision := ''1''\<rparr> = e" by (simp add: e_def ex_event_def)
  have "record_change (e\<lparr>rv_revision := ''1''\<rparr>) ex_opened = (Inr (), ?v)"
    unfolding rev using d(1) by (simp add: record_change_def calendar_events_def e_def)
  from sandbox_write_commit [OF _ _ _ ex_opened_simps(4) _ this, of "''token''"]
  have w: "sandbox_write_event ''token'' \<lparr>cw_calendar_id = ''lifeos-proposed-sandbox'', cw_event = e\<rparr> ex_opened = (Inr e, ?v)"
    by (simp add: rev sandbox_authorize_def require_proposed_def proposed_calendar_id_def require_def sandbox_calendar_def
        dict_get_def log_change_def)
  then show "fst (sandbox_write_event ''token'' \<lparr>cw_calendar_id = ''lifeos-proposed-sandbox'', cw_event = e\<rparr> ex_opened) = Inr e" by simp
  have "e \<in> set (keyed_put rv_event_id e d)" by (induction d) auto
  with d show "sb_events (snd (sandbox_write_event ''token'' \<lparr>cw_calendar_id = ''lifeos-proposed-sandbox'', cw_event = e\<rparr> ex_opened)) ''primary''
      \<noteq> sb_events ex_opened ''primary''" unfolding w by (auto simp: log_change_def)
qed

end
