(* ===== verification/Regex.thy ===== *)
theory Regex
  imports Encodings
begin

text \<open>
  The part of Python's \<open>re\<close> the service uses, on ASCII text: backtracking matching as the list of all matches in the order in which
  the engine tries them.  Repetition without a bound occurs in the sources on character classes only.
\<close>

section \<open>Patterns and matching\<close>

datatype regex =
    Eps
  | One "char \<Rightarrow> bool"
  | Many "char \<Rightarrow> bool"
  | Boundary
  | Seq regex regex
  | Alt regex regex
  | Group nat regex

text \<open>A position in the text: the character before it and the text after it.  Captures are added at the front.\<close>

type_synonym rx_position = "char option \<times> string"
type_synonym rx_captures = "(nat \<times> string) list"
type_synonym rx_state = "rx_position \<times> rx_captures"

definition is_digit :: "char \<Rightarrow> bool" where
  "is_digit c \<longleftrightarrow> (let n = of_char c :: nat in 48 \<le> n \<and> n \<le> 57)"

definition is_word :: "char \<Rightarrow> bool" where
  "is_word c \<longleftrightarrow> (let n = of_char c :: nat in 97 \<le> n \<and> n \<le> 122 \<or> 65 \<le> n \<and> n \<le> 90 \<or> 48 \<le> n \<and> n \<le> 57 \<or> n = 95)"

text \<open>The character classes bit by bit, for evaluation.\<close>

lemma is_digit_bits [code]:
  "is_digit (Char b0 b1 b2 b3 b4 b5 b6 b7) \<longleftrightarrow> \<not> b7 \<and> \<not> b6 \<and> b5 \<and> b4 \<and> (\<not> b3 \<or> \<not> b2 \<and> \<not> b1)"
  by (cases b0; cases b1; cases b2; cases b3; cases b4; cases b5; cases b6; cases b7) (simp_all add: is_digit_def)

lemma is_word_bits [code]:
  "is_word (Char b0 b1 b2 b3 b4 b5 b6 b7) \<longleftrightarrow> \<not> b7 \<and>
     (if b6 then (b0 \<or> b1 \<or> b2 \<or> b3 \<or> b4) \<and> \<not> (b4 \<and> b3 \<and> (b2 \<or> b1 \<and> b0)) \<or> \<not> b5 \<and> b4 \<and> b3 \<and> b2 \<and> b1 \<and> b0
      else b5 \<and> b4 \<and> (\<not> b3 \<or> \<not> b2 \<and> \<not> b1))"
  by (cases b0; cases b1; cases b2; cases b3; cases b4; cases b5; cases b6; cases b7) (simp_all add: is_word_def)

lemma is_space_bits [code]:
  "is_space (Char b0 b1 b2 b3 b4 b5 b6 b7) \<longleftrightarrow> \<not> b7 \<and> \<not> b6 \<and>
     (if b5 then \<not> b4 \<and> \<not> b3 \<and> \<not> b2 \<and> \<not> b1 \<and> \<not> b0 else b3 \<and> (if b4 then b2 else if b2 then \<not> b1 else b1 \<or> b0))"
  by (cases b0; cases b1; cases b2; cases b3; cases b4; cases b5; cases b6; cases b7) (simp_all add: is_space_def)

definition at_boundary :: "rx_position \<Rightarrow> bool" where
  "at_boundary p = ((case fst p of None \<Rightarrow> False | Some c \<Rightarrow> is_word c) \<noteq> (case snd p of [] \<Rightarrow> False | c # _ \<Rightarrow> is_word c))"

fun rx_many :: "(char \<Rightarrow> bool) \<Rightarrow> char option \<Rightarrow> string \<Rightarrow> rx_position list" where
  "rx_many p prev [] = [(prev, [])]"
| "rx_many p prev (c # cs) = (if p c then rx_many p (Some c) cs else []) @ [(prev, c # cs)]"

fun rx_one :: "(char \<Rightarrow> bool) \<Rightarrow> rx_state \<Rightarrow> rx_state list" where
  "rx_one p ((prev, []), g) = []"
| "rx_one p ((prev, c # cs), g) = (if p c then [((Some c, cs), g)] else [])"

primrec rx :: "regex \<Rightarrow> rx_state \<Rightarrow> rx_state list" where
  "rx Eps s = [s]"
| "rx (One p) s = rx_one p s"
| "rx (Many p) s = map (\<lambda>q. (q, snd s)) (rx_many p (fst (fst s)) (snd (fst s)))"
| "rx Boundary s = (if at_boundary (fst s) then [s] else [])"
| "rx (Seq a b) s = concat (map (rx b) (rx a s))"
| "rx (Alt a b) s = rx a s @ rx b s"
| "rx (Group n r) s =
     map (\<lambda>(q, g). (q, (n, take (length (snd (fst s)) - length (snd q)) (snd (fst s))) # g)) (rx r s)"

fun rx_search_at :: "regex \<Rightarrow> char option \<Rightarrow> string \<Rightarrow> rx_state option" where
  "rx_search_at r prev [] = (case rx r ((prev, []), []) of m # _ \<Rightarrow> Some m | [] \<Rightarrow> None)"
| "rx_search_at r prev (c # cs) =
     (case rx r ((prev, c # cs), []) of m # _ \<Rightarrow> Some m | [] \<Rightarrow> rx_search_at r (Some c) cs)"

text \<open>\<open>re.search\<close>\<close>

definition rx_search :: "regex \<Rightarrow> string \<Rightarrow> rx_state option" where
  "rx_search r s = rx_search_at r None s"

text \<open>\<open>re.finditer\<close>: from the end of one match on, or from the next character after an empty one.\<close>

lemma rx_many_suffix: "(q, s') \<in> set (rx_many p prev s) \<Longrightarrow> \<exists>w. s = w @ s' \<and> list_all p w"
proof (induction p prev s rule: rx_many.induct)
  case (2 p prev c cs)
  show ?case
  proof (cases "p c \<and> (q, s') \<in> set (rx_many p (Some c) cs)")
    case True
    with 2 obtain w where "cs = w @ s' \<and> list_all p w" by auto
    with True have "c # cs = (c # w) @ s' \<and> list_all p (c # w)" by simp
    then show ?thesis by blast
  next
    case False
    with "2.prems" have "s' = c # cs" by (auto split: if_splits)
    then show ?thesis by (intro exI [of _ "[]"]) simp
  qed
qed simp

text \<open>The words a pattern matches, and those its groups capture, without regard to boundaries.\<close>

primrec lang :: "regex \<Rightarrow> string \<Rightarrow> bool" where
  "lang Eps w = (w = [])"
| "lang (One p) w = (\<exists>c. w = [c] \<and> p c)"
| "lang (Many p) w = list_all p w"
| "lang Boundary w = (w = [])"
| "lang (Seq a b) w = (\<exists>u v. w = u @ v \<and> lang a u \<and> lang b v)"
| "lang (Alt a b) w = (lang a w \<or> lang b w)"
| "lang (Group n r) w = lang r w"

primrec group_lang :: "regex \<Rightarrow> nat \<Rightarrow> string \<Rightarrow> bool" where
  "group_lang Eps n w = False"
| "group_lang (One p) n w = False"
| "group_lang (Many p) n w = False"
| "group_lang Boundary n w = False"
| "group_lang (Seq a b) n w = (group_lang a n w \<or> group_lang b n w)"
| "group_lang (Alt a b) n w = (group_lang a n w \<or> group_lang b n w)"
| "group_lang (Group m r) n w = (m = n \<and> lang r w \<or> group_lang r n w)"

lemma rx_one_cases: "t \<in> set (rx_one p s) \<longleftrightarrow> (\<exists>prev c cs g. s = ((prev, c # cs), g) \<and> p c \<and> t = ((Some c, cs), g))"
  by (cases "(p, s)" rule: rx_one.cases) auto

lemma rx_sound:
  assumes "(q, g') \<in> set (rx r (p, g))"
  shows "\<exists>w. snd p = w @ snd q \<and> lang r w \<and> (\<forall>(n, u) \<in> set g'. (n, u) \<in> set g \<or> group_lang r n u)"
  using assms
proof (induction r arbitrary: p g q g')
  case (Many x)
  then obtain q' s' where q: "q = (q', s')" "(q', s') \<in> set (rx_many x (fst p) (snd p))" "g' = g" by (cases q) auto
  from rx_many_suffix [OF q(2)] q show ?case by auto
next
  case (Seq a b)
  then obtain q1 g1 where 1: "(q1, g1) \<in> set (rx a (p, g))" and 2: "(q, g') \<in> set (rx b (q1, g1))" by fastforce
  from Seq.IH(1) [OF 1] Seq.IH(2) [OF 2] show ?case by fastforce
next
  case (Alt a b)
  then have "(q, g') \<in> set (rx a (p, g)) \<or> (q, g') \<in> set (rx b (p, g))" by simp
  then show ?case
  proof
    assume "(q, g') \<in> set (rx a (p, g))"
    from Alt.IH(1) [OF this] show ?thesis by fastforce
  next
    assume "(q, g') \<in> set (rx b (p, g))"
    from Alt.IH(2) [OF this] show ?thesis by fastforce
  qed
next
  case (Group n r)
  then obtain g1 where 1: "(q, g1) \<in> set (rx r (p, g))" and g': "g' = (n, take (length (snd p) - length (snd q)) (snd p)) # g1"
    by (auto split: prod.splits)
  from Group.IH [OF 1] obtain w where w: "snd p = w @ snd q" "lang r w" "\<forall>(m, u) \<in> set g1. (m, u) \<in> set g \<or> group_lang r m u" by blast
  then have "take (length (snd p) - length (snd q)) (snd p) = w" by simp
  with g' w show ?case by auto
qed (auto simp: rx_one_cases split: if_splits)

lemma rx_search_at_sound:
  "rx_search_at r prev s = Some (q, g) \<Longrightarrow> (\<exists>u w. s = u @ w @ snd q \<and> lang r w) \<and> (\<forall>(n, v) \<in> set g. group_lang r n v)"
proof (induction r prev s rule: rx_search_at.induct)
  case (1 r prev)
  then have "(q, g) \<in> set (rx r ((prev, []), []))" by (auto split: list.splits)
  from rx_sound [OF this] show ?case by fastforce
next
  case (2 r prev c cs)
  show ?case
  proof (cases "rx r ((prev, c # cs), [])")
    case Nil
    with 2 have "(\<exists>u w. cs = u @ w @ snd q \<and> lang r w) \<and> (\<forall>(n, v) \<in> set g. group_lang r n v)" by simp
    then show ?thesis by (metis Cons_eq_appendI)
  next
    case (Cons m ms)
    with 2 have "(q, g) \<in> set (rx r ((prev, c # cs), []))" by simp
    from rx_sound [OF this] obtain w where "c # cs = [] @ w @ snd q" "lang r w" "\<forall>(n, v) \<in> set g. group_lang r n v" by auto
    then show ?thesis by blast
  qed
qed

lemma rx_search_at_shorter: "rx_search_at r prev s = Some ((b, s'), g) \<Longrightarrow> length s' \<le> length s"
  using rx_search_at_sound [of r prev s "(b, s')" g] by auto

function rx_finditer_at :: "regex \<Rightarrow> char option \<Rightarrow> string \<Rightarrow> rx_state list" where
  "rx_finditer_at r prev s =
     (case rx_search_at r prev s of
        None \<Rightarrow> []
      | Some ((b, s'), g) \<Rightarrow> ((b, s'), g) #
          (if length s' < length s then rx_finditer_at r b s'
           else case s of [] \<Rightarrow> [] | c # cs \<Rightarrow> rx_finditer_at r (Some c) cs))"
  by pat_completeness auto
termination by (relation "measure (\<lambda>(r, prev, s). length s)") auto

declare rx_finditer_at.simps [simp del]

definition rx_finditer :: "regex \<Rightarrow> string \<Rightarrow> rx_state list" where
  "rx_finditer r s = rx_finditer_at r None s"

lemma rx_finditer_at_sound:
  "(q, g) \<in> set (rx_finditer_at r prev s) \<Longrightarrow> \<forall>(n, v) \<in> set g. group_lang r n v"
proof (induction r prev s rule: rx_finditer_at.induct)
  case (1 r prev s)
  show ?case
  proof (cases "rx_search_at r prev s")
    case None
    with "1.prems" show ?thesis by (simp add: rx_finditer_at.simps [of r prev s])
  next
    case (Some m)
    obtain b s' h where m: "m = ((b, s'), h)" by (cases m) auto
    have h: "\<forall>(n, v) \<in> set h. group_lang r n v" using rx_search_at_sound [OF Some [unfolded m]] by simp
    have "rx_finditer_at r prev s = ((b, s'), h) #
        (if length s' < length s then rx_finditer_at r b s' else case s of [] \<Rightarrow> [] | c # cs \<Rightarrow> rx_finditer_at r (Some c) cs)"
      using Some m by (simp add: rx_finditer_at.simps [of r prev s])
    from "1.prems" [unfolded this] consider "g = h" | "length s' < length s" "(q, g) \<in> set (rx_finditer_at r b s')"
      | c cs where "\<not> length s' < length s" "s = c # cs" "(q, g) \<in> set (rx_finditer_at r (Some c) cs)"
      by (auto split: if_splits list.splits)
    then show ?thesis using "1.IH" [OF Some [unfolded m] refl refl] h by cases auto
  qed
qed

section \<open>Building patterns\<close>

definition lit :: "string \<Rightarrow> regex" where
  "lit s = foldr (\<lambda>c r. Seq (One (\<lambda>x. x = c)) r) s Eps"

definition opt :: "regex \<Rightarrow> regex" where "opt r = Alt r Eps"

fun words :: "string list \<Rightarrow> regex" where
  "words [] = Eps"
| "words [w] = lit w"
| "words (w # ws) = Alt (lit w) (words ws)"

definition rcat :: "regex list \<Rightarrow> regex" where "rcat rs = foldr Seq rs Eps"

definition digit :: regex where "digit = One is_digit"

text \<open>\<open>match.group(n)\<close>\<close>

definition rx_group :: "nat \<Rightarrow> rx_state \<Rightarrow> string option" where
  "rx_group n m = map_of (snd m) n"

lemma rx_group_lang: "\<forall>(n, v) \<in> set (snd m). group_lang r n v \<Longrightarrow> rx_group n m = Some w \<Longrightarrow> group_lang r n w"
  unfolding rx_group_def by (auto dest: map_of_SomeD)

lemma rx_search_group: "rx_search r s = Some m \<Longrightarrow> rx_group n m = Some w \<Longrightarrow> group_lang r n w"
  using rx_search_at_sound [of r None s "fst m" "snd m"] rx_group_lang [of m r n w] by (simp add: rx_search_def)

lemma rx_finditer_group: "m \<in> set (rx_finditer r s) \<Longrightarrow> rx_group n m = Some w \<Longrightarrow> group_lang r n w"
  using rx_finditer_at_sound [of "fst m" "snd m" r None s] rx_group_lang [of m r n w] by (simp add: rx_finditer_def)

text \<open>\<open>\d{1,2}\<close>, \<open>\d{2}\<close>, \<open>\d+\<close> and \<open>\s*\<close>\<close>

definition digits_1_2 :: regex where "digits_1_2 = Seq digit (opt digit)"
definition digits_2 :: regex where "digits_2 = Seq digit digit"
definition digits_1 :: regex where "digits_1 = Seq digit (Many is_digit)"
definition spaces :: regex where "spaces = Many is_space"

lemma lang_digits:
  "lang digits_1_2 w \<Longrightarrow> list_all is_digit w \<and> w \<noteq> [] \<and> length w \<le> 2"
  "lang digits_2 w \<Longrightarrow> list_all is_digit w \<and> length w = 2"
  "lang digits_1 w \<Longrightarrow> list_all is_digit w \<and> w \<noteq> []"
  by (auto simp: digits_1_2_def digits_2_def digits_1_def digit_def opt_def)

lemma lang_lit [simp]: "lang (lit s) w \<longleftrightarrow> w = s"
  by (induction s arbitrary: w) (auto simp: lit_def)

lemma lang_words: "ws \<noteq> [] \<Longrightarrow> lang (words ws) w \<longleftrightarrow> w \<in> set ws"
  by (induction ws rule: words.induct) auto

lemma group_lit [simp]: "\<not> group_lang (lit s) n w"
  by (induction s) (auto simp: lit_def)

lemma group_words [simp]: "\<not> group_lang (words ws) n w"
  by (induction ws rule: words.induct) auto

lemma group_basic [simp]:
  "\<not> group_lang digits_1_2 n w" "\<not> group_lang digits_2 n w" "\<not> group_lang digits_1 n w" "\<not> group_lang spaces n w"
  by (simp_all add: digits_1_2_def digits_2_def digits_1_def digit_def opt_def spaces_def)

lemma group_rcat [simp]: "group_lang (rcat rs) n w \<longleftrightarrow> (\<exists>r \<in> set rs. group_lang r n w)"
  by (induction rs) (auto simp: rcat_def)

lemma group_opt [simp]: "group_lang (opt r) n w = group_lang r n w"
  by (simp add: opt_def)

section \<open>Numbers in text\<close>

text \<open>\<open>int(digits)\<close>: more than 4300 digits are refused.\<close>

definition MAX_STR_DIGITS :: nat where "MAX_STR_DIGITS = 4300"

definition digits_value :: "string \<Rightarrow> int" where
  "digits_value s = foldl (\<lambda>n c. 10 * n + (of_char c - 48)) 0 s"

definition int_digits :: "string \<Rightarrow> int option" where
  "int_digits s = (if s = [] \<or> \<not> list_all is_digit s \<or> length s > MAX_STR_DIGITS then None else Some (digits_value s))"

lemma digits_value_bound: "list_all is_digit s \<Longrightarrow> 0 \<le> digits_value s \<and> digits_value s < 10 ^ length s"
proof (induction s rule: rev_induct)
  case (snoc c s)
  have "48 \<le> (of_char c :: nat)" "(of_char c :: nat) \<le> 57" using snoc.prems by (auto simp: is_digit_def Let_def)
  then have "48 \<le> (of_char c :: int)" "(of_char c :: int) \<le> 57"
    by (metis of_nat_le_iff of_nat_numeral of_nat_of_char)+
  with snoc show ?case by (simp add: digits_value_def)
qed (simp add: digits_value_def)

end
