(* ===== verification/Life_Knowledge.thy ===== *)
theory Life_Knowledge
  imports Domain_Models Encodings Json Complex_Main
begin

text \<open>
  \<open>life_knowledge.py\<close> and \<open>memory/legacy.py\<close>: the governed memory records with their structured knowledge, and their validators.
  A record identity is the text of its UUID, a confidence is a \<open>float\<close>, which is the rational number it denotes.  Whether a name is
  a time zone is a parameter.  Dates after the year 9999, where \<open>datetime\<close> arithmetic raises, are not considered.
\<close>

section \<open>Enumerations\<close>

datatype knowledge_state = KS_CONFIRMED | KS_OBSERVED | KS_INFERRED | KS_STALE | KS_CONFLICTED | KS_UNKNOWN

datatype knowledge_kind =
    KK_IDENTITY | KK_FACT | KK_PATTERN | KK_PREFERENCE | KK_CURRENT_STATE | KK_HISTORY | KK_ASPIRATION | KK_COMMITMENT | KK_ROUTINE
  | KK_RELATIONSHIP | KK_PROJECT | KK_OPEN_LOOP | KK_CONSTRAINT | KK_VALUE | KK_DECISION_PREFERENCE | KK_COMMUNICATION | KK_ENERGY
  | KK_PLACE | KK_LIFE_DOMAIN | KK_QUESTION | KK_ANTI_GOAL | KK_TRUST_PREFERENCE

datatype life_domain =
    LD_IDENTITY | LD_RESPONSIBILITIES | LD_WORK | LD_FINANCES | LD_EDUCATION | LD_RELATIONSHIPS | LD_VALUES | LD_GOALS | LD_ROUTINES
  | LD_ENERGY | LD_WELLNESS | LD_HABITS | LD_LOGISTICS | LD_PROJECTS | LD_OPEN_LOOPS | LD_NOW | LD_PLANNING | LD_AUTONOMY
  | LD_COMMUNICATION | LD_STRESS | LD_ANTI_GOALS | LD_TRUST

definition life_domains :: "life_domain list" where
  "life_domains = [LD_IDENTITY, LD_RESPONSIBILITIES, LD_WORK, LD_FINANCES, LD_EDUCATION, LD_RELATIONSHIPS, LD_VALUES, LD_GOALS,
     LD_ROUTINES, LD_ENERGY, LD_WELLNESS, LD_HABITS, LD_LOGISTICS, LD_PROJECTS, LD_OPEN_LOOPS, LD_NOW, LD_PLANNING, LD_AUTONOMY,
     LD_COMMUNICATION, LD_STRESS, LD_ANTI_GOALS, LD_TRUST]"

fun life_domain_value :: "life_domain \<Rightarrow> string" where
  "life_domain_value LD_IDENTITY = ''identity''"
| "life_domain_value LD_RESPONSIBILITIES = ''responsibilities''"
| "life_domain_value LD_WORK = ''work''"
| "life_domain_value LD_FINANCES = ''finances''"
| "life_domain_value LD_EDUCATION = ''education''"
| "life_domain_value LD_RELATIONSHIPS = ''relationships''"
| "life_domain_value LD_VALUES = ''values''"
| "life_domain_value LD_GOALS = ''goals''"
| "life_domain_value LD_ROUTINES = ''routines''"
| "life_domain_value LD_ENERGY = ''energy''"
| "life_domain_value LD_WELLNESS = ''wellness''"
| "life_domain_value LD_HABITS = ''habits''"
| "life_domain_value LD_LOGISTICS = ''logistics''"
| "life_domain_value LD_PROJECTS = ''projects''"
| "life_domain_value LD_OPEN_LOOPS = ''open_loops''"
| "life_domain_value LD_NOW = ''now''"
| "life_domain_value LD_PLANNING = ''planning''"
| "life_domain_value LD_AUTONOMY = ''autonomy''"
| "life_domain_value LD_COMMUNICATION = ''communication''"
| "life_domain_value LD_STRESS = ''stress''"
| "life_domain_value LD_ANTI_GOALS = ''anti_goals''"
| "life_domain_value LD_TRUST = ''trust''"

datatype sensitivity = PERSONAL | SENSITIVE | RESTRICTED

datatype routine_flexibility = RF_FIXED | RF_PREFERRED | RF_FLEXIBLE | RF_OPTIONAL

fun flexibility_value :: "routine_flexibility \<Rightarrow> string" where
  "flexibility_value RF_FIXED = ''fixed''"
| "flexibility_value RF_PREFERRED = ''preferred''"
| "flexibility_value RF_FLEXIBLE = ''flexible''"
| "flexibility_value RF_OPTIONAL = ''optional''"

section \<open>Routines, projects and open loops\<close>

record time_of_day =
  td_hour :: int
  td_minute :: int
  td_second :: int
  td_microsecond :: int
  td_aware :: bool

record routine_details =
  rt_days :: "int set"
  rt_start_time :: "time_of_day option"
  rt_duration_minutes :: int
  rt_timezone :: string
  rt_flexibility :: routine_flexibility
  rt_desired :: bool
  rt_location_id :: "string option"
  rt_travel_minutes :: int
  rt_preparation_minutes :: int
  rt_transition_minutes :: int
  rt_minimum_weekly_frequency :: int
  rt_priority :: int
  rt_can_move :: bool
  rt_dependency_ids :: "string list"

definition day_minutes :: "int \<Rightarrow> bool" where
  "day_minutes n \<longleftrightarrow> 0 \<le> n \<and> n \<le> 1440"

definition valid_routine :: "(string \<Rightarrow> bool) \<Rightarrow> routine_details \<Rightarrow> bool" where
  "valid_routine zone_known r \<longleftrightarrow>
     rt_days r \<noteq> {} \<and> 1 \<le> rt_duration_minutes r \<and> rt_duration_minutes r \<le> 1440 \<and> rt_timezone r \<noteq> []
     \<and> day_minutes (rt_travel_minutes r) \<and> day_minutes (rt_preparation_minutes r) \<and> day_minutes (rt_transition_minutes r)
     \<and> 0 \<le> rt_minimum_weekly_frequency r \<and> rt_minimum_weekly_frequency r \<le> 7 \<and> 0 \<le> rt_priority r \<and> rt_priority r \<le> 10
     \<and> zone_known (rt_timezone r) \<and> rt_days r \<subseteq> {0..6} \<and> rt_minimum_weekly_frequency r \<le> int (card (rt_days r))
     \<and> \<not> (rt_flexibility r = RF_FIXED \<and> (rt_start_time r = None \<or> rt_can_move r))
     \<and> (case rt_start_time r of None \<Rightarrow> True | Some t \<Rightarrow> \<not> td_aware t \<and> td_second t = 0 \<and> td_microsecond t = 0)"

record routine_draft =
  dr_days :: "int set option"
  dr_start_time :: "time_of_day option"
  dr_duration_minutes :: "int option"
  dr_timezone :: string
  dr_flexibility :: routine_flexibility
  dr_travel_minutes :: int
  dr_preparation_minutes :: int
  dr_transition_minutes :: int

definition valid_routine_draft :: "routine_draft \<Rightarrow> bool" where
  "valid_routine_draft d \<longleftrightarrow>
     (case dr_duration_minutes d of None \<Rightarrow> True | Some n \<Rightarrow> 1 \<le> n \<and> n \<le> 1440) \<and> dr_timezone d \<noteq> []
     \<and> day_minutes (dr_travel_minutes d) \<and> day_minutes (dr_preparation_minutes d) \<and> day_minutes (dr_transition_minutes d)"

definition draft_missing :: "routine_draft \<Rightarrow> string list" where
  "draft_missing d =
     (if dr_days d = None then [''days''] else [])
     @ (if dr_duration_minutes d = None then [''duration''] else [])
     @ (if dr_start_time d = None \<and> dr_flexibility d \<noteq> RF_FLEXIBLE then [''start time (or explicit flexible timing)''] else [])"

record project_details =
  pj_desired_outcome :: string
  pj_why_it_matters :: "string option"
  pj_current_state :: string
  pj_deadline :: "datetime option"
  pj_next_action :: "string option"
  pj_blocker :: "string option"
  pj_dependency_ids :: "string list"
  pj_people_ids :: "string list"
  pj_resource_ids :: "string list"
  pj_goal_graph_id :: "string option"
  pj_active :: "bool option"

datatype disposition = INBOX | CLARIFIED | DEFERRED | SOMEDAY | DELEGATED | DONE

record open_loop_details =
  ol_disposition :: disposition
  ol_actionable :: "bool option"
  ol_desired_outcome :: "string option"
  ol_next_action :: "string option"
  ol_deadline :: "datetime option"
  ol_duration_minutes :: "int option"
  ol_energy_required :: "int option"
  ol_context :: "string option"
  ol_dependency_ids :: "string list"
  ol_delegate_id :: "string option"

definition new_open_loop :: open_loop_details where
  "new_open_loop = \<lparr>ol_disposition = INBOX, ol_actionable = None, ol_desired_outcome = None, ol_next_action = None, ol_deadline = None,
     ol_duration_minutes = None, ol_energy_required = None, ol_context = None, ol_dependency_ids = [], ol_delegate_id = None\<rparr>"

definition valid_open_loop :: "open_loop_details \<Rightarrow> bool" where
  "valid_open_loop l \<longleftrightarrow> (case ol_duration_minutes l of None \<Rightarrow> True | Some n \<Rightarrow> 1 \<le> n)
     \<and> (case ol_energy_required l of None \<Rightarrow> True | Some n \<Rightarrow> 1 \<le> n \<and> n \<le> 5)"

section \<open>Assertions\<close>

datatype observation_precision = INSTANT | DAY | MONTH | YEAR | SOURCE_SNAPSHOT

record source_evidence =
  se_source_id :: string
  se_source_path :: string
  se_document_sha256 :: string
  se_generated_at :: datetime
  se_declared_state :: "knowledge_state option"
  se_observation_precision :: observation_precision
  se_original :: json

datatype cardinality = CARD_ONE | CARD_MANY

record knowledge_details =
  kd_subject_id :: string
  kd_key :: string
  kd_cardinality :: cardinality
  kd_domain :: life_domain
  kd_kind :: knowledge_kind
  kd_state :: knowledge_state
  kd_observed_at :: datetime
  kd_last_confirmed_at :: "datetime option"
  kd_valid_from :: "datetime option"
  kd_valid_until :: "datetime option"
  kd_expected_staleness_days :: "int option"
  kd_sensitivity :: sensitivity
  kd_importance :: int
  kd_related_entity_ids :: "string list"
  kd_related_goal_ids :: "string list"
  kd_related_project_ids :: "string list"
  kd_evidence_ids :: "string list"
  kd_conflicts_with :: "string list"
  kd_planning_allowed :: bool
  kd_source_evidence :: "source_evidence option"
  kd_superseded_by :: "string option"
  kd_routine :: "routine_details option"
  kd_pending_confirmation :: "routine_draft option"
  kd_project :: "project_details option"
  kd_open_loop :: "open_loop_details option"

definition aware_option :: "datetime option \<Rightarrow> bool" where
  "aware_option d = (case d of None \<Rightarrow> True | Some t \<Rightarrow> \<not> is_naive t)"

text \<open>The field constraints, then the clauses of \<open>validate_evidence\<close> in the order of the source.\<close>

definition valid_knowledge_fields :: "(string \<Rightarrow> bool) \<Rightarrow> knowledge_details \<Rightarrow> bool" where
  "valid_knowledge_fields zone_known k \<longleftrightarrow>
     kd_subject_id k \<noteq> [] \<and> kd_key k \<noteq> [] \<and> (case kd_expected_staleness_days k of None \<Rightarrow> True | Some n \<Rightarrow> 1 \<le> n)
     \<and> 0 \<le> kd_importance k \<and> kd_importance k \<le> 10
     \<and> (case kd_source_evidence k of None \<Rightarrow> True
        | Some e \<Rightarrow> se_source_id e \<noteq> [] \<and> se_source_path e \<noteq> [] \<and> se_document_sha256 e \<noteq> [])
     \<and> (case kd_routine k of None \<Rightarrow> True | Some r \<Rightarrow> valid_routine zone_known r)
     \<and> (case kd_pending_confirmation k of None \<Rightarrow> True | Some d \<Rightarrow> valid_routine_draft d)
     \<and> (case kd_project k of None \<Rightarrow> True | Some p \<Rightarrow> pj_desired_outcome p \<noteq> [] \<and> pj_current_state p \<noteq> [])
     \<and> (case kd_open_loop k of None \<Rightarrow> True | Some l \<Rightarrow> valid_open_loop l)"

definition validate_evidence :: "knowledge_details \<Rightarrow> bool" where
  "validate_evidence k \<longleftrightarrow>
     \<not> is_naive (kd_observed_at k) \<and> aware_option (kd_last_confirmed_at k) \<and> aware_option (kd_valid_from k) \<and> aware_option (kd_valid_until k)
     \<and> (case (kd_valid_from k, kd_valid_until k) of (Some a, Some b) \<Rightarrow> \<not> dt_le b a | _ \<Rightarrow> True)
     \<and> (kd_state k = KS_CONFIRMED \<longrightarrow> kd_last_confirmed_at k \<noteq> None)
     \<and> (kd_state k = KS_INFERRED \<or> kd_state k = KS_UNKNOWN \<longrightarrow> kd_last_confirmed_at k = None)
     \<and> (kd_conflicts_with k \<noteq> [] \<longrightarrow> kd_state k = KS_CONFLICTED)
     \<and> (kd_routine k \<noteq> None \<longrightarrow> kd_kind k = KK_ROUTINE) \<and> (kd_pending_confirmation k \<noteq> None \<longrightarrow> kd_kind k = KK_ROUTINE)
     \<and> (kd_project k \<noteq> None \<longrightarrow> kd_kind k = KK_PROJECT) \<and> (kd_open_loop k \<noteq> None \<longrightarrow> kd_kind k = KK_OPEN_LOOP)"

definition valid_knowledge :: "(string \<Rightarrow> bool) \<Rightarrow> knowledge_details \<Rightarrow> bool" where
  "valid_knowledge zone_known k \<longleftrightarrow> valid_knowledge_fields zone_known k \<and> validate_evidence k"

text \<open>Both raise for a naive \<open>now\<close>; a stored assertion has aware timestamps only.\<close>

definition current_at :: "knowledge_details \<Rightarrow> datetime \<Rightarrow> bool" where
  "current_at k now \<longleftrightarrow> (case kd_valid_from k of None \<Rightarrow> True | Some t \<Rightarrow> dt_le t now)
     \<and> (case kd_valid_until k of None \<Rightarrow> True | Some t \<Rightarrow> dt_lt now t)"

definition effective_state :: "knowledge_details \<Rightarrow> datetime \<Rightarrow> knowledge_state" where
  "effective_state k now =
     (if kd_state k \<in> {KS_CONFLICTED, KS_UNKNOWN, KS_STALE} then kd_state k
      else let reference = (case kd_last_confirmed_at k of None \<Rightarrow> kd_observed_at k | Some t \<Rightarrow> t) in
        case kd_expected_staleness_days k of
          None \<Rightarrow> kd_state k
        | Some n \<Rightarrow> if utc reference + n * day_us \<le> utc now then KS_STALE else kd_state k)"

section \<open>Interview position\<close>

datatype objective = UNDERSTANDING | WEEK_PLANNING

datatype interview_phase = ACTIVE | PAUSED | CONTINUOUS

record interview_progress =
  ip_subject_id :: string
  ip_objective :: objective
  ip_phase :: interview_phase
  ip_skipped_keys :: "string set"
  ip_permitted_domains :: "life_domain set"
  ip_skipped_domains :: "life_domain set"
  ip_last_question_key :: "string option"
  ip_pending_confirmation_key :: "string option"
  ip_sweep_complete :: bool

section \<open>Memory records\<close>

datatype memory_category = MC_PROFILE | MC_PREFERENCE | MC_COMMITMENT | MC_EPISODE | MC_OBSERVATION | MC_INTERVIEW

datatype retrieval_scope = SCOPE_PRIVATE | SCOPE_CONVERSATION | SCOPE_PLANNING | SCOPE_DELEGATION

datatype memory_source =
    MS_USER_STATEMENT | MS_USER_CORRECTION | MS_CONVERSATION | MS_IMPORT | MS_INFERENCE | MS_CONNECTED_SYSTEM | MS_BEHAVIOR

datatype removal_reason = RR_USER_CORRECTION | RR_USER_DELETION | RR_RETENTION_EXPIRED

fun removal_reason_value :: "removal_reason \<Rightarrow> string" where
  "removal_reason_value RR_USER_CORRECTION = ''user_correction''"
| "removal_reason_value RR_USER_DELETION = ''user_deletion''"
| "removal_reason_value RR_RETENTION_EXPIRED = ''retention_expired''"

record memory_provenance =
  mp_source :: memory_source
  mp_source_id :: string
  mp_captured_at :: datetime

record memory_record =
  mr_memory_id :: string
  mr_category :: memory_category
  mr_content :: string
  mr_provenance :: memory_provenance
  mr_confidence :: rat
  mr_retrieval_scopes :: "retrieval_scope set"
  mr_created_at :: datetime
  mr_retain_until :: "datetime option"
  mr_revision :: int
  mr_knowledge :: "knowledge_details option"
  mr_interview :: "interview_progress option"

definition validate_knowledge_source :: "memory_record \<Rightarrow> bool" where
  "validate_knowledge_source r \<longleftrightarrow>
     (case mr_knowledge r of None \<Rightarrow> True | Some k \<Rightarrow>
        (kd_state k = KS_CONFIRMED \<longrightarrow> mp_source (mr_provenance r) \<in> {MS_USER_STATEMENT, MS_USER_CORRECTION})
        \<and> (kd_state k = KS_OBSERVED \<longrightarrow> mp_source (mr_provenance r) \<in> {MS_CONNECTED_SYSTEM, MS_BEHAVIOR, MS_IMPORT}))
     \<and> (mr_interview r \<noteq> None \<longrightarrow>
        mr_category r = MC_INTERVIEW \<and> mr_knowledge r = None \<and> mr_retrieval_scopes r = {SCOPE_PRIVATE})"

text \<open>The constructor \<open>MemoryRecord(..)\<close> takes nested models as they are; only parsing JSON validates them again.\<close>

definition valid_memory_fields :: "memory_record \<Rightarrow> bool" where
  "valid_memory_fields r \<longleftrightarrow> mr_content r \<noteq> [] \<and> mp_source_id (mr_provenance r) \<noteq> [] \<and> 0 \<le> mr_confidence r \<and> mr_confidence r \<le> 1
     \<and> mr_retrieval_scopes r \<noteq> {} \<and> 1 \<le> mr_revision r \<and> validate_knowledge_source r"

definition valid_memory :: "(string \<Rightarrow> bool) \<Rightarrow> memory_record \<Rightarrow> bool" where
  "valid_memory zone_known r \<longleftrightarrow> valid_memory_fields r
     \<and> (case mr_knowledge r of None \<Rightarrow> True | Some k \<Rightarrow> valid_knowledge zone_known k)
     \<and> (case mr_interview r of None \<Rightarrow> True | Some p \<Rightarrow> ip_subject_id p \<noteq> [])"

record memory_correction =
  mx_expected_revision :: int
  mx_content :: string
  mx_provenance :: memory_provenance
  mx_confidence :: rat
  mx_retrieval_scopes :: "retrieval_scope set"
  mx_retain_until :: "datetime option"
  mx_knowledge :: "knowledge_details option"
  mx_interview :: "interview_progress option"

definition valid_correction :: "memory_correction \<Rightarrow> bool" where
  "valid_correction c \<longleftrightarrow> 1 \<le> mx_expected_revision c \<and> mx_content c \<noteq> [] \<and> 0 \<le> mx_confidence c \<and> mx_confidence c \<le> 1
     \<and> mx_retrieval_scopes c \<noteq> {}"

record memory_tombstone =
  mt_memory_id :: string
  mt_revision :: int
  mt_removed_at :: datetime
  mt_reason :: removal_reason
  mt_source_fingerprint :: string

end
