(* ===== verification/Memory_Repository.thy ===== *)
theory Memory_Repository
  imports Life_Knowledge Domain_Repository
begin

text \<open>
  \<open>memory_repository.py\<close>: governed memories in the encrypted store, which adds their tables and those of the backup catalog to the
  domain tables; the ledger is the same.  A JSON cell that pydantic writes and reads back is the record it holds, with the timestamps as
  parsing returns them; reading validates it again.  The text of a record is a parameter, used for fingerprints only.
\<close>

section \<open>Tables\<close>

record memory_row =
  mw_memory_id :: string
  mw_revision :: int
  mw_retain_until :: "string option"
  mw_content_json :: memory_record
  mw_created_at :: string

datatype backup_status = BACKUP_ACTIVE | BACKUP_INVALIDATED | BACKUP_EXPIRED

record backup_row =
  bk_backup_id :: string
  bk_path :: string
  bk_created_at :: datetime
  bk_expires_at :: datetime
  bk_wrapped_data_key :: "string option"
  bk_nonce :: "string option"
  bk_status :: backup_status

record store_db = domain_db +
  st_memories :: "memory_row list"
  st_memory_tombstones :: "memory_tombstone list"
  st_backups :: "backup_row list"
  st_backup_records :: "(string \<times> record_kind \<times> string) list"
  st_backup_coverage :: "string list"

record store_env = repository_env +
  dump_memory :: "memory_record \<Rightarrow> string"
  zone_known :: "string \<Rightarrow> bool"

datatype store_error =
    RepositoryFailure repository_error
  | MemoryNotFoundError string
  | StaleMemoryRevisionError string int int
  | StoreValueError string
  | StoreValidationError
  | StoreIntegrityError
  | StoreLifecycleRequired
  | StoreLedgerFailure ledger_error
  | StoreTypeError
  | BackupInvalidatedError string
  | BackupCatalogError string
  | BackupLookupError string
  | StoreOverflowError
  | StoreKeyError string
  | StoreStopIteration

type_synonym 'a db_action = "(store_db, store_error, 'a) action"
type_synonym 'a memory_action = "(store_db connection, store_error, 'a) action"

section \<open>Cells\<close>

definition reread_knowledge :: "knowledge_details \<Rightarrow> knowledge_details" where
  "reread_knowledge k = k\<lparr>kd_observed_at := reread (kd_observed_at k), kd_last_confirmed_at := map_option reread (kd_last_confirmed_at k),
     kd_valid_from := map_option reread (kd_valid_from k), kd_valid_until := map_option reread (kd_valid_until k),
     kd_source_evidence := map_option (\<lambda>e. e\<lparr>se_generated_at := reread (se_generated_at e)\<rparr>) (kd_source_evidence k),
     kd_project := map_option (\<lambda>p. p\<lparr>pj_deadline := map_option reread (pj_deadline p)\<rparr>) (kd_project k),
     kd_open_loop := map_option (\<lambda>l. l\<lparr>ol_deadline := map_option reread (ol_deadline l)\<rparr>) (kd_open_loop k)\<rparr>"

definition reread_memory :: "memory_record \<Rightarrow> memory_record" where
  "reread_memory r = r\<lparr>mr_provenance := (mr_provenance r)\<lparr>mp_captured_at := reread (mp_captured_at (mr_provenance r))\<rparr>,
     mr_created_at := reread (mr_created_at r), mr_retain_until := map_option reread (mr_retain_until r),
     mr_knowledge := map_option reread_knowledge (mr_knowledge r)\<rparr>"

definition read_cell :: "store_env \<Rightarrow> memory_row \<Rightarrow> store_error + memory_record" where
  "read_cell env row = (if valid_memory (zone_known env) (mw_content_json row) then Inr (mw_content_json row) else Inl StoreValidationError)"

section \<open>Audit\<close>

definition memory_fingerprint :: "store_env \<Rightarrow> memory_record \<Rightarrow> string" where
  "memory_fingerprint env r = repo_hmac env (audit_key env) (dump_memory env r)"

definition memory_verify :: "store_env \<Rightarrow> unit db_action" where
  "memory_verify env db =
     (case ledger_verify (repo_hmac env) (audit_key env) (db_ledger db) of
        Inl e \<Rightarrow> (Inl (StoreLedgerFailure e), db)
      | Inr _ \<Rightarrow> (Inr (), db))"

definition memory_append :: "store_env \<Rightarrow> memory_record \<Rightarrow> string \<Rightarrow> string \<Rightarrow> transition_context \<Rightarrow> unit db_action" where
  "memory_append env r action fp ctx db =
     (case ledger_append (repo_hmac env) (audit_key env)
        \<lparr>am_record_kind = NORMALIZED_FACT, am_record_id = mr_memory_id r, am_state = action, am_action_class = ''memory.'' @ action,
         am_source_fingerprint = fp, am_context = ctx\<rparr> (db_ledger db) of
        (Inl e, l) \<Rightarrow> (Inl (StoreLedgerFailure e), db\<lparr>db_ledger := l\<rparr>)
      | (Inr _, l) \<Rightarrow> (Inr (), db\<lparr>db_ledger := l\<rparr>))"

section \<open>Rows\<close>

definition memory_read :: "store_env \<Rightarrow> string \<Rightarrow> store_db \<Rightarrow> store_error + memory_record" where
  "memory_read env i db =
     (case find (\<lambda>row. mw_memory_id row = i) (st_memories db) of
        None \<Rightarrow> Inl (MemoryNotFoundError i)
      | Some row \<Rightarrow> read_cell env row)"

definition record_ids :: "store_db \<Rightarrow> string list" where
  "record_ids db = map mw_memory_id (st_memories db)"

definition memory_insert :: "memory_record \<Rightarrow> unit db_action" where
  "memory_insert r db =
     (if mr_memory_id r \<in> mw_memory_id ` set (st_memories db) then (Inl StoreIntegrityError, db)
      else (Inr (), db\<lparr>st_memories := st_memories db @
        [\<lparr>mw_memory_id = mr_memory_id r, mw_revision = mr_revision r, mw_retain_until = map_option isoformat (mr_retain_until r),
          mw_content_json = reread_memory r, mw_created_at = isoformat (mr_created_at r)\<rparr>]\<rparr>))"

definition memory_tombstones :: "string \<Rightarrow> store_db \<Rightarrow> memory_tombstone list" where
  "memory_tombstones i db = map (\<lambda>t. t\<lparr>mt_removed_at := reread (mt_removed_at t)\<rparr>)
     (sort_key mt_revision (filter (\<lambda>t. mt_memory_id t = i) (st_memory_tombstones db)))"

definition require_revision :: "memory_record \<Rightarrow> int \<Rightarrow> store_error + unit" where
  "require_revision r expected = require (expected = mr_revision r) (StaleMemoryRevisionError (mr_memory_id r) expected (mr_revision r))"

text \<open>\<open>UPDATE backup_manifests ..\<close>: the backups whose inventory has the memory, and those without an inventory of memories
  that are not older than it, as the texts of the timestamps compare.\<close>

definition covers_memory :: "store_db \<Rightarrow> memory_record \<Rightarrow> backup_row \<Rightarrow> bool" where
  "covers_memory db r b \<longleftrightarrow> bk_status b = BACKUP_ACTIVE
     \<and> ((bk_backup_id b, NORMALIZED_FACT, mr_memory_id r) \<in> set (st_backup_records db)
        \<or> bk_backup_id b \<notin> set (st_backup_coverage db) \<and> isoformat (mr_created_at r) \<le> isoformat (bk_created_at b))"

definition destroy_envelope :: "backup_status \<Rightarrow> backup_row \<Rightarrow> backup_row" where
  "destroy_envelope status b = b\<lparr>bk_wrapped_data_key := None, bk_nonce := None, bk_status := status\<rparr>"

definition invalidate_backups :: "memory_record \<Rightarrow> store_db \<Rightarrow> store_db" where
  "invalidate_backups r db = db\<lparr>st_backups := map (\<lambda>b. if covers_memory db r b then destroy_envelope BACKUP_INVALIDATED b else b) (st_backups db)\<rparr>"

text \<open>The trigger asks whether the lifecycle has authorized the deletion.\<close>

definition delete_memory :: "string \<Rightarrow> unit db_action" where
  "delete_memory i db =
     (if \<not> lifecycle_delete_allowed (db_ledger db) \<and> i \<in> mw_memory_id ` set (st_memories db) then (Inl StoreLifecycleRequired, db)
      else (Inr (), db\<lparr>st_memories := filter (\<lambda>row. mw_memory_id row \<noteq> i) (st_memories db)\<rparr>))"

definition authorized_memory_delete :: "string \<Rightarrow> unit db_action" where
  "authorized_memory_delete i db =
     (let (r, db') = delete_memory i (db\<lparr>db_ledger := authorize_lifecycle_delete (db_ledger db)\<rparr>)
      in (r, db'\<lparr>db_ledger := revoke_lifecycle_delete (db_ledger db')\<rparr>))"

definition insert_memory_tombstone :: "memory_tombstone \<Rightarrow> unit db_action" where
  "insert_memory_tombstone t db =
     (if (mt_memory_id t, mt_revision t) \<in> (\<lambda>t. (mt_memory_id t, mt_revision t)) ` set (st_memory_tombstones db) then (Inl StoreIntegrityError, db)
      else (Inr (), db\<lparr>st_memory_tombstones := st_memory_tombstones db @ [t]\<rparr>))"

definition memory_remove :: "memory_record \<Rightarrow> removal_reason \<Rightarrow> string \<Rightarrow> transition_context \<Rightarrow> unit db_action" where
  "memory_remove r reason fp ctx =
     abind (amodify (invalidate_backups r)) (\<lambda>_.
     abind (authorized_memory_delete (mr_memory_id r)) (\<lambda>_.
       insert_memory_tombstone \<lparr>mt_memory_id = mr_memory_id r, mt_revision = mr_revision r, mt_removed_at = ctx_occurred_at ctx,
         mt_reason = reason, mt_source_fingerprint = fp\<rparr>))"

section \<open>Operations\<close>

definition remember_body :: "store_env \<Rightarrow> memory_record \<Rightarrow> transition_context \<Rightarrow> unit db_action" where
  "remember_body env r ctx =
     abind (memory_verify env) (\<lambda>_.
     abind (aget (memory_tombstones (mr_memory_id r))) (\<lambda>forgotten.
     if forgotten \<noteq> [] then araise (StoreValueError ''forgotten memory identity cannot be reused'')
     else
       abind (memory_insert r) (\<lambda>_.
       memory_append env r ''created'' (memory_fingerprint env r) ctx)))"

definition remember :: "store_env \<Rightarrow> memory_record \<Rightarrow> transition_context \<Rightarrow> unit memory_action" where
  "remember env r ctx =
     (if valid_memory (zone_known env) (reread_memory r)
      then domain_transaction (on_tables (remember_body env (reread_memory r) ctx))
      else araise StoreValidationError)"

definition memory_unexpired :: "datetime \<Rightarrow> memory_record \<Rightarrow> store_error + bool" where
  "memory_unexpired now r =
     (case mr_retain_until r of
        None \<Rightarrow> Inr True
      | Some t \<Rightarrow> if is_naive t \<noteq> is_naive now then Inl StoreTypeError else Inr (dt_lt now t))"

fun authorized_records :: "retrieval_scope \<Rightarrow> datetime \<Rightarrow> memory_record list \<Rightarrow> store_error + memory_record list" where
  "authorized_records scope now [] = Inr []"
| "authorized_records scope now (r # rs) =
     (if scope \<in> mr_retrieval_scopes r
      then ebind (memory_unexpired now r) (\<lambda>keep.
           ebind (authorized_records scope now rs) (\<lambda>out. Inr (if keep then r # out else out)))
      else authorized_records scope now rs)"

definition memory_rows :: "store_db \<Rightarrow> memory_row list" where
  "memory_rows db = sort_key (\<lambda>row. (mw_created_at row, mw_memory_id row)) (st_memories db)"

definition retrieve :: "store_env \<Rightarrow> datetime \<Rightarrow> retrieval_scope \<Rightarrow> store_db \<Rightarrow> store_error + memory_record list" where
  "retrieve env now scope db = ebind (emapM (read_cell env) (memory_rows db)) (authorized_records scope now)"

definition replacement :: "memory_record \<Rightarrow> memory_correction \<Rightarrow> memory_record" where
  "replacement r c = \<lparr>mr_memory_id = mr_memory_id r, mr_category = mr_category r, mr_content = mx_content c, mr_provenance = mx_provenance c,
     mr_confidence = mx_confidence c, mr_retrieval_scopes = mx_retrieval_scopes c, mr_created_at = mr_created_at r,
     mr_retain_until = mx_retain_until c, mr_revision = mr_revision r + 1, mr_knowledge = mx_knowledge c, mr_interview = mx_interview c\<rparr>"

definition correct_body :: "store_env \<Rightarrow> string \<Rightarrow> memory_correction \<Rightarrow> transition_context \<Rightarrow> memory_record db_action" where
  "correct_body env i c ctx =
     abind (memory_verify env) (\<lambda>_.
     abind (aread (memory_read env i)) (\<lambda>r.
     abind (alift (require_revision r (mx_expected_revision c))) (\<lambda>_.
     if mr_knowledge r \<noteq> None \<and> mx_knowledge c = None
     then araise (StoreValueError ''knowledge correction must explicitly preserve its governance'')
     else if \<not> valid_memory_fields ((replacement r c)\<lparr>mr_memory_id := i\<rparr>) then araise StoreValidationError
     else
       abind (memory_remove r RR_USER_CORRECTION (memory_fingerprint env r) ctx) (\<lambda>_.
       abind (memory_insert ((replacement r c)\<lparr>mr_memory_id := i\<rparr>)) (\<lambda>_.
       abind (memory_append env r ''corrected'' (memory_fingerprint env r) ctx) (\<lambda>_.
       areturn ((replacement r c)\<lparr>mr_memory_id := i\<rparr>)))))))"

definition correct_memory :: "store_env \<Rightarrow> string \<Rightarrow> memory_correction \<Rightarrow> transition_context \<Rightarrow> memory_record memory_action" where
  "correct_memory env i c ctx = domain_transaction (on_tables (correct_body env i c ctx))"

definition forget_body :: "store_env \<Rightarrow> string \<Rightarrow> int \<Rightarrow> transition_context \<Rightarrow> unit db_action" where
  "forget_body env i expected ctx =
     abind (memory_verify env) (\<lambda>_.
     abind (aread (memory_read env i)) (\<lambda>r.
     abind (alift (require_revision r expected)) (\<lambda>_.
     abind (memory_remove r RR_USER_DELETION (memory_fingerprint env r) ctx) (\<lambda>_.
       memory_append env r ''deleted'' (memory_fingerprint env r) ctx))))"

definition forget :: "store_env \<Rightarrow> string \<Rightarrow> int \<Rightarrow> transition_context \<Rightarrow> unit memory_action" where
  "forget env i expected ctx = domain_transaction (on_tables (forget_body env i expected ctx))"

text \<open>\<open>purge_expired\<close> compares the texts of the timestamps; the order of the rows is left open by SQL.\<close>

fun purge_each :: "store_env \<Rightarrow> transition_context \<Rightarrow> memory_record list \<Rightarrow> unit db_action" where
  "purge_each env ctx [] = areturn ()"
| "purge_each env ctx (r # rs) =
     abind (memory_remove r RR_RETENTION_EXPIRED (memory_fingerprint env r) ctx) (\<lambda>_.
     abind (memory_append env r ''retention_expired'' (memory_fingerprint env r) ctx) (\<lambda>_.
       purge_each env ctx rs))"

definition expired_rows :: "datetime \<Rightarrow> store_db \<Rightarrow> memory_row list" where
  "expired_rows now db = filter (\<lambda>row. case mw_retain_until row of None \<Rightarrow> False | Some t \<Rightarrow> t \<le> isoformat now) (st_memories db)"

definition purge_expired_memory :: "store_env \<Rightarrow> datetime \<Rightarrow> transition_context \<Rightarrow> nat memory_action" where
  "purge_expired_memory env now ctx c =
     (case memory_verify env (current c) of
        (Inl e, _) \<Rightarrow> (Inl e, c)
      | (Inr _, _) \<Rightarrow>
          (case emapM (read_cell env) (expired_rows now (current c)) of
             Inl e \<Rightarrow> (Inl e, c)
           | Inr expired \<Rightarrow> abind (then_commit (purge_each env ctx expired)) (\<lambda>_. areturn (length expired)) c))"

end
