(* ===== verification/Interview_Extraction.thy ===== *)
theory Interview_Extraction
  imports Regex Memory_Repository
begin

text \<open>
  The deterministic extraction of routines in \<open>life_interview.py\<close>: days, start time, duration, logistics and flexibility from the
  lower-case text of an answer.  A \<open>float\<close> is the rational number it denotes.
\<close>

section \<open>Floating point\<close>

definition pow2 :: "int \<Rightarrow> rat" where
  "pow2 e = (if 0 \<le> e then 2 ^ nat e else 1 / 2 ^ nat (- e))"

text \<open>The integer part of the binary logarithm of a positive number.\<close>

function bit_len :: "int \<Rightarrow> int" where
  "bit_len n = (if n \<le> 0 then 0 else 1 + bit_len (n div 2))"
  by pat_completeness auto
termination by (relation "measure nat") auto

declare bit_len.simps [simp del]

definition log2_floor :: "rat \<Rightarrow> int" where
  "log2_floor x =
     (let (p, q) = quotient_of x; k = bit_len p - bit_len q
      in if pow2 k \<le> x then k else k - 1)"

definition round_half_even :: "rat \<Rightarrow> int" where
  "round_half_even x =
     (let f = \<lfloor>x\<rfloor>; d = x - of_int f
      in if d < 1 / 2 then f else if 1 / 2 < d then f + 1 else if even f then f else f + 1)"

text \<open>The nearest double to a number that is not negative, ties to even; \<open>None\<close> is infinity.\<close>

definition to_double :: "rat \<Rightarrow> rat option" where
  "to_double x =
     (if x = 0 then Some 0
      else let e = max (-1074) (log2_floor x - 52); y = of_int (round_half_even (x / pow2 e)) * pow2 e
           in if pow2 1024 \<le> y then None else Some y)"

text \<open>\<open>float(text)\<close> for digits with an optional fraction, \<open>value * 60\<close>, and \<open>round(value)\<close>.\<close>

definition decimal_value :: "string \<Rightarrow> rat" where
  "decimal_value s =
     (let whole = takeWhile (\<lambda>c. c \<noteq> CHR ''.'') s; frac = drop (Suc (length whole)) s
      in of_int (digits_value whole) + of_int (digits_value frac) / 10 ^ length frac)"

definition py_float :: "string \<Rightarrow> rat option" where
  "py_float s = to_double (decimal_value s)"

definition times_60 :: "rat option \<Rightarrow> rat option" where
  "times_60 v = (case v of None \<Rightarrow> None | Some x \<Rightarrow> to_double (x * 60))"

definition py_round :: "rat option \<Rightarrow> store_error + int" where
  "py_round v = (case v of None \<Rightarrow> Inl StoreOverflowError | Some x \<Rightarrow> Inr (round_half_even x))"

section \<open>Days\<close>

definition DAY_NAMES :: "string list" where
  "DAY_NAMES = [''Monday'', ''Tuesday'', ''Wednesday'', ''Thursday'', ''Friday'', ''Saturday'', ''Sunday'']"

definition DAY_WORDS :: "string list" where
  "DAY_WORDS = [''monday'', ''tuesday'', ''wednesday'', ''thursday'', ''friday'', ''saturday'', ''sunday'']"

definition day_index :: "string \<Rightarrow> int option" where
  "day_index w = map_of (zip DAY_WORDS [0..6]) w"

definition whole_word :: "regex \<Rightarrow> regex" where
  "whole_word r = rcat [Boundary, r, Boundary]"

definition DAY_PATTERN :: regex where
  "DAY_PATTERN = whole_word (Group 1 (words DAY_WORDS))"

definition DAY_INTERVAL :: regex where
  "DAY_INTERVAL = rcat [Boundary, Group 1 (words DAY_WORDS), spaces, words [''-'', ''to'', ''through''], spaces, Group 2 (words DAY_WORDS), Boundary]"

definition DAY_ALIAS_PATTERNS :: "(regex \<times> int list) list" where
  "DAY_ALIAS_PATTERNS =
     [(whole_word (Seq (lit ''weekday'') (opt (lit ''s''))), [0, 1, 2, 3, 4]), (whole_word (Seq (lit ''weekend'') (opt (lit ''s''))), [5, 6]),
      (whole_word (lit ''daily''), [0..6]), (whole_word (lit ''every day''), [0..6]), (whole_word (lit ''everyday''), [0..6]),
      (whole_word (lit ''each day''), [0..6]), (whole_word (lit ''all week''), [0..6]), (whole_word (lit ''every weekday''), [0, 1, 2, 3, 4])]"

text \<open>\<open>text.split(sep, 1)\<close>, when the separator occurs.\<close>

fun split_once :: "string \<Rightarrow> string \<Rightarrow> (string \<times> string) option" where
  "split_once sep [] = (if sep = [] then Some ([], []) else None)"
| "split_once sep (c # cs) =
     (if take (length sep) (c # cs) = sep then Some ([], drop (length sep) (c # cs))
      else map_option (\<lambda>(a, b). (c # a, b)) (split_once sep cs))"

lemma split_once_append: "split_once sep s = Some (a, b) \<Longrightarrow> s = a @ sep @ b"
proof (induction sep s arbitrary: a rule: split_once.induct)
  case (2 sep c cs)
  show ?case
  proof (cases "take (length sep) (c # cs) = sep")
    case True
    with 2 show ?thesis using append_take_drop_id [of "length sep" "c # cs"] by auto
  qed (use 2 in auto)
qed (auto split: if_splits)

definition interval_days :: "rx_state \<Rightarrow> int set" where
  "interval_days m =
     (case (Option.bind (rx_group 1 m) day_index, Option.bind (rx_group 2 m) day_index) of
        (Some a, Some b) \<Rightarrow> (\<lambda>k. (a + k) mod 7) ` set [0..(b - a) mod 7]
      | _ \<Rightarrow> {})"

definition named_day :: "rx_state \<Rightarrow> int set" where
  "named_day m = (case Option.bind (rx_group 1 m) day_index of None \<Rightarrow> {} | Some d \<Rightarrow> {d})"

definition plain_days :: "string \<Rightarrow> int set" where
  "plain_days s =
     \<Union> (set (map interval_days (rx_finditer DAY_INTERVAL s))) \<union> \<Union> (set (map named_day (rx_finditer DAY_PATTERN s)))
     \<union> \<Union> (set (map (\<lambda>(r, ds). if rx_search r s \<noteq> None then set ds else {}) DAY_ALIAS_PATTERNS))"

function extract_days :: "string \<Rightarrow> int set option" where
  "extract_days s =
     (case split_once ''except'' s of
        Some (included, excluded) \<Rightarrow>
          (case (extract_days included, extract_days excluded) of
             (Some base, Some exclusions) \<Rightarrow> if base - exclusions \<noteq> {} then Some (base - exclusions) else None
           | _ \<Rightarrow> None)
      | None \<Rightarrow> if plain_days s \<noteq> {} then Some (plain_days s) else None)"
  by pat_completeness auto
termination by (relation "measure length") (auto dest: split_once_append)

declare extract_days.simps [simp del]

section \<open>Start times\<close>

definition clock_time :: "int \<Rightarrow> int \<Rightarrow> time_of_day" where
  "clock_time h m = \<lparr>td_hour = h, td_minute = m, td_second = 0, td_microsecond = 0, td_aware = False\<rparr>"

definition group_number :: "nat \<Rightarrow> rx_state \<Rightarrow> int" where
  "group_number n m = (case rx_group n m of None \<Rightarrow> 0 | Some w \<Rightarrow> digits_value w)"

definition MERIDIEM_TIME :: regex where
  "MERIDIEM_TIME = rcat [Boundary, Group 1 digits_1_2, opt (Seq (lit '':'') (Group 2 digits_2)), spaces, Group 3 (words [''am'', ''pm'']), Boundary]"

definition CLOCK_TIME :: regex where
  "CLOCK_TIME = rcat [Boundary, Group 1 digits_1_2, lit '':'', Group 2 digits_2, Boundary]"

definition extract_start_time :: "string \<Rightarrow> time_of_day option" where
  "extract_start_time s =
     (case rx_search MERIDIEM_TIME s of
        Some m \<Rightarrow>
          let h = group_number 1 m; minute = group_number 2 m;
              hour = (if rx_group 3 m = Some ''pm'' \<and> h < 12 then h + 12 else if rx_group 3 m = Some ''am'' \<and> h = 12 then 0 else h)
          in if 1 \<le> h \<and> h \<le> 12 \<and> 0 \<le> minute \<and> minute < 60 then Some (clock_time hour minute) else None
      | None \<Rightarrow>
          (case rx_search CLOCK_TIME s of
             Some m \<Rightarrow> let hour = group_number 1 m; minute = group_number 2 m
                       in if 0 \<le> hour \<and> hour < 24 \<and> 0 \<le> minute \<and> minute < 60 then Some (clock_time hour minute) else None
           | None \<Rightarrow> None))"

section \<open>Durations\<close>

definition TRAVEL_KEYWORDS :: "string list" where "TRAVEL_KEYWORDS = [''commute'', ''travel'', ''drive'', ''transit'']"
definition PREPARATION_KEYWORDS :: "string list" where "PREPARATION_KEYWORDS = [''preparation'', ''prep'', ''getting ready'']"
definition TRANSITION_KEYWORDS :: "string list" where "TRANSITION_KEYWORDS = [''transition'', ''wind down'', ''winding down'', ''decompress'']"

definition TIME_PATTERN :: regex where
  "TIME_PATTERN = rcat [digits_1_2, opt (Seq (lit '':'') digits_2), spaces, words [''am'', ''pm'']]"

text \<open>The second separator is an en dash.\<close>

definition TIME_INTERVAL :: regex where
  "TIME_INTERVAL = rcat [Boundary, Group 1 TIME_PATTERN, spaces, words [''-'', [CHR 0xE2, CHR 0x80, CHR 0x93], ''to''], spaces,
     Group 2 TIME_PATTERN, Boundary]"

definition plural :: "string \<Rightarrow> regex" where "plural w = Seq (lit w) (opt (lit ''s''))"

definition DURATION_PATTERN :: regex where
  "DURATION_PATTERN = rcat [Boundary, Group 1 (Seq digits_1 (opt (Seq (lit ''.'') digits_1))), spaces,
     Group 2 (Alt (plural ''hour'') (Alt (plural ''hr'') (Alt (plural ''minute'') (plural ''min'')))), Boundary]"

definition starts_with :: "string list \<Rightarrow> string \<Rightarrow> bool" where
  "starts_with prefixes s = list_ex (\<lambda>p. take (length p) s = p) prefixes"

definition interval_duration :: "string \<Rightarrow> int option" where
  "interval_duration s =
     (case rx_search TIME_INTERVAL s of
        None \<Rightarrow> None
      | Some m \<Rightarrow>
          (case (Option.bind (rx_group 1 m) extract_start_time, Option.bind (rx_group 2 m) extract_start_time) of
             (Some a, Some b) \<Rightarrow>
               let duration = (td_hour b * 60 + td_minute b - td_hour a * 60 - td_minute a) mod 1440
               in if duration \<noteq> 0 then Some duration else None
           | _ \<Rightarrow> None))"

fun first_duration :: "rx_state list \<Rightarrow> store_error + int option" where
  "first_duration [] = Inr None"
| "first_duration (m # ms) =
     (if starts_with (TRAVEL_KEYWORDS @ PREPARATION_KEYWORDS @ TRANSITION_KEYWORDS)
           (dropWhile (\<lambda>c. c = CHR '' '' \<or> c = CHR ''-'') (snd (fst m)))
      then first_duration ms
      else
        let v = (case rx_group 1 m of None \<Rightarrow> Some 0 | Some w \<Rightarrow> py_float w);
            hours = (case rx_group 2 m of None \<Rightarrow> False | Some u \<Rightarrow> starts_with [''hour'', ''hr''] u)
        in ebind (py_round (if hours then times_60 v else v)) (\<lambda>minutes.
             if 1 \<le> minutes \<and> minutes \<le> 1440 then Inr (Some minutes) else first_duration ms))"

definition extract_duration :: "string \<Rightarrow> store_error + int option" where
  "extract_duration s =
     (case interval_duration s of
        Some d \<Rightarrow> Inr (Some d)
      | None \<Rightarrow> first_duration (rx_finditer DURATION_PATTERN s))"

section \<open>Logistics and flexibility\<close>

definition minutes_pattern :: "string \<Rightarrow> regex" where
  "minutes_pattern keyword = rcat [Boundary, Group 1 digits_1, spaces,
     opt (Alt (lit ''-'') (rcat [lit ''min'', opt (lit ''ute''), opt (lit ''s'')])), spaces,
     opt (rcat [lit ''of'', One is_space, spaces]), lit keyword, Boundary]"

fun extract_minutes :: "string \<Rightarrow> string list \<Rightarrow> store_error + int" where
  "extract_minutes s [] = Inr 0"
| "extract_minutes s (keyword # keywords) =
     (case rx_search (minutes_pattern keyword) s of
        None \<Rightarrow> extract_minutes s keywords
      | Some m \<Rightarrow>
          (case Option.bind (rx_group 1 m) int_digits of
             None \<Rightarrow> Inl (StoreValueError ''Exceeds the limit (4300 digits) for integer string conversion'')
           | Some n \<Rightarrow> Inr n))"

definition extract_flexibility :: "string \<Rightarrow> routine_flexibility" where
  "extract_flexibility s =
     (if rx_search (whole_word (Group 1 (words [''must'', ''fixed'', ''always'', ''non-negotiable'']))) s \<noteq> None then RF_FIXED
      else if rx_search (whole_word (lit ''optional'')) s \<noteq> None then RF_OPTIONAL
      else if rx_search (whole_word (Group 1 (words [''flexible'', ''whenever'', ''anytime'', ''any time'']))) s \<noteq> None then RF_FLEXIBLE
      else RF_PREFERRED)"

section \<open>Bounds\<close>

lemma day_index_range: "day_index w = Some d \<Longrightarrow> d \<in> {0..6}"
  unfolding day_index_def by (drule map_of_SomeD) (auto dest: set_zip_rightD)

lemma plain_days_range: "plain_days s \<subseteq> {0..6}"
proof -
  have "interval_days m \<subseteq> {0..6}" for m by (auto simp: interval_days_def split: option.splits)
  moreover have "named_day m \<subseteq> {0..6}" for m
    by (auto simp: named_day_def bind_eq_Some_conv split: option.splits dest!: day_index_range)
  moreover have "set ds \<subseteq> {0..6}" if "(r, ds) \<in> set DAY_ALIAS_PATTERNS" for r ds
    using that by (auto simp: DAY_ALIAS_PATTERNS_def)
  ultimately show ?thesis unfolding plain_days_def by (fastforce split: if_splits)
qed

lemma extract_days_range: "extract_days s = Some ds \<Longrightarrow> ds \<noteq> {} \<and> ds \<subseteq> {0..6}"
proof (induction s arbitrary: ds rule: extract_days.induct)
  case (1 s)
  show ?case
  proof (cases "split_once ''except'' s")
    case None
    with "1.prems" plain_days_range [of s] show ?thesis by (auto simp: extract_days.simps [of s] split: if_splits)
  next
    case (Some p)
    obtain a b where p: "p = (a, b)" by fastforce
    from "1.prems" Some p obtain base out where "extract_days a = Some base" "ds = base - out" "ds \<noteq> {}"
      by (auto simp: extract_days.simps [of s] split: option.splits if_splits)
    with "1.IH"(1) [OF Some p [symmetric]] p show ?thesis by (metis Diff_subset subset_trans)
  qed
qed

definition minute_time :: "time_of_day \<Rightarrow> bool" where
  "minute_time t \<longleftrightarrow> 0 \<le> td_hour t \<and> td_hour t < 24 \<and> 0 \<le> td_minute t \<and> td_minute t < 60 \<and> td_second t = 0 \<and> td_microsecond t = 0 \<and> \<not> td_aware t"

lemma extract_start_time_range: "extract_start_time s = Some t \<Longrightarrow> minute_time t"
  by (auto simp: extract_start_time_def clock_time_def minute_time_def Let_def split: option.splits if_splits)

lemma first_duration_range: "first_duration ms = Inr (Some d) \<Longrightarrow> 1 \<le> d \<and> d \<le> 1440"
  by (induction ms) (auto simp: Let_def split: if_splits)

lemma extract_duration_range: "extract_duration s = Inr (Some d) \<Longrightarrow> 1 \<le> d \<and> d \<le> 1440"
proof -
  assume d: "extract_duration s = Inr (Some d)"
  have "1 \<le> n mod 1440 \<and> n mod 1440 \<le> 1440" if "n mod 1440 \<noteq> 0" for n :: int
    using that pos_mod_sign [of 1440 n] pos_mod_bound [of 1440 n] by linarith
  then have "interval_duration s = Some d \<Longrightarrow> 1 \<le> d \<and> d \<le> 1440"
    by (auto simp: interval_duration_def Let_def split: option.splits if_splits)
  with d show ?thesis by (auto simp: extract_duration_def split: option.splits dest: first_duration_range)
qed

lemma extract_minutes_range: "extract_minutes s ks = Inr n \<Longrightarrow> 0 \<le> n"
  by (induction ks) (auto simp: int_digits_def bind_eq_Some_conv digits_value_bound split: option.splits if_splits)

end
