(* ===== verification/Interview_Catalog.thy ===== *)
theory Interview_Catalog
  imports Life_Knowledge
begin

text \<open>
  \<open>interview_catalog.py\<close>: the topics of the interview, by domain in the order of the source, and the shorter list for planning a week.
\<close>

record interview_topic =
  it_key :: string
  it_domain :: life_domain
  it_kind :: knowledge_kind
  it_prompt :: string
  it_staleness_days :: "int option"
  it_importance :: int

definition topics :: "life_domain \<Rightarrow> knowledge_kind \<Rightarrow> (string \<times> string) list \<Rightarrow> interview_topic list" where
  "topics domain kind questions = map (\<lambda>(key, prompt). \<lparr>it_key = life_domain_value domain @ ''.'' @ key, it_domain = domain, it_kind = kind,
     it_prompt = prompt, it_staleness_days = Some 90, it_importance = 5\<rparr>) questions"

definition SENSITIVE_DOMAINS :: "life_domain set" where
  "SENSITIVE_DOMAINS = {LD_FINANCES, LD_RELATIONSHIPS, LD_VALUES, LD_WELLNESS}"

definition topics_identity :: "interview_topic list" where
  "topics_identity = topics LD_IDENTITY KK_IDENTITY
    [(''name'', ''Let's start with you. What would you like me to call you?''),
     (''base'', ''Where are you based? A city or general area is plenty.''),
     (''living'', ''What does your current living situation look like?''),
     (''transitions'', ''What stage of life are you in, and are any big transitions happening?''),
     (''attention'', ''What's taking most of your attention right now?''),
     (''stability'', ''What feels stable in your life, and what feels uncertain?'')]"

definition topics_responsibilities :: "interview_topic list" where
  "topics_responsibilities = topics LD_RESPONSIBILITIES KK_COMMITMENT
    [(''inventory'', ''What responsibilities are you accountable for right now?''),
     (''people'', ''Who depends on you, and which commitments can't simply be dropped?''),
     (''groups'', ''Which organizations or groups are you involved with, and what do you do for each?''),
     (''duration'', ''Which responsibilities are temporary, and which are ongoing?''),
     (''capacity'', ''Where do you feel overcommitted?'')]"

definition topics_work :: "interview_topic list" where
  "topics_work = topics LD_WORK KK_FACT
    [(''role'', ''Tell me about your current work. What's your role and employer?''),
     (''schedule'', ''What are your normal work days and hours, and how different is the actual schedule?''),
     (''commute'', ''What does getting to and from work take, including preparation?''),
     (''experience'', ''What do you like about your work, and what would you want to change?''),
     (''direction'', ''Are you looking to stay, change jobs, build a business, or some combination?''),
     (''requirements'', ''What would your next role need to offer in pay, benefits, schedule, and location? Share only what helps.''),
     (''boundaries'', ''What fields or roles appeal to you, and which would you rule out?''),
     (''pipeline'', ''Are there applications, interviews, offers, or career follow-ups in progress?''),
     (''future'', ''What would career success look like in one, three, five, and ten years?'')]"

definition topics_finances :: "interview_topic list" where
  "topics_finances = topics LD_FINANCES KK_CONSTRAINT
    [(''scope'', ''What level of financial context would you like me to help with? You don't need to share balances or account details.''),
     (''cadence'', ''What income cadence and recurring obligations should planning account for?''),
     (''goals'', ''Which savings, debt, emergency-fund, investing, or lifestyle goals matter to you?''),
     (''upcoming'', ''Are there major expenses or financial deadlines coming up?''),
     (''system'', ''Do you already use a budgeting system that should remain your source of truth?'')]"

definition topics_education :: "interview_topic list" where
  "topics_education = topics LD_EDUCATION KK_FACT
    [(''program'', ''Are you enrolled in school or a learning program? Tell me what you're studying.''),
     (''classes'', ''What classes, sessions, or assignments are active this term?''),
     (''plans'', ''Are you working toward graduation, a transfer, certifications, or a change of program?''),
     (''skills'', ''What subjects or skills do you want to develop, and how do you like to learn?'')]"

definition topics_relationships :: "interview_topic list" where
  "topics_relationships = topics LD_RELATIONSHIPS KK_RELATIONSHIP
    [(''people'', ''Who are the important people you would like me to remember, and how are they part of your life?''),
     (''time'', ''Which relationships would you like to give more intentional time to?''),
     (''responsibilities'', ''Are there family or partner responsibilities I should respect?''),
     (''occasions'', ''Are there birthdays, anniversaries, or other occasions you'd like help remembering?''),
     (''social'', ''What does a satisfying social life look like for you?'')]"

definition topics_values :: "interview_topic list" where
  "topics_values = topics LD_VALUES KK_VALUE
    [(''principles'', ''What matters most to you? What should I never optimize away?''),
     (''good_life'', ''What makes a good life in your view?''),
     (''conflicts'', ''When priorities conflict, which responsibilities or principles come first?''),
     (''practices'', ''Are there spiritual or philosophical practices you want protected?''),
     (''identity'', ''What kind of person are you trying to become, and what compromises are unacceptable?'')]"

definition topics_goals :: "interview_topic list" where
  "topics_goals = topics LD_GOALS KK_ASPIRATION
    [(''dreams'', ''What are your biggest dreams? We can leave them as dreams for now, without turning them into tasks.''),
     (''near'', ''What would you like your life to look like in six months and one year?''),
     (''far'', ''How about three, five, and ten years from now?''),
     (''possibility'', ''What would you pursue if practical constraints disappeared?''),
     (''regret'', ''What have you wanted for a long time, or would regret never trying?'')]"

definition topics_routines :: "interview_topic list" where
  "topics_routines = topics LD_ROUTINES KK_ROUTINE
    [(''sleep'', ''When do you usually sleep and wake? What times and amount of sleep would you prefer?''),
     (''morning'', ''Walk me through your morning, including preparation and travel.''),
     (''evening'', ''What does your evening look like, including winding down?''),
     (''weekly'', ''Walk me through a typical week: work, school, community, family, and recurring meetings.''),
     (''meals'', ''How do meals, cooking, and cleanup fit into your days?''),
     (''exercise'', ''What exercise or movement routines do you want time for?''),
     (''home'', ''What household chores, errands, and personal care recur?''),
     (''rest'', ''What time do you want for hobbies, entertainment, decompression, and doing nothing in particular?''),
     (''constraints'', ''For those routines, which times are fixed, preferred, flexible, or optional? Include days, duration, travel, preparation, and anything that must happen first.''),
     (''minimums'', ''How often does each important routine need to happen at a minimum? Which can move?'')]"

definition topics_energy :: "interview_topic list" where
  "topics_energy = topics LD_ENERGY KK_ENERGY
    [(''rhythm'', ''When are energy and concentration strongest, and when do you tend to crash?''),
     (''focus'', ''How long can you realistically focus, and how much sleep helps you function well?''),
     (''drains'', ''What kinds of work drain or energize you? Do you need decompression after work?''),
     (''environment'', ''What environments help you focus, and what gets in the way or leads to procrastination?''),
     (''checkins'', ''How often would energy check-ins help, and how much should a low-energy day change the plan?'')]"

definition topics_wellness :: "interview_topic list" where
  "topics_wellness = topics LD_WELLNESS KK_PREFERENCE
    [(''scope'', ''What non-medical wellness support would you like in your plans? We can keep this to sleep, movement, meals, and recovery.''),
     (''needs'', ''Are there accessibility needs, appointments, or explicitly requested reminders you want me to account for? You can skip any detail.'')]"

definition topics_habits :: "interview_topic list" where
  "topics_habits = topics LD_HABITS KK_PREFERENCE
    [(''direction'', ''Which habits are you trying to build, maintain, reduce, or quit?''),
     (''patterns'', ''Which habits happen naturally, which tend to fall apart, and what triggers either pattern?''),
     (''pressure'', ''Which streaks matter to you, and which habits should never become guilt-producing metrics?'')]"

definition topics_logistics :: "interview_topic list" where
  "topics_logistics = topics LD_LOGISTICS KK_PLACE
    [(''destinations'', ''What are your regular destinations and transportation options? General locations are fine.''),
     (''constraints'', ''What travel, parking, vehicle, or geographic constraints should I account for?''),
     (''resources'', ''What equipment, devices, and workspaces are available to you?''),
     (''preferences'', ''Are there places you prefer or avoid, or recurring errands to combine?'')]"

definition topics_projects :: "interview_topic list" where
  "topics_projects = topics LD_PROJECTS KK_PROJECT
    [(''inventory'', ''What are all the things you're currently working on? Let's start with an inventory.''),
     (''domains'', ''Anything else in work, business, software, school, community, home, relationships, finances, creative work, learning, or administration?''),
     (''outcomes'', ''For each project, what outcome do you want, why does it matter, and should it stay active?''),
     (''next'', ''For each active project, what's the next action, deadline, blocker, dependency, and who or what do you need?'')]"

definition topics_open_loops :: "interview_topic list" where
  "topics_open_loops = topics LD_OPEN_LOOPS KK_OPEN_LOOP
    [(''head'', ''Before we schedule anything: what are you carrying in your head that isn't already captured? I'll put it in your inbox.''),
     (''people'', ''Any calls, texts, emails, promises, follow-ups, job applications, interviews, or replies you're waiting for?''),
     (''admin'', ''Any appointments to book or cancel, forms, paperwork, bills, subscriptions, purchases, or returns?''),
     (''home'', ''Any repairs, vehicle maintenance, chores, errands, cleaning, or things to sell?''),
     (''commitments'', ''Any work, school, community, family, or relationship obligations still uncaptured?''),
     (''occasions'', ''Any gifts, birthdays, trips, reservations, or wellness appointments to handle?''),
     (''thinking'', ''Any research, decisions, documents, software fixes, ideas, or things you keep thinking you need to do?''),
     (''away'', ''If you disappeared for a week, what would you worry you forgot?''),
     (''avoiding'', ''What have you been putting off?''),
     (''promises'', ''What have you told someone you would do?''),
     (''bothering'', ''What is bothering you because it isn't handled?''),
     (''else'', ''What else? Take your time. When nothing else comes to mind, you can say the sweep is complete.'')]"

definition topics_now :: "interview_topic list" where
  "topics_now = topics LD_NOW KK_CURRENT_STATE
    [(''changes'', ''What's going on right now? Has anything happened recently that changes your plans?''),
     (''feelings'', ''What are you worried about, and what are you excited about?''),
     (''waiting'', ''What decisions are unresolved, what's blocked, who's waiting on you, and what are you waiting on?''),
     (''deadlines'', ''Which deadlines are approaching, and what absolutely needs to happen tomorrow?''),
     (''success'', ''What would make this week'' @ [CHR 0xE2, CHR 0x80, CHR 0x94] @ ''and the next thirty days'' @ [CHR 0xE2, CHR 0x80, CHR 0x94] @ ''successful?'')]"

definition topics_planning :: "interview_topic list" where
  "topics_planning = topics LD_PLANNING KK_PREFERENCE
    [(''structure'', ''How structured should your days be, and how much unscheduled time feels right?''),
     (''buffers'', ''How much buffer, travel, preparation, and decompression should I protect?''),
     (''protected'', ''What should never move, and how strongly should I protect sleep?''),
     (''missed'', ''How should missed tasks be handled? When should work roll forward, and when should I ask?''),
     (''focus'', ''How many major priorities per day feels realistic? Do you prefer batching or variety?''),
     (''weekends'', ''How should weekends differ, and what does free time mean to you?'')]"

definition topics_autonomy :: "interview_topic list" where
  "topics_autonomy = topics LD_AUTONOMY KK_TRUST_PREFERENCE
    [(''boundaries'', ''What would you like me to do without asking, and what must always need approval? These preferences won't change permissions by themselves.''),
     (''actions'', ''Consider reading, recommending, drafting, proposing, scheduling, rescheduling, sending, buying, deleting, committing, delegating, and computer control. Where are your boundaries?'')]"

definition topics_communication :: "interview_topic list" where
  "topics_communication = topics LD_COMMUNICATION KK_COMMUNICATION
    [(''style'', ''Do you prefer concise or detailed answers, direct advice or exploration, and what tone feels right?''),
     (''interruptions'', ''When are interruptions welcome, when should I stay quiet, and how often should I notify you?''),
     (''challenge'', ''Should I challenge unrealistic plans? How directly, and with how much explanation?''),
     (''briefs'', ''What would useful morning and evening briefs sound like? Do you prefer voice or text?'')]"

definition topics_stress :: "interview_topic list" where
  "topics_stress = topics LD_STRESS KK_DECISION_PREFERENCE
    [(''support'', ''When life goes sideways, how should I help?''),
     (''tradeoffs'', ''After bad sleep, late work, low energy, missed tasks, or an urgent family issue, what gets dropped first and what stays protected?'')]"

definition topics_anti_goals :: "interview_topic list" where
  "topics_anti_goals = topics LD_ANTI_GOALS KK_ANTI_GOAL
    [(''boundaries'', ''What do you not want your life to become?'')]"

definition topics_trust :: "interview_topic list" where
  "topics_trust = topics LD_TRUST KK_TRUST_PREFERENCE
    [(''trust'', ''What would make you trust me, and what would make you stop using me?''),
     (''never'', ''What should I never do, and which decisions should always remain yours?''),
     (''challenge'', ''Where do you want me to challenge you, and where should I stay out of the way?'')]"

definition TOPICS :: "interview_topic list" where
  "TOPICS = topics_identity @ topics_responsibilities @ topics_work @ topics_finances
     @ topics_education @ topics_relationships @ topics_values @ topics_goals @ topics_routines
     @ topics_energy @ topics_wellness @ topics_habits @ topics_logistics @ topics_projects
     @ topics_open_loops @ topics_now @ topics_planning @ topics_autonomy
     @ topics_communication @ topics_stress @ topics_anti_goals @ topics_trust"

text \<open>\<open>next(t for t in TOPICS if t.key == key)\<close>; the keys the source names are all there.\<close>

definition topic_named :: "string \<Rightarrow> interview_topic" where
  "topic_named key = hd (filter (\<lambda>t. it_key t = key) TOPICS)"

definition WEEK_PLANNING_TOPICS :: "interview_topic list" where
  "WEEK_PLANNING_TOPICS =
     [\<lparr>it_key = ''work.role'', it_domain = LD_WORK, it_kind = KK_FACT,
        it_prompt = ''What is your current employment situation?'',
        it_staleness_days = Some 7, it_importance = 5\<rparr>]
     @ [\<lparr>it_key = ''work.schedule'', it_domain = LD_WORK, it_kind = KK_FACT,
        it_prompt = ''For the next seven days, which dates will you work, and what are the start and end times? Include your timezone and any commute or preparation time.'',
        it_staleness_days = Some 7, it_importance = 5\<rparr>]
     @ [\<lparr>it_key = ''planning.fixed_commitments'', it_domain = LD_PLANNING, it_kind = KK_COMMITMENT,
        it_prompt = ''What fixed commitments in the next seven days are missing from your digital calendar? Include dates, times, and travel.'',
        it_staleness_days = Some 7, it_importance = 5\<rparr>]
     @ [\<lparr>it_key = ''values.commitments'', it_domain = LD_VALUES, it_kind = KK_COMMITMENT,
        it_prompt = ''Which community or spiritual commitments are current this week, and what are their dates and times?'',
        it_staleness_days = Some 7, it_importance = 5\<rparr>]
     @ map topic_named [''education.program'', ''education.classes'', ''routines.sleep'', ''routines.exercise'', ''routines.meals'', ''projects.inventory'', ''now.success'']
     @ [\<lparr>it_key = ''open_loops.known'', it_domain = LD_OPEN_LOOPS, it_kind = KK_OPEN_LOOP,
        it_prompt = ''Let's reconcile the tasks already in your inbox. Which are still active, done, or no longer needed? We will clarify them before scheduling.'',
        it_staleness_days = Some 90, it_importance = 5\<rparr>]
     @ map topic_named [''open_loops.head'', ''open_loops.promises'', ''open_loops.avoiding'', ''open_loops.bothering'', ''open_loops.away'', ''open_loops.else'']"


lemmas topics_defs = topics_def topics_identity_def topics_responsibilities_def topics_work_def topics_finances_def topics_education_def topics_relationships_def topics_values_def topics_goals_def topics_routines_def topics_energy_def topics_wellness_def topics_habits_def topics_logistics_def topics_projects_def topics_open_loops_def topics_now_def topics_planning_def topics_autonomy_def topics_communication_def topics_stress_def topics_anti_goals_def topics_trust_def

lemma topic_count: "length TOPICS = 107" "length WEEK_PLANNING_TOPICS = 18"
  by (simp_all add: TOPICS_def WEEK_PLANNING_TOPICS_def topics_defs)

end
