(* ===== verification/Life_Model.thy ===== *)
theory Life_Model
  imports Memory_Repository
begin

text \<open>
  \<open>life_model.py\<close>: purpose-limited views of the governed memories.  The clock of the repository, which decides what has expired, and
  the moment a view is asked for are separate arguments, as in the source.
\<close>

section \<open>Views\<close>

text \<open>The \<open>float\<close> 0.8\<close>

definition MIN_CONFIDENCE :: rat where "MIN_CONFIDENCE = 3602879701896397 / 4503599627370496"

record knowledge_view =
  kv_record :: memory_record
  kv_state :: knowledge_state
  kv_current :: bool

fun source_label :: "memory_source \<Rightarrow> string" where
  "source_label MS_USER_STATEMENT = ''You told me this''"
| "source_label MS_USER_CORRECTION = ''You corrected this''"
| "source_label MS_IMPORT = ''This was imported''"
| "source_label MS_CONNECTED_SYSTEM = ''This came from a connected system''"
| "source_label MS_BEHAVIOR = ''This was observed in your activity''"
| "source_label MS_INFERENCE = ''This is an inference you have not confirmed''"
| "source_label MS_CONVERSATION = ''This came from a conversation''"

definition explanation :: "knowledge_view \<Rightarrow> string" where
  "explanation v =
     source_label (mp_source (mr_provenance (kv_record v))) @ '' on '' @ iso_date (date_of (mp_captured_at (mr_provenance (kv_record v)))) @ ''.''
     @ (if kv_state v = KS_CONFLICTED then '' Sources disagree; I need your clarification.''
        else if kv_state v = KS_STALE then '' This may be outdated.'' else [])
     @ (if \<not> kv_current v then '' It does not apply to the current time.'' else [])"

section \<open>Contradictions\<close>

text \<open>\<open>content.casefold().strip()\<close>\<close>

definition same_statement :: "memory_record \<Rightarrow> memory_record \<Rightarrow> bool" where
  "same_statement r s \<longleftrightarrow> py_strip is_space (py_lower (mr_content r)) = py_strip is_space (py_lower (mr_content s))"

definition contradicts :: "datetime \<Rightarrow> memory_record \<Rightarrow> knowledge_details \<Rightarrow> memory_record \<Rightarrow> bool" where
  "contradicts now r details s \<longleftrightarrow> mr_memory_id s \<noteq> mr_memory_id r
     \<and> (case mr_knowledge s of None \<Rightarrow> False | Some k \<Rightarrow>
          kd_key k = kd_key details \<and> kd_cardinality k = CARD_ONE \<and> current_at k now \<and> kd_superseded_by k = None
          \<and> kd_state k \<noteq> KS_UNKNOWN \<and> kd_state details \<noteq> KS_UNKNOWN)
     \<and> \<not> same_statement s r"

definition about_subject :: "string \<Rightarrow> memory_record \<Rightarrow> bool" where
  "about_subject subject r = (case mr_knowledge r of None \<Rightarrow> False | Some k \<Rightarrow> kd_subject_id k = subject)"

definition view_of :: "datetime \<Rightarrow> memory_record list \<Rightarrow> memory_record \<Rightarrow> knowledge_details \<Rightarrow> knowledge_view" where
  "view_of now records r k =
     (let current = current_at k now \<and> kd_superseded_by k = None
      in \<lparr>kv_record = r,
          kv_state = if current \<and> kd_cardinality k = CARD_ONE \<and> list_ex (contradicts now r k) records then KS_CONFLICTED else effective_state k now,
          kv_current = current\<rparr>)"

definition views_of :: "datetime \<Rightarrow> memory_record list \<Rightarrow> knowledge_view list" where
  "views_of now records = concat (map (\<lambda>r. case mr_knowledge r of None \<Rightarrow> [] | Some k \<Rightarrow> [view_of now records r k]) records)"

text \<open>\<open>require_aware(now)\<close> is reached with the first record.\<close>

definition knowledge :: "store_env \<Rightarrow> datetime \<Rightarrow> string \<Rightarrow> retrieval_scope \<Rightarrow> datetime \<Rightarrow> store_db \<Rightarrow> store_error + knowledge_view list" where
  "knowledge env clock subject scope now db =
     ebind (retrieve env clock scope db) (\<lambda>all.
       let records = filter (about_subject subject) all in
       if records \<noteq> [] \<and> is_naive now then Inl (StoreValueError ''knowledge timestamps must be timezone-aware'')
       else Inr (views_of now records))"

definition planning_view :: "knowledge_view \<Rightarrow> bool" where
  "planning_view v =
     (case mr_knowledge (kv_record v) of None \<Rightarrow> False | Some k \<Rightarrow>
        SCOPE_PLANNING \<in> mr_retrieval_scopes (kv_record v) \<and> kd_planning_allowed k \<and> kd_sensitivity k \<noteq> RESTRICTED \<and> kv_current v
        \<and> kv_state v \<in> {KS_CONFIRMED, KS_OBSERVED} \<and> MIN_CONFIDENCE \<le> mr_confidence (kv_record v)
        \<and> kd_kind k \<notin> {KK_OPEN_LOOP, KK_QUESTION, KK_TRUST_PREFERENCE})"

definition planning_knowledge :: "store_env \<Rightarrow> datetime \<Rightarrow> string \<Rightarrow> datetime \<Rightarrow> store_db \<Rightarrow> store_error + knowledge_view list" where
  "planning_knowledge env clock subject now db = ebind (knowledge env clock subject SCOPE_PRIVATE now db) (\<lambda>views. Inr (filter planning_view views))"

section \<open>What planning sees\<close>

lemma views_of_members:
  "v \<in> set (views_of now records) \<longleftrightarrow> (\<exists>r k. r \<in> set records \<and> mr_knowledge r = Some k \<and> v = view_of now records r k)"
  by (force simp: views_of_def split: option.splits)

lemma authorized_records_members:
  "authorized_records scope now rs = Inr out \<Longrightarrow> r \<in> set out \<longleftrightarrow> r \<in> set rs \<and> scope \<in> mr_retrieval_scopes r \<and> memory_unexpired now r = Inr True"
  by (induction rs arbitrary: out) (fastforce simp: ebind_Inr_iff split: if_splits)+

text \<open>The records the owner can see under a scope.\<close>

definition visible :: "datetime \<Rightarrow> retrieval_scope \<Rightarrow> store_db \<Rightarrow> memory_record set" where
  "visible clock scope db = {r \<in> mw_content_json ` set (st_memories db). scope \<in> mr_retrieval_scopes r \<and> memory_unexpired clock r = Inr True}"

lemma retrieve_visible:
  assumes "retrieve env clock scope db = Inr out"
  shows "set out = visible clock scope db"
proof -
  from assms obtain rs where rs: "emapM (read_cell env) (memory_rows db) = Inr rs" and out: "authorized_records scope clock rs = Inr out"
    by (auto simp: retrieve_def ebind_Inr_iff)
  from emapM_Inr_map [OF rs] have "list_all2 (\<lambda>row r. r = mw_content_json row) (memory_rows db) rs"
    by (rule list.rel_mono_strong) (auto simp: read_cell_def split: if_splits)
  then have "rs = map mw_content_json (memory_rows db)" by (induction rule: list_all2_induct) auto
  with authorized_records_members [OF out] show ?thesis by (auto simp: visible_def memory_rows_def)
qed

text \<open>
  C28: planning sees a record exactly when it is released for planning (visible, shared with planning, allowed, not restricted, certain
  enough, of a kind that plans), applies now and is not stale or unconfirmed, and no other assertion of the owner that applies now says
  something else under the same key, whether or not that other assertion is itself released for planning.
\<close>
theorem planning_knowledge_exact:
  assumes "planning_knowledge env clock subject now db = Inr views"
  shows "r \<in> kv_record ` set views \<longleftrightarrow>
    (\<exists>k. r \<in> visible clock SCOPE_PRIVATE db \<and> mr_knowledge r = Some k \<and> kd_subject_id k = subject
       \<and> SCOPE_PLANNING \<in> mr_retrieval_scopes r \<and> kd_planning_allowed k \<and> kd_sensitivity k \<noteq> RESTRICTED \<and> MIN_CONFIDENCE \<le> mr_confidence r
       \<and> kd_kind k \<notin> {KK_OPEN_LOOP, KK_QUESTION, KK_TRUST_PREFERENCE}
       \<and> current_at k now \<and> kd_superseded_by k = None \<and> effective_state k now \<in> {KS_CONFIRMED, KS_OBSERVED}
       \<and> (kd_cardinality k = CARD_ONE \<longrightarrow>
            (\<forall>s j. s \<in> visible clock SCOPE_PRIVATE db \<and> mr_knowledge s = Some j \<and> kd_subject_id j = subject \<and> mr_memory_id s \<noteq> mr_memory_id r
               \<and> kd_key j = kd_key k \<and> kd_cardinality j = CARD_ONE \<and> current_at j now \<and> kd_superseded_by j = None \<and> kd_state j \<noteq> KS_UNKNOWN
               \<longrightarrow> same_statement s r)))"
proof -
  from assms obtain rs where rs: "retrieve env clock SCOPE_PRIVATE db = Inr rs"
    and views: "views = filter planning_view (views_of now (filter (about_subject subject) rs))"
    by (auto simp: planning_knowledge_def knowledge_def ebind_Inr_iff Let_def split: if_splits)
  let ?records = "filter (about_subject subject) rs"
  have vis: "s \<in> set ?records \<longleftrightarrow> s \<in> visible clock SCOPE_PRIVATE db \<and> (\<exists>j. mr_knowledge s = Some j \<and> kd_subject_id j = subject)" for s
    using retrieve_visible [OF rs] by (auto simp: about_subject_def split: option.splits)
  have a: "r \<in> kv_record ` set views \<longleftrightarrow> (\<exists>k. r \<in> set ?records \<and> mr_knowledge r = Some k \<and> planning_view (view_of now ?records r k))"
  proof -
    have same: "kv_record (view_of now ?records s k) = s" for s k by (simp add: view_of_def Let_def)
    have "v \<in> set views \<longleftrightarrow> planning_view v \<and> (\<exists>s k. s \<in> set ?records \<and> mr_knowledge s = Some k \<and> v = view_of now ?records s k)" for v
      unfolding views using views_of_members [of v now ?records] by (auto simp only: set_filter mem_Collect_eq)
    then show ?thesis unfolding image_iff using same by metis
  qed
  have b: "planning_view (view_of now ?records r k) \<longleftrightarrow>
      SCOPE_PLANNING \<in> mr_retrieval_scopes r \<and> kd_planning_allowed k \<and> kd_sensitivity k \<noteq> RESTRICTED \<and> MIN_CONFIDENCE \<le> mr_confidence r
       \<and> kd_kind k \<notin> {KK_OPEN_LOOP, KK_QUESTION, KK_TRUST_PREFERENCE}
       \<and> current_at k now \<and> kd_superseded_by k = None \<and> effective_state k now \<in> {KS_CONFIRMED, KS_OBSERVED}
       \<and> (kd_cardinality k = CARD_ONE \<longrightarrow> \<not> list_ex (contradicts now r k) ?records)" if "mr_knowledge r = Some k" for k
    using that by (auto simp: planning_view_def view_of_def Let_def)
  have c: "list_ex (contradicts now r k) ?records \<longleftrightarrow>
      (\<exists>s j. s \<in> visible clock SCOPE_PRIVATE db \<and> mr_knowledge s = Some j \<and> kd_subject_id j = subject \<and> mr_memory_id s \<noteq> mr_memory_id r
         \<and> kd_key j = kd_key k \<and> kd_cardinality j = CARD_ONE \<and> current_at j now \<and> kd_superseded_by j = None \<and> kd_state j \<noteq> KS_UNKNOWN
         \<and> \<not> same_statement s r)" if "effective_state k now \<in> {KS_CONFIRMED, KS_OBSERVED}" for k
  proof -
    have "kd_state k \<noteq> KS_UNKNOWN" using that by (auto simp: effective_state_def split: if_splits)
    then show ?thesis using vis by (auto simp: list_ex_iff contradicts_def split: option.splits)
  qed
  show ?thesis unfolding a
  proof (rule iff_exI)
    fix k
    show "(r \<in> set ?records \<and> mr_knowledge r = Some k \<and> planning_view (view_of now ?records r k)) \<longleftrightarrow>
      (r \<in> visible clock SCOPE_PRIVATE db \<and> mr_knowledge r = Some k \<and> kd_subject_id k = subject
       \<and> SCOPE_PLANNING \<in> mr_retrieval_scopes r \<and> kd_planning_allowed k \<and> kd_sensitivity k \<noteq> RESTRICTED \<and> MIN_CONFIDENCE \<le> mr_confidence r
       \<and> kd_kind k \<notin> {KK_OPEN_LOOP, KK_QUESTION, KK_TRUST_PREFERENCE}
       \<and> current_at k now \<and> kd_superseded_by k = None \<and> effective_state k now \<in> {KS_CONFIRMED, KS_OBSERVED}
       \<and> (kd_cardinality k = CARD_ONE \<longrightarrow>
            (\<forall>s j. s \<in> visible clock SCOPE_PRIVATE db \<and> mr_knowledge s = Some j \<and> kd_subject_id j = subject \<and> mr_memory_id s \<noteq> mr_memory_id r
               \<and> kd_key j = kd_key k \<and> kd_cardinality j = CARD_ONE \<and> current_at j now \<and> kd_superseded_by j = None \<and> kd_state j \<noteq> KS_UNKNOWN
               \<longrightarrow> same_statement s r)))"
    proof (cases "mr_knowledge r = Some k \<and> effective_state k now \<in> {KS_CONFIRMED, KS_OBSERVED}")
      case True
      have m: "r \<in> set ?records \<longleftrightarrow> r \<in> visible clock SCOPE_PRIVATE db \<and> kd_subject_id k = subject" using vis [of r] True by auto
      show ?thesis unfolding m b [OF conjunct1 [OF True]] c [OF conjunct2 [OF True]] by blast
    next
      case False
      then show ?thesis using b [of k] by blast
    qed
  qed
qed

definition ex_assertion :: knowledge_details where
  "ex_assertion = \<lparr>kd_subject_id = ''owner'', kd_key = ''work.role'', kd_cardinality = CARD_ONE, kd_domain = LD_WORK, kd_kind = KK_FACT,
     kd_state = KS_CONFIRMED, kd_observed_at = utc_datetime 1, kd_last_confirmed_at = Some (utc_datetime 1), kd_valid_from = Some (utc_datetime 1),
     kd_valid_until = None, kd_expected_staleness_days = Some 7, kd_sensitivity = PERSONAL, kd_importance = 5, kd_related_entity_ids = [],
     kd_related_goal_ids = [], kd_related_project_ids = [], kd_evidence_ids = [], kd_conflicts_with = [], kd_planning_allowed = True,
     kd_source_evidence = None, kd_superseded_by = None, kd_routine = None, kd_pending_confirmation = None, kd_project = None, kd_open_loop = None\<rparr>"

definition ex_known :: memory_record where
  "ex_known = \<lparr>mr_memory_id = ''m1'', mr_category = MC_PROFILE, mr_content = ''Nurse'',
     mr_provenance = \<lparr>mp_source = MS_USER_STATEMENT, mp_source_id = ''chat'', mp_captured_at = utc_datetime 1\<rparr>,
     mr_confidence = 1, mr_retrieval_scopes = {SCOPE_PRIVATE, SCOPE_PLANNING}, mr_created_at = utc_datetime 1, mr_retain_until = None, mr_revision = 1,
     mr_knowledge = Some ex_assertion, mr_interview = None\<rparr>"

definition ex_rival :: memory_record where
  "ex_rival = ex_known\<lparr>mr_memory_id := ''m2'', mr_content := ''Pilot'', mr_retrieval_scopes := {SCOPE_PRIVATE},
     mr_knowledge := Some (ex_assertion\<lparr>kd_planning_allowed := False\<rparr>)\<rparr>"

definition ex_store_of :: "memory_record list \<Rightarrow> store_db" where
  "ex_store_of rs = domain_db.extend new_domain_db \<lparr>st_memories = map (\<lambda>r. \<lparr>mw_memory_id = mr_memory_id r, mw_revision = mr_revision r,
     mw_retain_until = None, mw_content_json = r, mw_created_at = ''t''\<rparr>) rs, st_memory_tombstones = [], st_backups = [],
     st_backup_records = [], st_backup_coverage = []\<rparr>"

definition ex_store_env :: store_env where
  "ex_store_env = \<lparr>dump_record = record_id, parse_record = (\<lambda>_. None), repo_hmac = (\<lambda>key text. ''h''), audit_key = ''key'',
     dump_memory = mr_content, zone_known = (\<lambda>_. True)\<rparr>"

lemma ex_planned: "planning_knowledge ex_store_env (utc_datetime 2) ''owner'' (utc_datetime 2) (ex_store_of [ex_known])
   = Inr [\<lparr>kv_record = ex_known, kv_state = KS_CONFIRMED, kv_current = True\<rparr>]"
  by code_simp

lemma ex_withheld: "planning_knowledge ex_store_env (utc_datetime 2) ''owner'' (utc_datetime 2) (ex_store_of [ex_known, ex_rival]) = Inr []"
  by code_simp

theorem planning_knowledge_exact_witness:
  "ex_known \<in> visible (utc_datetime 2) SCOPE_PRIVATE (ex_store_of [ex_known]) \<and> effective_state ex_assertion (utc_datetime 2) = KS_CONFIRMED
   \<and> planning_knowledge ex_store_env (utc_datetime 2) ''owner'' (utc_datetime 2) (ex_store_of [ex_known, ex_rival]) = Inr []"
proof -
  from planning_knowledge_exact [OF ex_planned, of ex_known] have "ex_known \<in> visible (utc_datetime 2) SCOPE_PRIVATE (ex_store_of [ex_known])" by simp
  moreover have "effective_state ex_assertion (utc_datetime 2) = KS_CONFIRMED" by code_simp
  ultimately show ?thesis using ex_withheld by simp
qed

end
