(* ===== verification/Life_Interview.thy ===== *)
theory Life_Interview
  imports Interview_Extraction Interview_Catalog Life_Model
begin

text \<open>
  \<open>life_interview.py\<close>: the interview over the governed memories.  The subject, the identity of its session (a UUID5 of the subject), the
  time zone and the clock of the repository are parameters; a fresh UUID4 is an argument of the operations that may need one.
  \<open>TransitionContext\<close> has no time zone of its own, so that the zone is always the one of the interview.  \<open>StoreValidationError\<close> is
  what pydantic and the validators of the models raise.
\<close>

record interview_env = store_env +
  iv_subject_id :: string
  iv_session_id :: string
  iv_timezone :: string
  iv_clock :: datetime

abbreviation store_of :: "interview_env \<Rightarrow> store_env" where "store_of env \<equiv> store_env.truncate env"

definition MAX_ANSWER_CHARACTERS :: nat where "MAX_ANSWER_CHARACTERS = 8000"

definition CONFIRM_PHRASES :: "string list" where
  "CONFIRM_PHRASES = [''yes'', ''yep'', ''yeah'', ''yup'', ''correct'', ''right'', ''exactly'', ''confirmed'', ''confirm'', ''that's right'',
     ''that is right'', ''that's correct'', ''that is correct'', ''sounds right'', ''sounds good'', ''looks good'', ''looks right'', ''sure'',
     ''ok'', ''okay'', ''fine'', ''good'', ''yes that's right'', ''yes correct'', ''yes that's correct'', ''that works'', ''works for me'',
     ''perfect'']"

section \<open>Routine drafts\<close>

record routine_fields =
  rf_days :: "int set option"
  rf_start_time :: "time_of_day option"
  rf_duration_minutes :: "int option"
  rf_travel_minutes :: "int option"
  rf_preparation_minutes :: "int option"
  rf_transition_minutes :: "int option"
  rf_flexibility :: "routine_flexibility option"
  rf_timezone :: string

definition nonzero :: "int \<Rightarrow> int option" where "nonzero n = (if n = 0 then None else Some n)"

definition extract_routine_fields :: "string \<Rightarrow> string \<Rightarrow> store_error + routine_fields" where
  "extract_routine_fields zone answer =
     (let lowered = py_lower answer in
      ebind (extract_duration lowered) (\<lambda>duration.
      ebind (extract_minutes lowered TRAVEL_KEYWORDS) (\<lambda>travel.
      ebind (extract_minutes lowered PREPARATION_KEYWORDS) (\<lambda>preparation.
      ebind (extract_minutes lowered TRANSITION_KEYWORDS) (\<lambda>transition.
        Inr \<lparr>rf_days = extract_days lowered, rf_start_time = extract_start_time lowered, rf_duration_minutes = duration,
             rf_travel_minutes = nonzero travel, rf_preparation_minutes = nonzero preparation, rf_transition_minutes = nonzero transition,
             rf_flexibility = (if extract_flexibility lowered \<noteq> RF_PREFERRED \<or> split_once ''preferred'' lowered \<noteq> None
               then Some (extract_flexibility lowered) else None),
             rf_timezone = zone\<rparr>)))))"

definition or_else :: "'a option \<Rightarrow> 'a \<Rightarrow> 'a" where "or_else v d = (case v of None \<Rightarrow> d | Some x \<Rightarrow> x)"

definition or_option :: "'a option \<Rightarrow> 'a option \<Rightarrow> 'a option" where "or_option v w = (case v of None \<Rightarrow> w | Some x \<Rightarrow> Some x)"

text \<open>\<open>RoutineDraft.model_validate(previous | fields)\<close>, and the defaults where there is no earlier draft.\<close>

definition merge_draft :: "routine_draft \<Rightarrow> routine_fields \<Rightarrow> store_error + routine_draft" where
  "merge_draft d f =
     (let d' = \<lparr>dr_days = or_option (rf_days f) (dr_days d), dr_start_time = or_option (rf_start_time f) (dr_start_time d),
        dr_duration_minutes = or_option (rf_duration_minutes f) (dr_duration_minutes d), dr_timezone = rf_timezone f,
        dr_flexibility = or_else (rf_flexibility f) (dr_flexibility d), dr_travel_minutes = or_else (rf_travel_minutes f) (dr_travel_minutes d),
        dr_preparation_minutes = or_else (rf_preparation_minutes f) (dr_preparation_minutes d),
        dr_transition_minutes = or_else (rf_transition_minutes f) (dr_transition_minutes d)\<rparr>
      in if valid_routine_draft d' then Inr d' else Inl StoreValidationError)"

definition empty_draft :: "string \<Rightarrow> routine_draft" where
  "empty_draft zone = \<lparr>dr_days = None, dr_start_time = None, dr_duration_minutes = None, dr_timezone = zone, dr_flexibility = RF_PREFERRED,
     dr_travel_minutes = 0, dr_preparation_minutes = 0, dr_transition_minutes = 0\<rparr>"

definition build_routine :: "string \<Rightarrow> routine_fields \<Rightarrow> store_error + routine_draft" where
  "build_routine zone f = merge_draft (empty_draft zone) f"

definition parse_routine :: "string \<Rightarrow> string \<Rightarrow> store_error + routine_draft" where
  "parse_routine zone answer = ebind (extract_routine_fields zone answer) (build_routine zone)"

text \<open>\<open>RoutineDetails.model_validate(pending.model_dump())\<close>: the fields a draft lacks are required.\<close>

definition details_of_draft :: "(string \<Rightarrow> bool) \<Rightarrow> routine_draft \<Rightarrow> store_error + routine_details" where
  "details_of_draft known d =
     (case (dr_days d, dr_duration_minutes d) of
        (Some days, Some duration) \<Rightarrow>
          let r = \<lparr>rt_days = days, rt_start_time = dr_start_time d, rt_duration_minutes = duration, rt_timezone = dr_timezone d,
            rt_flexibility = dr_flexibility d, rt_desired = False, rt_location_id = None, rt_travel_minutes = dr_travel_minutes d,
            rt_preparation_minutes = dr_preparation_minutes d, rt_transition_minutes = dr_transition_minutes d,
            rt_minimum_weekly_frequency = 0, rt_priority = 5, rt_can_move = False, rt_dependency_ids = []\<rparr>
          in if valid_routine known r then Inr r else Inl StoreValidationError
      | _ \<Rightarrow> Inl StoreValidationError)"

text \<open>\<open>strftime("%I:%M %p").lstrip("0")\<close>\<close>

definition spoken_time :: "time_of_day \<Rightarrow> string" where
  "spoken_time t =
     (let h = td_hour t mod 12
      in dropWhile (\<lambda>c. c = CHR ''0'') (pad 2 (nat (if h = 0 then 12 else h)) @ '':'' @ pad 2 (nat (td_minute t))
           @ (if td_hour t < 12 then '' AM'' else '' PM'')))"

definition day_name :: "int \<Rightarrow> store_error + string" where
  "day_name i = (if 0 \<le> i \<and> i < 7 then Inr (DAY_NAMES ! nat i) else Inl (StoreKeyError (str_int i)))"

definition routine_summary :: "routine_draft \<Rightarrow> store_error + string" where
  "routine_summary d =
     ebind (emapM day_name (sorted_list_of_set (or_else (dr_days d) {}))) (\<lambda>names.
       let days = join '', '' names;
           start = (case dr_start_time d of None \<Rightarrow> ''unspecified time'' | Some t \<Rightarrow> spoken_time t)
       in Inr (join ''; '' (
         [(if days = [] then ''unspecified days'' else days) @ '' at '' @ start]
         @ (case dr_duration_minutes d of None \<Rightarrow> [] | Some n \<Rightarrow> [str_int n @ '' minutes''])
         @ map (\<lambda>(name, n). str_int n @ '' minutes '' @ name) (filter (\<lambda>(name, n). n \<noteq> 0)
             [(''travel'', dr_travel_minutes d), (''preparation'', dr_preparation_minutes d), (''transition'', dr_transition_minutes d)])
         @ [flexibility_value (dr_flexibility d) @ '' timing; timezone '' @ dr_timezone d]
         @ (if draft_missing d = [] then [] else [''Still needed: '' @ join '', '' (draft_missing d)]))))"

section \<open>Questions\<close>

datatype question_mode = ASK | REVIEW | PERMISSION | CONFIRM

record interview_question =
  iq_key :: string
  iq_domain :: life_domain
  iq_prompt :: string
  iq_mode :: question_mode
  iq_evidence_ids :: "string list"

definition view_details :: "knowledge_view \<Rightarrow> knowledge_details option" where
  "view_details v = mr_knowledge (kv_record v)"

definition details_hold :: "knowledge_view \<Rightarrow> (knowledge_details \<Rightarrow> bool) \<Rightarrow> bool" where
  "details_hold v P = (case view_details v of None \<Rightarrow> False | Some k \<Rightarrow> P k)"

definition find_topic :: "string \<Rightarrow> store_error + interview_topic" where
  "find_topic key = (case find (\<lambda>t. it_key t = key) (WEEK_PLANNING_TOPICS @ TOPICS) of None \<Rightarrow> Inl StoreStopIteration | Some t \<Rightarrow> Inr t)"

definition topics_of :: "interview_progress \<Rightarrow> interview_topic list" where
  "topics_of p = (if ip_objective p = WEEK_PLANNING then WEEK_PLANNING_TOPICS else TOPICS)"

text \<open>A view that waits for a confirmation under the key, with its draft.\<close>

definition pending_draft :: "string \<Rightarrow> knowledge_view \<Rightarrow> routine_draft option" where
  "pending_draft key v =
     (case view_details v of None \<Rightarrow> None | Some k \<Rightarrow> if kd_key k = key then kd_pending_confirmation k else None)"

definition pending_question :: "string \<Rightarrow> knowledge_view \<Rightarrow> routine_draft \<Rightarrow> store_error + interview_question" where
  "pending_question key v d =
     ebind (find_topic key) (\<lambda>topic.
     ebind (routine_summary d) (\<lambda>summary.
       Inr \<lparr>iq_key = it_key topic, iq_domain = it_domain topic,
         iq_prompt = ''I understood: '' @ summary @ ''. Is this correct? ''
           @ ''Say 'yes' to confirm these details and allow planning, '' @ ''or tell me what to change.'',
         iq_mode = CONFIRM, iq_evidence_ids = [mr_memory_id (kv_record v)]\<rparr>))"

definition relevant_views :: "string \<Rightarrow> knowledge_view list \<Rightarrow> knowledge_view list" where
  "relevant_views key views =
     (if key = ''open_loops.known''
      then filter (\<lambda>v. details_hold v (\<lambda>k. kd_kind k = KK_OPEN_LOOP \<and> kd_superseded_by k = None)) views
      else filter (\<lambda>v. details_hold v (\<lambda>k. kd_key k = key \<and> kd_superseded_by k = None
             \<and> (kv_current v \<or> kd_source_evidence k \<noteq> None))) views)"

definition authoritative :: "knowledge_view \<Rightarrow> bool" where
  "authoritative v \<longleftrightarrow> kv_current v \<and> mp_source (mr_provenance (kv_record v)) \<in> {MS_USER_STATEMENT, MS_USER_CORRECTION, MS_CONNECTED_SYSTEM}
     \<and> kv_state v \<in> {KS_CONFIRMED, KS_OBSERVED}"

definition settled :: "knowledge_view \<Rightarrow> bool" where
  "settled v \<longleftrightarrow> kv_current v \<and> kv_state v = KS_CONFIRMED \<and> MIN_CONFIDENCE \<le> mr_confidence (kv_record v)"

definition review_prompt :: "knowledge_view list \<Rightarrow> interview_topic \<Rightarrow> string" where
  "review_prompt vs topic = ''I'd like to check something rather than assume. ''
     @ join '' '' (map (\<lambda>v. explanation v @ '' The note says: '' @ [CHR 0xE2, CHR 0x80, CHR 0x9C] @ mr_content (kv_record v)
         @ [CHR 0xE2, CHR 0x80, CHR 0x9D] @ ''.'') vs)
     @ '' '' @ it_prompt topic"

text \<open>What one topic contributes: nothing when it is skipped or settled.\<close>

definition topic_question :: "interview_progress \<Rightarrow> knowledge_view list \<Rightarrow> interview_topic \<Rightarrow> interview_question option" where
  "topic_question p views topic =
     (if it_key topic \<in> ip_skipped_keys p \<or> it_domain topic \<in> ip_skipped_domains p then None
      else let found = relevant_views (it_key topic) views in
      if it_key topic = ''open_loops.known'' \<and> (ip_last_question_key p = Some (it_key topic) \<or> found = []) then None
      else let relevant = (if filter authoritative found \<noteq> [] then filter authoritative found else found) in
      if (it_domain topic \<in> SENSITIVE_DOMAINS \<or> list_ex (\<lambda>v. details_hold v (\<lambda>k. kd_sensitivity k \<noteq> PERSONAL)) relevant)
         \<and> it_domain topic \<notin> ip_permitted_domains p
      then Some \<lparr>iq_key = ''permission.'' @ life_domain_value (it_domain topic), iq_domain = it_domain topic,
        iq_prompt = ''May I use your saved '' @ life_domain_value (it_domain topic) @ '' context? ''
          @ ''It's optional. Say yes or skip; you can leave out any details.'',
        iq_mode = PERMISSION, iq_evidence_ids = []\<rparr>
      else if relevant \<noteq> [] \<and> list_all settled relevant \<and> (it_key topic \<noteq> ''open_loops.else'' \<or> ip_sweep_complete p) then None
      else if relevant \<noteq> [] \<and> it_key topic \<noteq> ''open_loops.else''
      then Some \<lparr>iq_key = it_key topic, iq_domain = it_domain topic, iq_prompt = review_prompt (take 3 relevant) topic, iq_mode = REVIEW,
        iq_evidence_ids = map (\<lambda>v. mr_memory_id (kv_record v)) (take 3 relevant)\<rparr>
      else Some \<lparr>iq_key = it_key topic, iq_domain = it_domain topic, iq_prompt = it_prompt topic, iq_mode = ASK, iq_evidence_ids = []\<rparr>)"

fun first_question :: "interview_progress \<Rightarrow> knowledge_view list \<Rightarrow> interview_topic list \<Rightarrow> interview_question option" where
  "first_question p views [] = None"
| "first_question p views (t # ts) = (case topic_question p views t of None \<Rightarrow> first_question p views ts | Some q \<Rightarrow> Some q)"

fun first_pending :: "string \<Rightarrow> knowledge_view list \<Rightarrow> (knowledge_view \<times> routine_draft) option" where
  "first_pending key [] = None"
| "first_pending key (v # vs) = (case pending_draft key v of None \<Rightarrow> first_pending key vs | Some d \<Rightarrow> Some (v, d))"

definition question_from :: "interview_progress \<Rightarrow> knowledge_view list \<Rightarrow> store_error + interview_question option" where
  "question_from p views =
     (case Option.bind (ip_pending_confirmation_key p) (\<lambda>key. map_option (\<lambda>(v, d). (key, v, d)) (first_pending key views)) of
        Some (key, v, d) \<Rightarrow> ebind (pending_question key v d) (\<lambda>q. Inr (Some q))
      | None \<Rightarrow> Inr (first_question p views (topics_of p)))"

definition interview_views :: "interview_env \<Rightarrow> datetime \<Rightarrow> store_db \<Rightarrow> store_error + knowledge_view list" where
  "interview_views env now db = knowledge (store_of env) (iv_clock env) (iv_subject_id env) SCOPE_PRIVATE now db"

definition question :: "interview_env \<Rightarrow> interview_progress \<Rightarrow> datetime \<Rightarrow> store_db \<Rightarrow> store_error + interview_question option" where
  "question env p now db =
     (if ip_phase p = PAUSED then Inr None else ebind (interview_views env now db) (question_from p))"

section \<open>Memory access\<close>

definition look :: "(store_db \<Rightarrow> store_error + 'a) \<Rightarrow> 'a memory_action" where
  "look f = aread (\<lambda>c. f (current c))"

definition private_records :: "interview_env \<Rightarrow> memory_record list memory_action" where
  "private_records env = look (retrieve (store_of env) (iv_clock env) SCOPE_PRIVATE)"

text \<open>\<open>{r.memory_id: r for r in ..}\<close>\<close>

definition record_in :: "memory_record list \<Rightarrow> string \<Rightarrow> memory_record option" where
  "record_in rs i = find (\<lambda>r. mr_memory_id r = i) (rev rs)"

definition the_record :: "memory_record list \<Rightarrow> string \<Rightarrow> store_error + memory_record" where
  "the_record rs i = (case record_in rs i of None \<Rightarrow> Inl (StoreKeyError i) | Some r \<Rightarrow> Inr r)"

definition interview_provenance :: "transition_context \<Rightarrow> bool \<Rightarrow> memory_provenance" where
  "interview_provenance ctx correction = \<lparr>mp_source = (if correction then MS_USER_CORRECTION else MS_USER_STATEMENT),
     mp_source_id = ''interview:'' @ ctx_correlation_id ctx, mp_captured_at = ctx_occurred_at ctx\<rparr>"

text \<open>\<open>memory.correct(id, MemoryCorrection(..), context)\<close>\<close>

definition correct :: "interview_env \<Rightarrow> string \<Rightarrow> memory_correction \<Rightarrow> transition_context \<Rightarrow> memory_record memory_action" where
  "correct env i c ctx = (if valid_correction c then correct_memory (store_of env) i c ctx else araise StoreValidationError)"

definition find_session :: "interview_env \<Rightarrow> memory_record list \<Rightarrow> memory_record option" where
  "find_session env rs = find (\<lambda>r. mr_memory_id r = iv_session_id env \<and> mr_interview r \<noteq> None) rs"

definition interview_session :: "interview_env \<Rightarrow> memory_record option memory_action" where
  "interview_session env = abind (private_records env) (\<lambda>rs. areturn (find_session env rs))"

section \<open>Replies\<close>

record domain_progress =
  dp_domain :: life_domain
  dp_known :: nat
  dp_total :: nat
  dp_skipped :: bool

record interview_reply =
  ir_session_id :: string
  ir_revision :: int
  ir_phase :: interview_phase
  ir_question :: "interview_question option"
  ir_progress :: "domain_progress list"
  ir_acknowledgment :: string

definition known_keys :: "knowledge_view list \<Rightarrow> string list" where
  "known_keys views = concat (map (\<lambda>v. case view_details v of None \<Rightarrow> [] | Some k \<Rightarrow> if settled v then [kd_key k] else []) views)"

definition domain_progress_of :: "interview_progress \<Rightarrow> knowledge_view list \<Rightarrow> life_domain \<Rightarrow> domain_progress" where
  "domain_progress_of p views d = \<lparr>dp_domain = d,
     dp_known = length (filter (\<lambda>t. it_domain t = d \<and> it_key t \<in> set (known_keys views)) TOPICS),
     dp_total = length (filter (\<lambda>t. it_domain t = d) TOPICS), dp_skipped = d \<in> ip_skipped_domains p\<rparr>"

definition reply_from :: "interview_env \<Rightarrow> memory_record \<Rightarrow> datetime \<Rightarrow> string \<Rightarrow> store_db \<Rightarrow> store_error + interview_reply" where
  "reply_from env s now acknowledgment db =
     (case mr_interview s of
        None \<Rightarrow> Inl (StoreValueError ''invalid interview state'')
      | Some p \<Rightarrow>
          ebind (interview_views env now db) (\<lambda>views.
          ebind (question env p now db) (\<lambda>q.
            Inr \<lparr>ir_session_id = mr_memory_id s, ir_revision = mr_revision s, ir_phase = ip_phase p, ir_question = q,
              ir_progress = map (domain_progress_of p views) life_domains, ir_acknowledgment = acknowledgment\<rparr>)))"

definition reply :: "interview_env \<Rightarrow> memory_record \<Rightarrow> datetime \<Rightarrow> string \<Rightarrow> interview_reply memory_action" where
  "reply env s now acknowledgment = look (reply_from env s now acknowledgment)"

section \<open>Beginning\<close>

definition new_progress :: "string \<Rightarrow> objective \<Rightarrow> interview_progress" where
  "new_progress subject objective = \<lparr>ip_subject_id = subject, ip_objective = objective, ip_phase = ACTIVE, ip_skipped_keys = {},
     ip_permitted_domains = {}, ip_skipped_domains = {}, ip_last_question_key = None, ip_pending_confirmation_key = None,
     ip_sweep_complete = False\<rparr>"

definition new_interview_session :: "interview_env \<Rightarrow> objective \<Rightarrow> transition_context \<Rightarrow> memory_record" where
  "new_interview_session env objective ctx = \<lparr>mr_memory_id = iv_session_id env, mr_category = MC_INTERVIEW, mr_content = ''Know Me interview'',
     mr_provenance = interview_provenance ctx False, mr_confidence = 1, mr_retrieval_scopes = {SCOPE_PRIVATE},
     mr_created_at = ctx_occurred_at ctx, mr_retain_until = None, mr_revision = 1, mr_knowledge = None,
     mr_interview = Some (new_progress (iv_subject_id env) objective)\<rparr>"

definition session_correction :: "memory_record \<Rightarrow> interview_progress \<Rightarrow> transition_context \<Rightarrow> memory_correction" where
  "session_correction s p ctx = \<lparr>mx_expected_revision = mr_revision s, mx_content = mr_content s,
     mx_provenance = interview_provenance ctx False, mx_confidence = 1, mx_retrieval_scopes = mr_retrieval_scopes s, mx_retain_until = None,
     mx_knowledge = None, mx_interview = Some p\<rparr>"

definition begin_interview :: "interview_env \<Rightarrow> objective option \<Rightarrow> transition_context \<Rightarrow> interview_reply memory_action" where
  "begin_interview env objective ctx =
     abind (interview_session env) (\<lambda>found.
     abind (case found of
         None \<Rightarrow>
           let s = new_interview_session env (or_else objective UNDERSTANDING) ctx
           in abind (remember (store_of env) s ctx) (\<lambda>_. areturn s)
       | Some s \<Rightarrow>
           (case (objective, mr_interview s) of
              (Some g, Some p) \<Rightarrow>
                if ip_objective p \<noteq> g
                then correct env (mr_memory_id s) (session_correction s (p\<lparr>ip_objective := g, ip_phase := ACTIVE\<rparr>) ctx) ctx
                else areturn s
            | _ \<Rightarrow> areturn s)) (\<lambda>s.
       reply env s (ctx_occurred_at ctx) ''We can take this at your pace.''))"

section \<open>Saving answers\<close>

definition answer_words :: "string \<Rightarrow> string" where
  "answer_words clean = rev (dropWhile (\<lambda>c. c \<in> {CHR ''.'', CHR ''!'', CHR ''?''}) (rev (py_lower clean)))"

definition is_unknown :: "string \<Rightarrow> bool" where
  "is_unknown clean \<longleftrightarrow> answer_words clean \<in> {''i don't know'', ''not sure'', ''unknown''}"

definition answer_details :: "interview_env \<Rightarrow> interview_topic \<Rightarrow> string \<Rightarrow> transition_context \<Rightarrow> knowledge_details" where
  "answer_details env topic clean ctx =
     \<lparr>kd_subject_id = iv_subject_id env, kd_key = it_key topic,
      kd_cardinality = (if it_kind topic = KK_OPEN_LOOP then CARD_MANY else CARD_ONE), kd_domain = it_domain topic, kd_kind = it_kind topic,
      kd_state = (if is_unknown clean then KS_UNKNOWN else KS_CONFIRMED), kd_observed_at = ctx_occurred_at ctx,
      kd_last_confirmed_at = (if is_unknown clean then None else Some (ctx_occurred_at ctx)), kd_valid_from = Some (ctx_occurred_at ctx),
      kd_valid_until = None, kd_expected_staleness_days = (if it_domain topic = LD_NOW then Some 7 else it_staleness_days topic),
      kd_sensitivity = (if it_domain topic \<in> SENSITIVE_DOMAINS then SENSITIVE else PERSONAL), kd_importance = it_importance topic,
      kd_related_entity_ids = [], kd_related_goal_ids = [], kd_related_project_ids = [], kd_evidence_ids = [], kd_conflicts_with = [],
      kd_planning_allowed = False, kd_source_evidence = None, kd_superseded_by = None, kd_routine = None, kd_pending_confirmation = None,
      kd_project = None, kd_open_loop = (if it_kind topic = KK_OPEN_LOOP then Some new_open_loop else None)\<rparr>"

record answer =
  an_details :: knowledge_details
  an_scopes :: "retrieval_scope set"
  an_confidence :: rat
  an_pending :: bool

text \<open>The assertion an answer makes, before the evidence it reviews is considered.\<close>

definition answer_of :: "interview_env \<Rightarrow> interview_topic \<Rightarrow> string \<Rightarrow> transition_context \<Rightarrow> store_error + answer" where
  "answer_of env topic clean ctx =
     (let details = answer_details env topic clean ctx; scopes = {SCOPE_PRIVATE, SCOPE_CONVERSATION} in
      if \<not> valid_knowledge (zone_known env) details then Inl StoreValidationError
      else if it_kind topic = KK_ROUTINE \<and> \<not> is_unknown clean
      then ebind (parse_routine (iv_timezone env) clean) (\<lambda>draft.
        Inr \<lparr>an_details = details\<lparr>kd_planning_allowed := False, kd_pending_confirmation := Some draft\<rparr>,
          an_scopes = insert SCOPE_PLANNING scopes, an_confidence = 1 / 2, an_pending = True\<rparr>)
      else if it_key topic \<in> {''work.schedule'', ''planning.fixed_commitments''} \<and> \<not> is_unknown clean
      then Inr \<lparr>an_details = details\<lparr>kd_planning_allowed := True\<rparr>, an_scopes = insert SCOPE_PLANNING scopes, an_confidence = 1, an_pending = False\<rparr>
      else Inr \<lparr>an_details = details, an_scopes = scopes, an_confidence = (if is_unknown clean then 0 else 1), an_pending = False\<rparr>)"

definition sensitivities :: "memory_record list \<Rightarrow> sensitivity list" where
  "sensitivities sources = concat (map (\<lambda>r. case mr_knowledge r of None \<Rightarrow> [] | Some k \<Rightarrow> [kd_sensitivity k]) sources)"

text \<open>The scopes a reviewed source allows.\<close>

definition source_scopes :: "memory_record \<Rightarrow> retrieval_scope set" where
  "source_scopes r = (if SCOPE_CONVERSATION \<in> mr_retrieval_scopes r then insert SCOPE_PLANNING (mr_retrieval_scopes r) else mr_retrieval_scopes r)"

definition reviewed :: "memory_record list \<Rightarrow> answer \<Rightarrow> answer" where
  "reviewed sources a =
     (let a' = a\<lparr>an_scopes := foldl (\<lambda>scopes r. scopes \<inter> source_scopes r) (an_scopes a) sources\<rparr> in
      if RESTRICTED \<in> set (sensitivities sources)
      then a'\<lparr>an_details := (an_details a)\<lparr>kd_sensitivity := RESTRICTED\<rparr>, an_scopes := {SCOPE_PRIVATE}\<rparr>
      else if SENSITIVE \<in> set (sensitivities sources)
      then a'\<lparr>an_details := (an_details a)\<lparr>kd_sensitivity := SENSITIVE\<rparr>, an_scopes := {SCOPE_PRIVATE}\<rparr>
      else a')"

definition imported :: "memory_record \<Rightarrow> bool" where
  "imported r = (case mr_knowledge r of None \<Rightarrow> False | Some k \<Rightarrow> kd_source_evidence k \<noteq> None)"

definition answer_record :: "string \<Rightarrow> string \<Rightarrow> bool \<Rightarrow> answer \<Rightarrow> transition_context \<Rightarrow> memory_record" where
  "answer_record i clean correction a ctx = \<lparr>mr_memory_id = i, mr_category = MC_PROFILE, mr_content = clean,
     mr_provenance = interview_provenance ctx correction, mr_confidence = an_confidence a, mr_retrieval_scopes = an_scopes a,
     mr_created_at = ctx_occurred_at ctx, mr_retain_until = None, mr_revision = 1, mr_knowledge = Some (an_details a), mr_interview = None\<rparr>"

text \<open>\<open>MemoryRecord(..)\<close>, then \<open>memory.remember\<close>\<close>

definition remember_new :: "interview_env \<Rightarrow> memory_record \<Rightarrow> transition_context \<Rightarrow> unit memory_action" where
  "remember_new env r ctx = (if valid_memory_fields r then remember (store_of env) r ctx else araise StoreValidationError)"

fun supersede_each :: "interview_env \<Rightarrow> string \<Rightarrow> transition_context \<Rightarrow> memory_record list \<Rightarrow> unit memory_action" where
  "supersede_each env new_id ctx [] = areturn ()"
| "supersede_each env new_id ctx (old # rest) =
     abind (case mr_knowledge old of
         None \<Rightarrow> areturn ()
       | Some k \<Rightarrow>
           abind (correct env (mr_memory_id old) \<lparr>mx_expected_revision = mr_revision old, mx_content = mr_content old,
             mx_provenance = mr_provenance old, mx_confidence = mr_confidence old, mx_retrieval_scopes = mr_retrieval_scopes old,
             mx_retain_until = mr_retain_until old, mx_knowledge = Some (k\<lparr>kd_superseded_by := Some new_id\<rparr>), mx_interview = None\<rparr> ctx)
             (\<lambda>_. areturn ())) (\<lambda>_.
       supersede_each env new_id ctx rest)"

definition save_reconciliation :: "interview_env \<Rightarrow> interview_question \<Rightarrow> string \<Rightarrow> memory_record list \<Rightarrow> answer \<Rightarrow> string \<Rightarrow> transition_context \<Rightarrow> unit memory_action" where
  "save_reconciliation env q clean sources a new_id ctx =
     (let b = (if RESTRICTED \<in> set (sensitivities sources)
               then a\<lparr>an_details := (an_details a)\<lparr>kd_sensitivity := RESTRICTED\<rparr>, an_scopes := {SCOPE_PRIVATE}\<rparr>
               else if SENSITIVE \<in> set (sensitivities sources)
               then a\<lparr>an_details := (an_details a)\<lparr>kd_sensitivity := SENSITIVE\<rparr>, an_scopes := {SCOPE_PRIVATE}\<rparr>
               else a)
      in abind (if kd_state (an_details b) = KS_CONFIRMED \<and> kd_kind (an_details b) \<noteq> KK_OPEN_LOOP
                then supersede_each env new_id ctx sources else areturn ()) (\<lambda>_.
         remember_new env (answer_record new_id clean True
           (b\<lparr>an_details := (an_details b)\<lparr>kd_evidence_ids := iq_evidence_ids q\<rparr>\<rparr>) ctx) ctx))"

fun forget_each :: "interview_env \<Rightarrow> transition_context \<Rightarrow> memory_record list \<Rightarrow> unit memory_action" where
  "forget_each env ctx [] = areturn ()"
| "forget_each env ctx (r # rs) = abind (forget (store_of env) (mr_memory_id r) (mr_revision r) ctx) (\<lambda>_. forget_each env ctx rs)"

definition review_answer :: "interview_env \<Rightarrow> interview_question \<Rightarrow> string \<Rightarrow> memory_record list \<Rightarrow> answer \<Rightarrow> string \<Rightarrow> transition_context \<Rightarrow> unit memory_action" where
  "review_answer env q clean sources a new_id ctx =
     (if list_ex imported sources then save_reconciliation env q clean sources a new_id ctx
      else abind (correct env (mr_memory_id (hd sources)) \<lparr>mx_expected_revision = mr_revision (hd sources), mx_content = clean,
             mx_provenance = interview_provenance ctx True, mx_confidence = an_confidence a, mx_retrieval_scopes = an_scopes a,
             mx_retain_until = None, mx_knowledge = Some (an_details a), mx_interview = None\<rparr> ctx) (\<lambda>_.
           forget_each env ctx (tl sources)))"

definition save_answer :: "interview_env \<Rightarrow> interview_question \<Rightarrow> string \<Rightarrow> string \<Rightarrow> transition_context \<Rightarrow> bool memory_action" where
  "save_answer env q clean new_id ctx =
     abind (alift (ebind (find_topic (iq_key q)) (\<lambda>topic. answer_of env topic clean ctx))) (\<lambda>a.
     abind (if iq_evidence_ids q = [] then remember_new env (answer_record new_id clean False a ctx) ctx
            else
              abind (private_records env) (\<lambda>existing.
              abind (alift (emapM (the_record existing) (iq_evidence_ids q))) (\<lambda>sources.
                review_answer env q clean sources (reviewed sources a) new_id ctx))) (\<lambda>_.
       areturn (an_pending a)))"

section \<open>Confirming a routine\<close>

text \<open>The assertion and the confidence that replace a draft.\<close>

definition resolution :: "interview_env \<Rightarrow> bool \<Rightarrow> memory_record \<Rightarrow> knowledge_details \<Rightarrow> routine_draft \<Rightarrow> transition_context
    \<Rightarrow> store_error + knowledge_details \<times> rat" where
  "resolution env confirmed r k d ctx =
     (if confirmed
      then ebind (details_of_draft (zone_known env) d) (\<lambda>routine. Inr
        (k\<lparr>kd_planning_allowed := SCOPE_PLANNING \<in> mr_retrieval_scopes r, kd_routine := Some routine,
           kd_last_confirmed_at := Some (ctx_occurred_at ctx), kd_pending_confirmation := None\<rparr>, 1))
      else Inr (k\<lparr>kd_pending_confirmation := None\<rparr>, mr_confidence r))"

definition resolve_pending :: "interview_env \<Rightarrow> interview_question \<Rightarrow> bool \<Rightarrow> transition_context \<Rightarrow> unit memory_action" where
  "resolve_pending env q confirmed ctx =
     (case iq_evidence_ids q of
        [] \<Rightarrow> areturn ()
      | i # _ \<Rightarrow>
          abind (private_records env) (\<lambda>existing.
          case Option.bind (record_in existing i) (\<lambda>r. Option.bind (mr_knowledge r) (\<lambda>k.
                 map_option (\<lambda>d. (r, k, d)) (kd_pending_confirmation k))) of
            None \<Rightarrow> areturn ()
          | Some (r, k, d) \<Rightarrow>
              abind (alift (resolution env confirmed r k d ctx)) (\<lambda>(details, confidence).
              abind (correct env (mr_memory_id r) \<lparr>mx_expected_revision = mr_revision r, mx_content = mr_content r,
                mx_provenance = interview_provenance ctx True, mx_confidence = confidence, mx_retrieval_scopes = mr_retrieval_scopes r,
                mx_retain_until = None, mx_knowledge = Some details, mx_interview = None\<rparr> ctx) (\<lambda>_.
                areturn ()))))"

definition reparse_pending :: "interview_env \<Rightarrow> interview_question \<Rightarrow> string \<Rightarrow> transition_context \<Rightarrow> string memory_action" where
  "reparse_pending env q clean ctx =
     (case iq_evidence_ids q of
        [] \<Rightarrow> areturn []
      | i # _ \<Rightarrow>
          abind (private_records env) (\<lambda>existing.
          case Option.bind (record_in existing i) (\<lambda>r. map_option (\<lambda>k. (r, k)) (mr_knowledge r)) of
            None \<Rightarrow> areturn []
          | Some (r, k) \<Rightarrow>
              abind (alift (ebind (extract_routine_fields (iv_timezone env) clean) (\<lambda>fields.
                 case kd_pending_confirmation k of Some d \<Rightarrow> merge_draft d fields | None \<Rightarrow> build_routine (iv_timezone env) fields))) (\<lambda>routine.
              abind (correct env (mr_memory_id r) \<lparr>mx_expected_revision = mr_revision r,
                mx_content = mr_content r @ [CHR 0x0A] @ ''Correction: '' @ clean,
                mx_provenance = interview_provenance ctx True, mx_confidence = 1 / 2, mx_retrieval_scopes = mr_retrieval_scopes r,
                mx_retain_until = None, mx_knowledge = Some (k\<lparr>kd_pending_confirmation := Some routine\<rparr>), mx_interview = None\<rparr> ctx) (\<lambda>_.
                alift (routine_summary routine)))))"

type_synonym progress_update = "interview_progress \<Rightarrow> interview_progress"

definition confirm_skip :: "interview_env \<Rightarrow> interview_question \<Rightarrow> transition_context \<Rightarrow> (progress_update \<times> string) memory_action" where
  "confirm_skip env q ctx =
     abind (resolve_pending env q False ctx) (\<lambda>_.
       areturn (\<lambda>p. p\<lparr>ip_pending_confirmation_key := None, ip_skipped_keys := insert (iq_key q) (ip_skipped_keys p)\<rparr>,
         ''Of course. I'll keep that as a note without scheduling it.''))"

definition answer_size_ok :: "string \<Rightarrow> bool" where
  "answer_size_ok clean \<longleftrightarrow> clean \<noteq> [] \<and> length clean \<le> MAX_ANSWER_CHARACTERS"

definition confirm :: "interview_env \<Rightarrow> interview_question \<Rightarrow> string \<Rightarrow> bool \<Rightarrow> transition_context \<Rightarrow> (progress_update \<times> string) memory_action" where
  "confirm env q txt skip ctx =
     (let clean = py_strip is_space txt; normalized = answer_words clean in
      if skip then confirm_skip env q ctx
      else if \<not> answer_size_ok clean then araise (StoreValueError ''answer must contain between 1 and 8000 characters'')
      else if normalized \<in> {''no'', ''no thanks'', ''not now'', ''don't plan this'', ''do not plan this''} then confirm_skip env q ctx
      else if normalized \<in> set CONFIRM_PHRASES
      then abind (private_records env) (\<lambda>existing.
           abind (alift (case iq_evidence_ids q of [] \<Rightarrow> Inl (StoreKeyError []) | i # _ \<Rightarrow> the_record existing i)) (\<lambda>r.
           case Option.bind (mr_knowledge r) kd_pending_confirmation of
             Some d \<Rightarrow>
               if draft_missing d = []
               then abind (resolve_pending env q True ctx) (\<lambda>_. areturn (\<lambda>p. p\<lparr>ip_pending_confirmation_key := None\<rparr>,
                 ''I've confirmed your routine. Planning will respect its existing privacy limits.''))
               else areturn (\<lambda>p. p\<lparr>ip_pending_confirmation_key := Some (iq_key q)\<rparr>,
                 ''I still need the missing scheduling details before you can confirm. '' @ ''You can also skip and keep this as a note.'')
           | None \<Rightarrow> areturn (\<lambda>p. p\<lparr>ip_pending_confirmation_key := Some (iq_key q)\<rparr>,
               ''I still need the missing scheduling details before you can confirm. '' @ ''You can also skip and keep this as a note.'')))
      else abind (reparse_pending env q clean ctx) (\<lambda>summary.
           areturn (\<lambda>p. p\<lparr>ip_pending_confirmation_key := Some (iq_key q)\<rparr>,
             ''Got it. I understood: '' @ summary @ ''. Is this correct? ''
             @ ''Say 'yes' to confirm these details and allow planning, or tell me what to change.'')))"

section \<open>Answering\<close>

definition permission :: "life_domain \<Rightarrow> string \<Rightarrow> store_error + progress_update" where
  "permission domain answer =
     (if answer \<in> {''yes'', ''yes please'', ''yes, please'', ''include it''}
      then Inr (\<lambda>p. p\<lparr>ip_permitted_domains := insert domain (ip_permitted_domains p)\<rparr>)
      else if answer \<in> {''no'', ''skip'', ''not now'', ''no thanks'', ''no, thanks''}
      then Inr (\<lambda>p. p\<lparr>ip_skipped_domains := insert domain (ip_skipped_domains p)\<rparr>)
      else Inl (StoreValueError ''please say yes or skip for this optional topic''))"

definition skip_key :: "string \<Rightarrow> progress_update" where
  "skip_key key p = p\<lparr>ip_skipped_keys := insert key (ip_skipped_keys p)\<rparr>"

definition em_dash :: string where "em_dash = [CHR 0xE2, CHR 0x80, CHR 0x94]"

definition answer_acknowledgment :: "interview_question \<Rightarrow> bool \<Rightarrow> string" where
  "answer_acknowledgment q pending =
     (if iq_key q = ''work.schedule''
      then ''I noted your work schedule but couldn't automatically schedule it '' @ em_dash @ '' you can use 'Plan My Week' to manually place it.''
      else if iq_key q = ''planning.fixed_commitments''
      then ''I noted your fixed commitments but couldn't automatically schedule them '' @ em_dash @ '' you can use 'Plan My Week' to manually place them.''
      else if pending then ''I've saved that. Let me confirm the details before scheduling anything.''
      else if iq_domain q = LD_OPEN_LOOPS then ''I've put that in your inbox. We can clarify it before scheduling anything.''
      else ''I've saved that.'')"

definition respond_answer :: "interview_env \<Rightarrow> interview_question \<Rightarrow> string \<Rightarrow> string \<Rightarrow> transition_context \<Rightarrow> (progress_update \<times> string) memory_action" where
  "respond_answer env q clean new_id ctx =
     abind (save_answer env q clean new_id ctx) (\<lambda>pending.
       areturn (\<lambda>p.
         let p1 = (if iq_key q = ''open_loops.known'' then skip_key (iq_key q) p else p)
         in if is_unknown clean then skip_key (iq_key q) p1
            else if pending then p1\<lparr>ip_pending_confirmation_key := Some (iq_key q)\<rparr> else p1,
         answer_acknowledgment q pending))"

definition respond :: "interview_env \<Rightarrow> interview_question \<Rightarrow> string \<Rightarrow> bool \<Rightarrow> string \<Rightarrow> transition_context \<Rightarrow> (progress_update \<times> string) memory_action" where
  "respond env q txt skip new_id ctx =
     (let clean = py_strip is_space txt; normalized = answer_words clean in
      if iq_mode q = CONFIRM then confirm env q txt skip ctx
      else if skip
      then areturn (\<lambda>p. (if iq_mode q = PERMISSION then (\<lambda>p. p\<lparr>ip_skipped_domains := insert (iq_domain q) (ip_skipped_domains p)\<rparr>) else id)
             (skip_key (iq_key q) p), ''Of course. We can leave that out.'')
      else if iq_mode q = PERMISSION then alift (ebind (permission (iq_domain q) normalized) (\<lambda>f. Inr (f, ''Saved.'')))
      else if \<not> answer_size_ok clean then araise (StoreValueError ''answer must contain between 1 and 8000 characters'')
      else if iq_key q = ''open_loops.else''
         \<and> normalized \<in> {''the sweep is complete'', ''sweep complete'', ''nothing else'', ''that's everything''}
      then areturn (\<lambda>p. (skip_key (iq_key q) p)\<lparr>ip_sweep_complete := True\<rparr>, ''Your inbox is ready for clarification whenever you are.'')
      else respond_answer env q clean new_id ctx)"

datatype interview_action = ANSWER | SKIP | PAUSE | RESUME

text \<open>The body of \<open>advance\<close>: the session, what the action changes, and the position that is stored.\<close>

definition act :: "interview_env \<Rightarrow> interview_progress \<Rightarrow> interview_action \<Rightarrow> string \<Rightarrow> string option \<Rightarrow> string \<Rightarrow> transition_context
    \<Rightarrow> (progress_update \<times> string) memory_action" where
  "act env p action txt key new_id ctx =
     (if action \<in> {PAUSE, RESUME}
      then areturn (\<lambda>p. p\<lparr>ip_phase := (if action = PAUSE then PAUSED else ACTIVE)\<rparr>, ''We can pick this up whenever you're ready.'')
      else if ip_phase p = PAUSED then araise (StoreValueError ''resume the interview before answering'')
      else abind (look (question env p (ctx_occurred_at ctx))) (\<lambda>pending.
        case pending of
          None \<Rightarrow> araise (StoreValueError ''there is no pending interview question'')
        | Some q \<Rightarrow>
            if Some (iq_key q) \<noteq> key then araise (StoreValueError ''the pending question changed; refresh before answering'')
            else abind (respond env q txt (action = SKIP) new_id ctx) (\<lambda>(update, acknowledgment).
              areturn (\<lambda>p. update (p\<lparr>ip_last_question_key := Some (iq_key q)\<rparr>), acknowledgment))))"

definition next_progress :: "interview_env \<Rightarrow> interview_progress \<Rightarrow> transition_context \<Rightarrow> interview_progress memory_action" where
  "next_progress env p ctx =
     (if ip_phase p = PAUSED then areturn p
      else abind (look (question env p (ctx_occurred_at ctx))) (\<lambda>q. areturn (if q = None then p\<lparr>ip_phase := CONTINUOUS\<rparr> else p)))"

definition advance_body :: "interview_env \<Rightarrow> int \<Rightarrow> interview_action \<Rightarrow> string \<Rightarrow> string option \<Rightarrow> string \<Rightarrow> transition_context
    \<Rightarrow> interview_reply memory_action" where
  "advance_body env expected action txt key new_id ctx =
     abind (interview_session env) (\<lambda>found.
     case Option.bind found (\<lambda>s. map_option (Pair s) (mr_interview s)) of
       None \<Rightarrow> araise (StoreValueError ''start the interview before answering'')
     | Some (s, p) \<Rightarrow>
         if mr_revision s \<noteq> expected then araise (StaleMemoryRevisionError (iv_session_id env) expected (mr_revision s))
         else abind (act env p action txt key new_id ctx) (\<lambda>(update, acknowledgment).
              abind (next_progress env (update p) ctx) (\<lambda>p'.
              abind (correct env (iv_session_id env) (session_correction s p' ctx) ctx) (\<lambda>updated.
                reply env updated (ctx_occurred_at ctx) acknowledgment))))"

definition advance :: "interview_env \<Rightarrow> int \<Rightarrow> interview_action \<Rightarrow> string \<Rightarrow> string option \<Rightarrow> string \<Rightarrow> transition_context
    \<Rightarrow> interview_reply memory_action" where
  "advance env expected action txt key new_id ctx = domain_transaction (advance_body env expected action txt key new_id ctx)"

end
