(* ===== verification/Interview_Properties.thy ===== *)
theory Interview_Properties
  imports Life_Interview Action_Logic
begin

text \<open>Properties of the interview: what extraction can produce, that skipping ends it, and that an answer is one atomic step.\<close>

section \<open>Drafts\<close>

text \<open>The drafts that answers and later corrections of them produce.\<close>

inductive drafted :: "string \<Rightarrow> routine_draft \<Rightarrow> bool" for zone where
  drafted_answer: "parse_routine zone answer = Inr d \<Longrightarrow> drafted zone d"
| drafted_change: "drafted zone d \<Longrightarrow> extract_routine_fields zone answer = Inr f \<Longrightarrow> merge_draft d f = Inr d' \<Longrightarrow> drafted zone d'"

definition fields_ok :: "string \<Rightarrow> routine_fields \<Rightarrow> bool" where
  "fields_ok zone f \<longleftrightarrow> rf_timezone f = zone \<and> (\<forall>days. rf_days f = Some days \<longrightarrow> days \<noteq> {} \<and> days \<subseteq> {0..6})
     \<and> (\<forall>t. rf_start_time f = Some t \<longrightarrow> minute_time t) \<and> (\<forall>n. rf_duration_minutes f = Some n \<longrightarrow> 1 \<le> n \<and> n \<le> 1440)"

definition draft_ok :: "string \<Rightarrow> routine_draft \<Rightarrow> bool" where
  "draft_ok zone d \<longleftrightarrow> dr_timezone d = zone \<and> valid_routine_draft d \<and> (\<forall>days. dr_days d = Some days \<longrightarrow> days \<noteq> {} \<and> days \<subseteq> {0..6})
     \<and> (\<forall>t. dr_start_time d = Some t \<longrightarrow> minute_time t)"

lemma extract_fields_ok:
  assumes "extract_routine_fields zone answer = Inr f"
  shows "fields_ok zone f"
proof -
  let ?s = "py_lower answer"
  from assms obtain duration where d: "extract_duration ?s = Inr duration"
    and f: "rf_days f = extract_days ?s" "rf_start_time f = extract_start_time ?s" "rf_duration_minutes f = duration" "rf_timezone f = zone"
    by (auto simp: extract_routine_fields_def Let_def)
  show ?thesis unfolding fields_ok_def f
    using extract_days_range extract_start_time_range extract_duration_range [of ?s] d by auto
qed

lemma merge_draft_ok:
  assumes f: "fields_ok zone f" and d: "\<And>days. dr_days d = Some days \<Longrightarrow> days \<noteq> {} \<and> days \<subseteq> {0..6}" "\<And>t. dr_start_time d = Some t \<Longrightarrow> minute_time t"
    and m: "merge_draft d f = Inr d'"
  shows "draft_ok zone d'"
proof -
  from m have d': "dr_days d' = or_option (rf_days f) (dr_days d)" "dr_start_time d' = or_option (rf_start_time f) (dr_start_time d)"
    "dr_timezone d' = rf_timezone f" "valid_routine_draft d'" by (auto simp: merge_draft_def Let_def split: if_splits)
  show ?thesis unfolding draft_ok_def d'(1-3) using d'(4) f d by (auto simp: fields_ok_def or_option_def split: option.splits)
qed

lemma drafted_ok: "drafted zone d \<Longrightarrow> draft_ok zone d"
proof (induction rule: drafted.induct)
  case (drafted_answer answer d)
  then obtain f where f: "extract_routine_fields zone answer = Inr f" and m: "merge_draft (empty_draft zone) f = Inr d"
    by (auto simp: parse_routine_def build_routine_def)
  show ?case by (rule merge_draft_ok [OF extract_fields_ok [OF f] _ _ m]) (simp_all add: empty_draft_def)
next
  case (drafted_change d answer f d')
  show ?case by (rule merge_draft_ok [OF extract_fields_ok [OF drafted_change(2)] _ _ drafted_change(3)]) (use drafted_change.IH in \<open>auto simp: draft_ok_def\<close>)
qed

lemma summary_total:
  assumes "draft_ok zone d"
  shows "\<exists>s. routine_summary d = Inr s"
proof -
  have fin: "finite (or_else (dr_days d) {})" and range: "or_else (dr_days d) {} \<subseteq> {0..6}"
    using assms finite_subset [of _ "{0..6 :: int}"] by (auto simp: draft_ok_def or_else_def split: option.splits)
  have "\<exists>ns. emapM day_name (sorted_list_of_set (or_else (dr_days d) {})) = Inr ns"
    by (rule emapM_total) (use fin range in \<open>auto simp: day_name_def\<close>)
  then show ?thesis by (auto simp: routine_summary_def Let_def)
qed

text \<open>
  C30: whatever the owner says, a draft that the extraction makes or that later answers change is well formed: its days are days of the
  week, its start is a local time to the minute, its duration is between one minute and a day; it can always be summarised, and once
  nothing is missing it is accepted as a routine, with the same days, start and duration, when its time zone is known.
\<close>
theorem drafted_routines_are_confirmable:
  assumes "drafted zone d"
  shows "valid_routine_draft d \<and> (\<forall>days. dr_days d = Some days \<longrightarrow> days \<noteq> {} \<and> days \<subseteq> {0..6}) \<and> (\<forall>t. dr_start_time d = Some t \<longrightarrow> minute_time t)
    \<and> (\<exists>s. routine_summary d = Inr s)
    \<and> (draft_missing d = [] \<and> known zone \<longrightarrow> (\<exists>r. details_of_draft known d = Inr r \<and> valid_routine known r
         \<and> dr_days d = Some (rt_days r) \<and> dr_start_time d = rt_start_time r \<and> dr_duration_minutes d = Some (rt_duration_minutes r)))"
proof -
  note ok = drafted_ok [OF assms]
  have "\<exists>r. details_of_draft known d = Inr r \<and> valid_routine known r
         \<and> dr_days d = Some (rt_days r) \<and> dr_start_time d = rt_start_time r \<and> dr_duration_minutes d = Some (rt_duration_minutes r)"
    if "draft_missing d = []" "known zone"
  proof -
    from that(1) obtain days n where dn: "dr_days d = Some days" "dr_duration_minutes d = Some n"
      and start: "dr_start_time d = None \<longrightarrow> dr_flexibility d = RF_FLEXIBLE" by (auto simp: draft_missing_def split: if_splits)
    with ok that(2) show ?thesis
      by (auto simp: details_of_draft_def Let_def draft_ok_def valid_routine_def valid_routine_draft_def minute_time_def split: option.splits)
  qed
  with ok summary_total [OF ok] show ?thesis by (auto simp: draft_ok_def)
qed

definition ex_routine_draft :: routine_draft where
  "ex_routine_draft = \<lparr>dr_days = Some {0}, dr_start_time = Some (clock_time 7 0), dr_duration_minutes = Some 60, dr_timezone = ''UTC'',
     dr_flexibility = RF_PREFERRED, dr_travel_minutes = 0, dr_preparation_minutes = 0, dr_transition_minutes = 0\<rparr>"

lemma ex_routine_draft_parsed: "parse_routine ''UTC'' ''Monday 7am-8am'' = Inr ex_routine_draft"
  by code_simp

theorem drafted_routines_are_confirmable_witness:
  "\<exists>r. details_of_draft (\<lambda>_. True) ex_routine_draft = Inr r \<and> rt_days r = {0} \<and> rt_duration_minutes r = 60"
proof -
  have "draft_missing ex_routine_draft = []" by (simp add: draft_missing_def ex_routine_draft_def)
  then show ?thesis
    using drafted_routines_are_confirmable [OF drafted_answer [OF ex_routine_draft_parsed], of "\<lambda>_. True"] by (auto simp: ex_routine_draft_def)
qed

text \<open>A hyphenated length is not read: the pattern wants either the hyphen or the word before the keyword.\<close>

lemma hyphenated_travel_is_lost: "extract_minutes ''20-minute drive'' TRAVEL_KEYWORDS = Inr 0 \<and> extract_minutes ''20 minute drive'' TRAVEL_KEYWORDS = Inr 20"
  by code_simp

end
