(* ===== verification/Backups.thy ===== *)
theory Backups
  imports Memory_Repository
begin

text \<open>
  \<open>backup_catalog.py\<close>, \<open>backups.py\<close> and \<open>lifecycle.py\<close>: encrypted copies of the store, the catalog of their wrapped keys, and the
  orchestration of retention and deletion over records and backups.  A copy is the data key it is encrypted under and the tables it holds;
  AES-GCM and the random identities, keys and nonces are parameters.
\<close>

section \<open>State\<close>

record backup_world =
  bw_connection :: "store_db connection"
  bw_files :: "string \<rightharpoonup> string \<times> store_db"

record backup_env = store_env +
  backup_directory :: string
  wrapping_key :: string
  gcm_encrypt :: "string \<Rightarrow> string \<Rightarrow> string \<Rightarrow> string \<Rightarrow> string"
  gcm_decrypt :: "string \<Rightarrow> string \<Rightarrow> string \<Rightarrow> string \<Rightarrow> string option"

type_synonym 'a backup_action = "(backup_world, store_error, 'a) action"

definition in_store :: "'a memory_action \<Rightarrow> 'a backup_action" where
  "in_store m w = (let (r, c) = m (bw_connection w) in (r, w\<lparr>bw_connection := c\<rparr>))"

definition look_store :: "(store_db \<Rightarrow> store_error + 'a) \<Rightarrow> 'a backup_action" where
  "look_store f w = (f (current (bw_connection w)), w)"

text \<open>A repository action on the store: the domain tables and the ledger are the fields the store inherits.\<close>

definition repository_result :: "repository_error + 'a \<Rightarrow> store_error + 'a" where
  "repository_result r = (case r of Inl e \<Rightarrow> Inl (RepositoryFailure e) | Inr x \<Rightarrow> Inr x)"

definition on_domain :: "'a repo_action \<Rightarrow> 'a db_action" where
  "on_domain m db = (let (r, d) = m (domain_db.truncate db) in (repository_result r, domain_db.extend d (domain_db.more db)))"

definition store_records :: "store_env \<Rightarrow> store_db \<Rightarrow> store_error + domain_record list" where
  "store_records env db = repository_result (all_records (repository_env.truncate env) (domain_db.truncate db))"

definition store_delete_record :: "store_env \<Rightarrow> record_kind \<Rightarrow> string \<Rightarrow> transition_context \<Rightarrow> unit memory_action" where
  "store_delete_record env k i ctx = domain_transaction (on_tables (on_domain (delete_body (repository_env.truncate env) k i ctx)))"

definition store_verify :: "store_env \<Rightarrow> store_db \<Rightarrow> store_error + audit_verification" where
  "store_verify env db =
     (case ledger_verify (repo_hmac env) (audit_key env) (db_ledger db) of
        Inl e \<Rightarrow> Inl (StoreLedgerFailure e)
      | Inr v \<Rightarrow> Inr v)"

text \<open>\<open>prune_before\<close>: nothing is executed when no entry has expired.\<close>

definition store_prune_audit :: "store_env \<Rightarrow> datetime \<Rightarrow> nat memory_action" where
  "store_prune_audit env cutoff c =
     (case prune_before (repo_hmac env) (audit_key env) cutoff (db_ledger (current c)) of
        (Inl e, l) \<Rightarrow> (Inl (StoreLedgerFailure e), c\<lparr>current := (current c)\<lparr>db_ledger := l\<rparr>\<rparr>)
      | (Inr n, l) \<Rightarrow> (Inr n, if n = 0 then c else idle ((current c)\<lparr>db_ledger := l\<rparr>)))"

section \<open>Catalog\<close>

definition insert_backup :: "backup_row \<Rightarrow> unit db_action" where
  "insert_backup b db =
     (if bk_backup_id b \<in> bk_backup_id ` set (st_backups db) then (Inl StoreIntegrityError, db)
      else (Inr (), db\<lparr>st_backups := st_backups db @ [b]\<rparr>))"

fun insert_backup_records :: "(string \<times> record_kind \<times> string) list \<Rightarrow> unit db_action" where
  "insert_backup_records [] db = (Inr (), db)"
| "insert_backup_records (x # xs) db =
     (if x \<in> set (st_backup_records db) then (Inl StoreIntegrityError, db)
      else insert_backup_records xs (db\<lparr>st_backup_records := st_backup_records db @ [x]\<rparr>))"

definition insert_or_ignore :: "store_db \<Rightarrow> string \<times> record_kind \<times> string \<Rightarrow> store_db" where
  "insert_or_ignore db x = (if x \<in> set (st_backup_records db) then db else db\<lparr>st_backup_records := st_backup_records db @ [x]\<rparr>)"

definition insert_coverage :: "string \<Rightarrow> unit db_action" where
  "insert_coverage b db =
     (if b \<in> set (st_backup_coverage db) then (Inl StoreIntegrityError, db)
      else (Inr (), db\<lparr>st_backup_coverage := st_backup_coverage db @ [b]\<rparr>))"

definition register_body :: "backup_row \<Rightarrow> domain_record list \<Rightarrow> string list option \<Rightarrow> unit db_action" where
  "register_body b records memory_ids =
     abind (insert_backup b) (\<lambda>_.
     abind (insert_backup_records (map (\<lambda>r. (bk_backup_id b, kind_of_record r, record_id r)) records)) (\<lambda>_.
     case memory_ids of
       None \<Rightarrow> areturn ()
     | Some ids \<Rightarrow>
         abind (amodify (\<lambda>db. foldl insert_or_ignore db (map (\<lambda>i. (bk_backup_id b, NORMALIZED_FACT, i)) ids))) (\<lambda>_.
         insert_coverage (bk_backup_id b))))"

definition register_manifest :: "backup_row \<Rightarrow> domain_record list \<Rightarrow> string list option \<Rightarrow> unit memory_action" where
  "register_manifest b records memory_ids = then_commit (register_body b records memory_ids)"

text \<open>An empty blob counts as absent.\<close>

definition optional_blob :: "string option \<Rightarrow> string option" where
  "optional_blob v = (case v of Some [] \<Rightarrow> None | _ \<Rightarrow> v)"

definition backup_manifest :: "string \<Rightarrow> store_db \<Rightarrow> store_error + backup_row" where
  "backup_manifest i db =
     (case find (\<lambda>b. bk_backup_id b = i) (st_backups db) of
        None \<Rightarrow> Inl (BackupLookupError i)
      | Some b \<Rightarrow>
          let wrapped = optional_blob (bk_wrapped_data_key b); nonce = optional_blob (bk_nonce b) in
          if (wrapped = None) \<noteq> (nonce = None) then Inl (BackupCatalogError i)
          else Inr (b\<lparr>bk_wrapped_data_key := wrapped, bk_nonce := nonce, bk_created_at := reread (bk_created_at b),
                      bk_expires_at := reread (bk_expires_at b)\<rparr>))"

definition backup_manifests :: "store_db \<Rightarrow> store_error + backup_row list" where
  "backup_manifests db = emapM (\<lambda>b. backup_manifest (bk_backup_id b) db) (st_backups db)"

definition backups_containing :: "record_kind \<Rightarrow> string \<Rightarrow> store_db \<Rightarrow> string list" where
  "backups_containing k i db = map fst (filter (\<lambda>(b, k', i'). k' = k \<and> i' = i) (st_backup_records db))"

definition destroy_key :: "string \<Rightarrow> backup_status \<Rightarrow> unit memory_action" where
  "destroy_key i status = then_commit (amodify (\<lambda>db.
     db\<lparr>st_backups := map (\<lambda>b. if bk_backup_id b = i then destroy_envelope status b else b) (st_backups db)\<rparr>))"

section \<open>Backup manager\<close>

definition BACKUP_RETENTION :: int where "BACKUP_RETENTION = 30 * day_us"

definition backup_path :: "backup_env \<Rightarrow> string \<Rightarrow> string" where
  "backup_path env i = backup_directory env @ ''/'' @ i @ ''.sqlite''"

definition write_encrypted_backup :: "string \<Rightarrow> string \<Rightarrow> unit backup_action" where
  "write_encrypted_backup path data_key w = (Inr (), w\<lparr>bw_files := (bw_files w)(path \<mapsto> (data_key, current (bw_connection w)))\<rparr>)"

definition register_backup :: "backup_env \<Rightarrow> backup_row \<Rightarrow> unit backup_action" where
  "register_backup env b =
     abind (look_store (store_records (store_env.truncate env))) (\<lambda>records.
     abind (look_store (\<lambda>db. Inr (record_ids db))) (\<lambda>ids.
       in_store (register_manifest b records (Some ids))))"

definition backup_create :: "backup_env \<Rightarrow> string \<Rightarrow> string \<Rightarrow> string \<Rightarrow> transition_context \<Rightarrow> backup_row backup_action" where
  "backup_create env backup_id data_key nonce ctx =
     abind (look_store (store_verify (store_env.truncate env))) (\<lambda>_.
     abind (write_encrypted_backup (backup_path env backup_id) data_key) (\<lambda>_.
     let manifest = \<lparr>bk_backup_id = backup_id, bk_path = backup_path env backup_id, bk_created_at = ctx_occurred_at ctx,
           bk_expires_at = dt_add (ctx_occurred_at ctx) BACKUP_RETENTION,
           bk_wrapped_data_key = Some (gcm_encrypt env (wrapping_key env) nonce backup_id data_key), bk_nonce = Some nonce,
           bk_status = BACKUP_ACTIVE\<rparr>
     in abind (register_backup env manifest) (\<lambda>_. areturn manifest)))"

text \<open>\<open>EncryptedStateStore.open\<close>: the copy, when the key is the one it was written under, after its chain has been verified.\<close>

definition open_backup :: "backup_env \<Rightarrow> backup_row \<Rightarrow> string \<Rightarrow> backup_world \<Rightarrow> store_error + store_db" where
  "open_backup env b key w =
     (case bw_files w (bk_path b) of
        None \<Rightarrow> Inl (BackupInvalidatedError (bk_backup_id b))
      | Some (data_key, db) \<Rightarrow>
          if key \<noteq> data_key then Inl (BackupInvalidatedError (bk_backup_id b))
          else ebind (store_verify (store_env.truncate env) db) (\<lambda>_. Inr db))"

definition restore_backup :: "backup_env \<Rightarrow> string \<Rightarrow> backup_world \<Rightarrow> store_error + store_db" where
  "restore_backup env i w =
     ebind (backup_manifest i (current (bw_connection w))) (\<lambda>b.
       case (bk_wrapped_data_key b, bk_nonce b) of
         (Some wrapped, Some nonce) \<Rightarrow>
           if bk_status b \<noteq> BACKUP_ACTIVE then Inl (BackupInvalidatedError i)
           else (case gcm_decrypt env (wrapping_key env) nonce i wrapped of
                   None \<Rightarrow> Inl (BackupInvalidatedError i)
                 | Some key \<Rightarrow> open_backup env b key w)
       | _ \<Rightarrow> Inl (BackupInvalidatedError i))"

definition verify_restore :: "backup_env \<Rightarrow> string \<Rightarrow> backup_world \<Rightarrow> store_error + nat" where
  "verify_restore env i w =
     ebind (restore_backup env i w) (\<lambda>db.
     ebind (store_verify (store_env.truncate env) db) (\<lambda>v. Inr (entries_verified v)))"

fun invalidate_each :: "string list \<Rightarrow> unit backup_action" where
  "invalidate_each [] = areturn ()"
| "invalidate_each (i # is) =
     abind (look_store (backup_manifest i)) (\<lambda>b.
     abind (if bk_status b = BACKUP_ACTIVE then in_store (destroy_key i BACKUP_INVALIDATED) else areturn ()) (\<lambda>_.
       invalidate_each is))"

definition invalidate_containing :: "record_kind \<Rightarrow> string \<Rightarrow> string list backup_action" where
  "invalidate_containing k i =
     abind (look_store (\<lambda>db. Inr (backups_containing k i db))) (\<lambda>ids.
     abind (invalidate_each ids) (\<lambda>_. areturn ids))"

fun expire_each :: "datetime \<Rightarrow> backup_row list \<Rightarrow> string list backup_action" where
  "expire_each now [] = areturn []"
| "expire_each now (b # bs) =
     (if bk_status b = BACKUP_ACTIVE
      then if is_naive (bk_expires_at b) \<noteq> is_naive now then araise StoreTypeError
           else if dt_le (bk_expires_at b) now
           then abind (in_store (destroy_key (bk_backup_id b) BACKUP_EXPIRED)) (\<lambda>_.
                abind (expire_each now bs) (\<lambda>out. areturn (bk_backup_id b # out)))
           else expire_each now bs
      else expire_each now bs)"

definition backup_expire :: "datetime \<Rightarrow> string list backup_action" where
  "backup_expire now = abind (look_store backup_manifests) (expire_each now)"

section \<open>Retention and deletion\<close>

definition COMMUNICATION_RETENTION :: int where "COMMUNICATION_RETENTION = 180 * day_us"
definition HEALTH_RETENTION :: int where "HEALTH_RETENTION = 365 * day_us"
definition AUDIT_RETENTION :: int where "AUDIT_RETENTION = 730 * day_us"

definition retention_of :: "int \<Rightarrow> int \<Rightarrow> record_kind \<Rightarrow> int option" where
  "retention_of communication health k =
     (case k of SOURCE_ITEM \<Rightarrow> Some communication | ENERGY_CHECK_IN \<Rightarrow> Some health | _ \<Rightarrow> None)"

text \<open>The counts by kind, as the number of expired records of each kind.\<close>

fun expire_records :: "backup_env \<Rightarrow> int \<Rightarrow> int \<Rightarrow> datetime \<Rightarrow> transition_context \<Rightarrow> domain_record list \<Rightarrow> record_kind list backup_action" where
  "expire_records env communication health now ctx [] = areturn []"
| "expire_records env communication health now ctx (r # rs) =
     (case retention_of communication health (kind_of_record r) of
        None \<Rightarrow> expire_records env communication health now ctx rs
      | Some retention \<Rightarrow>
          if is_naive (record_created_at r) \<noteq> is_naive now then araise StoreTypeError
          else if dt_le (dt_add (record_created_at r) retention) now
          then abind (invalidate_containing (kind_of_record r) (record_id r)) (\<lambda>_.
               abind (in_store (store_delete_record (store_env.truncate env) (kind_of_record r) (record_id r) ctx)) (\<lambda>_.
               abind (expire_records env communication health now ctx rs) (\<lambda>kinds. areturn (kind_of_record r # kinds))))
          else expire_records env communication health now ctx rs)"

definition run_expiry :: "backup_env \<Rightarrow> int \<Rightarrow> int \<Rightarrow> datetime \<Rightarrow> transition_context \<Rightarrow> ((record_kind \<Rightarrow> nat) \<times> nat \<times> nat) backup_action" where
  "run_expiry env communication health now ctx =
     abind (look_store (store_records (store_env.truncate env))) (\<lambda>records.
     abind (expire_records env communication health now ctx records) (\<lambda>kinds.
     abind (in_store (store_prune_audit (store_env.truncate env) (dt_add now (- AUDIT_RETENTION)))) (\<lambda>entries.
     abind (backup_expire now) (\<lambda>expired.
       areturn (count_list kinds, entries, length expired)))))"

fun delete_related :: "backup_env \<Rightarrow> transition_context \<Rightarrow> domain_record list \<Rightarrow> string list backup_action" where
  "delete_related env ctx [] = areturn []"
| "delete_related env ctx (r # rs) =
     abind (invalidate_containing (kind_of_record r) (record_id r)) (\<lambda>ids.
     abind (in_store (store_delete_record (store_env.truncate env) (kind_of_record r) (record_id r) ctx)) (\<lambda>_.
     abind (delete_related env ctx rs) (\<lambda>out. areturn (ids @ out))))"

definition lifecycle_delete ::
  "backup_env \<Rightarrow> record_kind \<Rightarrow> string \<Rightarrow> string \<Rightarrow> string \<Rightarrow> string \<Rightarrow> transition_context \<Rightarrow> (string list \<times> string) backup_action" where
  "lifecycle_delete env k i backup_id data_key nonce ctx =
     abind (invalidate_containing k i) (\<lambda>ids.
     abind (look_store (store_records (store_env.truncate env))) (\<lambda>records.
     abind (delete_related env ctx (filter (\<lambda>r. source_reference r = Some i) records)) (\<lambda>related.
     abind (in_store (store_delete_record (store_env.truncate env) k i ctx)) (\<lambda>_.
     abind (backup_create env backup_id data_key nonce ctx) (\<lambda>b.
       areturn (rev (remdups (rev (ids @ related))), bk_backup_id b))))))"

end
