(* ===== verification/Store_Contract.thy ===== *)
theory Store_Contract
  imports Backups Action_Logic
begin

text \<open>
  The changes the memory repository, the catalog and the lifecycle make to the encrypted store, as a locale: an invariant that every
  elementary change keeps is kept by every operation, on success and on failure, and in the durable state as well as in the current one.
\<close>

section \<open>Connections\<close>

text \<open>A property of the tables, of the state a connection sees and of the state it would return to.\<close>

definition on_both :: "('d \<Rightarrow> bool) \<Rightarrow> 'd connection \<Rightarrow> bool" where
  "on_both I c \<longleftrightarrow> I (current c) \<and> I (committed c)"

lemma on_both_idle [simp]: "on_both I (idle d) = I d"
  by (simp add: on_both_def idle_def)

lemma keeps_transaction:
  assumes "keeps I m"
  shows "keeps (on_both I) (domain_transaction (on_tables m))"
proof (rule tripleI)
  fix c x c' assume c: "on_both I c" and eq: "domain_transaction (on_tables m) c = (Inr x, c')"
  obtain r d where m: "m (current c) = (r, d)" by fastforce
  have "I d" using keeps_snd [OF assms, of "current c"] c m by (simp add: on_both_def)
  with c eq m show "on_both I c'"
    by (cases r) (auto simp: domain_transaction_def on_tables_def on_both_def Let_def split: if_splits)
next
  fix c e c' assume c: "on_both I c" and eq: "domain_transaction (on_tables m) c = (Inl e, c')"
  then show "on_both I c'"
    by (cases "m (current c)") (auto simp: domain_transaction_def on_tables_def on_both_def Let_def split: if_splits sum.splits)
qed

lemma keeps_then_commit:
  assumes "keeps I m"
  shows "keeps (on_both I) (then_commit m)"
proof (rule tripleI)
  fix c x c' assume c: "on_both I c" and eq: "then_commit m c = (Inr x, c')"
  then show "on_both I c'" using keeps_snd [OF assms, of "current c"]
    by (cases "m (current c)") (auto simp: then_commit_def on_both_def idle_def split: sum.splits)
next
  fix c e c' assume c: "on_both I c" and eq: "then_commit m c = (Inl e, c')"
  then show "on_both I c'" using keeps_snd [OF assms, of "current c"]
    by (cases "m (current c)") (auto simp: then_commit_def on_both_def split: sum.splits)
qed

section \<open>Runs\<close>

text \<open>
  The operations on a store and its backups, with any outcome.  Domain records change by the operations of the repository; a new backup has
  an identity that no file has; the records and corrections of their authors may be restricted by predicates.
\<close>

inductive store_step :: "backup_env \<Rightarrow> (memory_record \<Rightarrow> bool) \<Rightarrow> (memory_correction \<Rightarrow> bool) \<Rightarrow> backup_world \<Rightarrow> backup_world \<Rightarrow> bool"
  for env fit sound where
  step_remember: "fit r \<Longrightarrow> in_store (remember (store_env.truncate env) r ctx) w = (x, w') \<Longrightarrow> store_step env fit sound w w'"
| step_correct: "sound c \<Longrightarrow> in_store (correct_memory (store_env.truncate env) i c ctx) w = (y, w') \<Longrightarrow> store_step env fit sound w w'"
| step_forget: "in_store (forget (store_env.truncate env) i n ctx) w = (x, w') \<Longrightarrow> store_step env fit sound w w'"
| step_purge: "in_store (purge_expired_memory (store_env.truncate env) now ctx) w = (z, w') \<Longrightarrow> store_step env fit sound w w'"
| step_create_record: "in_store (domain_transaction (on_tables (on_domain (create_body (repository_env.truncate env) d ctx)))) w = (x, w')
    \<Longrightarrow> store_step env fit sound w w'"
| step_transition_record: "in_store (domain_transaction (on_tables (on_domain (transition_body (repository_env.truncate env) k i s ctx)))) w = (x, w')
    \<Longrightarrow> store_step env fit sound w w'"
| step_backup: "bw_files w (backup_path env b) = None \<Longrightarrow> backup_create env b key nonce ctx w = (u, w') \<Longrightarrow> store_step env fit sound w w'"
| step_invalidate: "invalidate_containing k i w = (v, w') \<Longrightarrow> store_step env fit sound w w'"
| step_expire: "backup_expire now w = (v, w') \<Longrightarrow> store_step env fit sound w w'"
| step_run_expiry: "run_expiry env communication health now ctx w = (q, w') \<Longrightarrow> store_step env fit sound w w'"
| step_lifecycle_delete: "bw_files w (backup_path env b) = None \<Longrightarrow> lifecycle_delete env k i b key nonce ctx w = (p, w') \<Longrightarrow> store_step env fit sound w w'"

section \<open>The contract\<close>

text \<open>
  \<open>ok\<close> is what the invariant asks of a record that becomes a row, \<open>fit\<close> and \<open>sound\<close> what it asks of the authors of a record and
  of a correction.  The last three
  laws are about the files of the backups: a new file, a registered copy of the present memories, and destroyed envelopes.
\<close>

named_theorems store_kept \<open>operations that keep the invariant\<close>

locale store_contract =
  fixes env :: backup_env and I :: "(string \<rightharpoonup> string \<times> store_db) \<Rightarrow> store_db \<Rightarrow> bool"
    and ok :: "memory_record \<Rightarrow> bool" and fit :: "memory_record \<Rightarrow> bool" and sound :: "memory_correction \<Rightarrow> bool"
  assumes ledger_change: "I files db \<Longrightarrow> I files (db\<lparr>db_ledger := l\<rparr>)"
    and created: "keeps (I files) (on_domain (create_body (repository_env.truncate env) d ctx))"
    and transitioned: "keeps (I files) (on_domain (transition_body (repository_env.truncate env) k i st ctx))"
    and deleted: "keeps (I files) (on_domain (delete_body (repository_env.truncate env) k i ctx))"
    and remembered_ok: "I files db \<Longrightarrow> fit (m :: memory_record) \<Longrightarrow> valid_memory (zone_known env) (reread_memory m) \<Longrightarrow> memory_tombstones (mr_memory_id m) db = [] \<Longrightarrow> ok (reread_memory m)"
    and corrected_ok: "I files db \<Longrightarrow> memory_read (store_env.truncate env) i db = Inr r \<Longrightarrow> sound c \<Longrightarrow>
      valid_memory_fields ((replacement r c)\<lparr>mr_memory_id := i\<rparr>) \<Longrightarrow> ok ((replacement r c)\<lparr>mr_memory_id := i\<rparr>)"
    and row_added: "I files db \<Longrightarrow> ok r \<Longrightarrow> I files (snd (memory_insert r db))"
    and rows_removed: "I files db \<Longrightarrow> I files (db\<lparr>st_memories := filter P (st_memories db)\<rparr>)"
    and tombstone_added: "I files db \<Longrightarrow> I files (db\<lparr>st_memory_tombstones := st_memory_tombstones db @ [t]\<rparr>)"
    and file_written: "I files db \<Longrightarrow> files p = None \<Longrightarrow> I (files(p \<mapsto> x)) db"
    and backup_registered: "I files db \<Longrightarrow> bk_path b = backup_path env (bk_backup_id b) \<Longrightarrow> files (bk_path b) = Some (key, copy) \<Longrightarrow>
      record_ids copy = record_ids db \<Longrightarrow> bk_backup_id b \<notin> bk_backup_id ` set (st_backups db) \<Longrightarrow>
      store_records (store_env.truncate env) db = Inr records \<Longrightarrow> I files (snd (register_body b records (Some (record_ids db)) db))"
    and copy_exists: "I files db \<Longrightarrow> b \<in> set (st_backups db) \<Longrightarrow> files (backup_path env (bk_backup_id b)) \<noteq> None"
    and envelope_destroyed: "status \<noteq> BACKUP_ACTIVE \<Longrightarrow> I files db \<Longrightarrow>
      I files (db\<lparr>st_backups := map (\<lambda>b. if Q b then destroy_envelope status b else b) (st_backups db)\<rparr>)"
begin

lemma keeps_verify [store_kept]: "keeps (I files) (memory_verify e)"
  by (simp add: triple_def memory_verify_def split: sum.split)

lemma keeps_append [store_kept]: "keeps (I files) (memory_append e r action fp ctx)"
  by (rule tripleI) (auto simp: memory_append_def ledger_change split: prod.splits sum.splits)

lemma keeps_delete [store_kept]: "keeps (I files) (authorized_memory_delete i)"
proof (rule tripleI)
  fix db x db' assume "I files db" and "authorized_memory_delete i db = (Inr x, db')"
  then have "db' = (db\<lparr>st_memories := filter (\<lambda>row. mw_memory_id row \<noteq> i) (st_memories db)\<rparr>)\<lparr>db_ledger := revoke_lifecycle_delete (authorize_lifecycle_delete (db_ledger db))\<rparr>"
    by (auto simp: authorized_memory_delete_def delete_memory_def Let_def authorize_lifecycle_delete_def split: if_splits)
  with rows_removed [OF \<open>I files db\<close>] ledger_change show "I files db'" by simp
next
  fix db e db' assume "I files db" and "authorized_memory_delete i db = (Inl e, db')"
  then show "I files db'"
    by (auto simp: authorized_memory_delete_def delete_memory_def Let_def authorize_lifecycle_delete_def split: if_splits)
qed

lemma keeps_tombstone [store_kept]: "keeps (I files) (insert_memory_tombstone t)"
  by (rule tripleI) (auto simp: insert_memory_tombstone_def tombstone_added split: if_splits)

lemma keeps_invalidate [store_kept]: "keeps (I files) (amodify (invalidate_backups r))"
  by (rule keeps_amodify) (simp add: invalidate_backups_def envelope_destroyed)

lemma keeps_remove [store_kept]: "keeps (I files) (memory_remove r reason fp ctx)"
  unfolding memory_remove_def by (intro keeps_rules store_kept)

lemma keeps_insert: "ok r \<Longrightarrow> keeps (I files) (memory_insert r)"
  by (rule tripleI) (use row_added in \<open>metis snd_conv\<close>)+

lemma keeps_remember:
  assumes "fit m" and "valid_memory (zone_known env) (reread_memory m)" and r: "r = reread_memory m"
  shows "keeps (I files) (remember_body e r ctx)"
  unfolding remember_body_def
proof (rule keeps_abind [OF keeps_verify])
  show "keeps (I files) (abind (aget (memory_tombstones (mr_memory_id r))) (\<lambda>forgotten.
     if forgotten \<noteq> [] then araise (StoreValueError ''forgotten memory identity cannot be reused'')
     else abind (memory_insert r) (\<lambda>_. memory_append e r ''created'' (memory_fingerprint e r) ctx)))"
    by (rule triple_abind [where R = "\<lambda>forgotten db. I files db \<and> (forgotten = [] \<longrightarrow> ok r)"])
      (auto intro!: triple_aget triple_pure triple_if keeps_rules store_kept keeps_insert dest: remembered_ok [OF _ assms(1,2)] simp: r reread_memory_def)
qed

lemma keeps_correct:
  assumes "sound c"
  shows "keeps (I files) (correct_body (store_env.truncate env) i c ctx)"
  unfolding correct_body_def
proof (intro keeps_abind [OF keeps_verify] keeps_read)
  fix db r assume "I files db" "memory_read (store_env.truncate env) i db = Inr r"
  then show "valid_memory_fields ((replacement r c)\<lparr>mr_memory_id := i\<rparr>) \<longrightarrow> ok ((replacement r c)\<lparr>mr_memory_id := i\<rparr>)"
    using corrected_ok assms by blast
qed (auto intro!: keeps_rules store_kept keeps_insert)

lemma keeps_forget [store_kept]: "keeps (I files) (forget_body e i n ctx)"
  unfolding forget_body_def by (intro keeps_rules store_kept)

lemma keeps_purge [store_kept]: "keeps (I files) (purge_each e ctx rs)"
proof (induction rs)
  case (Cons r rs)
  show ?case unfolding purge_each.simps by (intro keeps_rules store_kept Cons)
qed (simp add: triple_def)

section \<open>Operations on the connection and on the world\<close>

lemma keeps_remember_op: "fit r \<Longrightarrow> keeps (on_both (I files)) (remember (store_env.truncate env) r ctx)"
proof (cases "valid_memory (zone_known env) (reread_memory r)")
  case True
  then show "fit r \<Longrightarrow> ?thesis"
    by (auto simp: remember_def store_env.defs intro!: keeps_transaction keeps_remember)
qed (auto simp: remember_def store_env.defs intro: keeps_rules)

lemma keeps_correct_op: "sound c \<Longrightarrow> keeps (on_both (I files)) (correct_memory (store_env.truncate env) i c ctx)"
  unfolding correct_memory_def by (intro keeps_transaction keeps_correct)

lemma keeps_forget_op: "keeps (on_both (I files)) (forget e i n ctx)"
  unfolding forget_def by (intro keeps_transaction keeps_forget)

lemma keeps_purge_op: "keeps (on_both (I files)) (purge_expired_memory e now ctx)"
proof -
  have k: "keeps (on_both (I files)) (abind (then_commit (purge_each e ctx expired)) (\<lambda>_. areturn (length expired)))" for expired
    by (intro keeps_rules keeps_then_commit keeps_purge)
  show ?thesis
  proof (rule tripleI)
    fix c x c' assume c: "on_both (I files) c" and eq: "purge_expired_memory e now ctx c = (Inr x, c')"
    then obtain expired where "abind (then_commit (purge_each e ctx expired)) (\<lambda>_. areturn (length expired)) c = (Inr x, c')"
      by (auto simp: purge_expired_memory_def split: prod.splits sum.splits)
    from triple_value [OF k c this] show "on_both (I files) c'" .
  next
    fix c x c' assume c: "on_both (I files) c" and eq: "purge_expired_memory e now ctx c = (Inl x, c')"
    then have "c' = c \<or> (\<exists>expired. abind (then_commit (purge_each e ctx expired)) (\<lambda>_. areturn (length expired)) c = (Inl x, c'))"
      by (auto simp: purge_expired_memory_def split: prod.splits sum.splits)
    then show "on_both (I files) c'" using triple_error [OF k c] c by auto
  qed
qed

lemma keeps_delete_record_op: "keeps (on_both (I files)) (store_delete_record (store_env.truncate env) k i ctx)"
  unfolding store_delete_record_def using keeps_transaction [OF deleted] by (simp add: store_env.defs repository_env.defs)

lemma keeps_destroy_op: "status \<noteq> BACKUP_ACTIVE \<Longrightarrow> keeps (on_both (I files)) (destroy_key i status)"
  unfolding destroy_key_def by (intro keeps_then_commit keeps_amodify envelope_destroyed)

lemma keeps_prune_op: "keeps (on_both (I files)) (store_prune_audit e cutoff)"
  by (rule tripleI) (auto simp: store_prune_audit_def on_both_def idle_def ledger_change split: prod.splits sum.splits if_splits)

text \<open>The invariant of the world; the files do not change but by a new copy.\<close>

definition world_inv :: "(string \<rightharpoonup> string \<times> store_db) \<Rightarrow> backup_world \<Rightarrow> bool" where
  "world_inv files w \<longleftrightarrow> bw_files w = files \<and> on_both (I files) (bw_connection w)"

lemma keeps_on_store: "keeps (on_both (I files)) m \<Longrightarrow> keeps (world_inv files) (in_store m)"
  unfolding triple_def world_inv_def in_store_def Let_def by (fastforce split: prod.splits sum.splits)

lemma keeps_look: "keeps (world_inv files) (look_store f)"
  by (rule tripleI) (auto simp: look_store_def)

lemma keeps_invalidate_each: "keeps (world_inv files) (invalidate_each is)"
proof (induction "is")
  case (Cons i "is")
  show ?case unfolding invalidate_each.simps
    by (intro keeps_rules keeps_look keeps_on_store keeps_destroy_op Cons) simp
qed (simp add: triple_def)

lemma keeps_invalidate_containing: "keeps (world_inv files) (invalidate_containing k i)"
  unfolding invalidate_containing_def by (intro keeps_rules keeps_look keeps_invalidate_each)

lemma keeps_expire_each: "keeps (world_inv files) (expire_each now bs)"
proof (induction bs)
  case (Cons b bs)
  show ?case unfolding expire_each.simps by (intro keeps_rules keeps_on_store keeps_destroy_op Cons) simp
qed (simp add: triple_def)

lemma keeps_backup_expire: "keeps (world_inv files) (backup_expire now)"
  unfolding backup_expire_def by (intro keeps_rules keeps_look keeps_expire_each)

lemma keeps_store_delete: "keeps (world_inv files) (in_store (store_delete_record (store_env.truncate env) k i ctx))"
  by (intro keeps_on_store keeps_delete_record_op)

lemma keeps_expire_records: "keeps (world_inv files) (expire_records env communication health now ctx rs)"
proof (induction rs)
  case (Cons r rs)
  show ?case unfolding expire_records.simps
    by (intro keeps_rules keeps_invalidate_containing keeps_store_delete Cons)
qed (simp add: triple_def)

lemma keeps_run_expiry: "keeps (world_inv files) (run_expiry env communication health now ctx)"
  unfolding run_expiry_def
  by (intro keeps_rules keeps_look keeps_expire_records keeps_on_store keeps_prune_op keeps_backup_expire)

lemma keeps_delete_related: "keeps (world_inv files) (delete_related env ctx rs)"
proof (induction rs)
  case (Cons r rs)
  show ?case unfolding delete_related.simps by (intro keeps_rules keeps_invalidate_containing keeps_store_delete Cons)
qed (simp add: triple_def)

text \<open>A backup: the file is new, and the copy holds the memories that are registered with it.\<close>

lemma keeps_register:
  assumes "files (backup_path env b) = Some (k, copy)" and "bk_backup_id manifest = b" and "bk_path manifest = backup_path env b"
    and "b \<notin> bk_backup_id ` set (st_backups copy)"
  shows "triple (\<lambda>w. world_inv files w \<and> current (bw_connection w) = copy) (register_backup env manifest)
    (\<lambda>_. world_inv files) (\<lambda>_. world_inv files)"
proof -
  have register: "triple (\<lambda>c. on_both (I files) c \<and> current c = copy) (register_manifest manifest records (Some (record_ids copy)))
      (\<lambda>_. on_both (I files)) (\<lambda>_. on_both (I files))"
    if records: "store_records (store_env.truncate env) copy = Inr records" for records
  proof -
    have new: "I files copy \<Longrightarrow> I files (snd (register_body manifest records (Some (record_ids copy)) copy))"
      using backup_registered [of files copy manifest k copy records] assms records by simp
    show ?thesis
      by (rule tripleI; cases "register_body manifest records (Some (record_ids copy)) copy")
        (use new in \<open>auto simp: register_manifest_def then_commit_def on_both_def idle_def split: sum.splits\<close>)
  qed
  let ?P = "\<lambda>w. world_inv files w \<and> current (bw_connection w) = copy"
  have look: "triple ?P (look_store f) (\<lambda>x w. ?P w \<and> f copy = Inr x) (\<lambda>_. world_inv files)" for f
    by (rule tripleI) (auto simp: look_store_def)
  have "triple ?P (in_store (register_manifest manifest records (Some (record_ids copy)))) (\<lambda>_. world_inv files) (\<lambda>_. world_inv files)"
    if "store_records (store_env.truncate env) copy = Inr records" for records
    using register [OF that] unfolding triple_def world_inv_def in_store_def Let_def by (fastforce split: prod.splits sum.splits)
  then show ?thesis unfolding register_backup_def
    by (intro triple_abind [OF look] triple_pure triple_abind [OF triple_weaken [OF look]]) auto
qed

lemma backup_create_keeps:
  assumes inv: "world_inv files w" and fresh: "files (backup_path env b) = None" and run: "backup_create env b key nonce ctx w = (r, w')"
  shows "world_inv (bw_files w') w'"
proof (cases "store_verify (store_env.truncate env) (current (bw_connection w))")
  case (Inl e)
  with inv run show ?thesis by (auto simp: backup_create_def look_store_def world_inv_def)
next
  case (Inr v)
  let ?copy = "current (bw_connection w)" and ?files = "files(backup_path env b \<mapsto> (key, current (bw_connection w)))"
  let ?w = "w\<lparr>bw_files := ?files\<rparr>"
  let ?manifest = "\<lparr>bk_backup_id = b, bk_path = backup_path env b, bk_created_at = ctx_occurred_at ctx,
           bk_expires_at = dt_add (ctx_occurred_at ctx) BACKUP_RETENTION,
           bk_wrapped_data_key = Some (gcm_encrypt env (wrapping_key env) nonce b key), bk_nonce = Some nonce,
           bk_status = BACKUP_ACTIVE\<rparr>"
  have "world_inv ?files ?w" using inv file_written [of files _ "backup_path env b"] fresh by (simp add: world_inv_def on_both_def)
  moreover have "current (bw_connection ?w) = ?copy" by simp
  ultimately have pre: "world_inv ?files ?w \<and> current (bw_connection ?w) = ?copy" ..
  have new: "b \<notin> bk_backup_id ` set (st_backups ?copy)" using copy_exists [of files ?copy] inv fresh by (fastforce simp: world_inv_def on_both_def)
  have "triple (\<lambda>w. world_inv ?files w \<and> current (bw_connection w) = ?copy)
      (abind (register_backup env ?manifest) (\<lambda>_. areturn ?manifest)) (\<lambda>_. world_inv ?files) (\<lambda>_. world_inv ?files)"
    by (intro triple_abind [OF keeps_register [of ?files b key ?copy]] triple_areturn) (use new in simp_all)
  from keeps_snd [OF this, of ?w, OF pre] have "world_inv ?files (snd (abind (register_backup env ?manifest) (\<lambda>_. areturn ?manifest) ?w))" .
  moreover have "(r, w') = abind (register_backup env ?manifest) (\<lambda>_. areturn ?manifest) ?w"
    using run Inr inv by (simp add: backup_create_def look_store_def write_encrypted_backup_def world_inv_def Let_def)
  ultimately have "world_inv ?files w'" by (metis snd_conv)
  then show ?thesis by (simp add: world_inv_def)
qed

lemma lifecycle_delete_keeps:
  assumes inv: "world_inv files w" and fresh: "files (backup_path env b) = None" and run: "lifecycle_delete env k i b key nonce ctx w = (r, w')"
  shows "world_inv (bw_files w') w'"
proof -
  let ?E = "\<lambda>_ w. world_inv (bw_files w) w"
  have weak: "keeps (world_inv files) m \<Longrightarrow> triple (world_inv files) m (\<lambda>_. world_inv files) ?E" for m
    by (erule triple_weaken) (simp_all add: world_inv_def)
  have "triple (world_inv files) (backup_create env b key nonce ctx) (\<lambda>_ w. world_inv (bw_files w) w) ?E"
    by (rule tripleI) (use backup_create_keeps [of files _ b] fresh in blast)+
  then have "triple (world_inv files) (lifecycle_delete env k i b key nonce ctx) (\<lambda>_ w. world_inv (bw_files w) w) ?E"
    unfolding lifecycle_delete_def
    by (intro triple_abind [OF weak [OF keeps_invalidate_containing]] triple_abind [OF weak [OF keeps_look]]
        triple_abind [OF weak [OF keeps_delete_related]] triple_abind [OF weak [OF keeps_store_delete]])
      (rule triple_abind, assumption, rule triple_areturn, simp)
  from keeps_snd [OF this inv] run show ?thesis by simp
qed

lemma world_keeps:
  assumes "keeps (world_inv files) m" and "world_inv files w" and "m w = (x, w')"
  shows "world_inv (bw_files w') w'"
  using keeps_snd [OF assms(1,2)] assms(3) by (simp add: world_inv_def)

theorem store_step_keeps:
  assumes "store_step env fit sound w w'" and "world_inv (bw_files w) w"
  shows "world_inv (bw_files w') w'"
  using assms(1)
proof cases
  case (step_remember r ctx x)
  then show ?thesis using world_keeps [OF keeps_on_store [OF keeps_remember_op] assms(2)] by blast
next
  case (step_correct c i ctx y)
  then show ?thesis using world_keeps [OF keeps_on_store [OF keeps_correct_op] assms(2)] by blast
next
  case (step_forget i n ctx x)
  then show ?thesis using world_keeps [OF keeps_on_store [OF keeps_forget_op] assms(2)] by blast
next
  case (step_purge now ctx z)
  then show ?thesis using world_keeps [OF keeps_on_store [OF keeps_purge_op] assms(2)] by blast
next
  case (step_create_record d ctx x)
  then show ?thesis using world_keeps [OF keeps_on_store [OF keeps_transaction [OF created]] assms(2)] by blast
next
  case (step_transition_record k i s ctx x)
  then show ?thesis using world_keeps [OF keeps_on_store [OF keeps_transaction [OF transitioned]] assms(2)] by blast
next
  case (step_backup b key nonce ctx u)
  then show ?thesis using backup_create_keeps [OF assms(2)] by blast
next
  case (step_invalidate k i v)
  then show ?thesis using world_keeps [OF keeps_invalidate_containing assms(2)] by blast
next
  case (step_expire now v)
  then show ?thesis using world_keeps [OF keeps_backup_expire assms(2)] by blast
next
  case (step_run_expiry communication health now ctx q)
  then show ?thesis using world_keeps [OF keeps_run_expiry assms(2)] by blast
next
  case (step_lifecycle_delete b k i key nonce ctx p)
  then show ?thesis using lifecycle_delete_keeps [OF assms(2)] by blast
qed

theorem store_steps_keep:
  "(store_step env fit sound)\<^sup>*\<^sup>* w w' \<Longrightarrow> world_inv (bw_files w) w \<Longrightarrow> world_inv (bw_files w') w'"
  by (induction rule: rtranclp_induct) (blast intro: store_step_keeps)+

end

end
