(* ===== verification/Erasure.thy ===== *)
theory Erasure
  imports Store_Contract Record_Codec
begin

text \<open>
  Forgotten memories stay forgotten: the inventory of every restorable backup covers the memories its copy holds, so that removing a
  memory also destroys the keys of the copies that hold it, and no operation brings a removed identity back.
\<close>

section \<open>Keys of the domain records\<close>

text \<open>A stored text is the text of the record its row says, and the rows of a table have distinct keys.\<close>

definition rows_keyed :: "repository_env \<Rightarrow> domain_db \<Rightarrow> bool" where
  "rows_keyed env db \<longleftrightarrow> (\<forall>k. distinct (map (\<lambda>row. (vr_record_id row, vr_version row)) (db_tables db k))
     \<and> (\<forall>row \<in> set (db_tables db k). \<forall>r. parse_record env (vr_content_json row) = Some r \<longrightarrow> record_id r = vr_record_id row \<and> kind_of_record r = k))"

lemma rows_keyed_ledger [simp]: "rows_keyed env (db\<lparr>db_ledger := l\<rparr>) = rows_keyed env db"
  by (simp add: rows_keyed_def)

lemma keeps_keyed_verify: "keeps (rows_keyed env) (verify_ledger env)"
  by (simp add: triple_def verify_ledger_def split: sum.split)

lemma keeps_keyed_append: "keeps (rows_keyed env) (append_audit env m)"
  by (rule tripleI) (auto simp: append_audit_def split: prod.splits sum.splits)

lemma keeps_keyed_insert:
  assumes "\<And>r. parse_record env (vr_content_json row) = Some r \<Longrightarrow> record_id r = vr_record_id row \<and> kind_of_record r = k"
  shows "keeps (rows_keyed env) (insert_version k row)"
proof (rule tripleI)
  fix db x db' assume "rows_keyed env db" and "insert_version k row db = (Inr x, db')"
  with assms show "rows_keyed env db'"
    by (fastforce simp: insert_version_def rows_keyed_def split: if_splits)
qed (auto simp: insert_version_def split: if_splits)

lemma keeps_keyed_create:
  assumes "record_codec_ok env"
  shows "keeps (rows_keyed env) (create_body env r ctx)"
  unfolding create_body_def
  by (intro keeps_rules keeps_keyed_verify keeps_keyed_append keeps_keyed_insert)
    (use assms in \<open>auto simp: record_codec_ok_def split: if_splits\<close>)

lemma read_record_row:
  assumes "read_record env db k i = Inr (Some r)"
  shows "\<exists>row \<in> set (db_tables db k). vr_record_id row = i \<and> parse_record env (vr_content_json row) = Some r"
proof -
  from assms obtain row rows where s: "rev (sort_key vr_version (versions_of db k i)) = row # rows" "parse_record env (vr_content_json row) = Some r"
    by (auto simp: read_record_def split: list.splits option.splits)
  from s(1) have "row \<in> set (rev (sort_key vr_version (versions_of db k i)))" by simp
  then have "row \<in> set (versions_of db k i)" by simp
  with s(2) show ?thesis by (auto simp: versions_of_def)
qed

lemma keeps_keyed_transition:
  assumes "record_codec_ok env"
  shows "keeps (rows_keyed env) (transition_body env k i st ctx)"
  unfolding transition_body_def
proof (rule keeps_abind [OF keeps_keyed_verify])
  fix u :: unit
  let ?m = "\<lambda>db. case read_record env db k i of
         Inl e \<Rightarrow> (Inl e, db)
       | Inr None \<Rightarrow> (Inl (RecordNotFoundError k i), db)
       | Inr (Some rec) \<Rightarrow>
           (case parse_record env (dump_record env (rec\<lparr>record_state := st\<rparr>)) of
              None \<Rightarrow> (Inl RecordValidationError, db)
            | Some changed \<Rightarrow>
                abind (insert_version k
                  \<lparr>vr_record_id = i, vr_version = int (version_count db k i) + 1, vr_state = st,
                   vr_content_json = dump_record env changed, vr_created_at = record_created_at rec\<rparr>) (\<lambda>_.
                append_audit env (mutation_of k i st ''.transitioned'' (fingerprint env changed) ctx)) db)"
  have "rows_keyed env (snd (?m db))" if keyed: "rows_keyed env db" for db
  proof (cases "\<exists>rec changed. read_record env db k i = Inr (Some rec)
      \<and> parse_record env (dump_record env (rec\<lparr>record_state := st\<rparr>)) = Some changed")
    case False
    then show ?thesis using keyed by (auto split: sum.split option.split)
  next
    case True
    then obtain rec changed where rec: "read_record env db k i = Inr (Some rec)"
      and changed: "parse_record env (dump_record env (rec\<lparr>record_state := st\<rparr>)) = Some changed" by blast
    from read_record_row [OF rec] keyed have key: "record_id rec = i" "kind_of_record rec = k" by (auto simp: rows_keyed_def)
    have "changed = rec\<lparr>record_state := st\<rparr>" using changed assms by (auto simp: record_codec_ok_def split: if_splits)
    with key have "record_id changed = i" "kind_of_record changed = k" by (simp_all add: kind_of_record_def)
    then have "keeps (rows_keyed env) (abind (insert_version k
                  \<lparr>vr_record_id = i, vr_version = int (version_count db k i) + 1, vr_state = st,
                   vr_content_json = dump_record env changed, vr_created_at = record_created_at rec\<rparr>) (\<lambda>_.
                append_audit env (mutation_of k i st ''.transitioned'' (fingerprint env changed) ctx)))"
      using assms by (intro keeps_rules keeps_keyed_append keeps_keyed_insert) (auto simp: record_codec_ok_def split: if_splits)
    from keeps_snd [OF this keyed] show ?thesis using rec changed by simp
  qed
  then show "keeps (rows_keyed env) ?m" by (rule keepsI)
qed

lemma keeps_keyed_delete: "keeps (rows_keyed env) (delete_body env k i ctx)"
proof -
  have "keeps (rows_keyed env) (authorized_delete k i)"
    by (rule tripleI) (auto simp: authorized_delete_def delete_versions_def rows_keyed_def Let_def distinct_map inj_on_def split: if_splits)
  moreover have "keeps (rows_keyed env) (insert_tombstone t)" for t
    by (rule tripleI) (auto simp: insert_tombstone_def rows_keyed_def split: if_splits)
  ultimately have body: "keeps (rows_keyed env) (abind (authorized_delete k i) (\<lambda>_. abind (insert_tombstone t) (\<lambda>_. append_audit env m)))" for t m
    by (intro keeps_rules keeps_keyed_append)
  show ?thesis unfolding delete_body_def
  proof (rule keeps_abind [OF keeps_keyed_verify])
    fix u :: unit
    show "keeps (rows_keyed env) (\<lambda>db. case read_record env db k i of
         Inl e \<Rightarrow> (Inl e, db)
       | Inr None \<Rightarrow> (Inl (RecordNotFoundError k i), db)
       | Inr (Some rec) \<Rightarrow>
           abind (authorized_delete k i) (\<lambda>_.
           abind (insert_tombstone \<lparr>tb_record_id = i, tb_record_kind = k, tb_deleted_at = ctx_occurred_at ctx,
              tb_source_fingerprint = fingerprint env rec\<rparr>) (\<lambda>_.
           append_audit env (mutation_of k i ''deleted'' ''.deleted'' (fingerprint env rec) ctx))) db)"
      by (rule keepsI) (auto simp: keeps_snd [OF body] split: sum.split option.split)
  qed
qed

lemma distinct_latest:
  assumes "distinct (map (\<lambda>row. (vr_record_id row, vr_version row)) rows)"
  shows "distinct (map vr_record_id (latest_rows rows))"
proof -
  from assms have d: "distinct rows" and inj: "inj_on (\<lambda>row. (vr_record_id row, vr_version row)) (set rows)" by (auto simp: distinct_map)
  have "x = y" if "x \<in> set (latest_rows rows)" "y \<in> set (latest_rows rows)" "vr_record_id x = vr_record_id y" for x y
  proof -
    from that have "vr_version x = vr_version y" by (auto simp: latest_rows_def intro: order_antisym)
    with that inj show ?thesis by (auto simp: latest_rows_def dest: inj_onD)
  qed
  then show ?thesis using d by (auto simp: distinct_map inj_on_def latest_rows_def)
qed

lemma distinct_tagged: "distinct ks \<Longrightarrow> (\<And>k. distinct (f k)) \<Longrightarrow> distinct (concat (map (\<lambda>k. map (Pair k) (f k)) ks))"
  by (induction ks) (auto simp: distinct_map inj_on_def)

lemma all_records_keys:
  assumes keyed: "rows_keyed env db" and rs: "all_records env db = Inr rs"
  shows "distinct (map (\<lambda>r. (kind_of_record r, record_id r)) rs)"
proof -
  let ?rows = "\<lambda>ks. concat (map (\<lambda>k. latest_rows (db_tables db k)) ks)"
  let ?read = "\<lambda>row. case parse_record env (vr_content_json row) of None \<Rightarrow> Inl RecordValidationError | Some r \<Rightarrow> Inr r"
  have key: "(kind_of_record r, record_id r) = (k, vr_record_id row)"
    if "row \<in> set (latest_rows (db_tables db k))" "?read row = Inr r" for row r k
    using that keyed by (auto simp: rows_keyed_def latest_rows_def split: option.splits)
  have "map (\<lambda>r. (kind_of_record r, record_id r)) rs = concat (map (\<lambda>k. map (Pair k) (map vr_record_id (latest_rows (db_tables db k)))) ks)"
    if "emapM ?read (?rows ks) = Inr rs" for ks rs
    using that
  proof (induction ks arbitrary: rs)
    case (Cons k ks)
    have split: "\<exists>as bs. emapM f xs = Inr as \<and> emapM f ys = Inr bs \<and> zs = as @ bs" if "emapM f (xs @ ys) = Inr zs"
      for f :: "version_row \<Rightarrow> repository_error + domain_record" and xs ys zs
      using that by (induction xs arbitrary: zs) (fastforce simp: ebind_Inr_iff)+
    from split [of ?read "latest_rows (db_tables db k)" "?rows ks" rs] Cons.prems obtain as bs where
      as: "emapM ?read (latest_rows (db_tables db k)) = Inr as" and bs: "emapM ?read (?rows ks) = Inr bs" and rs: "rs = as @ bs" by auto
    have "map (\<lambda>r. (kind_of_record r, record_id r)) as = map (Pair k) (map vr_record_id (latest_rows (db_tables db k)))"
    proof -
      from emapM_Inr_map [OF as] have "list_all2 (\<lambda>row r. kind_of_record r = k \<and> record_id r = vr_record_id row) (latest_rows (db_tables db k)) as"
        by (rule list.rel_mono_strong) (use key in auto)
      then show ?thesis by (induction rule: list_all2_induct) auto
    qed
    with Cons.IH [OF bs] rs show ?case by simp
  qed simp
  from this [of all_kinds rs] rs have "map (\<lambda>r. (kind_of_record r, record_id r)) rs
      = concat (map (\<lambda>k. map (Pair k) (map vr_record_id (latest_rows (db_tables db k)))) all_kinds)" by (simp add: all_records_def)
  moreover have "distinct all_kinds" by (simp add: all_kinds_def)
  moreover have "distinct (map vr_record_id (latest_rows (db_tables db k)))" for k using keyed distinct_latest by (simp add: rows_keyed_def)
  ultimately show ?thesis by (simp only: distinct_tagged)
qed

section \<open>The catalog\<close>

definition catalog_ok :: "backup_env \<Rightarrow> (string \<rightharpoonup> string \<times> store_db) \<Rightarrow> store_db \<Rightarrow> bool" where
  "catalog_ok env files db \<longleftrightarrow>
     (\<forall>b \<in> set (st_backups db). bk_path b = backup_path env (bk_backup_id b) \<and> files (bk_path b) \<noteq> None
        \<and> (bk_status b = BACKUP_ACTIVE \<longrightarrow> (\<forall>k copy. files (bk_path b) = Some (k, copy) \<longrightarrow>
             (\<forall>i \<in> set (record_ids copy). (bk_backup_id b, NORMALIZED_FACT, i) \<in> set (st_backup_records db)))))
     \<and> fst ` set (st_backup_records db) \<subseteq> bk_backup_id ` set (st_backups db)
     \<and> set (st_backup_coverage db) \<subseteq> bk_backup_id ` set (st_backups db)"

definition cells_ok :: "store_db \<Rightarrow> bool" where
  "cells_ok db \<longleftrightarrow> (\<forall>row \<in> set (st_memories db). mr_memory_id (mw_content_json row) = mw_memory_id row)"

text \<open>No restorable copy holds the memory.\<close>

definition copy_free :: "(string \<rightharpoonup> string \<times> store_db) \<Rightarrow> string \<Rightarrow> store_db \<Rightarrow> bool" where
  "copy_free files i db \<longleftrightarrow> (\<forall>b \<in> set (st_backups db). bk_status b = BACKUP_ACTIVE \<longrightarrow>
     (\<forall>k copy. files (bk_path b) = Some (k, copy) \<longrightarrow> i \<notin> set (record_ids copy)))"

definition forgotten :: "(string \<rightharpoonup> string \<times> store_db) \<Rightarrow> string \<Rightarrow> store_db \<Rightarrow> bool" where
  "forgotten files i db \<longleftrightarrow> memory_tombstones i db \<noteq> [] \<and> i \<notin> set (record_ids db) \<and> copy_free files i db"

definition erasure_inv :: "backup_env \<Rightarrow> string set \<Rightarrow> (string \<rightharpoonup> string \<times> store_db) \<Rightarrow> store_db \<Rightarrow> bool" where
  "erasure_inv env F files db \<longleftrightarrow> record_codec_ok (repository_env.truncate env) \<and> rows_keyed (repository_env.truncate env) (domain_db.truncate db) \<and> cells_ok db \<and> catalog_ok env files db
     \<and> (\<forall>i \<in> F. forgotten files i db)"

lemma insert_backup_records_new:
  "distinct xs \<Longrightarrow> set xs \<inter> set (st_backup_records db) = {} \<Longrightarrow>
   insert_backup_records xs db = (Inr (), db\<lparr>st_backup_records := st_backup_records db @ xs\<rparr>)"
  by (induction xs arbitrary: db) auto

lemma insert_or_ignore_all:
  "\<exists>ys. foldl insert_or_ignore db xs = db\<lparr>st_backup_records := st_backup_records db @ ys\<rparr>
     \<and> set ys \<subseteq> set xs \<and> set xs \<subseteq> set (st_backup_records db) \<union> set ys"
proof (induction xs arbitrary: db)
  case Nil
  then show ?case by (intro exI [of _ "[]"]) simp
next
  case (Cons x xs)
  show ?case
  proof (cases "x \<in> set (st_backup_records db)")
    case True
    with Cons [of db] show ?thesis by (auto simp: insert_or_ignore_def)
  next
    case False
    from Cons [of "db\<lparr>st_backup_records := st_backup_records db @ [x]\<rparr>"] obtain ys where
      "foldl insert_or_ignore (db\<lparr>st_backup_records := st_backup_records db @ [x]\<rparr>) xs = db\<lparr>st_backup_records := (st_backup_records db @ [x]) @ ys\<rparr>"
      "set ys \<subseteq> set xs" "set xs \<subseteq> set (st_backup_records db) \<union> {x} \<union> set ys" by auto
    moreover have "insert_or_ignore db x = db\<lparr>st_backup_records := st_backup_records db @ [x]\<rparr>" using False by (simp add: insert_or_ignore_def)
    ultimately show ?thesis by (intro exI [of _ "x # ys"]) auto
  qed
qed

text \<open>Registering a backup with a new identity succeeds.\<close>

lemma register_body_succeeds:
  assumes new: "bk_backup_id b \<notin> bk_backup_id ` set (st_backups db)" and cat: "catalog_ok env files db"
    and keys: "distinct (map (\<lambda>r. (kind_of_record r, record_id r)) records)"
  obtains ys where "register_body b records (Some ids) db = (Inr (), db\<lparr>st_backups := st_backups db @ [b],
      st_backup_records := st_backup_records db @ ys, st_backup_coverage := st_backup_coverage db @ [bk_backup_id b]\<rparr>)"
    and "(\<lambda>i. (bk_backup_id b, NORMALIZED_FACT, i)) ` set ids \<subseteq> set ys" and "fst ` set ys \<subseteq> {bk_backup_id b}"
proof -
  let ?xs = "map (\<lambda>r. (bk_backup_id b, kind_of_record r, record_id r)) records"
  let ?ms = "map (\<lambda>i. (bk_backup_id b, NORMALIZED_FACT, i)) ids"
  let ?db = "db\<lparr>st_backups := st_backups db @ [b]\<rparr>"
  have other: "(bk_backup_id b, k, i) \<notin> set (st_backup_records db)" "bk_backup_id b \<notin> set (st_backup_coverage db)" for k i
    using new cat by (auto simp: catalog_ok_def dest: subsetD imageI [of _ _ fst])
  have "?xs = map (Pair (bk_backup_id b)) (map (\<lambda>r. (kind_of_record r, record_id r)) records)" by simp
  then have "distinct ?xs" using keys by (simp only: distinct_map [of "Pair (bk_backup_id b)"]) (simp add: inj_on_def)
  moreover have "set ?xs \<inter> set (st_backup_records ?db) = {}" using other by auto
  ultimately have 1: "insert_backup_records ?xs ?db = (Inr (), ?db\<lparr>st_backup_records := st_backup_records db @ ?xs\<rparr>)"
    using insert_backup_records_new [of ?xs ?db] by simp
  obtain zs where 2: "foldl insert_or_ignore (?db\<lparr>st_backup_records := st_backup_records db @ ?xs\<rparr>) ?ms
      = ?db\<lparr>st_backup_records := (st_backup_records db @ ?xs) @ zs\<rparr>"
    "set zs \<subseteq> set ?ms" "set ?ms \<subseteq> set (st_backup_records db @ ?xs) \<union> set zs"
    using insert_or_ignore_all [of "?db\<lparr>st_backup_records := st_backup_records db @ ?xs\<rparr>" ?ms] by auto
  have "register_body b records (Some ids) db = (Inr (), db\<lparr>st_backups := st_backups db @ [b],
      st_backup_records := st_backup_records db @ ?xs @ zs, st_backup_coverage := st_backup_coverage db @ [bk_backup_id b]\<rparr>)"
    using new 1 2(1) other(2) by (simp add: register_body_def insert_backup_def insert_coverage_def)
  moreover have "set ?ms \<subseteq> set (?xs @ zs)" using 2(3) other(1) by auto
  moreover have "fst ` set (?xs @ zs) \<subseteq> {bk_backup_id b}" using 2(2) by auto
  ultimately show thesis by (intro that [of "?xs @ zs"]) auto
qed

section \<open>The laws\<close>

lemma on_domain_fields:
  assumes "on_domain m db = (r, db')"
  shows "domain_db.truncate db' = snd (m (domain_db.truncate db))" "st_memories db' = st_memories db"
    "st_memory_tombstones db' = st_memory_tombstones db" "st_backups db' = st_backups db"
    "st_backup_records db' = st_backup_records db" "st_backup_coverage db' = st_backup_coverage db"
  using assms by (cases db; auto simp: on_domain_def domain_db.defs split: prod.splits)+

lemma no_tombstone_iff: "memory_tombstones i db = [] \<longleftrightarrow> i \<notin> mt_memory_id ` set (st_memory_tombstones db)"
proof -
  have "memory_tombstones i db = [] \<longleftrightarrow> length (memory_tombstones i db) = 0" by simp
  also have "\<dots> \<longleftrightarrow> filter (\<lambda>t. mt_memory_id t = i) (st_memory_tombstones db) = []"
    by (simp only: memory_tombstones_def length_map length_sort length_0_conv)
  finally show ?thesis by (auto simp: filter_empty_conv)
qed

lemmas erasure_defs = erasure_inv_def cells_ok_def catalog_ok_def forgotten_def copy_free_def no_tombstone_iff record_ids_def

lemma erasure_cong:
  assumes "st_memories db' = st_memories db" "st_memory_tombstones db' = st_memory_tombstones db" "st_backups db' = st_backups db"
    "st_backup_records db' = st_backup_records db" "st_backup_coverage db' = st_backup_coverage db"
    and "rows_keyed (repository_env.truncate env) (domain_db.truncate db')" and "erasure_inv env F files db"
  shows "erasure_inv env F files db'"
proof -
  have "cells_ok db' = cells_ok db" "catalog_ok env files db' = catalog_ok env files db" by (simp_all only: cells_ok_def catalog_ok_def assms)
  moreover have "forgotten files i db' = forgotten files i db" for i by (simp only: forgotten_def copy_free_def record_ids_def memory_tombstones_def assms)
  ultimately show ?thesis using assms(6,7) by (simp add: erasure_inv_def)
qed

lemma erasure_on_domain:
  assumes "record_codec_ok (repository_env.truncate env) \<Longrightarrow> keeps (rows_keyed (repository_env.truncate env)) m"
  shows "keeps (erasure_inv env F files) (on_domain m)"
proof (rule keepsI)
  fix db assume inv: "erasure_inv env F files db"
  obtain r db' where eq: "on_domain m db = (r, db')" by fastforce
  from inv have "rows_keyed (repository_env.truncate env) (domain_db.truncate db')"
    using keeps_snd [OF assms] by (simp add: erasure_inv_def on_domain_fields [OF eq])
  from erasure_cong [OF on_domain_fields(2-) [OF eq] this inv] show "erasure_inv env F files (snd (on_domain m db))" by (simp add: eq)
qed

lemma truncate_ledger: "domain_db.truncate (db\<lparr>db_ledger := l\<rparr>) = (domain_db.truncate db)\<lparr>db_ledger := l\<rparr>"
  by (cases db) (simp add: domain_db.defs)

lemma truncate_stores [simp]:
  "domain_db.truncate (db\<lparr>st_memories := ms\<rparr>) = domain_db.truncate db"
  "domain_db.truncate (db\<lparr>st_memory_tombstones := ts\<rparr>) = domain_db.truncate db"
  "domain_db.truncate (db\<lparr>st_backups := bs\<rparr>) = domain_db.truncate db"
  "domain_db.truncate (db\<lparr>st_backup_records := rs\<rparr>) = domain_db.truncate db"
  "domain_db.truncate (db\<lparr>st_backup_coverage := cs\<rparr>) = domain_db.truncate db"
  by (cases db; simp add: domain_db.defs)+

text \<open>The copy of a new backup holds what the store holds, so it holds nothing forgotten.\<close>

lemma erasure_registered:
  assumes inv: "erasure_inv env F files db" and path: "bk_path b = backup_path env (bk_backup_id b)" and copied: "files (bk_path b) = Some (key, copy)"
    and ids: "record_ids copy = record_ids db" and new: "bk_backup_id b \<notin> bk_backup_id ` set (st_backups db)"
    and records: "store_records (store_env.truncate env) db = Inr records"
  shows "erasure_inv env F files (snd (register_body b records (Some (record_ids db)) db))"
proof -
  from inv have cat: "catalog_ok env files db" and keyed: "rows_keyed (repository_env.truncate env) (domain_db.truncate db)"
    and gone: "\<And>i. i \<in> F \<Longrightarrow> forgotten files i db" by (auto simp: erasure_inv_def)
  from records have "all_records (repository_env.truncate env) (domain_db.truncate db) = Inr records"
    by (auto simp: store_records_def repository_result_def store_env.defs repository_env.defs split: sum.splits)
  from all_records_keys [OF keyed this] have keys: "distinct (map (\<lambda>r. (kind_of_record r, record_id r)) records)" .
  obtain ys where run: "register_body b records (Some (record_ids db)) db = (Inr (), db\<lparr>st_backups := st_backups db @ [b],
      st_backup_records := st_backup_records db @ ys, st_backup_coverage := st_backup_coverage db @ [bk_backup_id b]\<rparr>)"
    and ys: "(\<lambda>i. (bk_backup_id b, NORMALIZED_FACT, i)) ` set (record_ids db) \<subseteq> set ys" "fst ` set ys \<subseteq> {bk_backup_id b}"
    by (rule register_body_succeeds [OF new cat keys])
  let ?db = "db\<lparr>st_backups := st_backups db @ [b],
      st_backup_records := st_backup_records db @ ys, st_backup_coverage := st_backup_coverage db @ [bk_backup_id b]\<rparr>"
  have "catalog_ok env files ?db" using cat path copied ids ys by (auto simp: catalog_ok_def)
  moreover have "forgotten files i ?db" if "i \<in> F" for i
  proof -
    have "record_ids ?db = record_ids db" "memory_tombstones i ?db = memory_tombstones i db" by (simp_all add: record_ids_def memory_tombstones_def)
    with gone [OF that] copied ids show ?thesis by (auto simp: forgotten_def copy_free_def)
  qed
  ultimately have "erasure_inv env F files ?db" using inv by (simp add: erasure_inv_def cells_ok_def)
  then show ?thesis by (simp add: run)
qed

lemma erasure_ledger: "erasure_inv env F files db \<Longrightarrow> erasure_inv env F files (db\<lparr>db_ledger := l\<rparr>)"
  by (rule erasure_cong [of _ db]) (auto simp: truncate_ledger erasure_inv_def)

lemma erasure_row_added:
  assumes "erasure_inv env F files db" and "mr_memory_id r \<notin> F"
  shows "erasure_inv env F files (snd (memory_insert r db))"
  using assms unfolding erasure_defs memory_insert_def by (auto simp: reread_memory_def)

lemma erasure_rows_removed:
  assumes "erasure_inv env F files db"
  shows "erasure_inv env F files (db\<lparr>st_memories := filter P (st_memories db)\<rparr>)"
  using assms unfolding erasure_defs by auto

lemma erasure_tombstone_added:
  assumes "erasure_inv env F files db"
  shows "erasure_inv env F files (db\<lparr>st_memory_tombstones := st_memory_tombstones db @ [t]\<rparr>)"
  using assms unfolding erasure_defs by auto

lemma erasure_file_written:
  assumes "erasure_inv env F files db" and "files p = None"
  shows "erasure_inv env F (files(p \<mapsto> x)) db"
  using assms unfolding erasure_defs by auto

lemma erasure_destroyed:
  assumes "status \<noteq> BACKUP_ACTIVE" and "erasure_inv env F files db"
  shows "erasure_inv env F files (db\<lparr>st_backups := map (\<lambda>b. if Q b then destroy_envelope status b else b) (st_backups db)\<rparr>)"
proof -
  define f where "f b = (if Q b then destroy_envelope status b else b)" for b
  let ?db = "db\<lparr>st_backups := map f (st_backups db)\<rparr>"
  have ident: "bk_backup_id (f b) = bk_backup_id b" "bk_path (f b) = bk_path b" for b by (simp_all add: f_def destroy_envelope_def)
  have active: "bk_status b = BACKUP_ACTIVE" if "bk_status (f b) = BACKUP_ACTIVE" for b using that assms(1) by (auto simp: f_def destroy_envelope_def split: if_splits)
  have ids: "bk_backup_id ` set (st_backups ?db) = bk_backup_id ` set (st_backups db)" 
  proof -
    have "st_backups ?db = map f (st_backups db)" by simp
    then show ?thesis by (simp only: set_map image_image ident)
  qed
  from assms(2) have cat: "catalog_ok env files db" and gone: "\<And>i. i \<in> F \<Longrightarrow> forgotten files i db" by (auto simp: erasure_inv_def)
  have "catalog_ok env files ?db" using cat unfolding catalog_ok_def ids
    by (auto simp: ident dest: active)
  moreover have "forgotten files i ?db" if "i \<in> F" for i
    using gone [OF that] by (auto simp: forgotten_def copy_free_def memory_tombstones_def record_ids_def ident dest: active)
  ultimately have "erasure_inv env F files ?db" using assms(2) by (simp add: erasure_inv_def cells_ok_def)
  then show ?thesis by (simp only: f_def [abs_def])
qed

section \<open>The store keeps its inventory and what it has forgotten\<close>

interpretation erasure: store_contract env "erasure_inv env F" "\<lambda>r. mr_memory_id r \<notin> F" "\<lambda>_. True" "\<lambda>_. True" for env F
proof unfold_locales
  fix files db and r :: memory_record assume "erasure_inv env F files db" "memory_tombstones (mr_memory_id r) db = []"
  then show "mr_memory_id (reread_memory r) \<notin> F" by (auto simp: erasure_inv_def forgotten_def reread_memory_def)
next
  fix files db i r c assume inv: "erasure_inv env F files db" and "memory_read (store_env.truncate env) i db = Inr r"
  then have "i \<in> set (record_ids db)" by (auto simp: memory_read_def record_ids_def find_Some_iff split: option.splits)
  then show "mr_memory_id ((replacement r c)\<lparr>mr_memory_id := i\<rparr>) \<notin> F" using inv by (auto simp: erasure_inv_def forgotten_def)
next
  fix files db b assume "erasure_inv env F files db" "b \<in> set (st_backups db)"
  then show "files (backup_path env (bk_backup_id b)) \<noteq> None" by (auto simp: erasure_inv_def catalog_ok_def)
next
  show "keeps (erasure_inv env F files) (on_domain (create_body (repository_env.truncate env) d ctx))" for files d ctx
    by (intro erasure_on_domain keeps_keyed_create)
next
  show "keeps (erasure_inv env F files) (on_domain (transition_body (repository_env.truncate env) k i st ctx))" for files k i st ctx
    by (intro erasure_on_domain keeps_keyed_transition)
next
  show "keeps (erasure_inv env F files) (on_domain (delete_body (repository_env.truncate env) k i ctx))" for files k i ctx
    by (intro erasure_on_domain keeps_keyed_delete)
qed (blast intro: erasure_ledger erasure_row_added erasure_rows_removed erasure_tombstone_added erasure_file_written erasure_registered erasure_destroyed)+

lemma memory_removed_forgotten:
  assumes cat: "catalog_ok env files db" and run: "memory_remove r reason fp ctx db = (Inr (), db')"
  shows "forgotten files (mr_memory_id r) db'"
proof -
  let ?i = "mr_memory_id r"
  let ?t = "\<lparr>mt_memory_id = ?i, mt_revision = mr_revision r, mt_removed_at = ctx_occurred_at ctx, mt_reason = reason, mt_source_fingerprint = fp\<rparr>"
  let ?bs = "map (\<lambda>b. if covers_memory db r b then destroy_envelope BACKUP_INVALIDATED b else b) (st_backups db)"
  from run have db': "st_memories db' = filter (\<lambda>row. mw_memory_id row \<noteq> ?i) (st_memories db)"
    "st_memory_tombstones db' = st_memory_tombstones db @ [?t]" "st_backups db' = ?bs"
    by (auto simp: memory_remove_def invalidate_backups_def authorized_memory_delete_def delete_memory_def insert_memory_tombstone_def
        authorize_lifecycle_delete_def Let_def abind_def amodify_def split: if_splits)
  have "?i \<notin> set (record_ids copy)" if b: "b \<in> set ?bs" "bk_status b = BACKUP_ACTIVE" and f: "files (bk_path b) = Some (k, copy)" for b k copy
  proof -
    from b obtain c where "c \<in> set (st_backups db)" "\<not> covers_memory db r c" "b = c" by (auto simp: destroy_envelope_def split: if_splits)
    with b have b': "b \<in> set (st_backups db)" and "(bk_backup_id b, NORMALIZED_FACT, ?i) \<notin> set (st_backup_records db)"
      by (auto simp: covers_memory_def)
    then show ?thesis using cat f b(2) unfolding catalog_ok_def by blast
  qed
  then show ?thesis by (auto simp: forgotten_def copy_free_def no_tombstone_iff record_ids_def db')
qed

lemma find_Some_member: "find P xs = Some x \<Longrightarrow> x \<in> set xs \<and> P x"
  by (auto simp: find_Some_iff)

lemma forget_forgotten:
  assumes inv: "erasure_inv env F files db" and run: "forget_body e i n ctx db = (Inr (), db')"
  shows "forgotten files i db'"
proof -
  from run obtain r db1 where read: "memory_read e i db = Inr r" and removed: "memory_remove r RR_USER_DELETION (memory_fingerprint e r) ctx db = (Inr (), db1)"
    and append: "memory_append e r ''deleted'' (memory_fingerprint e r) ctx db1 = (Inr (), db')"
    unfolding forget_body_def by (auto simp: aread_def alift_def memory_verify_def split: sum.splits)
  have "mr_memory_id r = i"
  proof -
    from read obtain row where "row \<in> set (st_memories db)" "mw_memory_id row = i" "mw_content_json row = r"
      by (auto simp: memory_read_def read_cell_def split: option.splits if_splits dest!: find_Some_member)
    with inv show ?thesis by (auto simp: erasure_inv_def cells_ok_def)
  qed
  moreover have "forgotten files (mr_memory_id r) db1" by (rule memory_removed_forgotten [of env, OF _ removed]) (use inv in \<open>simp add: erasure_inv_def\<close>)
  moreover have "\<exists>l. db' = db1\<lparr>db_ledger := l\<rparr>" using append by (auto simp: memory_append_def split: prod.splits sum.splits)
  ultimately show ?thesis by (auto simp: forgotten_def copy_free_def memory_tombstones_def record_ids_def)
qed

definition empty_world :: backup_world where
  "empty_world = \<lparr>bw_connection = idle (domain_db.extend new_domain_db \<lparr>st_memories = [], st_memory_tombstones = [], st_backups = [],
     st_backup_records = [], st_backup_coverage = []\<rparr>), bw_files = Map.empty\<rparr>"

lemma empty_world_inv:
  assumes "record_codec_ok (repository_env.truncate env)"
  shows "erasure.world_inv env {} (bw_files empty_world) empty_world"
  using assms by (simp add: erasure.world_inv_def empty_world_def erasure_inv_def rows_keyed_def cells_ok_def catalog_ok_def new_domain_db_def domain_db.defs)

lemma restored_copy:
  assumes "restore_backup env b w = Inr copy"
  shows "\<exists>m k. m \<in> set (st_backups (current (bw_connection w))) \<and> bk_status m = BACKUP_ACTIVE \<and> bw_files w (bk_path m) = Some (k, copy)"
proof -
  from assms obtain m where m: "backup_manifest b (current (bw_connection w)) = Inr m" and status: "bk_status m = BACKUP_ACTIVE"
    and opened: "\<exists>key. open_backup env m key w = Inr copy"
    unfolding restore_backup_def ebind_Inr_iff by (elim exE conjE) (auto split: option.splits if_splits)
  from m obtain row where row: "find (\<lambda>r. bk_backup_id r = b) (st_backups (current (bw_connection w))) = Some row"
    and same: "bk_status row = bk_status m" "bk_path row = bk_path m"
    by (auto simp: backup_manifest_def Let_def split: option.splits if_splits)
  from row have "row \<in> set (st_backups (current (bw_connection w)))" by (auto simp: find_Some_iff)
  moreover from opened obtain k where "bw_files w (bk_path m) = Some (k, copy)"
    by (auto simp: open_backup_def ebind_Inr_iff split: option.splits if_splits)
  ultimately show ?thesis using same status by metis
qed

lemma authorized_records_subset: "authorized_records scope now rs = Inr out \<Longrightarrow> set out \<subseteq> set rs"
  by (induction rs arbitrary: out) (auto simp: ebind_Inr_iff split: if_splits)

lemma retrieve_members:
  assumes "retrieve env now scope db = Inr out"
  shows "set out \<subseteq> mw_content_json ` set (st_memories db)"
proof -
  from assms obtain rs where rs: "emapM (read_cell env) (memory_rows db) = Inr rs" and out: "authorized_records scope now rs = Inr out"
    by (auto simp: retrieve_def ebind_Inr_iff)
  from emapM_Inr_map [OF rs] have "list_all2 (\<lambda>row r. r = mw_content_json row) (memory_rows db) rs"
    by (rule list.rel_mono_strong) (auto simp: read_cell_def split: if_splits)
  then have "rs = map mw_content_json (memory_rows db)" by (induction rule: list_all2_induct) auto
  with authorized_records_subset [OF out] show ?thesis by (auto simp: memory_rows_def)
qed

lemma remember_tombstoned:
  assumes "memory_tombstones (mr_memory_id r) (current c) \<noteq> []"
  shows "remember env r ctx c \<noteq> (Inr x, c')"
proof
  assume run: "remember env r ctx c = (Inr x, c')"
  have "fst (remember_body env (reread_memory r) ctx (current c)) \<noteq> Inr y" for y
    using assms by (cases "memory_verify env (current c)"; cases "fst (memory_verify env (current c))")
      (auto simp: remember_body_def memory_verify_def aget_def araise_def abind_def reread_memory_def split: sum.splits)
  with run show False
    by (auto simp: remember_def araise_def domain_transaction_def on_tables_def Let_def split: if_splits prod.splits sum.splits)
qed

text \<open>
  C27: a memory the user deletes is gone: whatever operations led to the store and whatever operations follow a successful \<open>forget\<close>, the
  memory cannot be read, no retrieval returns it, no backup that can still be restored holds it, and no record can be remembered under its
  identity.
\<close>
theorem forgotten_for_good:
  assumes codec: "record_codec_ok (repository_env.truncate env)" and before: "(store_step env (\<lambda>_. True) (\<lambda>_. True))\<^sup>*\<^sup>* empty_world w"
    and idle: "\<not> in_transaction (bw_connection w)"
    and forget: "in_store (forget (store_env.truncate env) i n ctx) w = (Inr (), w1)" and after: "(store_step env (\<lambda>_. True) (\<lambda>_. True))\<^sup>*\<^sup>* w1 w2"
  shows "memory_read (store_env.truncate env) i (current (bw_connection w2)) = Inl (MemoryNotFoundError i)
    \<and> (\<forall>now scope out. retrieve (store_env.truncate env) now scope (current (bw_connection w2)) = Inr out \<longrightarrow> i \<notin> mr_memory_id ` set out)
    \<and> (\<forall>b copy. restore_backup env b w2 = Inr copy \<longrightarrow> i \<notin> set (record_ids copy))
    \<and> (\<forall>r ctx' x w3. mr_memory_id r = i \<longrightarrow> in_store (remember (store_env.truncate env) r ctx') w2 \<noteq> (Inr x, w3))"
proof -
  let ?e = "store_env.truncate env" and ?db = "current (bw_connection w2)"
  from erasure.store_steps_keep [OF before empty_world_inv [OF codec]]
  have inv: "on_both (erasure_inv env {} (bw_files w)) (bw_connection w)" by (simp add: erasure.world_inv_def)
  obtain db where run: "forget_body ?e i n ctx (current (bw_connection w)) = (Inr (), db)" and w1: "bw_connection w1 = idle db" "bw_files w1 = bw_files w"
    using forget idle by (cases "forget_body ?e i n ctx (current (bw_connection w))"; cases "fst (forget_body ?e i n ctx (current (bw_connection w)))")
      (auto simp: in_store_def forget_def domain_transaction_def on_tables_def idle_def Let_def)
  have "erasure_inv env {} (bw_files w) db"
    using keeps_snd [OF erasure.keeps_forget, of env "{}" "bw_files w" "current (bw_connection w)" ?e i n ctx] inv run by (simp add: on_both_def)
  moreover have "forgotten (bw_files w) i db" using forget_forgotten [OF _ run] inv by (auto simp: on_both_def)
  ultimately have "erasure.world_inv env {i} (bw_files w1) w1" using w1 by (simp add: erasure.world_inv_def erasure_inv_def)
  from erasure.store_steps_keep [OF after this] have inv2: "erasure_inv env {i} (bw_files w2) ?db" by (simp add: erasure.world_inv_def on_both_def)
  then have gone: "i \<notin> set (record_ids ?db)" and copies: "copy_free (bw_files w2) i ?db" and dead: "memory_tombstones i ?db \<noteq> []"
    by (auto simp: erasure_inv_def forgotten_def)
  have "memory_read ?e i ?db = Inl (MemoryNotFoundError i)"
  proof -
    have "find (\<lambda>row. mw_memory_id row = i) (st_memories ?db) = None" using gone by (auto simp: record_ids_def find_None_iff)
    then show ?thesis by (simp add: memory_read_def)
  qed
  moreover have "i \<notin> mr_memory_id ` set out" if "retrieve ?e now scope ?db = Inr out" for now scope out
    using retrieve_members [OF that] inv2 gone by (auto simp: erasure_inv_def cells_ok_def record_ids_def)
  moreover have "i \<notin> set (record_ids copy)" if "restore_backup env b w2 = Inr copy" for b copy
    using restored_copy [OF that] copies by (auto simp: copy_free_def)
  moreover have "in_store (remember ?e r ctx') w2 \<noteq> (Inr x, w3)" if "mr_memory_id r = i" for r ctx' x w3
    using remember_tombstoned [of r "bw_connection w2" ?e ctx'] that dead by (auto simp: in_store_def split: prod.splits)
  ultimately show ?thesis by blast
qed

definition ex_backup_env :: backup_env where
  "ex_backup_env = \<lparr>dump_record = text_record, parse_record = untext_record, repo_hmac = (\<lambda>key text. ''h''), audit_key = ''key'',
     dump_memory = mr_content, zone_known = (\<lambda>_. True), backup_directory = ''/b'', wrapping_key = ''w'',
     gcm_encrypt = (\<lambda>k n aad m. ''w'' @ m), gcm_decrypt = (\<lambda>k n aad c. Some (tl c))\<rparr>"

definition ex_store_ctx :: transition_context where
  "ex_store_ctx = \<lparr>ctx_actor = ''owner'', ctx_correlation_id = ''c'', ctx_occurred_at = utc_datetime 1\<rparr>"

definition ex_memory :: memory_record where
  "ex_memory = \<lparr>mr_memory_id = ''m1'', mr_category = MC_PREFERENCE, mr_content = ''tea'',
     mr_provenance = \<lparr>mp_source = MS_USER_STATEMENT, mp_source_id = ''chat'', mp_captured_at = utc_datetime 1\<rparr>,
     mr_confidence = 1, mr_retrieval_scopes = {SCOPE_PLANNING}, mr_created_at = utc_datetime 1, mr_retain_until = None, mr_revision = 1,
     mr_knowledge = None, mr_interview = None\<rparr>"

definition ex_world_remembered :: backup_world where
  "ex_world_remembered = snd (in_store (remember (store_env.truncate ex_backup_env) ex_memory ex_store_ctx) empty_world)"

definition ex_world_copied :: backup_world where
  "ex_world_copied = snd (backup_create ex_backup_env ''b1'' ''k'' ''n'' ex_store_ctx ex_world_remembered)"

lemmas ex_backup_defs = ex_backup_env_def ex_store_ctx_def ex_memory_def ex_world_remembered_def ex_world_copied_def empty_world_def new_domain_db_def

lemma ex_backup_codec: "record_codec_ok (repository_env.truncate ex_backup_env)"
  by (simp add: record_codec_ok_def ex_backup_env_def repository_env.defs untext_record)

lemma ex_forget: "fst (in_store (forget (store_env.truncate ex_backup_env) ''m1'' 1 ex_store_ctx) ex_world_copied) = Inr ()"
  by code_simp
lemma ex_fresh: "bw_files ex_world_remembered (backup_path ex_backup_env ''b1'') = None"
  by code_simp
lemma ex_idle: "\<not> in_transaction (bw_connection ex_world_copied)"
  by code_simp
lemma ex_restorable: "(case restore_backup ex_backup_env ''b1'' ex_world_copied of Inl _ \<Rightarrow> False | Inr copy \<Rightarrow> ''m1'' \<in> set (record_ids copy))"
  by code_simp

theorem forgotten_for_good_witness:
  "\<exists>w1. in_store (forget (store_env.truncate ex_backup_env) ''m1'' 1 ex_store_ctx) ex_world_copied = (Inr (), w1)
     \<and> (\<exists>copy. restore_backup ex_backup_env ''b1'' ex_world_copied = Inr copy \<and> ''m1'' \<in> set (record_ids copy))
     \<and> (\<forall>b copy. restore_backup ex_backup_env b w1 = Inr copy \<longrightarrow> ''m1'' \<notin> set (record_ids copy))"
proof -
  obtain w1 where w1: "in_store (forget (store_env.truncate ex_backup_env) ''m1'' 1 ex_store_ctx) ex_world_copied = (Inr (), w1)"
    using ex_forget by (metis prod.collapse)
  have "store_step ex_backup_env (\<lambda>_. True) (\<lambda>_. True) empty_world ex_world_remembered"
    by (rule step_remember [of _ ex_memory, OF TrueI]) (unfold ex_world_remembered_def, rule prod.collapse [symmetric])
  moreover have "store_step ex_backup_env (\<lambda>_. True) (\<lambda>_. True) ex_world_remembered ex_world_copied"
    by (rule step_backup [OF ex_fresh, of "''k''" "''n''" ex_store_ctx]) (unfold ex_world_copied_def, rule prod.collapse [symmetric])
  ultimately have "(store_step ex_backup_env (\<lambda>_. True) (\<lambda>_. True))\<^sup>*\<^sup>* empty_world ex_world_copied" by (rule converse_rtranclp_into_rtranclp [OF _ r_into_rtranclp])
  from forgotten_for_good [OF ex_backup_codec this ex_idle w1 rtranclp.rtrancl_refl]
  show ?thesis using w1 ex_restorable by (auto split: sum.splits)
qed

end
