(* ===== verification/Interview_Gate.thy ===== *)
theory Interview_Gate
  imports Life_Interview Erasure
begin

text \<open>
  What an answer says about a routine is withheld from planning until the owner has confirmed it: a second instance of the contract of the
  store, for the interview and every other operation on the store.
\<close>

section \<open>The invariant\<close>

definition pending_safe :: "memory_record \<Rightarrow> bool" where
  "pending_safe r \<longleftrightarrow> (\<forall>k. mr_knowledge r = Some k \<and> kd_pending_confirmation k \<noteq> None \<longrightarrow> mr_confidence r < MIN_CONFIDENCE)"

definition pending_sound :: "memory_correction \<Rightarrow> bool" where
  "pending_sound c \<longleftrightarrow> (\<forall>k. mx_knowledge c = Some k \<and> kd_pending_confirmation k \<noteq> None \<longrightarrow> mx_confidence c < MIN_CONFIDENCE)"

definition rows_safe :: "store_db \<Rightarrow> bool" where
  "rows_safe db \<longleftrightarrow> (\<forall>row \<in> set (st_memories db). pending_safe (mw_content_json row))"

definition gate_inv :: "backup_env \<Rightarrow> (string \<rightharpoonup> string \<times> store_db) \<Rightarrow> store_db \<Rightarrow> bool" where
  "gate_inv env files db \<longleftrightarrow> erasure_inv env {} files db \<and> rows_safe db"

lemma pending_safe_reread [simp]: "pending_safe (reread_memory r) = pending_safe r"
  by (auto simp: pending_safe_def reread_memory_def reread_knowledge_def)

lemma rows_safe_same: "st_memories db' = st_memories db \<Longrightarrow> rows_safe db' = rows_safe db"
  by (simp add: rows_safe_def)

lemma gate_on_domain:
  assumes "keeps (erasure_inv env {} files) (on_domain m)"
  shows "keeps (gate_inv env files) (on_domain m)"
proof (rule keepsI)
  fix db assume inv: "gate_inv env files db"
  obtain r db' where eq: "on_domain m db = (r, db')" by fastforce
  from on_domain_fields(2) [OF eq] have "st_memories (snd (on_domain m db)) = st_memories db" by (simp add: eq)
  from rows_safe_same [OF this] show "gate_inv env files (snd (on_domain m db))"
    using keeps_snd [OF assms, of db] inv by (simp add: gate_inv_def)
qed

lemma register_memories: "st_memories (snd (register_body b records ids db)) = st_memories db"
proof -
  have keep: "keeps (\<lambda>d. st_memories d = ms) (insert_backup_records xs)" for xs ms
  proof (rule keepsI)
    show "st_memories (snd (insert_backup_records xs d)) = ms" if "st_memories d = ms" for d
      using that by (induction xs arbitrary: d) auto
  qed
  have fold: "st_memories (foldl insert_or_ignore d xs) = st_memories d" for d xs
    by (induction xs arbitrary: d) (auto simp: insert_or_ignore_def)
  have "keeps (\<lambda>d. st_memories d = st_memories db) (register_body b records ids)"
    unfolding register_body_def
    by (intro keeps_rules keep) (auto intro!: keepsI simp: insert_backup_def insert_coverage_def fold)
  from keeps_snd [OF this refl] show ?thesis .
qed

interpretation gate: store_contract env "gate_inv env" pending_safe pending_safe pending_sound for env
proof unfold_locales
  fix files db l assume "gate_inv env files db"
  then show "gate_inv env files (db\<lparr>db_ledger := l\<rparr>)" using erasure_ledger by (simp add: gate_inv_def rows_safe_def)
next
  show "keeps (gate_inv env files) (on_domain (create_body (repository_env.truncate env) d ctx))" for files d ctx
    by (rule gate_on_domain [OF erasure.created])
next
  show "keeps (gate_inv env files) (on_domain (transition_body (repository_env.truncate env) k i st ctx))" for files k i st ctx
    by (rule gate_on_domain [OF erasure.transitioned])
next
  show "keeps (gate_inv env files) (on_domain (delete_body (repository_env.truncate env) k i ctx))" for files k i ctx
    by (rule gate_on_domain [OF erasure.deleted])
next
  fix m :: memory_record assume "pending_safe m"
  then show "pending_safe (reread_memory m)" by simp
next
  fix r :: memory_record and c i assume "pending_sound c"
  then show "pending_safe ((replacement r c)\<lparr>mr_memory_id := i\<rparr>)" by (simp add: pending_safe_def pending_sound_def replacement_def)
next
  fix files db r assume inv: "gate_inv env files db" and "pending_safe r"
  then have "rows_safe (snd (memory_insert r db))" by (auto simp: gate_inv_def rows_safe_def memory_insert_def)
  with inv erasure_row_added [of env "{}" files db r] show "gate_inv env files (snd (memory_insert r db))" by (simp add: gate_inv_def)
next
  fix files db P assume "gate_inv env files db"
  then show "gate_inv env files (db\<lparr>st_memories := filter P (st_memories db)\<rparr>)"
    using erasure_rows_removed by (auto simp: gate_inv_def rows_safe_def)
next
  fix files db t assume "gate_inv env files db"
  then show "gate_inv env files (db\<lparr>st_memory_tombstones := st_memory_tombstones db @ [t]\<rparr>)"
    using erasure_tombstone_added by (simp add: gate_inv_def rows_safe_def)
next
  fix files db p x assume "gate_inv env files db" "files p = None"
  then show "gate_inv env (files(p \<mapsto> x)) db" using erasure_file_written by (simp add: gate_inv_def)
next
  fix files db key copy records and b :: backup_row
  assume "gate_inv env files db" "bk_path b = backup_path env (bk_backup_id b)" "files (bk_path b) = Some (key, copy)"
    "record_ids copy = record_ids db" "bk_backup_id b \<notin> bk_backup_id ` set (st_backups db)" "store_records (store_env.truncate env) db = Inr records"
  then show "gate_inv env files (snd (register_body b records (Some (record_ids db)) db))"
    using erasure_registered [of env "{}" files db b key copy records] by (simp add: gate_inv_def rows_safe_same [OF register_memories])
next
  fix files db b assume "gate_inv env files db" "b \<in> set (st_backups db)"
  then show "files (backup_path env (bk_backup_id b)) \<noteq> None" using erasure.copy_exists [of env "{}" files db b] by (simp add: gate_inv_def)
next
  fix status files db Q assume "status \<noteq> BACKUP_ACTIVE" "gate_inv env files db"
  then show "gate_inv env files (db\<lparr>st_backups := map (\<lambda>b. if Q b then destroy_envelope status b else b) (st_backups db)\<rparr>)"
    using erasure_destroyed by (simp add: gate_inv_def rows_safe_def)
qed

section \<open>The interview keeps it\<close>

lemma keeps_nested:
  assumes "keeps (on_both I) m"
  shows "keeps (on_both I) (domain_transaction m)"
proof (rule keepsI)
  fix c assume c: "on_both I c"
  obtain r c' where m: "m (c\<lparr>in_transaction := True\<rparr>) = (r, c')" by fastforce
  have "on_both I c'" using keeps_snd [OF assms, of "c\<lparr>in_transaction := True\<rparr>"] c m by (simp add: on_both_def)
  with c m show "on_both I (snd (domain_transaction m c))"
    by (cases r) (auto simp: domain_transaction_def on_both_def Let_def)
qed

lemma keeps_lifted: "(\<And>x. r = Inr x \<Longrightarrow> keeps J (f x)) \<Longrightarrow> keeps J (abind (alift r) f)"
  by (cases r) (auto simp: triple_def abind_def)

lemma keeps_glance [keeps_rules]: "keeps J (look f)"
  unfolding look_def by (rule keeps_rules)

abbreviation gated :: "backup_env \<Rightarrow> (string \<rightharpoonup> string \<times> store_db) \<Rightarrow> store_db connection \<Rightarrow> bool" where
  "gated benv files \<equiv> on_both (gate_inv benv files)"

lemma keeps_correct_gated:
  assumes "store_of env = store_env.truncate benv" and "pending_sound c"
  shows "keeps (gated benv files) (correct env i c ctx)"
  unfolding correct_def assms(1) by (intro keeps_rules gate.keeps_correct_op assms(2))

lemma keeps_remember_gated:
  assumes "store_of env = store_env.truncate benv" and "pending_safe r"
  shows "keeps (gated benv files) (remember_new env r ctx)"
  unfolding remember_new_def assms(1) by (intro keeps_rules gate.keeps_remember_op assms(2))

lemma keeps_private:
  assumes "\<And>rs. \<forall>r \<in> set rs. pending_safe r \<Longrightarrow> keeps (gated benv files) (g rs)"
  shows "keeps (gated benv files) (abind (private_records env) g)"
  unfolding private_records_def look_def
proof (rule keeps_read)
  fix c rs assume "gated benv files c" and "retrieve (store_of env) (iv_clock env) SCOPE_PRIVATE (current c) = Inr rs"
  then show "\<forall>r \<in> set rs. pending_safe r"
    using retrieve_visible by (fastforce simp: on_both_def gate_inv_def rows_safe_def visible_def)
qed (rule assms)

lemma find_Some_set: "find P xs = Some x \<Longrightarrow> x \<in> set xs"
  by (auto simp: find_Some_iff)

lemma record_of_safe: "\<forall>r \<in> set rs. pending_safe r \<Longrightarrow> record_in rs i = Some r \<Longrightarrow> pending_safe r"
  by (auto simp: record_in_def dest!: find_Some_set)

lemma half_uncertain: "1 / 2 < MIN_CONFIDENCE"
  by (simp add: MIN_CONFIDENCE_def)

lemma answer_of_safe:
  assumes "answer_of env topic clean ctx = Inr a"
  shows "kd_pending_confirmation (an_details a) \<noteq> None \<longrightarrow> an_confidence a < MIN_CONFIDENCE"
  using assms half_uncertain by (auto simp: answer_of_def answer_details_def Let_def split: if_splits)

lemma reviewed_same:
  "kd_pending_confirmation (an_details (reviewed sources a)) = kd_pending_confirmation (an_details a)" "an_confidence (reviewed sources a) = an_confidence a"
  by (simp_all add: reviewed_def Let_def)

lemma keeps_supersede:
  assumes "store_of env = store_env.truncate benv" and "\<forall>r \<in> set rs. pending_safe r"
  shows "keeps (gated benv files) (supersede_each env new_id ctx rs)"
  using assms(2)
proof (induction rs)
  case (Cons old rs)
  have "keeps (gated benv files) (correct env (mr_memory_id old) \<lparr>mx_expected_revision = mr_revision old, mx_content = mr_content old,
             mx_provenance = mr_provenance old, mx_confidence = mr_confidence old, mx_retrieval_scopes = mr_retrieval_scopes old,
             mx_retain_until = mr_retain_until old, mx_knowledge = Some (k\<lparr>kd_superseded_by := Some new_id\<rparr>), mx_interview = None\<rparr> ctx)"
    if "mr_knowledge old = Some k" for k
    using that Cons.prems by (intro keeps_correct_gated [OF assms(1)]) (auto simp: pending_sound_def pending_safe_def)
  then show ?case unfolding supersede_each.simps using Cons by (intro keeps_rules) auto
qed (simp add: triple_def)

lemma keeps_forget_each: "keeps (gated benv files) (forget_each env ctx rs)"
proof (induction rs)
  case (Cons r rs)
  show ?case unfolding forget_each.simps by (intro keeps_rules gate.keeps_forget_op Cons)
qed (simp add: triple_def)

lemma keeps_reconciliation:
  assumes "store_of env = store_env.truncate benv" and "\<forall>r \<in> set sources. pending_safe r"
    and "kd_pending_confirmation (an_details a) \<noteq> None \<longrightarrow> an_confidence a < MIN_CONFIDENCE"
  shows "keeps (gated benv files) (save_reconciliation env q clean sources a new_id ctx)"
  unfolding save_reconciliation_def Let_def
  by (intro keeps_rules keeps_supersede keeps_remember_gated assms(1,2)) (use assms(3) in \<open>auto simp: pending_safe_def answer_record_def\<close>)

lemma keeps_review_answer:
  assumes "store_of env = store_env.truncate benv" and "\<forall>r \<in> set sources. pending_safe r"
    and "kd_pending_confirmation (an_details a) \<noteq> None \<longrightarrow> an_confidence a < MIN_CONFIDENCE"
  shows "keeps (gated benv files) (review_answer env q clean sources a new_id ctx)"
  unfolding review_answer_def
  by (intro keeps_rules keeps_reconciliation keeps_correct_gated keeps_forget_each assms) (use assms(3) in \<open>auto simp: pending_sound_def\<close>)

lemma keeps_save_answer:
  assumes env: "store_of env = store_env.truncate benv"
  shows "keeps (gated benv files) (save_answer env q clean new_id ctx)"
  unfolding save_answer_def
proof (rule keeps_lifted)
  fix a assume "ebind (find_topic (iq_key q)) (\<lambda>topic. answer_of env topic clean ctx) = Inr a"
  then have a: "kd_pending_confirmation (an_details a) \<noteq> None \<longrightarrow> an_confidence a < MIN_CONFIDENCE" by (auto dest: answer_of_safe)
  have new: "keeps (gated benv files) (remember_new env (answer_record new_id clean False a ctx) ctx)"
    using a by (intro keeps_remember_gated [OF env]) (auto simp: pending_safe_def answer_record_def)
  have review: "keeps (gated benv files) (abind (alift (emapM (the_record existing) (iq_evidence_ids q))) (\<lambda>sources.
        review_answer env q clean sources (reviewed sources a) new_id ctx))" if "\<forall>r \<in> set existing. pending_safe r" for existing
    using that a by (intro keeps_lifted keeps_review_answer env)
      (auto dest!: emapM_member simp: reviewed_same the_record_def split: option.splits dest: record_of_safe)
  show "keeps (gated benv files) (abind (if iq_evidence_ids q = [] then remember_new env (answer_record new_id clean False a ctx) ctx
            else abind (private_records env) (\<lambda>existing. abind (alift (emapM (the_record existing) (iq_evidence_ids q))) (\<lambda>sources.
                review_answer env q clean sources (reviewed sources a) new_id ctx))) (\<lambda>_. areturn (an_pending a)))"
    by (intro keeps_abind [OF triple_if] new keeps_private review keeps_pure)
qed

lemma keeps_resolve:
  assumes "store_of env = store_env.truncate benv"
  shows "keeps (gated benv files) (resolve_pending env q confirmed ctx)"
proof (cases "iq_evidence_ids q")
  case Nil
  then show ?thesis by (simp add: resolve_pending_def keeps_pure)
next
  case (Cons i rest)
  have answered: "keeps (gated benv files) (abind (alift (resolution env confirmed r k d ctx)) (\<lambda>(details, confidence).
              abind (correct env (mr_memory_id r) \<lparr>mx_expected_revision = mr_revision r, mx_content = mr_content r,
                mx_provenance = interview_provenance ctx True, mx_confidence = confidence, mx_retrieval_scopes = mr_retrieval_scopes r,
                mx_retain_until = None, mx_knowledge = Some details, mx_interview = None\<rparr> ctx) (\<lambda>_. areturn ())))" for r k d
    by (rule keeps_lifted)
      (auto intro!: keeps_rules keeps_correct_gated assms simp: pending_sound_def resolution_def split: prod.split if_splits)
  show ?thesis unfolding resolve_pending_def Cons list.case
    by (rule keeps_private) (intro triple_option keeps_pure triple_prod3 answered)
qed

lemma keeps_reparse:
  assumes "store_of env = store_env.truncate benv"
  shows "keeps (gated benv files) (reparse_pending env q clean ctx)"
proof (cases "iq_evidence_ids q")
  case Nil
  then show ?thesis by (simp add: reparse_pending_def keeps_pure)
next
  case (Cons i rest)
  show ?thesis unfolding reparse_pending_def Cons list.case
    by (intro keeps_private triple_option keeps_pure)
      (auto intro!: keeps_rules keeps_correct_gated assms simp: pending_sound_def MIN_CONFIDENCE_def split: prod.split)
qed

lemma keeps_confirm:
  assumes "store_of env = store_env.truncate benv"
  shows "keeps (gated benv files) (confirm env q txt skip ctx)"
proof -
  have read: "keeps J (private_records env)" for J by (simp add: private_records_def keeps_glance)
  show ?thesis unfolding confirm_def confirm_skip_def Let_def
    by (intro keeps_rules triple_option keeps_resolve keeps_reparse read assms)
qed

lemma keeps_respond:
  assumes "store_of env = store_env.truncate benv"
  shows "keeps (gated benv files) (respond env q txt skip new_id ctx)"
  unfolding respond_def respond_answer_def Let_def
  by (intro keeps_rules keeps_confirm keeps_save_answer assms)

lemma keeps_session: "keeps J (interview_session env)"
  unfolding interview_session_def private_records_def by (intro keeps_rules)

lemma keeps_act:
  assumes "store_of env = store_env.truncate benv"
  shows "keeps (gated benv files) (act env p action txt key new_id ctx)"
  unfolding act_def
  by (intro keeps_rules triple_option keeps_respond assms) (auto intro: keeps_rules split: prod.split)

lemma session_correction_sound: "pending_sound (session_correction s p ctx)"
  by (simp add: pending_sound_def session_correction_def)

lemma keeps_advance:
  assumes "store_of env = store_env.truncate benv"
  shows "keeps (gated benv files) (advance env expected action txt key new_id ctx)"
proof -
  have step: "keeps (gated benv files) (abind (act env p action txt key new_id ctx) (\<lambda>(update, acknowledgment).
              abind (next_progress env (update p) ctx) (\<lambda>p'.
              abind (correct env (iv_session_id env) (session_correction s p' ctx) ctx) (\<lambda>updated.
                reply env updated (ctx_occurred_at ctx) acknowledgment))))" for s p
    unfolding next_progress_def reply_def
    by (rule keeps_abind [OF keeps_act [OF assms]])
      (auto intro!: keeps_rules keeps_correct_gated [OF assms] session_correction_sound split: prod.split)
  show ?thesis unfolding advance_def advance_body_def
    by (intro keeps_nested keeps_abind [OF keeps_session] triple_option keeps_pure)
      (auto intro!: keeps_rules step split: prod.split)
qed

lemma keeps_begin:
  assumes "store_of env = store_env.truncate benv"
  shows "keeps (gated benv files) (begin_interview env objective ctx)"
proof -
  have "pending_safe (new_interview_session env g ctx)" for g by (simp add: pending_safe_def new_interview_session_def)
  then have remembered: "keeps (gated benv files) (remember (store_of env) (new_interview_session env g ctx) ctx)" for g
    unfolding assms by (intro gate.keeps_remember_op)
  show ?thesis unfolding begin_interview_def reply_def Let_def
    by (intro keeps_abind [OF keeps_session] keeps_abind keeps_glance triple_option keeps_pure remembered)
      (auto intro!: keeps_rules keeps_correct_gated [OF assms] session_correction_sound split: option.split prod.split)
qed

section \<open>Planning\<close>

text \<open>The operations on the store, by authors who keep drafts uncertain, and those of any interview on it.\<close>

inductive governed_step :: "backup_env \<Rightarrow> backup_world \<Rightarrow> backup_world \<Rightarrow> bool" for benv where
  governed_store: "store_step benv pending_safe pending_sound w w' \<Longrightarrow> governed_step benv w w'"
| governed_begin: "store_of env = store_env.truncate benv \<Longrightarrow> in_store (begin_interview env objective ctx) w = (x, w') \<Longrightarrow> governed_step benv w w'"
| governed_advance: "store_of env = store_env.truncate benv \<Longrightarrow> in_store (advance env expected action txt key new_id ctx) w = (x, w')
    \<Longrightarrow> governed_step benv w w'"

lemma governed_keeps: "(governed_step benv)\<^sup>*\<^sup>* w w' \<Longrightarrow> gate.world_inv benv (bw_files w) w \<Longrightarrow> gate.world_inv benv (bw_files w') w'"
proof (induction rule: rtranclp_induct)
  case (step w1 w2)
  note inv = step.IH [OF step.prems]
  from step.hyps(2) show ?case
  proof cases
    case governed_store
    then show ?thesis using gate.store_step_keeps inv by blast
  next
    case (governed_begin env objective ctx x)
    then show ?thesis using gate.world_keeps [OF gate.keeps_on_store [OF keeps_begin] inv] by blast
  next
    case (governed_advance env _ _ _ _ _ _ x)
    then show ?thesis using gate.world_keeps [OF gate.keeps_on_store [OF keeps_advance] inv] by blast
  qed
qed

lemma gated_reachable:
  assumes "record_codec_ok (repository_env.truncate benv)" and "(governed_step benv)\<^sup>*\<^sup>* empty_world w"
  shows "gated benv (bw_files w) (bw_connection w)"
proof -
  have "gate.world_inv benv (bw_files empty_world) empty_world"
    using empty_world_inv [OF assms(1)] by (simp add: gate.world_inv_def erasure.world_inv_def gate_inv_def on_both_def rows_safe_def empty_world_def
        new_domain_db_def idle_def domain_db.defs)
  from governed_keeps [OF assms(2) this] show ?thesis by (simp add: gate.world_inv_def)
qed


definition ex_routine_answer :: memory_record where
  "ex_routine_answer = ex_known\<lparr>mr_memory_id := ''m2'', mr_confidence := 1 / 2,
     mr_knowledge := Some (ex_assertion\<lparr>kd_key := ''routines.sleep'', kd_kind := KK_ROUTINE, kd_pending_confirmation := Some (empty_draft ''UTC'')\<rparr>)\<rparr>"

definition ex_world_known :: backup_world where
  "ex_world_known = snd (in_store (remember (store_env.truncate ex_backup_env) ex_known ex_store_ctx) empty_world)"

definition ex_world_drafted :: backup_world where
  "ex_world_drafted = snd (in_store (remember (store_env.truncate ex_backup_env) ex_routine_answer ex_store_ctx) ex_world_known)"

lemma ex_drafted_stored: "map mw_memory_id (st_memories (current (bw_connection ex_world_drafted))) = [''m1'', ''m2'']"
  by code_simp

lemma ex_drafted_planned: "planning_knowledge (store_env.truncate ex_backup_env) (utc_datetime 2) ''owner'' (utc_datetime 2) (current (bw_connection ex_world_drafted))
   = Inr [\<lparr>kv_record = reread_memory ex_known, kv_state = KS_CONFIRMED, kv_current = True\<rparr>]"
  by code_simp


end
