(* ===== verification/Interview_Steps.thy ===== *)
theory Interview_Steps
  imports Interview_Gate
begin

text \<open>
  One step of the interview: \<open>advance\<close> changes the store completely or not at all, moves the session to its next revision, and a skipped
  question does not come back.
\<close>

section \<open>Discipline\<close>

named_theorems disciplined_rules \<open>syntax-directed rules for the transaction discipline\<close>

declare disciplined_on_tables [disciplined_rules] and disciplined_areturn [disciplined_rules] and disciplined_abind [disciplined_rules]
  and disciplined_domain_transaction [disciplined_rules]

lemma disciplined_branch [disciplined_rules]:
  "disciplined m \<Longrightarrow> disciplined n \<Longrightarrow> disciplined (if b then m else n)"
  "disciplined m \<Longrightarrow> (\<And>y. disciplined (g y)) \<Longrightarrow> disciplined (case v of None \<Rightarrow> m | Some y \<Rightarrow> g y)"
  "disciplined m \<Longrightarrow> (\<And>y ys. disciplined (h y ys)) \<Longrightarrow> disciplined (case l of [] \<Rightarrow> m | y # ys \<Rightarrow> h y ys)"
  "(\<And>x y. disciplined (k x y)) \<Longrightarrow> disciplined (case p of (x, y) \<Rightarrow> k x y)"
  by (auto split: option.split list.split prod.split)

lemma disciplined_look [disciplined_rules]: "disciplined (look f)" "disciplined (aread g)"
  by (simp_all add: disciplined_def look_def)

lemma disciplined_memory [disciplined_rules]:
  "disciplined (correct env i c ctx)" "disciplined (remember_new env r ctx)" "disciplined (forget e i n ctx)" "disciplined (private_records env)"
  unfolding correct_def correct_memory_def remember_new_def remember_def forget_def private_records_def by (intro disciplined_rules)+

lemma disciplined_each [disciplined_rules]:
  "disciplined (supersede_each env new_id ctx rs)" "disciplined (forget_each env ctx rs)"
proof (induction rs)
  case Nil
  show "disciplined (supersede_each env new_id ctx [])" "disciplined (forget_each env ctx [])" by (simp_all add: disciplined_def)
next
  case (Cons r rs)
  show "disciplined (supersede_each env new_id ctx (r # rs))" "disciplined (forget_each env ctx (r # rs))"
    unfolding supersede_each.simps forget_each.simps by (intro disciplined_rules Cons)+
qed

lemma disciplined_save [disciplined_rules]: "disciplined (save_answer env q clean new_id ctx)"
  unfolding save_answer_def review_answer_def save_reconciliation_def Let_def by (intro disciplined_rules)

lemma disciplined_confirm [disciplined_rules]: "disciplined (confirm env q txt skip ctx)"
  unfolding confirm_def confirm_skip_def resolve_pending_def reparse_pending_def Let_def by (intro disciplined_rules)

lemma disciplined_act [disciplined_rules]: "disciplined (act env p action txt key new_id ctx)"
  unfolding act_def respond_def respond_answer_def Let_def by (intro disciplined_rules)

lemma disciplined_advance: "disciplined (advance_body env expected action txt key new_id ctx)"
  unfolding advance_body_def interview_session_def next_progress_def reply_def by (intro disciplined_rules)

section \<open>The session after a step\<close>

lemma transaction_success:
  assumes "domain_transaction (on_tables m) c = (Inr x, c')"
  shows "m (current c) = (Inr x, current c')"
  using assms by (cases "m (current c)"; cases "fst (m (current c))") (auto simp: domain_transaction_def on_tables_def Let_def split: if_splits)

lemma correct_stored:
  assumes "correct env i c ctx conn = (Inr updated, conn')"
  shows "\<exists>r rows row. mr_revision r = mx_expected_revision c \<and> updated = (replacement r c)\<lparr>mr_memory_id := i\<rparr>
    \<and> st_memories (current conn') = rows @ [row] \<and> mw_content_json row = reread_memory updated \<and> mw_memory_id row = i \<and> i \<notin> mw_memory_id ` set rows"
proof -
  from assms have "correct_body (store_of env) i c ctx (current conn) = (Inr updated, current conn')"
    by (auto simp: correct_def correct_memory_def dest: transaction_success split: if_splits)
  then obtain r db1 db2 where rev: "mx_expected_revision c = mr_revision r"
    and ins: "memory_insert ((replacement r c)\<lparr>mr_memory_id := i\<rparr>) db1 = (Inr (), db2)"
    and app: "memory_append (store_of env) r ''corrected'' (memory_fingerprint (store_of env) r) ctx db2 = (Inr (), current conn')"
    and upd: "updated = (replacement r c)\<lparr>mr_memory_id := i\<rparr>"
    unfolding correct_body_def by (auto simp: require_revision_def split: if_splits)
  from app obtain l where "db2\<lparr>db_ledger := l\<rparr> = current conn'" by (auto simp: memory_append_def split: prod.splits sum.splits)
  from this [symmetric] have "st_memories (current conn') = st_memories db2" by simp
  with ins show ?thesis unfolding upd using rev by (auto simp: memory_insert_def split: if_splits)
qed

lemma session_after:
  assumes corrected: "correct env (iv_session_id env) (session_correction s p ctx) ctx c1 = (Inr updated, c2)" and cells: "cells_ok (current c2)"
    and scope: "SCOPE_PRIVATE \<in> mr_retrieval_scopes s" and rs: "retrieve (store_of env) clock SCOPE_PRIVATE (current c2) = Inr rs"
  shows "find_session env rs = Some (reread_memory updated)" and "mr_revision updated = mr_revision s + 1" and "mr_interview updated = Some p"
    and "mr_memory_id updated = iv_session_id env"
proof -
  from correct_stored [OF corrected] obtain r rows row where rev: "mr_revision r = mr_revision s"
    and upd: "updated = (replacement r (session_correction s p ctx))\<lparr>mr_memory_id := iv_session_id env\<rparr>"
    and ms: "st_memories (current c2) = rows @ [row]" and row: "mw_content_json row = reread_memory updated" "mw_memory_id row = iv_session_id env"
    and new: "iv_session_id env \<notin> mw_memory_id ` set rows" by (auto simp: session_correction_def)
  from rev show "mr_revision updated = mr_revision s + 1" by (simp add: upd replacement_def)
  show i: "mr_interview updated = Some p" "mr_memory_id updated = iv_session_id env" by (simp_all add: upd replacement_def session_correction_def)
  have "reread_memory updated \<in> visible clock SCOPE_PRIVATE (current c2)"
    using row scope by (auto simp: visible_def ms upd replacement_def session_correction_def reread_memory_def memory_unexpired_def)
  then have "reread_memory updated \<in> set rs" using retrieve_visible [OF rs] by simp
  moreover have "mr_memory_id (reread_memory updated) = iv_session_id env \<and> mr_interview (reread_memory updated) \<noteq> None"
    using i by (simp add: reread_memory_def)
  ultimately have "find_session env rs \<noteq> None" by (auto simp: find_session_def find_None_iff)
  then obtain x where x: "find_session env rs = Some x" by blast
  then have "x \<in> set rs" "mr_memory_id x = iv_session_id env" by (auto simp: find_session_def find_Some_iff)
  with retrieve_visible [OF rs] obtain w where w: "w \<in> set (st_memories (current c2))" "x = mw_content_json w" by (auto simp: visible_def)
  with cells \<open>mr_memory_id x = iv_session_id env\<close> have "mw_memory_id w = iv_session_id env" by (auto simp: cells_ok_def)
  then have "w \<notin> set rows" using new by (metis imageI)
  with w ms have "w = row" by simp
  with w x row show "find_session env rs = Some (reread_memory updated)" by simp
qed

text \<open>What a successful step has done.\<close>

lemma advance_success:
  assumes gated: "gated benv files c" and env: "store_of env = store_env.truncate benv"
    and run: "advance env expected action txt key new_id ctx c = (Inr rep, c')"
  obtains s s' p p' update ack c1 c2 where "interview_session env c = (Inr (Some s), c)" and "mr_interview s = Some p" and "mr_revision s = expected"
    and "act env p action txt key new_id ctx (c\<lparr>in_transaction := True\<rparr>) = (Inr (update, ack), c1)"
    and "next_progress env (update p) ctx c1 = (Inr p', c2)"
    and "interview_session env c' = (Inr (Some s'), c')" and "mr_interview s' = Some p'" and "mr_revision s' = expected + 1"
    and "ir_revision rep = expected + 1" and "ir_phase rep = ip_phase p'" and "question env p' (ctx_occurred_at ctx) (current c') = Inr (ir_question rep)"
    and "\<forall>t x. interview_session (env\<lparr>iv_clock := t\<rparr>) c' = (Inr (Some x), c') \<longrightarrow> x = s'"
proof -
  let ?c = "c\<lparr>in_transaction := True\<rparr>"
  obtain c4 where body: "advance_body env expected action txt key new_id ctx ?c = (Inr rep, c4)" and same: "current c' = current c4"
    using run by (cases "advance_body env expected action txt key new_id ctx ?c") (auto simp: advance_def domain_transaction_def Let_def split: if_splits sum.splits)
  from body obtain rs s p update ack c1 c2 p' updated c3 where
    rs: "retrieve (store_of env) (iv_clock env) SCOPE_PRIVATE (current c) = Inr rs" and s: "find_session env rs = Some s" "mr_interview s = Some p"
    and rev: "mr_revision s = expected" and acted: "act env p action txt key new_id ctx ?c = (Inr (update, ack), c1)"
    and np: "next_progress env (update p) ctx c1 = (Inr p', c2)"
    and upd: "correct env (iv_session_id env) (session_correction s p' ctx) ctx c2 = (Inr updated, c3)"
    and rep: "reply_from env updated (ctx_occurred_at ctx) ack (current c3) = Inr rep" and c4: "c4 = c3"
    unfolding advance_body_def interview_session_def private_records_def look_def reply_def
    by (auto simp: bind_eq_Some_conv split: option.splits if_splits prod.splits)
  from retrieve_visible [OF rs] s(1) have scope: "SCOPE_PRIVATE \<in> mr_retrieval_scopes s" by (auto simp: find_session_def find_Some_iff visible_def)
  have "gated benv files c'" using keeps_snd [OF keeps_advance [OF env] gated, of expected action "txt" key new_id ctx] run by simp
  then have cells: "cells_ok (current c3)" using same c4 by (simp add: on_both_def gate_inv_def erasure_inv_def)
  from rep obtain views q p0 where "mr_interview updated = Some p0"
    and views: "interview_views env (ctx_occurred_at ctx) (current c3) = Inr views" and q: "question env p0 (ctx_occurred_at ctx) (current c3) = Inr q"
    and r: "rep = \<lparr>ir_session_id = mr_memory_id updated, ir_revision = mr_revision updated, ir_phase = ip_phase p0, ir_question = q,
              ir_progress = map (domain_progress_of p0 views) life_domains, ir_acknowledgment = ack\<rparr>"
    by (auto simp: reply_from_def split: option.splits)
  from views obtain rs' where rs': "retrieve (store_of env) (iv_clock env) SCOPE_PRIVATE (current c3) = Inr rs'"
    by (auto simp: interview_views_def knowledge_def)
  note after = session_after [OF upd cells scope rs']
  have "interview_session env c' = (Inr (Some (reread_memory updated)), c')" "interview_session env c = (Inr (Some s), c)"
    using rs rs' s after(1) same c4 by (simp_all add: interview_session_def private_records_def look_def abind_def)
  moreover have "x = reread_memory updated" if x: "interview_session (env\<lparr>iv_clock := t\<rparr>) c' = (Inr (Some x), c')" for t x
  proof -
    from x obtain xs where xs: "retrieve (store_of env) t SCOPE_PRIVATE (current c3) = Inr xs" and fx: "find_session env xs = Some x"
      using same c4 by (auto simp: interview_session_def private_records_def look_def find_session_def store_env.defs)
    from session_after(1) [OF upd cells scope xs] fx show ?thesis by simp
  qed
  ultimately show thesis using that [of s p update ack c1 p' c2 "reread_memory updated"] s(2) rev acted np after r q same c4 \<open>mr_interview updated = Some p0\<close>
    by (simp add: reread_memory_def)
qed

lemma stale_advance:
  assumes "interview_session env c = (Inr (Some s), c)" and "mr_interview s = Some p" and "mr_revision s \<noteq> expected"
  shows "fst (advance env expected action txt key new_id ctx c) = Inl (StaleMemoryRevisionError (iv_session_id env) expected (mr_revision s))"
proof -
  have "interview_session env (c\<lparr>in_transaction := True\<rparr>) = (Inr (Some s), c\<lparr>in_transaction := True\<rparr>)"
    using assms(1) by (auto simp: interview_session_def private_records_def look_def abind_def split: sum.splits)
  with assms(2,3) have "advance_body env expected action txt key new_id ctx (c\<lparr>in_transaction := True\<rparr>)
      = (Inl (StaleMemoryRevisionError (iv_session_id env) expected (mr_revision s)), c\<lparr>in_transaction := True\<rparr>)"
    by (simp add: advance_body_def)
  then show ?thesis by (simp add: advance_def domain_transaction_def Let_def)
qed

text \<open>
  \<open>advance\<close> is one atomic compare-and-swap of the session, in every store that interviews and the other operations lead to: when it
  fails nothing has changed, not even the answer; when it succeeds the caller knew the revision of the session, the session is at the next
  revision, which is the one the reply names, and no other call that expected the old revision can succeed any more.
\<close>
theorem advance_compare_and_swap:
  assumes codec: "record_codec_ok (repository_env.truncate benv)" and reach: "(governed_step benv)\<^sup>*\<^sup>* empty_world w"
    and env: "store_of env = store_env.truncate benv" and idle: "bw_connection w = idle db"
    and run: "advance env expected action txt key new_id ctx (bw_connection w) = (result, c')"
  shows "case result of
      Inl e \<Rightarrow> c' = bw_connection w
    | Inr rep \<Rightarrow> (\<exists>s s'. interview_session env (bw_connection w) = (Inr (Some s), bw_connection w) \<and> mr_revision s = expected
        \<and> interview_session env c' = (Inr (Some s'), c') \<and> mr_revision s' = expected + 1 \<and> ir_revision rep = expected + 1)
        \<and> (\<forall>action' txt' key' new_id' ctx'. fst (advance env expected action' txt' key' new_id' ctx' c')
             = Inl (StaleMemoryRevisionError (iv_session_id env) expected (expected + 1)))"
proof (cases result)
  case (Inl e)
  with domain_transaction_outer [OF disciplined_advance _ _ run [unfolded advance_def]] idle show ?thesis by (auto simp: idle_def)
next
  case (Inr rep)
  note gated = gated_reachable [OF codec reach]
  obtain s s' p p' update ack c1 c2 where s: "interview_session env (bw_connection w) = (Inr (Some s), bw_connection w)" "mr_revision s = expected"
    and s': "interview_session env c' = (Inr (Some s'), c')" "mr_interview s' = Some p'" "mr_revision s' = expected + 1" and rep: "ir_revision rep = expected + 1"
    by (rule advance_success [OF gated env run [unfolded Inr]])
  have "fst (advance env expected action' txt' key' new_id' ctx' c') = Inl (StaleMemoryRevisionError (iv_session_id env) expected (expected + 1))"
    for action' txt' key' new_id' ctx' using stale_advance [OF s'(1,2), of expected] s'(3) by simp
  with Inr s s' rep show ?thesis by auto
qed

section \<open>Skipping\<close>

definition open_topics :: "interview_progress \<Rightarrow> interview_topic list" where
  "open_topics p = filter (\<lambda>t. it_key t \<notin> ip_skipped_keys p \<and> it_domain t \<notin> ip_skipped_domains p) (topics_of p)"

definition remaining :: "interview_progress \<Rightarrow> nat" where
  "remaining p = length (open_topics p) + (if ip_pending_confirmation_key p = None then 0 else 1)"

lemma length_filter_mono: "(\<And>y. y \<in> set xs \<Longrightarrow> Q y \<Longrightarrow> P y) \<Longrightarrow> length (filter Q xs) \<le> length (filter P xs)"
  by (induction xs) (auto simp: le_Suc_eq)

lemma length_filter_less:
  assumes "x \<in> set xs" and "P x" and "\<not> Q x" and "\<And>y. y \<in> set xs \<Longrightarrow> Q y \<Longrightarrow> P y"
  shows "length (filter Q xs) < length (filter P xs)"
proof -
  from assms(1) obtain as bs where xs: "xs = as @ x # bs" by (auto dest: split_list)
  have "length (filter Q as) \<le> length (filter P as)" "length (filter Q bs) \<le> length (filter P bs)"
    using xs assms(4) by (auto intro: length_filter_mono)
  with assms(2,3) xs show ?thesis by simp
qed

lemma first_question_topic: "first_question p views ts = Some q \<Longrightarrow> \<exists>t \<in> set ts. topic_question p views t = Some q"
  by (induction ts) (auto split: option.splits)

lemma question_branches:
  "(if a then None else if b then None else if c then Some x else if d then None else if e then Some y else Some z) = Some q
   \<Longrightarrow> \<not> a \<and> (q = x \<or> q = y \<or> q = z)"
  by (auto split: if_splits)

lemma topic_question_open:
  assumes "topic_question p views t = Some q"
  shows "it_key t \<notin> ip_skipped_keys p" "it_domain t \<notin> ip_skipped_domains p" "iq_mode q \<noteq> CONFIRM"
    "iq_mode q = PERMISSION \<and> iq_domain q = it_domain t \<or> iq_mode q \<noteq> PERMISSION \<and> iq_key q = it_key t"
  using question_branches [OF assms [unfolded topic_question_def Let_def]] by (elim conjE disjE; simp)+

lemma skip_removes:
  assumes "first_question p views (topics_of p) = Some q"
  shows "length (filter (\<lambda>t. it_key t \<notin> insert (iq_key q) (ip_skipped_keys p)
      \<and> it_domain t \<notin> (if iq_mode q = PERMISSION then insert (iq_domain q) (ip_skipped_domains p) else ip_skipped_domains p)) (topics_of p))
    < length (open_topics p)"
proof -
  from first_question_topic [OF assms] obtain t where t: "t \<in> set (topics_of p)" "topic_question p views t = Some q" by blast
  note open_t = topic_question_open [OF t(2)]
  show ?thesis unfolding open_topics_def by (rule length_filter_less [OF t(1)]) (use open_t in auto)
qed

lemma question_confirm:
  assumes "question env p now db = Inr (Some q)"
  shows "iq_mode q = CONFIRM \<and> ip_pending_confirmation_key p \<noteq> None \<or> iq_mode q \<noteq> CONFIRM \<and> (\<exists>views. first_question p views (topics_of p) = Some q)"
proof -
  from assms obtain views where views: "question_from p views = Inr (Some q)" by (auto simp: question_def split: if_splits)
  show ?thesis
  proof (cases "Option.bind (ip_pending_confirmation_key p) (\<lambda>key. map_option (\<lambda>(v, d). (key, v, d)) (first_pending key views))")
    case None
    with views have f: "first_question p views (topics_of p) = Some q" by (simp add: question_from_def)
    from first_question_topic [OF this] obtain t where "topic_question p views t = Some q" by blast
    from topic_question_open(3) [OF this] f show ?thesis by blast
  next
    case (Some x)
    obtain key v d where x: "x = (key, v, d)" by (cases x)
    from views Some x have "iq_mode q = CONFIRM" by (auto simp: question_from_def pending_question_def)
    moreover have "ip_pending_confirmation_key p \<noteq> None" using Some by (auto simp: bind_eq_Some_conv)
    ultimately show ?thesis by blast
  qed
qed

lemma skip_decreases:
  assumes "act env p SKIP txt key new_id ctx c = (Inr (update, ack), c1)"
  shows "remaining (update p) < remaining p"
proof -
  from assms obtain q u where q: "question env p (ctx_occurred_at ctx) (current c) = Inr (Some q)"
    and u: "respond env q txt True new_id ctx c = (Inr (u, ack), c1)" and update: "update = (\<lambda>p. u (p\<lparr>ip_last_question_key := Some (iq_key q)\<rparr>))"
    by (auto simp: act_def look_def split: if_splits option.splits prod.splits)
  have topics: "topics_of (update p) = topics_of p" if "ip_objective (update p) = ip_objective p" using that by (simp add: topics_of_def)
  from question_confirm [OF q] show ?thesis
  proof (elim disjE conjE exE)
    assume mode: "iq_mode q = CONFIRM" and pending: "ip_pending_confirmation_key p \<noteq> None"
    from u mode have "u = (\<lambda>p. p\<lparr>ip_pending_confirmation_key := None, ip_skipped_keys := insert (iq_key q) (ip_skipped_keys p)\<rparr>)"
      by (auto simp: respond_def confirm_def confirm_skip_def Let_def)
    then have up: "update p = p\<lparr>ip_last_question_key := Some (iq_key q), ip_pending_confirmation_key := None, ip_skipped_keys := insert (iq_key q) (ip_skipped_keys p)\<rparr>"
      by (simp add: update)
    have "length (open_topics (update p)) \<le> length (open_topics p)"
      by (simp add: open_topics_def up topics_of_def) (auto intro!: length_filter_mono)
    with pending up show ?thesis by (auto simp: remaining_def)
  next
    fix views assume mode: "iq_mode q \<noteq> CONFIRM" and f: "first_question p views (topics_of p) = Some q"
    from u mode have "u = (\<lambda>p. (if iq_mode q = PERMISSION then (\<lambda>p. p\<lparr>ip_skipped_domains := insert (iq_domain q) (ip_skipped_domains p)\<rparr>) else id)
             (skip_key (iq_key q) p))" by (simp add: respond_def Let_def)
    then have up: "ip_skipped_keys (update p) = insert (iq_key q) (ip_skipped_keys p)"
      "ip_skipped_domains (update p) = (if iq_mode q = PERMISSION then insert (iq_domain q) (ip_skipped_domains p) else ip_skipped_domains p)"
      "ip_objective (update p) = ip_objective p" "ip_pending_confirmation_key (update p) = ip_pending_confirmation_key p"
      by (simp_all add: update skip_key_def)
    from skip_removes [OF f] show ?thesis unfolding remaining_def open_topics_def [of "update p"] up(1,2,4) topics [OF up(3)] by simp
  qed
qed

text \<open>Successful skips, one after the other, at any times of the clock.\<close>

inductive skip_run :: "interview_env \<Rightarrow> nat \<Rightarrow> backup_world \<Rightarrow> backup_world \<Rightarrow> bool" for env where
  skip_none: "skip_run env 0 w w"
| skip_more: "skip_run env n w w1 \<Longrightarrow> in_store (advance (env\<lparr>iv_clock := t\<rparr>) expected SKIP txt key new_id ctx) w1 = (Inr rep, w2) \<Longrightarrow> skip_run env (Suc n) w w2"

lemma next_progress_remaining: "next_progress env p ctx c = (Inr p', c') \<Longrightarrow> remaining p' = remaining p"
  by (auto simp: next_progress_def remaining_def open_topics_def topics_of_def split: if_splits)

lemma remaining_bound: "remaining p \<le> 108"
proof -
  have "length (open_topics p) \<le> length (topics_of p)" by (simp add: open_topics_def)
  also have "\<dots> \<le> 107" by (simp add: topics_of_def topic_count)
  finally show ?thesis by (simp add: remaining_def)
qed

lemma skip_run_measure:
  assumes "skip_run env n w w'" and "gated benv (bw_files w) (bw_connection w)" and env: "store_of env = store_env.truncate benv"
  shows "gated benv (bw_files w') (bw_connection w') \<and> (0 < n \<longrightarrow> (\<exists>p. n + remaining p \<le> 108 \<and>
    (\<forall>t x. interview_session (env\<lparr>iv_clock := t\<rparr>) (bw_connection w') = (Inr (Some x), bw_connection w') \<longrightarrow> mr_interview x = Some p)))"
  using assms(1,2)
proof (induction rule: skip_run.induct)
  case (skip_more n w w1 t expected "txt" key new_id ctx rep w2)
  let ?env = "env\<lparr>iv_clock := t\<rparr>"
  have env': "store_of ?env = store_env.truncate benv" using env by (simp add: store_env.defs)
  from skip_more.hyps(2) have run: "advance ?env expected SKIP txt key new_id ctx (bw_connection w1) = (Inr rep, bw_connection w2)" and files: "bw_files w2 = bw_files w1"
    by (auto simp: in_store_def split: prod.splits)
  from skip_more have gated: "gated benv (bw_files w1) (bw_connection w1)" by simp
  obtain s s' p p' update ack c1 c2 where s: "interview_session ?env (bw_connection w1) = (Inr (Some s), bw_connection w1)" "mr_interview s = Some p"
    and acted: "act ?env p SKIP txt key new_id ctx ((bw_connection w1)\<lparr>in_transaction := True\<rparr>) = (Inr (update, ack), c1)"
    and np: "next_progress ?env (update p) ctx c1 = (Inr p', c2)" and s': "mr_interview s' = Some p'"
    and unique: "\<forall>u x. interview_session (?env\<lparr>iv_clock := u\<rparr>) (bw_connection w2) = (Inr (Some x), bw_connection w2) \<longrightarrow> x = s'"
    by (rule advance_success [OF gated env' run])
  have less: "remaining p' < remaining p" using skip_decreases [OF acted] next_progress_remaining [OF np] by simp
  have "Suc n + remaining p' \<le> 108"
  proof (cases "n = 0")
    case True
    with less remaining_bound [of p] show ?thesis by simp
  next
    case False
    with skip_more obtain p1 where "n + remaining p1 \<le> 108"
      and "\<And>t x. interview_session (env\<lparr>iv_clock := t\<rparr>) (bw_connection w1) = (Inr (Some x), bw_connection w1) \<Longrightarrow> mr_interview x = Some p1" by auto
    with s less show ?thesis by fastforce
  qed
  moreover have "gated benv (bw_files w2) (bw_connection w2)"
    using keeps_snd [OF keeps_advance [OF env'] gated, of expected SKIP "txt" key new_id ctx] run files by simp
  moreover have "\<forall>u x. interview_session (env\<lparr>iv_clock := u\<rparr>) (bw_connection w2) = (Inr (Some x), bw_connection w2) \<longrightarrow> mr_interview x = Some p'"
    using unique s' by auto
  ultimately show ?case by auto
qed simp

text \<open>
  C31: skipping ends the interview: in any store that interviews and the other operations lead to, however the clock moves, at most 108
  questions can be skipped one after the other, one for each topic and one for a routine that waits for its confirmation.
\<close>
theorem skipping_ends_the_interview:
  assumes "record_codec_ok (repository_env.truncate benv)" and "(governed_step benv)\<^sup>*\<^sup>* empty_world w"
    and "store_of env = store_env.truncate benv" and "skip_run env n w w'"
  shows "n \<le> 108"
  using skip_run_measure [OF assms(4) gated_reachable [OF assms(1,2)] assms(3)] by (cases n) auto

definition ex_interview_env :: interview_env where
  "ex_interview_env = store_env.extend (store_env.truncate ex_backup_env) \<lparr>iv_subject_id = ''owner'', iv_session_id = ''session'', iv_timezone = ''UTC'',
     iv_clock = utc_datetime 1\<rparr>"

lemma ex_interview_store: "store_of ex_interview_env = store_env.truncate ex_backup_env"
  by (simp add: ex_interview_env_def ex_backup_env_def store_env.defs)

definition ex_session :: memory_record where
  "ex_session = new_interview_session ex_interview_env UNDERSTANDING ex_store_ctx"

definition ex_world_begun :: backup_world where
  "ex_world_begun = snd (in_store (remember (store_env.truncate ex_backup_env) ex_session ex_store_ctx) empty_world)"

definition ex_skipped :: interview_progress where
  "ex_skipped = (new_progress ''owner'' UNDERSTANDING)\<lparr>ip_last_question_key := Some ''identity.name'', ip_skipped_keys := {''identity.name''}\<rparr>"

lemma ex_retrieved: "retrieve (store_env.truncate ex_backup_env) (utc_datetime 1) SCOPE_PRIVATE (current (bw_connection ex_world_begun)) = Inr [reread_memory ex_session]"
  by code_simp

lemma ex_corrected:
  "case correct ex_interview_env ''session'' (session_correction (reread_memory ex_session) ex_skipped ex_store_ctx) ex_store_ctx ((bw_connection ex_world_begun)\<lparr>in_transaction := True\<rparr>) of
     (Inl _, _) \<Rightarrow> False
   | (Inr u, c) \<Rightarrow> retrieve (store_env.truncate ex_backup_env) (utc_datetime 1) SCOPE_PRIVATE (current c) = Inr [reread_memory u] \<and> mr_interview u = Some ex_skipped \<and> mr_knowledge u = None"
  by code_simp

lemma first_two:
  "\<exists>t u rest. TOPICS = t # u # rest \<and> it_key t = ''identity.name'' \<and> it_domain t = LD_IDENTITY \<and> it_key u = ''identity.base'' \<and> it_domain u = LD_IDENTITY"
  by (simp add: TOPICS_def topics_identity_def topics_def)

lemma ex_questions:
  "\<exists>q. first_question (new_progress ''owner'' UNDERSTANDING) [] TOPICS = Some q \<and> iq_key q = ''identity.name'' \<and> iq_mode q = ASK"
  "first_question ex_skipped [] TOPICS \<noteq> None"
proof -
  obtain t u rest where T: "TOPICS = t # u # rest" and keys: "it_key t = ''identity.name''" "it_domain t = LD_IDENTITY"
    "it_key u = ''identity.base''" "it_domain u = LD_IDENTITY" using first_two by blast
  note defs = topic_question_def relevant_views_def SENSITIVE_DOMAINS_def new_progress_def ex_skipped_def keys Let_def
  show "\<exists>q. first_question (new_progress ''owner'' UNDERSTANDING) [] TOPICS = Some q \<and> iq_key q = ''identity.name'' \<and> iq_mode q = ASK"
    "first_question ex_skipped [] TOPICS \<noteq> None"
    unfolding T by (simp_all add: defs)
qed

lemma ex_skip: "\<exists>rep c'. advance ex_interview_env 1 SKIP [] (Some ''identity.name'') ''x'' ex_store_ctx (bw_connection ex_world_begun) = (Inr rep, c')"
proof -
  let ?env = ex_interview_env and ?c = "(bw_connection ex_world_begun)\<lparr>in_transaction := True\<rparr>" and ?p = "new_progress ''owner'' UNDERSTANDING"
  have env [simp]: "store_of ?env = store_env.truncate ex_backup_env" "iv_clock ?env = utc_datetime 1" "iv_session_id ?env = ''session''" "iv_subject_id ?env = ''owner''"
    by (simp_all add: ex_interview_store) (simp_all add: ex_interview_env_def ex_backup_env_def store_env.defs)
  have s: "mr_interview (reread_memory ex_session) = Some ?p" "mr_knowledge (reread_memory ex_session) = None" "mr_revision (reread_memory ex_session) = 1"
    "mr_memory_id (reread_memory ex_session) = ''session''"
    by (simp_all add: ex_session_def new_interview_session_def reread_memory_def)
  have interview_session: "interview_session ?env ?c = (Inr (Some (reread_memory ex_session)), ?c)"
    using ex_retrieved s by (simp add: interview_session_def private_records_def look_def abind_def find_session_def)
  have views: "interview_views ?env (utc_datetime 1) (current ?c) = Inr []"
    using ex_retrieved s by (simp add: interview_views_def knowledge_def about_subject_def views_of_def)
  obtain q where q: "first_question ?p [] TOPICS = Some q" "iq_key q = ''identity.name''" "iq_mode q = ASK" using ex_questions(1) by blast
  have asked: "question ?env ?p (utc_datetime 1) (current ?c) = Inr (Some q)"
    using views q by (simp add: question_def question_from_def topics_of_def new_progress_def)
  obtain q2 where more: "question ?env ex_skipped (utc_datetime 1) (current ?c) = Inr (Some q2)"
    using views ex_questions(2) by (auto simp: question_def question_from_def topics_of_def ex_skipped_def new_progress_def)
  have ctx: "ctx_occurred_at ex_store_ctx = utc_datetime 1" by (simp add: ex_store_ctx_def)
  obtain update ack where acted: "act ?env ?p SKIP [] (Some ''identity.name'') ''x'' ex_store_ctx ?c = (Inr (update, ack), ?c)" and update: "update ?p = ex_skipped"
    using asked q by (simp add: act_def look_def ctx new_progress_def respond_def Let_def skip_key_def ex_skipped_def)
  have np: "next_progress ?env ex_skipped ex_store_ctx ?c = (Inr ex_skipped, ?c)"
    using more by (simp add: next_progress_def look_def ctx ex_skipped_def new_progress_def)
  obtain u c3 where u: "correct ?env ''session'' (session_correction (reread_memory ex_session) ex_skipped ex_store_ctx) ex_store_ctx ?c = (Inr u, c3)"
    and rs: "retrieve (store_env.truncate ex_backup_env) (utc_datetime 1) SCOPE_PRIVATE (current c3) = Inr [reread_memory u]"
    and iu: "mr_interview u = Some ex_skipped" "mr_knowledge u = None" using ex_corrected by (auto split: prod.splits sum.splits)
  have views3: "interview_views ?env (utc_datetime 1) (current c3) = Inr []"
    using rs iu by (simp add: interview_views_def knowledge_def about_subject_def views_of_def reread_memory_def)
  have "\<exists>rep. reply_from ?env u (utc_datetime 1) ack (current c3) = Inr rep"
    using views3 iu by (simp add: reply_from_def question_def question_from_def ex_skipped_def new_progress_def)
  then obtain rep where "advance_body ?env 1 SKIP [] (Some ''identity.name'') ''x'' ex_store_ctx ?c = (Inr rep, c3)"
    using interview_session s acted update np u by (auto simp: advance_body_def reply_def look_def ctx)
  then show ?thesis by (simp add: advance_def domain_transaction_def Let_def)
qed

lemma ex_begun_reachable: "(governed_step ex_backup_env)\<^sup>*\<^sup>* empty_world ex_world_begun"
proof -
  have safe: "pending_safe ex_session" by (simp add: pending_safe_def ex_session_def new_interview_session_def)
  have "governed_step ex_backup_env empty_world ex_world_begun"
    by (rule governed_store, rule step_remember [of pending_safe, OF safe]) (unfold ex_world_begun_def, rule prod.collapse [symmetric])
  then show ?thesis by (rule r_into_rtranclp)
qed

lemma idle_current: "current (idle d) = d"
  by (simp add: idle_def)

lemma ex_begun_idle: "bw_connection ex_world_begun = idle (current (bw_connection ex_world_begun))"
  by (simp add: ex_world_begun_def in_store_def remember_def araise_def domain_transaction_tables empty_world_def idle_current split: prod.split)

theorem advance_compare_and_swap_witness:
  "\<exists>rep c'. advance ex_interview_env 1 SKIP [] (Some ''identity.name'') ''x'' ex_store_ctx (bw_connection ex_world_begun) = (Inr rep, c')
     \<and> ir_revision rep = 2
     \<and> fst (advance ex_interview_env 1 PAUSE [] None ''y'' ex_store_ctx c') = Inl (StaleMemoryRevisionError ''session'' 1 2)"
proof -
  from ex_skip obtain rep c' where run: "advance ex_interview_env 1 SKIP [] (Some ''identity.name'') ''x'' ex_store_ctx (bw_connection ex_world_begun) = (Inr rep, c')"
    by blast
  have "iv_session_id ex_interview_env = ''session''" by (simp add: ex_interview_env_def ex_backup_env_def store_env.defs)
  with advance_compare_and_swap [OF ex_backup_codec ex_begun_reachable ex_interview_store ex_begun_idle run] run show ?thesis by auto
qed

theorem skipping_ends_the_interview_witness: "\<exists>w. skip_run ex_interview_env 1 ex_world_begun w \<and> (1 :: nat) \<le> 108"
proof -
  from ex_skip obtain rep c' where "advance ex_interview_env 1 SKIP [] (Some ''identity.name'') ''x'' ex_store_ctx (bw_connection ex_world_begun) = (Inr rep, c')"
    by blast
  then have "in_store (advance (ex_interview_env\<lparr>iv_clock := iv_clock ex_interview_env\<rparr>) 1 SKIP [] (Some ''identity.name'') ''x'' ex_store_ctx) ex_world_begun
      = (Inr rep, ex_world_begun\<lparr>bw_connection := c'\<rparr>)" by (simp add: in_store_def)
  from skip_more [OF skip_none this] have run: "skip_run ex_interview_env (Suc 0) ex_world_begun (ex_world_begun\<lparr>bw_connection := c'\<rparr>)" .
  from skipping_ends_the_interview [OF ex_backup_codec ex_begun_reachable ex_interview_store run] run show ?thesis by auto
qed

end
