(* ===== verification/Goals.thy ===== *)
theory Goals
  imports Ledger_Chain
begin

text \<open>
  \<open>goals.py\<close>: the graph of goals from dreams to tasks.  A node is added only below a stored parent of the kind its own kind requires,
  and the explanation of a task resolves its lineage to the root.  A JSON cell is the node it holds, with the timestamp as parsing returns
  it; the text of a node is a parameter, used for fingerprints only.  The table is append-only.
\<close>

section \<open>Nodes\<close>

datatype goal_node_kind = Kind_DREAM | Kind_GOAL | Kind_MILESTONE | Kind_PROJECT | Kind_QUEST | Kind_TASK

fun goal_kind_value :: "goal_node_kind \<Rightarrow> string" where
  "goal_kind_value Kind_DREAM = ''dream''"
| "goal_kind_value Kind_GOAL = ''goal''"
| "goal_kind_value Kind_MILESTONE = ''milestone''"
| "goal_kind_value Kind_PROJECT = ''project''"
| "goal_kind_value Kind_QUEST = ''quest''"
| "goal_kind_value Kind_TASK = ''task''"

record goal_node_base =
  gn_record_id :: string
  gn_created_at :: datetime
  gn_title :: string
  gn_state :: string

datatype goal_graph_node =
    Dream_node goal_node_base
  | Goal_node goal_node_base (goal_dream_id: string)
  | Milestone_node goal_node_base (milestone_goal_id: string)
  | Project_node goal_node_base (project_milestone_id: string)
  | Quest_node goal_node_base (quest_project_id: string)
  | Task_node goal_node_base (task_quest_id: string)

fun node_base :: "goal_graph_node \<Rightarrow> goal_node_base" where
  "node_base (Dream_node b) = b"
| "node_base (Goal_node b _) = b"
| "node_base (Milestone_node b _) = b"
| "node_base (Project_node b _) = b"
| "node_base (Quest_node b _) = b"
| "node_base (Task_node b _) = b"

fun node_kind :: "goal_graph_node \<Rightarrow> goal_node_kind" where
  "node_kind (Dream_node _) = Kind_DREAM"
| "node_kind (Goal_node _ _) = Kind_GOAL"
| "node_kind (Milestone_node _ _) = Kind_MILESTONE"
| "node_kind (Project_node _ _) = Kind_PROJECT"
| "node_kind (Quest_node _ _) = Kind_QUEST"
| "node_kind (Task_node _ _) = Kind_TASK"

fun node_parent :: "goal_graph_node \<Rightarrow> (string \<times> goal_node_kind) option" where
  "node_parent (Dream_node _) = None"
| "node_parent (Goal_node _ i) = Some (i, Kind_DREAM)"
| "node_parent (Milestone_node _ i) = Some (i, Kind_GOAL)"
| "node_parent (Project_node _ i) = Some (i, Kind_MILESTONE)"
| "node_parent (Quest_node _ i) = Some (i, Kind_PROJECT)"
| "node_parent (Task_node _ i) = Some (i, Kind_QUEST)"

abbreviation node_id :: "goal_graph_node \<Rightarrow> string" where
  "node_id n \<equiv> gn_record_id (node_base n)"

definition valid_node :: "goal_graph_node \<Rightarrow> bool" where
  "valid_node n \<longleftrightarrow> gn_title (node_base n) \<noteq> [] \<and> gn_state (node_base n) \<noteq> []"

fun map_base :: "(goal_node_base \<Rightarrow> goal_node_base) \<Rightarrow> goal_graph_node \<Rightarrow> goal_graph_node" where
  "map_base f (Dream_node b) = Dream_node (f b)"
| "map_base f (Goal_node b i) = Goal_node (f b) i"
| "map_base f (Milestone_node b i) = Milestone_node (f b) i"
| "map_base f (Project_node b i) = Project_node (f b) i"
| "map_base f (Quest_node b i) = Quest_node (f b) i"
| "map_base f (Task_node b i) = Task_node (f b) i"

definition reread_node :: "goal_graph_node \<Rightarrow> goal_graph_node" where
  "reread_node = map_base (\<lambda>b. b\<lparr>gn_created_at := reread (gn_created_at b)\<rparr>)"

lemma map_base [simp]:
  "node_base (map_base f n) = f (node_base n)" "node_kind (map_base f n) = node_kind n" "node_parent (map_base f n) = node_parent n"
  by (cases n; simp)+

lemma reread_node [simp]:
  "node_id (reread_node n) = node_id n" "node_kind (reread_node n) = node_kind n" "node_parent (reread_node n) = node_parent n"
  "valid_node (reread_node n) = valid_node n"
  by (simp_all add: reread_node_def valid_node_def)

section \<open>Tables\<close>

record goal_row =
  gr_record_id :: string
  gr_node_kind :: string
  gr_parent_id :: "string option"
  gr_content_json :: goal_graph_node
  gr_created_at :: string

record goal_db =
  goal_graph_nodes :: "goal_row list"
  goal_ledger :: ledger

record goal_env =
  dump_node :: "goal_graph_node \<Rightarrow> string"
  goal_hmac :: "string \<Rightarrow> string \<Rightarrow> string"
  goal_audit_key :: string

datatype goal_error =
    GoalParentError goal_node_kind string
  | GoalNodeNotFoundError string
  | GoalValidationError
  | GoalIntegrityError
  | GoalLedgerFailure ledger_error

section \<open>Operations\<close>

definition get_node :: "goal_db \<Rightarrow> string \<Rightarrow> goal_error + goal_graph_node option" where
  "get_node db i =
     (case find (\<lambda>row. gr_record_id row = i) (goal_graph_nodes db) of
        None \<Rightarrow> Inr None
      | Some row \<Rightarrow> if valid_node (gr_content_json row) then Inr (Some (gr_content_json row)) else Inl GoalValidationError)"

text \<open>\<open>model.model_validate_json\<close> refuses the node of another class.\<close>

definition required_node :: "goal_db \<Rightarrow> string \<Rightarrow> goal_node_kind \<Rightarrow> goal_node_kind \<Rightarrow> goal_error + goal_graph_node" where
  "required_node db i model child_kind =
     (case find (\<lambda>row. gr_record_id row = i) (goal_graph_nodes db) of
        None \<Rightarrow> Inl (GoalParentError child_kind i)
      | Some row \<Rightarrow>
          if valid_node (gr_content_json row) \<and> node_kind (gr_content_json row) = model then Inr (gr_content_json row)
          else Inl (GoalParentError child_kind i))"

definition parent_proven :: "goal_db \<Rightarrow> goal_graph_node \<Rightarrow> goal_error + unit" where
  "parent_proven db n =
     (case node_parent n of
        None \<Rightarrow> Inr ()
      | Some (parent_id, expected_kind) \<Rightarrow>
          ebind (get_node db parent_id) (\<lambda>found.
            case found of
              None \<Rightarrow> Inl (GoalParentError (node_kind n) parent_id)
            | Some p \<Rightarrow> require (node_kind p = expected_kind) (GoalParentError (node_kind n) parent_id)))"

definition insert_node :: "goal_graph_node \<Rightarrow> (goal_db, goal_error, unit) action" where
  "insert_node n db =
     (if node_id n \<in> gr_record_id ` set (goal_graph_nodes db) then (Inl GoalIntegrityError, db)
      else (Inr (), db\<lparr>goal_graph_nodes := goal_graph_nodes db @
        [\<lparr>gr_record_id = node_id n, gr_node_kind = goal_kind_value (node_kind n), gr_parent_id = map_option fst (node_parent n),
          gr_content_json = reread_node n, gr_created_at = isoformat (gn_created_at (node_base n))\<rparr>]\<rparr>))"

definition audit_node :: "goal_env \<Rightarrow> goal_graph_node \<Rightarrow> transition_context \<Rightarrow> (goal_db, goal_error, unit) action" where
  "audit_node env n ctx db =
     (case ledger_append (goal_hmac env) (goal_audit_key env)
        \<lparr>am_record_kind = (if node_kind n = Kind_TASK then TASK else GOAL), am_record_id = node_id n, am_state = gn_state (node_base n),
         am_action_class = ''goal_graph.'' @ goal_kind_value (node_kind n) @ ''.created'',
         am_source_fingerprint = goal_hmac env (goal_audit_key env) (dump_node env n), am_context = ctx\<rparr> (goal_ledger db) of
        (Inl e, l) \<Rightarrow> (Inl (GoalLedgerFailure e), db\<lparr>goal_ledger := l\<rparr>)
      | (Inr _, l) \<Rightarrow> (Inr (), db\<lparr>goal_ledger := l\<rparr>))"

definition add_node :: "goal_env \<Rightarrow> goal_graph_node \<Rightarrow> transition_context \<Rightarrow> (goal_db connection, goal_error, unit) action" where
  "add_node env n ctx c =
     (case ledger_verify (goal_hmac env) (goal_audit_key env) (goal_ledger (current c)) of
        Inl e \<Rightarrow> (Inl (GoalLedgerFailure e), c)
      | Inr _ \<Rightarrow>
          (case parent_proven (current c) n of
             Inl e \<Rightarrow> (Inl e, c)
           | Inr _ \<Rightarrow> then_commit (abind (insert_node n) (\<lambda>_. audit_node env n ctx)) c))"

record goal_explanation =
  te_task :: goal_graph_node
  te_canonical_quest :: goal_graph_node
  te_lineage :: "string list"

definition lineage_of :: "goal_db \<Rightarrow> goal_graph_node \<Rightarrow> goal_error + string list" where
  "lineage_of db quest =
     ebind (required_node db (quest_project_id quest) Kind_PROJECT Kind_QUEST) (\<lambda>project.
     ebind (required_node db (project_milestone_id project) Kind_MILESTONE Kind_PROJECT) (\<lambda>milestone.
     ebind (required_node db (milestone_goal_id milestone) Kind_GOAL Kind_MILESTONE) (\<lambda>goal.
     ebind (required_node db (goal_dream_id goal) Kind_DREAM Kind_GOAL) (\<lambda>dream.
       Inr [node_id dream, node_id goal, node_id milestone, node_id project, node_id quest]))))"

definition explain_task :: "goal_db \<Rightarrow> string \<Rightarrow> goal_error + goal_explanation" where
  "explain_task db i =
     (case required_node db i Kind_TASK Kind_TASK of
        Inl _ \<Rightarrow> Inl (GoalNodeNotFoundError i)
      | Inr task \<Rightarrow>
          ebind (required_node db (task_quest_id task) Kind_QUEST Kind_TASK) (\<lambda>quest.
          ebind (lineage_of db quest) (\<lambda>lineage.
            Inr \<lparr>te_task = task, te_canonical_quest = quest, te_lineage = lineage @ [node_id task]\<rparr>)))"

section \<open>The life of the graph\<close>

definition new_goal_db :: goal_db where
  "new_goal_db = \<lparr>goal_graph_nodes = [], goal_ledger = new_ledger\<rparr>"

text \<open>
  A node is added, an open transaction is rolled back, or another part of the service writes to its own tables and to the ledger and
  perhaps commits.
\<close>

inductive goal_step :: "goal_env \<Rightarrow> goal_db connection \<Rightarrow> goal_db connection \<Rightarrow> bool" for env where
  goal_add: "valid_node n \<Longrightarrow> goal_step env c (snd (add_node env n ctx c))"
| goal_rollback: "goal_step env c (idle (committed c))"
| goal_elsewhere: "goal_graph_nodes (current c') = goal_graph_nodes (current c) \<Longrightarrow>
    goal_graph_nodes (committed c') = goal_graph_nodes (committed c) \<or> goal_graph_nodes (committed c') = goal_graph_nodes (current c) \<Longrightarrow>
    goal_step env c c'"

section \<open>The lineage invariant\<close>

definition rooted :: "goal_row list \<Rightarrow> bool" where
  "rooted rows \<longleftrightarrow> distinct (map gr_record_id rows)
     \<and> (\<forall>row \<in> set rows. valid_node (gr_content_json row) \<and> node_id (gr_content_json row) = gr_record_id row
          \<and> (case node_parent (gr_content_json row) of None \<Rightarrow> True
             | Some (p, k) \<Rightarrow> \<exists>above \<in> set rows. gr_record_id above = p \<and> node_kind (gr_content_json above) = k))"

abbreviation rooted_both :: "goal_db connection \<Rightarrow> bool" where
  "rooted_both c \<equiv> rooted (goal_graph_nodes (current c)) \<and> rooted (goal_graph_nodes (committed c))"

lemma rooted_distinct: "rooted rows \<Longrightarrow> distinct (map gr_record_id rows)"
  by (simp add: rooted_def)

lemma find_row: "distinct (map gr_record_id rows) \<Longrightarrow> row \<in> set rows \<Longrightarrow> find (\<lambda>r. gr_record_id r = gr_record_id row) rows = Some row"
  by (induction rows) auto

lemma required_node_stored:
  assumes "rooted (goal_graph_nodes db)" and "row \<in> set (goal_graph_nodes db)" and "node_kind (gr_content_json row) = k"
  shows "required_node db (gr_record_id row) k child = Inr (gr_content_json row)"
  using assms find_row [of "goal_graph_nodes db" row] by (auto simp: required_node_def rooted_def)

text \<open>One step up: a stored node that is no dream has its parent in the table, of the required kind.\<close>

lemma parent_stored:
  assumes "rooted (goal_graph_nodes db)" and "row \<in> set (goal_graph_nodes db)" and "node_parent (gr_content_json row) = Some (p, k)"
  obtains above where "above \<in> set (goal_graph_nodes db)" "gr_record_id above = p" "node_kind (gr_content_json above) = k"
    "node_id (gr_content_json above) = p" "\<And>child. required_node db p k child = Inr (gr_content_json above)"
proof -
  from assms obtain above where above: "above \<in> set (goal_graph_nodes db)" "gr_record_id above = p" "node_kind (gr_content_json above) = k"
    by (fastforce simp: rooted_def)
  moreover have "node_id (gr_content_json above) = p" using assms(1) above(1,2) by (simp add: rooted_def)
  ultimately show thesis using required_node_stored [OF assms(1) above(1,3)] that by simp
qed

lemma kind_shapes:
  "node_kind n = Kind_DREAM \<longleftrightarrow> (\<exists>b. n = Dream_node b)" "node_kind n = Kind_GOAL \<longleftrightarrow> (\<exists>b i. n = Goal_node b i)"
  "node_kind n = Kind_MILESTONE \<longleftrightarrow> (\<exists>b i. n = Milestone_node b i)" "node_kind n = Kind_PROJECT \<longleftrightarrow> (\<exists>b i. n = Project_node b i)"
  "node_kind n = Kind_QUEST \<longleftrightarrow> (\<exists>b i. n = Quest_node b i)" "node_kind n = Kind_TASK \<longleftrightarrow> (\<exists>b i. n = Task_node b i)"
  by (cases n; simp)+

section \<open>Every operation keeps the invariant\<close>

lemma get_node_Some: "get_node db i = Inr (Some n) \<Longrightarrow> \<exists>row \<in> set (goal_graph_nodes db). gr_record_id row = i \<and> gr_content_json row = n"
  by (auto simp: get_node_def find_Some_iff split: option.splits if_splits)

lemma rooted_insert:
  assumes "rooted (goal_graph_nodes db)" and "parent_proven db n = Inr ()" and "valid_node n" and "insert_node n db = (r, db')"
  shows "rooted (goal_graph_nodes db')"
proof (cases "node_id n \<in> gr_record_id ` set (goal_graph_nodes db)")
  case True
  with assms show ?thesis by (simp add: insert_node_def)
next
  case False
  have above: "\<exists>above \<in> set (goal_graph_nodes db). gr_record_id above = p \<and> node_kind (gr_content_json above) = k"
    if "node_parent n = Some (p, k)" for p k
    using assms(2) that get_node_Some [of db p] by (fastforce simp: parent_proven_def split: option.splits)
  let ?rows = "goal_graph_nodes db"
  have grown: "set (goal_graph_nodes db') = insert (last (goal_graph_nodes db')) (set ?rows)"
    "node_id (gr_content_json (last (goal_graph_nodes db'))) = gr_record_id (last (goal_graph_nodes db'))"
    "gr_content_json (last (goal_graph_nodes db')) = reread_node n"
    "distinct (map gr_record_id (goal_graph_nodes db'))"
    using assms(1,4) False by (auto simp: insert_node_def rooted_def)
  have old: "case node_parent (gr_content_json row) of None \<Rightarrow> True
     | Some (p, k) \<Rightarrow> \<exists>above \<in> set (goal_graph_nodes db'). gr_record_id above = p \<and> node_kind (gr_content_json above) = k"
    if "row \<in> set (goal_graph_nodes db')" for row
    using that assms(1) above unfolding grown(1) by (auto simp: grown(3) rooted_def split: option.splits)
  show ?thesis
    using old grown assms(1,3) by (auto simp: rooted_def)
qed

lemma audit_node_nodes [simp]: "goal_graph_nodes (snd (audit_node env n ctx db)) = goal_graph_nodes db"
  by (simp add: audit_node_def split: prod.split sum.split)

lemma add_node_rooted:
  assumes "rooted_both c" and "valid_node n"
  shows "rooted_both (snd (add_node env n ctx c))"
proof -
  let ?body = "abind (insert_node n) (\<lambda>_. audit_node env n ctx)"
  have "rooted (goal_graph_nodes (snd (?body (current c))))" if "parent_proven (current c) n = Inr ()"
  proof -
    obtain r db where i: "insert_node n (current c) = (r, db)" by fastforce
    from rooted_insert [OF conjunct1 [OF assms(1)] that assms(2) i] i show ?thesis by (cases r) (simp_all add: abind_def)
  qed
  then show ?thesis using assms(1)
    by (auto simp: add_node_def then_commit_def idle_def split: sum.splits prod.splits)
qed

lemma reachable_rooted: "(goal_step env)\<^sup>*\<^sup>* (idle new_goal_db) c \<Longrightarrow> rooted_both c"
proof (induction rule: rtranclp_induct)
  case base
  show ?case by (simp add: idle_def new_goal_db_def rooted_def)
next
  case (step c c')
  from step(2,3) show ?case
    by (cases rule: goal_step.cases) (auto simp: idle_def add_node_rooted [THEN conjunct1] add_node_rooted [THEN conjunct2])
qed

text \<open>The walk from a stored quest to its dream.\<close>

lemma quest_lineage:
  assumes inv: "rooted (goal_graph_nodes db)" and row: "row \<in> set (goal_graph_nodes db)" "node_kind (gr_content_json row) = Kind_QUEST"
  obtains dream goal milestone project where
    "lineage_of db (gr_content_json row) = Inr (map node_id [dream, goal, milestone, project, gr_content_json row])"
    "map node_kind [dream, goal, milestone, project] = [Kind_DREAM, Kind_GOAL, Kind_MILESTONE, Kind_PROJECT]"
    "map node_parent [goal, milestone, project, gr_content_json row]
       = map (\<lambda>p. Some (node_id p, node_kind p)) [dream, goal, milestone, project]"
    "{dream, goal, milestone, project} \<subseteq> gr_content_json ` set (goal_graph_nodes db)"
proof -
  from row(2) obtain b1 i1 where s1: "gr_content_json row = Quest_node b1 i1" by (auto simp: kind_shapes)
  obtain r2 where r2: "r2 \<in> set (goal_graph_nodes db)" "node_kind (gr_content_json r2) = Kind_PROJECT"
    "node_id (gr_content_json r2) = i1" "\<And>ch. required_node db i1 Kind_PROJECT ch = Inr (gr_content_json r2)"
    by (rule parent_stored [OF inv row(1)]) (use s1 in auto)
  then obtain b2 i2 where s2: "gr_content_json r2 = Project_node b2 i2" by (auto simp: kind_shapes)
  obtain r3 where r3: "r3 \<in> set (goal_graph_nodes db)" "node_kind (gr_content_json r3) = Kind_MILESTONE"
    "node_id (gr_content_json r3) = i2" "\<And>ch. required_node db i2 Kind_MILESTONE ch = Inr (gr_content_json r3)"
    by (rule parent_stored [OF inv r2(1)]) (use s2 in auto)
  then obtain b3 i3 where s3: "gr_content_json r3 = Milestone_node b3 i3" by (auto simp: kind_shapes)
  obtain r4 where r4: "r4 \<in> set (goal_graph_nodes db)" "node_kind (gr_content_json r4) = Kind_GOAL"
    "node_id (gr_content_json r4) = i3" "\<And>ch. required_node db i3 Kind_GOAL ch = Inr (gr_content_json r4)"
    by (rule parent_stored [OF inv r3(1)]) (use s3 in auto)
  then obtain b4 i4 where s4: "gr_content_json r4 = Goal_node b4 i4" by (auto simp: kind_shapes)
  obtain r5 where r5: "r5 \<in> set (goal_graph_nodes db)" "node_kind (gr_content_json r5) = Kind_DREAM"
    "node_id (gr_content_json r5) = i4" "\<And>ch. required_node db i4 Kind_DREAM ch = Inr (gr_content_json r5)"
    by (rule parent_stored [OF inv r4(1)]) (use s4 in auto)
  have stored: "{gr_content_json r5, gr_content_json r4, gr_content_json r3, gr_content_json r2} \<subseteq> gr_content_json ` set (goal_graph_nodes db)"
    using r2(1) r3(1) r4(1) r5(1) by blast
  show thesis
    by (rule that [of "gr_content_json r5" "gr_content_json r4" "gr_content_json r3" "gr_content_json r2", OF _ _ _ stored])
      (use r2 r3 r4 r5 s1 s2 s3 s4 in \<open>auto simp: lineage_of_def\<close>)
qed

lemma get_node_stored:
  assumes "rooted (goal_graph_nodes db)" and "row \<in> set (goal_graph_nodes db)"
  shows "get_node db (gr_record_id row) = Inr (Some (gr_content_json row))" "gr_record_id row = node_id (gr_content_json row)"
  using assms find_row [OF rooted_distinct [OF assms(1)] assms(2)] by (auto simp: get_node_def rooted_def)

lemma explain_unknown:
  assumes "\<nexists>b q. get_node db i = Inr (Some (Task_node b q))"
  shows "explain_task db i = Inl (GoalNodeNotFoundError i)"
proof -
  have "\<exists>e. required_node db i Kind_TASK Kind_TASK = Inl e"
    using assms by (auto simp: required_node_def get_node_def kind_shapes split: option.splits if_splits)
  then show ?thesis by (auto simp: explain_task_def)
qed

section \<open>Properties\<close>

text \<open>
  C32: every stored task can be explained, in every state the graph can reach: the lineage names six stored nodes of the six kinds from a
  dream down to the task, each the parent the next one names.  Any other identity is reported as not found.
\<close>
theorem tasks_are_explained:
  assumes "(goal_step env)\<^sup>*\<^sup>* (idle new_goal_db) c"
  shows "case get_node (current c) i of
      Inr (Some (Task_node b q)) \<Rightarrow> \<exists>dream goal milestone project quest. \<exists>x.
        explain_task (current c) i = Inr x
        \<and> te_lineage x = map node_id [dream, goal, milestone, project, quest, Task_node b q] \<and> node_id (Task_node b q) = i
        \<and> te_canonical_quest x = quest \<and> te_task x = Task_node b q
        \<and> map node_kind [dream, goal, milestone, project, quest] = [Kind_DREAM, Kind_GOAL, Kind_MILESTONE, Kind_PROJECT, Kind_QUEST]
        \<and> map node_parent [goal, milestone, project, quest, Task_node b q]
           = map (\<lambda>p. Some (node_id p, node_kind p)) [dream, goal, milestone, project, quest]
        \<and> (\<forall>n \<in> {dream, goal, milestone, project, quest}. get_node (current c) (node_id n) = Inr (Some n))
    | _ \<Rightarrow> explain_task (current c) i = Inl (GoalNodeNotFoundError i)"
proof -
  let ?db = "current c"
  from reachable_rooted [OF assms] have inv: "rooted (goal_graph_nodes ?db)" by simp
  show ?thesis
  proof (cases "\<exists>b q. get_node ?db i = Inr (Some (Task_node b q))")
    case True
    then obtain b q where task: "get_node ?db i = Inr (Some (Task_node b q))" by blast
    from get_node_Some [OF task] obtain row where row: "row \<in> set (goal_graph_nodes ?db)" "gr_record_id row = i" "gr_content_json row = Task_node b q" by blast
    obtain r1 where r1: "r1 \<in> set (goal_graph_nodes ?db)" "gr_record_id r1 = q" "node_kind (gr_content_json r1) = Kind_QUEST"
      "node_id (gr_content_json r1) = q" "\<And>ch. required_node ?db q Kind_QUEST ch = Inr (gr_content_json r1)"
      by (rule parent_stored [OF inv row(1)]) (use row in auto)
    obtain dream goal milestone project where up: "lineage_of ?db (gr_content_json r1) = Inr (map node_id [dream, goal, milestone, project, gr_content_json r1])"
      "map node_kind [dream, goal, milestone, project] = [Kind_DREAM, Kind_GOAL, Kind_MILESTONE, Kind_PROJECT]"
      "map node_parent [goal, milestone, project, gr_content_json r1] = map (\<lambda>p. Some (node_id p, node_kind p)) [dream, goal, milestone, project]"
      "{dream, goal, milestone, project} \<subseteq> gr_content_json ` set (goal_graph_nodes ?db)"
      by (rule quest_lineage [OF inv r1(1,3)])
    have stored: "\<forall>n \<in> {dream, goal, milestone, project, gr_content_json r1}. get_node ?db (node_id n) = Inr (Some n)"
      using up(4) r1(1) get_node_stored [OF inv] by auto
    have "required_node ?db i Kind_TASK Kind_TASK = Inr (Task_node b q)" "gn_record_id b = i"
      using required_node_stored [OF inv row(1), of Kind_TASK Kind_TASK] get_node_stored [OF inv row(1)] row by auto
    with stored up(1-3) r1 show ?thesis
      unfolding task
      by (simp, intro exI [of _ dream] exI [of _ goal] exI [of _ milestone] exI [of _ project] exI [of _ "gr_content_json r1"])
        (auto simp: explain_task_def)
  next
    case False
    with explain_unknown [of ?db i] show ?thesis by (auto split: sum.split option.split goal_graph_node.split)
  qed
qed

definition ex_goal_env :: goal_env where
  "ex_goal_env = \<lparr>dump_node = (\<lambda>n. gn_title (node_base n)), goal_hmac = (\<lambda>key text. ''h''), goal_audit_key = ''key''\<rparr>"

definition ex_goal_base :: "string \<Rightarrow> goal_node_base" where
  "ex_goal_base i = \<lparr>gn_record_id = i, gn_created_at = utc_datetime 1, gn_title = ''title'', gn_state = ''active''\<rparr>"

definition ex_goal_nodes :: "goal_graph_node list" where
  "ex_goal_nodes = [Dream_node (ex_goal_base ''d''), Goal_node (ex_goal_base ''g'') ''d'', Milestone_node (ex_goal_base ''m'') ''g'',
     Project_node (ex_goal_base ''p'') ''m'', Quest_node (ex_goal_base ''q'') ''p'', Task_node (ex_goal_base ''t'') ''q'']"

definition add_all :: "goal_env \<Rightarrow> transition_context \<Rightarrow> goal_db connection \<Rightarrow> goal_graph_node list \<Rightarrow> goal_db connection" where
  "add_all env ctx = foldl (\<lambda>c n. snd (add_node env n ctx c))"

lemma add_all_reachable: "\<forall>n \<in> set ns. valid_node n \<Longrightarrow> (goal_step env)\<^sup>*\<^sup>* c (add_all env ctx c ns)"
  by (induction ns arbitrary: c) (auto simp: add_all_def intro: converse_rtranclp_into_rtranclp goal_add)

definition ex_goal_graph :: "goal_db connection" where
  "ex_goal_graph = add_all ex_goal_env \<lparr>ctx_actor = ''a'', ctx_correlation_id = ''c'', ctx_occurred_at = utc_datetime 1\<rparr> (idle new_goal_db) ex_goal_nodes"

lemma ex_task_stored: "get_node (current ex_goal_graph) ''t'' = Inr (Some (Task_node ((ex_goal_base ''t'')\<lparr>gn_created_at := reread (utc_datetime 1)\<rparr>) ''q''))"
  by code_simp

theorem tasks_are_explained_witness:
  "(goal_step ex_goal_env)\<^sup>*\<^sup>* (idle new_goal_db) ex_goal_graph
   \<and> (\<exists>x. explain_task (current ex_goal_graph) ''t'' = Inr x \<and> length (te_lineage x) = 6 \<and> last (te_lineage x) = ''t'')"
proof -
  have run: "(goal_step ex_goal_env)\<^sup>*\<^sup>* (idle new_goal_db) ex_goal_graph"
    unfolding ex_goal_graph_def by (rule add_all_reachable) (simp add: ex_goal_nodes_def ex_goal_base_def valid_node_def)
  from tasks_are_explained [OF run, of "''t''"] run show ?thesis unfolding ex_task_stored by auto
qed

end
