(* ===== verification/Week_Mapping.thy ===== *)
theory Week_Mapping
  imports Planner Life_Model
begin

text \<open>
  \<open>week_planning.py\<close>, the mapping: what planning may see of the Life Model becomes activities of one week, or an explicit gap.  The time
  zone database gives, beside the offset of an instant, the offset of a clock reading and the fold of an instant.  \<open>astimezone\<close> returns
  a value that is already in the zone unchanged, even when its clock reading does not exist there.
\<close>

section \<open>Clock readings\<close>

record local_zone = zoneinfo +
  wall_offset :: "int \<Rightarrow> bool \<Rightarrow> int"
  utc_fold :: "int \<Rightarrow> bool"

type_synonym zone_database = "string \<Rightarrow> local_zone option"

abbreviation to_zone :: "local_zone \<Rightarrow> instant \<Rightarrow> datetime" where
  "to_zone z \<equiv> in_zone (zoneinfo.truncate z)"

definition at_wall :: "local_zone \<Rightarrow> int \<Rightarrow> bool \<Rightarrow> datetime" where
  "at_wall z w later = \<lparr>wall = w, offset = Some (wall_offset z w later), tz = Zone (zone_key z), fold_sensitive = fold_matters z w\<rparr>"

definition as_zone :: "local_zone \<Rightarrow> datetime \<Rightarrow> datetime" where
  "as_zone z d = (if tz d = Zone (zone_key z) then d else to_zone z (utc d))"

definition time_us :: "time_of_day \<Rightarrow> int" where
  "time_us t = (td_hour t * 3600 + td_minute t * 60 + td_second t) * second + td_microsecond t"

text \<open>\<open>datetime.combine(date, time, zone)\<close>, with the date as its ordinal.\<close>

definition combine :: "local_zone \<Rightarrow> int \<Rightarrow> time_of_day \<Rightarrow> datetime" where
  "combine z n t = at_wall z ((n - epoch_ordinal) * day_us + time_us t) False"

definition weekday :: "int \<Rightarrow> int" where
  "weekday n = (n + 6) mod 7"

section \<open>Gaps and occurrences\<close>

record planning_gap =
  pg_memory_id :: string
  pg_title :: string
  pg_reason :: string
  pg_explanation :: string

record routine_occurrence =
  oc_view :: knowledge_view
  oc_routine :: routine_details
  oc_local_date :: int
  oc_activity_id :: string

datatype mapping_error =
    WeekZoneNotFound string
  | WeekAssertionError
  | WeekPlannerFailure planner_error

abbreviation view_id :: "knowledge_view \<Rightarrow> string" where
  "view_id v \<equiv> mr_memory_id (kv_record v)"

definition gap :: "knowledge_view \<Rightarrow> planning_gap" where
  "gap v = \<lparr>pg_memory_id = view_id v, pg_title = mr_content (kv_record v), pg_reason = ''unknown_time'',
     pg_explanation = ''Structured knowledge does not provide a safely schedulable time.''\<rparr>"

definition view_routine :: "knowledge_view \<Rightarrow> routine_details option" where
  "view_routine v = Option.bind (mr_knowledge (kv_record v)) kd_routine"

definition occurrence_id :: "string \<Rightarrow> int \<Rightarrow> string" where
  "occurrence_id i n = ''routine:'' @ i @ '':'' @ iso_date n"

definition selected_dates :: "datetime \<Rightarrow> local_zone \<Rightarrow> routine_details \<Rightarrow> int list" where
  "selected_dates ws z r =
     (let first_date = date_of (as_zone z ws);
          dates = filter (\<lambda>n. weekday n \<in> rt_days r) (map (\<lambda>k. first_date + k) [0..6])
      in if rt_minimum_weekly_frequency r \<noteq> 0 then take (nat (rt_minimum_weekly_frequency r)) dates else dates)"

definition occurrences_of :: "datetime \<Rightarrow> local_zone \<Rightarrow> knowledge_view \<Rightarrow> routine_details \<Rightarrow> routine_occurrence list" where
  "occurrences_of ws z v r =
     map (\<lambda>n. \<lparr>oc_view = v, oc_routine = r, oc_local_date = n, oc_activity_id = occurrence_id (view_id v) n\<rparr>) (selected_dates ws z r)"

section \<open>One occurrence\<close>

definition fixed_activity :: "routine_occurrence \<Rightarrow> string list \<Rightarrow> local_zone \<Rightarrow> datetime \<Rightarrow> plan_activity" where
  "fixed_activity oc deps planning_zone nominal =
     (let r = oc_routine oc;
          starts = to_zone planning_zone (utc nominal - (rt_preparation_minutes r + rt_travel_minutes r) * minute);
          ends = to_zone planning_zone (utc nominal + (rt_duration_minutes r + rt_transition_minutes r) * minute)
      in \<lparr>activity_id = oc_activity_id oc, title = mr_content (kv_record (oc_view oc)), flexibility = FIXED,
          duration_minutes = (utc ends - utc starts) div minute, fixed_start = Some starts, fixed_end = Some ends,
          earliest_start = None, latest_end = None, deadline = None, recover_missed_deadline = False, dependencies = deps,
          travel_minutes_before = 0, travel_minutes_after = 0, energy_required = 1, goal_weight = 0, importance = 0,
          display_group = Some (mr_content (kv_record (oc_view oc))), display_title = None, guidance = [],
          calendar_eligible = False, personal_micro_event = False\<rparr>)"

definition movable_activity :: "routine_occurrence \<Rightarrow> string list \<Rightarrow> local_zone \<Rightarrow> datetime option \<Rightarrow> plan_activity" where
  "movable_activity oc deps planning_zone nominal =
     (let r = oc_routine oc in
      \<lparr>activity_id = oc_activity_id oc, title = mr_content (kv_record (oc_view oc)), flexibility = FLEXIBLE,
       duration_minutes = rt_duration_minutes r, fixed_start = None, fixed_end = None,
       earliest_start = map_option (as_zone planning_zone) nominal, latest_end = None, deadline = None, recover_missed_deadline = False,
       dependencies = deps, travel_minutes_before = rt_preparation_minutes r + rt_travel_minutes r,
       travel_minutes_after = rt_transition_minutes r, energy_required = 1,
       goal_weight = (if rt_flexibility r = RF_OPTIONAL then 0 else rt_priority r), importance = 0,
       display_group = Some (mr_content (kv_record (oc_view oc))), display_title = None, guidance = [],
       calendar_eligible = True, personal_micro_event = False\<rparr>)"

text \<open>Constructing the model validates it.\<close>

definition plan_activity_model :: "plan_activity \<Rightarrow> mapping_error + plan_activity" where
  "plan_activity_model a = (case validate_activity a of Inl e \<Rightarrow> Inl (WeekPlannerFailure e) | Inr _ \<Rightarrow> Inr a)"

definition routine_nominal :: "zone_database \<Rightarrow> routine_occurrence \<Rightarrow> mapping_error + datetime option" where
  "routine_nominal zones oc =
     (case rt_start_time (oc_routine oc) of
        None \<Rightarrow> Inr None
      | Some t \<Rightarrow> (case zones (rt_timezone (oc_routine oc)) of
          None \<Rightarrow> Inl (WeekZoneNotFound (rt_timezone (oc_routine oc)))
        | Some z \<Rightarrow> Inr (Some (combine z (oc_local_date oc) t))))"

definition occurrence_activity ::
  "zone_database \<Rightarrow> routine_occurrence \<Rightarrow> string list \<Rightarrow> local_zone \<Rightarrow> mapping_error + plan_activity" where
  "occurrence_activity zones oc deps planning_zone =
     ebind (routine_nominal zones oc) (\<lambda>nominal.
       if rt_flexibility (oc_routine oc) = RF_FIXED then
         (case nominal of None \<Rightarrow> Inl WeekAssertionError | Some d \<Rightarrow> plan_activity_model (fixed_activity oc deps planning_zone d))
       else plan_activity_model (movable_activity oc deps planning_zone nominal))"

section \<open>All of the knowledge\<close>

type_synonym occurrence_table = "(string \<times> routine_occurrence list) list"

definition collect_view :: "zone_database \<Rightarrow> datetime \<Rightarrow> occurrence_table \<times> planning_gap list \<Rightarrow> knowledge_view \<Rightarrow> occurrence_table \<times> planning_gap list" where
  "collect_view zones ws st v =
     (case st of (table, gaps) \<Rightarrow>
        case view_routine v of
          None \<Rightarrow> (table, keyed_put pg_memory_id (gap v) gaps)
        | Some r \<Rightarrow> (case zones (rt_timezone r) of
            None \<Rightarrow> (table, keyed_put pg_memory_id (gap v) gaps)
          | Some z \<Rightarrow> (keyed_put fst (view_id v, occurrences_of ws z v r) table, gaps)))"

definition entry_dependencies :: "routine_occurrence list \<Rightarrow> string list" where
  "entry_dependencies items = (case items of [] \<Rightarrow> [] | oc # _ \<Rightarrow> rt_dependency_ids (oc_routine oc))"

definition dependency_activities :: "occurrence_table \<Rightarrow> string list \<Rightarrow> string list" where
  "dependency_activities table deps =
     concat (map (\<lambda>d. case map_of table d of None \<Rightarrow> [] | Some items \<Rightarrow> map oc_activity_id items) deps)"

fun schedule_entries ::
  "zone_database \<Rightarrow> local_zone \<Rightarrow> occurrence_table \<Rightarrow> occurrence_table \<Rightarrow> planning_gap list
   \<Rightarrow> mapping_error + plan_activity list \<times> planning_gap list" where
  "schedule_entries zones pz table [] gaps = Inr ([], gaps)"
| "schedule_entries zones pz table ((i, items) # rest) gaps =
     (let deps = entry_dependencies items in
      if \<exists>d \<in> set deps. d \<notin> fst ` set table
      then schedule_entries zones pz table rest (case items of [] \<Rightarrow> gaps | oc # _ \<Rightarrow> keyed_put pg_memory_id (gap (oc_view oc)) gaps)
      else ebind (emapM (\<lambda>oc. occurrence_activity zones oc (dependency_activities table deps) pz) items) (\<lambda>as.
           ebind (schedule_entries zones pz table rest gaps) (\<lambda>(bs, gaps'). Inr (as @ bs, gaps'))))"

definition map_knowledge ::
  "zone_database \<Rightarrow> knowledge_view list \<Rightarrow> datetime \<Rightarrow> local_zone \<Rightarrow> mapping_error + plan_activity list \<times> planning_gap list" where
  "map_knowledge zones views ws planning_zone =
     (let (table, gaps) = foldl (collect_view zones ws) ([], []) (sort_key view_id views)
      in schedule_entries zones planning_zone table table gaps)"

section \<open>What becomes of a view\<close>

definition view_entry :: "zone_database \<Rightarrow> datetime \<Rightarrow> knowledge_view \<Rightarrow> routine_occurrence list option" where
  "view_entry zones ws v = Option.bind (view_routine v) (\<lambda>r. map_option (\<lambda>z. occurrences_of ws z v r) (zones (rt_timezone r)))"

text \<open>A view whose routine has a known zone, and one whose dependencies all are such views.\<close>

definition timed :: "zone_database \<Rightarrow> knowledge_view \<Rightarrow> bool" where
  "timed zones v \<longleftrightarrow> (\<exists>r. view_routine v = Some r \<and> zones (rt_timezone r) \<noteq> None)"

definition plannable :: "zone_database \<Rightarrow> datetime \<Rightarrow> knowledge_view list \<Rightarrow> knowledge_view \<Rightarrow> bool" where
  "plannable zones ws views v \<longleftrightarrow> (\<exists>r z. view_routine v = Some r \<and> zones (rt_timezone r) = Some z
     \<and> (selected_dates ws z r = [] \<or> (\<forall>d \<in> set (rt_dependency_ids r). \<exists>u \<in> set views. view_id u = d \<and> timed zones u)))"

definition planned_ids :: "zone_database \<Rightarrow> datetime \<Rightarrow> knowledge_view \<Rightarrow> string list" where
  "planned_ids zones ws v = (case view_entry zones ws v of None \<Rightarrow> [] | Some items \<Rightarrow> map oc_activity_id items)"

definition table_of :: "zone_database \<Rightarrow> datetime \<Rightarrow> knowledge_view list \<Rightarrow> occurrence_table" where
  "table_of zones ws vs = List.map_filter (\<lambda>v. map_option (Pair (view_id v)) (view_entry zones ws v)) vs"

lemma gap_id [simp]: "pg_memory_id (gap v) = view_id v"
  by (simp add: gap_def)

lemma view_entry_timed: "view_entry zones ws v \<noteq> None \<longleftrightarrow> timed zones v"
  by (auto simp: view_entry_def timed_def Option.bind_eq_Some_conv split: option.splits)

lemma collect_view_entry:
  "collect_view zones ws (table, gaps) v =
     (case view_entry zones ws v of
        None \<Rightarrow> (table, keyed_put pg_memory_id (gap v) gaps)
      | Some items \<Rightarrow> (keyed_put fst (view_id v, items) table, gaps))"
  by (auto simp: collect_view_def view_entry_def split: option.splits)

lemma collected:
  "distinct (map view_id vs) \<Longrightarrow> view_id ` set vs \<inter> (fst ` set table \<union> pg_memory_id ` set gaps) = {} \<Longrightarrow>
   foldl (collect_view zones ws) (table, gaps) vs
     = (table @ table_of zones ws vs, gaps @ map gap (filter (\<lambda>v. \<not> timed zones v) vs))"
proof (induction vs arbitrary: table gaps)
  case Nil
  then show ?case by (simp add: table_of_def map_filter_simps)
next
  case (Cons v vs)
  have fresh: "view_id v \<notin> fst ` set table" "pg_memory_id (gap v) \<notin> pg_memory_id ` set gaps"
    using Cons.prems(2) by auto
  show ?case
  proof (cases "view_entry zones ws v")
    case None
    with fresh Cons.prems have "collect_view zones ws (table, gaps) v = (table, gaps @ [gap v])" "\<not> timed zones v"
      using view_entry_timed [of zones ws v] by (simp_all add: collect_view_entry keyed_put_fresh)
    with None Cons show ?thesis by (auto simp: table_of_def map_filter_simps)
  next
    case (Some items)
    with fresh have "collect_view zones ws (table, gaps) v = (table @ [(view_id v, items)], gaps)" "timed zones v"
      using view_entry_timed [of zones ws v] by (simp_all add: collect_view_entry keyed_put_fresh)
    with Some Cons show ?thesis by (auto simp: table_of_def map_filter_simps)
  qed
qed

lemma table_of_keys: "fst ` set (table_of zones ws vs) = view_id ` {v \<in> set vs. timed zones v}"
  using view_entry_timed [of zones ws] by (force simp: table_of_def map_filter_def)

lemma entry_shape:
  assumes "view_entry zones ws v = Some items"
  obtains r z where "view_routine v = Some r" "zones (rt_timezone r) = Some z" "items = occurrences_of ws z v r"
  using assms by (auto simp: view_entry_def Option.bind_eq_Some_conv)

lemma entry_dependencies_of:
  "entry_dependencies (occurrences_of ws z v r) = (if selected_dates ws z r = [] then [] else rt_dependency_ids r)"
  by (cases "selected_dates ws z r") (auto simp: occurrences_of_def entry_dependencies_def)

lemma occurrence_activity_id: "occurrence_activity zones oc deps pz = Inr a \<Longrightarrow> activity_id a = oc_activity_id oc \<and> dependencies a = deps"
  by (auto simp: occurrence_activity_def plan_activity_model_def fixed_activity_def movable_activity_def Let_def
      split: if_splits option.splits sum.splits)

lemma occurrence_activity_ids:
  "emapM (\<lambda>oc. occurrence_activity zones oc deps pz) items = Inr as \<Longrightarrow> map activity_id as = map oc_activity_id items"
  by (induction items arbitrary: as) (auto dest: occurrence_activity_id)

text \<open>The second loop, on the entries of distinct views.\<close>

lemma blocked_plannable:
  assumes "set us = set views" and "view_entry zones ws v = Some items"
  shows "(\<exists>d \<in> set (entry_dependencies items). d \<notin> fst ` set (table_of zones ws us)) \<longleftrightarrow> \<not> plannable zones ws views v"
proof (rule entry_shape [OF assms(2)])
  fix r z assume rz: "view_routine v = Some r" "zones (rt_timezone r) = Some z" "items = occurrences_of ws z v r"
  have keys: "d \<in> fst ` set (table_of zones ws us) \<longleftrightarrow> (\<exists>u \<in> set views. view_id u = d \<and> timed zones u)" for d
    unfolding table_of_keys assms(1) by auto
  show ?thesis unfolding keys using rz by (auto simp: plannable_def entry_dependencies_of)
qed

lemma blocked_items: "entry_dependencies items \<noteq> [] \<Longrightarrow> view_entry zones ws v = Some items \<Longrightarrow> \<exists>oc rest. items = oc # rest \<and> oc_view oc = v"
  by (erule entry_shape) (auto simp: entry_dependencies_def occurrences_of_def split: list.splits)

lemma scheduled:
  assumes "set us = set views" and "distinct (map view_id vs)" and "pg_memory_id ` set gaps \<inter> view_id ` {v \<in> set vs. timed zones v} = {}"
    and "schedule_entries zones pz (table_of zones ws us) (table_of zones ws vs) gaps = Inr (acts, gaps')"
  shows "map activity_id acts = concat (map (planned_ids zones ws) (filter (plannable zones ws views) vs))
     \<and> gaps' = gaps @ map gap (filter (\<lambda>v. timed zones v \<and> \<not> plannable zones ws views v) vs)"
  using assms(2-4)
proof (induction vs arbitrary: gaps acts)
  case Nil
  then show ?case by (simp add: table_of_def map_filter_simps)
next
  case (Cons v vs)
  have tail: "schedule_entries zones pz (table_of zones ws us) (table_of zones ws vs) g = Inr (a, gaps') \<Longrightarrow>
      pg_memory_id ` set g \<inter> view_id ` {v \<in> set vs. timed zones v} = {} \<Longrightarrow>
      map activity_id a = concat (map (planned_ids zones ws) (filter (plannable zones ws views) vs))
      \<and> gaps' = g @ map gap (filter (\<lambda>v. timed zones v \<and> \<not> plannable zones ws views v) vs)" for g a
    using Cons.IH Cons.prems(1) by simp
  show ?case
  proof (cases "view_entry zones ws v")
    case None
    then have "\<not> timed zones v" using view_entry_timed [of zones ws v] by simp
    moreover then have "\<not> plannable zones ws views v" by (auto simp: plannable_def timed_def)
    moreover have "table_of zones ws (v # vs) = table_of zones ws vs" using None by (simp add: table_of_def map_filter_simps)
    ultimately show ?thesis using tail Cons.prems by auto
  next
    case (Some items)
    then have t: "timed zones v" and tab: "table_of zones ws (v # vs) = (view_id v, items) # table_of zones ws vs"
      using view_entry_timed [of zones ws v] by (auto simp: table_of_def map_filter_simps)
    note blocked = blocked_plannable [OF assms(1) Some]
    show ?thesis
    proof (cases "plannable zones ws views v")
      case True
      with Cons.prems(3) blocked obtain as bs where as: "emapM (\<lambda>oc. occurrence_activity zones oc
            (dependency_activities (table_of zones ws us) (entry_dependencies items)) pz) items = Inr as"
        and bs: "schedule_entries zones pz (table_of zones ws us) (table_of zones ws vs) gaps = Inr (bs, gaps')" and acts: "acts = as @ bs"
        unfolding tab by (auto simp: Let_def)
      have "planned_ids zones ws v = map activity_id as" using Some occurrence_activity_ids [OF as] by (simp add: planned_ids_def)
      moreover have "pg_memory_id ` set gaps \<inter> view_id ` {v \<in> set vs. timed zones v} = {}" using Cons.prems(2) by auto
      ultimately show ?thesis using tail [OF bs] acts True by simp
    next
      case False
      with blocked have "entry_dependencies items \<noteq> []" by auto
      then obtain oc rest where items: "items = oc # rest" "oc_view oc = v" using blocked_items [OF _ Some] by blast
      have fresh: "pg_memory_id (gap v) \<notin> pg_memory_id ` set gaps" using Cons.prems(2) t by auto
      have "schedule_entries zones pz (table_of zones ws us) (table_of zones ws vs) (gaps @ [gap v]) = Inr (acts, gaps')"
        using Cons.prems(3) False blocked items keyed_put_fresh [OF fresh] unfolding tab by (auto simp: Let_def)
      moreover have "pg_memory_id ` set (gaps @ [gap v]) \<inter> view_id ` {v \<in> set vs. timed zones v} = {}" using Cons.prems(1,2) by auto
      ultimately show ?thesis using tail t False by fastforce
    qed
  qed
qed


section \<open>Which routines can be planned\<close>

definition whole_minutes :: "local_zone \<Rightarrow> bool" where
  "whole_minutes z \<longleftrightarrow> (\<forall>w later. wall_offset z w later mod minute = 0) \<and> (\<forall>t. utc_to_offset z t mod minute = 0)"

lemma nominal_minutes:
  assumes "whole_minutes z" and "td_second t = 0" and "td_microsecond t = 0"
  shows "utc (combine z n t) mod minute = 0" "wall (combine z n t) mod minute = 0"
proof -
  have w: "wall (combine z n t) = ((n - epoch_ordinal) * 1440 + td_hour t * 60 + td_minute t) * minute"
    using assms(2,3) by (simp add: combine_def at_wall_def time_us_def day_us_def second_def minute_def algebra_simps)
  then show "wall (combine z n t) mod minute = 0" by simp
  have "utc (combine z n t) = wall (combine z n t) - wall_offset z (wall (combine z n t)) False"
    by (simp add: utc_def combine_def at_wall_def)
  with w assms(1) show "utc (combine z n t) mod minute = 0"
    by (metis whole_minutes_def mod_diff_eq mod_mult_self2_is_0 diff_zero mod_0)
qed

lemma to_zone_minutes: "whole_minutes z \<Longrightarrow> t mod minute = 0 \<Longrightarrow> wall (to_zone z t) mod minute = 0"
  by (simp add: whole_minutes_def in_zone_def Let_def zoneinfo.defs mod_add_eq [symmetric])

lemma as_zone_minutes: "whole_minutes z \<Longrightarrow> utc d mod minute = 0 \<Longrightarrow> wall d mod minute = 0 \<Longrightarrow> wall (as_zone z d) mod minute = 0"
  by (simp add: as_zone_def to_zone_minutes)

lemma as_zone_aware: "\<not> is_naive d \<Longrightarrow> \<not> is_naive (as_zone z d)"
  by (simp add: as_zone_def)

lemma combine_aware [simp]: "\<not> is_naive (combine z n t)"
  by (simp add: is_naive_def combine_def at_wall_def)

lemma model_accepts: "(\<exists>x. plan_activity_model a = Inr x) \<longleftrightarrow> validate_activity a = Inr ()"
  by (auto simp: plan_activity_model_def split: sum.splits)

lemma fixed_accepted:
  assumes r: "valid_routine known (oc_routine oc)" and pz: "whole_minutes pz" and nom: "utc d mod minute = 0"
    and oc: "oc_activity_id oc \<noteq> []" "mr_content (kv_record (oc_view oc)) \<noteq> []" "[] \<notin> set deps"
  shows "validate_activity (fixed_activity oc deps pz d) = Inr () \<longleftrightarrow> oc_activity_id oc \<notin> set deps
    \<and> rt_preparation_minutes (oc_routine oc) + rt_travel_minutes (oc_routine oc) + rt_duration_minutes (oc_routine oc)
        + rt_transition_minutes (oc_routine oc) \<le> 1440"
proof -
  let ?r = "oc_routine oc" and ?a = "fixed_activity oc deps pz d"
  let ?s = "utc d - (rt_preparation_minutes ?r + rt_travel_minutes ?r) * minute"
  let ?e = "utc d + (rt_duration_minutes ?r + rt_transition_minutes ?r) * minute"
  have sub: "?s mod minute = 0" "?e mod minute = 0" using nom by (simp_all add: mod_diff_eq [symmetric] mod_add_eq [symmetric])
  have "(?e - ?s) div minute = rt_preparation_minutes ?r + rt_travel_minutes ?r + rt_duration_minutes ?r + rt_transition_minutes ?r"
  proof -
    have "?e - ?s = (rt_preparation_minutes ?r + rt_travel_minutes ?r + rt_duration_minutes ?r + rt_transition_minutes ?r) * minute"
      by (simp add: algebra_simps)
    then show ?thesis by simp
  qed
  then have dur: "duration_minutes ?a = rt_preparation_minutes ?r + rt_travel_minutes ?r + rt_duration_minutes ?r + rt_transition_minutes ?r"
    by (simp add: fixed_activity_def Let_def)
  have ok: "validate_minute (to_zone pz ?s) n = Inr ()" "validate_minute (to_zone pz ?e) n = Inr ()" for n
    using to_zone_minutes [OF pz sub(1)] to_zone_minutes [OF pz sub(2)] by (simp_all add: validate_minute_def)
  have pos: "1 \<le> duration_minutes ?a" unfolding dur using r by (auto simp: valid_routine_def day_minutes_def)
  have fields: "activity_fields ?a = Inr () \<longleftrightarrow> duration_minutes ?a \<le> 1440"
    using pos oc by (auto simp: activity_fields_def fixed_activity_def Let_def in_range_def ebind_Inr_iff)
  have "validate_constraints ?a = Inr () \<longleftrightarrow> oc_activity_id oc \<notin> set deps"
    using ok by (simp add: validate_constraints_def validate_activity_placement_def fixed_activity_def Let_def)
  with fields dur show ?thesis by (auto simp: validate_activity_def ebind_Inr_iff)
qed

lemma movable_accepted:
  assumes r: "valid_routine known (oc_routine oc)" and oc: "oc_activity_id oc \<noteq> []" "mr_content (kv_record (oc_view oc)) \<noteq> []" "[] \<notin> set deps"
    and nom: "\<And>d. nominal = Some d \<Longrightarrow> \<not> is_naive (as_zone pz d) \<and> wall (as_zone pz d) mod minute = 0"
  shows "validate_activity (movable_activity oc deps pz nominal) = Inr () \<longleftrightarrow> oc_activity_id oc \<notin> set deps
    \<and> rt_preparation_minutes (oc_routine oc) + rt_travel_minutes (oc_routine oc) \<le> 1440"
proof -
  let ?r = "oc_routine oc" and ?a = "movable_activity oc deps pz nominal"
  have fields: "activity_fields ?a = Inr () \<longleftrightarrow> rt_preparation_minutes ?r + rt_travel_minutes ?r \<le> 1440"
    using oc r by (auto simp: activity_fields_def movable_activity_def Let_def in_range_def ebind_Inr_iff valid_routine_def day_minutes_def)
  have "validate_constraints ?a = Inr () \<longleftrightarrow> oc_activity_id oc \<notin> set deps"
    using nom by (cases nominal) (simp_all add: validate_constraints_def validate_activity_placement_def movable_activity_def Let_def validate_minute_def)
  with fields show ?thesis by (auto simp: validate_activity_def ebind_Inr_iff)
qed

text \<open>
  An occurrence of a valid, confirmed routine becomes an activity exactly when it does not depend on itself and the planner's day
  limit holds: for a fixed routine preparation, travel, duration and transition together, for any other preparation and travel.  A valid
  routine may exceed both, and then the whole mapping raises.
\<close>
theorem occurrence_accepted:
  assumes r: "valid_routine known (oc_routine oc)" and zone: "zones (rt_timezone (oc_routine oc)) = Some z"
    and minutes: "whole_minutes z" "whole_minutes pz"
    and oc: "oc_activity_id oc \<noteq> []" "mr_content (kv_record (oc_view oc)) \<noteq> []" "[] \<notin> set deps"
  shows "(\<exists>a. occurrence_activity zones oc deps pz = Inr a) \<longleftrightarrow> oc_activity_id oc \<notin> set deps
    \<and> (if rt_flexibility (oc_routine oc) = RF_FIXED
       then rt_preparation_minutes (oc_routine oc) + rt_travel_minutes (oc_routine oc) + rt_duration_minutes (oc_routine oc)
          + rt_transition_minutes (oc_routine oc) \<le> 1440
       else rt_preparation_minutes (oc_routine oc) + rt_travel_minutes (oc_routine oc) \<le> 1440)"
proof (cases "rt_start_time (oc_routine oc)")
  case None
  with r have "rt_flexibility (oc_routine oc) \<noteq> RF_FIXED" by (auto simp: valid_routine_def)
  with None movable_accepted [OF r oc, of None pz] show ?thesis
    by (simp add: occurrence_activity_def routine_nominal_def model_accepts)
next
  case (Some t)
  with r have t: "td_second t = 0" "td_microsecond t = 0" by (auto simp: valid_routine_def)
  let ?d = "combine z (oc_local_date oc) t"
  note m = nominal_minutes [OF minutes(1) t, of "oc_local_date oc"]
  have "wall (as_zone pz ?d) mod minute = 0" "\<not> is_naive (as_zone pz ?d)"
    using as_zone_minutes [OF minutes(2) m] by (simp_all add: as_zone_aware)
  with Some zone fixed_accepted [OF r minutes(2) m(1) oc] movable_accepted [OF r oc, of "Some ?d" pz] show ?thesis
    by (simp add: occurrence_activity_def routine_nominal_def model_accepts)
qed

section \<open>Examples\<close>

definition utc_local_zone :: local_zone where
  "utc_local_zone = \<lparr>zone_key = ''UTC'', utc_to_offset = (\<lambda>_. 0), fold_matters = (\<lambda>_. False), wall_offset = (\<lambda>_ _. 0), utc_fold = (\<lambda>_. False)\<rparr>"

definition ex_zone_database :: zone_database where
  "ex_zone_database key = (if key = ''UTC'' then Some utc_local_zone else None)"

definition ex_weekly_routine :: routine_details where
  "ex_weekly_routine = \<lparr>rt_days = {0, 3}, rt_start_time = Some \<lparr>td_hour = 7, td_minute = 30, td_second = 0, td_microsecond = 0, td_aware = False\<rparr>,
     rt_duration_minutes = 60, rt_timezone = ''UTC'', rt_flexibility = RF_FIXED, rt_desired = False, rt_location_id = None, rt_travel_minutes = 20,
     rt_preparation_minutes = 10, rt_transition_minutes = 5, rt_minimum_weekly_frequency = 0, rt_priority = 5, rt_can_move = False, rt_dependency_ids = []\<rparr>"

definition ex_week_view :: "string \<Rightarrow> routine_details option \<Rightarrow> knowledge_view" where
  "ex_week_view i r = \<lparr>kv_record = ex_known\<lparr>mr_memory_id := i, mr_knowledge := Some (ex_assertion\<lparr>kd_kind := KK_ROUTINE, kd_routine := r\<rparr>)\<rparr>,
     kv_state = KS_CONFIRMED, kv_current = True\<rparr>"

definition ex_week_views :: "knowledge_view list" where
  "ex_week_views = [ex_week_view ''m2'' None, ex_week_view ''m1'' (Some ex_weekly_routine)]"

lemma ex_week_mapped: "case map_knowledge ex_zone_database ex_week_views (utc_datetime 0) utc_local_zone of
    Inl _ \<Rightarrow> False | Inr (acts, gaps) \<Rightarrow> map activity_id acts = [''routine:m1:1970-01-01'', ''routine:m1:1970-01-05''] \<and> map pg_memory_id gaps = [''m2'']"
  by code_simp


definition ex_long_occurrence :: routine_occurrence where
  "ex_long_occurrence = \<lparr>oc_view = ex_week_view ''m1'' None,
     oc_routine = ex_weekly_routine\<lparr>rt_flexibility := RF_PREFERRED, rt_travel_minutes := 800, rt_preparation_minutes := 800\<rparr>,
     oc_local_date = 719163, oc_activity_id = ''routine:m1:1970-01-01''\<rparr>"

theorem occurrence_accepted_witness:
  "valid_routine (\<lambda>_. True) (oc_routine ex_long_occurrence)
   \<and> (\<nexists>a. occurrence_activity ex_zone_database ex_long_occurrence [] utc_local_zone = Inr a)"
proof -
  have r: "valid_routine (\<lambda>_. True) (oc_routine ex_long_occurrence)"
    by (auto simp: ex_long_occurrence_def ex_weekly_routine_def valid_routine_def day_minutes_def)
  have z: "ex_zone_database (rt_timezone (oc_routine ex_long_occurrence)) = Some utc_local_zone"
    by (simp add: ex_long_occurrence_def ex_weekly_routine_def ex_zone_database_def)
  have m: "whole_minutes utc_local_zone" by (simp add: whole_minutes_def utc_local_zone_def)
  have c: "oc_activity_id ex_long_occurrence \<noteq> []" "mr_content (kv_record (oc_view ex_long_occurrence)) \<noteq> []"
    by (simp_all add: ex_long_occurrence_def ex_week_view_def ex_known_def)
  from occurrence_accepted [of "\<lambda>_. True" ex_long_occurrence ex_zone_database, OF r z m m c, of "[]"] r show ?thesis
    by (simp add: ex_long_occurrence_def ex_weekly_routine_def)
qed

end
