(* ===== verification/Week_Service.thy ===== *)
theory Week_Service
  imports Week_Mapping Calendar_Adapter Leases Authority_Lifecycle
begin

text \<open>
  \<open>week_planning.py\<close> and the recovery of \<open>durable_calendar.py\<close>: preview, approval with execution, and recovery of a week plan.  The world
  of the service is the encrypted store with the table of consumed authorizations, the lease issuer, the device registry and the
  state of the calendar provider.  One operation at a time holds the execution lock.  Each reading of the clock is an argument, of which a
  reconciliation takes one; the parsing of an event list and the text of an outcome are pydantic's and parameters.
\<close>

section \<open>State\<close>

record week_db = store_db +
  authority_consumed :: "consumption_key list"

record 'w week_world =
  ww_store :: "week_db connection"
  ww_issuer :: lease_issuer
  ww_devices :: registry
  ww_calendar :: 'w

record recovery_outcome =
  co_proposal_id :: string
  co_state :: proposal_state
  co_outcome :: string
  co_succeeded_events :: "string list"
  co_missing_events :: "string list"

record 'w week_env =
  wk_store :: store_env
  wk_calendar :: "'w calendar_env"
  wk_config :: calendar_config
  wk_zones :: zone_database
  wk_planner :: planner_env
  wk_round_trip :: "day_plan_request \<Rightarrow> day_plan_request"
  wk_hmac :: "string \<Rightarrow> string \<Rightarrow> string"
  is_json_list :: "string \<Rightarrow> bool"
  parse_events :: "string \<Rightarrow> event_draft list option"
  dump_outcome :: "recovery_outcome \<Rightarrow> string"

record week_clock =
  at_approve :: instant
  at_issue :: instant
  at_verify :: instant
  at_apply :: instant

datatype week_error =
    WeekPlanProposalError string string
  | WeekPlanningPolicyError string
  | WeekPlanningProviderError string
  | WeekMappingFailure mapping_error
  | WeekStoreFailure store_error
  | WeekRepositoryFailure repository_error
  | WeekPolicyFailure policy_error
  | WeekCalendarFailure calendar_error
  | WeekLeaseFailure lease_error
  | WeekValidationError

type_synonym ('w, 'a) week_action = "('w week_world, week_error, 'a) action"

definition ACTION :: string where "ACTION = ''calendar.apply''"
definition CALENDAR_WORKER :: string where "CALENDAR_WORKER = ''lifeos-calendar-worker''"
definition PLANNING_ACTOR :: string where "PLANNING_ACTOR = ''lifeos''"
definition PLANNING_CORRELATION :: string where "PLANNING_CORRELATION = ''week-planning''"

abbreviation week_authority :: "'w week_env \<Rightarrow> authority_env" where
  "week_authority env \<equiv> ce_authority (wk_calendar env)"

section \<open>Parts of the world\<close>

definition on_connection :: "('e \<Rightarrow> week_error) \<Rightarrow> (week_db connection, 'e, 'a) action \<Rightarrow> ('w, 'a) week_action" where
  "on_connection f m w = (case m (ww_store w) of
       (Inl e, c) \<Rightarrow> (Inl (f e), w\<lparr>ww_store := c\<rparr>)
     | (Inr x, c) \<Rightarrow> (Inr x, w\<lparr>ww_store := c\<rparr>))"

definition on_provider :: "('w, 'a) calendar_action \<Rightarrow> ('w, 'a) week_action" where
  "on_provider m w = (case m (ww_calendar w) of
       (Inl e, t) \<Rightarrow> (Inl (WeekCalendarFailure e), w\<lparr>ww_calendar := t\<rparr>)
     | (Inr x, t) \<Rightarrow> (Inr x, w\<lparr>ww_calendar := t\<rparr>))"

definition on_leases :: "(lease_issuer, lease_error, 'a) action \<Rightarrow> ('w, 'a) week_action" where
  "on_leases m w = (case m (ww_issuer w) of
       (Inl e, t) \<Rightarrow> (Inl (WeekLeaseFailure e), w\<lparr>ww_issuer := t\<rparr>)
     | (Inr x, t) \<Rightarrow> (Inr x, w\<lparr>ww_issuer := t\<rparr>))"

text \<open>\<open>try: .. except ..\<close>: an exception is translated, the state stays.\<close>

definition translate :: "(week_error \<Rightarrow> week_error) \<Rightarrow> ('w, 'a) week_action \<Rightarrow> ('w, 'a) week_action" where
  "translate f m w = (case m w of (Inl e, w') \<Rightarrow> (Inl (f e), w') | (Inr x, w') \<Rightarrow> (Inr x, w'))"

text \<open>\<open>with store.domain_transaction()\<close> around statements that also touch other parts of the world: only the tables are rolled back.\<close>

definition week_transaction :: "('w, 'a) week_action \<Rightarrow> ('w, 'a) week_action" where
  "week_transaction body w =
     (let c = ww_store w; (r, w') = body (w\<lparr>ww_store := c\<lparr>in_transaction := True\<rparr>\<rparr>); c' = ww_store w'
      in case r of
           Inr _ \<Rightarrow> (r, w'\<lparr>ww_store := if in_transaction c then c' else c'\<lparr>committed := current c', in_transaction := False\<rparr>\<rparr>)
         | Inl _ \<Rightarrow> (r, w'\<lparr>ww_store := if in_transaction c then c'\<lparr>current := current c\<rparr> else c'\<lparr>current := committed c', in_transaction := False\<rparr>\<rparr>))"

section \<open>Records and authorizations of the store\<close>

definition on_records :: "'a repo_action \<Rightarrow> (week_db, repository_error, 'a) action" where
  "on_records m db = (let (r, d) = m (domain_db.truncate db) in (r, domain_db.extend d (domain_db.more db)))"

definition week_read :: "'w week_env \<Rightarrow> record_kind \<Rightarrow> string \<Rightarrow> week_db connection \<Rightarrow> repository_error + domain_record option" where
  "week_read env k i c = read_record (repository_env.truncate (wk_store env)) (domain_db.truncate (current c)) k i"

definition week_create :: "'w week_env \<Rightarrow> domain_record \<Rightarrow> transition_context \<Rightarrow> ('w, unit) week_action" where
  "week_create env r ctx = on_connection WeekRepositoryFailure
     (domain_transaction (on_tables (on_records (create_body (repository_env.truncate (wk_store env)) r ctx))))"

definition week_transition :: "'w week_env \<Rightarrow> string \<Rightarrow> string \<Rightarrow> transition_context \<Rightarrow> ('w, unit) week_action" where
  "week_transition env i new_state ctx = on_connection WeekRepositoryFailure
     (domain_transaction (on_tables (on_records (transition_body (repository_env.truncate (wk_store env)) PROPOSAL i new_state ctx))))"

definition on_consumed :: "(consumption_key list, 'e, 'a) action \<Rightarrow> (week_db, 'e, 'a) action" where
  "on_consumed m db = (let (r, rows) = m (authority_consumed db) in (r, db\<lparr>authority_consumed := rows\<rparr>))"

definition week_generation :: "week_db connection \<Rightarrow> string \<Rightarrow> nat" where
  "week_generation c i = length (filter (\<lambda>k. fst k = reset_round i) (authority_consumed (current c)))"

definition week_consume :: "consumption_key list \<Rightarrow> week_db connection \<Rightarrow> bool \<times> week_db connection" where
  "week_consume keys c =
     (case domain_transaction (on_tables (on_consumed (insert_keys keys))) c of
        (Inl _, c') \<Rightarrow> (False, c')
      | (Inr _, c') \<Rightarrow> (True, c'))"

definition week_ops :: "week_db connection store_ops" where
  "week_ops = \<lparr>store_generation = week_generation, store_consume = week_consume\<rparr>"

section \<open>Proposals\<close>

definition stored_proposal :: "'w week_env \<Rightarrow> string \<Rightarrow> proposal_state \<Rightarrow> week_db connection \<Rightarrow> week_error + proposal_record" where
  "stored_proposal env i st c =
     (case week_read env PROPOSAL i c of
        Inl e \<Rightarrow> Inl (WeekRepositoryFailure e)
      | Inr None \<Rightarrow> Inl (WeekPlanProposalError i ''unknown_proposal'')
      | Inr (Some r) \<Rightarrow>
          (case record_body r of
             Proposal ptype p decision version reversible approval_state \<Rightarrow>
               if ptype \<noteq> ACTION then Inl (WeekPlanProposalError i ''invalid_proposal'')
               else if record_state r \<noteq> proposal_state_value st then Inl (WeekPlanProposalError i ''stale_proposal'')
               else Inr \<lparr>proposal_id = record_id r, action_class = ACTION, payload = p, proposal_state_of = st, created_at = record_created_at r\<rparr>
           | _ \<Rightarrow> Inl (WeekPlanProposalError i ''invalid_proposal'')))"

definition check_device :: "approval \<Rightarrow> string \<Rightarrow> week_error + unit" where
  "check_device a expected = require (approval_device_id a = Some expected) (WeekPlanningPolicyError ''device_mismatch'')"

definition proposal_read :: "'w week_env \<Rightarrow> string \<Rightarrow> proposal_state \<Rightarrow> ('w, proposal_record) week_action" where
  "proposal_read env i st = aread (\<lambda>w. stored_proposal env i st (ww_store w))"

definition lifecycle_approve :: "'w week_env \<Rightarrow> instant \<Rightarrow> proposal_record \<Rightarrow> approval \<Rightarrow> ('w, proposal_state) week_action" where
  "lifecycle_approve env now p a w = on_connection WeekPolicyFailure
     (approve week_ops (week_authority env) (ww_devices w) (utc_datetime now) p a default_approval_matrix) w"

definition lifecycle_apply :: "'w week_env \<Rightarrow> instant \<Rightarrow> proposal_record \<Rightarrow> capability_lease \<Rightarrow> ('w, proposal_state) week_action" where
  "lifecycle_apply env now p lease = on_connection WeekPolicyFailure
     (apply_proposal week_ops (week_authority env) (utc_datetime now) p lease)"

definition lifecycle_reset :: "'w week_env \<Rightarrow> instant \<Rightarrow> proposal_record \<Rightarrow> approval \<Rightarrow> ('w, proposal_state) week_action" where
  "lifecycle_reset env now p a w = on_connection WeekPolicyFailure
     (reset week_ops (week_authority env) (ww_devices w) (utc_datetime now) p a default_approval_matrix True) w"

text \<open>\<open>except PolicyViolationError\<close>\<close>

fun rejected_policy :: "string \<Rightarrow> week_error \<Rightarrow> week_error" where
  "rejected_policy reason (WeekPolicyFailure (PolicyViolationError m)) = WeekPlanningPolicyError reason"
| "rejected_policy reason e = e"

fun rejected_lease :: "week_error \<Rightarrow> week_error" where
  "rejected_lease (WeekPolicyFailure (PolicyViolationError m)) = WeekPlanningPolicyError ''lease_rejected''"
| "rejected_lease (WeekLeaseFailure (LeaseViolationError m)) = WeekPlanningPolicyError ''lease_rejected''"
| "rejected_lease e = e"

fun provider_reason :: "week_error \<Rightarrow> week_error" where
  "provider_reason (WeekCalendarFailure (CalendarAuthorizationError m)) = WeekPlanningProviderError ''calendar_authorization''"
| "provider_reason (WeekCalendarFailure (CalendarContractError m)) = WeekPlanningProviderError ''calendar_contract''"
| "provider_reason (WeekCalendarFailure (CalendarTransientError m)) = WeekPlanningProviderError ''calendar_transient''"
| "provider_reason (WeekCalendarFailure (CalendarInterruptedError m)) = WeekPlanningProviderError ''calendar_interrupted''"
| "provider_reason e = e"

fun preview_reason :: "week_error \<Rightarrow> week_error" where
  "preview_reason (WeekCalendarFailure (CalendarTransientError m)) = WeekPlanningProviderError ''calendar_transient''"
| "preview_reason (WeekCalendarFailure (CalendarInterruptedError m)) = WeekPlanningProviderError ''calendar_interrupted''"
| "preview_reason e = e"

text \<open>Constructing a \<open>CalendarPlan\<close> validates it.\<close>

definition plan_model :: "'w week_env \<Rightarrow> proposal_record \<Rightarrow> event_draft list \<Rightarrow> week_error + calendar_plan" where
  "plan_model env p events =
     (let plan = \<lparr>pl_authorization = p, pl_events = events\<rparr> in
      if valid_plan (week_authority env) plan then Inr plan else Inl WeekValidationError)"

section \<open>Preview\<close>

record week_plan_proposal =
  wq_proposal_id :: string
  wq_payload_hash :: string
  wq_status :: plan_status
  wq_plan_date :: int
  wq_timezone :: string
  wq_window_start :: datetime
  wq_window_end :: datetime
  wq_blocks :: "plan_block list"
  wq_calendar_blocks :: "calendar_block list"
  wq_explanations :: "task_explanation list"
  wq_unscheduled :: "unscheduled_activity list"
  wq_gaps :: "planning_gap list"
  wq_calendar_dry_run :: calendar_preview

definition local_midnight :: "local_zone \<Rightarrow> datetime \<Rightarrow> datetime" where
  "local_midnight z now = (let l = to_zone z (utc now) in at_wall z (wall l - wall l mod day_us) (utc_fold z (utc now)))"

definition week_request :: "string \<Rightarrow> datetime \<Rightarrow> datetime \<Rightarrow> plan_activity list \<Rightarrow> day_plan_request" where
  "week_request zone_name starts ends as =
     \<lparr>plan_date = date_of starts, timezone = zone_name, window_start = starts, window_end = ends, state_revision = 1,
      expected_state_revision = 1, activities = as, energy_windows = [], baseline_blocks = [], resolution = default_schedule_resolution\<rparr>"

definition week_events :: "string \<Rightarrow> calendar_block list \<Rightarrow> event_draft list" where
  "week_events i blocks = map (\<lambda>(n, b).
     \<lparr>ed_event_key = ''week_'' @ filter (\<lambda>c. c \<noteq> CHR ''-'') i @ ''_'' @ dec n,
      ed_summary = py_or (Some (cb_display_group b)) (cb_title b), ed_starts_at = cb_starts_at b, ed_ends_at = cb_ends_at b\<rparr>)
     (zip [0..<length blocks] blocks)"

definition planner_zones :: "zone_database \<Rightarrow> string \<Rightarrow> zoneinfo option" where
  "planner_zones zones key = map_option zoneinfo.truncate (zones key)"

definition planned_week ::
  "'w week_env \<Rightarrow> datetime \<Rightarrow> string \<Rightarrow> datetime \<Rightarrow> string \<Rightarrow> local_zone \<Rightarrow> week_db connection
   \<Rightarrow> week_error + day_plan_request \<times> proposed_day \<times> planning_gap list" where
  "planned_week env retention subject now zone_name zone c =
     (let starts = local_midnight zone now; ends = to_zone zone (utc starts + 7 * day_us) in
      case planning_knowledge (wk_store env) retention subject now (store_db.truncate (current c)) of
        Inl e \<Rightarrow> Inl (WeekStoreFailure e)
      | Inr views \<Rightarrow>
          (case map_knowledge (wk_zones env) views starts zone of
             Inl e \<Rightarrow> Inl (WeekMappingFailure e)
           | Inr (as, gaps) \<Rightarrow>
               let request = week_request zone_name starts ends as in
               (case ebind (validate_week (planner_zones (wk_zones env)) request) (\<lambda>_.
                       propose_week (wk_planner env) (planner_zones (wk_zones env)) (wk_round_trip env) request) of
                  Inl e \<Rightarrow> Inl (WeekMappingFailure (WeekPlannerFailure e))
                | Inr day \<Rightarrow> Inr (request, day, gaps))))"

definition week_proposal_record :: "string \<Rightarrow> datetime \<Rightarrow> string \<Rightarrow> domain_record" where
  "week_proposal_record i now p =
     \<lparr>record_id = i, record_created_at = now, record_state = ''proposed'',
      record_body = Proposal ACTION p ''approval-required'' ''google.calendar.v3'' True ''proposed''\<rparr>"

definition preview ::
  "'w week_env \<Rightarrow> string \<Rightarrow> datetime \<Rightarrow> string \<Rightarrow> datetime \<Rightarrow> string \<Rightarrow> ('w, week_plan_proposal) week_action" where
  "preview env new_id retention subject now zone_name =
     (case wk_zones env zone_name of
        None \<Rightarrow> araise (WeekMappingFailure (WeekZoneNotFound zone_name))
      | Some zone \<Rightarrow>
          abind (aread (\<lambda>w. planned_week env retention subject now zone_name zone (ww_store w))) (\<lambda>(request, day, gaps).
          let events = week_events new_id (pd_calendar_projection day);
              authorization = \<lparr>proposal_id = new_id, action_class = ACTION, payload = calendar_payload (week_authority env) events,
                proposal_state_of = PROPOSED, created_at = now\<rparr>
          in abind (alift (require (list_all valid_draft events) WeekValidationError)) (\<lambda>_.
             abind (week_create env (week_proposal_record new_id now (payload authorization))
                \<lparr>ctx_actor = PLANNING_ACTOR, ctx_correlation_id = PLANNING_CORRELATION, ctx_occurred_at = now\<rparr>) (\<lambda>_.
             abind (alift (plan_model env authorization events)) (\<lambda>plan.
             abind (translate preview_reason (on_provider (calendar_dry_run (wk_calendar env) (wk_config env) plan))) (\<lambda>dry_run.
               areturn \<lparr>wq_proposal_id = new_id, wq_payload_hash = payload_hash (week_authority env) authorization,
                 wq_status = pd_status day, wq_plan_date = plan_date request, wq_timezone = zone_name,
                 wq_window_start = window_start request, wq_window_end = window_end request, wq_blocks = pd_internal_plan day,
                 wq_calendar_blocks = pd_calendar_projection day, wq_explanations = pd_explanations day,
                 wq_unscheduled = pd_unscheduled day, wq_gaps = gaps, wq_calendar_dry_run = dry_run\<rparr>))))))"

section \<open>Approval and execution\<close>

record week_execution =
  we_proposal_id :: string
  we_state :: proposal_state
  we_lease_id :: string
  we_applied_operations :: nat
  we_message :: string

definition approve_body ::
  "'w week_env \<Rightarrow> instant \<Rightarrow> string \<Rightarrow> approval \<Rightarrow> transition_context \<Rightarrow> string \<Rightarrow> ('w, proposal_record) week_action" where
  "approve_body env now i a ctx expected =
     abind (proposal_read env i PROPOSED) (\<lambda>p.
     abind (alift (check_device a expected)) (\<lambda>_.
     abind (translate (rejected_policy ''approval_rejected'') (lifecycle_approve env now p a)) (\<lambda>st.
     abind (week_transition env i (proposal_state_value st) ctx) (\<lambda>_.
       areturn (p\<lparr>proposal_state_of := st\<rparr>)))))"

definition lease_body :: "'w week_env \<Rightarrow> week_clock \<Rightarrow> string \<Rightarrow> proposal_record \<Rightarrow> approval \<Rightarrow> ('w, capability_lease) week_action" where
  "lease_body env clock lease_id p a =
     translate rejected_lease
      (abind (aread (\<lambda>w. case issue (week_authority env) (wk_hmac env) (at_issue clock) lease_id (ww_issuer w) p
            \<lparr>lr_capability = ACTION, lr_worker_id = CALENDAR_WORKER, lr_actor = PLANNING_ACTOR,
             lr_correlation_id = PLANNING_CORRELATION, lr_idempotency_key = fact_id a\<rparr> of
            Inl e \<Rightarrow> Inl (WeekLeaseFailure e) | Inr lease \<Rightarrow> Inr lease)) (\<lambda>lease.
       abind (on_leases (verify_lease (week_authority env) (wk_hmac env) (at_verify clock) lease p)) (\<lambda>_.
       abind (lifecycle_apply env (at_apply clock) p lease) (\<lambda>_. areturn lease))))"

definition execute_approved ::
  "'w week_env \<Rightarrow> week_clock \<Rightarrow> string \<Rightarrow> proposal_record \<Rightarrow> approval \<Rightarrow> transition_context \<Rightarrow> ('w, week_execution) week_action" where
  "execute_approved env clock lease_id p a ctx =
     abind (week_transaction (lease_body env clock lease_id p a)) (\<lambda>lease.
     abind (alift (case parse_events env (payload p) of None \<Rightarrow> Inl WeekValidationError | Some events \<Rightarrow> plan_model env p events)) (\<lambda>plan.
     abind (translate provider_reason (on_provider (calendar_apply (wk_calendar env) (wk_config env) plan))) (\<lambda>result.
     abind (week_transition env (proposal_id p) ''applied'' ctx) (\<lambda>_.
       areturn \<lparr>we_proposal_id = proposal_id p, we_state = APPLIED, we_lease_id = fact_id lease,
         we_applied_operations = length (filter (\<lambda>d. df_operation d \<noteq> OP_NOOP) (ar_operations result)),
         we_message = ''Week plan applied to the LifeOS Proposed calendar.''\<rparr>))))"

definition approve_and_apply ::
  "'w week_env \<Rightarrow> week_clock \<Rightarrow> string \<Rightarrow> string \<Rightarrow> approval \<Rightarrow> transition_context \<Rightarrow> string \<Rightarrow> ('w, week_execution) week_action" where
  "approve_and_apply env clock lease_id i a ctx expected =
     abind (week_transaction (approve_body env (at_approve clock) i a ctx expected)) (\<lambda>approved.
       execute_approved env clock lease_id approved a ctx)"

section \<open>Recovery\<close>

definition recoverable_proposal :: "'w week_env \<Rightarrow> string \<Rightarrow> week_db connection \<Rightarrow> week_error + proposal_record" where
  "recoverable_proposal env i c =
     (case week_read env PROPOSAL i c of
        Inl e \<Rightarrow> Inl (WeekRepositoryFailure e)
      | Inr None \<Rightarrow> Inl (WeekPolicyFailure (PolicyViolationError ''stored calendar proposal required''))
      | Inr (Some r) \<Rightarrow>
          (case record_body r of
             Proposal ptype p decision version reversible approval_state \<Rightarrow>
               if ptype \<noteq> ACTION then Inl (WeekPolicyFailure (PolicyViolationError ''stored calendar proposal required''))
               else if record_state r \<noteq> ''approved''
               then Inl (WeekPolicyFailure (PolicyViolationError (''cannot recover proposal in state '' @ record_state r)))
               else Inr \<lparr>proposal_id = record_id r, action_class = ACTION, payload = p, proposal_state_of = APPROVED, created_at = record_created_at r\<rparr>
           | _ \<Rightarrow> Inl (WeekPolicyFailure (PolicyViolationError ''stored calendar proposal required''))))"

definition recovered_events :: "'w week_env \<Rightarrow> proposal_record \<Rightarrow> week_error + event_draft list" where
  "recovered_events env p =
     (if \<not> is_json_list env (payload p)
      then Inl (WeekPolicyFailure (PolicyViolationError ''stored calendar proposal payload must be an event list''))
      else case parse_events env (payload p) of None \<Rightarrow> Inl WeekValidationError | Some events \<Rightarrow> Inr events)"

definition events_with :: "calendar_operation \<Rightarrow> calendar_diff list \<Rightarrow> string list" where
  "events_with op ds = sort (map df_event_id (filter (\<lambda>d. df_operation d = op) ds))"

text \<open>An event that is neither in place nor missing, or one of this proposal that the plan does not expect, leaves the outcome uncertain.\<close>

definition uncertain :: "string \<Rightarrow> calendar_reconciliation \<Rightarrow> bool" where
  "uncertain i rn \<longleftrightarrow> (\<exists>d \<in> set (rn_operations rn). df_operation d \<notin> {OP_NOOP, OP_MISSING})
     \<or> (\<exists>e \<in> set (sy_events (rn_sync_state rn)). (case rv_ownership e of None \<Rightarrow> False | Some own \<Rightarrow> ow_proposal_id own = i)
          \<and> rv_event_id e \<notin> df_event_id ` set (rn_operations rn))"

definition settle ::
  "'w week_env \<Rightarrow> instant \<Rightarrow> string \<Rightarrow> proposal_record \<Rightarrow> approval \<Rightarrow> calendar_reconciliation \<Rightarrow> ('w, recovery_outcome) week_action" where
  "settle env now i p a rn =
     (let succeeded = events_with OP_NOOP (rn_operations rn); missing = events_with OP_MISSING (rn_operations rn);
          conflict = uncertain i rn;
          result = \<lambda>st out. \<lparr>co_proposal_id = i, co_state = st, co_outcome = out, co_succeeded_events = succeeded, co_missing_events = missing\<rparr>
      in if \<not> conflict \<and> missing = [] then areturn (result APPLIED ''applied'')
         else if \<not> conflict \<and> succeeded = [] then abind (lifecycle_reset env now p a) (\<lambda>st. areturn (result st ''reset''))
         else areturn (result APPROVED (if conflict then ''conflict'' else ''partial'')))"

definition reconcile_body ::
  "'w week_env \<Rightarrow> instant \<Rightarrow> string \<Rightarrow> string \<Rightarrow> approval \<Rightarrow> ('w, recovery_outcome) week_action" where
  "reconcile_body env now execution_id i a =
     abind (aread (\<lambda>w. recoverable_proposal env i (ww_store w))) (\<lambda>p.
     abind (aread (\<lambda>w. case validate_approval (week_authority env) (ww_devices w) (utc_datetime now) p a default_approval_matrix of
         Inl e \<Rightarrow> Inl (WeekPolicyFailure e) | Inr u \<Rightarrow> Inr u)) (\<lambda>_.
     abind (alift (ebind (recovered_events env p) (plan_model env p))) (\<lambda>plan.
     abind (on_provider (calendar_reconcile (wk_calendar env) (wk_config env) plan None)) (\<lambda>rn.
     abind (settle env now i p a rn) (\<lambda>result.
     let ctx = \<lparr>ctx_actor = fact_actor a, ctx_correlation_id = fact_correlation_id a, ctx_occurred_at = utc_datetime now\<rparr> in
     abind (week_create env \<lparr>record_id = execution_id, record_created_at = utc_datetime now, record_state = ''recorded'',
         record_body = Execution i (dump_outcome env result)\<rparr> ctx) (\<lambda>_.
     abind (if co_state result \<noteq> APPROVED then week_transition env i (proposal_state_value (co_state result)) ctx else areturn ()) (\<lambda>_.
       areturn result)))))))"

definition reconcile_interrupted_apply ::
  "'w week_env \<Rightarrow> instant \<Rightarrow> string \<Rightarrow> string \<Rightarrow> approval \<Rightarrow> ('w, recovery_outcome) week_action" where
  "reconcile_interrupted_apply env now execution_id i a = week_transaction (reconcile_body env now execution_id i a)"

text \<open>The proof is consumed durably before anything is written to the calendar.\<close>

definition consume_recovery :: "approval \<Rightarrow> string \<Rightarrow> ('w, unit) week_action" where
  "consume_recovery a device w =
     (case week_consume [(''recover'', fact_id a), (''recover-idempotency'', device @ '':'' @ idempotency_key a)] (ww_store w) of
        (ok, c) \<Rightarrow> (if ok then Inr () else Inl (WeekPlanningPolicyError ''approval_rejected''), w\<lparr>ww_store := c\<rparr>))"

definition recover_interrupted_apply ::
  "'w week_env \<Rightarrow> week_clock \<Rightarrow> string \<Rightarrow> string \<Rightarrow> string \<Rightarrow> approval \<Rightarrow> transition_context \<Rightarrow> string \<Rightarrow> ('w, recovery_outcome) week_action" where
  "recover_interrupted_apply env clock execution_id lease_id i a ctx expected =
     abind (alift (check_device a expected)) (\<lambda>_.
     abind (proposal_read env i APPROVED) (\<lambda>p.
     abind (translate (rejected_policy ''approval_rejected'') (reconcile_interrupted_apply env (at_approve clock) execution_id i a)) (\<lambda>outcome.
     if co_outcome outcome \<noteq> ''partial'' then areturn outcome
     else
       abind (week_transaction (consume_recovery a expected)) (\<lambda>_.
       abind (execute_approved env clock lease_id p a ctx) (\<lambda>_.
         areturn (outcome\<lparr>co_state := APPLIED, co_outcome := ''applied'',
           co_succeeded_events := sort (co_succeeded_events outcome @ co_missing_events outcome), co_missing_events := []\<rparr>))))))"

end
