(* ===== verification/Week_Properties.thy ===== *)
theory Week_Properties
  imports Week_Service Action_Logic
begin

text \<open>
  What the week-planning service promises about the calendar: it is written only under an approval of the stored payload by the expected
  device, and every approval works at most once, whatever happens in between.
\<close>

section \<open>The table of consumed authorizations\<close>

abbreviation consumed_rows :: "week_db connection \<Rightarrow> consumption_key list" where
  "consumed_rows c \<equiv> authority_consumed (current c)"

definition week_table :: "week_db connection \<Rightarrow> bool" where
  "week_table c \<longleftrightarrow> distinct (consumed_rows c) \<and> distinct (authority_consumed (committed c)) \<and> (\<not> in_transaction c \<longrightarrow> committed c = current c)"

lemma week_consume_eq:
  assumes "week_table c"
  shows "week_consume keys c =
     (case insert_keys keys (consumed_rows c) of
        (Inl e, rows) \<Rightarrow> (False, c)
      | (Inr u, rows) \<Rightarrow> (True, if in_transaction c then c\<lparr>current := (current c)\<lparr>authority_consumed := rows\<rparr>\<rparr>
           else c\<lparr>current := (current c)\<lparr>authority_consumed := rows\<rparr>, committed := (current c)\<lparr>authority_consumed := rows\<rparr>\<rparr>))"
  using assms
  by (cases c) (auto simp: week_consume_def domain_transaction_def on_tables_def on_consumed_def week_table_def Let_def
      split: prod.splits sum.splits)

lemma week_consume_distinct:
  assumes "week_table c" and "distinct keys"
  shows "week_consume keys c =
     (if set (consumed_rows c) \<inter> set keys = {}
      then (True, if in_transaction c then c\<lparr>current := (current c)\<lparr>authority_consumed := consumed_rows c @ keys\<rparr>\<rparr>
           else c\<lparr>current := (current c)\<lparr>authority_consumed := consumed_rows c @ keys\<rparr>,
                  committed := (current c)\<lparr>authority_consumed := consumed_rows c @ keys\<rparr>\<rparr>)
      else (False, c))"
proof -
  have d: "distinct (consumed_rows c)" using assms(1) by (simp add: week_table_def)
  show ?thesis
  proof (cases "set (consumed_rows c) \<inter> set keys = {}")
    case True
    with insert_keys_result [OF d assms(2)] show ?thesis by (simp add: week_consume_eq [OF assms(1)])
  next
    case False
    with insert_keys_result [OF d assms(2)] obtain rows where "insert_keys keys (consumed_rows c) = (Inl IntegrityError, rows)" by auto
    with False show ?thesis by (simp add: week_consume_eq [OF assms(1)])
  qed
qed

lemma insert_keys_grow: "insert_keys keys rows = (r, rows') \<Longrightarrow> set rows \<subseteq> set rows'"
  by (induction keys arbitrary: rows) (auto simp: insert_key_def abind_def split: if_splits, fastforce+)

lemma week_consume_table: "week_table c \<Longrightarrow> week_table (snd (week_consume keys c)) \<and> set (consumed_rows c) \<subseteq> set (consumed_rows (snd (week_consume keys c)))
    \<and> in_transaction (snd (week_consume keys c)) = in_transaction c \<and> (in_transaction c \<longrightarrow> committed (snd (week_consume keys c)) = committed c)"
  using insert_keys_distinct [of "consumed_rows c" keys] insert_keys_grow [of keys "consumed_rows c"]
  by (auto simp: week_consume_eq week_table_def split: prod.splits sum.splits)

interpretation week: consumption_store week_table "\<lambda>c. set (consumed_rows c)" week_generation week_consume
proof unfold_locales
  fix c :: "week_db connection" and keys ok c' p
  show "week_table c \<Longrightarrow> week_consume keys c = (ok, c') \<Longrightarrow> week_table c'"
    using week_consume_table [of c keys] by simp
  show "week_table c \<Longrightarrow> distinct keys \<Longrightarrow> week_consume keys c = (ok, c') \<Longrightarrow> ok \<longleftrightarrow> set (consumed_rows c) \<inter> set keys = {}"
    by (auto simp: week_consume_distinct split: if_splits)
  show "week_table c \<Longrightarrow> distinct keys \<Longrightarrow> week_consume keys c = (ok, c') \<Longrightarrow>
      set (consumed_rows c') = (if ok then set (consumed_rows c) \<union> set keys else set (consumed_rows c))"
    by (auto simp: week_consume_distinct split: if_splits)
  show "week_table c \<Longrightarrow> week_generation c p = card {k \<in> set (consumed_rows c). fst k = reset_round p}"
    using distinct_card [of "filter (\<lambda>k. fst k = reset_round p) (consumed_rows c)"]
    by (simp add: week_generation_def week_table_def)
qed simp

section \<open>Invariants of the world\<close>

text \<open>Inside a transaction: the durable tables stay, and no consumed authorization is lost.\<close>

definition opened :: "week_db \<Rightarrow> consumption_key set \<Rightarrow> 'w week_world \<Rightarrow> bool" where
  "opened d K w \<longleftrightarrow> in_transaction (ww_store w) \<and> committed (ww_store w) = d \<and> week_table (ww_store w) \<and> K \<subseteq> set (consumed_rows (ww_store w))"

text \<open>Between operations: no transaction is open.\<close>

definition intact_store :: "consumption_key set \<Rightarrow> 'w week_world \<Rightarrow> bool" where
  "intact_store K w \<longleftrightarrow> \<not> in_transaction (ww_store w) \<and> week_table (ww_store w) \<and> K \<subseteq> set (consumed_rows (ww_store w))"

named_theorems week_keeps \<open>invariants of the world kept by the parts of an operation\<close>

lemma keepsD: "keeps I m \<Longrightarrow> I s \<Longrightarrow> m s = (r, t) \<Longrightarrow> I t"
  by (cases r) (auto dest: triple_value triple_error)

lemma keeps_translate [week_keeps]: "keeps I m \<Longrightarrow> keeps I (translate f m)"
  by (fastforce simp: triple_def translate_def split: prod.splits sum.splits)

lemma keeps_on_connection:
  "(\<And>w. I w \<Longrightarrow> I (w\<lparr>ww_store := snd (m (ww_store w))\<rparr>)) \<Longrightarrow> keeps I (on_connection f m)"
  by (fastforce simp: triple_def on_connection_def split: prod.splits sum.splits)

lemma keeps_on_provider: "(\<And>w t. I w \<Longrightarrow> I (w\<lparr>ww_calendar := t\<rparr>)) \<Longrightarrow> keeps I (on_provider m)"
  by (fastforce simp: triple_def on_provider_def split: prod.splits sum.splits)

lemma keeps_on_leases: "(\<And>w t. I w \<Longrightarrow> I (w\<lparr>ww_issuer := t\<rparr>)) \<Longrightarrow> keeps I (on_leases m)"
  by (fastforce simp: triple_def on_leases_def split: prod.splits sum.splits)

lemma store_frame [week_keeps]:
  "keeps (opened d K) (on_provider m)" "keeps (intact_store K) (on_provider m)" "keeps (opened d K) (on_leases n)" "keeps (intact_store K) (on_leases n)"
  by (rule keeps_on_provider keeps_on_leases; simp add: opened_def intact_store_def)+

text \<open>Statements on the records leave the table of authorizations alone.\<close>

lemma on_records_consumed [simp]: "authority_consumed (snd (on_records m db)) = authority_consumed db"
  by (cases db) (simp add: on_records_def domain_db.defs store_db.defs split: prod.split)

lemma records_transaction:
  fixes m :: "'a repo_action"
  defines "tx \<equiv> domain_transaction (on_tables (on_records m))"
  shows "keeps (opened d K) (on_connection f tx)" and "keeps (intact_store K) (on_connection f tx)"
proof -
  have c: "week_table c \<Longrightarrow> week_table (snd (tx c)) \<and> in_transaction (snd (tx c)) = in_transaction c
      \<and> (in_transaction c \<longrightarrow> committed (snd (tx c)) = committed c) \<and> consumed_rows (snd (tx c)) = consumed_rows c" for c :: "week_db connection"
  proof -
    assume table: "week_table c"
    obtain r db where m: "on_records m (current c) = (r, db)" by fastforce
    with on_records_consumed [of m "current c"] have "authority_consumed db = consumed_rows c" by simp
    with m table show ?thesis
      by (cases r) (auto simp: tx_def domain_transaction_def on_tables_def week_table_def Let_def)
  qed
  show "keeps (opened d K) (on_connection f tx)" by (rule keeps_on_connection) (use c in \<open>auto simp: opened_def\<close>)
  show "keeps (intact_store K) (on_connection f tx)" by (rule keeps_on_connection) (use c in \<open>auto simp: intact_store_def\<close>)
qed

lemma keeps_records [week_keeps]:
  "keeps (opened d K) (week_create env r ctx)" "keeps (intact_store K) (week_create env r ctx)"
  "keeps (opened d K) (week_transition env i st ctx)" "keeps (intact_store K) (week_transition env i st ctx)"
  unfolding week_create_def week_transition_def by (rule records_transaction)+

text \<open>The lifecycle: every call refuses or makes one claim.\<close>

lemma claim_state: "claim ops keys reason nxt s = (r, s') \<Longrightarrow> s' = snd (store_consume ops keys s)"
  by (auto simp: claim_def Let_def split: prod.splits if_splits)

lemma run_op_consumes: "run_op week_ops env x c = (r, c') \<Longrightarrow> c' = c \<or> (\<exists>keys. c' = snd (week_consume keys c))"
  using run_op_claims [of week_ops env x c r c'] claim_state [of week_ops _ _ _ c r c'] by (auto simp: week_ops_def)

lemma consumed_kept:
  assumes "c' = c \<or> (\<exists>keys. c' = snd (week_consume keys c))"
  shows "opened d K w \<Longrightarrow> ww_store w = c \<Longrightarrow> opened d K (w\<lparr>ww_store := c'\<rparr>)"
    and "intact_store K w \<Longrightarrow> ww_store w = c \<Longrightarrow> intact_store K (w\<lparr>ww_store := c'\<rparr>)"
  using assms week_consume_table [of c] by (auto simp: opened_def intact_store_def)

lemma lifecycle_store:
  "ww_store (snd (lifecycle_approve env now p a w)) = snd (run_op week_ops (week_authority env) (Approve_op (ww_devices w) (utc_datetime now) p a default_approval_matrix) (ww_store w))"
  "ww_store (snd (lifecycle_apply env now p lease w)) = snd (run_op week_ops (week_authority env) (Apply_op (utc_datetime now) p lease) (ww_store w))"
  "ww_store (snd (lifecycle_reset env now p a w)) = snd (run_op week_ops (week_authority env) (Reset_op (ww_devices w) (utc_datetime now) p a default_approval_matrix True) (ww_store w))"
  by (simp_all add: lifecycle_approve_def lifecycle_apply_def lifecycle_reset_def on_connection_def split: prod.split sum.split)

lemma run_op_kept:
  "opened d K w \<Longrightarrow> opened d K (w\<lparr>ww_store := snd (run_op week_ops env x (ww_store w))\<rparr>)"
  "intact_store K w \<Longrightarrow> intact_store K (w\<lparr>ww_store := snd (run_op week_ops env x (ww_store w))\<rparr>)"
  using consumed_kept [OF run_op_consumes [OF prod.collapse [symmetric]]] by blast+

text \<open>Everything but the store is as before.\<close>

lemma on_connection_snd: "snd (on_connection f m w) = w\<lparr>ww_store := snd (m (ww_store w))\<rparr>"
  by (simp add: on_connection_def split: prod.split sum.split)

lemma lifecycle_snd:
  "snd (lifecycle_approve env now p a w) = w\<lparr>ww_store := snd (run_op week_ops (week_authority env)
      (Approve_op (ww_devices w) (utc_datetime now) p a default_approval_matrix) (ww_store w))\<rparr>"
  "snd (lifecycle_apply env now p lease w) = w\<lparr>ww_store := snd (run_op week_ops (week_authority env) (Apply_op (utc_datetime now) p lease) (ww_store w))\<rparr>"
  "snd (lifecycle_reset env now p a w) = w\<lparr>ww_store := snd (run_op week_ops (week_authority env)
      (Reset_op (ww_devices w) (utc_datetime now) p a default_approval_matrix True) (ww_store w))\<rparr>"
  by (simp_all add: lifecycle_approve_def lifecycle_apply_def lifecycle_reset_def on_connection_snd)

lemma keeps_lifecycle [week_keeps]:
  "keeps (opened d K) (lifecycle_approve env now p a)" "keeps (opened d K) (lifecycle_apply env now p lease)"
  "keeps (opened d K) (lifecycle_reset env now p a)"
  by (rule keepsI, simp only: lifecycle_snd, erule run_op_kept)+

lemma keeps_consume_recovery [week_keeps]: "keeps (opened d K) (consume_recovery a i)"
proof (rule keepsI)
  fix w :: "'a week_world" assume "opened d K w"
  moreover have "snd (consume_recovery a i w) = w\<lparr>ww_store := snd (week_consume
      [(''recover'', fact_id a), (''recover-idempotency'', i @ '':'' @ idempotency_key a)] (ww_store w))\<rparr>"
    by (simp add: consume_recovery_def split: prod.split)
  ultimately show "opened d K (snd (consume_recovery a i w))" using consumed_kept(1) by metis
qed

section \<open>Transactions of the world\<close>

lemma week_transaction_settled:
  fixes m :: "('w, 'a) week_action"
  assumes "\<And>d K. keeps (opened d K) m"
  shows "keeps (intact_store K) (week_transaction m)"
proof (rule keepsI)
  fix w :: "'w week_world" assume w: "intact_store K w"
  let ?v = "w\<lparr>ww_store := (ww_store w)\<lparr>in_transaction := True\<rparr>\<rparr>"
  have o: "opened (committed (ww_store w)) K ?v" using w by (auto simp: opened_def intact_store_def week_table_def)
  obtain r w' where m: "m ?v = (r, w')" by fastforce
  from keeps_snd [OF assms o] m have "opened (committed (ww_store w)) K w'" by simp
  with w m show "intact_store K (snd (week_transaction m w))"
    by (cases r) (auto simp: week_transaction_def Let_def opened_def intact_store_def week_table_def)
qed

text \<open>A transaction that succeeds leaves what its body left, durably.\<close>

lemma week_transaction_Inr:
  assumes "week_transaction m w = (Inr x, w')" and "\<not> in_transaction (ww_store w)"
  obtains v where "m (w\<lparr>ww_store := (ww_store w)\<lparr>in_transaction := True\<rparr>\<rparr>) = (Inr x, v)" "current (ww_store w') = current (ww_store v)"
    "committed (ww_store w') = current (ww_store v)" "ww_calendar w' = ww_calendar v" "ww_devices w' = ww_devices v"
proof -
  obtain r v where m: "m (w\<lparr>ww_store := (ww_store w)\<lparr>in_transaction := True\<rparr>\<rparr>) = (r, v)" by fastforce
  with assms have "r = Inr x" "w' = v\<lparr>ww_store := (ww_store v)\<lparr>committed := current (ww_store v), in_transaction := False\<rparr>\<rparr>"
    by (auto simp: week_transaction_def Let_def split: sum.splits)
  with m show thesis by (intro that [of v]) simp_all
qed

lemma keeps_bodies:
  "keeps (opened d K) (approve_body env now i a ctx expected)" "keeps (opened d K) (lease_body env clock lease_id p a)"
  "keeps (opened d K) (settle env now i p a rn)"
  unfolding approve_body_def lease_body_def settle_def proposal_read_def Let_def
  by (intro keeps_rules week_keeps)+

lemma keeps_reconcile_body: "keeps (opened d K) (reconcile_body env now execution_id i a)"
  unfolding reconcile_body_def Let_def by (intro keeps_rules week_keeps keeps_bodies)

lemma keeps_execute: "keeps (intact_store K) (execute_approved env clock lease_id p a ctx)"
  unfolding execute_approved_def by (intro keeps_rules week_keeps week_transaction_settled keeps_bodies)

lemma keeps_operations:
  "keeps (intact_store K) (approve_and_apply env clock lease_id i a ctx expected)"
  "keeps (intact_store K) (recover_interrupted_apply env clock execution_id lease_id i a ctx expected)"
  "keeps (intact_store K) (preview env new_id retention subject now zone_name)"
proof -
  show "keeps (intact_store K) (approve_and_apply env clock lease_id i a ctx expected)"
    unfolding approve_and_apply_def by (intro keeps_rules week_transaction_settled keeps_bodies keeps_execute)
  show "keeps (intact_store K) (recover_interrupted_apply env clock execution_id lease_id i a ctx expected)"
    unfolding recover_interrupted_apply_def proposal_read_def reconcile_interrupted_apply_def
    by (intro keeps_rules week_keeps week_transaction_settled keeps_reconcile_body keeps_execute)
  show "keeps (intact_store K) (preview env new_id retention subject now zone_name)"
    unfolding preview_def Let_def by (intro keeps_rules week_keeps triple_prod3)
qed

section \<open>When the calendar is written\<close>

definition quiet :: "'w \<Rightarrow> registry \<Rightarrow> 'w week_world \<Rightarrow> bool" where
  "quiet x d w \<longleftrightarrow> ww_calendar w = x \<and> ww_devices w = d"

lemma quiet_parts [week_keeps]:
  "keeps (quiet x d) (on_connection f m)" "keeps (quiet x d) (on_leases n)" "keeps (quiet x d) (week_create env r ctx)"
  "keeps (quiet x d) (week_transition env i st ctx)" "keeps (quiet x d) (lifecycle_approve env now p a)"
  "keeps (quiet x d) (lifecycle_apply env now p lease)"
  unfolding week_create_def week_transition_def lifecycle_apply_def
  by (rule keeps_on_connection keeps_on_leases keepsI; simp add: quiet_def lifecycle_snd)+

lemma quiet_transaction [week_keeps]: "keeps (quiet x d) m \<Longrightarrow> keeps (quiet x d) (week_transaction m)"
proof (rule keepsI)
  fix w :: "'a week_world" assume m: "keeps (quiet x d) m" and "quiet x d w"
  then have "quiet x d (w\<lparr>ww_store := (ww_store w)\<lparr>in_transaction := True\<rparr>\<rparr>)" by (simp add: quiet_def)
  from keeps_snd [OF m this] show "quiet x d (snd (week_transaction m w))"
    by (auto simp: week_transaction_def Let_def quiet_def split: prod.splits sum.splits)
qed

lemma quiet_bodies [week_keeps]:
  "keeps (quiet x d) (approve_body env now i a ctx expected)" "keeps (quiet x d) (lease_body env clock lease_id p a)"
  unfolding approve_body_def lease_body_def proposal_read_def by (intro keeps_rules week_keeps)+

lemma approve_Inr:
  assumes "approve week_ops auth reg now p a matrix c = (Inr st, c')" and "week_table c"
  shows "st = APPROVED \<and> validate_approval auth reg now p a matrix = Inr () \<and> approval_class_of a = Approval
     \<and> (''approve'', fact_id a) \<notin> set (consumed_rows c) \<and> (''approve'', fact_id a) \<in> set (consumed_rows c')"
proof -
  from assms(1) have v: "validate_approval auth reg now p a matrix = Inr ()" "approval_class_of a \<noteq> ResetRequest"
    and c: "claim week_ops (approve_keys week_ops c p a) ''approval replay'' APPROVED c = (Inr st, c')"
    by (auto simp: approve_def)
  from claim_Inr [OF c] have st: "st = APPROVED" and eat: "week_consume (approve_keys week_ops c p a) c = (True, c')" by (auto simp: week_ops_def)
  have d: "distinct (approve_keys week_ops c p a)" using op_keys_distinct [of week_ops c "Approve_op reg now p a matrix"] by (simp add: op_keys_def)
  have "(''approve'', fact_id a) \<in> set (approve_keys week_ops c p a)" by (simp add: approve_keys_def)
  with week.consume_ok [OF assms(2) d eat] week.consume_state [OF assms(2) d eat] v st show ?thesis
    by (cases "approval_class_of a") auto
qed

lemma approve_body_Inr:
  assumes "approve_body env now i a ctx expected w = (Inr p', w')" and "opened d K w"
  obtains p where "stored_proposal env i PROPOSED (ww_store w) = Inr p" "p' = p\<lparr>proposal_state_of := APPROVED\<rparr>"
    "approval_device_id a = Some expected"
    "validate_approval (week_authority env) (ww_devices w) (utc_datetime now) p a default_approval_matrix = Inr ()"
    "(''approve'', fact_id a) \<notin> set (consumed_rows (ww_store w))" "opened d (insert (''approve'', fact_id a) K) w'"
proof -
  from assms(1) obtain p st v where p: "stored_proposal env i PROPOSED (ww_store w) = Inr p" and dev: "approval_device_id a = Some expected"
    and ap: "lifecycle_approve env now p a w = (Inr st, v)" and tr: "week_transition env i (proposal_state_value st) ctx v = (Inr (), w')"
    and p': "p' = p\<lparr>proposal_state_of := st\<rparr>"
    by (auto simp: approve_body_def proposal_read_def check_device_def translate_def split: prod.splits sum.splits)
  from ap obtain c where c: "approve week_ops (week_authority env) (ww_devices w) (utc_datetime now) p a default_approval_matrix (ww_store w) = (Inr st, c)"
    and v: "v = w\<lparr>ww_store := c\<rparr>"
    by (auto simp: lifecycle_approve_def on_connection_def split: prod.splits sum.splits)
  note facts = approve_Inr [OF c conjunct1 [OF conjunct2 [OF conjunct2 [OF assms(2) [unfolded opened_def]]]]]
  have "opened d K v" using keeps_snd [OF keeps_lifecycle(1) assms(2), of env now p a] ap by simp
  with facts v have o: "opened d (insert (''approve'', fact_id a) K) v" by (simp add: opened_def)
  have k: "keeps (opened d (insert (''approve'', fact_id a) K)) (week_transition env i (proposal_state_value st) ctx)" by (rule keeps_records)
  have "opened d (insert (''approve'', fact_id a) K) w'" by (rule keepsD [OF k o tr])
  with p dev p' facts show thesis by (intro that [of p]) simp_all
qed

lemma execute_calendar:
  assumes "execute_approved env clock lease_id p a ctx w = (r, w')" and "ww_calendar w' \<noteq> ww_calendar w \<or> (\<exists>x. r = Inr x)"
  shows "\<exists>events. parse_events env (payload p) = Some events \<and> valid_plan (week_authority env) \<lparr>pl_authorization = p, pl_events = events\<rparr>
     \<and> ww_calendar w' = snd (calendar_apply (wk_calendar env) (wk_config env) \<lparr>pl_authorization = p, pl_events = events\<rparr> (ww_calendar w))"
proof -
  obtain r0 w0 where l: "week_transaction (lease_body env clock lease_id p a) w = (r0, w0)" by fastforce
  have "quiet (ww_calendar w) (ww_devices w) w" by (simp add: quiet_def)
  moreover have "keeps (quiet (ww_calendar w) (ww_devices w)) (week_transaction (lease_body env clock lease_id p a))" by (intro week_keeps)
  ultimately have "quiet (ww_calendar w) (ww_devices w) (snd (week_transaction (lease_body env clock lease_id p a) w))" by (rule keeps_snd [rotated])
  with l have q0: "ww_calendar w0 = ww_calendar w" by (simp add: quiet_def)
  show ?thesis
  proof (cases "\<exists>lease events. r0 = Inr lease \<and> parse_events env (payload p) = Some events \<and> valid_plan (week_authority env) \<lparr>pl_authorization = p, pl_events = events\<rparr>")
    case False
    then have "w' = w0 \<and> (\<exists>e. r = Inl e)" using assms(1) l
      by (cases r0) (auto simp: execute_approved_def abind_def plan_model_def Let_def split: option.splits if_splits)
    with q0 assms(2) show ?thesis by auto
  next
    case True
    then obtain lease events where e: "r0 = Inr lease" "parse_events env (payload p) = Some events"
      "valid_plan (week_authority env) \<lparr>pl_authorization = p, pl_events = events\<rparr>" by blast
    let ?plan = "\<lparr>pl_authorization = p, pl_events = events\<rparr>"
    obtain r1 t where ap: "calendar_apply (wk_calendar env) (wk_config env) ?plan (ww_calendar w0) = (r1, t)" by fastforce
    have "ww_calendar w' = t"
    proof (cases r1)
      case (Inl err)
      with assms(1) l e ap show ?thesis by (auto simp: execute_approved_def plan_model_def translate_def on_provider_def abind_def)
    next
      case (Inr result)
      have "quiet t (ww_devices w0) (w0\<lparr>ww_calendar := t\<rparr>)" by (simp add: quiet_def)
      moreover have "keeps (quiet t (ww_devices w0)) (week_transition env (proposal_id p) ''applied'' ctx)" by (intro week_keeps)
      ultimately have "quiet t (ww_devices w0) (snd (week_transition env (proposal_id p) ''applied'' ctx (w0\<lparr>ww_calendar := t\<rparr>)))" by (rule keeps_snd [rotated])
      then have "ww_calendar (snd (week_transition env (proposal_id p) ''applied'' ctx (w0\<lparr>ww_calendar := t\<rparr>))) = t" by (simp add: quiet_def)
      with Inr assms(1) l e ap show ?thesis
        by (auto simp: execute_approved_def plan_model_def translate_def on_provider_def abind_def split: prod.splits sum.splits)
    qed
    with ap q0 e show ?thesis by auto
  qed
qed

section \<open>The life of the service\<close>

text \<open>
  Previews, approvals and recoveries in any order, and any other work of the service that leaves no transaction open and loses no
  consumed authorization; it may change everything else, the calendar and the devices included.
\<close>

inductive week_step :: "'w week_env \<Rightarrow> 'w week_world \<Rightarrow> 'w week_world \<Rightarrow> bool" for env where
  step_preview: "preview env new_id retention subject now zone_name w = (r, w') \<Longrightarrow> week_step env w w'"
| step_approve: "approve_and_apply env clock lease_id i a ctx expected w = (r', w') \<Longrightarrow> week_step env w w'"
| step_recover: "recover_interrupted_apply env clock execution_id lease_id i a ctx expected w = (r'', w') \<Longrightarrow> week_step env w w'"
| step_elsewhere: "intact_store (set (consumed_rows (ww_store w))) w' \<Longrightarrow> week_step env w w'"

lemma week_step_settled:
  assumes "week_step env w w'" and "intact_store K w"
  shows "intact_store K w'"
  using assms(1)
proof cases
  case (step_preview new_id retention subject now zone_name r)
  show ?thesis by (rule keepsD [OF keeps_operations(3) assms(2) step_preview])
next
  case (step_approve clock lease_id i a ctx expected r)
  show ?thesis by (rule keepsD [OF keeps_operations(1) assms(2) step_approve])
next
  case (step_recover clock execution_id lease_id i a ctx expected r)
  show ?thesis by (rule keepsD [OF keeps_operations(2) assms(2) step_recover])
next
  case step_elsewhere
  with assms(2) show ?thesis by (auto simp: intact_store_def)
qed

lemma week_steps_settled: "(week_step env)\<^sup>*\<^sup>* w w' \<Longrightarrow> intact_store K w \<Longrightarrow> intact_store K w'"
  by (induction rule: rtranclp_induct) (auto intro: week_step_settled)

lemma opened_start: "intact_store K w \<Longrightarrow> opened (committed (ww_store w)) K (w\<lparr>ww_store := (ww_store w)\<lparr>in_transaction := True\<rparr>\<rparr>)"
  by (auto simp: opened_def intact_store_def week_table_def)

lemma stored_proposal_open [simp]:
  "stored_proposal env i st (c\<lparr>in_transaction := b\<rparr>) = stored_proposal env i st c"
  by (simp add: stored_proposal_def week_read_def)

lemma approve_quiet:
  assumes "week_transaction (approve_body env now i a ctx expected) w = (r, w')"
  shows "ww_calendar w' = ww_calendar w"
proof -
  have q: "keeps (quiet (ww_calendar w) (ww_devices w)) (week_transaction (approve_body env now i a ctx expected))" by (intro week_keeps)
  have "quiet (ww_calendar w) (ww_devices w) w" by (simp add: quiet_def)
  from keepsD [OF q this assms] show ?thesis by (simp add: quiet_def)
qed

text \<open>The first half of an approval that goes through.\<close>

lemma approval_passed:
  assumes w: "intact_store K w" and run: "week_transaction (approve_body env now i a ctx expected) w = (Inr p', w0)"
  obtains p where "stored_proposal env i PROPOSED (ww_store w) = Inr p" "p' = p\<lparr>proposal_state_of := APPROVED\<rparr>"
    "approval_device_id a = Some expected"
    "validate_approval (week_authority env) (ww_devices w) (utc_datetime now) p a default_approval_matrix = Inr ()"
    "(''approve'', fact_id a) \<notin> set (consumed_rows (ww_store w))" "intact_store (insert (''approve'', fact_id a) K) w0" "ww_calendar w0 = ww_calendar w"
proof -
  from w have out: "\<not> in_transaction (ww_store w)" by (simp add: intact_store_def)
  obtain v where v: "approve_body env now i a ctx expected (w\<lparr>ww_store := (ww_store w)\<lparr>in_transaction := True\<rparr>\<rparr>) = (Inr p', v)"
    "current (ww_store w0) = current (ww_store v)" "committed (ww_store w0) = current (ww_store v)"
    by (rule week_transaction_Inr [OF run out])
  obtain p where p: "stored_proposal env i PROPOSED (ww_store w) = Inr p" "p' = p\<lparr>proposal_state_of := APPROVED\<rparr>"
    "approval_device_id a = Some expected"
    "validate_approval (week_authority env) (ww_devices w) (utc_datetime now) p a default_approval_matrix = Inr ()"
    "(''approve'', fact_id a) \<notin> set (consumed_rows (ww_store w))" "opened (committed (ww_store w)) (insert (''approve'', fact_id a) K) v"
    by (rule approve_body_Inr [OF v(1) opened_start [OF w]]) simp
  have "intact_store K w0" by (rule keepsD [OF week_transaction_settled [OF keeps_bodies(1)] w run])
  with p(6) v(2) have s: "intact_store (insert (''approve'', fact_id a) K) w0" by (auto simp: intact_store_def opened_def)
  from approve_quiet [OF run] p s show thesis using that by blast
qed

lemma approval_spent:
  assumes w: "intact_store {(''approve'', fact_id a)} w" and run: "approve_and_apply env clock lease_id i a ctx expected w = (r, w')"
  shows "(\<exists>e. r = Inl e) \<and> ww_calendar w' = ww_calendar w"
proof -
  obtain r0 w0 where r0: "week_transaction (approve_body env (at_approve clock) i a ctx expected) w = (r0, w0)" by fastforce
  show ?thesis
  proof (cases r0)
    case (Inl e)
    with approve_quiet [OF r0] r0 run show ?thesis by (auto simp: approve_and_apply_def abind_def)
  next
    case (Inr p')
    from approval_passed [OF w r0 [unfolded Inr]] have "(''approve'', fact_id a) \<notin> set (consumed_rows (ww_store w))" by blast
    with w show ?thesis by (simp add: intact_store_def)
  qed
qed

lemma approval_signed:
  assumes "validate_approval env reg now p a default_approval_matrix = Inr ()" and "action_class p = ACTION" and "approval_device_id a = Some i"
  shows "\<exists>d key. device_of (devices_env env) reg i = Inr (Some d) \<and> dv_state d = ENROLLED \<and> dv_approval_public_key d = Some key
     \<and> ed25519_verify env key (approval_signature a) (signing_bytes env a ACTION)"
proof -
  have tier: "required_tier default_approval_matrix ACTION \<in> {Inr ACT, Inr EXTERNAL}"
    by (simp add: required_tier_def rule_for_def default_approval_matrix_def ACTION_def)
  with validate_approval_Inr(1) [OF assms(1)] assms(2) consequential_proof [OF tier] have "proof_of a = DEVICE_SIGNED" by simp
  from verify_device_signature_Inr [OF validate_approval_Inr(6) [OF assms(1) this]] assms(2,3) show ?thesis by auto
qed

lemma stored_proposal_action: "stored_proposal env i st c = Inr p \<Longrightarrow> action_class p = ACTION"
  by (auto simp: stored_proposal_def split: sum.splits option.splits record_body.splits if_splits)

text \<open>
  C34: the calendar is written only for the stored, still proposed payload, under an approval of that payload which an active device, the
  expected one, has signed; what is written is the plan of exactly that payload.  The approval is then used up: after any later operations
  of the service an attempt with the same approval fails and leaves the calendar alone.
\<close>
theorem calendar_written_under_approval:
  assumes w: "intact_store {} w" and run: "approve_and_apply env clock lease_id i a ctx expected w = (r, w1)"
    and touched: "ww_calendar w1 \<noteq> ww_calendar w \<or> (\<exists>x. r = Inr x)"
  shows "(\<exists>p events d key.
      stored_proposal env i PROPOSED (ww_store w) = Inr p
      \<and> fact_proposal_id a = proposal_id p \<and> fact_payload_hash a = payload_hash (week_authority env) p
      \<and> device_of (devices_env (week_authority env)) (ww_devices w) expected = Inr (Some d) \<and> dv_state d = ENROLLED
      \<and> dv_approval_public_key d = Some key \<and> ed25519_verify (week_authority env) key (approval_signature a) (signing_bytes (week_authority env) a ACTION)
      \<and> calendar_payload (week_authority env) events = payload p
      \<and> ww_calendar w1 = snd (calendar_apply (wk_calendar env) (wk_config env)
            \<lparr>pl_authorization = p\<lparr>proposal_state_of := APPROVED\<rparr>, pl_events = events\<rparr> (ww_calendar w)))
    \<and> (\<forall>w2 clock' lease' j b ctx' expected' r' w3. (week_step env)\<^sup>*\<^sup>* w1 w2 \<longrightarrow> fact_id b = fact_id a
      \<longrightarrow> approve_and_apply env clock' lease' j b ctx' expected' w2 = (r', w3) \<longrightarrow> (\<exists>e. r' = Inl e) \<and> ww_calendar w3 = ww_calendar w2)"
proof -
  obtain r0 w0 where r0: "week_transaction (approve_body env (at_approve clock) i a ctx expected) w = (r0, w0)" by fastforce
  have "\<exists>p'. r0 = Inr p'"
  proof (cases r0)
    case (Inl e)
    with approve_quiet [OF r0] r0 run touched show ?thesis by (auto simp: approve_and_apply_def abind_def)
  qed simp
  then obtain p' where p': "r0 = Inr p'" ..
  obtain p where p: "stored_proposal env i PROPOSED (ww_store w) = Inr p" "p' = p\<lparr>proposal_state_of := APPROVED\<rparr>" "approval_device_id a = Some expected"
    "validate_approval (week_authority env) (ww_devices w) (utc_datetime (at_approve clock)) p a default_approval_matrix = Inr ()"
    "intact_store {(''approve'', fact_id a)} w0" "ww_calendar w0 = ww_calendar w"
    by (rule approval_passed [OF w r0 [unfolded p']])
  have ex: "execute_approved env clock lease_id p' a ctx w0 = (r, w1)" using run r0 p' by (simp add: approve_and_apply_def)
  from execute_calendar [OF ex] touched p(6) obtain events where events: "valid_plan (week_authority env) \<lparr>pl_authorization = p', pl_events = events\<rparr>"
    "ww_calendar w1 = snd (calendar_apply (wk_calendar env) (wk_config env) \<lparr>pl_authorization = p', pl_events = events\<rparr> (ww_calendar w0))" by auto
  note signed = approval_signed [OF p(4) stored_proposal_action [OF p(1)] p(3)]
  have written: "\<exists>p events d key.
      stored_proposal env i PROPOSED (ww_store w) = Inr p
      \<and> fact_proposal_id a = proposal_id p \<and> fact_payload_hash a = payload_hash (week_authority env) p
      \<and> device_of (devices_env (week_authority env)) (ww_devices w) expected = Inr (Some d) \<and> dv_state d = ENROLLED
      \<and> dv_approval_public_key d = Some key \<and> ed25519_verify (week_authority env) key (approval_signature a) (signing_bytes (week_authority env) a ACTION)
      \<and> calendar_payload (week_authority env) events = payload p
      \<and> ww_calendar w1 = snd (calendar_apply (wk_calendar env) (wk_config env)
            \<lparr>pl_authorization = p\<lparr>proposal_state_of := APPROVED\<rparr>, pl_events = events\<rparr> (ww_calendar w))"
    using signed events p validate_approval_Inr(2,3) [OF p(4)] by (auto simp: valid_plan_def)
  have s1: "intact_store {(''approve'', fact_id a)} w1" by (rule keepsD [OF keeps_execute p(5) ex])
  have "\<forall>w2 clock' lease' j b ctx' expected' r' w3. (week_step env)\<^sup>*\<^sup>* w1 w2 \<longrightarrow> fact_id b = fact_id a
      \<longrightarrow> approve_and_apply env clock' lease' j b ctx' expected' w2 = (r', w3) \<longrightarrow> (\<exists>e. r' = Inl e) \<and> ww_calendar w3 = ww_calendar w2"
    using week_steps_settled [OF _ s1] approval_spent by metis
  with written show ?thesis by blast
qed

section \<open>An example\<close>

definition ex_week_authority :: authority_env where
  "ex_week_authority = \<lparr>sha256_hex = (\<lambda>s. s), ed25519_verify = (\<lambda>key sig text. sig = ''s''), time_text = isoformat,
     devices_env = \<lparr>dump_device = (\<lambda>_. []), parse_device = (\<lambda>_. None), public_key_ok = (\<lambda>_. True)\<rparr>\<rparr>"

definition ex_counting_transport :: "nat calendar_transport" where
  "ex_counting_transport =
     \<lparr>find_calendar = (\<lambda>token name w. (Inr (Some \<lparr>rc_calendar_id = ''c'', rc_summary = LIFEOS_PROPOSED_CALENDAR, rc_app_owned = True, rc_primary = False\<rparr>), w)),
      create_calendar = (\<lambda>token name w. (Inl CalendarKeyError, w)),
      sync_events = (\<lambda>token i sync w. (Inr \<lparr>sp_events = [], sp_next_sync_token = ''t'', sp_full_sync = True\<rparr>, Suc w)),
      write_event = (\<lambda>token e w. (Inl CalendarKeyError, w)), delete_event = (\<lambda>token e w. (Inl CalendarKeyError, w))\<rparr>"

definition ex_week_env :: "nat week_env" where
  "ex_week_env = \<lparr>wk_store = \<lparr>dump_record = (\<lambda>r. record_state r), parse_record = (\<lambda>s. Some (week_proposal_record ''p1'' (utc_datetime 1) ''[]'')),
       repo_hmac = (\<lambda>key text. ''h''), audit_key = ''key'', dump_memory = mr_content, zone_known = (\<lambda>_. True)\<rparr>,
     wk_calendar = \<lparr>ce_transport = ex_counting_transport, ce_access_token = (\<lambda>g w. (Inr ''token'', w)), ce_authority = ex_week_authority, ce_sha256 = (\<lambda>s. s)\<rparr>,
     wk_config = \<lparr>cc_owner_id = ''lifeos'', cc_oauth_grant = \<lparr>og_secret_reference = ''r'', og_scopes = [GOOGLE_CALENDAR_APP_SCOPE]\<rparr>, cc_max_attempts = 3\<rparr>,
     wk_zones = (\<lambda>_. None), wk_planner = \<lparr>model_dump_json = (\<lambda>_ _. []), sha256_hexdigest = (\<lambda>s. s)\<rparr>, wk_round_trip = (\<lambda>r. r),
     wk_hmac = (\<lambda>key text. ''h''), is_json_list = (\<lambda>_. True), parse_events = (\<lambda>_. Some []), dump_outcome = (\<lambda>_. ''o'')\<rparr>"

definition ex_week_ctx :: transition_context where
  "ex_week_ctx = \<lparr>ctx_actor = ''owner'', ctx_correlation_id = ''c'', ctx_occurred_at = utc_datetime 1\<rparr>"

definition empty_week_db :: week_db where
  "empty_week_db = domain_db.extend new_domain_db
     \<lparr>st_memories = [], st_memory_tombstones = [], st_backups = [], st_backup_records = [], st_backup_coverage = [], authority_consumed = []\<rparr>"

definition ex_week_device :: device where
  "ex_week_device = \<lparr>dv_device_id = ''d1'', dv_public_key_fingerprint = ''f'', dv_enrolled_at = utc_datetime 0, dv_enrolled_by = ''owner'',
     dv_state = ENROLLED, dv_revoked_at = None, dv_revoked_by = None, dv_approval_public_key = Some ''k''\<rparr>"

definition ex_week_world :: "nat week_world" where
  "ex_week_world = snd (week_create ex_week_env (week_proposal_record ''p1'' (utc_datetime 1) ''[]'') ex_week_ctx
     \<lparr>ww_store = idle empty_week_db, ww_issuer = new_lease_issuer (new_key_ring ''k'') 600000000,
      ww_devices = \<lparr>reg_devices = [''d1'' \<mapsto> ex_week_device], reg_by_fingerprint = Map.empty, reg_persistence = None\<rparr>, ww_calendar = 0\<rparr>)"

definition ex_week_approval :: approval where
  "ex_week_approval = \<lparr>fact_id = ''a1'', fact_proposal_id = ''p1'', fact_payload_hash = ''[]'', issued_at = utc_datetime 1, expires_at = utc_datetime 100,
     idempotency_key = ''i'', fact_actor = ''owner'', fact_correlation_id = ''c'', proof_of = DEVICE_SIGNED, approval_device_id = Some ''d1'',
     approval_signature = ''s'', approval_class_of = Approval\<rparr>"

definition ex_week_clock :: week_clock where
  "ex_week_clock = \<lparr>at_approve = 2, at_issue = 3, at_verify = 4, at_apply = 5\<rparr>"

definition ex_week_run where
  "ex_week_run = approve_and_apply ex_week_env ex_week_clock ''l1'' ''p1'' ex_week_approval ex_week_ctx ''d1'' ex_week_world"

lemma ex_week_applied: "case fst ex_week_run of Inl _ \<Rightarrow> False | Inr x \<Rightarrow> we_state x = APPLIED"
  by code_simp

lemma ex_week_settled: "intact_store {} ex_week_world"
proof -
  let ?w = "\<lparr>ww_store = idle empty_week_db, ww_issuer = new_lease_issuer (new_key_ring ''k'') 600000000,
      ww_devices = \<lparr>reg_devices = [''d1'' \<mapsto> ex_week_device], reg_by_fingerprint = Map.empty, reg_persistence = None\<rparr>, ww_calendar = 0 :: nat\<rparr>"
  have k: "keeps (intact_store {}) (week_create ex_week_env (week_proposal_record ''p1'' (utc_datetime 1) ''[]'') ex_week_ctx)" by (rule keeps_records)
  have "intact_store {} ?w" by (simp add: intact_store_def week_table_def idle_def empty_week_db_def domain_db.defs)
  from keepsD [OF k this prod.collapse [symmetric]] show ?thesis by (simp add: ex_week_world_def)
qed

theorem calendar_written_under_approval_witness:
  "intact_store {} ex_week_world \<and> (\<exists>x. fst ex_week_run = Inr x)
   \<and> (\<exists>e. fst (approve_and_apply ex_week_env ex_week_clock ''l2'' ''p1'' ex_week_approval ex_week_ctx ''d1'' (snd ex_week_run)) = Inl e)"
proof -
  obtain x where x: "fst ex_week_run = Inr x" using ex_week_applied by (auto split: sum.splits)
  then have run: "approve_and_apply ex_week_env ex_week_clock ''l1'' ''p1'' ex_week_approval ex_week_ctx ''d1'' ex_week_world = (Inr x, snd ex_week_run)"
    unfolding ex_week_run_def by (metis prod.collapse)
  have touched: "ww_calendar (snd ex_week_run) \<noteq> ww_calendar ex_week_world \<or> (\<exists>y. Inr x = (Inr y :: week_error + week_execution))" by blast
  note later = calendar_written_under_approval [OF ex_week_settled run touched, THEN conjunct2, rule_format, OF rtranclp.rtrancl_refl refl prod.collapse [symmetric]]
  from later [of ex_week_clock "''l2''" "''p1''" ex_week_ctx "''d1''"] x ex_week_settled show ?thesis by blast
qed

end
