(* ===== verification/Energy.thy ===== *)
theory Energy
  imports Week_Mapping
begin

text \<open>
  \<open>energy/models.py\<close>, \<open>energy/checkins.py\<close> and \<open>energy/planner_feedback.py\<close>: consent and timing of energy check-ins, and the effect of a
  learned pattern on a proposed day.  Times of day are compared as microseconds; an aware time of day, or a mix of naive and aware
  timestamps, makes the comparison raise.  A confidence is the rational value of its \<open>float\<close>.
\<close>

section \<open>Models\<close>

record daily_window =
  dw_starts_at :: time_of_day
  dw_ends_at :: time_of_day

definition valid_window :: "daily_window \<Rightarrow> bool" where
  "valid_window w \<longleftrightarrow> dw_starts_at w \<noteq> dw_ends_at w"

record energy_preferences =
  ep_timezone :: string
  ep_awake_window :: daily_window
  ep_quiet_window :: "daily_window option"
  ep_notifications_enabled :: bool
  ep_response_window_minutes :: int
  ep_snooze_minutes :: int

definition valid_preferences :: "energy_preferences \<Rightarrow> bool" where
  "valid_preferences p \<longleftrightarrow> ep_timezone p \<noteq> [] \<and> valid_window (ep_awake_window p) \<and> pred_option valid_window (ep_quiet_window p)
     \<and> 1 \<le> ep_response_window_minutes p \<and> ep_response_window_minutes p \<le> 180 \<and> 1 \<le> ep_snooze_minutes p \<and> ep_snooze_minutes p \<le> 180"

record energy_consent =
  ec_granted :: bool
  ec_decided_at :: datetime
  ec_provenance_id :: string

definition valid_consent :: "energy_consent \<Rightarrow> bool" where
  "valid_consent c \<longleftrightarrow> ec_provenance_id c \<noteq> [] \<and> \<not> is_naive (ec_decided_at c)"

record check_in_request =
  cr_check_in_id :: string
  cr_evaluated_at :: datetime

record snooze_request =
  sz_preferences :: energy_preferences
  sz_consent :: energy_consent
  sz_acted_at :: datetime

record energy_response =
  er_rating :: int
  er_responded_at :: datetime

datatype suppression_reason = CONSENT_REQUIRED | NOTIFICATIONS_DISABLED | OUTSIDE_AWAKE_WINDOW | QUIET_HOURS

text \<open>\<open>ScheduledCheckIn\<close> and \<open>SnoozedCheckIn\<close> have the same fields; the class is a tag.\<close>

datatype check_in_status = CI_SCHEDULED | CI_SNOOZED

record active_check_in =
  ac_check_in_id :: string
  ac_status :: check_in_status
  ac_scheduled_at :: datetime
  ac_respond_by :: datetime
  ac_snooze_count :: int

record energy_observation =
  eo_check_in_id :: string
  eo_rating :: int
  eo_observed_at :: datetime
  eo_provenance_id :: string

datatype check_in =
    Active active_check_in
  | Missed string datetime int
  | Suppressed string suppression_reason
  | Completed string energy_observation int

datatype energy_error = EnergyTypeError | EnergyZoneNotFound string

section \<open>Timing policy\<close>

definition window_aware :: "daily_window \<Rightarrow> bool" where
  "window_aware w \<longleftrightarrow> td_aware (dw_starts_at w) \<or> td_aware (dw_ends_at w)"

definition window_contains :: "daily_window \<Rightarrow> int \<Rightarrow> bool" where
  "window_contains w v =
     (let s = time_us (dw_starts_at w); e = time_us (dw_ends_at w) in
      if s < e then s \<le> v \<and> v < e else v \<ge> s \<or> v < e)"

definition contains :: "daily_window \<Rightarrow> int \<Rightarrow> energy_error + bool" where
  "contains w v = (if window_aware w then Inl EnergyTypeError else Inr (window_contains w v))"

definition local_time :: "local_zone \<Rightarrow> datetime \<Rightarrow> int" where
  "local_time z d = wall (as_zone z d) mod day_us"

definition later_than :: "datetime \<Rightarrow> datetime \<Rightarrow> energy_error + bool" where
  "later_than a b = (if is_naive a = is_naive b then Inr (dt_lt b a) else Inl EnergyTypeError)"

definition suppression ::
  "zone_database \<Rightarrow> energy_preferences \<Rightarrow> energy_consent \<Rightarrow> datetime \<Rightarrow> energy_error + suppression_reason option" where
  "suppression zones p c t =
     ebind (if \<not> ec_granted c then Inr True else later_than (ec_decided_at c) t) (\<lambda>refused.
     if refused then Inr (Some CONSENT_REQUIRED)
     else if \<not> ep_notifications_enabled p then Inr (Some NOTIFICATIONS_DISABLED)
     else (case zones (ep_timezone p) of
        None \<Rightarrow> Inl (EnergyZoneNotFound (ep_timezone p))
      | Some z \<Rightarrow>
          ebind (contains (ep_awake_window p) (local_time z t)) (\<lambda>awake.
          if \<not> awake then Inr (Some OUTSIDE_AWAKE_WINDOW)
          else (case ep_quiet_window p of
             None \<Rightarrow> Inr None
           | Some q \<Rightarrow> ebind (contains q (local_time z t)) (\<lambda>quiet. Inr (if quiet then Some QUIET_HOURS else None))))))"

definition schedule_check_in ::
  "zone_database \<Rightarrow> energy_preferences \<Rightarrow> energy_consent \<Rightarrow> check_in_request \<Rightarrow> energy_error + check_in" where
  "schedule_check_in zones p c rq =
     ebind (suppression zones p c (cr_evaluated_at rq)) (\<lambda>reason.
       case reason of
         Some why \<Rightarrow> Inr (Suppressed (cr_check_in_id rq) why)
       | None \<Rightarrow> Inr (Active \<lparr>ac_check_in_id = cr_check_in_id rq, ac_status = CI_SCHEDULED, ac_scheduled_at = cr_evaluated_at rq,
            ac_respond_by = dt_add (cr_evaluated_at rq) (ep_response_window_minutes p * minute), ac_snooze_count = 0\<rparr>))"

definition mark_missed :: "active_check_in \<Rightarrow> datetime \<Rightarrow> energy_error + check_in" where
  "mark_missed a t =
     ebind (later_than t (ac_respond_by a)) (\<lambda>late.
       Inr (if late then Missed (ac_check_in_id a) (ac_respond_by a) (ac_snooze_count a) else Active a))"

text \<open>The prompt is one that \<open>schedule_check_in\<close> or \<open>snooze_check_in\<close> returned: active or suppressed.\<close>

definition respond_to_check_in :: "check_in \<Rightarrow> energy_response \<Rightarrow> energy_consent \<Rightarrow> energy_error + check_in" where
  "respond_to_check_in prompt resp c =
     (case prompt of
        Active a \<Rightarrow>
          ebind (if \<not> ec_granted c then Inr True else later_than (ec_decided_at c) (er_responded_at resp)) (\<lambda>refused.
          if refused then Inr (Suppressed (ac_check_in_id a) CONSENT_REQUIRED)
          else ebind (mark_missed a (er_responded_at resp)) (\<lambda>resolved.
            case resolved of
              Active b \<Rightarrow> Inr (Completed (ac_check_in_id a)
                \<lparr>eo_check_in_id = ac_check_in_id a, eo_rating = er_rating resp, eo_observed_at = er_responded_at resp,
                 eo_provenance_id = ''notification:'' @ ac_check_in_id a\<rparr> (ac_snooze_count a))
            | _ \<Rightarrow> Inr resolved))
      | _ \<Rightarrow> Inr prompt)"

definition snoozed_prompt :: "active_check_in \<Rightarrow> energy_preferences \<Rightarrow> datetime \<Rightarrow> active_check_in" where
  "snoozed_prompt a p scheduled_at =
     \<lparr>ac_check_in_id = ac_check_in_id a, ac_status = CI_SNOOZED, ac_scheduled_at = scheduled_at,
      ac_respond_by = dt_add scheduled_at (ep_response_window_minutes p * minute), ac_snooze_count = ac_snooze_count a + 1\<rparr>"

definition snooze_check_in :: "zone_database \<Rightarrow> check_in \<Rightarrow> snooze_request \<Rightarrow> energy_error + check_in" where
  "snooze_check_in zones prompt rq =
     (case prompt of
        Active a \<Rightarrow>
          ebind (suppression zones (sz_preferences rq) (sz_consent rq) (sz_acted_at rq)) (\<lambda>reason.
          case reason of
            Some why \<Rightarrow> Inr (Suppressed (ac_check_in_id a) why)
          | None \<Rightarrow>
              ebind (mark_missed a (sz_acted_at rq)) (\<lambda>resolved.
              case resolved of
                Active b \<Rightarrow>
                  let scheduled_at = dt_add (sz_acted_at rq) (ep_snooze_minutes (sz_preferences rq) * minute) in
                  ebind (suppression zones (sz_preferences rq) (sz_consent rq) scheduled_at) (\<lambda>target.
                  Inr (case target of
                      Some why \<Rightarrow> Missed (ac_check_in_id a) scheduled_at (ac_snooze_count a + 1)
                    | None \<Rightarrow> Active (snoozed_prompt a (sz_preferences rq) scheduled_at)))
              | _ \<Rightarrow> Inr resolved))
      | _ \<Rightarrow> Inr prompt)"

definition clock_of :: "int \<Rightarrow> time_of_day" where
  "clock_of h = \<lparr>td_hour = h, td_minute = 0, td_second = 0, td_microsecond = 0, td_aware = False\<rparr>"

section \<open>A learned pattern and the plan\<close>

datatype time_bucket = MORNING | AFTERNOON | EVENING | NIGHT

record energy_pattern =
  pt_bucket :: time_bucket
  pt_expected_level :: int
  pt_sample_count :: int
  pt_confidence :: rat
  pt_provenance_ids :: "string list"
  pt_learned_at :: datetime

text \<open>The \<open>float\<close> 0.6\<close>

definition MINIMUM_PLANNER_CONFIDENCE :: rat where "MINIMUM_PLANNER_CONFIDENCE = 5404319552844595 / 9007199254740992"

record planner_energy_feedback =
  pf_applied :: bool
  pf_bucket :: time_bucket
  pf_confidence :: rat
  pf_provenance_ids :: "string list"
  pf_affected_activity_ids :: "string list"

datatype energy_replan_error = UnsafeEnergyReplanError "string list" | ReplanPlannerError planner_error | ReplanZoneNotFound string

fun bucket_bounds :: "local_zone \<Rightarrow> int \<Rightarrow> time_bucket \<Rightarrow> (datetime \<times> datetime) list" where
  "bucket_bounds z n MORNING = [(combine z n (clock_of 5), combine z n (clock_of 12))]"
| "bucket_bounds z n AFTERNOON = [(combine z n (clock_of 12), combine z n (clock_of 17))]"
| "bucket_bounds z n EVENING = [(combine z n (clock_of 17), combine z n (clock_of 22))]"
| "bucket_bounds z n NIGHT =
     [(combine z n (clock_of 0), combine z n (clock_of 5)), (combine z n (clock_of 22), combine z (n + 1) (clock_of 0))]"

definition bucket_intervals :: "local_zone \<Rightarrow> energy_pattern \<Rightarrow> day_plan_request \<Rightarrow> (datetime \<times> datetime) list" where
  "bucket_intervals z pattern request =
     concat (map (\<lambda>(s, e).
        let starts = max (utc s) (utc (window_start request)); ends = min (utc e) (utc (window_end request)) in
        if starts < ends then [(to_zone z starts, to_zone z ends)] else [])
       (bucket_bounds z (plan_date request) (pt_bucket pattern)))"

definition baseline_of :: "proposed_day \<Rightarrow> existing_plan_block list" where
  "baseline_of day = concat (map (\<lambda>b. case pb_activity_id b of
       None \<Rightarrow> []
     | Some i \<Rightarrow> if pb_kind b \<in> {Kind_FIXED, Kind_FLEXIBLE, Kind_PROTECTED}
         then [\<lparr>xb_block_id = pb_block_id b, xb_activity_id = i, xb_title = pb_title b, xb_starts_at = pb_starts_at b, xb_ends_at = pb_ends_at b\<rparr>]
         else []) (pd_internal_plan day))"

definition protected_intervals :: "proposed_day \<Rightarrow> (string \<times> datetime \<times> datetime) list" where
  "protected_intervals day = map (\<lambda>b. (py_or (pb_activity_id b) [], pb_starts_at b, pb_ends_at b))
     (filter (\<lambda>b. pb_kind b \<in> {Kind_FIXED, Kind_PROTECTED}) (pd_internal_plan day))"

definition same_block_interval :: "string \<times> datetime \<times> datetime \<Rightarrow> string \<times> datetime \<times> datetime \<Rightarrow> bool" where
  "same_block_interval a b \<longleftrightarrow> fst a = fst b \<and> stamp_eq (fst (snd a)) (fst (snd b)) \<and> stamp_eq (snd (snd a)) (snd (snd b))"

definition changed_activities :: "plan_diff \<Rightarrow> string set" where
  "changed_activities d = set (map bc_activity_id (added d)) \<union> set (map bc_activity_id (removed d)) \<union> set (map mb_activity_id (moved d))"

definition flexible_ids :: "day_plan_request \<Rightarrow> string set" where
  "flexible_ids request = activity_id ` set (filter (\<lambda>a. flexibility a = FLEXIBLE) (activities request))"

definition energy_request :: "day_plan_request \<Rightarrow> proposed_day \<Rightarrow> energy_pattern \<Rightarrow> (datetime \<times> datetime) list \<Rightarrow> day_plan_request" where
  "energy_request request previous pattern intervals =
     request\<lparr>baseline_blocks := baseline_of previous,
       energy_windows := map (\<lambda>(s, e). \<lparr>ew_starts_at = s, ew_ends_at = e, ew_level = pt_expected_level pattern\<rparr>) intervals\<rparr>"

definition apply_energy_pattern ::
  "planner_env \<Rightarrow> zone_database \<Rightarrow> day_plan_request \<Rightarrow> proposed_day \<Rightarrow> energy_pattern
   \<Rightarrow> energy_replan_error + proposed_day \<times> planner_energy_feedback" where
  "apply_energy_pattern env zones request previous pattern =
     (case zones (timezone request) of
        None \<Rightarrow> Inl (ReplanZoneNotFound (timezone request))
      | Some z \<Rightarrow>
          let base = \<lparr>pf_applied = False, pf_bucket = pt_bucket pattern, pf_confidence = pt_confidence pattern,
                pf_provenance_ids = pt_provenance_ids pattern, pf_affected_activity_ids = []\<rparr>;
              intervals = bucket_intervals z pattern request;
              replan = energy_request request previous pattern intervals
          in if pt_confidence pattern < MINIMUM_PLANNER_CONFIDENCE \<or> intervals = [] then Inr (previous, base)
             else (case ebind (emapM validate_energy_window (energy_windows replan)) (\<lambda>_.
                         ebind (emapM validate_existing_block (baseline_blocks replan)) (\<lambda>_. propose_day env (zoneinfo.truncate z) replan)) of
                Inl e \<Rightarrow> Inl (ReplanPlannerError e)
              | Inr day \<Rightarrow>
                  if \<not> list_all2 same_block_interval (protected_intervals previous) (protected_intervals day)
                  then Inl (UnsafeEnergyReplanError (map fst (protected_intervals previous)))
                  else let changed = changed_activities (pd_diff day) in
                    if changed - flexible_ids request \<noteq> {} then Inl (UnsafeEnergyReplanError (sorted_list_of_set (changed - flexible_ids request)))
                    else Inr (day, base\<lparr>pf_applied := changed \<noteq> {}, pf_affected_activity_ids := sorted_list_of_set changed\<rparr>)))"

section \<open>The window as an interval of the clock\<close>

text \<open>A window is the half-open interval from its start to its end on the circle of the day, also when it crosses midnight.\<close>

lemma window_contains_circle:
  assumes "0 \<le> time_us (dw_starts_at w)" "time_us (dw_starts_at w) < day_us" "0 \<le> time_us (dw_ends_at w)" "time_us (dw_ends_at w) < day_us"
    and "time_us (dw_starts_at w) \<noteq> time_us (dw_ends_at w)" and "0 \<le> v" "v < day_us"
  shows "window_contains w v \<longleftrightarrow> (v - time_us (dw_starts_at w)) mod day_us < (time_us (dw_ends_at w) - time_us (dw_starts_at w)) mod day_us"
proof -
  have wrap: "x mod day_us = (if 0 \<le> x then x else x + day_us)" if "- day_us < x" "x < day_us" for x
  proof (cases "0 \<le> x")
    case True
    with that show ?thesis by (simp add: mod_pos_pos_trivial)
  next
    case False
    have "x mod day_us = (x + day_us) mod day_us" by simp
    with False that show ?thesis by (simp add: mod_pos_pos_trivial del: mod_add_self2)
  qed
  show ?thesis using assms by (auto simp: window_contains_def Let_def wrap)
qed

section \<open>Prompts and answers\<close>

definition notifiable :: "zone_database \<Rightarrow> energy_preferences \<Rightarrow> energy_consent \<Rightarrow> datetime \<Rightarrow> bool" where
  "notifiable zones p c t \<longleftrightarrow> ec_granted c \<and> \<not> dt_lt t (ec_decided_at c) \<and> ep_notifications_enabled p
     \<and> (\<exists>z. zones (ep_timezone p) = Some z \<and> window_contains (ep_awake_window p) (local_time z t)
         \<and> (case ep_quiet_window p of None \<Rightarrow> True | Some q \<Rightarrow> \<not> window_contains q (local_time z t)))"

lemma suppression_None: "suppression zones p c t = Inr None \<Longrightarrow> notifiable zones p c t"
  by (auto simp: suppression_def notifiable_def ebind_Inr_iff contains_def later_than_def split: if_splits option.splits)

text \<open>The life of one check-in: scheduled once, then snoozed any number of times.\<close>

inductive prompted :: "zone_database \<Rightarrow> active_check_in \<Rightarrow> energy_preferences \<Rightarrow> bool" for zones where
  scheduled: "schedule_check_in zones p c rq = Inr (Active a) \<Longrightarrow> prompted zones a p"
| snoozed: "prompted zones b q \<Longrightarrow> snooze_check_in zones (Active b) rq = Inr (Active a) \<Longrightarrow> prompted zones a (sz_preferences rq)"

lemma snooze_Active:
  assumes "snooze_check_in zones (Active b) rq = Inr (Active a)"
  shows "\<exists>t. a = snoozed_prompt b (sz_preferences rq) t \<and> suppression zones (sz_preferences rq) (sz_consent rq) t = Inr None"
proof -
  let ?t = "dt_add (sz_acted_at rq) (ep_snooze_minutes (sz_preferences rq) * minute)"
  from assms obtain reason where "suppression zones (sz_preferences rq) (sz_consent rq) (sz_acted_at rq) = Inr reason"
    by (auto simp: snooze_check_in_def ebind_Inr_iff)
  with assms have "reason = None" by (cases reason) (simp_all add: snooze_check_in_def)
  with assms \<open>suppression _ _ _ _ = Inr reason\<close> obtain late where "later_than (sz_acted_at rq) (ac_respond_by b) = Inr late"
    by (auto simp: snooze_check_in_def mark_missed_def ebind_Inr_iff)
  with assms \<open>suppression _ _ _ _ = Inr reason\<close> \<open>reason = None\<close>
  have "ebind (suppression zones (sz_preferences rq) (sz_consent rq) ?t) (\<lambda>target.
      Inr (case target of Some why \<Rightarrow> Missed (ac_check_in_id b) ?t (ac_snooze_count b + 1) | None \<Rightarrow> Active (snoozed_prompt b (sz_preferences rq) ?t)))
      = Inr (Active a)"
    by (cases late) (simp_all add: snooze_check_in_def mark_missed_def Let_def)
  then show ?thesis by (auto simp: ebind_Inr_iff split: option.splits)
qed

lemma prompted_allowed:
  "prompted zones a p \<Longrightarrow> \<exists>c. notifiable zones p c (ac_scheduled_at a) \<and> ac_respond_by a = dt_add (ac_scheduled_at a) (ep_response_window_minutes p * minute)"
proof (induction rule: prompted.induct)
  case (scheduled p c rq a)
  then have "suppression zones p c (ac_scheduled_at a) = Inr None" "ac_respond_by a = dt_add (ac_scheduled_at a) (ep_response_window_minutes p * minute)"
    by (auto simp: schedule_check_in_def ebind_Inr_iff split: option.splits)
  then show ?case using suppression_None by blast
next
  case (snoozed b q rq a)
  from snooze_Active [OF snoozed.hyps(2)] have "suppression zones (sz_preferences rq) (sz_consent rq) (ac_scheduled_at a) = Inr None"
    "ac_respond_by a = dt_add (ac_scheduled_at a) (ep_response_window_minutes (sz_preferences rq) * minute)"
    by (auto simp: snoozed_prompt_def)
  then show ?case using suppression_None by blast
qed


definition ex_preferences :: energy_preferences where
  "ex_preferences = \<lparr>ep_timezone = ''UTC'', ep_awake_window = \<lparr>dw_starts_at = clock_of 7, dw_ends_at = clock_of 23\<rparr>,
     ep_quiet_window = Some \<lparr>dw_starts_at = clock_of 22, dw_ends_at = clock_of 6\<rparr>, ep_notifications_enabled = True,
     ep_response_window_minutes = 45, ep_snooze_minutes = 15\<rparr>"

definition ex_energy_consent :: energy_consent where
  "ex_energy_consent = \<lparr>ec_granted = True, ec_decided_at = utc_datetime 0, ec_provenance_id = ''c''\<rparr>"

definition ex_prompt :: active_check_in where
  "ex_prompt = \<lparr>ac_check_in_id = ''e1'', ac_status = CI_SCHEDULED, ac_scheduled_at = utc_datetime (12 * 3600 * second),
     ac_respond_by = utc_datetime (12 * 3600 * second + 45 * minute), ac_snooze_count = 0\<rparr>"

lemma ex_prompt_scheduled: "prompted ex_zone_database ex_prompt ex_preferences"
  by (rule scheduled [of ex_zone_database ex_preferences ex_energy_consent
        "\<lparr>cr_check_in_id = ''e1'', cr_evaluated_at = utc_datetime (12 * 3600 * second)\<rparr>"]) code_simp


end
