(* ===== verification/Floats.thy ===== *)
theory Floats
  imports Complex_Main Prelude "HOL-Library.Log_Nat"
begin

text \<open>
  Python's \<open>float\<close>, as far as confidences and timestamps need it: a number is the rational it denotes, an operation is exact and then
  rounded to 53 significant bits, half to even.  Values stay far from the limits of the exponent.
\<close>

section \<open>Rounding\<close>

definition round_even :: "rat \<Rightarrow> int" where
  "round_even q =
     (let n = \<lfloor>q\<rfloor>; d = q - of_int n in
      if d < 1 / 2 then n else if 1 / 2 < d then n + 1 else if even n then n else n + 1)"

text \<open>The exponent of the binade of a positive number.\<close>

definition binade :: "rat \<Rightarrow> int" where
  "binade q = (case quotient_of q of (a, b) \<Rightarrow> let k = bitlen a - bitlen b in if 2 powi k \<le> q then k else k - 1)"

definition double :: "rat \<Rightarrow> rat" where
  "double q = (if q = 0 then 0 else let u = 2 powi (binade \<bar>q\<bar> - 52) in of_int (round_even (q / u)) * u)"

text \<open>\<open>round(x, 6)\<close>: the nearest decimal of the exact value, read back as a \<open>float\<close>.\<close>

definition round6 :: "rat \<Rightarrow> rat" where
  "round6 x = double (of_int (round_even (x * 1000000)) / 1000000)"

text \<open>\<open>sum\<close> of \<open>float\<close>s carries the rounding errors along and adds them at the end.\<close>

definition sum_step :: "rat \<times> rat \<Rightarrow> rat \<Rightarrow> rat \<times> rat" where
  "sum_step s x =
     (case s of (hi, lo) \<Rightarrow>
        let t = double (hi + x) in
        (t, double (lo + (if \<bar>x\<bar> \<le> \<bar>hi\<bar> then double (double (hi - t) + x) else double (double (x - t) + hi)))))"

definition float_sum :: "rat list \<Rightarrow> rat" where
  "float_sum xs =
     (case xs of [] \<Rightarrow> 0 | x # ys \<Rightarrow> (case foldl sum_step (x, 0) ys of (hi, lo) \<Rightarrow> if lo \<noteq> 0 then double (hi + lo) else hi))"

lemma round_even_error: "\<bar>of_int (round_even q) - q\<bar> \<le> 1 / 2"
proof -
  have "of_int \<lfloor>q\<rfloor> \<le> q" "q < of_int \<lfloor>q\<rfloor> + 1" by (rule of_int_floor_le, linarith)
  then show ?thesis by (auto simp: round_even_def Let_def abs_le_iff)
qed

lemma round_even_of_int [simp]: "round_even (of_int n) = n"
  by (simp add: round_even_def)

lemma round_even_mono:
  assumes "x \<le> y"
  shows "round_even x \<le> round_even y"
proof (cases "\<lfloor>x\<rfloor> = \<lfloor>y\<rfloor>")
  case True
  with assms show ?thesis by (auto simp: round_even_def Let_def)
next
  case False
  then have "\<lfloor>x\<rfloor> + 1 \<le> \<lfloor>y\<rfloor>" using floor_mono [OF assms] by linarith
  moreover have "round_even x \<le> \<lfloor>x\<rfloor> + 1" "\<lfloor>y\<rfloor> \<le> round_even y" by (auto simp: round_even_def Let_def)
  ultimately show ?thesis by linarith
qed

lemma pow2_bounds:
  assumes "0 < (n :: int)"
  shows "(2 powi (bitlen n - 1) :: rat) \<le> of_int n" and "of_int n < (2 powi bitlen n :: rat)"
proof -
  have b: "2 ^ nat (bitlen n - 1) \<le> n" "n < 2 ^ nat (bitlen n)" using bitlen_bounds [OF assms] by auto
  have p: "1 \<le> bitlen n" using bitlen_nonneg [of n] bitlen_eq_zero_iff [of n] assms by linarith
  have "(2 powi (bitlen n - 1) :: rat) = of_int (2 ^ nat (bitlen n - 1))" using p by (simp add: power_int_def)
  also have "\<dots> \<le> of_int n" using b(1) by (simp only: of_int_le_iff)
  finally show "(2 powi (bitlen n - 1) :: rat) \<le> of_int n" .
  have "of_int n < (of_int (2 ^ nat (bitlen n)) :: rat)" using b(2) by (simp only: of_int_less_iff)
  also have "\<dots> = 2 powi bitlen n" using p by (simp add: power_int_def)
  finally show "of_int n < (2 powi bitlen n :: rat)" .
qed

lemma powi_up: "(2 :: rat) powi (k + 1) = 2 * 2 powi k"
  by (simp add: power_int_add)

lemma binade_bounds:
  assumes "0 < q"
  shows "2 powi binade q \<le> q" and "q < 2 powi (binade q + 1)"
proof -
  obtain a b where ab: "quotient_of q = (a, b)" by (cases "quotient_of q")
  have b: "0 < b" using ab by (rule quotient_of_denom_pos)
  have q: "q = of_int a / of_int b" using ab by (rule quotient_of_div)
  have a: "0 < a" using assms b by (simp add: q zero_less_divide_iff)
  define k where "k = bitlen a - bitlen b"
  note pa = pow2_bounds [OF a] and pb = pow2_bounds [OF b]
  have lower: "2 powi (k - 1) \<le> q"
  proof -
    have "2 powi (k - 1) * of_int b \<le> 2 powi (k - 1) * (2 powi bitlen b :: rat)" using pb(2) by (simp add: less_imp_le)
    also have "\<dots> = 2 powi (bitlen a - 1)" by (simp add: k_def flip: power_int_add)
    also have "\<dots> \<le> of_int a" by (rule pa(1))
    finally show ?thesis using b by (simp add: q pos_le_divide_eq)
  qed
  have upper: "q < 2 powi (k + 1)"
  proof -
    have "of_int a < (2 powi bitlen a :: rat)" by (rule pa(2))
    also have "\<dots> = 2 powi (k + 1) * 2 powi (bitlen b - 1)" by (simp add: k_def flip: power_int_add)
    also have "\<dots> \<le> 2 powi (k + 1) * of_int b" using pb(1) by simp
    finally show ?thesis using b by (simp add: q pos_divide_less_eq)
  qed
  have e: "binade q = (if 2 powi k \<le> q then k else k - 1)" by (simp add: binade_def ab k_def)
  show "2 powi binade q \<le> q" "q < 2 powi (binade q + 1)" using lower upper by (auto simp: e)
qed

lemma double_pos: "0 < q \<Longrightarrow> double q = of_int (round_even (q / 2 powi (binade q - 52))) * 2 powi (binade q - 52)"
  by (simp add: double_def Let_def)

lemma double_error:
  assumes "0 < q"
  shows "\<bar>double q - q\<bar> \<le> q / 2 ^ 53"
proof -
  let ?u = "2 powi (binade q - 52) :: rat"
  have u: "0 < ?u" by simp
  have "\<bar>double q - q\<bar> = \<bar>of_int (round_even (q / ?u)) - q / ?u\<bar> * ?u"
  proof -
    have "double q - q = (of_int (round_even (q / ?u)) - q / ?u) * ?u" using u by (simp add: double_pos [OF assms] left_diff_distrib)
    then show ?thesis using u by (simp only: abs_mult abs_of_pos)
  qed
  also have "\<dots> \<le> 1 / 2 * ?u" using round_even_error u by (intro mult_right_mono) simp_all
  also have "\<dots> = 2 powi binade q / 2 ^ 53" by (simp add: power_int_diff)
  also have "\<dots> \<le> q / 2 ^ 53" using binade_bounds(1) [OF assms] by (intro divide_right_mono) simp_all
  finally show ?thesis .
qed

lemma scaled_bounds:
  assumes "0 < q"
  shows "2 ^ 52 \<le> round_even (q / 2 powi (binade q - 52))" and "round_even (q / 2 powi (binade q - 52)) \<le> 2 ^ 53"
proof -
  let ?u = "2 powi (binade q - 52) :: rat"
  have u: "0 < ?u" by simp
  have "of_int (2 ^ 52) \<le> q / ?u" using binade_bounds(1) [OF assms] u by (simp add: power_int_diff pos_le_divide_eq)
  from round_even_mono [OF this] show "2 ^ 52 \<le> round_even (q / ?u)" by (simp only: round_even_of_int)
  have "q / ?u \<le> of_int (2 ^ 53)" using binade_bounds(2) [OF assms] u
    by (simp add: power_int_diff pos_divide_le_eq powi_up)
  from round_even_mono [OF this] show "round_even (q / ?u) \<le> 2 ^ 53" by (simp only: round_even_of_int)
qed

lemma double_binade:
  assumes "0 < q"
  shows "2 powi binade q \<le> double q" and "double q \<le> 2 powi (binade q + 1)"
proof -
  let ?u = "2 powi (binade q - 52) :: rat"
  have "of_int (2 ^ 52) * ?u \<le> double q" unfolding double_pos [OF assms]
    by (intro mult_right_mono) (simp_all only: of_int_le_iff scaled_bounds(1) [OF assms] zero_le_power_int zero_le_numeral)
  then show "2 powi binade q \<le> double q" by (simp add: power_int_diff)
  have "double q \<le> of_int (2 ^ 53) * ?u" unfolding double_pos [OF assms]
    by (intro mult_right_mono) (simp_all only: of_int_le_iff scaled_bounds(2) [OF assms] zero_le_power_int zero_le_numeral)
  then show "double q \<le> 2 powi (binade q + 1)" by (simp add: power_int_diff powi_up)
qed

lemma double_pos_pos:
  assumes "0 < q"
  shows "0 < double q"
proof -
  have "(0 :: rat) < 2 powi binade q" by simp
  also have "\<dots> \<le> double q" by (rule double_binade(1) [OF assms])
  finally show ?thesis .
qed

lemma double_mono:
  assumes "0 < x" "x \<le> y"
  shows "double x \<le> double y"
proof (cases "binade x = binade y")
  case True
  let ?u = "2 powi (binade y - 52) :: rat"
  have "x / ?u \<le> y / ?u" using assms(2) by (intro divide_right_mono) simp_all
  then have "of_int (round_even (x / ?u)) \<le> (of_int (round_even (y / ?u)) :: rat)" by (simp add: round_even_mono)
  then show ?thesis using True assms by (simp add: double_pos)
next
  case False
  have y: "0 < y" using assms by linarith
  have "(2 :: rat) powi binade x < 2 powi (binade y + 1)" using binade_bounds(1) [OF assms(1)] binade_bounds(2) [OF y] assms(2) by linarith
  then have "binade x < binade y + 1" using power_int_increasing [of "binade y + 1" "binade x" "2 :: rat"] by force
  with False have "binade x + 1 \<le> binade y" by linarith
  then have "(2 :: rat) powi (binade x + 1) \<le> 2 powi binade y" by (intro power_int_increasing) simp_all
  with double_binade(2) [OF assms(1)] double_binade(1) [OF y] show ?thesis by linarith
qed

section \<open>The threshold 0.6\<close>

abbreviation three_fifths :: rat where
  "three_fifths \<equiv> 5404319552844595 / 9007199254740992"

lemma double_values: "double (3 / 5) = three_fifths" "double three_fifths = three_fifths" "double 1 = 1"
  by code_simp+

lemma double_upper: "0 < q \<Longrightarrow> double q \<le> q * (1 + 1 / 2 ^ 53)"
  using double_error [of q] abs_le_D1 [of "double q - q" "q / 2 ^ 53"] by (simp add: algebra_simps)

lemma double_nonpos: "q \<le> 0 \<Longrightarrow> double q \<le> 0"
proof -
  assume q: "q \<le> 0"
  let ?u = "2 powi (binade \<bar>q\<bar> - 52) :: rat"
  have "q / ?u \<le> of_int 0" using q by (simp add: divide_nonpos_pos)
  then have "round_even (q / ?u) \<le> 0" using round_even_mono [of "q / ?u" "of_int 0"] round_even_of_int [of 0] by simp
  then have "of_int (round_even (q / ?u)) * ?u \<le> 0" by (simp add: mult_nonpos_nonneg)
  then show ?thesis by (simp add: double_def Let_def)
qed

lemma round6_reaches: "three_fifths \<le> x \<Longrightarrow> three_fifths \<le> round6 x"
proof -
  assume "three_fifths \<le> x"
  then have "three_fifths * 1000000 \<le> x * 1000000" by (intro mult_right_mono) simp_all
  then have "round_even (three_fifths * 1000000) \<le> round_even (x * 1000000)" by (rule round_even_mono)
  moreover have "round_even (three_fifths * 1000000) = 600000" by code_simp
  ultimately have "(600000 :: int) \<le> round_even (x * 1000000)" by simp
  then have "(600000 :: rat) \<le> of_int (round_even (x * 1000000))" by linarith
  then have "3 / 5 \<le> of_int (round_even (x * 1000000)) / (1000000 :: rat)" by simp
  from double_mono [OF _ this] show ?thesis by (simp add: round6_def double_values(1))
qed

lemma round6_needs:
  assumes "three_fifths \<le> round6 x"
  shows "5999995 / 10000000 \<le> x"
proof -
  let ?k = "round_even (x * 1000000)"
  have pos: "0 < (of_int ?k / 1000000 :: rat)"
    using double_nonpos [of "of_int ?k / 1000000"] assms by (auto simp: round6_def not_less [symmetric])
  have "three_fifths \<le> of_int ?k / 1000000 * (1 + 1 / 2 ^ 53)" using double_upper [OF pos] assms by (simp only: round6_def)
  then have "(599999 :: rat) < of_int ?k" by simp
  then have "(599999 :: int) < ?k" by linarith
  then have "(600000 :: rat) \<le> of_int ?k" by linarith
  moreover have "of_int ?k - x * 1000000 \<le> 1 / 2" using round_even_error by (rule abs_le_D1)
  ultimately show ?thesis by linarith
qed

end
