(* ===== verification/Energy_Learning.thy ===== *)
theory Energy_Learning
  imports Energy Floats
begin

text \<open>
  \<open>energy/learning.py\<close>: self-reports by local time of day become patterns with a level and a confidence, computed in \<open>float\<close>s.
\<close>

section \<open>Aggregation\<close>

datatype energy_learning_error = PatternZoneNotFound string | PatternValidationError

definition MINIMUM_PATTERN_SAMPLES :: nat where "MINIMUM_PATTERN_SAMPLES = 3"

definition bucket_of :: "local_zone \<Rightarrow> datetime \<Rightarrow> time_bucket" where
  "bucket_of z d =
     (let hour = local_time z d div (3600 * second) in
      if 5 \<le> hour \<and> hour < 12 then MORNING else if 12 \<le> hour \<and> hour < 17 then AFTERNOON
      else if 17 \<le> hour \<and> hour < 22 then EVENING else NIGHT)"

definition mean_rating :: "energy_observation list \<Rightarrow> rat" where
  "mean_rating samples = double (of_int (sum_list (map eo_rating samples)) / of_nat (length samples))"

definition rating_agreement :: "energy_observation list \<Rightarrow> rat" where
  "rating_agreement samples =
     double (1 - double (float_sum (map (\<lambda>e. \<bar>double (of_int (eo_rating e) - mean_rating samples)\<bar>) samples) / of_nat (length samples * 4)))"

definition energy_confidence :: "energy_observation list \<Rightarrow> rat" where
  "energy_confidence samples = round6 (double (rating_agreement samples * min 1 (double (of_nat (length samples) / 5))))"

definition expected_level :: "energy_observation list \<Rightarrow> int" where
  "expected_level samples = \<lfloor>double (mean_rating samples + 1 / 2)\<rfloor>"

definition valid_pattern :: "energy_pattern \<Rightarrow> bool" where
  "valid_pattern p \<longleftrightarrow> 1 \<le> pt_expected_level p \<and> pt_expected_level p \<le> 5 \<and> 3 \<le> pt_sample_count p \<and> 0 \<le> pt_confidence p \<and> pt_confidence p \<le> 1
     \<and> 3 \<le> length (pt_provenance_ids p) \<and> [] \<notin> set (pt_provenance_ids p)"

definition pattern_of :: "datetime \<Rightarrow> time_bucket \<Rightarrow> energy_observation list \<Rightarrow> energy_pattern" where
  "pattern_of learned_at b samples =
     \<lparr>pt_bucket = b, pt_expected_level = expected_level samples, pt_sample_count = int (length samples),
      pt_confidence = energy_confidence samples, pt_provenance_ids = sort (map eo_provenance_id samples), pt_learned_at = learned_at\<rparr>"

definition learn_energy_patterns ::
  "zone_database \<Rightarrow> energy_observation list \<Rightarrow> string \<Rightarrow> datetime \<Rightarrow> energy_learning_error + energy_pattern list" where
  "learn_energy_patterns zones obs zone_name learned_at =
     (let learn = (\<lambda>bucket.
        emapM (\<lambda>p. if valid_pattern p then Inr p else Inl PatternValidationError)
          (map (\<lambda>(b, samples). pattern_of learned_at b samples)
            (filter (\<lambda>(b, samples). MINIMUM_PATTERN_SAMPLES \<le> length samples)
              (map (\<lambda>b. (b, filter (\<lambda>e. bucket e = b) obs)) [MORNING, AFTERNOON, EVENING, NIGHT]))))
      in if obs = [] then Inr []
         else case zones zone_name of
             None \<Rightarrow> Inl (PatternZoneNotFound zone_name)
           | Some z \<Rightarrow> learn (\<lambda>e. bucket_of z (eo_observed_at e)))"

section \<open>Levels\<close>

lemma double_small: "double 1 = 1" "double 5 = 5" "double (3 / 2) = 3 / 2" "double (11 / 2) = 11 / 2"
  by code_simp+

text \<open>The mean of ratings from one to five is between one and five also after rounding, and so is the level.\<close>

lemma mean_rating_bounds:
  assumes "samples \<noteq> []" and "\<forall>e \<in> set samples. 1 \<le> eo_rating e \<and> eo_rating e \<le> 5"
  shows "1 \<le> mean_rating samples" and "mean_rating samples \<le> 5"
proof -
  have "int (length samples) \<le> sum_list (map eo_rating samples) \<and> sum_list (map eo_rating samples) \<le> 5 * int (length samples)"
    using assms(2) by (induction samples) auto
  then have "of_nat (length samples) \<le> (of_int (sum_list (map eo_rating samples)) :: rat)"
    "(of_int (sum_list (map eo_rating samples)) :: rat) \<le> 5 * of_nat (length samples)" by linarith+
  moreover have "0 < (of_nat (length samples) :: rat)" using assms(1) by simp
  ultimately have q: "1 \<le> (of_int (sum_list (map eo_rating samples)) / of_nat (length samples) :: rat)"
    "(of_int (sum_list (map eo_rating samples)) / of_nat (length samples) :: rat) \<le> 5" by (simp_all add: pos_le_divide_eq pos_divide_le_eq)
  from double_mono [OF _ q(1)] show "1 \<le> mean_rating samples" by (simp add: mean_rating_def double_small)
  from double_mono [OF _ q(2)] q(1) show "mean_rating samples \<le> 5" by (simp add: mean_rating_def double_small)
qed

lemma expected_level_bounds:
  assumes "samples \<noteq> []" and "\<forall>e \<in> set samples. 1 \<le> eo_rating e \<and> eo_rating e \<le> 5"
  shows "1 \<le> expected_level samples \<and> expected_level samples \<le> 5"
proof -
  note m = mean_rating_bounds [OF assms]
  have "double (3 / 2) \<le> double (mean_rating samples + 1 / 2)" using m by (intro double_mono) simp_all
  moreover have "double (mean_rating samples + 1 / 2) \<le> double (11 / 2)" using m by (intro double_mono) simp_all
  ultimately have "3 / 2 \<le> double (mean_rating samples + 1 / 2)" "double (mean_rating samples + 1 / 2) < 6" by (simp_all add: double_small)
  then show ?thesis by (simp add: expected_level_def le_floor_iff floor_le_iff)
qed

end
