(* ===== verification/Learner.thy ===== *)
theory Learner
  imports Floats Life_Knowledge
begin

text \<open>
  \<open>learning/models.py\<close> and \<open>learning/learner.py\<close>: observations of planned and actual outcomes, and the aggregation of repeated outcomes
  into proposals with a confidence.  \<open>uuid5\<close> in the namespace of the module is a parameter.
\<close>

section \<open>Models\<close>

datatype learning_source = LS_PLANNER | LS_CONVERSATION | LS_USER_STATEMENT | LS_USER_CORRECTION

fun learning_source_value :: "learning_source \<Rightarrow> string" where
  "learning_source_value LS_PLANNER = ''planner''"
| "learning_source_value LS_CONVERSATION = ''conversation''"
| "learning_source_value LS_USER_STATEMENT = ''user_statement''"
| "learning_source_value LS_USER_CORRECTION = ''user_correction''"

datatype actual_outcome = Outcome_COMPLETED | Outcome_ABANDONED | Outcome_RESCHEDULED | Outcome_DEFERRED

fun outcome_value :: "actual_outcome \<Rightarrow> string" where
  "outcome_value Outcome_COMPLETED = ''completed''"
| "outcome_value Outcome_ABANDONED = ''abandoned''"
| "outcome_value Outcome_RESCHEDULED = ''rescheduled''"
| "outcome_value Outcome_DEFERRED = ''deferred''"

datatype proposal_status = LP_PROPOSED | LP_APPROVED | LP_CORRECTED | LP_DELETED

fun proposal_status_value :: "proposal_status \<Rightarrow> string" where
  "proposal_status_value LP_PROPOSED = ''proposed''"
| "proposal_status_value LP_APPROVED = ''approved''"
| "proposal_status_value LP_CORRECTED = ''corrected''"
| "proposal_status_value LP_DELETED = ''deleted''"

record learning_provenance =
  lo_source :: learning_source
  lo_source_id :: string
  lo_captured_at :: datetime

record planned_activity =
  pv_activity_id :: string
  pv_title :: string
  pv_planned_start :: datetime
  pv_planned_end :: datetime
  pv_energy_required :: "int option"

record observation_trigger =
  tg_kind :: string
  tg_source :: string

record learning_observation =
  ob_observation_id :: string
  ob_planned :: planned_activity
  ob_outcome :: actual_outcome
  ob_actual_start :: "datetime option"
  ob_actual_end :: "datetime option"
  ob_trigger :: "observation_trigger option"
  ob_procedure_steps :: "string list"
  ob_context_tags :: "string list"
  ob_provenance :: learning_provenance
  ob_observed_at :: datetime
  ob_retain_until :: "datetime option"

definition valid_observation :: "learning_observation \<Rightarrow> bool" where
  "valid_observation b \<longleftrightarrow> pv_title (ob_planned b) \<noteq> [] \<and> pred_option (\<lambda>e. 1 \<le> e \<and> e \<le> 5) (pv_energy_required (ob_planned b))
     \<and> pred_option (\<lambda>t. tg_kind t \<noteq> [] \<and> tg_source t \<noteq> []) (ob_trigger b) \<and> [] \<notin> set (ob_procedure_steps b)
     \<and> [] \<notin> set (ob_context_tags b) \<and> lo_source_id (ob_provenance b) \<noteq> []"

record skill_proposal =
  sk_proposal_id :: string
  sk_trigger :: observation_trigger
  sk_procedure :: "string list"
  sk_supporting_observation_ids :: "string list"
  sk_confidence :: rat
  sk_explanation :: string
  sk_status :: proposal_status
  sk_created_at :: datetime
  sk_corrected_at :: "datetime option"
  sk_correction_note :: "string option"

record memory_update_proposal =
  mu_proposal_id :: string
  mu_category :: memory_category
  mu_content :: string
  mu_supporting_observation_ids :: "string list"
  mu_confidence :: rat
  mu_explanation :: string
  mu_status :: proposal_status
  mu_created_at :: datetime
  mu_corrected_at :: "datetime option"
  mu_correction_note :: "string option"

datatype learning_proposal = Skill skill_proposal | Memory_Update memory_update_proposal

section \<open>Aggregation\<close>

definition MINIMUM_OBSERVATIONS :: nat where "MINIMUM_OBSERVATIONS = 3"
definition FULL_CONFIDENCE_OBSERVATIONS :: nat where "FULL_CONFIDENCE_OBSERVATIONS = 5"

text \<open>The \<open>float\<close> 0.6\<close>

definition MINIMUM_PROPOSAL_CONFIDENCE :: rat where "MINIMUM_PROPOSAL_CONFIDENCE = three_fifths"

text \<open>\<open>defaultdict(list)\<close>: the groups in the order in which their keys come up.\<close>

fun add_group :: "'k \<Rightarrow> 'a \<Rightarrow> ('k \<times> 'a list) list \<Rightarrow> ('k \<times> 'a list) list" where
  "add_group k x [] = [(k, [x])]"
| "add_group k x ((l, ys) # d) = (if l = k then (l, ys @ [x]) # d else (l, ys) # add_group k x d)"

definition grouped :: "('a \<Rightarrow> 'k) \<Rightarrow> 'a list \<Rightarrow> ('k \<times> 'a list) list" where
  "grouped key xs = foldl (\<lambda>d x. add_group (key x) x d) [] xs"

text \<open>\<open>max\<close> with a key keeps the first of the largest.\<close>

fun first_max :: "('a \<Rightarrow> nat) \<Rightarrow> 'a \<Rightarrow> 'a list \<Rightarrow> 'a" where
  "first_max f m [] = m"
| "first_max f m (x # xs) = first_max f (if f m < f x then x else m) xs"

definition most_common :: "'a list \<Rightarrow> 'a" where
  "most_common values =
     (let counts = grouped (\<lambda>v. v) values in fst (first_max (\<lambda>c. length (snd c)) (hd counts) (tl counts)))"

definition sample_factor :: "nat \<Rightarrow> rat" where
  "sample_factor n = min 1 (double (of_nat n / of_nat FULL_CONFIDENCE_OBSERVATIONS))"

definition procedure_confidence :: "nat \<Rightarrow> nat \<Rightarrow> rat" where
  "procedure_confidence agreeing n = round6 (double (double (of_nat agreeing / of_nat n) * sample_factor n))"

definition learning_id :: "(string \<Rightarrow> string) \<Rightarrow> string list \<Rightarrow> string" where
  "learning_id uuid5 parts = uuid5 (join [CHR 0x1F] parts)"

definition sources_text :: "learning_observation list \<Rightarrow> string" where
  "sources_text samples = join '', '' (sort (remdups (map (\<lambda>b. learning_source_value (lo_source (ob_provenance b))) samples)))"

definition procedure_evidence :: "learning_observation \<Rightarrow> bool" where
  "procedure_evidence b \<longleftrightarrow> ob_outcome b = Outcome_COMPLETED \<and> ob_trigger b \<noteq> None \<and> ob_procedure_steps b \<noteq> []"

definition procedure_proposal ::
  "(string \<Rightarrow> string) \<Rightarrow> datetime \<Rightarrow> observation_trigger \<times> learning_observation list \<Rightarrow> skill_proposal option" where
  "procedure_proposal uuid5 learned_at g =
     (case g of (trigger, samples) \<Rightarrow>
        if length samples < MINIMUM_OBSERVATIONS then None
        else let steps = most_common (map ob_procedure_steps samples);
                 confidence = procedure_confidence (length (filter (\<lambda>b. ob_procedure_steps b = steps) samples)) (length samples)
             in if confidence < MINIMUM_PROPOSAL_CONFIDENCE then None
                else Some \<lparr>sk_proposal_id = learning_id uuid5 [''procedure'', tg_kind trigger, tg_source trigger], sk_trigger = trigger,
                  sk_procedure = steps, sk_supporting_observation_ids = sort (map ob_observation_id samples), sk_confidence = confidence,
                  sk_explanation = dec (length samples) @ '' completed '' @ tg_kind trigger @ '' observations from '' @ sources_text samples
                    @ '' followed the same '' @ dec (length steps) @ ''-step procedure'',
                  sk_status = LP_PROPOSED, sk_created_at = learned_at, sk_corrected_at = None, sk_correction_note = None\<rparr>)"

definition learn_procedure_proposals :: "(string \<Rightarrow> string) \<Rightarrow> datetime \<Rightarrow> learning_observation list \<Rightarrow> skill_proposal list" where
  "learn_procedure_proposals uuid5 learned_at obs =
     List.map_filter (procedure_proposal uuid5 learned_at) (grouped (\<lambda>b. the (ob_trigger b)) (filter procedure_evidence obs))"

definition memory_update_of ::
  "(string \<Rightarrow> string) \<Rightarrow> datetime \<Rightarrow> (actual_outcome \<times> string list) \<times> learning_observation list \<Rightarrow> memory_update_proposal option" where
  "memory_update_of uuid5 learned_at g =
     (case g of ((outcome, tags), samples) \<Rightarrow>
        if length samples < MINIMUM_OBSERVATIONS then None
        else let confidence = round6 (sample_factor (length samples)) in
             if confidence < MINIMUM_PROPOSAL_CONFIDENCE then None
             else let title = most_common (map (\<lambda>b. pv_title (ob_planned b)) samples); context_text = join '', '' tags;
                      usual = title @ '' is usually '' @ outcome_value outcome
                  in Some \<lparr>mu_proposal_id = learning_id uuid5 ([''memory_update'', outcome_value outcome] @ tags), mu_category = MC_OBSERVATION,
                       mu_content = (if context_text \<noteq> [] then usual @ '' after '' @ context_text else usual),
                       mu_supporting_observation_ids = sort (map ob_observation_id samples), mu_confidence = confidence,
                       mu_explanation = dec (length samples) @ '' '' @ outcome_value outcome @ '' observations from '' @ sources_text samples
                         @ '' share the same outcome'',
                       mu_status = LP_PROPOSED, mu_created_at = learned_at, mu_corrected_at = None, mu_correction_note = None\<rparr>)"

definition learn_memory_update_proposals :: "(string \<Rightarrow> string) \<Rightarrow> datetime \<Rightarrow> learning_observation list \<Rightarrow> memory_update_proposal list" where
  "learn_memory_update_proposals uuid5 learned_at obs =
     List.map_filter (memory_update_of uuid5 learned_at)
       (grouped (\<lambda>b. (ob_outcome b, ob_context_tags b)) (filter (\<lambda>b. ob_outcome b \<noteq> Outcome_COMPLETED) obs))"

definition learn_proposals :: "(string \<Rightarrow> string) \<Rightarrow> learning_observation list \<Rightarrow> datetime \<Rightarrow> learning_proposal list" where
  "learn_proposals uuid5 obs learned_at =
     map Skill (learn_procedure_proposals uuid5 learned_at obs) @ map Memory_Update (learn_memory_update_proposals uuid5 learned_at obs)"

section \<open>Groups\<close>

lemma add_group_keys: "map fst (add_group k x d) = (if k \<in> fst ` set d then map fst d else map fst d @ [k])"
  by (induction k x d rule: add_group.induct) auto

lemma add_group_lookup: "map_of (add_group k x d) l = (if l = k then Some ((case map_of d k of None \<Rightarrow> [] | Some ys \<Rightarrow> ys) @ [x]) else map_of d l)"
  by (induction k x d rule: add_group.induct) auto

lemma grouped_snoc: "grouped key (xs @ [x]) = add_group (key x) x (grouped key xs)"
  by (simp add: grouped_def)

lemma grouped_keys: "distinct (map fst (grouped key xs)) \<and> fst ` set (grouped key xs) = key ` set xs"
proof (induction xs rule: rev_induct)
  case Nil
  then show ?case by (simp add: grouped_def)
next
  case (snoc x xs)
  have "fst ` set (add_group (key x) x (grouped key xs)) = set (map fst (add_group (key x) x (grouped key xs)))" by simp
  with snoc show ?case by (auto simp: grouped_snoc add_group_keys)
qed

lemma grouped_lookup: "map_of (grouped key xs) k = (if k \<in> key ` set xs then Some (filter (\<lambda>x. key x = k) xs) else None)"
proof (induction xs rule: rev_induct)
  case Nil
  then show ?case by (simp add: grouped_def)
next
  case (snoc x xs)
  have "filter (\<lambda>y. key y = k) xs = []" if "k \<notin> key ` set xs" using that by (auto simp: filter_empty_conv)
  with snoc show ?case by (auto simp: grouped_snoc add_group_lookup)
qed

lemma set_grouped: "(k, ys) \<in> set (grouped key xs) \<longleftrightarrow> k \<in> key ` set xs \<and> ys = filter (\<lambda>x. key x = k) xs"
  using map_of_eq_Some_iff [of "grouped key xs" k ys] grouped_keys [of key xs] grouped_lookup [of key xs k] by (auto split: if_splits)

lemma first_max: "first_max f m xs \<in> insert m (set xs) \<and> (\<forall>y \<in> insert m (set xs). f y \<le> f (first_max f m xs))"
proof (induction xs arbitrary: m)
  case (Cons x xs)
  show ?case using Cons [of "if f m < f x then x else m"] by (auto intro: order_trans)
qed simp

lemma most_common:
  assumes "xs \<noteq> []"
  shows "most_common xs \<in> set xs" and "count_list xs y \<le> count_list xs (most_common xs)"
proof -
  let ?g = "grouped (\<lambda>v. v) xs"
  have "fst ` set ?g = set xs" using grouped_keys [of "\<lambda>v. v" xs] by simp
  with assms have ne: "?g \<noteq> []" by auto
  then have g: "insert (hd ?g) (set (tl ?g)) = set ?g" by (cases ?g) auto
  let ?m = "first_max (\<lambda>c. length (snd c)) (hd ?g) (tl ?g)"
  have m: "?m \<in> set ?g" "\<forall>c \<in> set ?g. length (snd c) \<le> length (snd ?m)"
    using first_max [of "\<lambda>c. length (snd c)" "hd ?g" "tl ?g"] unfolding g by blast+
  have e: "most_common xs = fst ?m" by (simp add: most_common_def Let_def)
  have cnt: "count_list xs k = length (filter (\<lambda>x. x = k) xs)" for k
    unfolding count_list_eq_length_filter by (rule arg_cong [of _ _ length], rule filter_cong) auto
  have fm: "fst ?m \<in> set xs" "snd ?m = filter (\<lambda>x. x = fst ?m) xs"
    using m(1) set_grouped [of "fst ?m" "snd ?m" "\<lambda>v. v" xs] by auto
  show "most_common xs \<in> set xs" using fm(1) e by simp
  show "count_list xs y \<le> count_list xs (most_common xs)"
  proof (cases "y \<in> set xs")
    case True
    then have "(y, filter (\<lambda>x. x = y) xs) \<in> set ?g" using set_grouped [of y _ "\<lambda>v. v" xs] by auto
    with m(2) fm(2) show ?thesis by (auto simp: e cnt)
  qed (simp add: count_list_0_iff)
qed

section \<open>Confidence\<close>

lemma sample_factor_le: "sample_factor n \<le> 1"
  by (simp add: sample_factor_def)

lemma sample_factor_pos: "0 < n \<Longrightarrow> 0 < sample_factor n"
  using double_pos_pos [of "of_nat n / 5"] by (simp add: sample_factor_def FULL_CONFIDENCE_OBSERVATIONS_def)

lemma sample_factor_full: "5 \<le> n \<Longrightarrow> sample_factor n = 1"
  using double_mono [of 1 "of_nat n / 5"] by (simp add: sample_factor_def FULL_CONFIDENCE_OBSERVATIONS_def double_values)

lemma procedure_confidence_sound:
  assumes "0 < k" "0 < n" and "MINIMUM_PROPOSAL_CONFIDENCE \<le> procedure_confidence k n"
  shows "599999 * n \<le> 1000000 * k"
proof -
  let ?q = "of_nat k / of_nat n :: rat" and ?e = "1 + 1 / 2 ^ 53 :: rat"
  have q: "0 < ?q" using assms(1,2) by simp
  have d: "0 < double ?q" by (rule double_pos_pos [OF q])
  have p: "0 < double ?q * sample_factor n" using d sample_factor_pos [OF assms(2)] by simp
  have "5999995 / 10000000 \<le> double (double ?q * sample_factor n)"
    using assms(3) by (intro round6_needs) (simp add: procedure_confidence_def MINIMUM_PROPOSAL_CONFIDENCE_def)
  also have "\<dots> \<le> double ?q * sample_factor n * ?e" by (rule double_upper [OF p])
  also have "\<dots> \<le> double ?q * 1 * ?e" using d sample_factor_le by (intro mult_right_mono mult_left_mono) simp_all
  also have "\<dots> \<le> ?q * ?e * 1 * ?e" using double_upper [OF q] by (intro mult_right_mono) simp_all
  finally have "599999 / 1000000 \<le> ?q" by simp
  then have "599999 * (of_nat n :: rat) \<le> 1000000 * of_nat k" using assms(2) by (simp add: field_simps)
  then have "(of_nat (599999 * n) :: rat) \<le> of_nat (1000000 * k)" by simp
  then show ?thesis by (simp only: of_nat_le_iff)
qed

lemma procedure_confidence_small:
  "MINIMUM_PROPOSAL_CONFIDENCE \<le> procedure_confidence 3 3" "MINIMUM_PROPOSAL_CONFIDENCE \<le> procedure_confidence 3 4"
  "MINIMUM_PROPOSAL_CONFIDENCE \<le> procedure_confidence 4 4"
  by code_simp+

lemma procedure_confidence_complete:
  assumes "3 \<le> n" "k \<le> n" and "3 * n \<le> k * min n 5"
  shows "MINIMUM_PROPOSAL_CONFIDENCE \<le> procedure_confidence k n"
proof (cases "5 \<le> n")
  case True
  have "3 / 5 \<le> (of_nat k / of_nat n :: rat)"
  proof -
    have "(of_nat (3 * n) :: rat) \<le> of_nat (k * 5)" using assms(3) True by (simp only: of_nat_le_iff min_absorb2)
    then show ?thesis using True by (simp add: field_simps)
  qed
  from double_mono [OF _ this] have "three_fifths \<le> double (of_nat k / of_nat n)" by (simp add: double_values)
  from double_mono [OF _ this] have "three_fifths \<le> double (double (of_nat k / of_nat n) * sample_factor n)"
    by (simp add: double_values sample_factor_full [OF True])
  then show ?thesis unfolding procedure_confidence_def MINIMUM_PROPOSAL_CONFIDENCE_def by (rule round6_reaches)
next
  case False
  then have n: "n = 3 \<or> n = 4" and "3 * n \<le> k * n" using assms by (auto simp: min_def)
  then have "3 \<le> k" by (elim disjE) simp_all
  with n assms(2) have "k = 3 \<and> n = 3 \<or> k = 3 \<and> n = 4 \<or> k = 4 \<and> n = 4" by linarith
  then show ?thesis using procedure_confidence_small by auto
qed

section \<open>Properties\<close>

text \<open>The observations that speak for a procedure, and how many of them took the same steps.\<close>

definition evidence_for :: "observation_trigger \<Rightarrow> learning_observation list \<Rightarrow> learning_observation list" where
  "evidence_for t obs = filter (\<lambda>b. procedure_evidence b \<and> ob_trigger b = Some t) obs"

definition followed :: "string list \<Rightarrow> learning_observation list \<Rightarrow> nat" where
  "followed steps samples = length (filter (\<lambda>b. ob_procedure_steps b = steps) samples)"

lemma followed_count: "followed steps samples = count_list (map ob_procedure_steps samples) steps"
  unfolding followed_def by (induction samples) auto

lemma evidence_groups:
  "(t, samples) \<in> set (grouped (\<lambda>b. the (ob_trigger b)) (filter procedure_evidence obs)) \<longleftrightarrow> samples = evidence_for t obs \<and> samples \<noteq> []"
proof -
  have e: "filter (\<lambda>b. the (ob_trigger b) = t) (filter procedure_evidence obs) = evidence_for t obs"
    unfolding evidence_for_def filter_filter by (rule filter_cong) (auto simp: procedure_evidence_def)
  have "t \<in> (\<lambda>b. the (ob_trigger b)) ` set (filter procedure_evidence obs) \<longleftrightarrow> evidence_for t obs \<noteq> []"
    unfolding e [symmetric] by (auto simp: filter_empty_conv)
  then show ?thesis unfolding set_grouped e by auto
qed

lemma procedure_proposal_Some:
  "procedure_proposal uuid5 now (t, samples) = Some p \<Longrightarrow> 3 \<le> length samples \<and> sk_trigger p = t
     \<and> sk_procedure p = most_common (map ob_procedure_steps samples) \<and> sk_status p = LP_PROPOSED
     \<and> sk_supporting_observation_ids p = sort (map ob_observation_id samples)
     \<and> sk_confidence p = procedure_confidence (followed (sk_procedure p) samples) (length samples)
     \<and> MINIMUM_PROPOSAL_CONFIDENCE \<le> sk_confidence p"
  by (auto simp: procedure_proposal_def Let_def followed_def MINIMUM_OBSERVATIONS_def split: if_splits)

lemma procedure_proposed:
  assumes "3 \<le> length samples" and "3 * length samples \<le> followed steps samples * min (length samples) 5"
  shows "procedure_proposal uuid5 now (t, samples) \<noteq> None"
proof -
  let ?m = "most_common (map ob_procedure_steps samples)"
  have "map ob_procedure_steps samples \<noteq> []" using assms(1) by auto
  then have "followed steps samples \<le> followed ?m samples" unfolding followed_count by (rule most_common(2))
  then have "followed steps samples * min (length samples) 5 \<le> followed ?m samples * min (length samples) 5" by (rule mult_le_mono1)
  with assms(2) have "3 * length samples \<le> followed ?m samples * min (length samples) 5" by linarith
  then have "MINIMUM_PROPOSAL_CONFIDENCE \<le> procedure_confidence (followed ?m samples) (length samples)"
    by (intro procedure_confidence_complete [OF assms(1)]) (simp_all add: followed_def)
  with assms(1) show ?thesis by (auto simp: procedure_proposal_def Let_def followed_def MINIMUM_OBSERVATIONS_def)
qed


definition ex_trigger :: observation_trigger where
  "ex_trigger = \<lparr>tg_kind = ''calendar_rule'', tg_source = ''lifeos.calendar''\<rparr>"

definition ex_observation :: "string \<Rightarrow> string list \<Rightarrow> learning_observation" where
  "ex_observation i steps = \<lparr>ob_observation_id = i,
     ob_planned = \<lparr>pv_activity_id = ''a'', pv_title = ''Gym'', pv_planned_start = utc_datetime 0, pv_planned_end = utc_datetime 3600, pv_energy_required = None\<rparr>,
     ob_outcome = Outcome_COMPLETED, ob_actual_start = None, ob_actual_end = None, ob_trigger = Some ex_trigger, ob_procedure_steps = steps,
     ob_context_tags = [], ob_provenance = \<lparr>lo_source = LS_PLANNER, lo_source_id = ''s'', lo_captured_at = utc_datetime 0\<rparr>,
     ob_observed_at = utc_datetime 7200, ob_retain_until = None\<rparr>"

definition ex_observations :: "learning_observation list" where
  "ex_observations = [ex_observation ''o3'' [''pack'', ''go''], ex_observation ''o1'' [''pack'', ''go''], ex_observation ''o4'' [''go''],
     ex_observation ''o2'' [''pack'', ''go'']]"


end
