(* ===== verification/Learning.thy ===== *)
theory Learning
  imports Learner Ledger_Chain Transactions
begin

text \<open>
  \<open>learning/proposal_ops.py\<close> and \<open>learning/repository.py\<close>: the governed life of a lesson - observed, proposed, approved, corrected,
  deleted - in the encrypted store.  A JSON cell is the record it holds, with the timestamps as parsing returns them; the texts that
  are fingerprinted are parameters.
\<close>

section \<open>Proposals\<close>

record proposal_correction =
  pc_expected_status :: proposal_status
  pc_note :: string
  pc_procedure :: "string list option"
  pc_content :: "string option"

datatype learning_error =
    ProposalNotFoundError string
  | InvalidProposalTransitionError string proposal_status proposal_status
  | StaleProposalStatusError string proposal_status proposal_status
  | CorrectionMismatchError string
  | LearningIntegrityError
  | LearningLifecycleRequired
  | LearningValidationError
  | LearningLedgerFailure ledger_error

fun lesson_id :: "learning_proposal \<Rightarrow> string" where
  "lesson_id (Skill p) = sk_proposal_id p"
| "lesson_id (Memory_Update p) = mu_proposal_id p"

fun lesson_status :: "learning_proposal \<Rightarrow> proposal_status" where
  "lesson_status (Skill p) = sk_status p"
| "lesson_status (Memory_Update p) = mu_status p"

fun lesson_created_at :: "learning_proposal \<Rightarrow> datetime" where
  "lesson_created_at (Skill p) = sk_created_at p"
| "lesson_created_at (Memory_Update p) = mu_created_at p"

fun lesson_confidence :: "learning_proposal \<Rightarrow> rat" where
  "lesson_confidence (Skill p) = sk_confidence p"
| "lesson_confidence (Memory_Update p) = mu_confidence p"

fun with_status :: "proposal_status \<Rightarrow> learning_proposal \<Rightarrow> learning_proposal" where
  "with_status st (Skill p) = Skill (p\<lparr>sk_status := st\<rparr>)"
| "with_status st (Memory_Update p) = Memory_Update (p\<lparr>mu_status := st\<rparr>)"

fun valid_lesson :: "learning_proposal \<Rightarrow> bool" where
  "valid_lesson (Skill p) \<longleftrightarrow> tg_kind (sk_trigger p) \<noteq> [] \<and> tg_source (sk_trigger p) \<noteq> [] \<and> [] \<notin> set (sk_procedure p)
     \<and> 0 \<le> sk_confidence p \<and> sk_confidence p \<le> 1 \<and> sk_explanation p \<noteq> [] \<and> sk_correction_note p \<noteq> Some []"
| "valid_lesson (Memory_Update p) \<longleftrightarrow> mu_content p \<noteq> [] \<and> 0 \<le> mu_confidence p \<and> mu_confidence p \<le> 1 \<and> mu_explanation p \<noteq> []
     \<and> mu_correction_note p \<noteq> Some []"

fun reread_lesson :: "learning_proposal \<Rightarrow> learning_proposal" where
  "reread_lesson (Skill p) = Skill (p\<lparr>sk_created_at := reread (sk_created_at p), sk_corrected_at := map_option reread (sk_corrected_at p)\<rparr>)"
| "reread_lesson (Memory_Update p) =
     Memory_Update (p\<lparr>mu_created_at := reread (mu_created_at p), mu_corrected_at := map_option reread (mu_corrected_at p)\<rparr>)"

definition reread_observation :: "learning_observation \<Rightarrow> learning_observation" where
  "reread_observation b = b\<lparr>
     ob_planned := (ob_planned b)\<lparr>pv_planned_start := reread (pv_planned_start (ob_planned b)), pv_planned_end := reread (pv_planned_end (ob_planned b))\<rparr>,
     ob_actual_start := map_option reread (ob_actual_start b), ob_actual_end := map_option reread (ob_actual_end b),
     ob_provenance := (ob_provenance b)\<lparr>lo_captured_at := reread (lo_captured_at (ob_provenance b))\<rparr>,
     ob_observed_at := reread (ob_observed_at b), ob_retain_until := map_option reread (ob_retain_until b)\<rparr>"

definition require_status :: "learning_proposal \<Rightarrow> proposal_status \<Rightarrow> proposal_status \<Rightarrow> learning_error + unit" where
  "require_status p expected requested =
     require (lesson_status p = expected) (InvalidProposalTransitionError (lesson_id p) (lesson_status p) requested)"

definition require_expected_status :: "learning_proposal \<Rightarrow> proposal_status \<Rightarrow> learning_error + unit" where
  "require_expected_status p expected = require (expected = lesson_status p) (StaleProposalStatusError (lesson_id p) expected (lesson_status p))"

fun apply_correction :: "learning_proposal \<Rightarrow> proposal_correction \<Rightarrow> datetime \<Rightarrow> learning_error + learning_proposal" where
  "apply_correction (Skill p) c occurred_at =
     (case pc_procedure c of
        None \<Rightarrow> Inl (CorrectionMismatchError (sk_proposal_id p))
      | Some steps \<Rightarrow> Inr (Skill (p\<lparr>sk_procedure := steps, sk_status := LP_CORRECTED, sk_corrected_at := Some occurred_at, sk_correction_note := Some (pc_note c)\<rparr>)))"
| "apply_correction (Memory_Update p) c occurred_at =
     (case pc_content c of
        None \<Rightarrow> Inl (CorrectionMismatchError (mu_proposal_id p))
      | Some body \<Rightarrow> Inr (Memory_Update (p\<lparr>mu_content := body, mu_status := LP_CORRECTED, mu_corrected_at := Some occurred_at, mu_correction_note := Some (pc_note c)\<rparr>)))"

section \<open>Tables\<close>

record observation_row =
  lw_observation_id :: string
  lw_retain_until :: "string option"
  lw_content_json :: learning_observation
  lw_observed_at :: string

record lesson_row =
  lq_proposal_id :: string
  lq_status :: string
  lq_content_json :: learning_proposal
  lq_created_at :: string

record learning_tombstone =
  lt_proposal_id :: string
  lt_removed_at :: string
  lt_reason :: string
  lt_source_fingerprint :: string
  lt_pattern_fingerprint :: string

record learning_db =
  learning_observations :: "observation_row list"
  learning_proposals :: "lesson_row list"
  learning_tombstones :: "learning_tombstone list"
  learning_ledger :: ledger

record learning_env =
  dump_observation :: "learning_observation \<Rightarrow> string"
  dump_lesson :: "learning_proposal \<Rightarrow> string"
  dump_trigger :: "observation_trigger \<Rightarrow> string"
  learning_uuid5 :: "string \<Rightarrow> string"
  learning_hmac :: "string \<Rightarrow> string \<Rightarrow> string"
  learning_audit_key :: string

type_synonym 'a learning_action = "(learning_db, learning_error, 'a) action"
type_synonym 'a learning_operation = "(learning_db connection, learning_error, 'a) action"

section \<open>Audit\<close>

definition learning_fingerprint :: "learning_env \<Rightarrow> string \<Rightarrow> string" where
  "learning_fingerprint env text = learning_hmac env (learning_audit_key env) text"

definition learning_append :: "learning_env \<Rightarrow> string \<Rightarrow> string \<Rightarrow> string \<Rightarrow> transition_context \<Rightarrow> unit learning_action" where
  "learning_append env i action fp ctx db =
     (case ledger_append (learning_hmac env) (learning_audit_key env)
        \<lparr>am_record_kind = NORMALIZED_FACT, am_record_id = i, am_state = action, am_action_class = ''learning.'' @ action,
         am_source_fingerprint = fp, am_context = ctx\<rparr> (learning_ledger db) of
        (Inl e, l) \<Rightarrow> (Inl (LearningLedgerFailure e), db\<lparr>learning_ledger := l\<rparr>)
      | (Inr _, l) \<Rightarrow> (Inr (), db\<lparr>learning_ledger := l\<rparr>))"

text \<open>Every mutation first verifies the chain; then its statements run, and the commit ends them.\<close>

definition verified :: "learning_env \<Rightarrow> (learning_db \<Rightarrow> learning_error + 'x) \<Rightarrow> ('x \<Rightarrow> 'a learning_action) \<Rightarrow> 'a learning_operation" where
  "verified env check body c =
     (case ledger_verify (learning_hmac env) (learning_audit_key env) (learning_ledger (current c)) of
        Inl e \<Rightarrow> (Inl (LearningLedgerFailure e), c)
      | Inr _ \<Rightarrow>
          (case check (current c) of
             Inl e \<Rightarrow> (Inl e, c)
           | Inr x \<Rightarrow> then_commit (body x) c))"

section \<open>Rows\<close>

definition lesson_cell :: "lesson_row \<Rightarrow> learning_error + learning_proposal" where
  "lesson_cell row = (if valid_lesson (lq_content_json row) then Inr (lq_content_json row) else Inl LearningValidationError)"

definition observation_cell :: "observation_row \<Rightarrow> learning_error + learning_observation" where
  "observation_cell row = (if valid_observation (lw_content_json row) then Inr (lw_content_json row) else Inl LearningValidationError)"

definition read_lesson :: "string \<Rightarrow> learning_db \<Rightarrow> learning_error + learning_proposal" where
  "read_lesson i db =
     (case find (\<lambda>row. lq_proposal_id row = i) (learning_proposals db) of
        None \<Rightarrow> Inl (ProposalNotFoundError i)
      | Some row \<Rightarrow> lesson_cell row)"

definition lesson_row_of :: "learning_proposal \<Rightarrow> lesson_row" where
  "lesson_row_of p = \<lparr>lq_proposal_id = lesson_id p, lq_status = proposal_status_value (lesson_status p), lq_content_json = reread_lesson p,
     lq_created_at = isoformat (lesson_created_at p)\<rparr>"

definition lesson_exists :: "string \<Rightarrow> learning_db \<Rightarrow> bool" where
  "lesson_exists i db \<longleftrightarrow> i \<in> lq_proposal_id ` set (learning_proposals db)"

definition insert_lesson :: "learning_proposal \<Rightarrow> unit learning_action" where
  "insert_lesson p db =
     (if lesson_exists (lesson_id p) db then (Inl LearningIntegrityError, db)
      else (Inr (), db\<lparr>learning_proposals := learning_proposals db @ [lesson_row_of p]\<rparr>))"

text \<open>\<open>with self._lifecycle.deletion()\<close> around a deletion; the trigger asks for the authorization when there is a row.\<close>

definition gated_delete :: "(learning_db \<Rightarrow> bool) \<Rightarrow> (learning_db \<Rightarrow> learning_db) \<Rightarrow> unit learning_action" where
  "gated_delete present remove db =
     (let opened = db\<lparr>learning_ledger := authorize_lifecycle_delete (learning_ledger db)\<rparr>;
          (r, db') = (if \<not> lifecycle_delete_allowed (learning_ledger opened) \<and> present opened then (Inl LearningLifecycleRequired, opened)
                      else (Inr (), remove opened))
      in (r, db'\<lparr>learning_ledger := revoke_lifecycle_delete (learning_ledger db')\<rparr>))"

definition delete_lesson_row :: "string \<Rightarrow> unit learning_action" where
  "delete_lesson_row i = gated_delete (lesson_exists i)
     (\<lambda>db. db\<lparr>learning_proposals := filter (\<lambda>row. lq_proposal_id row \<noteq> i) (learning_proposals db)\<rparr>)"

definition delete_observation_row :: "string \<Rightarrow> unit learning_action" where
  "delete_observation_row i = gated_delete (\<lambda>db. i \<in> lw_observation_id ` set (learning_observations db))
     (\<lambda>db. db\<lparr>learning_observations := filter (\<lambda>row. lw_observation_id row \<noteq> i) (learning_observations db)\<rparr>)"

fun pattern :: "learning_env \<Rightarrow> learning_proposal \<Rightarrow> string" where
  "pattern env (Skill p) = dump_trigger env (sk_trigger p)"
| "pattern env (Memory_Update p) = mu_content p"

definition pattern_suppressed :: "learning_env \<Rightarrow> learning_proposal \<Rightarrow> learning_db \<Rightarrow> bool" where
  "pattern_suppressed env p db \<longleftrightarrow> learning_fingerprint env (pattern env p) \<in> lt_pattern_fingerprint ` set (learning_tombstones db)"

definition insert_learning_tombstone :: "learning_tombstone \<Rightarrow> unit learning_action" where
  "insert_learning_tombstone t db =
     (if lt_proposal_id t \<in> lt_proposal_id ` set (learning_tombstones db) then (Inl LearningIntegrityError, db)
      else (Inr (), db\<lparr>learning_tombstones := learning_tombstones db @ [t]\<rparr>))"

section \<open>Operations\<close>

definition observation_row_of :: "learning_observation \<Rightarrow> observation_row" where
  "observation_row_of b = \<lparr>lw_observation_id = ob_observation_id b, lw_retain_until = map_option isoformat (ob_retain_until b),
     lw_content_json = reread_observation b, lw_observed_at = isoformat (ob_observed_at b)\<rparr>"

definition insert_observation :: "learning_observation \<Rightarrow> unit learning_action" where
  "insert_observation b db =
     (if ob_observation_id b \<in> lw_observation_id ` set (learning_observations db) then (Inl LearningIntegrityError, db)
      else (Inr (), db\<lparr>learning_observations := learning_observations db @ [observation_row_of b]\<rparr>))"

definition record_observation :: "learning_env \<Rightarrow> learning_observation \<Rightarrow> transition_context \<Rightarrow> unit learning_operation" where
  "record_observation env b ctx = verified env (\<lambda>_. Inr ()) (\<lambda>_.
     abind (insert_observation b) (\<lambda>_.
       learning_append env (ob_observation_id b) ''observed'' (learning_fingerprint env (dump_observation env b)) ctx))"

definition current_observations :: "datetime \<Rightarrow> learning_db \<Rightarrow> learning_error + learning_observation list" where
  "current_observations now db = emapM observation_cell
     (sort_key (\<lambda>row. (lw_observed_at row, lw_observation_id row))
       (filter (\<lambda>row. case lw_retain_until row of None \<Rightarrow> True | Some t \<Rightarrow> isoformat now < t) (learning_observations db)))"

fun propose_each :: "learning_env \<Rightarrow> transition_context \<Rightarrow> learning_proposal list \<Rightarrow> learning_proposal list learning_action" where
  "propose_each env ctx [] = areturn []"
| "propose_each env ctx (p # ps) =
     abind (aget (\<lambda>db. lesson_exists (lesson_id p) db \<or> pattern_suppressed env p db)) (\<lambda>skip.
     if skip then propose_each env ctx ps
     else
       abind (insert_lesson p) (\<lambda>_.
       abind (learning_append env (lesson_id p) ''proposed'' (learning_fingerprint env (dump_lesson env p)) ctx) (\<lambda>_.
       abind (propose_each env ctx ps) (\<lambda>created. areturn (p # created)))))"

definition learn :: "learning_env \<Rightarrow> datetime \<Rightarrow> datetime \<Rightarrow> transition_context \<Rightarrow> learning_proposal list learning_operation" where
  "learn env now learned_at ctx = verified env (current_observations now) (\<lambda>obs.
     propose_each env ctx (learn_proposals (learning_uuid5 env) obs learned_at))"

definition lesson_order :: "lesson_row list \<Rightarrow> lesson_row list" where
  "lesson_order = sort_key (\<lambda>row. (lq_created_at row, lq_proposal_id row))"

definition lessons :: "learning_db \<Rightarrow> learning_error + learning_proposal list" where
  "lessons db = emapM lesson_cell (lesson_order (learning_proposals db))"

definition route_candidates :: "learning_db \<Rightarrow> learning_error + learning_proposal list" where
  "route_candidates db =
     emapM lesson_cell (lesson_order (filter (\<lambda>row. lq_status row = proposal_status_value LP_APPROVED) (learning_proposals db)))"

definition replace_lesson :: "learning_env \<Rightarrow> learning_proposal \<Rightarrow> learning_proposal \<Rightarrow> string \<Rightarrow> transition_context \<Rightarrow> unit learning_action" where
  "replace_lesson env p q action ctx =
     abind (delete_lesson_row (lesson_id p)) (\<lambda>_.
     abind (insert_lesson q) (\<lambda>_.
       learning_append env (lesson_id p) action (learning_fingerprint env (dump_lesson env p)) ctx))"

definition approve_lesson :: "learning_env \<Rightarrow> string \<Rightarrow> transition_context \<Rightarrow> learning_proposal learning_operation" where
  "approve_lesson env i ctx = verified env
     (\<lambda>db. ebind (read_lesson i db) (\<lambda>p. ebind (require_status p LP_PROPOSED LP_APPROVED) (\<lambda>_. Inr p)))
     (\<lambda>p. abind (replace_lesson env p (with_status LP_APPROVED p) ''approved'' ctx) (\<lambda>_. areturn (with_status LP_APPROVED p)))"

definition correct_lesson :: "learning_env \<Rightarrow> string \<Rightarrow> proposal_correction \<Rightarrow> transition_context \<Rightarrow> learning_proposal learning_operation" where
  "correct_lesson env i c ctx = verified env
     (\<lambda>db. ebind (read_lesson i db) (\<lambda>p. ebind (require_expected_status p (pc_expected_status c)) (\<lambda>_.
        ebind (apply_correction p c (ctx_occurred_at ctx)) (\<lambda>q. Inr (p, q)))))
     (\<lambda>(p, q). abind (replace_lesson env p q ''corrected'' ctx) (\<lambda>_. areturn q))"

definition delete_lesson :: "learning_env \<Rightarrow> string \<Rightarrow> proposal_status \<Rightarrow> transition_context \<Rightarrow> unit learning_operation" where
  "delete_lesson env i expected ctx = verified env
     (\<lambda>db. ebind (read_lesson i db) (\<lambda>p. ebind (require_expected_status p expected) (\<lambda>_. Inr p)))
     (\<lambda>p. let fp = learning_fingerprint env (dump_lesson env p) in
        abind (delete_lesson_row i) (\<lambda>_.
        abind (insert_learning_tombstone \<lparr>lt_proposal_id = i, lt_removed_at = isoformat (ctx_occurred_at ctx), lt_reason = ''user_deletion'',
          lt_source_fingerprint = fp, lt_pattern_fingerprint = learning_fingerprint env (pattern env p)\<rparr>) (\<lambda>_.
          learning_append env i ''deleted'' fp ctx)))"

fun purge_observations :: "learning_env \<Rightarrow> transition_context \<Rightarrow> learning_observation list \<Rightarrow> unit learning_action" where
  "purge_observations env ctx [] = areturn ()"
| "purge_observations env ctx (b # bs) =
     abind (delete_observation_row (ob_observation_id b)) (\<lambda>_.
     abind (learning_append env (ob_observation_id b) ''retention_expired'' (learning_fingerprint env (dump_observation env b)) ctx) (\<lambda>_.
       purge_observations env ctx bs))"

definition expired_observations :: "datetime \<Rightarrow> learning_db \<Rightarrow> learning_error + learning_observation list" where
  "expired_observations now db = emapM observation_cell
     (filter (\<lambda>row. case lw_retain_until row of None \<Rightarrow> False | Some t \<Rightarrow> t \<le> isoformat now) (learning_observations db))"

definition purge_learning :: "learning_env \<Rightarrow> datetime \<Rightarrow> transition_context \<Rightarrow> nat learning_operation" where
  "purge_learning env now ctx = verified env (expired_observations now) (\<lambda>expired.
     abind (purge_observations env ctx expired) (\<lambda>_. areturn (length expired)))"

section \<open>Metrics\<close>

record learning_metrics =
  lm_observation_count :: nat
  lm_proposal_count :: nat
  lm_procedure_proposals :: nat
  lm_memory_update_proposals :: nat
  lm_proposed :: nat
  lm_approved :: nat
  lm_corrected :: nat
  lm_deleted :: nat
  lm_mean_confidence :: "rat option"

fun is_skill :: "learning_proposal \<Rightarrow> bool" where
  "is_skill (Skill p) = True"
| "is_skill (Memory_Update p) = False"

definition metrics :: "learning_db \<Rightarrow> learning_error + learning_metrics" where
  "metrics db = ebind (lessons db) (\<lambda>ps.
     let skills = length (filter is_skill ps); of_status = (\<lambda>st. length (filter (\<lambda>p. lesson_status p = st) ps)) in
     Inr \<lparr>lm_observation_count = length (learning_observations db), lm_proposal_count = length ps, lm_procedure_proposals = skills,
       lm_memory_update_proposals = length ps - skills, lm_proposed = of_status LP_PROPOSED, lm_approved = of_status LP_APPROVED,
       lm_corrected = of_status LP_CORRECTED, lm_deleted = length (learning_tombstones db),
       lm_mean_confidence = (if ps = [] then None
          else Some (round6 (double (float_sum (map lesson_confidence ps) / of_nat (length ps)))))\<rparr>)"

end
