(* ===== verification/Learning_Properties.thy ===== *)
theory Learning_Properties
  imports Learning Action_Logic
begin

text \<open>
  What holds in every history of the learning store: only what was approved is routed, exactly as it was approved, and a deleted
  pattern is never proposed again.
\<close>

section \<open>Appending\<close>

text \<open>The next sequence number is always free.\<close>

lemma ledger_append_total: "\<exists>l'. ledger_append hmac key m l = (Inr (), l')"
proof -
  have "ae_sequence e \<noteq> (case last_link l of None \<Rightarrow> 1 | Some (n, _) \<Rightarrow> n + 1)" if e: "e \<in> set (audit_rows l)" for e
  proof -
    let ?s = "sort_key ae_sequence (audit_rows l)"
    have e': "e \<in> set ?s" using e by simp
    then have ne: "?s \<noteq> []" by (metis empty_iff list.set(1))
    then obtain x xs where r: "rev ?s = x # xs" by (cases "rev ?s") auto
    then have "x = last ?s" by (metis hd_rev list.sel(1))
    moreover have "last_link l = Some (ae_sequence x, ae_entry_hash x)" unfolding last_link_def r by simp
    moreover have "ae_sequence e \<le> ae_sequence (last ?s)"
    proof -
      obtain n where n: "n < length ?s" "?s ! n = e" using e' unfolding in_set_conv_nth by blast
      have "map ae_sequence ?s ! n \<le> map ae_sequence ?s ! (length ?s - 1)"
        by (rule sorted_nth_mono [OF sorted_sort_key]) (use n(1) in \<open>auto simp del: length_sort\<close>)
      then show ?thesis using n ne by (simp add: last_conv_nth del: length_sort)
    qed
    ultimately show ?thesis by simp
  qed
  then have "(case last_link l of None \<Rightarrow> 1 | Some (n, _) \<Rightarrow> n + 1) \<notin> ae_sequence ` set (audit_rows l)" by (metis imageE)
  then show ?thesis by (simp add: ledger_append_def unsigned_entry_def Let_def)
qed

lemma learning_append_total: "\<exists>l. learning_append env i action fp ctx db = (Inr (), db\<lparr>learning_ledger := l\<rparr>)"
proof -
  obtain l where "ledger_append (learning_hmac env) (learning_audit_key env)
      \<lparr>am_record_kind = NORMALIZED_FACT, am_record_id = i, am_state = action, am_action_class = ''learning.'' @ action,
       am_source_fingerprint = fp, am_context = ctx\<rparr> (learning_ledger db) = (Inr (), l)"
    using ledger_append_total by blast
  then show ?thesis by (auto simp: learning_append_def)
qed

lemma delete_row_total:
  "\<exists>l. delete_lesson_row i db = (Inr (), db\<lparr>learning_proposals := filter (\<lambda>row. lq_proposal_id row \<noteq> i) (learning_proposals db), learning_ledger := l\<rparr>)"
  "\<exists>l. delete_observation_row i db =
     (Inr (), db\<lparr>learning_observations := filter (\<lambda>row. lw_observation_id row \<noteq> i) (learning_observations db), learning_ledger := l\<rparr>)"
  by (auto simp: delete_lesson_row_def delete_observation_row_def gated_delete_def authorize_lifecycle_delete_def Let_def)

section \<open>Lessons\<close>

lemma lesson_simps [simp]:
  "lesson_id (with_status st p) = lesson_id p" "lesson_status (with_status st p) = st"
  "lesson_id (reread_lesson p) = lesson_id p" "lesson_status (reread_lesson p) = lesson_status p"
  by (cases p; simp)+

lemma apply_correction_Inr: "apply_correction p c t = Inr q \<Longrightarrow> lesson_id q = lesson_id p \<and> lesson_status q = LP_CORRECTED"
  by (cases p) (auto split: option.splits)

lemma approved_value: "proposal_status_value st = ''approved'' \<longleftrightarrow> st = LP_APPROVED"
  by (cases st) simp_all

lemma learned_proposed: "p \<in> set (learn_proposals uuid5 obs now) \<Longrightarrow> lesson_status p = LP_PROPOSED"
  by (auto simp: learn_proposals_def learn_procedure_proposals_def learn_memory_update_proposals_def List.map_filter_def
      procedure_proposal_def memory_update_of_def Let_def split: if_splits)

section \<open>The invariant\<close>

text \<open>A row agrees with the lesson in its cell, and an approved lesson is one of the given ones.\<close>

definition governed :: "learning_proposal set \<Rightarrow> learning_db \<Rightarrow> bool" where
  "governed A db \<longleftrightarrow> (\<forall>row \<in> set (learning_proposals db). lq_proposal_id row = lesson_id (lq_content_json row)
     \<and> lq_status row = proposal_status_value (lesson_status (lq_content_json row))
     \<and> (lesson_status (lq_content_json row) = LP_APPROVED \<longrightarrow> lq_content_json row \<in> A))"

definition both :: "(learning_db \<Rightarrow> bool) \<Rightarrow> learning_db connection \<Rightarrow> bool" where
  "both I c \<longleftrightarrow> I (current c) \<and> I (committed c)"

lemma both_idle [simp]: "both I (idle db) \<longleftrightarrow> I db"
  by (simp add: both_def idle_def)

lemma governed_mono: "governed A db \<Longrightarrow> A \<subseteq> B \<Longrightarrow> governed B db"
  by (auto simp: governed_def)

lemma governed_update [simp]:
  "governed A (db\<lparr>learning_ledger := l\<rparr>) = governed A db" "governed A (db\<lparr>learning_tombstones := ts\<rparr>) = governed A db"
  "governed A (db\<lparr>learning_observations := os\<rparr>) = governed A db"
  by (simp_all add: governed_def)

lemma governed_insert:
  "governed A db \<Longrightarrow> (lesson_status p = LP_APPROVED \<Longrightarrow> reread_lesson p \<in> A) \<Longrightarrow> governed A (snd (insert_lesson p db))"
  by (auto simp: governed_def insert_lesson_def lesson_row_of_def)

lemma verified_both:
  assumes "both I c" and "\<And>x. check (current c) = Inr x \<Longrightarrow> I (current c) \<Longrightarrow> I (snd (body x (current c)))"
  shows "both I (snd (verified env check body c))"
  using assms by (auto simp: verified_def then_commit_def both_def idle_def split: sum.splits prod.splits)

lemma verified_keeps: "both I c \<Longrightarrow> (\<And>x. check (current c) = Inr x \<Longrightarrow> keeps I (body x)) \<Longrightarrow> both I (snd (verified env check body c))"
  by (rule verified_both) (auto intro: keeps_snd)

lemma verified_Inr:
  assumes "verified env check body c = (Inr y, c')"
  obtains x db where "check (current c) = Inr x" "body x (current c) = (Inr y, db)" "c' = idle db"
  using assms by (auto simp: verified_def then_commit_def split: sum.splits prod.splits)

lemma read_lesson_row:
  assumes "read_lesson i db = Inr p"
  obtains row where "row \<in> set (learning_proposals db)" "lq_proposal_id row = i" "lq_content_json row = p"
proof -
  from assms obtain row where row: "find (\<lambda>row. lq_proposal_id row = i) (learning_proposals db) = Some row" "lq_content_json row = p"
    by (auto simp: read_lesson_def lesson_cell_def split: option.splits if_splits)
  then show thesis using that [of row] by (auto simp: find_Some_iff)
qed

lemma replace_lesson_run:
  assumes "lesson_id q = lesson_id p"
  shows "\<exists>l. replace_lesson env p q action ctx db = (Inr (), db\<lparr>
     learning_proposals := filter (\<lambda>row. lq_proposal_id row \<noteq> lesson_id p) (learning_proposals db) @ [lesson_row_of q], learning_ledger := l\<rparr>)"
proof -
  let ?kept = "filter (\<lambda>row. lq_proposal_id row \<noteq> lesson_id p) (learning_proposals db)"
  obtain l1 where d: "delete_lesson_row (lesson_id p) db = (Inr (), db\<lparr>learning_proposals := ?kept, learning_ledger := l1\<rparr>)"
    using delete_row_total(1) by blast
  have "insert_lesson q (db\<lparr>learning_proposals := ?kept, learning_ledger := l1\<rparr>)
      = (Inr (), db\<lparr>learning_proposals := ?kept @ [lesson_row_of q], learning_ledger := l1\<rparr>)"
    using assms by (auto simp: insert_lesson_def lesson_exists_def)
  moreover obtain l where "learning_append env (lesson_id p) action (learning_fingerprint env (dump_lesson env p)) ctx
      (db\<lparr>learning_proposals := ?kept @ [lesson_row_of q], learning_ledger := l1\<rparr>)
      = (Inr (), db\<lparr>learning_proposals := ?kept @ [lesson_row_of q], learning_ledger := l\<rparr>)"
    using learning_append_total [of env "lesson_id p" action "learning_fingerprint env (dump_lesson env p)" ctx
        "db\<lparr>learning_proposals := ?kept @ [lesson_row_of q], learning_ledger := l1\<rparr>"] by auto
  ultimately show ?thesis using d by (auto simp: replace_lesson_def)
qed

lemma governed_replace:
  assumes "governed A db" and "lesson_id q = lesson_id p"
  shows "governed (if lesson_status q = LP_APPROVED then insert (reread_lesson q) A else A) (snd (replace_lesson env p q action ctx db))"
  using assms replace_lesson_run [OF assms(2), of env action ctx db] by (auto simp: governed_def lesson_row_of_def)

lemma governed_propose: "governed A db \<Longrightarrow> (\<forall>p \<in> set ps. lesson_status p = LP_PROPOSED) \<Longrightarrow> governed A (snd (propose_each env ctx ps db))"
proof (induction ps arbitrary: db)
  case (Cons p ps)
  show ?case
  proof (cases "lesson_exists (lesson_id p) db \<or> pattern_suppressed env p db")
    case False
    then have i: "insert_lesson p db = (Inr (), snd (insert_lesson p db))" by (simp add: insert_lesson_def)
    have g: "governed A (snd (insert_lesson p db))" using Cons.prems by (intro governed_insert) auto
    obtain l where l: "learning_append env (lesson_id p) ''proposed'' (learning_fingerprint env (dump_lesson env p)) ctx (snd (insert_lesson p db))
        = (Inr (), (snd (insert_lesson p db))\<lparr>learning_ledger := l\<rparr>)" using learning_append_total by blast
    have "governed A (snd (propose_each env ctx ps ((snd (insert_lesson p db))\<lparr>learning_ledger := l\<rparr>)))"
      by (rule Cons.IH) (use g Cons.prems in \<open>auto simp: governed_def\<close>)
    with False i l show ?thesis by (auto simp: abind_def split: prod.splits sum.splits)
  qed (use Cons in auto)
qed simp

section \<open>Histories\<close>

text \<open>
  The operations, a connection that is reopened, and other services that write their entries to the ledger and perhaps commit.  A history
  records what was approved and what was newly proposed.
\<close>

datatype learning_op =
    Observe_op learning_observation transition_context
  | Learn_op datetime datetime transition_context
  | Approve_op string transition_context
  | Correct_op string proposal_correction transition_context
  | Delete_op string proposal_status transition_context
  | Purge_op datetime transition_context
  | Ledger_op ledger bool
  | Reopen_op

datatype learning_event = Approved_lesson learning_proposal | Proposed_lessons "learning_proposal list"

fun learning_step :: "learning_env \<Rightarrow> learning_op \<Rightarrow> learning_db connection \<Rightarrow> learning_event list \<times> learning_db connection" where
  "learning_step env (Observe_op b ctx) c = ([], snd (record_observation env b ctx c))"
| "learning_step env (Learn_op now learned_at ctx) c =
     (case learn env now learned_at ctx c of (Inl _, c') \<Rightarrow> ([], c') | (Inr ps, c') \<Rightarrow> ([Proposed_lessons ps], c'))"
| "learning_step env (Approve_op i ctx) c =
     (case approve_lesson env i ctx c of (Inl _, c') \<Rightarrow> ([], c') | (Inr p, c') \<Rightarrow> ([Approved_lesson p], c'))"
| "learning_step env (Correct_op i x ctx) c = ([], snd (correct_lesson env i x ctx c))"
| "learning_step env (Delete_op i st ctx) c = ([], snd (delete_lesson env i st ctx c))"
| "learning_step env (Purge_op now ctx) c = ([], snd (purge_learning env now ctx c))"
| "learning_step env (Ledger_op l commit) c =
     ([], let db = (current c)\<lparr>learning_ledger := l\<rparr> in if commit then idle db else c\<lparr>current := db, in_transaction := True\<rparr>)"
| "learning_step env Reopen_op c = ([], idle (committed c))"

fun learning_run :: "learning_env \<Rightarrow> learning_op list \<Rightarrow> learning_db connection \<Rightarrow> learning_event list \<times> learning_db connection" where
  "learning_run env [] c = ([], c)"
| "learning_run env (x # xs) c = (let (es, c1) = learning_step env x c; (fs, c2) = learning_run env xs c1 in (es @ fs, c2))"

definition new_learning_db :: learning_db where
  "new_learning_db = \<lparr>learning_observations = [], learning_proposals = [], learning_tombstones = [], learning_ledger = new_ledger\<rparr>"

definition approved_in :: "learning_event list \<Rightarrow> learning_proposal set" where
  "approved_in es = {reread_lesson p | p. Approved_lesson p \<in> set es}"

definition created_in :: "learning_event list \<Rightarrow> learning_proposal set" where
  "created_in es = {p. \<exists>ps. Proposed_lessons ps \<in> set es \<and> p \<in> set ps}"

lemma event_sets [simp]:
  "approved_in [] = {}" "approved_in (es @ fs) = approved_in es \<union> approved_in fs" "approved_in [Approved_lesson p] = {reread_lesson p}"
  "approved_in [Proposed_lessons ps] = {}" "created_in [] = {}" "created_in (es @ fs) = created_in es \<union> created_in fs"
  "created_in [Proposed_lessons ps] = set ps" "created_in [Approved_lesson p] = {}"
  by (auto simp: approved_in_def created_in_def)

lemma keeps_governed [keeps_rules]:
  "keeps (governed A) (learning_append env i action f ctx)" "keeps (governed A) (delete_lesson_row i)"
  "keeps (governed A) (delete_observation_row i)" "keeps (governed A) (insert_observation b)" "keeps (governed A) (insert_learning_tombstone t)"
proof -
  show "keeps (governed A) (learning_append env i action f ctx)"
    by (rule keepsI) (metis (no_types) governed_update(1) learning_append_total snd_conv)
  show "keeps (governed A) (delete_observation_row i)"
    by (rule keepsI) (metis (no_types) governed_update(1,3) delete_row_total(2) snd_conv)
  show "keeps (governed A) (delete_lesson_row i)"
  proof (rule keepsI)
    fix db assume "governed A db"
    then show "governed A (snd (delete_lesson_row i db))" using delete_row_total(1) [of i db] by (auto simp: governed_def)
  qed
qed (rule keepsI; auto simp: insert_observation_def insert_learning_tombstone_def governed_def)+

lemma keeps_purge_observations:
  assumes "\<And>i. keeps I (delete_observation_row i)" and "\<And>i action fp. keeps I (learning_append env i action fp ctx)"
  shows "keeps I (purge_observations env ctx bs)"
proof (induction bs)
  case (Cons b bs)
  show ?case unfolding purge_observations.simps by (intro keeps_rules assms Cons)
qed (simp only: purge_observations.simps keeps_pure)

lemma approve_governed:
  assumes "both (governed A) c"
  shows "case approve_lesson env i ctx c of (Inl _, c') \<Rightarrow> both (governed A) c'
     | (Inr p, c') \<Rightarrow> both (governed (insert (reread_lesson p) A)) c'"
proof -
  let ?check = "\<lambda>db. ebind (read_lesson i db) (\<lambda>p. ebind (require_status p LP_PROPOSED LP_APPROVED) (\<lambda>_. Inr p))"
  show ?thesis
  proof (cases "\<exists>v p. ledger_verify (learning_hmac env) (learning_audit_key env) (learning_ledger (current c)) = Inr v \<and> ?check (current c) = Inr p")
    case True
    then obtain v p where ok: "ledger_verify (learning_hmac env) (learning_audit_key env) (learning_ledger (current c)) = Inr v"
      "?check (current c) = Inr p" by (elim exE conjE)
    let ?q = "with_status LP_APPROVED p"
    have g: "governed (insert (reread_lesson ?q) A) (snd (replace_lesson env p ?q ''approved'' ctx (current c)))"
      using governed_replace [of A "current c" ?q p env "''approved''" ctx] assms by (simp add: both_def)
    obtain db where db: "replace_lesson env p ?q ''approved'' ctx (current c) = (Inr (), db)"
      using replace_lesson_run [of ?q p env "''approved''" ctx "current c"] by auto
    have "approve_lesson env i ctx c = (Inr ?q, idle db)" unfolding approve_lesson_def verified_def
      by (simp only: ok db then_commit_def sum.case abind_def action_simps prod.case)
    with g db show ?thesis by simp
  next
    case False
    then have "\<exists>e. approve_lesson env i ctx c = (Inl e, c)" unfolding approve_lesson_def verified_def
      by (auto split: sum.split)
    with assms show ?thesis by auto
  qed
qed

lemma step_governed:
  assumes "both (governed A) c" and "learning_step env x c = (es, c')"
  shows "both (governed (A \<union> approved_in es)) c'"
proof (cases x)
  case (Observe_op b ctx)
  have "both (governed A) (snd (record_observation env b ctx c))"
    unfolding record_observation_def by (rule verified_keeps [OF assms(1)]) (intro keeps_rules)
  with Observe_op assms(2) show ?thesis by auto
next
  case (Learn_op now learned_at ctx)
  have "both (governed A) (snd (learn env now learned_at ctx c))"
    unfolding learn_def by (rule verified_both [OF assms(1)], erule governed_propose) (blast intro: learned_proposed)
  with Learn_op assms(2) show ?thesis by (auto split: prod.splits sum.splits)
next
  case (Approve_op i ctx)
  with assms(2) approve_governed [OF assms(1), of env i ctx] show ?thesis by (auto split: prod.splits sum.splits)
next
  case (Correct_op i y ctx)
  have "both (governed A) (snd (correct_lesson env i y ctx c))"
    unfolding correct_lesson_def
  proof (rule verified_both [OF assms(1)], clarsimp)
    fix p q assume "apply_correction p y (ctx_occurred_at ctx) = Inr q"
    note f = apply_correction_Inr [OF this]
    have "governed A (snd (replace_lesson env p q ''corrected'' ctx (current c)))"
      using governed_replace [of A "current c" q p env "''corrected''" ctx] f assms(1) by (simp add: both_def)
    then show "governed A (snd (abind (replace_lesson env p q ''corrected'' ctx) (\<lambda>_. areturn q) (current c)))"
      by (auto simp: abind_def split: prod.splits sum.splits)
  qed
  with Correct_op assms(2) show ?thesis by auto
next
  case (Delete_op i st ctx)
  have "both (governed A) (snd (delete_lesson env i st ctx c))"
    unfolding delete_lesson_def Let_def by (rule verified_keeps [OF assms(1)]) (intro keeps_rules)
  with Delete_op assms(2) show ?thesis by auto
next
  case (Purge_op now ctx)
  have "both (governed A) (snd (purge_learning env now ctx c))"
    unfolding purge_learning_def by (rule verified_keeps [OF assms(1)]) (intro keeps_rules keeps_purge_observations)
  with Purge_op assms(2) show ?thesis by auto
next
  case (Ledger_op l commit)
  with assms show ?thesis by (auto simp: both_def governed_def Let_def idle_def split: if_splits)
next
  case Reopen_op
  with assms show ?thesis by (auto simp: both_def idle_def)
qed

lemma run_governed: "both (governed A) c \<Longrightarrow> learning_run env xs c = (es, c') \<Longrightarrow> both (governed (A \<union> approved_in es)) c'"
proof (induction xs arbitrary: A c es)
  case (Cons x xs)
  obtain es1 c1 fs where r: "learning_step env x c = (es1, c1)" "learning_run env xs c1 = (fs, c')" "es = es1 @ fs"
    using Cons.prems(2) by (auto simp: Let_def split: prod.splits)
  from Cons.IH [OF step_governed [OF Cons.prems(1) r(1)] r(2)] r(3) show ?case by (simp add: Un_assoc)
qed simp

section \<open>Tombstones\<close>

definition buried :: "string \<Rightarrow> learning_db \<Rightarrow> bool" where
  "buried fp db \<longleftrightarrow> fp \<in> lt_pattern_fingerprint ` set (learning_tombstones db)"

lemma buried_update [simp]:
  "buried fp (db\<lparr>learning_ledger := l\<rparr>) = buried fp db" "buried fp (db\<lparr>learning_proposals := ps\<rparr>) = buried fp db"
  "buried fp (db\<lparr>learning_observations := os\<rparr>) = buried fp db"
  by (simp_all add: buried_def)

text \<open>No statement removes a tombstone.\<close>

lemma keeps_buried [keeps_rules]:
  "keeps (buried fp) (learning_append env i action f ctx)" "keeps (buried fp) (insert_lesson p)" "keeps (buried fp) (delete_lesson_row i)"
  "keeps (buried fp) (delete_observation_row i)" "keeps (buried fp) (insert_observation b)" "keeps (buried fp) (insert_learning_tombstone t)"
proof -
  show "keeps (buried fp) (learning_append env i action f ctx)"
    by (rule keepsI) (metis (no_types) buried_update(1) learning_append_total snd_conv)
  show "keeps (buried fp) (delete_lesson_row i)"
    by (rule keepsI) (metis (no_types) buried_update(1,2) delete_row_total(1) snd_conv)
  show "keeps (buried fp) (delete_observation_row i)"
    by (rule keepsI) (metis (no_types) buried_update(1,3) delete_row_total(2) snd_conv)
qed (rule keepsI; auto simp: insert_lesson_def insert_observation_def insert_learning_tombstone_def buried_def)+

lemma keeps_buried_propose: "keeps (buried fp) (propose_each env ctx ps)"
proof (induction ps)
  case (Cons p ps)
  show ?case unfolding propose_each.simps by (intro keeps_rules Cons)
qed (simp only: propose_each.simps keeps_pure)

lemma keeps_buried_replace: "keeps (buried fp) (replace_lesson env p q action ctx)"
  unfolding replace_lesson_def by (intro keeps_rules)

lemma step_buried:
  assumes "both (buried fp) c" and "learning_step env x c = (es, c')"
  shows "both (buried fp) c'"
proof (cases x)
  case (Observe_op b ctx)
  have "both (buried fp) (snd (record_observation env b ctx c))"
    unfolding record_observation_def by (rule verified_keeps [OF assms(1)]) (intro keeps_rules)
  with Observe_op assms(2) show ?thesis by auto
next
  case (Learn_op now learned_at ctx)
  have "both (buried fp) (snd (learn env now learned_at ctx c))"
    unfolding learn_def by (rule verified_keeps [OF assms(1)]) (rule keeps_buried_propose)
  with Learn_op assms(2) show ?thesis by (auto split: prod.splits sum.splits)
next
  case (Approve_op i ctx)
  have "both (buried fp) (snd (approve_lesson env i ctx c))"
    unfolding approve_lesson_def by (rule verified_keeps [OF assms(1)]) (intro keeps_rules keeps_buried_replace)
  with Approve_op assms(2) show ?thesis by (auto split: prod.splits sum.splits)
next
  case (Correct_op i y ctx)
  have "both (buried fp) (snd (correct_lesson env i y ctx c))"
    unfolding correct_lesson_def by (rule verified_keeps [OF assms(1)], clarify, intro keeps_rules keeps_buried_replace)
  with Correct_op assms(2) show ?thesis by auto
next
  case (Delete_op i st ctx)
  have "both (buried fp) (snd (delete_lesson env i st ctx c))"
    unfolding delete_lesson_def Let_def by (rule verified_keeps [OF assms(1)]) (intro keeps_rules)
  with Delete_op assms(2) show ?thesis by auto
next
  case (Purge_op now ctx)
  have "both (buried fp) (snd (purge_learning env now ctx c))"
    unfolding purge_learning_def by (rule verified_keeps [OF assms(1)]) (intro keeps_rules keeps_purge_observations)
  with Purge_op assms(2) show ?thesis by auto
next
  case (Ledger_op l commit)
  with assms show ?thesis by (auto simp: both_def Let_def idle_def split: if_splits)
next
  case Reopen_op
  with assms show ?thesis by (auto simp: both_def idle_def)
qed

text \<open>Nothing that is buried is created.\<close>

lemma propose_unburied:
  "propose_each env ctx ps db = (Inr created, db') \<Longrightarrow> buried fp db \<Longrightarrow> q \<in> set created \<Longrightarrow> learning_fingerprint env (pattern env q) \<noteq> fp"
proof (induction ps arbitrary: db created)
  case (Cons p ps)
  show ?case
  proof (cases "lesson_exists (lesson_id p) db \<or> pattern_suppressed env p db")
    case True
    with Cons.prems(1) have "propose_each env ctx ps db = (Inr created, db')" by (simp add: abind_def)
    with Cons show ?thesis by blast
  next
    case False
    then have p: "learning_fingerprint env (pattern env p) \<noteq> fp" using Cons.prems(2) by (auto simp: pattern_suppressed_def buried_def)
    from False Cons.prems(1) obtain db1 db2 rest where r: "insert_lesson p db = (Inr (), db1)"
      "learning_append env (lesson_id p) ''proposed'' (learning_fingerprint env (dump_lesson env p)) ctx db1 = (Inr (), db2)"
      "propose_each env ctx ps db2 = (Inr rest, db')" "created = p # rest" by auto
    have "buried fp db2" using r(1,2) Cons.prems(2) triple_value [OF keeps_buried(1)] triple_value [OF keeps_buried(2)] by blast
    with Cons.IH [OF r(3)] r(4) p Cons.prems(3) show ?thesis by auto
  qed
qed simp

lemma step_created:
  assumes "both (buried fp) c" and "learning_step env x c = (es, c')" and "q \<in> created_in es"
  shows "learning_fingerprint env (pattern env q) \<noteq> fp"
proof (cases x)
  case (Learn_op now learned_at ctx)
  with assms(2,3) obtain ps where run: "learn env now learned_at ctx c = (Inr ps, c')" "q \<in> set ps"
    by (auto split: prod.splits sum.splits)
  from run(1) [unfolded learn_def] show ?thesis
    by (rule verified_Inr) (use run(2) assms(1) propose_unburied in \<open>auto simp: both_def\<close>)
qed (use assms(2,3) in \<open>auto split: prod.splits sum.splits\<close>)

lemma run_created: "both (buried fp) c \<Longrightarrow> learning_run env xs c = (es, c') \<Longrightarrow> q \<in> created_in es \<Longrightarrow> learning_fingerprint env (pattern env q) \<noteq> fp"
proof (induction xs arbitrary: c es)
  case (Cons x xs)
  obtain es1 c1 fs where r: "learning_step env x c = (es1, c1)" "learning_run env xs c1 = (fs, c')" "es = es1 @ fs"
    using Cons.prems(2) by (auto simp: Let_def split: prod.splits)
  from Cons.prems(3) r(3) consider "q \<in> created_in es1" | "q \<in> created_in fs" by auto
  then show ?case
    by cases (use step_created [OF Cons.prems(1) r(1)] Cons.IH [OF step_buried [OF Cons.prems(1) r(1)] r(2)] in auto)
qed simp

section \<open>Properties\<close>

text \<open>
  C38: only explicitly approved lessons are routed.  After any history of operations, reopened connections and other services writing to
  the ledger, every lesson that \<open>route_candidates\<close> returns is one that \<open>approve\<close> returned in this history, unchanged, and its status is
  approved: no observation, no learning run and no correction makes a lesson routable.
\<close>
theorem only_approved_is_routed:
  assumes "learning_run env xs (idle new_learning_db) = (es, c)" and "route_candidates (current c) = Inr ps" and "p \<in> set ps"
  shows "lesson_status p = LP_APPROVED \<and> (\<exists>q. Approved_lesson q \<in> set es \<and> p = reread_lesson q)"
proof -
  have "both (governed {}) (idle new_learning_db)" by (simp add: governed_def new_learning_db_def)
  from run_governed [OF this assms(1)] have g: "governed (approved_in es) (current c)" by (simp add: both_def)
  let ?rows = "lesson_order (filter (\<lambda>row. lq_status row = proposal_status_value LP_APPROVED) (learning_proposals (current c)))"
  from emapM_member [OF assms(2) [unfolded route_candidates_def] assms(3)] obtain row where "row \<in> set ?rows" "lesson_cell row = Inr p" by blast
  then have row: "row \<in> set (learning_proposals (current c))" "lq_status row = proposal_status_value LP_APPROVED" "lq_content_json row = p"
    by (auto simp: lesson_order_def lesson_cell_def split: if_splits)
  with g have "lesson_status p = LP_APPROVED" "p \<in> approved_in es" by (auto simp: governed_def approved_value)
  then show ?thesis by (auto simp: approved_in_def)
qed

text \<open>
  C39: a deleted lesson is not learned again.  Once a deletion has succeeded, no later learning run in any history creates a lesson with
  the pattern of the deleted one - the trigger of a procedure, the content of a memory update - whatever is observed.
\<close>
theorem deleted_lessons_stay_deleted:
  assumes "read_lesson i (current c) = Inr p" and "delete_lesson env i st ctx c = (Inr (), c1)"
    and "learning_run env xs c1 = (es, c2)" and "q \<in> created_in es"
  shows "pattern env q \<noteq> pattern env p"
proof -
  let ?fp = "learning_fingerprint env (pattern env p)"
  have buried: "buried ?fp db" if "(let fp = learning_fingerprint env (dump_lesson env p) in
      abind (delete_lesson_row i) (\<lambda>_. abind (insert_learning_tombstone \<lparr>lt_proposal_id = i, lt_removed_at = isoformat (ctx_occurred_at ctx),
        lt_reason = ''user_deletion'', lt_source_fingerprint = fp, lt_pattern_fingerprint = ?fp\<rparr>) (\<lambda>_. learning_append env i ''deleted'' fp ctx)))
      (current c) = (Inr (), db)" for db
  proof -
    from that obtain d1 d2 where "insert_learning_tombstone \<lparr>lt_proposal_id = i, lt_removed_at = isoformat (ctx_occurred_at ctx),
        lt_reason = ''user_deletion'', lt_source_fingerprint = learning_fingerprint env (dump_lesson env p), lt_pattern_fingerprint = ?fp\<rparr> d1 = (Inr (), d2)"
      and a: "learning_append env i ''deleted'' (learning_fingerprint env (dump_lesson env p)) ctx d2 = (Inr (), db)" by (auto simp: Let_def)
    then have "buried ?fp d2" by (auto simp: insert_learning_tombstone_def buried_def split: if_splits)
    from triple_value [OF keeps_buried(1) this a] show ?thesis .
  qed
  from assms(2) obtain db where "c1 = idle db" "buried ?fp db"
    unfolding delete_lesson_def by (rule verified_Inr) (use assms(1) buried in auto)
  then have "both (buried ?fp) c1" by simp
  from run_created [OF this assms(3,4)] show ?thesis by auto
qed

section \<open>A history\<close>

text \<open>On a chain that verifies the operations run; what they do to the tables does not depend on the entries they append.\<close>

definition chained :: "learning_env \<Rightarrow> ledger \<Rightarrow> bool" where
  "chained env l \<longleftrightarrow> (\<exists>v. ledger_verify (learning_hmac env) (learning_audit_key env) l = Inr v)"

lemma chained_gate [simp]: "chained env (l\<lparr>lifecycle_delete_allowed := b\<rparr>) = chained env l"
  by (simp add: chained_def ledger_verify_def ledger_entries_def anchor_sequence_def anchor_hash_def)

lemma chained_new: "chained env new_ledger"
  by (simp add: chained_def ledger_verify_def ledger_entries_def new_ledger_def)

lemma chained_append:
  assumes "chained env (learning_ledger db)"
  obtains l where "learning_append env i action fp ctx db = (Inr (), db\<lparr>learning_ledger := l\<rparr>)" "chained env l"
proof -
  from assms obtain v where v: "ledger_verify (learning_hmac env) (learning_audit_key env) (learning_ledger db) = Inr v" by (auto simp: chained_def)
  note a = ledger_append_chain [OF v, of "\<lparr>am_record_kind = NORMALIZED_FACT, am_record_id = i, am_state = action,
    am_action_class = ''learning.'' @ action, am_source_fingerprint = fp, am_context = ctx\<rparr>"]
  show thesis by (rule that) (use a in \<open>auto simp: learning_append_def chained_def\<close>)
qed

lemma verified_run:
  assumes "chained env (learning_ledger db)" and "check db = Inr x" and "body x db = (Inr y, db')"
  shows "verified env check body (idle db) = (Inr y, idle db')"
  using assms by (auto simp: verified_def then_commit_def chained_def idle_def)

lemma observe_run:
  assumes "chained env (learning_ledger db)" and "ob_observation_id b \<notin> lw_observation_id ` set (learning_observations db)"
  obtains l where "record_observation env b ctx (idle db)
      = (Inr (), idle (db\<lparr>learning_observations := learning_observations db @ [observation_row_of b], learning_ledger := l\<rparr>))" "chained env l"
proof -
  let ?db = "db\<lparr>learning_observations := learning_observations db @ [observation_row_of b]\<rparr>"
  obtain l where a: "learning_append env (ob_observation_id b) ''observed'' (learning_fingerprint env (dump_observation env b)) ctx ?db
      = (Inr (), ?db\<lparr>learning_ledger := l\<rparr>)" "chained env l" by (rule chained_append [of env ?db]) (use assms(1) in simp_all)
  show thesis
    by (rule that [OF _ a(2)], unfold record_observation_def, rule verified_run [OF assms(1) refl])
      (use assms(2) a(1) in \<open>simp add: insert_observation_def abind_def\<close>)
qed

lemma observe_all:
  assumes "chained env (learning_ledger db)" and "distinct (map lw_observation_id (learning_observations db) @ map ob_observation_id bs)"
  shows "\<exists>l. learning_run env (map (\<lambda>b. Observe_op b ctx) bs) (idle db)
      = ([], idle (db\<lparr>learning_observations := learning_observations db @ map observation_row_of bs, learning_ledger := l\<rparr>)) \<and> chained env l"
  using assms
proof (induction bs arbitrary: db)
  case Nil
  then show ?case by (auto intro!: exI [of _ "learning_ledger db"])
next
  case (Cons b bs)
  obtain l where l: "record_observation env b ctx (idle db)
      = (Inr (), idle (db\<lparr>learning_observations := learning_observations db @ [observation_row_of b], learning_ledger := l\<rparr>))" "chained env l"
    by (rule observe_run [of env db b]) (use Cons.prems in auto)
  let ?db = "db\<lparr>learning_observations := learning_observations db @ [observation_row_of b], learning_ledger := l\<rparr>"
  have "\<exists>l. learning_run env (map (\<lambda>b. Observe_op b ctx) bs) (idle ?db)
      = ([], idle (?db\<lparr>learning_observations := learning_observations ?db @ map observation_row_of bs, learning_ledger := l\<rparr>)) \<and> chained env l"
    by (rule Cons.IH) (use Cons.prems l(2) in \<open>auto simp: observation_row_of_def\<close>)
  with l(1) show ?case by auto
qed

lemma learn_run:
  assumes "chained env (learning_ledger db)" and "current_observations now db = Inr obs" and "learn_proposals (learning_uuid5 env) obs t = [p]"
    and "\<not> lesson_exists (lesson_id p) db" "\<not> pattern_suppressed env p db"
  obtains l where "learn env now t ctx (idle db) = (Inr [p], idle (db\<lparr>learning_proposals := learning_proposals db @ [lesson_row_of p], learning_ledger := l\<rparr>))"
    "chained env l"
proof -
  let ?db = "db\<lparr>learning_proposals := learning_proposals db @ [lesson_row_of p]\<rparr>"
  obtain l where a: "learning_append env (lesson_id p) ''proposed'' (learning_fingerprint env (dump_lesson env p)) ctx ?db
      = (Inr (), ?db\<lparr>learning_ledger := l\<rparr>)" "chained env l" by (rule chained_append [of env ?db]) (use assms(1) in simp_all)
  show thesis
    by (rule that [OF _ a(2)], unfold learn_def, rule verified_run [of _ _ "current_observations now", OF assms(1) assms(2)])
      (use assms(3-5) a(1) in \<open>simp add: insert_lesson_def abind_def\<close>)
qed

definition ex_learning_env :: learning_env where
  "ex_learning_env = \<lparr>dump_observation = ob_observation_id, dump_lesson = lesson_id, dump_trigger = tg_kind, learning_uuid5 = (\<lambda>s. s),
     learning_hmac = (\<lambda>key text. text), learning_audit_key = ''key''\<rparr>"

definition ex_learning_ctx :: transition_context where
  "ex_learning_ctx = \<lparr>ctx_actor = ''user'', ctx_correlation_id = ''c'', ctx_occurred_at = utc_datetime 10\<rparr>"

definition ex_learning_ops :: "learning_op list" where
  "ex_learning_ops = map (\<lambda>b. Observe_op b ex_learning_ctx) ex_observations @ [Learn_op (utc_datetime 8) (utc_datetime 9) ex_learning_ctx]"

definition ex_lesson :: string where
  "ex_lesson = join [CHR 0x1F] [''procedure'', ''calendar_rule'', ''lifeos.calendar'']"

definition ex_skill :: skill_proposal where
  "ex_skill = \<lparr>sk_proposal_id = ex_lesson, sk_trigger = ex_trigger, sk_procedure = [''pack'', ''go''],
     sk_supporting_observation_ids = [''o1'', ''o2'', ''o3'', ''o4''], sk_confidence = three_fifths,
     sk_explanation = ''4 completed calendar_rule observations from planner followed the same 2-step procedure'', sk_status = LP_PROPOSED,
     sk_created_at = utc_datetime 9, sk_corrected_at = None, sk_correction_note = None\<rparr>"

definition ex_observation_rows :: "observation_row list" where
  "ex_observation_rows = map observation_row_of ex_observations"

lemma ex_learned:
  "current_observations (utc_datetime 8) (new_learning_db\<lparr>learning_observations := ex_observation_rows\<rparr>)
     = Inr (map (\<lambda>i. reread_observation (ex_observation i (if i = ''o4'' then [''go''] else [''pack'', ''go'']))) [''o1'', ''o2'', ''o3'', ''o4''])"
  "learn_proposals (\<lambda>s. s) (map (\<lambda>i. reread_observation (ex_observation i (if i = ''o4'' then [''go''] else [''pack'', ''go'']))) [''o1'', ''o2'', ''o3'', ''o4'']) (utc_datetime 9)
     = [Skill ex_skill]"
  by code_simp+

lemma approve_run:
  assumes "chained env (learning_ledger db)" and "read_lesson i db = Inr p" and "lesson_status p = LP_PROPOSED"
  shows "\<exists>l. approve_lesson env i ctx (idle db) = (Inr (with_status LP_APPROVED p), idle (db\<lparr>learning_proposals :=
     filter (\<lambda>row. lq_proposal_id row \<noteq> lesson_id p) (learning_proposals db) @ [lesson_row_of (with_status LP_APPROVED p)], learning_ledger := l\<rparr>))"
proof -
  let ?q = "with_status LP_APPROVED p"
  obtain l where r: "replace_lesson env p ?q ''approved'' ctx db = (Inr (), db\<lparr>learning_proposals :=
     filter (\<lambda>row. lq_proposal_id row \<noteq> lesson_id p) (learning_proposals db) @ [lesson_row_of ?q], learning_ledger := l\<rparr>)"
    using replace_lesson_run [of ?q p env "''approved''" ctx db] by auto
  show ?thesis
    by (rule exI [of _ l], unfold approve_lesson_def, rule verified_run [where x = p, OF assms(1)])
      (use assms(2,3) r in \<open>simp_all add: require_status_def require_def abind_def\<close>)
qed

definition ex_learned_db :: "learning_proposal list \<Rightarrow> ledger \<Rightarrow> learning_db" where
  "ex_learned_db ps l = new_learning_db\<lparr>learning_observations := ex_observation_rows, learning_proposals := map lesson_row_of ps, learning_ledger := l\<rparr>"

lemma ex_read: "read_lesson ex_lesson (ex_learned_db [Skill ex_skill] l) = Inr (reread_lesson (Skill ex_skill))"
proof -
  have "valid_lesson (reread_lesson (Skill ex_skill))" "lesson_id (Skill ex_skill) = ex_lesson" by code_simp+
  then show ?thesis by (simp add: read_lesson_def ex_learned_db_def lesson_row_of_def lesson_cell_def del: reread_lesson.simps lesson_id.simps)
qed

lemma ex_learning_history:
  "\<exists>l. learning_run ex_learning_env (ex_learning_ops @ [Approve_op ex_lesson ex_learning_ctx]) (idle new_learning_db)
     = ([Proposed_lessons [Skill ex_skill], Approved_lesson (with_status LP_APPROVED (reread_lesson (Skill ex_skill)))],
        idle (ex_learned_db [with_status LP_APPROVED (reread_lesson (Skill ex_skill))] l))"
proof -
  have run_append: "learning_run env (xs @ ys) c = (let (es, c1) = learning_run env xs c; (fs, c2) = learning_run env ys c1 in (es @ fs, c2))" for env xs ys c
    by (induction xs arbitrary: c) (auto simp: Let_def split: prod.split)
  have new: "chained ex_learning_env (learning_ledger new_learning_db)" by (simp add: new_learning_db_def chained_new)
  obtain l1 where o: "learning_run ex_learning_env (map (\<lambda>b. Observe_op b ex_learning_ctx) ex_observations) (idle new_learning_db)
      = ([], idle (ex_learned_db [] l1))" "chained ex_learning_env l1"
    using observe_all [OF new, of ex_observations ex_learning_ctx]
    by (auto simp: ex_learned_db_def new_learning_db_def ex_observation_rows_def ex_observations_def ex_observation_def)
  obtain l2 where l: "learn ex_learning_env (utc_datetime 8) (utc_datetime 9) ex_learning_ctx (idle (ex_learned_db [] l1))
      = (Inr [Skill ex_skill], idle (ex_learned_db [Skill ex_skill] l2))" "chained ex_learning_env l2"
  proof (rule learn_run)
    show "chained ex_learning_env (learning_ledger (ex_learned_db [] l1))" using o(2) by (simp add: ex_learned_db_def)
    show "current_observations (utc_datetime 8) (ex_learned_db [] l1)
        = Inr (map (\<lambda>i. reread_observation (ex_observation i (if i = ''o4'' then [''go''] else [''pack'', ''go'']))) [''o1'', ''o2'', ''o3'', ''o4''])"
      using ex_learned(1) by (simp add: current_observations_def ex_learned_db_def)
    show "learn_proposals (learning_uuid5 ex_learning_env)
        (map (\<lambda>i. reread_observation (ex_observation i (if i = ''o4'' then [''go''] else [''pack'', ''go'']))) [''o1'', ''o2'', ''o3'', ''o4'']) (utc_datetime 9)
        = [Skill ex_skill]" using ex_learned(2) by (simp only: ex_learning_env_def learning_env.simps)
  qed (auto simp: lesson_exists_def pattern_suppressed_def ex_learned_db_def new_learning_db_def)
  obtain l3 where a: "approve_lesson ex_learning_env ex_lesson ex_learning_ctx (idle (ex_learned_db [Skill ex_skill] l2))
      = (Inr (with_status LP_APPROVED (reread_lesson (Skill ex_skill))),
         idle (ex_learned_db [with_status LP_APPROVED (reread_lesson (Skill ex_skill))] l3))"
    using approve_run [of ex_learning_env "ex_learned_db [Skill ex_skill] l2" ex_lesson, OF _ ex_read, of ex_learning_ctx] l(2)
    by (auto simp: ex_learned_db_def lesson_row_of_def ex_skill_def)
  from o(1) l(1) a show ?thesis by (auto simp: ex_learning_ops_def run_append)
qed

theorem only_approved_is_routed_witness:
  "\<exists>es c p. learning_run ex_learning_env (ex_learning_ops @ [Approve_op ex_lesson ex_learning_ctx]) (idle new_learning_db) = (es, c)
     \<and> route_candidates (current c) = Inr [p] \<and> lesson_id p = ex_lesson \<and> (\<exists>q. Approved_lesson q \<in> set es \<and> p = reread_lesson q)"
proof -
  let ?q = "with_status LP_APPROVED (reread_lesson (Skill ex_skill))"
  obtain l where run: "learning_run ex_learning_env (ex_learning_ops @ [Approve_op ex_lesson ex_learning_ctx]) (idle new_learning_db)
      = ([Proposed_lessons [Skill ex_skill], Approved_lesson ?q], idle (ex_learned_db [?q] l))" using ex_learning_history by blast
  have v: "valid_lesson (reread_lesson ?q)" "lesson_id (reread_lesson ?q) = ex_lesson" "lesson_status ?q = LP_APPROVED" by code_simp+
  have r: "route_candidates (current (idle (ex_learned_db [?q] l))) = Inr [reread_lesson ?q]"
    using v(1,3) by (simp add: route_candidates_def ex_learned_db_def idle_def lesson_order_def lesson_row_of_def lesson_cell_def
        del: reread_lesson.simps with_status.simps lesson_status.simps)
  have "\<exists>q. Approved_lesson q \<in> set [Proposed_lessons [Skill ex_skill], Approved_lesson ?q] \<and> reread_lesson ?q = reread_lesson q"
    using only_approved_is_routed [OF run r] by simp
  with run r v(2) show ?thesis by blast
qed

definition learning_tombstone_of :: "learning_env \<Rightarrow> string \<Rightarrow> learning_proposal \<Rightarrow> transition_context \<Rightarrow> learning_tombstone" where
  "learning_tombstone_of env i p ctx = \<lparr>lt_proposal_id = i, lt_removed_at = isoformat (ctx_occurred_at ctx), lt_reason = ''user_deletion'',
     lt_source_fingerprint = learning_fingerprint env (dump_lesson env p), lt_pattern_fingerprint = learning_fingerprint env (pattern env p)\<rparr>"

lemma delete_run:
  assumes "chained env (learning_ledger db)" and "read_lesson i db = Inr p" and "i \<notin> lt_proposal_id ` set (learning_tombstones db)"
  obtains l where "delete_lesson env i (lesson_status p) ctx (idle db) = (Inr (), idle (db\<lparr>
     learning_proposals := filter (\<lambda>row. lq_proposal_id row \<noteq> i) (learning_proposals db),
     learning_tombstones := learning_tombstones db @ [learning_tombstone_of env i p ctx], learning_ledger := l\<rparr>))" "chained env l"
proof -
  let ?l = "(learning_ledger db)\<lparr>lifecycle_delete_allowed := False\<rparr>" and ?kept = "filter (\<lambda>row. lq_proposal_id row \<noteq> i) (learning_proposals db)"
  let ?db1 = "db\<lparr>learning_proposals := ?kept, learning_ledger := ?l\<rparr>"
  let ?db2 = "?db1\<lparr>learning_tombstones := learning_tombstones db @ [learning_tombstone_of env i p ctx]\<rparr>"
  have d: "delete_lesson_row i db = (Inr (), ?db1)"
    by (simp add: delete_lesson_row_def gated_delete_def authorize_lifecycle_delete_def revoke_lifecycle_delete_def Let_def)
  have t: "insert_learning_tombstone (learning_tombstone_of env i p ctx) ?db1 = (Inr (), ?db2)"
    using assms(3) by (simp add: insert_learning_tombstone_def learning_tombstone_of_def)
  obtain l where a: "learning_append env i ''deleted'' (learning_fingerprint env (dump_lesson env p)) ctx ?db2 = (Inr (), ?db2\<lparr>learning_ledger := l\<rparr>)"
    "chained env l" by (rule chained_append [of env ?db2]) (use assms(1) in simp_all)
  show thesis
    by (rule that [OF _ a(2)], unfold delete_lesson_def, rule verified_run [where x = p, OF assms(1)])
      (use assms(2) d t a(1) in \<open>simp_all add: require_expected_status_def require_def abind_def Let_def learning_tombstone_of_def\<close>)
qed

definition ex_update :: learning_proposal where
  "ex_update = Memory_Update \<lparr>mu_proposal_id = ''m1'', mu_category = MC_OBSERVATION, mu_content = ''Gym is usually deferred'',
     mu_supporting_observation_ids = [''x''], mu_confidence = 1, mu_explanation = ''3 deferred observations'', mu_status = LP_PROPOSED,
     mu_created_at = utc_datetime 1, mu_corrected_at = None, mu_correction_note = None\<rparr>"

theorem deleted_lessons_stay_deleted_witness:
  "\<exists>c1 es c2 q. delete_lesson ex_learning_env ''m1'' LP_PROPOSED ex_learning_ctx (idle (ex_learned_db [ex_update] new_ledger)) = (Inr (), c1)
     \<and> learning_run ex_learning_env [Learn_op (utc_datetime 8) (utc_datetime 9) ex_learning_ctx] c1 = (es, c2) \<and> q \<in> created_in es
     \<and> pattern ex_learning_env q \<noteq> ''Gym is usually deferred''"
proof -
  let ?db = "ex_learned_db [ex_update] new_ledger"
  have v: "valid_lesson (reread_lesson ex_update)" "lesson_id ex_update = ''m1''" "lesson_status (reread_lesson ex_update) = LP_PROPOSED"
    "pattern ex_learning_env (reread_lesson ex_update) = ''Gym is usually deferred''" by code_simp+
  have r: "read_lesson ''m1'' ?db = Inr (reread_lesson ex_update)"
    using v by (simp add: read_lesson_def ex_learned_db_def lesson_row_of_def lesson_cell_def del: reread_lesson.simps)
  have ch: "chained ex_learning_env (learning_ledger ?db)" by (simp add: ex_learned_db_def chained_new)
  obtain l where d: "delete_lesson ex_learning_env ''m1'' LP_PROPOSED ex_learning_ctx (idle ?db)
      = (Inr (), idle (ex_learned_db [] l\<lparr>learning_tombstones := [learning_tombstone_of ex_learning_env ''m1'' (reread_lesson ex_update) ex_learning_ctx]\<rparr>))"
    "chained ex_learning_env l"
    by (rule delete_run [OF ch r, of ex_learning_ctx, unfolded v(3)])
      (auto simp: ex_learned_db_def new_learning_db_def lesson_row_of_def v(2))
  let ?db1 = "ex_learned_db [] l\<lparr>learning_tombstones := [learning_tombstone_of ex_learning_env ''m1'' (reread_lesson ex_update) ex_learning_ctx]\<rparr>"
  obtain c2 where l2: "learn ex_learning_env (utc_datetime 8) (utc_datetime 9) ex_learning_ctx (idle ?db1) = (Inr [Skill ex_skill], c2)"
  proof (rule learn_run)
    show "chained ex_learning_env (learning_ledger ?db1)" using d(2) by (simp add: ex_learned_db_def)
    show "current_observations (utc_datetime 8) ?db1
        = Inr (map (\<lambda>i. reread_observation (ex_observation i (if i = ''o4'' then [''go''] else [''pack'', ''go'']))) [''o1'', ''o2'', ''o3'', ''o4''])"
      using ex_learned(1) by (simp add: current_observations_def ex_learned_db_def)
    show "learn_proposals (learning_uuid5 ex_learning_env)
        (map (\<lambda>i. reread_observation (ex_observation i (if i = ''o4'' then [''go''] else [''pack'', ''go'']))) [''o1'', ''o2'', ''o3'', ''o4'']) (utc_datetime 9)
        = [Skill ex_skill]" using ex_learned(2) by (simp only: ex_learning_env_def learning_env.simps)
    show "\<not> lesson_exists (lesson_id (Skill ex_skill)) ?db1" by (simp add: lesson_exists_def ex_learned_db_def new_learning_db_def)
    have "pattern ex_learning_env (Skill ex_skill) \<noteq> ''Gym is usually deferred''" by code_simp
    then show "\<not> pattern_suppressed ex_learning_env (Skill ex_skill) ?db1"
      using v(4) by (simp add: pattern_suppressed_def learning_tombstone_of_def learning_fingerprint_def ex_learning_env_def)
  qed
  then have run: "learning_run ex_learning_env [Learn_op (utc_datetime 8) (utc_datetime 9) ex_learning_ctx] (idle ?db1) = ([Proposed_lessons [Skill ex_skill]], c2)"
    by simp
  have "read_lesson ''m1'' (current (idle ?db)) = Inr (reread_lesson ex_update)" using r by (simp add: idle_def)
  from deleted_lessons_stay_deleted [OF this d(1) run, of "Skill ex_skill"] v(4)
  have "pattern ex_learning_env (Skill ex_skill) \<noteq> ''Gym is usually deferred''" by simp
  with d(1) run show ?thesis by (intro exI conjI) auto
qed

end
