(* ===== verification/Commander.thy ===== *)
theory Commander
  imports Leases
begin

text \<open>
  \<open>commander/\<close>: delegation routing and the dispatch of bounded worker requests to a replaceable runtime.  The runtime and the credential
  broker are protocols: actions on a state of their own that dispatch only passes on.
\<close>

section \<open>Contracts\<close>

datatype delegation_target = JARED | AGENT | ASSIST

record delegation_case =
  requires_jared_judgment :: bool
  independently_executable :: bool
  scope_is_complete :: bool

record delegation_decision =
  dd_target :: delegation_target
  dd_reason :: string

definition route_delegation :: "delegation_case \<Rightarrow> delegation_decision" where
  "route_delegation c =
     (if requires_jared_judgment c then \<lparr>dd_target = JARED, dd_reason = ''jared_judgment_required''\<rparr>
      else if independently_executable c \<and> scope_is_complete c then \<lparr>dd_target = AGENT, dd_reason = ''bounded_independent_execution''\<rparr>
      else \<lparr>dd_target = ASSIST, dd_reason = ''collaboration_required''\<rparr>)"

datatype worker_capability = CODE | BROWSER | COMPUTER | DOCUMENT | EXTERNAL_SEND

fun capability_value :: "worker_capability \<Rightarrow> string" where
  "capability_value CODE = ''code.execute''"
| "capability_value BROWSER = ''browser.execute''"
| "capability_value COMPUTER = ''computer.execute''"
| "capability_value DOCUMENT = ''document.execute''"
| "capability_value EXTERNAL_SEND = ''message.send''"

datatype runtime_class = Class_NOOP | Class_SANDBOX | Class_LIVE

datatype result_status = Result_SUCCEEDED | Result_FAILED | RETRY_EXHAUSTED | DENIED | UNAVAILABLE

datatype attempt_status = Attempt_SUCCEEDED | Attempt_FAILED | Attempt_RETRY

record worker_scope =
  sc_resources :: "string list"
  sc_operations :: "string list"

record worker_budget =
  bg_max_attempts :: nat
  bg_max_tokens :: int
  bg_max_cost_microunits :: int

record request_provenance =
  rq_source :: string
  rq_source_id :: string
  rq_actor :: string
  rq_correlation_id :: string

record worker_request =
  wr_request_id :: string
  wr_worker_id :: string
  wr_capability :: worker_capability
  wr_objective :: string
  wr_scope :: worker_scope
  wr_budget :: worker_budget
  wr_timeout_seconds :: int
  wr_provenance :: request_provenance
  wr_credential_references :: "string list"

definition valid_worker_request :: "worker_request \<Rightarrow> bool" where
  "valid_worker_request r \<longleftrightarrow> wr_worker_id r \<noteq> [] \<and> wr_objective r \<noteq> [] \<and> sc_resources (wr_scope r) \<noteq> [] \<and> sc_operations (wr_scope r) \<noteq> []
     \<and> [] \<notin> set (sc_resources (wr_scope r)) \<and> [] \<notin> set (sc_operations (wr_scope r))
     \<and> 1 \<le> bg_max_attempts (wr_budget r) \<and> bg_max_attempts (wr_budget r) \<le> 5 \<and> 1 \<le> bg_max_tokens (wr_budget r)
     \<and> 0 \<le> bg_max_cost_microunits (wr_budget r) \<and> 1 \<le> wr_timeout_seconds r \<and> wr_timeout_seconds r \<le> 3600
     \<and> rq_source (wr_provenance r) \<noteq> [] \<and> rq_source_id (wr_provenance r) \<noteq> [] \<and> rq_actor (wr_provenance r) \<noteq> []
     \<and> rq_correlation_id (wr_provenance r) \<noteq> [] \<and> [] \<notin> set (wr_credential_references r)"

definition worker_payload :: "worker_request \<Rightarrow> string" where
  "worker_payload r = json_dumps (JObject
     [(''request_id'', JString (wr_request_id r)), (''worker_id'', JString (wr_worker_id r)),
      (''capability'', JString (capability_value (wr_capability r))), (''objective'', JString (wr_objective r)),
      (''scope'', JObject [(''resources'', JList (map JString (sc_resources (wr_scope r)))), (''operations'', JList (map JString (sc_operations (wr_scope r))))]),
      (''budget'', JObject [(''max_attempts'', JInt (int (bg_max_attempts (wr_budget r)))), (''max_tokens'', JInt (bg_max_tokens (wr_budget r))),
         (''max_cost_microunits'', JInt (bg_max_cost_microunits (wr_budget r)))]),
      (''timeout'', JObject [(''seconds'', JInt (wr_timeout_seconds r))]),
      (''provenance'', JObject [(''source'', JString (rq_source (wr_provenance r))), (''source_id'', JString (rq_source_id (wr_provenance r))),
         (''actor'', JString (rq_actor (wr_provenance r))), (''correlation_id'', JString (rq_correlation_id (wr_provenance r)))]),
      (''credential_references'', JList (map JString (wr_credential_references r)))])"

fun authority_action_class :: "worker_capability \<Rightarrow> string" where
  "authority_action_class EXTERNAL_SEND = ''message.send''"
| "authority_action_class _ = ''worker.execute''"

record credential_grant =
  cg_reference :: string
  cg_handle :: string
  cg_expires_at :: datetime
  cg_request_id :: "string option"
  cg_capability :: "worker_capability option"
  cg_issued_at :: "datetime option"

record runtime_descriptor =
  rd_name :: string
  rd_version :: string
  rd_execution_class :: runtime_class

record attempt_result =
  at_status :: attempt_status
  at_detail :: string
  at_output_reference :: "string option"

text \<open>\<open>require_output_for_success\<close>\<close>

definition valid_attempt :: "attempt_result \<Rightarrow> bool" where
  "valid_attempt a \<longleftrightarrow> at_detail a \<noteq> [] \<and> \<not> (at_status a = Attempt_SUCCEEDED \<and> py_or (at_output_reference a) [] = [])"

definition attempt_succeeded :: "string \<Rightarrow> attempt_result" where
  "attempt_succeeded reference = \<lparr>at_status = Attempt_SUCCEEDED, at_detail = ''completed'', at_output_reference = Some reference\<rparr>"

definition attempt_failed :: "string \<Rightarrow> attempt_result" where
  "attempt_failed reason = \<lparr>at_status = Attempt_FAILED, at_detail = reason, at_output_reference = None\<rparr>"

definition attempt_retry :: "string \<Rightarrow> attempt_result" where
  "attempt_retry reason = \<lparr>at_status = Attempt_RETRY, at_detail = reason, at_output_reference = None\<rparr>"

record worker_result =
  wo_status :: result_status
  wo_detail :: string
  wo_attempts :: nat
  wo_request_id :: string
  wo_runtime :: runtime_descriptor
  wo_output_reference :: "string option"

record dispatch_authorization =
  da_proposal :: proposal_record
  da_lease :: capability_lease

datatype worker_error = CredentialUnavailableError string | WorkerValueError string | WorkerKeyError string | WorkerAssertionError string

record 'r worker_runtime =
  rt_descriptor :: runtime_descriptor
  rt_execute :: "worker_request \<Rightarrow> credential_grant list \<Rightarrow> ('r, worker_error, attempt_result) action"

type_synonym 'r credential_broker = "worker_request \<Rightarrow> ('r, worker_error, credential_grant list) action"

definition no_credential_broker :: "'r credential_broker" where
  "no_credential_broker r =
     (case wr_credential_references r of [] \<Rightarrow> areturn [] | reference # _ \<Rightarrow> araise (CredentialUnavailableError reference))"

section \<open>Dispatch\<close>

definition NO_WORKER_RUNTIME :: runtime_descriptor where
  "NO_WORKER_RUNTIME = \<lparr>rd_name = ''none'', rd_version = ''none'', rd_execution_class = Class_NOOP\<rparr>"

definition PROTECTED_CAPABILITIES :: "worker_capability set" where
  "PROTECTED_CAPABILITIES = {BROWSER, COMPUTER, DOCUMENT, EXTERNAL_SEND}"

record 'r commander =
  cm_runtime :: "'r worker_runtime option"
  cm_broker :: "'r credential_broker"
  cm_promoted :: "worker_capability set"

record 'r commander_world =
  kw_issuer :: "lease_issuer option"
  kw_runtime :: 'r

definition runtime_is_live :: "'r commander \<Rightarrow> bool" where
  "runtime_is_live cm = (case cm_runtime cm of None \<Rightarrow> False | Some rt \<Rightarrow> rd_execution_class (rt_descriptor rt) = Class_LIVE)"

definition binding_denial :: "worker_request \<Rightarrow> proposal_record \<Rightarrow> capability_lease \<Rightarrow> string option" where
  "binding_denial r p lease =
     map_option snd (find fst
       [(proposal_state_of p \<noteq> APPROVED, ''approved_proposal_required''),
        (action_class p \<noteq> authority_action_class (wr_capability r), ''proposal_action_class_mismatch''),
        (payload p \<noteq> worker_payload r, ''proposal_payload_mismatch''),
        (capability lease \<noteq> capability_value (wr_capability r), ''lease_capability_mismatch''),
        (worker_id lease \<noteq> wr_worker_id r, ''lease_worker_mismatch'')])"

fun lease_error_text :: "lease_error \<Rightarrow> string" where
  "lease_error_text (LeaseViolationError m) = m"
| "lease_error_text (KeyValueError m) = m"

definition authorization_denial ::
  "authority_env \<Rightarrow> (string \<Rightarrow> string \<Rightarrow> string) \<Rightarrow> instant \<Rightarrow> 'r commander \<Rightarrow> worker_request \<Rightarrow> dispatch_authorization option
   \<Rightarrow> lease_issuer option \<Rightarrow> string option \<times> lease_issuer option" where
  "authorization_denial env hmac now cm r auth issuer =
     (if wr_capability r = CODE \<and> runtime_is_live cm then (Some ''live_code_execution_disabled'', issuer)
      else if wr_capability r \<notin> PROTECTED_CAPABILITIES then (None, issuer)
      else if wr_capability r \<in> {BROWSER, COMPUTER, DOCUMENT} \<and> runtime_is_live cm \<and> wr_capability r \<notin> cm_promoted cm
      then (Some ''live_capability_not_promoted'', issuer)
      else case auth of
          None \<Rightarrow> (Some ''capability_lease_required'', issuer)
        | Some d \<Rightarrow>
            (case issuer of
               None \<Rightarrow> (Some ''capability_lease_verifier_unavailable'', issuer)
             | Some iss \<Rightarrow>
                 (case binding_denial r (da_proposal d) (da_lease d) of
                    Some why \<Rightarrow> (Some why, issuer)
                  | None \<Rightarrow>
                      (case verify_lease env hmac now (da_lease d) (da_proposal d) iss of
                         (Inl e, iss') \<Rightarrow> (Some (lease_error_text e), Some iss')
                       | (Inr _, iss') \<Rightarrow> (None, Some iss')))))"

definition commander_result :: "'r commander \<Rightarrow> worker_request \<Rightarrow> result_status \<Rightarrow> string \<Rightarrow> nat \<Rightarrow> string option \<Rightarrow> worker_result" where
  "commander_result cm r st detail attempts reference =
     \<lparr>wo_status = st, wo_detail = detail, wo_attempts = attempts, wo_request_id = wr_request_id r,
      wo_runtime = (case cm_runtime cm of None \<Rightarrow> NO_WORKER_RUNTIME | Some rt \<Rightarrow> rt_descriptor rt), wo_output_reference = reference\<rparr>"

text \<open>The loop \<open>for attempt in range(1, max_attempts + 1)\<close>, with the number of attempts left; it always returns inside.\<close>

fun attempt_loop ::
  "'r commander \<Rightarrow> 'r worker_runtime \<Rightarrow> worker_request \<Rightarrow> credential_grant list \<Rightarrow> nat \<Rightarrow> nat \<Rightarrow> ('r, worker_error, worker_result) action" where
  "attempt_loop cm rt r grants attempt 0 = araise (WorkerAssertionError (wr_request_id r))"
| "attempt_loop cm rt r grants attempt (Suc left) =
     abind (rt_execute rt r grants) (\<lambda>out.
       case at_status out of
         Attempt_SUCCEEDED \<Rightarrow> areturn (commander_result cm r Result_SUCCEEDED (at_detail out) attempt (at_output_reference out))
       | Attempt_FAILED \<Rightarrow> areturn (commander_result cm r Result_FAILED (at_detail out) attempt None)
       | Attempt_RETRY \<Rightarrow>
           if attempt = bg_max_attempts (wr_budget r) then areturn (commander_result cm r RETRY_EXHAUSTED (at_detail out) attempt None)
           else attempt_loop cm rt r grants (attempt + 1) left)"

definition run_worker :: "'r commander \<Rightarrow> 'r worker_runtime \<Rightarrow> worker_request \<Rightarrow> ('r, worker_error, worker_result) action" where
  "run_worker cm rt r s =
     (case cm_broker cm r s of
        (Inl (CredentialUnavailableError reference), s') \<Rightarrow>
          (Inr (commander_result cm r DENIED (''credential reference is unavailable: '' @ reference) 0 None), s')
      | (Inl e, s') \<Rightarrow> (Inl e, s')
      | (Inr grants, s') \<Rightarrow> attempt_loop cm rt r grants 1 (bg_max_attempts (wr_budget r)) s')"

definition dispatch ::
  "authority_env \<Rightarrow> (string \<Rightarrow> string \<Rightarrow> string) \<Rightarrow> instant \<Rightarrow> 'r commander \<Rightarrow> worker_request \<Rightarrow> dispatch_authorization option
   \<Rightarrow> ('r commander_world, worker_error, worker_result) action" where
  "dispatch env hmac now cm r auth w =
     (let (denial, issuer) = authorization_denial env hmac now cm r auth (kw_issuer w); w1 = w\<lparr>kw_issuer := issuer\<rparr> in
      case denial of
        Some why \<Rightarrow> (Inr (commander_result cm r DENIED why 0 None), w1)
      | None \<Rightarrow>
          (case cm_runtime cm of
             None \<Rightarrow> (Inr (commander_result cm r UNAVAILABLE ''no_worker_configured'' 0 None), w1)
           | Some rt \<Rightarrow> (case run_worker cm rt r (kw_runtime w1) of (out, s) \<Rightarrow> (out, w1\<lparr>kw_runtime := s\<rparr>))))"

section \<open>Attempts\<close>

lemma attempt_loop_bounded:
  "attempt_loop cm rt r grants k n s = (Inr x, s') \<Longrightarrow> k + n = Suc (bg_max_attempts (wr_budget r)) \<Longrightarrow>
     k \<le> wo_attempts x \<and> wo_attempts x \<le> bg_max_attempts (wr_budget r)"
proof (induction n arbitrary: k s)
  case (Suc n)
  from Suc.prems(1) obtain out s1 where e: "rt_execute rt r grants s = (Inr out, s1)"
    unfolding attempt_loop.simps abind_Inr_iff by blast
  have le: "k \<le> bg_max_attempts (wr_budget r)" using Suc.prems(2) by simp
  show ?case
  proof (cases "at_status out = Attempt_RETRY \<and> k \<noteq> bg_max_attempts (wr_budget r)")
    case True
    with Suc.prems e have "attempt_loop cm rt r grants (k + 1) n s1 = (Inr x, s')" by (simp add: abind_def)
    from Suc.IH [OF this] Suc.prems(2) show ?thesis by simp
  next
    case False
    with Suc.prems(1) e have "wo_attempts x = k" by (cases "at_status out") (auto simp: abind_def commander_result_def)
    with le show ?thesis by simp
  qed
qed simp

text \<open>The loop never falls through: what it raises, the runtime raised.\<close>

lemma attempt_loop_total:
  assumes "\<And>s e s'. rt_execute rt r grants s \<noteq> (Inl e, s')"
  shows "k + Suc n = Suc (bg_max_attempts (wr_budget r)) \<Longrightarrow> \<exists>x s'. attempt_loop cm rt r grants k (Suc n) s = (Inr x, s')"
proof (induction n arbitrary: k s)
  case 0
  obtain out s' where "rt_execute rt r grants s = (Inr out, s')" using assms by (metis sum.exhaust prod.collapse)
  with 0 show ?case by (simp add: abind_def split: attempt_status.split)
next
  case (Suc n)
  obtain out s' where "rt_execute rt r grants s = (Inr out, s')" using assms by (metis sum.exhaust prod.collapse)
  with Suc show ?case by (simp add: abind_def split: attempt_status.split)
qed

section \<open>Properties\<close>

lemma binding_denial_None:
  "binding_denial r p lease = None \<longleftrightarrow> proposal_state_of p = APPROVED \<and> action_class p = authority_action_class (wr_capability r)
     \<and> payload p = worker_payload r \<and> capability lease = capability_value (wr_capability r) \<and> worker_id lease = wr_worker_id r"
  by (auto simp: binding_denial_def)

lemma authorization_passed:
  assumes "authorization_denial env hmac now cm r auth issuer = (None, issuer')"
  shows "\<not> (wr_capability r = CODE \<and> runtime_is_live cm)"
    and "wr_capability r \<noteq> CODE \<Longrightarrow> \<exists>p lease iss v iss'. auth = Some \<lparr>da_proposal = p, da_lease = lease\<rparr> \<and> issuer = Some iss \<and> issuer' = Some iss'
        \<and> binding_denial r p lease = None \<and> verify_lease env hmac now lease p iss = (Inr v, iss')
        \<and> (runtime_is_live cm \<and> wr_capability r \<noteq> EXTERNAL_SEND \<longrightarrow> wr_capability r \<in> cm_promoted cm)"
proof -
  show "\<not> (wr_capability r = CODE \<and> runtime_is_live cm)" using assms by (auto simp: authorization_denial_def)
  assume "wr_capability r \<noteq> CODE"
  then have "wr_capability r \<in> PROTECTED_CAPABILITIES" by (cases "wr_capability r") (auto simp: PROTECTED_CAPABILITIES_def)
  with assms \<open>wr_capability r \<noteq> CODE\<close> show "\<exists>p lease iss v iss'. auth = Some \<lparr>da_proposal = p, da_lease = lease\<rparr> \<and> issuer = Some iss \<and> issuer' = Some iss'
        \<and> binding_denial r p lease = None \<and> verify_lease env hmac now lease p iss = (Inr v, iss')
        \<and> (runtime_is_live cm \<and> wr_capability r \<noteq> EXTERNAL_SEND \<longrightarrow> wr_capability r \<in> cm_promoted cm)"
    by (cases "wr_capability r"; cases auth; cases issuer; cases "the auth")
      (auto simp: authorization_denial_def split: if_splits option.splits prod.splits sum.splits)
qed

lemma run_worker_bounded: "run_worker cm rt r s = (Inr x, s') \<Longrightarrow> wo_attempts x \<le> bg_max_attempts (wr_budget r)"
  by (auto simp: run_worker_def commander_result_def split: prod.splits sum.splits worker_error.splits dest!: attempt_loop_bounded)

lemma verify_lease_checks:
  assumes "verify_lease env hmac now lease p issuer = (Inr v, issuer')"
  shows "ring_verify hmac (issuer_keys issuer) (lease_payload lease) (lease_signature lease)" and "fact_proposal_id lease = proposal_id p"
    and "fact_payload_hash lease = payload_hash env p" and "\<not> dt_le (expires_at lease) (utc_datetime now)"
  using assms by (auto simp: verify_lease_def split: if_splits)

text \<open>What an authorization has to be for a protected request to reach the runtime.\<close>

definition dispatch_authorized :: "authority_env \<Rightarrow> (string \<Rightarrow> string \<Rightarrow> string) \<Rightarrow> instant \<Rightarrow> lease_issuer \<Rightarrow> worker_request \<Rightarrow> dispatch_authorization \<Rightarrow> bool" where
  "dispatch_authorized env hmac now iss r d \<longleftrightarrow>
     (let p = da_proposal d; lease = da_lease d in
      proposal_state_of p = APPROVED \<and> action_class p = authority_action_class (wr_capability r) \<and> payload p = worker_payload r
      \<and> capability lease = capability_value (wr_capability r) \<and> worker_id lease = wr_worker_id r
      \<and> ring_verify hmac (issuer_keys iss) (lease_payload lease) (lease_signature lease) \<and> fact_proposal_id lease = proposal_id p
      \<and> fact_payload_hash lease = payload_hash env p \<and> \<not> dt_le (expires_at lease) (utc_datetime now)
      \<and> fact_id lease \<notin> lease_consumed iss)"

lemma dispatch_authorizedI:
  "binding_denial r p lease = None \<Longrightarrow> verify_lease env hmac now lease p iss = (Inr v, iss') \<Longrightarrow>
     dispatch_authorized env hmac now iss r \<lparr>da_proposal = p, da_lease = lease\<rparr>"
  using verify_lease_checks verify_lease_Inr(1) by (auto simp: dispatch_authorized_def binding_denial_None Let_def)

lemma dispatch_reaches:
  assumes "dispatch env hmac now cm r auth w = (out, w')"
    and "kw_runtime w' \<noteq> kw_runtime w \<or> (\<exists>x. out = Inr x \<and> 0 < wo_attempts x)"
  shows "authorization_denial env hmac now cm r auth (kw_issuer w) = (None, kw_issuer w')"
    and "out = Inr x \<Longrightarrow> wo_attempts x \<le> bg_max_attempts (wr_budget r)"
  using assms by (auto simp: dispatch_def Let_def commander_result_def split: prod.splits option.splits dest: run_worker_bounded)

text \<open>
  C36: Commander.dispatch is lease constrained.  Whenever a dispatch reaches the worker - the state behind the credential broker and
  the runtime changed, or the result reports an attempt - then coding was not requested of a live runtime; and for browser, computer,
  document and sending work there was an approved proposal whose action class and payload are exactly those of the request, and a
  lease for that capability and worker with the issuer's signature, bound to the proposal and its hash, not expired and not used
  before, which the dispatch used up; a live browser, computer or document runtime was promoted.  No result reports more attempts
  than the request's budget.
\<close>
theorem dispatch_is_leased:
  assumes "dispatch env hmac now cm r auth w = (out, w')"
    and "kw_runtime w' \<noteq> kw_runtime w \<or> (\<exists>x. out = Inr x \<and> 0 < wo_attempts x)"
  shows "\<not> (wr_capability r = CODE \<and> runtime_is_live cm)
     \<and> (wr_capability r \<noteq> CODE \<longrightarrow> (\<exists>d iss. auth = Some d \<and> kw_issuer w = Some iss \<and> dispatch_authorized env hmac now iss r d
          \<and> kw_issuer w' = Some (iss\<lparr>lease_consumed := insert (fact_id (da_lease d)) (lease_consumed iss)\<rparr>)
          \<and> (runtime_is_live cm \<and> wr_capability r \<noteq> EXTERNAL_SEND \<longrightarrow> wr_capability r \<in> cm_promoted cm)))
     \<and> (\<forall>x. out = Inr x \<longrightarrow> wo_attempts x \<le> bg_max_attempts (wr_budget r))"
proof (intro conjI allI impI)
  note passed = authorization_passed [OF dispatch_reaches(1) [OF assms]]
  show "\<not> (wr_capability r = CODE \<and> runtime_is_live cm)" by (rule passed(1))
  show "wo_attempts x \<le> bg_max_attempts (wr_budget r)" if "out = Inr x" for x using dispatch_reaches(2) [OF assms that] .
  assume "wr_capability r \<noteq> CODE"
  from passed(2) [OF this] obtain p lease iss v iss' where f: "auth = Some \<lparr>da_proposal = p, da_lease = lease\<rparr>" "kw_issuer w = Some iss"
    "kw_issuer w' = Some iss'" "binding_denial r p lease = None" "verify_lease env hmac now lease p iss = (Inr v, iss')"
    "runtime_is_live cm \<and> wr_capability r \<noteq> EXTERNAL_SEND \<longrightarrow> wr_capability r \<in> cm_promoted cm" by blast
  show "\<exists>d iss. auth = Some d \<and> kw_issuer w = Some iss \<and> dispatch_authorized env hmac now iss r d
          \<and> kw_issuer w' = Some (iss\<lparr>lease_consumed := insert (fact_id (da_lease d)) (lease_consumed iss)\<rparr>)
          \<and> (runtime_is_live cm \<and> wr_capability r \<noteq> EXTERNAL_SEND \<longrightarrow> wr_capability r \<in> cm_promoted cm)"
    using f dispatch_authorizedI [OF f(4,5)] verify_lease_Inr(2) [OF f(5)]
    by (intro exI [of _ "\<lparr>da_proposal = p, da_lease = lease\<rparr>"] exI [of _ iss]) simp
qed

definition ex_worker_request :: worker_request where
  "ex_worker_request = \<lparr>wr_request_id = ''r1'', wr_worker_id = ''w1'', wr_capability = BROWSER, wr_objective = ''look'',
     wr_scope = \<lparr>sc_resources = [''https://a''], sc_operations = [''read'']\<rparr>,
     wr_budget = \<lparr>bg_max_attempts = 2, bg_max_tokens = 1, bg_max_cost_microunits = 0\<rparr>, wr_timeout_seconds = 60,
     wr_provenance = \<lparr>rq_source = ''s'', rq_source_id = ''1'', rq_actor = ''user'', rq_correlation_id = ''c''\<rparr>,
     wr_credential_references = []\<rparr>"

definition ex_worker_proposal :: proposal_record where
  "ex_worker_proposal = \<lparr>proposal_id = ''p1'', action_class = ''worker.execute'', payload = worker_payload ex_worker_request,
     proposal_state_of = APPROVED, created_at = utc_datetime 0\<rparr>"

text \<open>A sandbox runtime that counts its executions and asks for a retry on the first.\<close>

definition ex_runtime :: "nat worker_runtime" where
  "ex_runtime = \<lparr>rt_descriptor = \<lparr>rd_name = ''box'', rd_version = ''1'', rd_execution_class = Class_SANDBOX\<rparr>,
     rt_execute = (\<lambda>r grants n. (Inr (if n = 0 then attempt_retry ''busy'' else attempt_succeeded ''out''), Suc n))\<rparr>"

definition ex_commander :: "nat commander" where
  "ex_commander = \<lparr>cm_runtime = Some ex_runtime, cm_broker = no_credential_broker, cm_promoted = {}\<rparr>"

theorem dispatch_is_leased_witness:
  "\<exists>lease x w'. issue ex_lease_env ex_hmac 0 ''l1'' ex_issuer ex_worker_proposal (ex_lease_request ''browser.execute'' ''w1'') = Inr lease
     \<and> dispatch ex_lease_env ex_hmac 30 ex_commander ex_worker_request (Some \<lparr>da_proposal = ex_worker_proposal, da_lease = lease\<rparr>)
         \<lparr>kw_issuer = Some ex_issuer, kw_runtime = 0\<rparr> = (Inr x, w')
     \<and> wo_status x = Result_SUCCEEDED \<and> wo_attempts x = 2 \<and> kw_runtime w' = 2
     \<and> dispatch_authorized ex_lease_env ex_hmac 30 ex_issuer ex_worker_request \<lparr>da_proposal = ex_worker_proposal, da_lease = lease\<rparr>"
proof -
  obtain lease where l: "issue ex_lease_env ex_hmac 0 ''l1'' ex_issuer ex_worker_proposal (ex_lease_request ''browser.execute'' ''w1'') = Inr lease"
    by (auto simp: issue_def ex_worker_proposal_def Let_def)
  note f = issue_Inr [OF l]
  have c: "capability lease = ''browser.execute''" "worker_id lease = ''w1''"
    using l by (auto simp: issue_def ex_lease_request_def Let_def split: if_splits)
  let ?d = "\<lparr>da_proposal = ex_worker_proposal, da_lease = lease\<rparr>" and ?w = "\<lparr>kw_issuer = Some ex_issuer, kw_runtime = 0::nat\<rparr>"
  have "binding_denial ex_worker_request ex_worker_proposal lease = None"
    using c by (simp add: binding_denial_None ex_worker_proposal_def ex_worker_request_def)
  moreover obtain v where "verify_lease ex_lease_env ex_hmac 30 lease ex_worker_proposal ex_issuer
      = (Inr v, ex_issuer\<lparr>lease_consumed := insert (fact_id lease) (lease_consumed ex_issuer)\<rparr>)"
    using f by (auto simp: verify_lease_def ring_verify_def ex_issuer_def new_lease_issuer_def)
  ultimately have a: "authorization_denial ex_lease_env ex_hmac 30 ex_commander ex_worker_request (Some ?d) (Some ex_issuer)
      = (None, Some (ex_issuer\<lparr>lease_consumed := insert (fact_id lease) (lease_consumed ex_issuer)\<rparr>))"
    by (simp add: authorization_denial_def PROTECTED_CAPABILITIES_def runtime_is_live_def ex_commander_def ex_runtime_def ex_worker_request_def)
  obtain x w' where d: "dispatch ex_lease_env ex_hmac 30 ex_commander ex_worker_request (Some ?d) ?w = (Inr x, w')"
      and x: "wo_status x = Result_SUCCEEDED" "wo_attempts x = 2" "kw_runtime w' = 2"
    using a by (simp add: dispatch_def run_worker_def ex_commander_def ex_runtime_def ex_worker_request_def no_credential_broker_def areturn_def
        abind_def attempt_retry_def attempt_succeeded_def commander_result_def numeral_2_eq_2)
  have "\<exists>d' iss. Some ?d = Some d' \<and> kw_issuer ?w = Some iss \<and> dispatch_authorized ex_lease_env ex_hmac 30 iss ex_worker_request d'"
    using dispatch_is_leased [OF d] x(3) by (auto simp: ex_worker_request_def)
  with l d x show ?thesis by auto
qed

end
