(* ===== verification/Url_Split.thy ===== *)
theory Url_Split
  imports Prelude
begin

text \<open>
  \<open>urllib.parse.urlsplit\<close>, as far as the worker sandbox uses it: scheme, user information, host and port of a resource.  The Unicode
  normalization of a host that is not ASCII, lower-casing it, and the check of an address in brackets by \<open>ipaddress\<close> are parameters.
\<close>

section \<open>Splitting\<close>

record url_env =
  netloc_ok :: "string \<Rightarrow> bool"
  bracketed_ok :: "string \<Rightarrow> bool"
  lower_text :: "string \<Rightarrow> string"

definition ascii_char :: "char \<Rightarrow> bool" where
  "ascii_char c \<longleftrightarrow> of_char c < (128 :: nat)"

definition ascii_alpha :: "char \<Rightarrow> bool" where
  "ascii_alpha c \<longleftrightarrow> (CHR ''a'' \<le> c \<and> c \<le> CHR ''z'') \<or> (CHR ''A'' \<le> c \<and> c \<le> CHR ''Z'')"

definition ascii_digit :: "char \<Rightarrow> bool" where
  "ascii_digit c \<longleftrightarrow> CHR ''0'' \<le> c \<and> c \<le> CHR ''9''"

definition ascii_lower :: "char \<Rightarrow> char" where
  "ascii_lower c = (if CHR ''A'' \<le> c \<and> c \<le> CHR ''Z'' then char_of (of_char c + 32 :: nat) else c)"

definition scheme_char :: "char \<Rightarrow> bool" where
  "scheme_char c \<longleftrightarrow> ascii_alpha c \<or> ascii_digit c \<or> c \<in> set ''+-.''"

definition c0_or_space :: "char \<Rightarrow> bool" where
  "c0_or_space c \<longleftrightarrow> of_char c \<le> (32 :: nat)"

definition clean_url :: "string \<Rightarrow> string" where
  "clean_url url = filter (\<lambda>c. c \<notin> {CHR 0x09, CHR 0x0D, CHR 0x0A}) (dropWhile c0_or_space url)"

text \<open>The text before the first occurrence of a character, and the text after it.\<close>

definition before :: "char \<Rightarrow> string \<Rightarrow> string" where
  "before c s = takeWhile (\<lambda>x. x \<noteq> c) s"

definition after :: "char \<Rightarrow> string \<Rightarrow> string" where
  "after c s = tl (dropWhile (\<lambda>x. x \<noteq> c) s)"

definition after_last :: "char \<Rightarrow> string \<Rightarrow> string" where
  "after_last c s = rev (takeWhile (\<lambda>x. x \<noteq> c) (rev s))"

definition has_scheme :: "string \<Rightarrow> bool" where
  "has_scheme url \<longleftrightarrow> CHR '':'' \<in> set url \<and> url \<noteq> [] \<and> ascii_alpha (hd url) \<and> list_all scheme_char (before (CHR '':'') url)"

definition url_scheme :: "string \<Rightarrow> string" where
  "url_scheme url = (if has_scheme url then map ascii_lower (before (CHR '':'') url) else [])"

definition url_rest :: "string \<Rightarrow> string" where
  "url_rest url = (if has_scheme url then after (CHR '':'') url else url)"

definition url_netloc :: "string \<Rightarrow> string" where
  "url_netloc rest = (if take 2 rest = ''//'' then takeWhile (\<lambda>c. c \<notin> set ''/?#'') (drop 2 rest) else [])"

text \<open>\<open>urlsplit\<close> raises \<open>ValueError\<close> on a network location it cannot accept.\<close>

definition urlsplit :: "url_env \<Rightarrow> string \<Rightarrow> (string \<times> string) option" where
  "urlsplit env resource =
     (let url = clean_url resource; netloc = url_netloc (url_rest url) in
      if (CHR ''['' \<in> set netloc) \<noteq> (CHR '']'' \<in> set netloc) then None
      else if CHR ''['' \<in> set netloc \<and> \<not> bracketed_ok env netloc then None
      else if \<not> list_all ascii_char netloc \<and> \<not> netloc_ok env netloc then None
      else Some (url_scheme url, netloc))"

section \<open>The parts of a network location\<close>

definition host_info :: "string \<Rightarrow> string \<times> string" where
  "host_info netloc =
     (let info = after_last (CHR ''@'') netloc in
      if CHR ''['' \<in> set info
      then let bracketed = after (CHR ''['') info in (before (CHR '']'') bracketed, after (CHR '':'') (after (CHR '']'') bracketed))
      else (before (CHR '':'') info, after (CHR '':'') info))"

definition has_userinfo :: "string \<Rightarrow> bool" where
  "has_userinfo netloc \<longleftrightarrow> CHR ''@'' \<in> set netloc"

definition url_hostname :: "url_env \<Rightarrow> string \<Rightarrow> string option" where
  "url_hostname env netloc =
     (let host = fst (host_info netloc) in
      if host = [] then None
      else Some (lower_text env (before (CHR ''%'') host) @ dropWhile (\<lambda>x. x \<noteq> CHR ''%'') host))"

definition port_value :: "string \<Rightarrow> nat" where
  "port_value s = foldl (\<lambda>n c. 10 * n + (of_char c - 48)) 0 s"

text \<open>\<open>port\<close> raises \<open>ValueError\<close> (\<open>None\<close> here) on a text that is no number up to 65535.\<close>

definition url_port :: "string \<Rightarrow> nat option option" where
  "url_port netloc =
     (let port = snd (host_info netloc) in
      if port = [] then Some None
      else if list_all ascii_digit port \<and> port_value port \<le> 65535 then Some (Some (port_value port)) else None)"

section \<open>What a plain location looks like\<close>

lemma before_after: "c \<in> set s \<Longrightarrow> s = before c s @ [c] @ after c s"
  by (induction s) (auto simp: before_def after_def)

lemma before_all: "c \<notin> set s \<Longrightarrow> before c s = s \<and> after c s = []"
  by (induction s) (auto simp: before_def after_def)

lemma before_free: "c \<notin> set (before c s)"
  by (auto simp: before_def dest: set_takeWhileD)

lemma after_last_free: "c \<notin> set s \<Longrightarrow> after_last c s = s"
proof -
  assume "c \<notin> set s"
  then have "takeWhile (\<lambda>x. x \<noteq> c) (rev s) = rev s" by (intro takeWhile_eq_all_conv [THEN iffD2]) auto
  then show ?thesis by (simp only: after_last_def rev_rev_ident)
qed

text \<open>
  A URL with a scheme and a location without user information and brackets is the scheme, two slashes, the host, perhaps a colon and the
  port, and a rest that is empty or starts with a slash, a question mark or a number sign.
\<close>

lemma url_shape:
  assumes "has_scheme url" and "url_netloc (url_rest url) = netloc" and "netloc \<noteq> []" and "\<not> has_userinfo netloc" and "CHR ''['' \<notin> set netloc"
    and "host_info netloc = (host, port)"
  shows "\<exists>scheme colon rest. url = scheme @ ''://'' @ host @ colon @ port @ rest \<and> map ascii_lower scheme = url_scheme url
     \<and> colon \<in> {[], '':''} \<and> (port \<noteq> [] \<longrightarrow> colon = '':'') \<and> (rest = [] \<or> hd rest \<in> set ''/?#'')
     \<and> set host \<inter> set '':/?#@['' = {}"
proof -
  let ?s = "before (CHR '':'') url" and ?r = "after (CHR '':'') url"
  have u: "url = ?s @ [CHR '':''] @ ?r" using assms(1) by (intro before_after) (simp add: has_scheme_def)
  have r: "url_rest url = ?r" using assms(1) by (simp add: url_rest_def)
  have two: "take 2 ?r = ''//''" using assms(2,3) by (auto simp: r url_netloc_def split: if_splits)
  let ?rest = "dropWhile (\<lambda>c. c \<notin> set ''/?#'') (drop 2 ?r)"
  have n: "netloc = takeWhile (\<lambda>c. c \<notin> set ''/?#'') (drop 2 ?r)" using assms(2) two by (simp add: r url_netloc_def)
  have d: "?r = ''//'' @ netloc @ ?rest" using two append_take_drop_id [of 2 ?r] unfolding n by (metis takeWhile_dropWhile_id)
  have rest: "?rest = [] \<or> hd ?rest \<in> set ''/?#''" using hd_dropWhile [of "\<lambda>c. c \<notin> set ''/?#''" "drop 2 ?r"] by auto
  have info: "after_last (CHR ''@'') netloc = netloc" using assms(4) by (intro after_last_free) (simp add: has_userinfo_def)
  have h: "host = before (CHR '':'') netloc" "port = after (CHR '':'') netloc" using assms(5,6) by (simp_all add: host_info_def info)
  have free: "set netloc \<inter> set ''/?#'' = {}" unfolding n using set_takeWhileD by fastforce
  have sub: "set host \<subseteq> set netloc" unfolding h(1) before_def by (meson set_takeWhileD subsetI)
  have hf: "set host \<inter> set '':/?#@['' = {}"
    using before_free [of "CHR '':''" netloc] free sub assms(4,5) unfolding h(1) has_userinfo_def by auto
  have l: "map ascii_lower ?s = url_scheme url" using assms(1) by (simp add: url_scheme_def)
  obtain colon where c: "netloc = host @ colon @ port" "colon \<in> {[], '':''}" "port \<noteq> [] \<longrightarrow> colon = '':''"
  proof (cases "CHR '':'' \<in> set netloc")
    case True
    from before_after [OF this] show thesis by (intro that [of "'':''"]) (simp_all add: h)
  next
    case False
    from before_all [OF this] show thesis by (intro that [of "[]"]) (simp_all add: h)
  qed
  have "url = ?s @ ''://'' @ host @ colon @ port @ ?rest" using u d c(1) by (metis append.assoc append_Cons append_Nil)
  with l c rest hf show ?thesis by blast
qed

end
