(* ===== verification/Workers.thy ===== *)
theory Workers
  imports Commander Learner Url_Split "HOL-Library.Sublist"
begin

text \<open>
  \<open>workers/\<close>: request-scoped credential handles, the authority profiles, and the sandbox runtime behind the commander.  Resolving a
  path of the file system to its parts is a parameter.
\<close>

section \<open>Credentials\<close>

datatype gate_error = CredentialGateError string | GateTypeError

record scoped_issuer =
  si_signing_key :: string
  si_ttl :: int
  si_consumed :: "string set"

definition sign_credential :: "(string \<Rightarrow> string \<Rightarrow> string) \<Rightarrow> scoped_issuer \<Rightarrow> worker_request \<Rightarrow> string \<Rightarrow> string \<Rightarrow> string \<Rightarrow> string" where
  "sign_credential hmac issuer r reference issued expires =
     hmac (si_signing_key issuer) (join [CHR 0x1F]
       [wr_request_id r, wr_worker_id r, capability_value (wr_capability r), reference, issued, expires])"

definition issue_credentials :: "(string \<Rightarrow> string \<Rightarrow> string) \<Rightarrow> instant \<Rightarrow> scoped_issuer \<Rightarrow> worker_request \<Rightarrow> credential_grant list" where
  "issue_credentials hmac now issuer r =
     map (\<lambda>reference. \<lparr>cg_reference = reference,
        cg_handle = sign_credential hmac issuer r reference (isoformat (utc_datetime now)) (isoformat (utc_datetime (now + si_ttl issuer))),
        cg_expires_at = utc_datetime (now + si_ttl issuer), cg_request_id = Some (wr_request_id r), cg_capability = Some (wr_capability r),
        cg_issued_at = Some (utc_datetime now)\<rparr>) (wr_credential_references r)"

text \<open>The difference of two timestamps; Python refuses to mix naive and aware ones, and \<open>compare_digest\<close> refuses text that is not ASCII.\<close>

definition dt_minus :: "datetime \<Rightarrow> datetime \<Rightarrow> gate_error + int" where
  "dt_minus a b =
     (if is_naive a \<noteq> is_naive b then Inl GateTypeError else Inr (if tz a = tz b then wall a - wall b else utc a - utc b))"

definition check_grant ::
  "(string \<Rightarrow> string \<Rightarrow> string) \<Rightarrow> instant \<Rightarrow> scoped_issuer \<Rightarrow> worker_request \<Rightarrow> int \<Rightarrow> credential_grant \<Rightarrow> gate_error + unit" where
  "check_grant hmac now issuer r maximum_ttl g =
     ebind (require (cg_request_id g = Some (wr_request_id r) \<and> cg_capability g = Some (wr_capability r)) (CredentialGateError ''credential_scope_mismatch'')) (\<lambda>_.
     case cg_issued_at g of
       None \<Rightarrow> Inl (CredentialGateError ''credential_ttl_exceeded'')
     | Some issued \<Rightarrow>
         ebind (dt_minus (cg_expires_at g) issued) (\<lambda>ttl.
         ebind (require (ttl \<le> maximum_ttl) (CredentialGateError ''credential_ttl_exceeded'')) (\<lambda>_.
         ebind (require (\<not> is_naive (cg_expires_at g)) GateTypeError) (\<lambda>_.
         ebind (require (\<not> dt_le (cg_expires_at g) (utc_datetime now)) (CredentialGateError ''credential_expired'')) (\<lambda>_.
         ebind (require (list_all ascii_char (cg_handle g)) GateTypeError) (\<lambda>_.
         ebind (require (cg_handle g = sign_credential hmac issuer r (cg_reference g) (isoformat issued) (isoformat (cg_expires_at g)))
           (CredentialGateError ''credential_forged'')) (\<lambda>_.
         require (cg_handle g \<notin> si_consumed issuer) (CredentialGateError ''credential_replay''))))))))"

definition consume_credentials ::
  "(string \<Rightarrow> string \<Rightarrow> string) \<Rightarrow> instant \<Rightarrow> worker_request \<Rightarrow> credential_grant list \<Rightarrow> int \<Rightarrow> (scoped_issuer, gate_error, unit) action" where
  "consume_credentials hmac now r grants maximum_ttl issuer =
     (if map cg_reference grants \<noteq> wr_credential_references r then (Inl (CredentialGateError ''credential_scope_mismatch''), issuer)
      else case emapM (check_grant hmac now issuer r maximum_ttl) grants of
          Inl e \<Rightarrow> (Inl e, issuer)
        | Inr _ \<Rightarrow> (Inr (), issuer\<lparr>si_consumed := si_consumed issuer \<union> set (map cg_handle grants)\<rparr>))"

section \<open>Authority profiles\<close>

datatype authority_mode = MANUAL | COPILOT | AUTOPILOT

datatype authority_action = CALENDAR_RULE_APPLY | ACT_SPEND | ACT_DELETE | ACT_SEND | ACT_BROWSER | ACT_COMPUTER | ACT_DOCUMENT

record authority_decision =
  ad_allowed :: bool
  ad_reason :: string
  ad_may_propose :: bool
  ad_requires_confirmation :: bool

record calendar_rule_authorization =
  cra_rule :: skill_proposal
  cra_proposal :: proposal_record
  cra_lease :: capability_lease
  cra_rollback :: "rollback option"
  cra_reconciliation :: "reconciliation option"

definition LIFEOS_CALENDAR_WORKER :: string where "LIFEOS_CALENDAR_WORKER = ''lifeos-calendar''"

definition profile_denied :: "string \<Rightarrow> authority_decision" where
  "profile_denied reason = \<lparr>ad_allowed = False, ad_reason = reason, ad_may_propose = True, ad_requires_confirmation = False\<rparr>"

definition calendar_denial :: "authority_env \<Rightarrow> instant \<Rightarrow> calendar_rule_authorization \<Rightarrow> string option" where
  "calendar_denial env now a =
     (let rule = cra_rule a; p = cra_proposal a; lease = cra_lease a in
      case find fst
        [(sk_status rule \<noteq> LP_APPROVED, ''approved_learning_rule_required''),
         (tg_kind (sk_trigger rule) \<noteq> ''calendar_rule'' \<or> tg_source (sk_trigger rule) \<noteq> ''lifeos.calendar'', ''lifeos_calendar_rule_required''),
         (proposal_state_of p \<noteq> APPROVED \<or> action_class p \<noteq> ''calendar.apply'', ''calendar_apply_proposal_required''),
         (capability lease \<noteq> ''calendar.apply'' \<or> worker_id lease \<noteq> LIFEOS_CALENDAR_WORKER, ''calendar_capability_lease_required'')] of
        Some (_, why) \<Rightarrow> Some why
      | None \<Rightarrow>
          (case cra_rollback a of
             None \<Rightarrow> Some ''rollback_required''
           | Some rb \<Rightarrow>
               (case cra_reconciliation a of
                  None \<Rightarrow> Some ''reconciliation_required''
                | Some rc \<Rightarrow>
                    let expected = (proposal_id p, payload_hash env p) in
                    map_option snd (find fst
                      [((fact_proposal_id rb, fact_payload_hash rb) \<noteq> expected, ''rollback_binding_mismatch''),
                       ((fact_proposal_id rc, fact_payload_hash rc) \<noteq> expected, ''reconciliation_binding_mismatch''),
                       (dt_le (expires_at rb) (utc_datetime now), ''rollback_expired''),
                       (dt_le (expires_at rc) (utc_datetime now), ''reconciliation_expired'')]))))"

definition authorize_autopilot ::
  "authority_env \<Rightarrow> (string \<Rightarrow> string \<Rightarrow> string) \<Rightarrow> instant \<Rightarrow> instant \<Rightarrow> authority_action \<Rightarrow> calendar_rule_authorization option
   \<Rightarrow> lease_issuer option \<Rightarrow> authority_decision \<times> lease_issuer option" where
  "authorize_autopilot env hmac now verified_at act a issuer =
     (if act \<noteq> CALENDAR_RULE_APPLY then (profile_denied ''autopilot_action_denied'', issuer)
      else case a of
          None \<Rightarrow> (profile_denied ''calendar_rule_authorization_required'', issuer)
        | Some ra \<Rightarrow>
            (case calendar_denial env now ra of
               Some why \<Rightarrow> (profile_denied why, issuer)
             | None \<Rightarrow>
                 (case issuer of
                    None \<Rightarrow> (profile_denied ''capability_lease_verifier_unavailable'', issuer)
                  | Some iss \<Rightarrow>
                      (case verify_lease env hmac verified_at (cra_lease ra) (cra_proposal ra) iss of
                         (Inl e, iss') \<Rightarrow> (profile_denied (lease_error_text e), Some iss')
                       | (Inr _, iss') \<Rightarrow>
                           (\<lparr>ad_allowed = True, ad_reason = ''approved_reversible_calendar_rule'', ad_may_propose = True,
                             ad_requires_confirmation = False\<rparr>, Some iss')))))"

definition authorize_profile ::
  "authority_env \<Rightarrow> (string \<Rightarrow> string \<Rightarrow> string) \<Rightarrow> instant \<Rightarrow> instant \<Rightarrow> authority_mode \<Rightarrow> authority_action \<Rightarrow> calendar_rule_authorization option
   \<Rightarrow> lease_issuer option \<Rightarrow> authority_decision \<times> lease_issuer option" where
  "authorize_profile env hmac now verified_at mode act a issuer =
     (case mode of
        MANUAL \<Rightarrow> (\<lparr>ad_allowed = False, ad_reason = ''manual_confirmation_required'', ad_may_propose = True, ad_requires_confirmation = True\<rparr>, issuer)
      | COPILOT \<Rightarrow> (\<lparr>ad_allowed = False, ad_reason = ''copilot_proposal_only'', ad_may_propose = True, ad_requires_confirmation = False\<rparr>, issuer)
      | AUTOPILOT \<Rightarrow> authorize_autopilot env hmac now verified_at act a issuer)"

section \<open>The sandbox\<close>

datatype effect_status = EFFECT_APPLIED | EFFECT_COMPENSATED | EFFECT_RECONCILED

datatype worker_gate_status = GATE_MATCHED | GATE_MISSING

record sandbox_limits =
  li_filesystem_roots :: "string list"
  li_allowed_sites :: "string list"
  li_max_attempts :: nat
  li_max_timeout_seconds :: int
  li_max_tokens :: int
  li_max_cost_microunits :: int
  li_credential_ttl :: int

record artifact_provenance =
  ap_reference :: string
  ap_request_id :: string
  ap_worker_id :: string
  ap_capability :: worker_capability
  ap_source :: string
  ap_source_id :: string
  ap_correlation_id :: string
  ap_created_at :: datetime
  ap_payload_sha256 :: string
  ap_runtime :: runtime_descriptor

record worker_effect =
  ef_effect_id :: string
  ef_request_id :: string
  ef_artifact_reference :: string
  ef_status :: effect_status
  ef_reversible :: bool
  ef_reconciliation :: "worker_gate_status option"
  ef_updated_at :: datetime

record worker_sandbox =
  bx_artifacts :: "artifact_provenance list"
  bx_effects :: "worker_effect list"
  bx_cancelled :: "string set"
  bx_credentials :: "scoped_issuer option"

record worker_env =
  sx_hmac :: "string \<Rightarrow> string \<Rightarrow> string"
  sx_sha256_hex :: "string \<Rightarrow> string"
  sx_urls :: url_env
  sx_resolve :: "string \<Rightarrow> worker_error + string list"

text \<open>The readings of the clock during one execution, in order.\<close>

record sandbox_clock =
  at_start :: instant
  at_consume :: instant
  at_deadline :: instant
  at_created :: instant
  at_updated :: instant

definition SANDBOX_DESCRIPTOR :: runtime_descriptor where
  "SANDBOX_DESCRIPTOR = \<lparr>rd_name = ''lifeos-sandbox'', rd_version = ''1'', rd_execution_class = Class_SANDBOX\<rparr>"

definition cancel_request :: "string \<Rightarrow> worker_sandbox \<Rightarrow> worker_sandbox" where
  "cancel_request i bx = bx\<lparr>bx_cancelled := insert i (bx_cancelled bx)\<rparr>"

definition noop_execute :: "worker_request \<Rightarrow> credential_grant list \<Rightarrow> ('r, worker_error, attempt_result) action" where
  "noop_execute r grants = areturn (attempt_failed ''noop_worker'')"

definition site_denial :: "url_env \<Rightarrow> string list \<Rightarrow> string \<Rightarrow> worker_error + string option" where
  "site_denial urls sites resource =
     (case urlsplit urls resource of
        None \<Rightarrow> Inl (WorkerValueError resource)
      | Some (scheme, netloc) \<Rightarrow>
          (case url_port netloc of
             None \<Rightarrow> Inr (Some ''site_not_allowed'')
           | Some port \<Rightarrow> Inr (map_option snd (find fst
               [(scheme \<noteq> ''https'', ''https_required''),
                (has_userinfo netloc, ''site_not_allowed''),
                (url_hostname urls netloc \<notin> Some ` set sites, ''site_not_allowed''),
                (port \<notin> {None, Some 443}, ''site_not_allowed'')]))))"

text \<open>The loops return at the first resource that is denied.\<close>

fun first_denial :: "('a \<Rightarrow> worker_error + string option) \<Rightarrow> 'a list \<Rightarrow> worker_error + string option" where
  "first_denial f [] = Inr None"
| "first_denial f (x # xs) = ebind (f x) (\<lambda>d. case d of None \<Rightarrow> first_denial f xs | Some why \<Rightarrow> Inr (Some why))"

definition browser_denial :: "url_env \<Rightarrow> sandbox_limits \<Rightarrow> worker_request \<Rightarrow> worker_error + string option" where
  "browser_denial urls limits r =
     (if \<exists>op \<in> set (sc_operations (wr_scope r)). op \<notin> {''navigate'', ''read''} then Inr (Some ''operation_not_allowed'')
      else first_denial (site_denial urls (li_allowed_sites limits)) (sc_resources (wr_scope r)))"

definition document_denial :: "(string \<Rightarrow> worker_error + string list) \<Rightarrow> sandbox_limits \<Rightarrow> worker_request \<Rightarrow> worker_error + string option" where
  "document_denial resolve limits r =
     (if \<exists>op \<in> set (sc_operations (wr_scope r)). op \<notin> {''read'', ''write''} then Inr (Some ''operation_not_allowed'')
      else ebind (emapM resolve (li_filesystem_roots limits)) (\<lambda>roots.
        first_denial (\<lambda>resource. ebind (resolve resource) (\<lambda>parts.
            Inr (if \<exists>root \<in> set roots. prefix root parts then None else Some ''filesystem_not_allowed'')))
          (sc_resources (wr_scope r))))"

definition request_denial :: "worker_env \<Rightarrow> sandbox_limits \<Rightarrow> worker_request \<Rightarrow> worker_error + string option" where
  "request_denial env limits r =
     (if wr_timeout_seconds r > li_max_timeout_seconds limits then Inr (Some ''timeout_exceeded'')
      else if bg_max_attempts (wr_budget r) > li_max_attempts limits \<or> bg_max_tokens (wr_budget r) > li_max_tokens limits
        \<or> bg_max_cost_microunits (wr_budget r) > li_max_cost_microunits limits then Inr (Some ''budget_exceeded'')
      else case wr_capability r of
          BROWSER \<Rightarrow> browser_denial (sx_urls env) limits r
        | DOCUMENT \<Rightarrow> document_denial (sx_resolve env) limits r
        | _ \<Rightarrow> Inr (Some ''capability_disabled''))"

definition credential_denial ::
  "worker_env \<Rightarrow> sandbox_limits \<Rightarrow> instant \<Rightarrow> worker_request \<Rightarrow> credential_grant list \<Rightarrow> (worker_sandbox, worker_error, string option) action" where
  "credential_denial env limits now r grants bx =
     (if wr_credential_references r = [] \<and> grants = [] then (Inr None, bx)
      else case bx_credentials bx of
          None \<Rightarrow> (Inr (Some ''credential_verifier_unavailable''), bx)
        | Some issuer \<Rightarrow>
            (case consume_credentials (sx_hmac env) now r grants (li_credential_ttl limits) issuer of
               (Inl (CredentialGateError why), issuer') \<Rightarrow> (Inr (Some why), bx\<lparr>bx_credentials := Some issuer'\<rparr>)
             | (Inl GateTypeError, issuer') \<Rightarrow> (Inl (WorkerValueError ''type''), bx\<lparr>bx_credentials := Some issuer'\<rparr>)
             | (Inr _, issuer') \<Rightarrow> (Inr None, bx\<lparr>bx_credentials := Some issuer'\<rparr>)))"

definition timestamp :: "instant \<Rightarrow> rat" where
  "timestamp t = double (of_int t / 1000000)"

definition past_deadline :: "sandbox_clock \<Rightarrow> worker_request \<Rightarrow> bool" where
  "past_deadline clock r \<longleftrightarrow> double (timestamp (at_start clock) + of_int (wr_timeout_seconds r)) \<le> timestamp (at_deadline clock)"

definition new_artifact :: "worker_env \<Rightarrow> sandbox_clock \<Rightarrow> worker_request \<Rightarrow> artifact_provenance" where
  "new_artifact env clock r =
     (let digest = sx_sha256_hex env (worker_payload r) in
      \<lparr>ap_reference = ''sandbox:'' @ digest, ap_request_id = wr_request_id r, ap_worker_id = wr_worker_id r, ap_capability = wr_capability r,
       ap_source = rq_source (wr_provenance r), ap_source_id = rq_source_id (wr_provenance r),
       ap_correlation_id = rq_correlation_id (wr_provenance r), ap_created_at = utc_datetime (at_created clock), ap_payload_sha256 = digest,
       ap_runtime = SANDBOX_DESCRIPTOR\<rparr>)"

definition commit_artifact :: "worker_env \<Rightarrow> sandbox_clock \<Rightarrow> string \<Rightarrow> worker_request \<Rightarrow> (worker_sandbox, worker_error, attempt_result) action" where
  "commit_artifact env clock effect_id r bx =
     (let artifact = new_artifact env clock r;
          effect = \<lparr>ef_effect_id = effect_id, ef_request_id = wr_request_id r, ef_artifact_reference = ap_reference artifact,
            ef_status = EFFECT_APPLIED, ef_reversible = True, ef_reconciliation = None, ef_updated_at = utc_datetime (at_updated clock)\<rparr>
      in (Inr (attempt_succeeded (ap_reference artifact)),
          bx\<lparr>bx_artifacts := bx_artifacts bx @ [artifact], bx_effects := keyed_put ef_effect_id effect (bx_effects bx)\<rparr>))"

definition sandbox_execute ::
  "worker_env \<Rightarrow> sandbox_limits \<Rightarrow> sandbox_clock \<Rightarrow> string \<Rightarrow> worker_request \<Rightarrow> credential_grant list \<Rightarrow> (worker_sandbox, worker_error, attempt_result) action" where
  "sandbox_execute env limits clock effect_id r grants =
     abind (alift (request_denial env limits r)) (\<lambda>denial.
     case denial of
       Some why \<Rightarrow> areturn (attempt_failed why)
     | None \<Rightarrow>
         abind (aget (\<lambda>bx. wr_request_id r \<in> bx_cancelled bx)) (\<lambda>cancelled.
         if cancelled then areturn (attempt_failed ''cancelled'')
         else
           abind (credential_denial env limits (at_consume clock) r grants) (\<lambda>denied.
           case denied of
             Some why \<Rightarrow> areturn (attempt_failed why)
           | None \<Rightarrow>
               if past_deadline clock r then areturn (attempt_failed ''timeout'')
               else abind (aget (\<lambda>bx. wr_request_id r \<in> bx_cancelled bx)) (\<lambda>stopped.
                 if stopped then areturn (attempt_failed ''cancelled'') else commit_artifact env clock effect_id r))))"

definition update_effect :: "string \<Rightarrow> (worker_effect \<Rightarrow> worker_effect) \<Rightarrow> (worker_sandbox, worker_error, worker_effect) action" where
  "update_effect i f bx =
     (case find (\<lambda>e. ef_effect_id e = i) (bx_effects bx) of
        None \<Rightarrow> (Inl (WorkerKeyError i), bx)
      | Some e \<Rightarrow> (Inr (f e), bx\<lparr>bx_effects := keyed_put ef_effect_id (f e) (bx_effects bx)\<rparr>))"

definition compensate_effect :: "instant \<Rightarrow> string \<Rightarrow> (worker_sandbox, worker_error, worker_effect) action" where
  "compensate_effect now i = update_effect i (\<lambda>e. e\<lparr>ef_status := EFFECT_COMPENSATED, ef_updated_at := utc_datetime now\<rparr>)"

definition reconcile_effect :: "instant \<Rightarrow> string \<Rightarrow> (worker_sandbox, worker_error, worker_effect) action" where
  "reconcile_effect now i bx = update_effect i (\<lambda>e. e\<lparr>ef_status := EFFECT_RECONCILED,
     ef_reconciliation := Some (if \<exists>a \<in> set (bx_artifacts bx). ap_reference a = ef_artifact_reference e then GATE_MATCHED else GATE_MISSING),
     ef_updated_at := utc_datetime now\<rparr>) bx"

section \<open>What passes the gates\<close>

lemma keyed_put_member: "x \<in> set (keyed_put key x d)"
  by (induction key x d rule: keyed_put.induct) auto

lemma first_denial_None: "first_denial f xs = Inr None \<longleftrightarrow> (\<forall>x \<in> set xs. f x = Inr None)"
proof (induction xs)
  case (Cons x xs)
  then show ?case by (cases "f x") (auto split: option.splits)
qed simp

text \<open>A resource on an allowed site: nothing between the two slashes and the allowed host, nothing but an end or the default port after it.\<close>

definition on_site :: "url_env \<Rightarrow> string list \<Rightarrow> string \<Rightarrow> bool" where
  "on_site urls sites resource \<longleftrightarrow> (\<exists>scheme host colon port rest. clean_url resource = scheme @ ''://'' @ host @ colon @ port @ rest
     \<and> map ascii_lower scheme = ''https'' \<and> set host \<inter> set '':/?#@['' = {}
     \<and> lower_text urls (before (CHR ''%'') host) @ dropWhile (\<lambda>x. x \<noteq> CHR ''%'') host \<in> set sites
     \<and> colon \<in> {[], '':''} \<and> (port = [] \<or> colon = '':'' \<and> list_all ascii_digit port \<and> port_value port = 443)
     \<and> (rest = [] \<or> hd rest \<in> set ''/?#''))"

lemma site_allowed:
  assumes "site_denial urls sites resource = Inr None" and "CHR ''['' \<notin> set (url_netloc (url_rest (clean_url resource)))"
  shows "on_site urls sites resource"
proof -
  let ?u = "clean_url resource" and ?n = "url_netloc (url_rest (clean_url resource))"
  have sp: "urlsplit urls resource = Some (url_scheme ?u, ?n)"
    using assms(1) by (auto simp: site_denial_def urlsplit_def Let_def split: if_splits)
  from assms(1) obtain port where ok: "url_port ?n = Some port" "url_scheme ?u = ''https''" "\<not> has_userinfo ?n" "url_hostname urls ?n \<in> Some ` set sites"
    "port \<in> {None, Some 443}"
    by (auto simp: site_denial_def sp split: option.splits if_splits)
  have scheme: "has_scheme ?u" using ok(2) by (auto simp: url_scheme_def split: if_splits)
  obtain host p where hi: "host_info ?n = (host, p)" by fastforce
  have host: "host \<noteq> []" "lower_text urls (before (CHR ''%'') host) @ dropWhile (\<lambda>x. x \<noteq> CHR ''%'') host \<in> set sites"
    using ok(4) by (auto simp: url_hostname_def hi Let_def split: if_splits)
  have "?n \<noteq> []" using host(1) hi by (auto simp: host_info_def after_last_def before_def)
  from url_shape [OF scheme refl this ok(3) assms(2) hi] obtain s colon rest where u: "?u = s @ ''://'' @ host @ colon @ p @ rest"
    "map ascii_lower s = url_scheme ?u" "colon \<in> {[], '':''}" "p \<noteq> [] \<longrightarrow> colon = '':''" "rest = [] \<or> hd rest \<in> set ''/?#''" "set host \<inter> set '':/?#@['' = {}"
    by blast
  have "p = [] \<or> list_all ascii_digit p \<and> port_value p = 443"
    using ok(1,5) by (auto simp: url_port_def hi Let_def split: if_splits)
  with u(4) have port: "p = [] \<or> colon = '':'' \<and> list_all ascii_digit p \<and> port_value p = 443" by blast
  have https: "map ascii_lower s = ''https''" using u(2) ok(2) by (rule trans)
  show ?thesis unfolding on_site_def
    by (intro exI [of _ s] exI [of _ host] exI [of _ colon] exI [of _ p] exI [of _ rest] conjI) (rule u(1) https u(6) host(2) u(3) port u(5))+
qed

lemma browser_allowed:
  assumes "browser_denial urls limits r = Inr None"
  shows "set (sc_operations (wr_scope r)) \<subseteq> {''navigate'', ''read''}"
    and "\<forall>resource \<in> set (sc_resources (wr_scope r)). site_denial urls (li_allowed_sites limits) resource = Inr None"
  using assms by (auto simp: browser_denial_def first_denial_None split: if_splits)

lemma document_allowed:
  assumes "document_denial resolve limits r = Inr None"
  shows "set (sc_operations (wr_scope r)) \<subseteq> {''read'', ''write''}"
    and "\<forall>resource \<in> set (sc_resources (wr_scope r)). \<exists>parts root. resolve resource = Inr parts \<and> root \<in> set (li_filesystem_roots limits)
      \<and> (\<exists>base. resolve root = Inr base \<and> prefix base parts)"
proof -
  from assms show "set (sc_operations (wr_scope r)) \<subseteq> {''read'', ''write''}" by (auto simp: document_denial_def split: if_splits)
  from assms have "ebind (emapM resolve (li_filesystem_roots limits)) (\<lambda>roots.
      first_denial (\<lambda>resource. ebind (resolve resource) (\<lambda>parts.
        Inr (if \<exists>root \<in> set roots. prefix root parts then None else Some ''filesystem_not_allowed''))) (sc_resources (wr_scope r))) = Inr None"
    unfolding document_denial_def by (simp split: if_splits)
  then obtain roots where roots: "emapM resolve (li_filesystem_roots limits) = Inr roots"
    and each: "\<forall>x \<in> set (sc_resources (wr_scope r)). ebind (resolve x) (\<lambda>parts.
      Inr (if \<exists>root \<in> set roots. prefix root parts then None else Some ''filesystem_not_allowed'')) = Inr None"
    by (cases "emapM resolve (li_filesystem_roots limits)") (simp_all add: first_denial_None)
  show "\<forall>resource \<in> set (sc_resources (wr_scope r)). \<exists>parts root. resolve resource = Inr parts \<and> root \<in> set (li_filesystem_roots limits)
      \<and> (\<exists>base. resolve root = Inr base \<and> prefix base parts)"
  proof
    fix x assume "x \<in> set (sc_resources (wr_scope r))"
    with each have "ebind (resolve x) (\<lambda>parts.
      Inr (if \<exists>root \<in> set roots. prefix root parts then None else Some ''filesystem_not_allowed'')) = Inr None" by (rule bspec)
    then obtain parts base where "resolve x = Inr parts" "base \<in> set roots" "prefix base parts" by (cases "resolve x") (auto split: if_splits)
    with emapM_member [OF roots] show "\<exists>parts root. resolve x = Inr parts \<and> root \<in> set (li_filesystem_roots limits)
      \<and> (\<exists>base. resolve root = Inr base \<and> prefix base parts)" by blast
  qed
qed

text \<open>Which requests the limits allow.\<close>

definition confined :: "worker_env \<Rightarrow> sandbox_limits \<Rightarrow> worker_request \<Rightarrow> bool" where
  "confined env limits r \<longleftrightarrow> wr_timeout_seconds r \<le> li_max_timeout_seconds limits \<and> bg_max_attempts (wr_budget r) \<le> li_max_attempts limits
     \<and> bg_max_tokens (wr_budget r) \<le> li_max_tokens limits \<and> bg_max_cost_microunits (wr_budget r) \<le> li_max_cost_microunits limits
     \<and> (wr_capability r = BROWSER \<and> set (sc_operations (wr_scope r)) \<subseteq> {''navigate'', ''read''}
          \<and> (\<forall>resource \<in> set (sc_resources (wr_scope r)). CHR ''['' \<in> set (url_netloc (url_rest (clean_url resource)))
               \<or> on_site (sx_urls env) (li_allowed_sites limits) resource)
        \<or> wr_capability r = DOCUMENT \<and> set (sc_operations (wr_scope r)) \<subseteq> {''read'', ''write''}
          \<and> (\<forall>resource \<in> set (sc_resources (wr_scope r)). \<exists>parts root. sx_resolve env resource = Inr parts
               \<and> root \<in> set (li_filesystem_roots limits) \<and> (\<exists>base. sx_resolve env root = Inr base \<and> prefix base parts)))"

lemma request_allowed:
  assumes "request_denial env limits r = Inr None"
  shows "confined env limits r"
proof -
  have limits: "wr_timeout_seconds r \<le> li_max_timeout_seconds limits" "bg_max_attempts (wr_budget r) \<le> li_max_attempts limits"
    "bg_max_tokens (wr_budget r) \<le> li_max_tokens limits" "bg_max_cost_microunits (wr_budget r) \<le> li_max_cost_microunits limits"
    and c: "(case wr_capability r of BROWSER \<Rightarrow> browser_denial (sx_urls env) limits r | DOCUMENT \<Rightarrow> document_denial (sx_resolve env) limits r
       | _ \<Rightarrow> Inr (Some ''capability_disabled'')) = Inr None"
    using assms by (simp_all add: request_denial_def split: if_splits)
  then consider "wr_capability r = BROWSER" "browser_denial (sx_urls env) limits r = Inr None"
    | "wr_capability r = DOCUMENT" "document_denial (sx_resolve env) limits r = Inr None" by (cases "wr_capability r") auto
  then show ?thesis
  proof cases
    case 1
    from browser_allowed [OF 1(2)] site_allowed limits 1(1) show ?thesis unfolding confined_def by blast
  next
    case 2
    from document_allowed [OF 2(2)] limits 2(1) show ?thesis unfolding confined_def by blast
  qed
qed

lemma credentials_spent:
  assumes "credential_denial env limits now r grants bx = (Inr None, bx')"
  shows "grants = [] \<and> wr_credential_references r = [] \<and> bx' = bx
     \<or> (\<exists>issuer. bx_credentials bx = Some issuer \<and> map cg_reference grants = wr_credential_references r
         \<and> set (map cg_handle grants) \<inter> si_consumed issuer = {}
         \<and> bx' = bx\<lparr>bx_credentials := Some (issuer\<lparr>si_consumed := si_consumed issuer \<union> set (map cg_handle grants)\<rparr>)\<rparr>)"
proof -
  have fresh: "cg_handle g \<notin> si_consumed issuer" if "check_grant (sx_hmac env) now issuer r ttl g = Inr u" for issuer g u ttl
    using that by (auto simp: check_grant_def split: option.splits)
  have all: "set (map cg_handle grants) \<inter> si_consumed issuer = {}" if "emapM (check_grant (sx_hmac env) now issuer r ttl) grants = Inr us" for issuer us ttl
    using emapM_Inr_map [OF that] fresh by (fastforce simp: list_all2_conv_all_nth in_set_conv_nth)
  show ?thesis using assms all
    by (auto simp: credential_denial_def consume_credentials_def split: if_splits option.splits prod.splits sum.splits gate_error.splits)
qed

section \<open>Properties\<close>


definition ex_limits :: sandbox_limits where
  "ex_limits = \<lparr>li_filesystem_roots = [], li_allowed_sites = [''a''], li_max_attempts = 2, li_max_timeout_seconds = 60, li_max_tokens = 5,
     li_max_cost_microunits = 0, li_credential_ttl = 60000000\<rparr>"

definition ex_sandbox_env :: worker_env where
  "ex_sandbox_env = \<lparr>sx_hmac = ex_hmac, sx_sha256_hex = (\<lambda>s. s),
     sx_urls = \<lparr>netloc_ok = (\<lambda>_. False), bracketed_ok = (\<lambda>_. False), lower_text = map ascii_lower\<rparr>, sx_resolve = (\<lambda>s. Inr [s])\<rparr>"

definition ex_sandbox_clock :: sandbox_clock where
  "ex_sandbox_clock = \<lparr>at_start = 0, at_consume = 1, at_deadline = 59999999, at_created = 3, at_updated = 4\<rparr>"

definition ex_sandbox :: worker_sandbox where
  "ex_sandbox = \<lparr>bx_artifacts = [], bx_effects = [], bx_cancelled = {}, bx_credentials = None\<rparr>"

lemma ex_request_allowed: "request_denial ex_sandbox_env ex_limits ex_worker_request = Inr None"
  by code_simp

lemma ex_in_time: "\<not> past_deadline ex_sandbox_clock ex_worker_request"
  by code_simp


text \<open>The profiles allow an action without a confirmation only to an approved, leased and reversible calendar rule under autopilot.\<close>

lemma profile_allows:
  assumes "authorize_profile env hmac now t mode act a issuer = (d, issuer')" and "ad_allowed d"
  shows "mode = AUTOPILOT \<and> act = CALENDAR_RULE_APPLY \<and> (\<exists>ra iss v iss'. a = Some ra \<and> issuer = Some iss \<and> issuer' = Some iss'
     \<and> sk_status (cra_rule ra) = LP_APPROVED \<and> proposal_state_of (cra_proposal ra) = APPROVED \<and> cra_rollback ra \<noteq> None \<and> cra_reconciliation ra \<noteq> None
     \<and> verify_lease env hmac t (cra_lease ra) (cra_proposal ra) iss = (Inr v, iss'))"
proof -
  from assms have m: "mode = AUTOPILOT" "authorize_autopilot env hmac now t act a issuer = (d, issuer')"
    by (auto simp: authorize_profile_def split: authority_mode.splits)
  with assms(2) obtain ra iss v iss' where s: "act = CALENDAR_RULE_APPLY" "a = Some ra" "issuer = Some iss" "issuer' = Some iss'"
    "calendar_denial env now ra = None" "verify_lease env hmac t (cra_lease ra) (cra_proposal ra) iss = (Inr v, iss')"
    by (auto simp: authorize_autopilot_def profile_denied_def split: if_splits option.splits prod.splits sum.splits)
  from s(5) have "sk_status (cra_rule ra) = LP_APPROVED" "proposal_state_of (cra_proposal ra) = APPROVED" "cra_rollback ra \<noteq> None" "cra_reconciliation ra \<noteq> None"
    by (auto simp: calendar_denial_def Let_def split: if_splits option.splits)
  with m(1) s show ?thesis by blast
qed

end
