(* ===== verification/Spec2Isabelle.thy ===== *)
theory Spec2Isabelle
  imports Planner_Properties Authority_Properties Leases Ledger_Properties Repository_Properties
    Voice_Lockout Rollout Relay_Properties Calendar_Properties Interview_Properties Interview_Steps
    Goals Week_Properties Energy_Learning Learning_Properties Workers
begin

text \<open>
  A verification library for the personal secretary service: the Python package
  \<open>src/mac/secretary_service/src/secretary_service\<close>.  File names below are relative to that directory.

  \<^bold>\<open>The program.\<close>  The service plans the days and weeks of one owner and acts for them only under approvals.  What
  the owner says is collected by an interview and kept as governed memories; released knowledge becomes activities; a
  deterministic planner places them; the plan is written to a Google calendar after a device has signed an approval.  Around
  this path are the proposal lifecycle with one-shot authorizations and leases, the encrypted store with its audit ledger,
  deletion and backups, a conversation relay, voice sessions, a staged rollout, the dispatch of workers, and the learning of
  procedures and energy patterns from observations.

  \<^bold>\<open>How code is modelled.\<close>  A Python class is a \<open>record\<close> or a \<open>datatype\<close> with the fields of the source,
  its pydantic constraints and validators are a bool-valued \<open>validate\<close> or a function that raises.  A fallible function
  returns \<open>error + 'a\<close> (\<open>ebind\<close>, \<open>require\<close> and \<open>emapM\<close> of \<open>Prelude\<close>); a stateful one is an action of
  \<open>Transactions\<close> that returns a result together with the state it leaves, also when it raises.  A database connection
  is its durable and its visible tables (\<open>transactions.py\<close>): an outer transaction commits or restores, an inner one
  joins.  Tables are lists of rows, so that key order and uniqueness are part of the model.  Each reading of the clock and
  each fresh identity is an argument.  The search loops of the planner and the regular expressions end by a measure, no
  operation runs on fuel, and every operation is a total function of its state and arguments.  Python integers are \<open>int\<close>
  or \<open>nat\<close>; a float (\<open>Floats\<close>) is the rational it denotes, every operation rounded to 53 bits, half to even; text
  is ASCII.

  \<^bold>\<open>Library.\<close>  \<open>Prelude\<close> (results, Python built-ins, stable sorting), \<open>Datetime\<close> (aware instants, \<open>isoformat\<close>),
  \<open>Encodings\<close> (UUID text, hexadecimal, base64), \<open>Json\<close> (sorted compact dumps), \<open>Regex\<close> (the part of \<open>re\<close> that is
  used), \<open>Url_Split\<close> (\<open>urlsplit\<close>), \<open>Floats\<close>, \<open>Transactions\<close>, and \<open>Action_Logic\<close>: Hoare triples with one
  postcondition for a value and one for an exception, in which the invariants below are proved.

  \<^bold>\<open>Planner\<close> (\<open>planner_models.py\<close>, \<open>planner_results.py\<close>, \<open>planner_scoring.py\<close>, \<open>planner_placement.py\<close>,
  \<open>planner_explanation.py\<close>, \<open>planner_projection.py\<close>, \<open>planner.py\<close>; theories \<open>Planner_Models\<close> to
  \<open>Planner_Properties\<close>).  Fixed reservations, the minute search, the greedy loop, explanations, projection and difference.
  Shown: plans meet every hard constraint and tile the window; every activity is accounted for; the search is optimal and
  complete on the minute grid, also for the finished schedule; a validated current request always gives a proposal; the
  difference applied to the baseline gives the proposal.  The gapless plan is the locale \<open>timeline\<close>, interpreted as
  \<open>day_plan\<close>.

  \<^bold>\<open>Authority\<close> (\<open>enrollment.py\<close>, \<open>device_persistence.py\<close>, \<open>authority_consumption.py\<close>, \<open>authority.py\<close>,
  \<open>leases.py\<close>; theories \<open>Enrollment\<close>, \<open>Consumption\<close>, \<open>Authority\<close>, \<open>Authority_Lifecycle\<close>,
  \<open>Authority_Properties\<close>, \<open>Leases\<close>).  The protocol \<open>ConsumptionStore\<close> is the locale \<open>consumption_store\<close>, with the
  interpretations \<open>memory\<close>, \<open>encrypted\<close> and (in \<open>Week_Properties\<close>) \<open>week\<close>.  Shown: consequential actions need a
  signature of an active device; approvals are bounded by resets on every sequence of calls; revocation is permanent; both
  stores behave alike.

  \<^bold>\<open>Records and ledger\<close> (\<open>models.py\<close>, \<open>audit.py\<close>, \<open>ledger.py\<close>, \<open>domain_repository.py\<close>; theories
  \<open>Domain_Models\<close>, \<open>Ledger\<close>, \<open>Ledger_Chain\<close>, \<open>Ledger_Properties\<close>, \<open>Domain_Repository\<close>,
  \<open>Repository_Properties\<close>).  Shown: the chain stays verifiable under appending and pruning and is determined by its end;
  version histories are complete; failures are atomic; deletions are final.

  \<^bold>\<open>Memory\<close> (\<open>life_knowledge.py\<close>, \<open>memory/legacy.py\<close>, \<open>memory_repository.py\<close>, \<open>backup_catalog.py\<close>,
  \<open>backups.py\<close>, \<open>lifecycle.py\<close>, \<open>life_model.py\<close>; theories \<open>Life_Knowledge\<close>, \<open>Memory_Repository\<close>,
  \<open>Backups\<close>, \<open>Store_Contract\<close>, \<open>Erasure\<close>, \<open>Life_Model\<close>).  The locale \<open>store_contract\<close> says that an invariant
  kept by every elementary change is kept by every operation, in the durable and in the visible state; its interpretations
  are \<open>erasure\<close> (a deleted memory cannot come back, not even from a backup) and \<open>gate\<close> (below).

  \<^bold>\<open>Interview\<close> (\<open>interview_catalog.py\<close>, \<open>life_interview.py\<close>; theories \<open>Interview_Catalog\<close>,
  \<open>Interview_Extraction\<close>, \<open>Life_Interview\<close>, \<open>Interview_Gate\<close>, \<open>Interview_Properties\<close>, \<open>Interview_Steps\<close>).
  Shown: drafts are well formed and confirmable; nothing extracted reaches planning before it is confirmed; at most 108
  questions (one for each topic and one for a pending confirmation) can be skipped in a row.

  \<^bold>\<open>Week planning and calendar\<close> (\<open>week_planning.py\<close>, the recovery of \<open>durable_calendar.py\<close>,
  \<open>google_calendar_contract.py\<close>, \<open>google_calendar_operations.py\<close>, \<open>google_calendar.py\<close>,
  \<open>google_calendar_sandbox.py\<close>; theories \<open>Calendar_Contract\<close> to \<open>Calendar_Properties\<close>, \<open>Week_Mapping\<close>,
  \<open>Week_Service\<close>, \<open>Week_Properties\<close>).  The transport protocol is the locale \<open>calendar_provider\<close>; the sandbox of the
  source is its interpretation \<open>sandbox\<close>.  Shown: incremental and full synchronization agree; applying and rolling back
  touch exactly the events of the plan; knowledge is mapped exactly to activities and gaps; the service writes the calendar
  only under a fresh approval of the stored payload, and no approval works twice, whatever fails in between.

  \<^bold>\<open>Relay\<close> (\<open>conversation_api.py\<close>, \<open>relay_store.py\<close>; theories \<open>Conversation\<close>, \<open>Relay_Store\<close> to
  \<open>Relay_Properties\<close>).  Shown: batches are atomic and idempotent, histories complete on every reachable store, deletion
  leaves no content.

  \<^bold>\<open>Voice\<close> (\<open>voice/models.py\<close>, \<open>voice/privacy.py\<close>, \<open>voice/tokens.py\<close>, \<open>voice/journal.py\<close>,
  \<open>voice/provider.py\<close>, \<open>voice/state.py\<close>, \<open>voice/session.py\<close>; theories \<open>Voice_Models\<close> to \<open>Voice_Lockout\<close>).
  Every public operation is a step of a run.  Shown: one live session per device, monotone event identities, the gate in
  front of the provider, exact replay on resume, and that a token expiring on an open connection locks its device out.

  \<^bold>\<open>Rollout and dispatch\<close> (\<open>rollout.py\<close> in \<open>Rollout\<close>; \<open>commander/\<close> in \<open>Commander\<close>; \<open>workers/\<close> in
  \<open>Workers\<close>).  Shown: a stage is applied, and a protected capability dispatched, only under an exact unused lease;
  attempts stay within the budget; the sandbox stays within its limits, sites and roots.

  \<^bold>\<open>Goals, energy and learning\<close> (\<open>goals.py\<close> in \<open>Goals\<close>; \<open>energy/\<close> in \<open>Energy\<close> and \<open>Energy_Learning\<close>;
  \<open>learning/\<close> in \<open>Learner\<close>, \<open>Learning\<close>, \<open>Learning_Properties\<close>).  Shown: every stored task is explained up to a
  dream; answers are recorded only with consent and in their window; proposed procedures have the required support in
  rounded arithmetic; only approved lessons are routed; deleted patterns are not learned again.

  \<^bold>\<open>Parameters.\<close>  Code outside the repository is an argument of the definitions: HMAC-SHA256, SHA-256, Ed25519, AES-GCM,
  \<open>uuid5\<close>, the time zone database, the resolution of paths, the Unicode checks of a host, the runtime, credential and
  realtime protocols, and the JSON text pydantic writes.  What is relied on is a named hypothesis: \<open>codec_ok\<close>,
  \<open>record_codec_ok\<close> and \<open>event_codec_ok\<close> say that a written record is read back (\<open>Text_Codec\<close>, \<open>Record_Codec\<close> and
  \<open>Relay_Codec\<close> give concrete codecs that satisfy them); tamper evidence assumes an injective authentication code.

  \<^bold>\<open>Not modelled.\<close>  Opening, keying and migrating the database file; the PostgreSQL backend and its outbox; the HTTP
  routes, TLS and bearer tokens of the relay; the live calendar transport; language-model clients (\<open>hermes/\<close>,
  \<open>slice/\<close>, \<open>conversation_turn.py\<close>), the OpenClaw and channel adapters, the external memory providers, YAML import and
  phrasing of commands, the voice bridges, construction of services from configuration, file export and recovery, scripts,
  clients and tests.  They are I/O around the modelled parts, or behaviour of servers and frameworks that the sources only
  call.  Processes and threads are not interleaved: operations on one store run one at a time, as its locks and transactions
  make them.
\<close>

end
